(* ===== verification/Mentat_Prelude.thy ===== *)
theory Mentat_Prelude
  imports Complex_Main "HOL-Library.Word" "HOL-Library.Sublist" "HOL-Library.Code_Target_Nat"
begin

text \<open>
  Shared vocabulary of the development: the result type of fallible Rust functions, machine
  integers with checked and saturating arithmetic, identifiers and instants, and generic
  lemmas on lists that several components use.
\<close>

named_theorems mentat_defs "definitions unfolded by the component proofs"

section \<open>Types\<close>

text \<open>Rust \<open>String\<close>/\<open>&str\<close>/\<open>&[u8]\<close>: the list of its UTF-8 bytes, one HOL \<open>char\<close> per byte.\<close>

type_synonym u8 = "8 word"
type_synonym u16 = "16 word"
type_synonym u32 = "32 word"
type_synonym u64 = "64 word"

text \<open>\<open>uuid::Uuid\<close> is a 128-bit number; \<open>Uuid::nil()\<close> is 0 and its \<open>Ord\<close> is the numeric one.\<close>

type_synonym uuid = "128 word"

text \<open>\<open>chrono::DateTime<Utc>\<close>: an instant, only stored and compared here.\<close>

type_synonym datetime = nat

section \<open>Results\<close>

text \<open>
  \<open>Result<T, E>\<close> is the sum \<open>'e + 'a\<close>, with \<open>Inl\<close> for the error. \<open>then_do\<close> is Rust's \<open>?\<close>
  operator: an error returns early, a value is passed on.
\<close>

fun then_do :: "'e + 'a \<Rightarrow> ('a \<Rightarrow> 'e + 'b) \<Rightarrow> 'e + 'b" where
  "then_do (Inl e) f = Inl e"
| "then_do (Inr a) f = f a"

definition guard_err :: "bool \<Rightarrow> 'e \<Rightarrow> 'e + unit" where
  "guard_err ok e = (if ok then Inr () else Inl e)"

fun ok_or :: "'a option \<Rightarrow> 'e \<Rightarrow> 'e + 'a" where
  "ok_or None e = Inl e"
| "ok_or (Some a) e = Inr a"

fun is_ok :: "'e + 'a \<Rightarrow> bool" where
  "is_ok (Inl e) = False"
| "is_ok (Inr a) = True"

lemma then_do_Inr [simp]:
  "then_do r f = Inr b \<longleftrightarrow> (\<exists>a. r = Inr a \<and> f a = Inr b)"
  by (cases r) auto

lemma then_do_Inl:
  "then_do r f = Inl e \<longleftrightarrow> r = Inl e \<or> (\<exists>a. r = Inr a \<and> f a = Inl e)"
  by (cases r) auto

lemma guard_err_Inr [simp]: "guard_err ok e = Inr u \<longleftrightarrow> ok"
  by (simp add: guard_err_def)

lemma guard_err_Inl [simp]: "guard_err ok e = Inl e' \<longleftrightarrow> \<not> ok \<and> e' = e"
  by (auto simp: guard_err_def)

lemma guard_err_True [simp]: "guard_err True e = Inr ()"
  by (simp add: guard_err_def)

lemma guard_err_False [simp]: "guard_err False e = Inl e"
  by (simp add: guard_err_def)

lemma ok_or_Inr [simp]: "ok_or x e = Inr a \<longleftrightarrow> x = Some a"
  by (cases x) auto

lemma is_ok_iff: "is_ok r \<longleftrightarrow> (\<exists>a. r = Inr a)"
  by (cases r) auto

text \<open>
  \<open>iter().map(f).collect::<Result<Vec<_>, _>>()\<close>: the first error wins.
\<close>

fun collect_results :: "('a \<Rightarrow> 'e + 'b) \<Rightarrow> 'a list \<Rightarrow> 'e + 'b list" where
  "collect_results f [] = Inr []"
| "collect_results f (x # xs) =
     then_do (f x) (\<lambda>y. then_do (collect_results f xs) (\<lambda>ys. Inr (y # ys)))"

lemma collect_results_length:
  "collect_results f xs = Inr ys \<Longrightarrow> length ys = length xs"
  by (induction xs arbitrary: ys) auto

lemma collect_results_set:
  "collect_results f xs = Inr ys \<Longrightarrow> y \<in> set ys \<Longrightarrow> \<exists>x \<in> set xs. f x = Inr y"
  by (induction xs arbitrary: ys) auto

section \<open>Arithmetic\<close>

text \<open>Rust's \<open>checked_add\<close> and \<open>saturating_sub\<close>.\<close>

definition checked_add :: "'l::len word \<Rightarrow> 'l word \<Rightarrow> 'l word option" where
  "checked_add a b = (if unat a + unat b < 2 ^ LENGTH('l) then Some (a + b) else None)"

lemma checked_add_Some:
  fixes a b c :: "'l::len word"
  shows "checked_add a b = Some c \<Longrightarrow> unat c = unat a + unat b"
  by (auto simp: checked_add_def unat_word_ariths split: if_splits)

text \<open>\<open>u16::try_from(n).unwrap_or(u16::MAX)\<close> and its wider siblings.\<close>

definition try_from_or_max :: "nat \<Rightarrow> 'l::len word" where
  "try_from_or_max n = (if n < 2 ^ LENGTH('l) then of_nat n else - 1)"

lemma unat_try_from_or_max_small:
  "n < 2 ^ LENGTH('l) \<Longrightarrow> unat (try_from_or_max n :: 'l::len word) = n"
  by (simp add: try_from_or_max_def unat_of_nat)

lemma unat_minus_one_max: "unat (- 1 :: 'l::len word) = 2 ^ LENGTH('l) - 1"
  by (simp add: unsigned_minus_1_eq_mask mask_eq_exp_minus_1)

lemma unat_try_from_or_max:
  "unat (try_from_or_max n :: 'l::len word) = min n (2 ^ LENGTH('l) - 1)"
proof (cases "n < 2 ^ LENGTH('l)")
  case True
  then show ?thesis by (simp add: unat_try_from_or_max_small)
next
  case False
  then show ?thesis by (simp add: try_from_or_max_def unat_minus_one_max)
qed

text \<open>\<open>x.clamp(lo, hi)\<close> with \<open>lo \<le> hi\<close>.\<close>

definition clamp :: "'a::linorder \<Rightarrow> 'a \<Rightarrow> 'a \<Rightarrow> 'a" where
  "clamp x lo hi = (if x < lo then lo else if hi < x then hi else x)"

lemma clamp_bounds: "lo \<le> hi \<Longrightarrow> lo \<le> clamp x lo hi \<and> clamp x lo hi \<le> hi"
  by (auto simp: clamp_def)

section \<open>Lists\<close>

text \<open>\<open>iter().find(p)\<close> is \<open>List.find\<close>.\<close>

lemma find_Some_set: "List.find P xs = Some x \<Longrightarrow> x \<in> set xs \<and> P x"
  by (auto simp: find_Some_iff)

lemma find_None_set: "List.find P xs = None \<longleftrightarrow> (\<forall>x \<in> set xs. \<not> P x)"
  by (auto simp: find_None_iff)

lemma takeWhile_dropWhile_length:
  "length (dropWhile P xs) \<le> length xs"
  by (induction xs) auto

lemma dropWhile_hd: "dropWhile P xs = y # ys \<Longrightarrow> \<not> P y"
  by (induction xs) (auto split: if_splits)

lemma length_filter_partition:
  "length (filter P xs) + length (filter (\<lambda>x. \<not> P x) xs) = length xs"
  by (induction xs) auto

lemma map_of_filter_None:
  "k \<notin> fst ` set xs \<Longrightarrow> map_of xs k = None"
  by (induction xs) auto

text \<open>\<open>sort(); dedup()\<close>: the elements once each, in order, so the list depends on the set only.\<close>

lemma distinct_remdups_adj_sorted:
  "sorted xs \<Longrightarrow> distinct (remdups_adj (xs :: 'a::linorder list))"
proof (induction xs rule: remdups_adj.induct)
  case (3 x y xs)
  have "z \<in> set (remdups_adj (y # xs)) \<Longrightarrow> y \<le> z" for z
    using 3(3) by (simp del: remdups_adj.simps) auto
  then show ?case using 3 by fastforce
qed simp_all

lemma distinct_remdups_adj_sort: "distinct (remdups_adj (sort (xs :: 'a::linorder list)))"
  by (simp add: distinct_remdups_adj_sorted)

lemma remdups_adj_sort_eq_iff:
  "remdups_adj (sort xs) = remdups_adj (sort ys) \<longleftrightarrow> set xs = set (ys :: 'a::linorder list)"
proof
  show "set xs = set ys" if "remdups_adj (sort xs) = remdups_adj (sort ys)"
    using arg_cong [OF that, of set] by simp
  show "remdups_adj (sort xs) = remdups_adj (sort ys)" if "set xs = set ys"
    using that by (intro sorted_distinct_set_unique) (simp_all add: distinct_remdups_adj_sort)
qed

end
