(* ===== verification/Rust_Strings.thy ===== *)
theory Rust_Strings
  imports Mentat_Prelude Unicode_Case
begin

text \<open>
  The part of Rust's string library the program uses, on UTF-8 byte lists: substring search,
  \<open>lines\<close>, \<open>join\<close>, \<open>trim\<close>, \<open>to_lowercase\<close>, \<open>replace\<close> of one byte, decimal text. A needle of the source is
  valid UTF-8, so that a byte position found here is a character boundary.
\<close>

section \<open>Character classes\<close>

definition byte_of :: "char \<Rightarrow> nat" where
  "byte_of c = of_char c"

definition is_ascii_digit :: "char \<Rightarrow> bool" where
  "is_ascii_digit c \<longleftrightarrow> 48 \<le> byte_of c \<and> byte_of c \<le> 57"

definition is_ascii_lowercase :: "char \<Rightarrow> bool" where
  "is_ascii_lowercase c \<longleftrightarrow> 97 \<le> byte_of c \<and> byte_of c \<le> 122"

definition is_ascii_uppercase :: "char \<Rightarrow> bool" where
  "is_ascii_uppercase c \<longleftrightarrow> 65 \<le> byte_of c \<and> byte_of c \<le> 90"

definition is_ascii_alphanumeric :: "char \<Rightarrow> bool" where
  "is_ascii_alphanumeric c \<longleftrightarrow> is_ascii_digit c \<or> is_ascii_lowercase c \<or> is_ascii_uppercase c"

definition ascii_lower :: "char \<Rightarrow> char" where
  "ascii_lower c = (if is_ascii_uppercase c then char_of (byte_of c + 32) else c)"

lemmas ascii_class_defs =
  byte_of_def is_ascii_digit_def is_ascii_lowercase_def is_ascii_uppercase_def
  is_ascii_alphanumeric_def ascii_lower_def

section \<open>Searching\<close>

text \<open>\<open>hay.find(needle)\<close>: the byte position of the first occurrence.\<close>

fun find_sub :: "string \<Rightarrow> string \<Rightarrow> nat option" where
  "find_sub n [] = (if n = [] then Some 0 else None)"
| "find_sub n (c # cs) =
     (if prefix n (c # cs) then Some 0 else map_option Suc (find_sub n cs))"

definition contains :: "string \<Rightarrow> string \<Rightarrow> bool" where
  "contains hay n \<longleftrightarrow> find_sub n hay \<noteq> None"

lemma find_sub_Some:
  "find_sub n hay = Some i \<Longrightarrow> \<exists>post. hay = take i hay @ n @ post \<and> i + length n \<le> length hay"
proof (induction n hay arbitrary: i rule: find_sub.induct)
  case (1 n)
  then show ?case by (auto split: if_splits)
next
  case (2 n c cs)
  show ?case
  proof (cases "prefix n (c # cs)")
    case True
    with 2 show ?thesis by (auto simp: prefix_def) (metis length_append length_Cons le_add1)
  next
    case False
    with 2 obtain j where "find_sub n cs = Some j" and "i = Suc j" by auto
    with 2(1) False show ?thesis by fastforce
  qed
qed

lemma find_sub_None: "find_sub n hay = None \<longleftrightarrow> \<not> sublist n hay"
proof (induction n hay rule: find_sub.induct)
  case (1 n)
  then show ?case by auto
next
  case (2 n c cs)
  then show ?case by (auto simp: sublist_Cons_right)
qed

lemma contains_iff_sublist: "contains hay n \<longleftrightarrow> sublist n hay"
  by (simp add: contains_def find_sub_None)

text \<open>\<open>find\<close> with a character predicate.\<close>

fun find_char :: "(char \<Rightarrow> bool) \<Rightarrow> string \<Rightarrow> nat option" where
  "find_char p [] = None"
| "find_char p (c # cs) = (if p c then Some 0 else map_option Suc (find_char p cs))"

lemma find_char_Some:
  "find_char p s = Some i \<Longrightarrow> i < length s \<and> p (s ! i) \<and> (\<forall>j < i. \<not> p (s ! j))"
  by (induction s arbitrary: i) (auto split: if_splits simp: nth_Cons split: nat.splits)

lemma find_char_None: "find_char p s = None \<longleftrightarrow> (\<forall>c \<in> set s. \<not> p c)"
  by (induction s) auto

lemma find_char_takeWhile:
  "find_char p s = (if (\<exists>c \<in> set s. p c) then Some (length (takeWhile (\<lambda>c. \<not> p c) s)) else None)"
  by (induction s) auto

section \<open>Lines\<close>

text \<open>
  \<open>str::lines\<close>: split after each line feed, drop the line feed and one carriage return before it;
  the last piece counts when it is not empty and keeps a final carriage return.
\<close>

definition strip_cr :: "string \<Rightarrow> string" where
  "strip_cr s = (if s \<noteq> [] \<and> last s = CHR 0x0D then butlast s else s)"

function lines :: "string \<Rightarrow> string list" where
  "lines s =
     (if s = [] then []
      else case dropWhile (\<lambda>c. c \<noteq> CHR 0x0A) s of
          [] \<Rightarrow> [s]
        | nl # rest \<Rightarrow> strip_cr (takeWhile (\<lambda>c. c \<noteq> CHR 0x0A) s) # lines rest)"
  by pat_completeness auto
termination
proof (relation "measure length", goal_cases)
  case (2 s nl rest)
  have "length (nl # rest) \<le> length s"
    using takeWhile_dropWhile_length [of "\<lambda>c. c \<noteq> CHR 0x0A" s] 2(2) by simp
  then show ?case by simp
qed simp

declare lines.simps [simp del]

lemma lines_Nil [simp]: "lines [] = []"
  by (simp add: lines.simps)

lemma takeWhile_neq_all: "x \<notin> set l \<Longrightarrow> takeWhile (\<lambda>c. c \<noteq> x) l = l"
  by (induction l) auto

lemma dropWhile_neq_all: "x \<notin> set l \<Longrightarrow> dropWhile (\<lambda>c. c \<noteq> x) l = []"
  by (induction l) auto

lemma takeWhile_neq_first: "x \<notin> set l \<Longrightarrow> takeWhile (\<lambda>c. c \<noteq> x) (l @ x # r) = l"
  by (induction l) auto

lemma dropWhile_neq_first: "x \<notin> set l \<Longrightarrow> dropWhile (\<lambda>c. c \<noteq> x) (l @ x # r) = x # r"
  by (induction l) auto

lemma lines_no_newline:
  "CHR 0x0A \<notin> set s \<Longrightarrow> s \<noteq> [] \<Longrightarrow> lines s = [s]"
  by (subst lines.simps) (simp add: dropWhile_neq_all del: dropWhile_eq_Nil_conv)

lemma lines_Cons_line:
  assumes "CHR 0x0A \<notin> set l"
  shows "lines (l @ CHR 0x0A # rest) = strip_cr l # lines rest"
  by (subst lines.simps) (simp only: takeWhile_neq_first [OF assms] dropWhile_neq_first [OF assms], simp)

lemma strip_cr_subset: "set (strip_cr s) \<subseteq> set s"
  by (auto simp: strip_cr_def dest: in_set_butlastD)

lemma newline_cases:
  obtains (no_newline) "CHR 0x0A \<notin> set s" | (newline) l rest where
    "s = l @ CHR 0x0A # rest" and "CHR 0x0A \<notin> set l"
  using split_list_first [of "CHR 0x0A" s] by (cases "CHR 0x0A \<in> set s") blast+

lemma lines_have_no_newline: "l \<in> set (lines s) \<Longrightarrow> CHR 0x0A \<notin> set l"
proof (induction "length s" arbitrary: s rule: less_induct)
  case less
  show ?case
  proof (cases s rule: newline_cases)
    case no_newline
    then show ?thesis using less.prems by (cases "s = []") (auto simp: lines_no_newline)
  next
    case (newline a rest)
    then have "lines s = strip_cr a # lines rest" and "length rest < length s"
      by (simp_all add: lines_Cons_line)
    then show ?thesis using less newline(2) strip_cr_subset [of a] by auto
  qed
qed

text \<open>\<open>lines.join("\\n")\<close> and its siblings.\<close>

fun join :: "string \<Rightarrow> string list \<Rightarrow> string" where
  "join sep [] = []"
| "join sep [x] = x"
| "join sep (x # xs) = x @ sep @ join sep xs"

text \<open>Each line followed by a line feed, as a loop of \<open>push_str\<close> and \<open>push('\\n')\<close> builds it.\<close>

fun unlines :: "string list \<Rightarrow> string" where
  "unlines [] = []"
| "unlines (l # ls) = l @ CHR 0x0A # unlines ls"

lemma lines_unlines:
  "\<forall>l \<in> set ls. CHR 0x0A \<notin> set l \<and> strip_cr l = l \<Longrightarrow> lines (unlines ls) = ls"
  by (induction ls) (auto simp: lines_Cons_line)

lemma unlines_append: "unlines (a @ b) = unlines a @ unlines b"
  by (induction a) auto

section \<open>White space and trimming\<close>

text \<open>
  \<open>char::is_whitespace\<close> (the Unicode White_Space property) on UTF-8: the number of bytes of the
  white-space character a text starts with, 0 when it does not start with one.
\<close>

definition is_ascii_ws :: "char \<Rightarrow> bool" where
  "is_ascii_ws c \<longleftrightarrow> c = CHR 0x20 \<or> (9 \<le> byte_of c \<and> byte_of c \<le> 13)"

fun ws_len :: "string \<Rightarrow> nat" where
  "ws_len [] = 0"
| "ws_len (a # s) =
     (if is_ascii_ws a then 1
      else case s of [] \<Rightarrow> 0
        | b # t \<Rightarrow>
          if a = CHR 0xC2 \<and> (b = CHR 0x85 \<or> b = CHR 0xA0) then 2
          else case t of [] \<Rightarrow> 0
            | c # _ \<Rightarrow>
              if (a = CHR 0xE1 \<and> b = CHR 0x9A \<and> c = CHR 0x80)
                \<or> (a = CHR 0xE2 \<and> b = CHR 0x80 \<and>
                    (c = CHR 0xA8 \<or> c = CHR 0xA9 \<or> c = CHR 0xAF \<or>
                     (0x80 \<le> byte_of c \<and> byte_of c \<le> 0x8A)))
                \<or> (a = CHR 0xE2 \<and> b = CHR 0x81 \<and> c = CHR 0x9F)
                \<or> (a = CHR 0xE3 \<and> b = CHR 0x80 \<and> c = CHR 0x80)
              then 3 else 0)"

lemma ws_len_le_length: "ws_len s \<le> length s"
  by (induction s rule: ws_len.induct) (auto split: list.splits)

text \<open>The same for the character a text ends with, read on the reversed bytes.\<close>

definition ws_len_end :: "string \<Rightarrow> nat" where
  "ws_len_end s =
     (let l = length s in
      if 1 \<le> l \<and> ws_len (drop (l - 1) s) = 1 then 1
      else if 2 \<le> l \<and> ws_len (drop (l - 2) s) = 2 then 2
      else if 3 \<le> l \<and> ws_len (drop (l - 3) s) = 3 then 3
      else 0)"

function trim_start :: "string \<Rightarrow> string" where
  "trim_start s = (if ws_len s = 0 then s else trim_start (drop (ws_len s) s))"
  by pat_completeness auto
termination
proof (relation "measure length", goal_cases)
  case (2 s)
  then have "s \<noteq> []" by auto
  with 2 show ?case by simp
qed simp

function trim_end :: "string \<Rightarrow> string" where
  "trim_end s = (if ws_len_end s = 0 then s else trim_end (take (length s - ws_len_end s) s))"
  by pat_completeness auto
termination
proof (relation "measure length", goal_cases)
  case (2 s)
  then have "s \<noteq> []" by (auto simp: ws_len_end_def)
  with 2 show ?case by simp
qed simp

declare trim_start.simps [simp del] trim_end.simps [simp del]

definition trim :: "string \<Rightarrow> string" where
  "trim s = trim_end (trim_start s)"

lemma ws_len_Nil_iff [simp]: "ws_len_end [] = 0"
  by (simp add: ws_len_end_def)

lemma trim_start_Nil [simp]: "trim_start [] = []"
  by (simp add: trim_start.simps)

lemma trim_end_Nil [simp]: "trim_end [] = []"
  by (simp add: trim_end.simps)

lemma trim_Nil [simp]: "trim [] = []"
  by (simp add: trim_def)

text \<open>\<open>value.trim().is_empty()\<close>.\<close>

definition is_blank :: "string \<Rightarrow> bool" where
  "is_blank s \<longleftrightarrow> trim s = []"

lemma is_blank_Nil [simp]: "is_blank []"
  by (simp add: is_blank_def)

text \<open>\<open>trim_end_matches(c)\<close> and \<open>trim_start_matches(p)\<close> for one character and a fixed prefix.\<close>

definition trim_end_char :: "char \<Rightarrow> string \<Rightarrow> string" where
  "trim_end_char c s = rev (dropWhile (\<lambda>x. x = c) (rev s))"

lemma dropWhile_twice: "dropWhile p (dropWhile p xs) = dropWhile p xs"
  by (induction xs) auto

lemma trim_end_char_idem: "trim_end_char c (trim_end_char c s) = trim_end_char c s"
  by (simp add: trim_end_char_def dropWhile_twice)

section \<open>Lower case\<close>

text \<open>The characters of a valid UTF-8 text and back.\<close>

definition tail_bits :: "char \<Rightarrow> nat" where
  "tail_bits c = byte_of c mod 64"

function chars_of :: "string \<Rightarrow> nat list" where
  "chars_of [] = []"
| "chars_of (a # s) =
     (let b = byte_of a; t = (\<lambda>i. if i < length s then tail_bits (s ! i) else 0) in
      if b < 0xC0 then b # chars_of s
      else if b < 0xE0 then (b mod 32 * 64 + t 0) # chars_of (drop 1 s)
      else if b < 0xF0 then (b mod 16 * 4096 + t 0 * 64 + t 1) # chars_of (drop 2 s)
      else (b mod 8 * 262144 + t 0 * 4096 + t 1 * 64 + t 2) # chars_of (drop 3 s))"
  by pat_completeness auto
termination by (relation "measure length") auto

definition utf8_of :: "nat \<Rightarrow> string" where
  "utf8_of c =
     map char_of
       (if c < 0x80 then [c]
        else if c < 0x800 then [0xC0 + c div 64, 0x80 + c mod 64]
        else if c < 0x10000 then [0xE0 + c div 4096, 0x80 + c div 64 mod 64, 0x80 + c mod 64]
        else [0xF0 + c div 262144, 0x80 + c div 4096 mod 64, 0x80 + c div 64 mod 64, 0x80 + c mod 64])"

text \<open>\<open>to_lowercase\<close> of all characters; a text of ASCII characters is converted byte by byte.\<close>

definition to_lowercase :: "string \<Rightarrow> string" where
  "to_lowercase s =
     (if list_all (\<lambda>c. byte_of c < 0x80) s then map ascii_lower s
      else concat (map utf8_of (lower_scalars [] (chars_of s))))"

lemma byte_of_char: "n < 256 \<Longrightarrow> byte_of (char_of n) = n"
  by (simp add: byte_of_def)

lemma tail_bits_char [simp]: "m < 64 \<Longrightarrow> tail_bits (char_of (0x80 + m)) = m"
  using mod_mult_self1 [of m 2 64] by (simp add: tail_bits_def byte_of_char add.commute)

lemma lead_bits: "n < 32 \<Longrightarrow> (0xC0 + n) mod 32 = (n :: nat)" "n < 16 \<Longrightarrow> (0xE0 + n) mod 16 = (n :: nat)"
  "n < 8 \<Longrightarrow> (0xF0 + n) mod 8 = (n :: nat)"
  using mod_mult_self1 [of n 6 32] mod_mult_self1 [of n 14 16] mod_mult_self1 [of n 30 8] by (simp_all add: add.commute)

lemma digits64: "q * 64 + r = x \<Longrightarrow> x * 64 + t = c \<Longrightarrow> q * 4096 + r * 64 + t = (c :: nat)"
  "q * 64 + r = x \<Longrightarrow> x * 4096 + t = c \<Longrightarrow> q * 262144 + r * 4096 + t = (c :: nat)"
  by linarith+

lemma chars_of_sequences:
  "byte_of a < 0xC0 \<Longrightarrow> chars_of (a # s) = byte_of a # chars_of s"
  "0xC0 \<le> byte_of a \<Longrightarrow> byte_of a < 0xE0 \<Longrightarrow> chars_of (a # b # s) = (byte_of a mod 32 * 64 + tail_bits b) # chars_of s"
  "0xE0 \<le> byte_of a \<Longrightarrow> byte_of a < 0xF0
    \<Longrightarrow> chars_of (a # b # c # s) = (byte_of a mod 16 * 4096 + tail_bits b * 64 + tail_bits c) # chars_of s"
  "0xF0 \<le> byte_of a \<Longrightarrow> chars_of (a # b # c # d # s)
    = (byte_of a mod 8 * 262144 + tail_bits b * 4096 + tail_bits c * 64 + tail_bits d) # chars_of s"
  by (simp_all add: Let_def)

lemma chars_of_utf8 [simp]:
  assumes "c < 0x110000"
  shows "chars_of (utf8_of c @ s) = c # chars_of s"
proof -
  have d: "c div 4096 * 64 + c div 64 mod 64 = c div 64" "c div 262144 * 64 + c div 4096 mod 64 = c div 4096"
    using div_mult_mod_eq [of "c div 64" 64] div_mult_mod_eq [of "c div 4096" 64] by (simp_all flip: div_mult2_eq)
  have c2: "c div 64 * 64 + c mod 64 = c" by (rule div_mult_mod_eq)
  have c3: "c div 4096 * 4096 + c div 64 mod 64 * 64 + c mod 64 = c" by (rule digits64(1) [OF d(1) c2])
  have c4: "c div 262144 * 262144 + c div 4096 mod 64 * 4096 + (c div 64 mod 64 * 64 + c mod 64) = c"
    by (rule digits64(2) [OF d(2)]) (use c3 in \<open>simp only: add.assoc\<close>)
  consider "c < 0x80" | "0x80 \<le> c" "c < 0x800" | "0x800 \<le> c" "c < 0x10000" | "0x10000 \<le> c" using assms by linarith
  then show ?thesis
  proof cases
    case 1
    then show ?thesis by (simp add: utf8_of_def chars_of_sequences byte_of_char del: chars_of.simps)
  next
    case 2
    then have "c div 64 < 32" by simp
    then show ?thesis using 2 c2 by (simp add: utf8_of_def lead_bits chars_of_sequences byte_of_char del: chars_of.simps)
  next
    case 3
    then have "c div 4096 < 16" by simp
    then show ?thesis using 3 c3 by (simp add: utf8_of_def lead_bits chars_of_sequences byte_of_char del: chars_of.simps)
  next
    case 4
    then have "c div 262144 < 8" using assms by simp
    then show ?thesis using 4 c4 by (simp add: utf8_of_def lead_bits chars_of_sequences byte_of_char del: chars_of.simps)
  qed
qed

lemma chars_of_encoded: "list_all (\<lambda>c. c < 0x110000) cs \<Longrightarrow> chars_of (concat (map utf8_of cs)) = cs"
  by (induction cs) simp_all

lemma to_lowercase_examples:
  "to_lowercase ''Read ME'' = ''read me''"
  "to_lowercase (utf8_of 0xC4 @ ''B'') = utf8_of 0xE4 @ ''b''"
  "to_lowercase (utf8_of 0x391 @ utf8_of 0x3A3) = utf8_of 0x3B1 @ utf8_of 0x3C2"
  by code_simp+

text \<open>\<open>replace('\\\\', "/")\<close>.\<close>

definition replace_char :: "char \<Rightarrow> char \<Rightarrow> string \<Rightarrow> string" where
  "replace_char a b = map (\<lambda>c. if c = a then b else c)"

definition to_slashes :: "string \<Rightarrow> string" where
  "to_slashes = replace_char (CHR 0x5C) (CHR ''/'')"

section \<open>Decimal text\<close>

text \<open>\<open>usize::to_string\<close>.\<close>

definition digit_char :: "nat \<Rightarrow> char" where
  "digit_char d = char_of (48 + d)"

fun show_nat :: "nat \<Rightarrow> string" where
  "show_nat n = (if n < 10 then [digit_char n] else show_nat (n div 10) @ [digit_char (n mod 10)])"

declare show_nat.simps [simp del]

text \<open>
  \<open>str::parse::<usize>\<close>: an optional plus sign, at least one digit, all digits, and no overflow of
  the 64-bit range.
\<close>

fun digits_val :: "nat \<Rightarrow> string \<Rightarrow> nat" where
  "digits_val acc [] = acc"
| "digits_val acc (c # cs) = digits_val (10 * acc + (byte_of c - 48)) cs"

definition parse_usize :: "string \<Rightarrow> nat option" where
  "parse_usize s =
     (let d = (case s of c # cs \<Rightarrow> if c = CHR ''+'' then cs else s | [] \<Rightarrow> []) in
      if d \<noteq> [] \<and> list_all is_ascii_digit d \<and> digits_val 0 d < 2 ^ 64
      then Some (digits_val 0 d) else None)"

lemma byte_of_digit_char: "d < 10 \<Longrightarrow> byte_of (digit_char d) = 48 + d"
  by (simp add: byte_of_def digit_char_def)

lemma digit_char_is_digit: "d < 10 \<Longrightarrow> is_ascii_digit (digit_char d)"
  by (simp add: is_ascii_digit_def byte_of_digit_char)

lemma digits_val_append: "digits_val acc (a @ b) = digits_val (digits_val acc a) b"
  by (induction a arbitrary: acc) auto

lemma digits_val_show_nat: "digits_val 0 (show_nat n) = n"
proof (induction n rule: show_nat.induct)
  case (1 n)
  then show ?case
    by (subst show_nat.simps) (simp add: byte_of_digit_char digits_val_append)
qed

lemma show_nat_digits: "list_all is_ascii_digit (show_nat n)"
proof (induction n rule: show_nat.induct)
  case (1 n)
  then show ?case by (subst show_nat.simps) (simp add: digit_char_is_digit)
qed

lemma show_nat_nonempty [simp]: "show_nat n \<noteq> []"
  by (subst show_nat.simps) simp

lemma show_nat_no_char: "\<not> is_ascii_digit c \<Longrightarrow> c \<notin> set (show_nat n)"
  using show_nat_digits [of n] by (auto simp: list_all_iff)

lemma parse_usize_show_nat: "n < 2 ^ 64 \<Longrightarrow> parse_usize (show_nat n) = Some n"
proof -
  assume n: "n < 2 ^ 64"
  obtain c cs where c: "show_nat n = c # cs" by (cases "show_nat n") auto
  have "\<not> is_ascii_digit (CHR ''+'')" by (simp add: is_ascii_digit_def byte_of_def)
  then have "c \<noteq> CHR ''+''" using show_nat_no_char [of "CHR ''+''" n] c by auto
  then show ?thesis
    using n c digits_val_show_nat [of n] show_nat_digits [of n] by (simp add: parse_usize_def)
qed

lemma show_nat_inj: "show_nat m = show_nat n \<Longrightarrow> m = n"
  using digits_val_show_nat by metis

section \<open>Fixed-width byte encodings\<close>

text \<open>\<open>u64::to_be_bytes\<close> and \<open>to_le_bytes\<close>, for a number of \<open>n\<close> bytes.\<close>

fun le_bytes :: "nat \<Rightarrow> nat \<Rightarrow> string" where
  "le_bytes 0 v = []"
| "le_bytes (Suc n) v = char_of (v mod 256) # le_bytes n (v div 256)"

definition be_bytes :: "nat \<Rightarrow> nat \<Rightarrow> string" where
  "be_bytes n v = rev (le_bytes n v)"

lemma length_le_bytes [simp]: "length (le_bytes n v) = n"
  by (induction n arbitrary: v) auto

lemma length_be_bytes [simp]: "length (be_bytes n v) = n"
  by (simp add: be_bytes_def)

lemma char_of_mod_inj: "(char_of (v mod 256) :: char) = char_of (w mod 256) \<Longrightarrow> v mod 256 = w mod (256::nat)"
  by (metis of_char_of mod_mod_trivial)

lemma le_bytes_inj: "le_bytes n v = le_bytes n w \<Longrightarrow> v < 256 ^ n \<Longrightarrow> w < 256 ^ n \<Longrightarrow> v = w"
proof (induction n arbitrary: v w)
  case 0
  then show ?case by simp
next
  case (Suc n)
  then have "v mod 256 = w mod 256" and d: "le_bytes n (v div 256) = le_bytes n (w div 256)"
    by (auto dest: char_of_mod_inj)
  moreover have "v div 256 < 256 ^ n" and "w div 256 < 256 ^ n"
    using Suc.prems by (simp_all add: less_mult_imp_div_less mult.commute)
  with Suc.IH d have "v div 256 = w div 256" by blast
  ultimately show ?case by (metis div_mult_mod_eq)
qed

lemma be_bytes_inj: "be_bytes n v = be_bytes n w \<Longrightarrow> v < 256 ^ n \<Longrightarrow> w < 256 ^ n \<Longrightarrow> v = w"
  by (auto simp: be_bytes_def dest: le_bytes_inj)

end
