(* ===== verification/Core_Models.thy ===== *)
theory Core_Models
  imports Rust_Strings
begin

text \<open>
  The data of \<open>crates/mentat-core\<close> (\<open>error.rs\<close>, \<open>models.rs\<close>): one record per \<open>struct\<close>, with the
  fields of the source under a short prefix, and one datatype per \<open>enum\<close>. A \<open>PathBuf\<close> is the string
  the program was given; \<open>Rust_Paths\<close> reads it as components. A \<open>usize\<close> is a \<open>nat\<close> (a 64-bit
  target), a \<open>u8\<close>, \<open>u16\<close>, \<open>u32\<close> or \<open>u64\<close> is a word of that width where the code computes with it.
\<close>

section \<open>Errors\<close>

text \<open>
  \<open>MentatError\<close>. Every caller distinguishes the variants that carry a \<open>code\<close> by that code, so their
  display text (Korean, for the user) is left out; the variants with a message only keep a short
  English gloss of it.
\<close>

datatype mentat_error =
    InvalidRepositoryPath string
  | ExternalPathBlocked string
  | StorageIsolationViolation string
  | EgressViolation string
  | AppDataInsideRepository string
  | IoError string
  | PlatformError string
  | IndexingError string
  | InferenceError string
  | BackendError (err_code: string)
  | StorageError (err_code: string)
  | PromptError (err_code: string)
  | ErrCancelled

type_synonym 'a result = "mentat_error + 'a"

section \<open>Repository, snapshot, evidence\<close>

datatype repository_type = RepoGit | RepoDirectory

record repository_profile =
  repo_id :: uuid
  repo_display_name :: string
  repo_root_path :: string
  repo_type :: repository_type
  repo_consent_policy :: bool

datatype snapshot_status = SnapReady | SnapStale | SnapIndexing | SnapIncomplete

record repository_snapshot =
  snap_id :: uuid
  snap_repo_id :: uuid
  snap_created_at :: datetime
  snap_tree_digest :: string
  snap_status :: snapshot_status
  snap_file_count :: nat
  snap_total_bytes :: nat

datatype file_kind =
  SourceCode | Documentation | Manifest | Configuration | Asset | KindBinary | KindOther

record file_record =
  file_path :: string
  file_kind :: file_kind
  file_size_bytes :: nat
  file_content_hash :: string
  file_is_text :: bool
  file_line_count :: "nat option"
  file_text_preview :: "string option"

record evidence_ref =
  ev_id :: uuid
  ev_snapshot_id :: uuid
  ev_path :: string
  ev_line_start :: nat
  ev_line_end :: nat
  ev_content_hash :: string
  ev_excerpt :: string

datatype claim_classification = Observed | Inferred | Proposed | Conflict | Unknown

text \<open>
  An \<open>f32\<close> is only tested for being finite and in a range, so a finite one is the rational it
  denotes.
\<close>

datatype f32 = F32 rat | F32Inf bool | F32NaN

record claim =
  claim_id :: uuid
  claim_classification :: claim_classification
  claim_statement :: string
  claim_confidence :: f32
  claim_evidence_ids :: "uuid list"
  claim_rationale :: "string option"

datatype recommendation_basis = GeneralPractice | ProjectIntentAligned | NeedsUserDecision

record recommendation =
  rec_id :: uuid
  rec_basis :: recommendation_basis
  rec_impact :: string
  rec_rationale :: string
  rec_evidence_ids :: "uuid list"
  rec_decision_required :: bool

record conflict_item =
  cf_id :: uuid
  cf_side_a :: string
  cf_side_b :: string
  cf_evidence_ids :: "uuid list"
  cf_impact :: string
  cf_unresolved_question :: string

record answer_bundle =
  ab_request_id :: uuid
  ab_snapshot_id :: uuid
  ab_direct_answer :: string
  ab_claims :: "claim list"
  ab_evidence_map :: "evidence_ref list"
  ab_recommendations :: "recommendation list"
  ab_conflicts :: "conflict_item list"
  ab_raw_model_response :: "string option"

section \<open>Grounding freshness and repository tools\<close>

datatype grounding_freshness =
  FreshAtSend | ChangedAfterSend (fr_detected_at: datetime) | StaleBeforeSend

datatype repository_tool_name =
  RepoStatus | ListTree | SearchPaths | SearchText | ReadFileLines | FileMetadata

definition all_tool_names :: "repository_tool_name list" where
  "all_tool_names = [RepoStatus, ListTree, SearchPaths, SearchText, ReadFileLines, FileMetadata]"

fun wire_name :: "repository_tool_name \<Rightarrow> string" where
  "wire_name RepoStatus = ''repo_status''"
| "wire_name ListTree = ''list_tree''"
| "wire_name SearchPaths = ''search_paths''"
| "wire_name SearchText = ''search_text''"
| "wire_name ReadFileLines = ''read_file_lines''"
| "wire_name FileMetadata = ''file_metadata''"

datatype repository_tool_arguments =
    ArgRepoStatus
  | ArgListTree "string option" u8 u16
  | ArgSearchPaths string u16
  | ArgSearchText string "string option" u16
  | ArgReadFileLines string nat nat
  | ArgFileMetadata string

record repository_tool_call =
  call_id :: uuid
  call_snapshot_id :: uuid
  call_name :: repository_tool_name
  call_arguments :: repository_tool_arguments

datatype tool_omission_reason =
    EntryLimit | ByteLimit | OmBinary | Ignored | PermissionDenied | ReadError
  | StaleSnapshot | LiveHashMismatch | OmCancelled

record tool_omission =
  om_reason :: tool_omission_reason
  om_path :: "string option"
  om_detail_code :: string
  om_count :: nat
  om_bytes :: nat

record source_ref =
  sr_id :: uuid
  sr_snapshot_id :: uuid
  sr_path :: string
  sr_line_start :: nat
  sr_line_end :: nat
  sr_content_hash :: string
  sr_excerpt :: string

record repository_tool_result =
  res_call_id :: uuid
  res_snapshot_id :: uuid
  res_content :: string
  res_source_refs :: "source_ref list"
  res_omissions :: "tool_omission list"
  res_content_bytes :: u32

datatype tool_call_status = CallPending | CallCompleted | CallOmitted | CallFailed

record tool_call_record =
  cr_trace_id :: uuid
  cr_call_id :: uuid
  cr_round :: u8
  cr_name :: repository_tool_name
  cr_arguments_digest :: string
  cr_result_digest :: "string option"
  cr_content_bytes :: u32
  cr_source_ref_ids :: "uuid list"
  cr_status :: tool_call_status

record grounding_trace =
  gt_id :: uuid
  gt_conversation_id :: uuid
  gt_turn_id :: uuid
  gt_snapshot_id :: "uuid option"
  gt_tool_calls :: "tool_call_record list"
  gt_source_refs :: "source_ref list"
  gt_egress_receipt_ids :: "uuid list"
  gt_freshness :: grounding_freshness

section \<open>Conversations\<close>

datatype chat_role = RoleUser | RoleAssistant

datatype message_status =
  MsgPending | MsgStreaming | MsgCompleted | MsgCancelled | MsgFailed (msg_error_code: string)

record chat_message =
  msg_id :: uuid
  msg_conversation_id :: uuid
  msg_turn_id :: uuid
  msg_role :: chat_role
  msg_ordinal :: nat
  msg_markdown :: string
  msg_status :: message_status
  msg_source_ref_ids :: "uuid list"
  msg_grounding_trace_id :: "uuid option"
  msg_grounding_freshness :: "grounding_freshness option"
  msg_created_at :: datetime
  msg_updated_at :: datetime

text \<open>\<open>ChatMessage::new\<close>, given the fresh id and the clock.\<close>

definition chat_message_new ::
  "uuid \<Rightarrow> datetime \<Rightarrow> uuid \<Rightarrow> uuid \<Rightarrow> chat_role \<Rightarrow> nat \<Rightarrow> string \<Rightarrow> message_status \<Rightarrow> chat_message" where
  "chat_message_new i now conv turn role ord md st =
     \<lparr> msg_id = i, msg_conversation_id = conv, msg_turn_id = turn, msg_role = role,
       msg_ordinal = ord, msg_markdown = md, msg_status = st, msg_source_ref_ids = [],
       msg_grounding_trace_id = None, msg_grounding_freshness = None,
       msg_created_at = now, msg_updated_at = now \<rparr>"

record conversation =
  conv_id :: uuid
  conv_repository_id :: "uuid option"
  conv_active_snapshot_id :: "uuid option"
  conv_prompt_profile_id :: uuid
  conv_messages :: "chat_message list"
  conv_compact_summary :: "string option"
  conv_created_at :: datetime
  conv_updated_at :: datetime

definition conversation_new ::
  "uuid \<Rightarrow> datetime \<Rightarrow> uuid \<Rightarrow> uuid option \<Rightarrow> uuid option \<Rightarrow> conversation" where
  "conversation_new i now profile repo snap =
     \<lparr> conv_id = i, conv_repository_id = repo, conv_active_snapshot_id = snap,
       conv_prompt_profile_id = profile, conv_messages = [], conv_compact_summary = None,
       conv_created_at = now, conv_updated_at = now \<rparr>"

datatype response_contract = ContractAdvisor | ContractAudit (schema_version: string)

record conversation_turn =
  turn_id :: uuid
  turn_conversation_id :: uuid
  turn_sequence :: nat
  turn_prompt_profile_id :: uuid
  turn_prompt_revision_id :: uuid
  turn_kernel_version :: string
  turn_kernel_digest :: string
  turn_snapshot_id :: "uuid option"
  turn_response_contract :: response_contract
  turn_audit_result_id :: "uuid option"
  turn_started_at :: datetime
  turn_completed_at :: "datetime option"

datatype conversation_persistence = Durable | Ephemeral

record new_conversation =
  nc_repository_id :: "uuid option"
  nc_active_snapshot_id :: "uuid option"
  nc_prompt_profile_id :: uuid
  nc_persistence :: conversation_persistence

record turn_start =
  ts_turn :: conversation_turn
  ts_user_message :: chat_message
  ts_assistant_placeholder :: chat_message

text \<open>\<open>TurnTerminalUpdate\<close>: every variant names its turn, its assistant message and the instant.\<close>

datatype turn_terminal_update =
    AdvisorCompleted (tu_turn_id: uuid) (tu_message_id: uuid) (tu_markdown: string)
      (tu_trace: "uuid option") (tu_freshness: "grounding_freshness option")
      (tu_completed_at: datetime)
  | AuditCompleted (tu_turn_id: uuid) (tu_message_id: uuid) (tu_result: answer_bundle)
      uuid grounding_freshness (tu_completed_at: datetime)
  | AdvisorCancelled (tu_turn_id: uuid) (tu_message_id: uuid) (tu_partial_markdown: string)
      (tu_completed_at: datetime)
  | AuditCancelled (tu_turn_id: uuid) (tu_message_id: uuid) (tu_completed_at: datetime)
  | TurnFailed (tu_turn_id: uuid) (tu_message_id: uuid) (tu_error_code: string)
      (tu_safe_message: string) (tu_completed_at: datetime)

record delete_receipt =
  dr_operation_id :: uuid
  dr_deleted_counts :: "(string \<times> nat) list"
  dr_removed_artifacts :: "string list"
  dr_completed_at :: datetime

section \<open>Prompt profiles\<close>

datatype system_preset = SysBeginner | SysIntermediate | SysProfessional | SysSenior

fun resource_key :: "system_preset \<Rightarrow> string" where
  "resource_key SysBeginner = ''system.beginner.v1''"
| "resource_key SysIntermediate = ''system.intermediate.v1''"
| "resource_key SysProfessional = ''system.professional.v1''"
| "resource_key SysSenior = ''system.senior.v1''"

datatype experience_preset = ExpBeginner | ExpIntermediate | ExpProfessional | ExpSenior | ExpCustom

datatype composer_submit_mode = EnterSend | CtrlEnterSend

datatype prompt_layer = LayerSystem | LayerPersona

datatype prompt_content_source =
    FactoryRef (pcs_key: string) (pcs_version: string) (pcs_checksum: string)
  | UserText (pcs_content: string) (pcs_checksum: string)
  | RestoredText (pcs_content: string) (pcs_checksum: string) (pcs_restored_from: uuid)

record prompt_profile =
  pp_id :: uuid
  pp_name :: string
  pp_experience_preset :: experience_preset
  pp_base_system_preset :: system_preset
  pp_active_revision_id :: uuid
  pp_factory_system_version :: string
  pp_factory_persona_version :: string
  pp_created_at :: datetime
  pp_updated_at :: datetime

record prompt_content_version =
  pv_id :: uuid
  pv_profile_id :: uuid
  pv_layer :: prompt_layer
  pv_version :: nat
  pv_source :: prompt_content_source
  pv_parent_version_id :: "uuid option"
  pv_created_at :: datetime

record prompt_profile_revision =
  pr_id :: uuid
  pr_profile_id :: uuid
  pr_revision :: nat
  pr_system_version_id :: "uuid option"
  pr_persona_version_id :: "uuid option"
  pr_system_checksum :: string
  pr_persona_checksum :: string
  pr_content_deleted :: bool
  pr_expected_previous :: "uuid option"
  pr_created_at :: datetime

record ui_preferences =
  ui_width_points :: f32
  ui_height_points :: f32
  ui_submit_mode :: composer_submit_mode
  ui_always_on_top :: bool
  ui_layout_revision :: nat
  ui_updated_at :: datetime

definition ui_preferences_default :: "datetime \<Rightarrow> ui_preferences" where
  "ui_preferences_default now =
     \<lparr> ui_width_points = F32 560, ui_height_points = F32 760, ui_submit_mode = EnterSend,
       ui_always_on_top = True, ui_layout_revision = 2, ui_updated_at = now \<rparr>"

datatype prompt_layer_draft =
    Preserve
  | DraftUserText string
  | ResetToFactory string string string
  | RestoreVersion uuid

record prompt_draft =
  pd_profile_id :: uuid
  pd_name :: string
  pd_experience_preset :: experience_preset
  pd_base_system_preset :: system_preset
  pd_system :: prompt_layer_draft
  pd_persona :: prompt_layer_draft

record stored_prompt_profile =
  sp_profile :: prompt_profile
  sp_revision :: prompt_profile_revision
  sp_system_source :: prompt_content_source
  sp_persona_source :: prompt_content_source

record resolved_prompt_profile =
  rp_profile :: prompt_profile
  rp_revision :: prompt_profile_revision
  rp_system_text :: string
  rp_persona_text :: string

section \<open>Consent and egress receipts\<close>

record provider_binding =
  pb_profile_id :: uuid
  pb_provider :: string
  pb_endpoint_identity :: string
  pb_model_id :: string
  pb_target_digest :: string

datatype repository_consent_kind = RequestOnce (once_turn_id: uuid) | RepositorySession

record repository_consent_scope =
  cs_id :: uuid
  cs_conversation_id :: uuid
  cs_repository_id :: uuid
  cs_snapshot_id :: uuid
  cs_provider_binding :: provider_binding
  cs_kind :: repository_consent_kind
  cs_granted_at :: datetime
  cs_revoked_at :: "datetime option"

record canonical_tool_ref =
  ctr_path :: string
  ctr_line_start :: nat
  ctr_line_end :: nat
  ctr_content_hash :: string
  ctr_payload_digest :: string

datatype tool_egress_status = Prepared | Sent | EgressFailed | OutcomeUnknown

record tool_egress_receipt =
  ter_id :: uuid
  ter_seal_version :: string
  ter_trace_id :: uuid
  ter_consent_scope_id :: uuid
  ter_conversation_id :: uuid
  ter_turn_id :: uuid
  ter_tool_call_id :: uuid
  ter_repository_id :: uuid
  ter_snapshot_id :: uuid
  ter_tool_name :: repository_tool_name
  ter_canonical_refs :: "canonical_tool_ref list"
  ter_provider_binding :: provider_binding
  ter_semantic_digest :: string
  ter_body_digest :: string
  ter_canonical_digest :: string
  ter_status :: tool_egress_status
  ter_prepared_at :: datetime
  ter_updated_at :: datetime

lemma wire_name_inj: "wire_name a = wire_name b \<longleftrightarrow> a = b"
  by (cases a; cases b) simp_all

lemma all_tool_names_complete: "n \<in> set all_tool_names"
  by (cases n) (simp_all add: all_tool_names_def)

end
