(* ===== verification/Rust_Paths.thy ===== *)
theory Rust_Paths
  imports Core_Models "HOL-Library.Char_ord" "HOL-Library.List_Lexorder"
begin

text \<open>
  \<open>std::path\<close> on Unix, over the bytes of the path text: components, their order, \<open>starts_with\<close>,
  \<open>join\<close>, \<open>file_name\<close> and \<open>extension\<close>. Paths are taken to be valid UTF-8, so that \<open>to_str\<close> and
  \<open>to_string_lossy\<close> return the text itself. Then the path checks of \<open>crates/mentat-repository\<close>
  (\<open>safe_file.rs\<close>), \<open>crates/mentat-analysis\<close> (\<open>repository_tools.rs\<close>) and \<open>crates/mentat-platform\<close>.
\<close>

section \<open>Components\<close>

datatype path_component = RootDir | CurDir | ParentDir | Normal string

text \<open>The derived order of \<open>std::path::Component\<close>: the variants in this order, names by bytes.\<close>

fun component_rank :: "path_component \<Rightarrow> nat \<times> string" where
  "component_rank RootDir = (0, [])"
| "component_rank CurDir = (1, [])"
| "component_rank ParentDir = (2, [])"
| "component_rank (Normal s) = (3, s)"

lemma component_rank_inj: "component_rank a = component_rank b \<Longrightarrow> a = b"
  by (cases a; cases b) auto

instantiation path_component :: linorder
begin

definition less_eq_path_component :: "path_component \<Rightarrow> path_component \<Rightarrow> bool" where
  "less_eq_path_component a b \<longleftrightarrow>
     fst (component_rank a) < fst (component_rank b) \<or>
     fst (component_rank a) = fst (component_rank b) \<and>
     snd (component_rank a) \<le> snd (component_rank b)"

definition less_path_component :: "path_component \<Rightarrow> path_component \<Rightarrow> bool" where
  "less_path_component a b \<longleftrightarrow> a \<le> b \<and> \<not> b \<le> a"

instance
proof
  fix a b c :: path_component
  show "a < b \<longleftrightarrow> a \<le> b \<and> \<not> b \<le> a" by (simp add: less_path_component_def)
  show "a \<le> a" by (simp add: less_eq_path_component_def)
  show "a \<le> b \<Longrightarrow> b \<le> c \<Longrightarrow> a \<le> c" by (auto simp: less_eq_path_component_def)
  show "a \<le> b \<Longrightarrow> b \<le> a \<Longrightarrow> a = b"
    by (rule component_rank_inj) (auto simp: less_eq_path_component_def prod_eq_iff)
  show "a \<le> b \<or> b \<le> a" by (auto simp: less_eq_path_component_def)
qed

end

text \<open>\<open>str::split(c)\<close>.\<close>

fun split_on :: "char \<Rightarrow> string \<Rightarrow> string list" where
  "split_on c [] = [[]]"
| "split_on c (x # xs) =
     (if x = c then [] # split_on c xs
      else case split_on c xs of [] \<Rightarrow> [[x]] | p # ps \<Rightarrow> (x # p) # ps)"

lemma split_on_nonempty [simp]: "split_on c s \<noteq> []"
  by (induction s) (auto split: list.splits)

lemma split_on_join: "split_on c (a @ c # b) = split_on c a @ split_on c b"
proof (induction a)
  case Nil
  then show ?case by simp
next
  case (Cons x a)
  then show ?case by (cases "split_on c a") auto
qed

lemma split_on_no_sep: "p \<in> set (split_on c s) \<Longrightarrow> c \<notin> set p"
  by (induction s arbitrary: p) (auto split: if_splits list.splits)

definition is_absolute :: "string \<Rightarrow> bool" where
  "is_absolute s \<longleftrightarrow> (case s of [] \<Rightarrow> False | c # _ \<Rightarrow> c = CHR ''/'')"

definition normal_pieces :: "string list \<Rightarrow> path_component list" where
  "normal_pieces ps =
     map (\<lambda>p. if p = ''..'' then ParentDir else Normal p) (filter (\<lambda>p. p \<noteq> [] \<and> p \<noteq> ''.'') ps)"

definition components :: "string \<Rightarrow> path_component list" where
  "components s =
     (if is_absolute s then [RootDir]
      else if hd (split_on (CHR ''/'') s) = ''.'' then [CurDir] else []) @
     normal_pieces (split_on (CHR ''/'') s)"

lemma normal_pieces_append [simp]: "normal_pieces (a @ b) = normal_pieces a @ normal_pieces b"
  by (simp add: normal_pieces_def)

lemma normal_pieces_Nil [simp]: "normal_pieces [] = []"
  by (simp add: normal_pieces_def)

lemma normal_pieces_empty [simp]: "normal_pieces [[]] = []"
  by (simp add: normal_pieces_def)

lemma normal_pieces_set: "c \<in> set (normal_pieces ps) \<Longrightarrow> c \<noteq> RootDir \<and> c \<noteq> CurDir"
  by (auto simp: normal_pieces_def)

text \<open>Equality, order and prefix of paths are those of the component lists.\<close>

definition path_eq :: "string \<Rightarrow> string \<Rightarrow> bool" where
  "path_eq a b \<longleftrightarrow> components a = components b"

definition path_le :: "string \<Rightarrow> string \<Rightarrow> bool" where
  "path_le a b \<longleftrightarrow> components a \<le> components b"

definition path_starts_with :: "string \<Rightarrow> string \<Rightarrow> bool" where
  "path_starts_with p base \<longleftrightarrow> prefix (components base) (components p)"

definition path_join :: "string \<Rightarrow> string \<Rightarrow> string" where
  "path_join a b =
     (if is_absolute b then b
      else if a = [] then b
      else if last a = CHR ''/'' then a @ b
      else a @ CHR ''/'' # b)"

definition file_name :: "string \<Rightarrow> string option" where
  "file_name p =
     (case rev (components p) of Normal n # _ \<Rightarrow> Some n | _ \<Rightarrow> None)"

text \<open>The part after the last dot of the file name, when something precedes that dot.\<close>

definition extension :: "string \<Rightarrow> string option" where
  "extension p =
     (case file_name p of None \<Rightarrow> None
      | Some n \<Rightarrow>
        (let stem = rev (tl (dropWhile (\<lambda>c. c \<noteq> CHR ''.'') (rev n))) in
         if CHR ''.'' \<notin> set n \<or> stem = [] then None
         else Some (rev (takeWhile (\<lambda>c. c \<noteq> CHR ''.'') (rev n)))))"

text \<open>A relative path joined to a base adds its components, but for a leading \<open>.\<close>, to those of the base.\<close>

lemma components_join:
  assumes "\<not> is_absolute b" and "a \<noteq> []"
  shows "components (path_join a b) = components a @ normal_pieces (split_on (CHR ''/'') b)"
proof (cases "last a = CHR ''/''")
  case True
  then obtain a' where a: "a = a' @ [CHR ''/'']" using assms(2) by (metis append_butlast_last_id)
  have s: "split_on (CHR ''/'') a = split_on (CHR ''/'') a' @ [[]]"
    using split_on_join [of "CHR ''/''" a' "[]"] a by simp
  have j: "path_join a b = a' @ CHR ''/'' # b" using True assms a by (simp add: path_join_def)
  have "is_absolute (a' @ CHR ''/'' # b) = is_absolute a"
    using a by (cases a') (simp_all add: is_absolute_def)
  then show ?thesis using s by (simp add: j components_def split_on_join)
next
  case False
  then have j: "path_join a b = a @ CHR ''/'' # b" using assms by (simp add: path_join_def)
  have "is_absolute (a @ CHR ''/'' # b) = is_absolute a"
    using assms(2) by (cases a) (simp_all add: is_absolute_def)
  then show ?thesis by (simp add: j components_def split_on_join)
qed

section \<open>Relative paths only\<close>

text \<open>\<open>validate_relative_path\<close> of \<open>repository_tools.rs\<close>.\<close>

definition validate_relative_path :: "string \<Rightarrow> unit result" where
  "validate_relative_path p =
     (if is_absolute p \<or> (\<exists>c \<in> set (components p). c = ParentDir \<or> c = RootDir)
      then Inl (ExternalPathBlocked ''only normalized relative paths are allowed'')
      else Inr ())"

lemma validate_relative_path_Inr:
  "validate_relative_path p = Inr u \<longleftrightarrow> \<not> is_absolute p \<and> ParentDir \<notin> set (components p)"
  by (auto simp: validate_relative_path_def components_def dest: normal_pieces_set split: if_splits)

end
