(* ===== verification/Path_Safety.thy ===== *)
theory Path_Safety
  imports Rust_Paths
begin

text \<open>
  The three path checks that keep the program inside the selected repository and its own data
  outside of it: \<open>open_beneath\<close> (\<open>crates/mentat-repository/src/safe_file.rs\<close>), the relative-path check
  of the repository tools, and \<open>validate_storage_isolation\<close> (\<open>crates/mentat-platform/src/lib.rs\<close>).
  The operating system is a parameter: what \<open>canonicalize\<close> and \<open>open\<close> return for a path, the path
  of an open handle and whether it is a regular file (\<open>None\<close> for an I/O error).
\<close>

record 'h file_system =
  fs_canonicalize :: "string \<Rightarrow> string option"
  fs_open :: "string \<Rightarrow> 'h option"
  fs_handle_path :: "'h \<Rightarrow> string option"
  fs_is_file :: "'h \<Rightarrow> bool option"

abbreviation io_err :: "mentat_error" where
  "io_err \<equiv> IoError ''os error''"

definition only_normal :: "string \<Rightarrow> bool" where
  "only_normal p \<longleftrightarrow> \<not> is_absolute p \<and>
     list_all (\<lambda>c. case c of Normal _ \<Rightarrow> True | CurDir \<Rightarrow> True | _ \<Rightarrow> False) (components p)"

definition open_beneath :: "'h file_system \<Rightarrow> string \<Rightarrow> string \<Rightarrow> 'h result" where
  "open_beneath fs base relative =
     then_do (guard_err (only_normal relative) (ExternalPathBlocked ''relative paths only'')) (\<lambda>_.
     then_do (ok_or (fs_canonicalize fs base) io_err) (\<lambda>base'.
     then_do (ok_or (fs_open fs (path_join base' relative)) io_err) (\<lambda>file.
     then_do (ok_or (fs_handle_path fs file) io_err) (\<lambda>actual.
       if \<not> path_starts_with actual base' then Inl (ExternalPathBlocked ''handle outside repository'')
       else then_do (ok_or (fs_is_file fs file) io_err) (\<lambda>regular.
         if regular then Inr file
         else Inl (ExternalPathBlocked ''handle outside repository''))))))"

text \<open>\<open>is_storage_isolated\<close> and \<open>validate_storage_isolation\<close>.\<close>

definition validate_storage_isolation :: "'h file_system \<Rightarrow> string \<Rightarrow> string \<Rightarrow> unit result" where
  "validate_storage_isolation fs app_data repo_root =
     then_do (ok_or (fs_canonicalize fs app_data) (PlatformError ''no absolute AppData path'')) (\<lambda>app.
     then_do (ok_or (fs_canonicalize fs repo_root)
                (InvalidRepositoryPath ''no absolute repository path'')) (\<lambda>repo.
       if path_starts_with app repo
         then Inl (StorageIsolationViolation ''AppData inside repository'')
       else if path_starts_with repo app
         then Inl (StorageIsolationViolation ''repository inside AppData'')
       else Inr ()))"

definition is_storage_isolated :: "'h file_system \<Rightarrow> string \<Rightarrow> string \<Rightarrow> bool" where
  "is_storage_isolated fs app_data repo_root = is_ok (validate_storage_isolation fs app_data repo_root)"

section \<open>Lemmas\<close>

lemma only_normal_pieces:
  "only_normal p \<Longrightarrow> c \<in> set (normal_pieces (split_on (CHR ''/'') p)) \<Longrightarrow> \<exists>n. c = Normal n"
  by (cases c) (auto simp: only_normal_def components_def list_all_iff ball_Un
      dest: normal_pieces_set split: path_component.splits)

lemma validate_relative_path_only_normal:
  "validate_relative_path p = Inr u \<longleftrightarrow> only_normal p"
  unfolding validate_relative_path_Inr only_normal_def list_all_iff
  by (auto split: path_component.splits)
     (auto simp: components_def dest: normal_pieces_set split: if_splits)

lemma prefix_common:
  "prefix a c \<Longrightarrow> prefix b c \<Longrightarrow> prefix a b \<or> prefix b a"
  by (rule prefix_same_cases)

text \<open>Two isolated directories have no path below both of them.\<close>

lemma isolated_disjoint:
  assumes "\<not> path_starts_with app repo" and "\<not> path_starts_with repo app"
  shows "\<not> (path_starts_with p app \<and> path_starts_with p repo)"
  using assms prefix_common by (auto simp: path_starts_with_def)

section \<open>Properties\<close>

text \<open>
  Whatever the file system answers (symbolic links included), a file opened for a repository
  path has a handle whose own path lies under the canonical repository root, and is a regular file;
  the requested path had only plain components.
\<close>

theorem open_beneath_contained:
  assumes "open_beneath fs base relative = Inr h"
  shows "\<exists>base' actual. fs_canonicalize fs base = Some base'
           \<and> fs_handle_path fs h = Some actual \<and> path_starts_with actual base'
           \<and> fs_is_file fs h = Some True
           \<and> only_normal relative"
  using assms by (auto simp: open_beneath_def split: if_splits)

text \<open>
  A path that passes the relative-path check and is joined to a base directory stays under
  that base: the components of the base are kept, and every component after them is a plain name.
\<close>

theorem validated_path_stays_beneath:
  assumes "validate_relative_path p = Inr ()" and "base \<noteq> []"
  shows "\<exists>names. components (path_join base p) = components base @ map Normal names"
proof -
  have n: "only_normal p" and a: "\<not> is_absolute p"
    using assms(1) validate_relative_path_only_normal [of p "()"] by (auto simp: only_normal_def)
  have "\<exists>names. cs = map Normal names" if "\<forall>c \<in> set cs. \<exists>n. c = Normal n" for cs
    using that by (induction cs) (auto, metis list.simps(9))
  then show ?thesis
    using only_normal_pieces [OF n] by (simp add: components_join [OF a assms(2)])
qed

text \<open>
  When the isolation check accepts an application data directory and a repository, no path
  lies below both canonical directories; the check is symmetric in acceptance.
\<close>

theorem storage_isolation_disjoint:
  assumes "is_storage_isolated fs app_data repo_root"
  shows "\<exists>app repo. fs_canonicalize fs app_data = Some app \<and> fs_canonicalize fs repo_root = Some repo
           \<and> (\<forall>p. \<not> (path_starts_with p app \<and> path_starts_with p repo))
           \<and> is_storage_isolated fs repo_root app_data"
  using assms isolated_disjoint
  by (auto simp: is_storage_isolated_def validate_storage_isolation_def is_ok_iff split: if_splits)

section \<open>Witnesses\<close>

definition sample_fs :: "string file_system" where
  "sample_fs =
     \<lparr> fs_canonicalize = (\<lambda>p. if p = ''r'' then Some ''/r'' else if p = ''d'' then Some ''/d'' else None),
       fs_open = (\<lambda>p. if p = ''/r/a'' then Some ''/r/b'' else None),
       fs_handle_path = Some, fs_is_file = (\<lambda>_. Some True) \<rparr>"

lemma sample_open: "open_beneath sample_fs ''r'' ''a'' = Inr ''/r/b''"
  by code_simp

lemma open_beneath_contained_witness:
  "\<exists>base' actual. fs_canonicalize sample_fs ''r'' = Some base'
     \<and> fs_handle_path sample_fs ''/r/b'' = Some actual \<and> path_starts_with actual base'
     \<and> fs_is_file sample_fs ''/r/b'' = Some True \<and> only_normal ''a''"
  by (rule open_beneath_contained [OF sample_open])

lemma sample_relative: "validate_relative_path ''a/./b'' = Inr ()"
  by code_simp

lemma validated_path_stays_beneath_witness:
  "\<exists>names. components (path_join ''/r'' ''a/./b'') = components ''/r'' @ map Normal names"
  by (rule validated_path_stays_beneath [OF sample_relative]) simp

lemma sample_isolated: "is_storage_isolated sample_fs ''d'' ''r''"
  by code_simp

lemma storage_isolation_disjoint_witness:
  "\<exists>app repo. fs_canonicalize sample_fs ''d'' = Some app \<and> fs_canonicalize sample_fs ''r'' = Some repo
     \<and> (\<forall>p. \<not> (path_starts_with p app \<and> path_starts_with p repo))
     \<and> is_storage_isolated sample_fs ''r'' ''d''"
  by (rule storage_isolation_disjoint [OF sample_isolated])

end
