(* ===== verification/Digests.thy ===== *)
theory Digests
  imports Rust_Paths "HOL-Library.Product_Lexorder"
begin

text \<open>
  Digest texts and the framed encodings that are hashed. SHA-256 is a parameter \<open>sha\<close>, from the
  bytes hashed to the bytes of the digest; \<open>{:x}\<close> prints them as two lower-case hexadecimal digits
  each. Evidence of equality is always stated up to a collision of \<open>sha\<close>, which is never assumed away.
\<close>

definition hex_digit :: "nat \<Rightarrow> char" where
  "hex_digit n = (if n < 10 then char_of (48 + n) else char_of (87 + n))"

fun hex_of :: "string \<Rightarrow> string" where
  "hex_of [] = []"
| "hex_of (c # cs) = hex_digit (byte_of c div 16) # hex_digit (byte_of c mod 16) # hex_of cs"

lemma byte_of_less: "byte_of c < 256"
  by (simp add: byte_of_def)

lemma byte_of_inj: "byte_of a = byte_of b \<longleftrightarrow> a = b"
  by (simp add: byte_of_def)

lemma hex_digit_inj: "m < 16 \<Longrightarrow> n < 16 \<Longrightarrow> hex_digit m = hex_digit n \<Longrightarrow> m = n"
proof -
  assume mn: "m < 16" "n < 16" and "hex_digit m = hex_digit n"
  then have "byte_of (hex_digit m) = byte_of (hex_digit n)" by simp
  then show "m = n" using mn by (auto simp: hex_digit_def byte_of_def split: if_splits)
qed

lemma hex_of_inj: "hex_of a = hex_of b \<Longrightarrow> a = b"
proof (induction a arbitrary: b)
  case Nil
  then show ?case by (cases b) auto
next
  case (Cons x a)
  then obtain y b' where b: "b = y # b'" by (cases b) auto
  with Cons.prems have "hex_digit (byte_of x div 16) = hex_digit (byte_of y div 16)"
    and "hex_digit (byte_of x mod 16) = hex_digit (byte_of y mod 16)" and "hex_of a = hex_of b'"
    by auto
  moreover have "byte_of x div 16 < 16" "byte_of y div 16 < 16"
    using byte_of_less [of x] byte_of_less [of y] by linarith+
  ultimately have "byte_of x div 16 = byte_of y div 16" "byte_of x mod 16 = byte_of y mod 16" "a = b'"
    using Cons.IH by (auto intro: hex_digit_inj)
  then show ?case using b byte_of_inj by (metis div_mult_mod_eq)
qed

definition sha_hex :: "(string \<Rightarrow> string) \<Rightarrow> string \<Rightarrow> string" where
  "sha_hex sha s = hex_of (sha s)"

text \<open>A collision: two different texts with one digest.\<close>

definition collision :: "(string \<Rightarrow> string) \<Rightarrow> string \<Rightarrow> string \<Rightarrow> bool" where
  "collision sha x y \<longleftrightarrow> x \<noteq> y \<and> sha x = sha y"

lemma sha_hex_eq: "sha_hex sha x = sha_hex sha y \<Longrightarrow> x = y \<or> collision sha x y"
  by (auto simp: sha_hex_def collision_def dest: hex_of_inj)

section \<open>Length-framed fields\<close>

text \<open>\<open>update_field\<close>: name and value, each after its length in eight big-endian bytes.\<close>

definition framed :: "string \<Rightarrow> string" where
  "framed s = be_bytes 8 (length s) @ s"

definition encode_field :: "string \<times> string \<Rightarrow> string" where
  "encode_field f = framed (fst f) @ framed (snd f)"

definition encode_fields :: "(string \<times> string) list \<Rightarrow> string" where
  "encode_fields fs = concat (map encode_field fs)"

definition field_fits :: "string \<times> string \<Rightarrow> bool" where
  "field_fits f \<longleftrightarrow> length (fst f) < 2 ^ 64 \<and> length (snd f) < 2 ^ 64"

lemma framed_append_inj:
  assumes "framed a @ x = framed b @ y" and "length a < 2 ^ 64" and "length b < 2 ^ 64"
  shows "a = b \<and> x = y"
proof -
  have "be_bytes 8 (length a) = be_bytes 8 (length b)" and r: "a @ x = b @ y"
    using assms(1) by (auto simp: framed_def append_eq_append_conv)
  moreover have "(256 :: nat) ^ 8 = 2 ^ 64" by simp
  ultimately have "length a = length b" using be_bytes_inj assms(2,3) by metis
  then show ?thesis using r by simp
qed

lemma encode_field_append_inj:
  "encode_field f @ x = encode_field g @ y \<Longrightarrow> field_fits f \<Longrightarrow> field_fits g \<Longrightarrow> f = g \<and> x = y"
  unfolding encode_field_def field_fits_def append_assoc
  by (metis framed_append_inj prod_eqI)

lemma encode_field_nonempty: "encode_field f \<noteq> []"
  by (simp add: encode_field_def framed_def flip: length_0_conv)

lemma encode_fields_inj:
  "encode_fields fs = encode_fields gs \<Longrightarrow> \<forall>f \<in> set fs. field_fits f \<Longrightarrow> \<forall>g \<in> set gs. field_fits g \<Longrightarrow> fs = gs"
proof (induction fs arbitrary: gs)
  case Nil
  then show ?case using encode_field_nonempty by (cases gs) (auto simp: encode_fields_def)
next
  case (Cons f fs)
  then obtain g gs' where g: "gs = g # gs'"
    using encode_field_nonempty by (cases gs) (auto simp: encode_fields_def)
  have "encode_field f @ encode_fields fs = encode_field g @ encode_fields gs'"
    using Cons.prems(1) g by (simp add: encode_fields_def)
  then have "f = g \<and> encode_fields fs = encode_fields gs'"
    using Cons.prems(2,3) g by (intro encode_field_append_inj) simp_all
  then show ?case using Cons g by simp
qed

text \<open>\<open>u64::to_be_bytes\<close> and \<open>Uuid::as_bytes\<close>.\<close>

definition u64_bytes :: "nat \<Rightarrow> string" where
  "u64_bytes n = be_bytes 8 n"

definition uuid_bytes :: "uuid \<Rightarrow> string" where
  "uuid_bytes u = be_bytes 16 (unat u)"

lemma uuid_bytes_inj: "uuid_bytes a = uuid_bytes b \<Longrightarrow> a = b"
proof -
  assume "uuid_bytes a = uuid_bytes b"
  moreover have "unat a < 256 ^ 16" "unat b < 256 ^ 16"
    using unsigned_less [of a, where ?'a = nat] unsigned_less [of b, where ?'a = nat] by simp_all
  ultimately have "unat a = unat b" unfolding uuid_bytes_def by (rule be_bytes_inj)
  then show ?thesis by (simp add: word_unat_eq_iff)
qed

lemma u64_bytes_inj: "u64_bytes a = u64_bytes b \<Longrightarrow> a < 2 ^ 64 \<Longrightarrow> b < 2 ^ 64 \<Longrightarrow> a = b"
  using be_bytes_inj [of 8 a b] by (simp add: u64_bytes_def)

text \<open>A text for UUIDs, used where an example needs one: their hexadecimal digits.\<close>

definition hex_uuid :: "uuid \<Rightarrow> string" where
  "hex_uuid u = hex_of (uuid_bytes u)"

lemma inj_hex_uuid: "inj hex_uuid"
  by (auto simp: inj_def hex_uuid_def dest: hex_of_inj uuid_bytes_inj)

lemma hex_digit_alphanumeric: "n < 16 \<Longrightarrow> is_ascii_alphanumeric (hex_digit n)"
  by (auto simp: hex_digit_def ascii_class_defs byte_of_def)

lemma hex_of_alphanumeric: "list_all is_ascii_alphanumeric (hex_of s)"
proof (induction s)
  case (Cons c s)
  have "byte_of c div 16 < 16" using byte_of_less [of c] by linarith
  then show ?case using Cons by (simp add: hex_digit_alphanumeric)
qed simp

lemma hex_uuid_alphanumeric: "list_all is_ascii_alphanumeric (hex_uuid u)"
  by (simp add: hex_uuid_def hex_of_alphanumeric)

lemma hex_uuid_nonempty: "hex_uuid u \<noteq> []"
proof -
  have "length (uuid_bytes u) = 16" by (simp add: uuid_bytes_def)
  then show ?thesis by (cases "uuid_bytes u") (auto simp: hex_uuid_def)
qed

lemma hex_uuid_no_newline: "CHR 0x0A \<notin> set (hex_uuid u)"
proof
  assume "CHR 0x0A \<in> set (hex_uuid u)"
  then have "is_ascii_alphanumeric (CHR 0x0A)" using hex_uuid_alphanumeric [of u] by (auto simp: list_all_iff)
  then show False by (simp add: ascii_class_defs)
qed

end
