(* ===== verification/Project_Detector.thy ===== *)
theory Project_Detector
  imports Rust_Paths "HOL-Library.Multiset"
begin

text \<open>
  \<open>crates/mentat-analysis/src/detector.rs\<close>: the summary of a repository from its file records. The
  iteration order of the \<open>HashMap\<close> of languages is a parameter, a rearrangement of its entries.
\<close>

record project_summary =
  ps_primary_language :: "string option"
  ps_languages :: "(string \<times> nat) list"
  ps_manifests :: "string list"
  ps_documents :: "string list"
  ps_test_files :: "string list"
  ps_entry_points :: "string list"
  ps_total_source_files :: nat
  ps_total_lines_of_code :: nat

definition opt_text :: "string option \<Rightarrow> string" where
  "opt_text x = (case x of Some s \<Rightarrow> s | None \<Rightarrow> [])"

definition detect_language :: "string \<Rightarrow> string option" where
  "detect_language p =
     (let ext = to_lowercase (opt_text (extension p)) in
      if ext = ''rs'' then Some ''Rust''
      else if ext \<in> set [''ts'', ''tsx''] then Some ''TypeScript''
      else if ext \<in> set [''js'', ''jsx'', ''mjs'', ''cjs''] then Some ''JavaScript''
      else if ext = ''py'' then Some ''Python''
      else if ext = ''go'' then Some ''Go''
      else if ext = ''java'' then Some ''Java''
      else if ext \<in> set [''kt'', ''kts''] then Some ''Kotlin''
      else if ext \<in> set [''cpp'', ''cc'', ''cxx'', ''c'', ''h'', ''hpp''] then Some ''C/C++''
      else if ext = ''cs'' then Some ''C#''
      else if ext = ''swift'' then Some ''Swift''
      else if ext = ''rb'' then Some ''Ruby''
      else if ext = ''php'' then Some ''PHP''
      else if ext \<in> set [''html'', ''css'', ''scss''] then Some ''Web/UI''
      else None)"

definition is_entry_point :: "string \<Rightarrow> bool" where
  "is_entry_point p \<longleftrightarrow> to_lowercase (opt_text (file_name p)) \<in>
     set [''main.rs'', ''lib.rs'', ''index.ts'', ''index.js'', ''main.py'', ''app.py'', ''main.go'',
          ''app.ts'', ''app.js'']"

definition is_test_file :: "string \<Rightarrow> bool" where
  "is_test_file p \<longleftrightarrow>
     (let s = to_lowercase p in
      contains s ''test'' \<or> contains s ''spec'' \<or> prefix ''tests'' s \<or> prefix ''test'' s)"

text \<open>\<open>*languages.entry(lang).or_insert(0) += 1\<close>.\<close>

fun bump :: "string \<Rightarrow> (string \<times> nat) list \<Rightarrow> (string \<times> nat) list" where
  "bump k [] = [(k, 1)]"
| "bump k ((k', n) # m) = (if k' = k then (k', n + 1) # m else (k', n) # bump k m)"

definition empty_summary :: project_summary where
  "empty_summary = \<lparr> ps_primary_language = None, ps_languages = [], ps_manifests = [],
     ps_documents = [], ps_test_files = [], ps_entry_points = [], ps_total_source_files = 0,
     ps_total_lines_of_code = 0 \<rparr>"

definition add_test_file :: "string \<Rightarrow> project_summary \<Rightarrow> project_summary" where
  "add_test_file p s = (if is_test_file p then s\<lparr>ps_test_files := ps_test_files s @ [p]\<rparr> else s)"

definition summarize_source :: "string \<Rightarrow> project_summary \<Rightarrow> project_summary" where
  "summarize_source p s =
     (let s1 = s\<lparr>ps_total_source_files := ps_total_source_files s + 1\<rparr>;
          s2 = (case detect_language p of None \<Rightarrow> s1
                | Some l \<Rightarrow> s1\<lparr>ps_languages := bump l (ps_languages s1)\<rparr>);
          s3 = (if is_entry_point p then s2\<lparr>ps_entry_points := ps_entry_points s2 @ [p]\<rparr> else s2)
      in add_test_file p s3)"

definition summarize_file :: "project_summary \<Rightarrow> file_record \<Rightarrow> project_summary" where
  "summarize_file s0 f =
     (let s = (case file_line_count f of
                 Some n \<Rightarrow> if file_kind f = SourceCode
                   then s0\<lparr>ps_total_lines_of_code := ps_total_lines_of_code s0 + n\<rparr> else s0
               | None \<Rightarrow> s0);
          p = file_path f
      in case file_kind f of
           SourceCode \<Rightarrow> summarize_source p s
         | Manifest \<Rightarrow> s\<lparr>ps_manifests := ps_manifests s @ [p]\<rparr>
         | Documentation \<Rightarrow> s\<lparr>ps_documents := ps_documents s @ [p]\<rparr>
         | _ \<Rightarrow> add_test_file p s)"

text \<open>\<open>max_by_key\<close> keeps the last of several maxima.\<close>

fun max_entry :: "(string \<times> nat) option \<Rightarrow> (string \<times> nat) list \<Rightarrow> (string \<times> nat) option" where
  "max_entry best [] = best"
| "max_entry None (e # es) = max_entry (Some e) es"
| "max_entry (Some b) (e # es) = max_entry (Some (if snd e \<ge> snd b then e else b)) es"

definition summarize ::
  "((string \<times> nat) list \<Rightarrow> (string \<times> nat) list) \<Rightarrow> file_record list \<Rightarrow> project_summary" where
  "summarize iter files =
     (let s = foldl summarize_file empty_summary files in
      s\<lparr>ps_primary_language := map_option fst (max_entry None (iter (ps_languages s)))\<rparr>)"

section \<open>Lemmas\<close>

lemma max_entry_max:
  "max_entry best es = Some m \<Longrightarrow>
     (best = Some m \<or> m \<in> set es) \<and> (\<forall>e \<in> set es. snd e \<le> snd m) \<and> (\<forall>b. best = Some b \<longrightarrow> snd b \<le> snd m)"
proof (induction best es rule: max_entry.induct)
  case (3 b e es)
  then have "((if snd e \<ge> snd b then e else b) = m \<or> m \<in> set es) \<and> (\<forall>x \<in> set es. snd x \<le> snd m)
      \<and> snd (if snd e \<ge> snd b then e else b) \<le> snd m" by simp
  then show ?case by (auto split: if_splits)
qed auto

lemma max_entry_None: "max_entry best es = None \<longleftrightarrow> best = None \<and> es = []"
  by (induction best es rule: max_entry.induct) auto

text \<open>The languages counted so far, as a function.\<close>

definition language_count :: "file_record list \<Rightarrow> string \<Rightarrow> nat" where
  "language_count files l =
     length (filter (\<lambda>f. file_kind f = SourceCode \<and> detect_language (file_path f) = Some l) files)"

definition entry_count :: "string \<Rightarrow> (string \<times> nat) list \<Rightarrow> nat" where
  "entry_count l m = (case map_of m l of Some n \<Rightarrow> n | None \<Rightarrow> 0)"

lemma bump_count: "entry_count l (bump k m) = (if l = k then entry_count l m + 1 else entry_count l m)"
  by (induction k m rule: bump.induct) (auto simp: entry_count_def)

lemma bump_keys: "distinct (map fst m) \<Longrightarrow> distinct (map fst (bump k m)) \<and> fst ` set (bump k m) = insert k (fst ` set m)"
  by (induction k m rule: bump.induct) auto

lemma summarize_file_languages:
  "ps_languages (summarize_file s f) =
     (if file_kind f = SourceCode
      then (case detect_language (file_path f) of None \<Rightarrow> ps_languages s | Some l \<Rightarrow> bump l (ps_languages s))
      else ps_languages s)"
  by (auto simp: summarize_file_def summarize_source_def add_test_file_def Let_def
      split: option.splits file_kind.splits)

lemma foldl_languages:
  "distinct (map fst (ps_languages s)) \<Longrightarrow>
     distinct (map fst (ps_languages (foldl summarize_file s files))) \<and>
     entry_count l (ps_languages (foldl summarize_file s files)) =
       entry_count l (ps_languages s) + language_count files l"
proof (induction files arbitrary: s)
  case Nil
  then show ?case by (simp add: language_count_def)
next
  case (Cons f files)
  have "distinct (map fst (ps_languages (summarize_file s f)))"
    using Cons.prems bump_keys by (simp add: summarize_file_languages split: option.splits)
  then show ?case
    using Cons.IH [of "summarize_file s f"]
    by (auto simp: summarize_file_languages bump_count language_count_def split: option.splits)
qed

section \<open>Properties\<close>

text \<open>
  The primary language of a repository is one with the largest number of source files,
  whatever the order in which the language table is iterated, and there is none exactly when no
  source file has a known language.
\<close>

theorem primary_language_is_most_frequent:
  assumes "\<And>m. mset (iter m) = mset m"
  shows "case ps_primary_language (summarize iter files) of
      None \<Rightarrow> ps_languages (summarize iter files) = []
    | Some l \<Rightarrow> \<forall>l'. language_count files l' \<le> language_count files l"
proof -
  let ?m = "ps_languages (foldl summarize_file empty_summary files)"
  have set: "set (iter ?m) = set ?m" using assms [of ?m] by (metis set_mset_mset)
  have d: "distinct (map fst ?m)" and c: "\<And>l. entry_count l ?m = language_count files l"
    using foldl_languages [of empty_summary] by (simp_all add: empty_summary_def entry_count_def)
  show ?thesis
  proof (cases "max_entry None (iter ?m)")
    case None
    then show ?thesis using set by (simp add: summarize_def Let_def max_entry_None)
  next
    case (Some e)
    then have e: "e \<in> set ?m" and mx: "\<forall>e' \<in> set ?m. snd e' \<le> snd e"
      using max_entry_max [of None "iter ?m" e] set by auto
    have n: "entry_count (fst e') ?m = snd e'" if "e' \<in> set ?m" for e'
      using map_of_is_SomeI [OF d, of "fst e'" "snd e'"] that by (simp add: entry_count_def)
    have "language_count files l' \<le> language_count files (fst e)" for l'
    proof (cases "map_of ?m l'")
      case None
      then show ?thesis using c [of l'] by (simp add: entry_count_def)
    next
      case (Some k)
      then have "(l', k) \<in> set ?m" by (rule map_of_SomeD)
      then show ?thesis using mx n e c by (metis fst_conv)
    qed
    then show ?thesis using Some by (simp add: summarize_def Let_def)
  qed
qed

lemma primary_language_is_most_frequent_witness:
  "case ps_primary_language (summarize rev []) of
     None \<Rightarrow> ps_languages (summarize rev []) = []
   | Some l \<Rightarrow> \<forall>l'. language_count [] l' \<le> language_count [] l"
  by (rule primary_language_is_most_frequent) simp

end
