(* ===== verification/Inference_Types.thy ===== *)
theory Inference_Types
  imports Rust_Paths
begin

text \<open>
  \<open>crates/mentat-inference\<close> (\<open>types.rs\<close>, \<open>lib.rs\<close>): providers, backend profiles and their URL check,
  the model catalogue, the requests and events of an inference round, and the default methods of
  the \<open>InferenceBackend\<close> trait. What \<open>url::Url::parse\<close> returns is a parameter, as are the JSON
  encoder and the streams of a backend, which are lists of events here.
\<close>

section \<open>JSON values\<close>

text \<open>\<open>serde_json::Value\<close>; the text of a number that is not an integer is kept as it is.\<close>

datatype json =
    JNull | JBool bool | JInt int | JFloat string | JStr string
  | JArr "json list" | JObj "(string \<times> json) list"

section \<open>Providers and profiles\<close>

datatype provider_kind =
  GoogleGemini | OpenRouter | OpenAi | OpenAICompatible | CustomCompatible | LocalMock

fun default_base_url :: "provider_kind \<Rightarrow> string" where
  "default_base_url GoogleGemini = ''https://generativelanguage.googleapis.com''"
| "default_base_url OpenRouter = ''https://openrouter.ai/api/v1''"
| "default_base_url OpenAi = ''https://api.openai.com/v1''"
| "default_base_url OpenAICompatible = ''https://api.openai.com/v1''"
| "default_base_url CustomCompatible = ''http://localhost:8080/v1''"
| "default_base_url LocalMock = ''http://localhost:8080/v1''"

definition requires_api_key :: "provider_kind \<Rightarrow> bool" where
  "requires_api_key p \<longleftrightarrow> p \<noteq> LocalMock"

record backend_profile =
  bp_id :: uuid
  bp_name :: string
  bp_provider :: provider_kind
  bp_base_url :: string
  bp_model :: string
  bp_api_key :: "string option"
  bp_timeout_secs :: u64

definition backend_profile_default :: "uuid \<Rightarrow> backend_profile" where
  "backend_profile_default i =
     \<lparr> bp_id = i, bp_name = ''Google Gemini Default'', bp_provider = GoogleGemini,
       bp_base_url = default_base_url GoogleGemini, bp_model = [], bp_api_key = None,
       bp_timeout_secs = 60 \<rparr>"

text \<open>The parts of a parsed URL the program reads.\<close>

record parsed_url =
  url_scheme :: string
  url_username :: string
  url_password :: "string option"
  url_host :: "string option"
  url_port :: "nat option"
  url_path :: string
  url_query :: "string option"
  url_fragment :: "string option"

type_synonym url_parser = "string \<Rightarrow> parsed_url option"

text \<open>\<open>BackendProfile::validate_url\<close>.\<close>

definition validate_url :: "url_parser \<Rightarrow> backend_profile \<Rightarrow> unit result" where
  "validate_url parse p =
     then_do (ok_or (parse (bp_base_url p)) (EgressViolation ''endpoint URL format'')) (\<lambda>u.
       if url_username u \<noteq> [] \<or> url_password u \<noteq> None
         then Inl (EgressViolation ''endpoint URL with userinfo'')
       else if url_scheme u = ''https'' then Inr ()
       else if url_scheme u = ''http'' then
         (case url_host u of
            Some host \<Rightarrow>
              (let h = to_lowercase host in
               if h = ''localhost'' \<or> h = ''127.0.0.1'' \<or> h = ''[::1]'' \<or> h = ''::1'' then Inr ()
               else Inl (EgressViolation ''plain HTTP beyond loopback''))
          | None \<Rightarrow> Inl (EgressViolation ''endpoint URL without host''))
       else Inl (EgressViolation ''unsupported scheme''))"

section \<open>Model catalogue\<close>

record available_model =
  am_id :: string
  am_display_name :: string

record model_catalog =
  mc_models :: "available_model list"
  mc_latency_ms :: "u64 option"

definition model_id_char :: "char \<Rightarrow> bool" where
  "model_id_char c \<longleftrightarrow> is_ascii_alphanumeric c \<or> c = CHR ''-'' \<or> c = CHR ''_''
     \<or> c = CHR ''.'' \<or> c = CHR ''/'' \<or> c = CHR '':''"

definition valid_model_id :: "string \<Rightarrow> bool" where
  "valid_model_id i \<longleftrightarrow> i \<noteq> [] \<and> length i \<le> 256 \<and> \<not> prefix ''/'' i
     \<and> \<not> contains i ''..'' \<and> list_all model_id_char i"

definition normalized_display :: "available_model \<Rightarrow> string" where
  "normalized_display m =
     (if is_blank (am_display_name m) then trim (am_id m) else trim (am_display_name m))"

text \<open>The loop of \<open>ModelCatalog::from_untrusted\<close>, with the set of identifiers already taken.\<close>

fun untrusted_models :: "string list \<Rightarrow> available_model list \<Rightarrow> available_model list" where
  "untrusted_models seen [] = []"
| "untrusted_models seen (m # ms) =
     (let i = trim (am_id m) in
      if \<not> valid_model_id i \<or> i \<in> set seen then untrusted_models seen ms
      else \<lparr> am_id = i, am_display_name = normalized_display m \<rparr> # untrusted_models (i # seen) ms)"

definition from_untrusted :: "available_model list \<Rightarrow> model_catalog" where
  "from_untrusted ms = \<lparr> mc_models = untrusted_models [] ms, mc_latency_ms = None \<rparr>"

definition with_latency :: "u64 \<Rightarrow> model_catalog \<Rightarrow> model_catalog" where
  "with_latency l c = c\<lparr>mc_latency_ms := Some l\<rparr>"

record model_verification =
  mv_compatible :: bool
  mv_message :: string
  mv_latency_ms :: "u64 option"

record health_status =
  hs_healthy :: bool
  hs_message :: string
  hs_latency_ms :: "u64 option"

section \<open>Requests, messages and events\<close>

record inference_request =
  ir_request_id :: uuid
  ir_system_contract :: string
  ir_prompt_context :: string
  ir_user_question :: string
  ir_profile :: backend_profile

datatype inference_event =
    IvStarted uuid
  | IvTextDelta string
  | IvThinkingDelta string
  | IvUsageUpdate nat nat
  | IvCompleted string
  | IvCancelled
  | IvFailed string string

record agent_capabilities =
  ac_chat :: bool
  ac_native_tool :: bool
  ac_emulated_tool :: bool
  ac_repository_advisor :: bool

definition CHAT_ONLY :: agent_capabilities where
  "CHAT_ONLY = \<lparr> ac_chat = True, ac_native_tool = False, ac_emulated_tool = False,
                 ac_repository_advisor = False \<rparr>"

record agent_limits =
  al_max_rounds :: u8
  al_max_tool_calls :: u16
  al_max_tool_result_bytes :: u32
  al_timeout_secs :: u64

definition agent_limits_default :: agent_limits where
  "agent_limits_default =
     \<lparr> al_max_rounds = 8, al_max_tool_calls = 24, al_max_tool_result_bytes = 262144,
       al_timeout_secs = 300 \<rparr>"

datatype agent_role = AgSystem | AgUser | AgAssistant | AgTool

datatype agent_message_content =
    MText string
  | MToolCalls "repository_tool_call list"
  | MToolResult repository_tool_result

text \<open>Message content and the opaque provider parts, which are only carried along.\<close>

record agent_message =
  am_role :: agent_role
  am_content :: agent_message_content
  am_provider_parts :: "json list option"

definition user_message :: "string \<Rightarrow> agent_message" where
  "user_message t = \<lparr> am_role = AgUser, am_content = MText t, am_provider_parts = None \<rparr>"

definition assistant_message :: "string \<Rightarrow> agent_message" where
  "assistant_message t = \<lparr> am_role = AgAssistant, am_content = MText t, am_provider_parts = None \<rparr>"

record tool_definition =
  td_name :: string
  td_schema_version :: string
  td_description :: string
  td_input_schema :: json

record repository_context =
  rc_repository_id :: uuid
  rc_snapshot_id :: uuid
  rc_snapshot_status :: snapshot_status
  rc_tools_available :: bool
  rc_display_name :: string

record agent_request =
  ar_request_id :: uuid
  ar_conversation_id :: uuid
  ar_turn_id :: uuid
  ar_profile :: backend_profile
  ar_system_prompt :: string
  ar_messages :: "agent_message list"
  ar_tools :: "tool_definition list"
  ar_repository_context :: "repository_context option"
  ar_response_contract :: response_contract
  ar_limits :: agent_limits

datatype round_event =
    RvProviderToolParts "json list"
  | RvStarted uuid
  | RvThinkingDelta string
  | RvTextDelta string
  | RvToolCallsRequested u8 "repository_tool_call list"
  | RvUsageUpdate nat nat
  | RvRawCompleted string
  | RvFailed string string

datatype completed_payload = AdvisorMarkdown string | ValidatedAuditBundle answer_bundle

datatype cancelled_payload = AdvisorPartialMarkdown string | AuditNoContent

datatype agent_event =
    EvStarted uuid
  | EvThinkingDelta string
  | EvTextDelta string
  | EvToolProgress u8 u16 u16
  | EvUsageUpdate nat nat
  | EvCompleted completed_payload "uuid option"
  | EvCancelled cancelled_payload
  | EvFailed string string

section \<open>Default methods of the backend trait\<close>

text \<open>\<open>rposition\<close> of the last user message.\<close>

definition last_user_index :: "agent_message list \<Rightarrow> nat option" where
  "last_user_index ms =
     (if \<exists>m \<in> set ms. am_role m = AgUser
      then Some (length ms - 1 - length (takeWhile (\<lambda>m. am_role m \<noteq> AgUser) (rev ms)))
      else None)"

fun round_event_of :: "inference_event \<Rightarrow> round_event" where
  "round_event_of (IvStarted i) = RvStarted i"
| "round_event_of (IvTextDelta d) = RvTextDelta d"
| "round_event_of (IvThinkingDelta d) = RvThinkingDelta d"
| "round_event_of (IvUsageUpdate p c) = RvUsageUpdate p c"
| "round_event_of (IvCompleted t) = RvRawCompleted t"
| "round_event_of IvCancelled = RvFailed ''CANCELLED'' ''request cancelled''"
| "round_event_of (IvFailed c m) = RvFailed c m"

definition infer_round_stream ::
  "(agent_message list \<Rightarrow> string option) \<Rightarrow> (inference_request \<Rightarrow> inference_event list result)
   \<Rightarrow> agent_request \<Rightarrow> round_event list result" where
  "infer_round_stream encode infer req =
     (if ar_tools req \<noteq> [] \<or> ar_repository_context req \<noteq> None
      then Inl (BackendError ''AGENT_TOOLS_UNSUPPORTED'')
      else then_do (ok_or (last_user_index (ar_messages req)) (BackendError ''AGENT_USER_MESSAGE_REQUIRED''))
       (\<lambda>i. case am_content (ar_messages req ! i) of
           MText q \<Rightarrow>
             then_do (ok_or (encode (take i (ar_messages req))) (BackendError ''AGENT_HISTORY_ENCODE_FAILED''))
              (\<lambda>history.
                then_do (infer \<lparr> ir_request_id = ar_request_id req,
                                 ir_system_contract = ar_system_prompt req,
                                 ir_prompt_context = history, ir_user_question = q,
                                 ir_profile = ar_profile req \<rparr>)
                 (\<lambda>events. Inr (map round_event_of events)))
         | _ \<Rightarrow> Inl (BackendError ''AGENT_USER_MESSAGE_INVALID'')))"

definition is_tool_result :: "agent_message \<Rightarrow> bool" where
  "is_tool_result m \<longleftrightarrow> (case am_content m of MToolResult _ \<Rightarrow> True | _ \<Rightarrow> False)"

definition infer_round_stream_guarded ::
  "(agent_message list \<Rightarrow> string option) \<Rightarrow> (inference_request \<Rightarrow> inference_event list result)
   \<Rightarrow> bool \<Rightarrow> agent_request \<Rightarrow> round_event list result" where
  "infer_round_stream_guarded encode infer has_gate req =
     (if (\<exists>m \<in> set (ar_messages req). is_tool_result m) \<and> requires_api_key (bp_provider (ar_profile req))
      then Inl (BackendError (if has_gate then ''AGENT_TOOLS_UNSUPPORTED'' else ''TOOL_EGRESS_GATE_REQUIRED''))
      else infer_round_stream encode infer req)"

definition estimate_tokens :: "string \<Rightarrow> nat" where
  "estimate_tokens t = (length t + 3) div 4"

section \<open>Lemmas\<close>

lemma untrusted_ids:
  "map am_id (untrusted_models seen ms) =
     filter (\<lambda>i. i \<notin> set seen) (rev (remdups (rev (filter valid_model_id (map (\<lambda>m. trim (am_id m)) ms)))))"
proof (induction seen ms rule: untrusted_models.induct)
  case (1 seen)
  then show ?case by simp
next
  case (2 seen m ms)
  let ?i = "trim (am_id m)"
  have r: "remdups (xs @ [x]) = filter (\<lambda>y. y \<noteq> x) (remdups xs) @ [x]" for x :: string and xs
    by (induction xs) auto
  show ?case
  proof (cases "\<not> valid_model_id ?i \<or> ?i \<in> set seen")
    case True
    then show ?thesis using 2(1) [OF refl True] by (auto simp: Let_def r rev_filter [symmetric] intro!: filter_cong)
  next
    case False
    then show ?thesis using 2(2) [OF refl False]
      by (auto simp: Let_def r rev_filter [symmetric] intro!: filter_cong)
  qed
qed

lemma untrusted_display:
  "m \<in> set (untrusted_models seen ms) \<Longrightarrow> am_display_name m \<noteq> []"
  by (induction seen ms rule: untrusted_models.induct)
     (auto simp: Let_def normalized_display_def is_blank_def valid_model_id_def split: if_splits)

lemma length_takeWhile_shorter: "\<exists>x \<in> set xs. \<not> P x \<Longrightarrow> length (takeWhile P xs) < length xs"
  by (induction xs) auto

lemma last_user_index_Some:
  assumes "last_user_index ms = Some i"
  shows "i < length ms \<and> am_role (ms ! i) = AgUser \<and> (\<forall>j. i < j \<longrightarrow> j < length ms \<longrightarrow> am_role (ms ! j) \<noteq> AgUser)"
proof -
  let ?t = "takeWhile (\<lambda>m. am_role m \<noteq> AgUser) (rev ms)"
  from assms have ex: "\<exists>m \<in> set (rev ms). am_role m = AgUser" and i: "i = length ms - 1 - length ?t"
    by (auto simp: last_user_index_def split: if_splits)
  have len: "length ?t < length ms"
    using ex length_takeWhile_shorter [of "rev ms"] by simp
  have "am_role (rev ms ! length ?t) = AgUser"
    using nth_length_takeWhile [of "\<lambda>m. am_role m \<noteq> AgUser" "rev ms"] len by simp
  then have "am_role (ms ! i) = AgUser" using len i by (simp add: rev_nth)
  moreover have "am_role (ms ! j) \<noteq> AgUser" if "i < j" "j < length ms" for j
  proof -
    have "length ms - 1 - j < length ?t" using that i len by linarith
    moreover have "rev ms ! (length ms - 1 - j) = ms ! j" using that by (simp add: rev_nth)
    ultimately show ?thesis
      by (metis (mono_tags, lifting) nth_mem set_takeWhileD takeWhile_nth)
  qed
  ultimately show ?thesis using i len by simp
qed

lemma infer_round_stream_Inr:
  assumes "infer_round_stream encode infer req = Inr evs"
  shows "\<exists>i q history inner. last_user_index (ar_messages req) = Some i
    \<and> am_content (ar_messages req ! i) = MText q \<and> encode (take i (ar_messages req)) = Some history
    \<and> infer \<lparr> ir_request_id = ar_request_id req, ir_system_contract = ar_system_prompt req,
              ir_prompt_context = history, ir_user_question = q, ir_profile = ar_profile req \<rparr> = Inr inner
    \<and> evs = map round_event_of inner"
proof -
  obtain i where i: "last_user_index (ar_messages req) = Some i"
    using assms by (auto simp: infer_round_stream_def split: if_splits)
  show ?thesis
    using assms i by (cases "am_content (ar_messages req ! i)")
      (auto simp: infer_round_stream_def split: if_splits)
qed

section \<open>Properties\<close>

text \<open>
  The catalogue built from provider data holds exactly the valid trimmed identifiers of the
  input, each once and in the order of its first occurrence, and every entry has a display name.
\<close>

theorem catalog_ids_exact:
  "map am_id (mc_models (from_untrusted ms)) =
     rev (remdups (rev (filter valid_model_id (map (\<lambda>m. trim (am_id m)) ms))))
   \<and> list_all (\<lambda>m. am_display_name m \<noteq> []) (mc_models (from_untrusted ms))"
  using untrusted_display by (auto simp: from_untrusted_def untrusted_ids list_all_iff)

text \<open>
  A backend URL is accepted exactly when it parses, carries no user information, and is either
  HTTPS or plain HTTP to one of the four loopback names.
\<close>

theorem validate_url_exact:
  "validate_url parse p = Inr () \<longleftrightarrow>
     (\<exists>u. parse (bp_base_url p) = Some u \<and> url_username u = [] \<and> url_password u = None \<and>
       (url_scheme u = ''https'' \<or>
        url_scheme u = ''http'' \<and>
        (\<exists>h. url_host u = Some h \<and>
           to_lowercase h \<in> {''localhost'', ''127.0.0.1'', ''[::1]'', ''::1''})))"
  by (cases "parse (bp_base_url p)")
     (auto simp: validate_url_def Let_def split: option.splits if_splits)

text \<open>
  The default round method of a backend produces events only for a request without tools,
  repository context and (for an external provider) tool results; the question it sends is the
  text of the last user message, and the history holds only the messages before it.
\<close>

theorem default_round_sends_last_question:
  assumes "infer_round_stream_guarded encode infer gate req = Inr evs"
  shows "\<exists>i q history inner. i < length (ar_messages req)
      \<and> am_role (ar_messages req ! i) = AgUser \<and> am_content (ar_messages req ! i) = MText q
      \<and> (\<forall>j. i < j \<longrightarrow> j < length (ar_messages req) \<longrightarrow> am_role (ar_messages req ! j) \<noteq> AgUser)
      \<and> encode (take i (ar_messages req)) = Some history
      \<and> infer \<lparr> ir_request_id = ar_request_id req, ir_system_contract = ar_system_prompt req,
                ir_prompt_context = history, ir_user_question = q, ir_profile = ar_profile req \<rparr> = Inr inner
      \<and> evs = map round_event_of inner
      \<and> ar_tools req = [] \<and> ar_repository_context req = None
      \<and> ((\<exists>m \<in> set (ar_messages req). is_tool_result m) \<longrightarrow> bp_provider (ar_profile req) = LocalMock)"
proof -
  obtain i q history inner where l: "last_user_index (ar_messages req) = Some i"
    and "am_content (ar_messages req ! i) = MText q"
    and "encode (take i (ar_messages req)) = Some history"
    and "infer \<lparr> ir_request_id = ar_request_id req, ir_system_contract = ar_system_prompt req,
                ir_prompt_context = history, ir_user_question = q, ir_profile = ar_profile req \<rparr> = Inr inner"
    and "evs = map round_event_of inner"
    using that infer_round_stream_Inr [of encode infer req evs] assms
    by (auto simp: infer_round_stream_guarded_def split: if_splits)
  moreover have "ar_tools req = [] \<and> ar_repository_context req = None
      \<and> ((\<exists>m \<in> set (ar_messages req). is_tool_result m) \<longrightarrow> bp_provider (ar_profile req) = LocalMock)"
    using assms by (auto simp: infer_round_stream_guarded_def infer_round_stream_def
        requires_api_key_def split: if_splits)
  ultimately show ?thesis using last_user_index_Some [OF l] by blast
qed

section \<open>Witness\<close>

definition sample_request :: agent_request where
  "sample_request =
     \<lparr> ar_request_id = 1, ar_conversation_id = 2, ar_turn_id = 3,
       ar_profile = backend_profile_default 4, ar_system_prompt = ''s'',
       ar_messages = [user_message ''old'', assistant_message ''reply'', user_message ''question''],
       ar_tools = [], ar_repository_context = None, ar_response_contract = ContractAdvisor,
       ar_limits = agent_limits_default \<rparr>"

definition sample_infer :: "inference_request \<Rightarrow> inference_event list result" where
  "sample_infer r = Inr [IvTextDelta (ir_user_question r), IvCompleted (ir_prompt_context r)]"

lemma sample_round:
  "infer_round_stream_guarded (\<lambda>ms. Some ''h'') sample_infer False sample_request =
     Inr [RvTextDelta ''question'', RvRawCompleted ''h'']"
  by (simp add: infer_round_stream_guarded_def infer_round_stream_def sample_request_def
      last_user_index_def user_message_def assistant_message_def is_tool_result_def sample_infer_def
      backend_profile_default_def requires_api_key_def)

lemma default_round_sends_last_question_witness:
  "\<exists>i q. i < length (ar_messages sample_request)
      \<and> am_role (ar_messages sample_request ! i) = AgUser
      \<and> am_content (ar_messages sample_request ! i) = MText q"
  using default_round_sends_last_question [OF sample_round] by blast

end
