(* ===== verification/Answer_Bundle.thy ===== *)
theory Answer_Bundle
  imports Rust_Paths
begin

text \<open>
  \<open>crates/mentat-analysis/src/answer_bundle.rs\<close>: the contract given to the model, the validation of
  the citations of its answer against the snapshot, and the answer text composed from the claims
  that survive. \<open>serde_json::from_str\<close> for an answer bundle and the two-decimal text of an \<open>f32\<close>
  are parameters. Korean output text is given by its UTF-8 bytes.
\<close>

definition utf8 :: "nat list \<Rightarrow> string" where
  "utf8 bs = map char_of bs"

section \<open>The contract text\<close>

definition system_contract :: "string \<Rightarrow> string" where
  "system_contract snapshot = join [CHR 0x0A]
     [''You are Code Mentat, a strict read-only repository advisor.'',
      ''Respond with a single JSON AnswerBundle object and no markdown wrapper.'',
      ''Required schema:'',
      ''{'',
      ''  \"request_id\": \"<uuid>\",'',
      ''  \"snapshot_id\": \"'' @ snapshot @ ''\",'',
      ''  \"direct_answer\": \"<string>\",'',
      ''  \"claims\": [{'',
      ''    \"id\": \"<uuid>\",'',
      ''    \"classification\": \"Observed|Inferred|Proposed|Conflict|Unknown\",'',
      ''    \"statement\": \"<string>\",'',
      ''    \"confidence\": 0.0,'',
      ''    \"evidence_ids\": [\"<uuid>\"],'',
      ''    \"rationale\": \"<string or null>\"'',
      ''  }],'',
      ''  \"evidence_map\": [{'',
      ''    \"id\": \"<uuid>\",'',
      ''    \"snapshot_id\": \"'' @ snapshot @ ''\",'',
      ''    \"relative_path\": \"<path from catalog>\",'',
      ''    \"line_start\": 1,'',
      ''    \"line_end\": 1,'',
      ''    \"content_hash\": \"<exact catalog hash>\",'',
      ''    \"excerpt\": \"<verbatim lines from provided file body>\"'',
      ''  }],'',
      ''  \"recommendations\": [],'',
      ''  \"conflicts\": [],'',
      ''  \"raw_model_response\": null'',
      ''}'',
      ''Use only catalog paths, the current snapshot_id, and the provided content_hash values.'',
      ''If evidence is missing, classify the claim as Unknown. Do not invent files or hashes.'']"

section \<open>Citations\<close>

type_synonym text_map = "(string \<times> string) list"

text \<open>A \<open>HashMap<PathBuf, String>\<close> as a list of entries; keys are compared as paths.\<close>

definition text_get :: "string \<Rightarrow> text_map \<Rightarrow> string option" where
  "text_get p m = map_option snd (List.find (\<lambda>kv. path_eq (fst kv) p) m)"

text \<open>\<open>replace("\\r\\n", "\\n")\<close>.\<close>

fun crlf_to_lf :: "string \<Rightarrow> string" where
  "crlf_to_lf [] = []"
| "crlf_to_lf [c] = [c]"
| "crlf_to_lf (c # d # s) =
     (if c = CHR 0x0D \<and> d = CHR 0x0A then d # crlf_to_lf s else c # crlf_to_lf (d # s))"

definition excerpt_matches_range :: "string \<Rightarrow> nat \<Rightarrow> nat \<Rightarrow> string \<Rightarrow> bool" where
  "excerpt_matches_range source line_start line_end excerpt =
     (if is_blank excerpt then False
      else let ls = lines source in
        if line_start = 0 \<or> line_start > length ls then False
        else let start_idx = line_start - 1; end_idx = min line_end (length ls) in
          if start_idx \<ge> end_idx then False
          else let ranged = join [CHR 0x0A] (take (end_idx - start_idx) (drop start_idx ls));
                   excerpt_norm = trim (crlf_to_lf excerpt);
                   ranged_norm = crlf_to_lf ranged
               in trim ranged_norm = excerpt_norm \<or> contains ranged_norm excerpt_norm)"

definition citation_is_valid ::
  "evidence_ref \<Rightarrow> uuid \<Rightarrow> file_record list \<Rightarrow> text_map \<Rightarrow> bool" where
  "citation_is_valid ev snapshot files texts =
     (if ev_snapshot_id ev \<noteq> 0 \<and> ev_snapshot_id ev \<noteq> snapshot then False
      else case List.find (\<lambda>f. path_eq (file_path f) (ev_path ev)) files of
        None \<Rightarrow> False
      | Some f \<Rightarrow>
          if ev_content_hash ev \<noteq> file_content_hash f then False
          else if ev_line_start ev = 0 \<or> ev_line_end ev < ev_line_start ev then False
          else if (case file_line_count f of None \<Rightarrow> False
                   | Some n \<Rightarrow> ev_line_start ev > n \<or> ev_line_end ev > n) then False
          else case (case text_get (ev_path ev) texts of
                       Some t \<Rightarrow> Some t | None \<Rightarrow> file_text_preview f) of
              None \<Rightarrow> False
            | Some source \<Rightarrow>
                excerpt_matches_range source (ev_line_start ev) (ev_line_end ev) (ev_excerpt ev))"

section \<open>Validation of a bundle\<close>

definition invalid_mark :: string where "invalid_mark = ''[INVALID_CITATION]''"

text \<open>An evidence is rejected when its id is not unique in the bundle or its citation is not valid.\<close>

definition evidence_rejected ::
  "evidence_ref list \<Rightarrow> uuid \<Rightarrow> file_record list \<Rightarrow> text_map \<Rightarrow> evidence_ref \<Rightarrow> bool" where
  "evidence_rejected evs snapshot files texts ev \<longleftrightarrow>
     count_list (map ev_id evs) (ev_id ev) \<noteq> 1 \<or> \<not> citation_is_valid ev snapshot files texts"

definition mark_evidence :: "uuid \<Rightarrow> bool \<Rightarrow> evidence_ref \<Rightarrow> evidence_ref" where
  "mark_evidence snapshot rejected ev =
     (let ev' = (if rejected \<and> \<not> prefix invalid_mark (ev_excerpt ev)
                 then ev\<lparr>ev_excerpt := invalid_mark @ '' '' @ ev_excerpt ev\<rparr> else ev)
      in ev'\<lparr>ev_snapshot_id := snapshot\<rparr>)"

fun confidence_ok :: "f32 \<Rightarrow> bool" where
  "confidence_ok (F32 r) \<longleftrightarrow> 0 \<le> r \<and> r \<le> 1"
| "confidence_ok (F32Inf b) \<longleftrightarrow> False"
| "confidence_ok F32NaN \<longleftrightarrow> False"

text \<open>The loop body for one claim, given the rejected ids and all evidence ids.\<close>

definition validate_claim :: "uuid list \<Rightarrow> uuid list \<Rightarrow> claim \<Rightarrow> claim" where
  "validate_claim invalid known c =
     (let usable = (\<lambda>i. i \<notin> set invalid \<and> i \<in> set known);
          has_duplicate = (\<not> distinct (claim_evidence_ids c));
          has_invalid = (\<exists>i \<in> set (claim_evidence_ids c). \<not> usable i);
          ids = remdups_adj (sort (filter usable (claim_evidence_ids c)));
          missing = (claim_classification c \<noteq> Unknown \<and> ids = []);
          bad_confidence = (\<not> confidence_ok (claim_confidence c));
          c' = c\<lparr>claim_evidence_ids := ids\<rparr>
      in if has_invalid \<or> has_duplicate \<or> missing \<or> bad_confidence
         then c'\<lparr>claim_classification := Unknown, claim_confidence := F32 0,
                 claim_rationale := Some (if bad_confidence then ''INVALID_CONFIDENCE''
                   else if has_duplicate then ''DUPLICATE_EVIDENCE''
                   else if missing then ''EVIDENCE_REQUIRED''
                   else ''INVALID_CITATION'')\<rparr>
         else c')"

definition conflict_kept :: "uuid list \<Rightarrow> uuid list \<Rightarrow> conflict_item \<Rightarrow> bool" where
  "conflict_kept invalid known cf \<longleftrightarrow>
     cf_evidence_ids cf \<noteq> [] \<and> distinct (cf_evidence_ids cf)
     \<and> (\<forall>i \<in> set (cf_evidence_ids cf). i \<notin> set invalid \<and> i \<in> set known)"

definition validate_citations ::
  "uuid \<Rightarrow> file_record list \<Rightarrow> text_map \<Rightarrow> answer_bundle \<Rightarrow> answer_bundle" where
  "validate_citations snapshot files texts b =
     (let evs = ab_evidence_map b;
          rejected = evidence_rejected evs snapshot files texts;
          invalid = map ev_id (filter rejected evs);
          known = map ev_id evs
      in b\<lparr>ab_snapshot_id := snapshot,
           ab_evidence_map := map (\<lambda>ev. mark_evidence snapshot (rejected ev) ev) evs,
           ab_claims := map (validate_claim invalid known) (ab_claims b),
           ab_conflicts := filter (conflict_kept invalid known) (ab_conflicts b)\<rparr>)"

section \<open>The answer text\<close>

definition no_answer_text :: string where
  "no_answer_text = utf8
     [234, 178, 128, 236, 166, 157, 235, 144, 156, 32, 234, 183, 188, 234, 177, 176, 32, 234,
      184, 176, 235, 176, 152, 32, 235, 139, 181, 235, 179, 128, 236, 157, 132, 32, 236, 131,
      157, 236, 132, 177, 237, 149, 160, 32, 236, 136, 152, 32, 236, 151, 134, 236, 138, 181,
      235, 139, 136, 235, 139, 164, 46, 32, 235, 170, 168, 235, 141, 184, 32, 236, 155, 144,
      235, 172, 184, 236, 157, 128, 32, 234, 178, 128, 236, 166, 157, 235, 144, 152, 236, 167,
      128, 32, 236, 149, 138, 236, 157, 128, 32, 236, 167, 132, 235, 139, 168, 32, 235, 141,
      176, 236, 157, 180, 237, 132, 176, 235, 161, 156, 235, 167, 140, 32, 235, 179, 180, 236,
      161, 180, 235, 144, 152, 236, 151, 136, 236, 138, 181, 235, 139, 136, 235, 139, 164, 46]"

definition answer_heading :: string where
  "answer_heading = utf8
     [234, 178, 128, 236, 166, 157, 235, 144, 156, 32, 236, 163, 188, 236, 158, 165, 32, 234,
      184, 176, 235, 176, 152, 32, 235, 139, 181, 235, 179, 128, 58, 10]"

definition unstructured_statement :: string where
  "unstructured_statement = utf8
     [235, 170, 168, 235, 141, 184, 32, 236, 157, 145, 235, 139, 181, 236, 157, 180, 32, 234,
      181, 172, 236, 161, 176, 237, 153, 148, 235, 144, 156, 32, 65, 110, 115, 119, 101, 114,
      66, 117, 110, 100, 108, 101, 236, 157, 180, 32, 236, 149, 132, 235, 139, 153, 235, 139,
      136, 235, 139, 164, 46]"

definition confidence_label :: string where
  "confidence_label = utf8 [32, 40, 236, 139, 160, 235, 162, 176, 235, 143, 132, 32]"

definition evidence_label :: string where
  "evidence_label = utf8 [44, 32, 234, 183, 188, 234, 177, 176, 32]"

definition count_label :: string where
  "count_label = utf8 [234, 177, 180, 41]"

fun classification_text :: "claim_classification \<Rightarrow> string" where
  "classification_text Observed = ''OBSERVED''"
| "classification_text Inferred = ''INFERRED''"
| "classification_text Proposed = ''PROPOSED''"
| "classification_text Conflict = ''CONFLICT''"
| "classification_text Unknown = []"

definition claim_line :: "(f32 \<Rightarrow> string) \<Rightarrow> claim \<Rightarrow> string" where
  "claim_line fmt c =
     ''- ['' @ classification_text (claim_classification c) @ ''] '' @ claim_statement c
       @ confidence_label @ fmt (claim_confidence c) @ evidence_label
       @ show_nat (length (claim_evidence_ids c)) @ count_label"

definition compose_verified_answer :: "(f32 \<Rightarrow> string) \<Rightarrow> claim list \<Rightarrow> string" where
  "compose_verified_answer fmt cs =
     (let ls = map (claim_line fmt) (filter (\<lambda>c. claim_classification c \<noteq> Unknown) cs) in
      if ls = [] then no_answer_text else answer_heading @ join [CHR 0x0A] ls)"

section \<open>From model text to a bundle\<close>

text \<open>\<open>find('{')\<close> to \<open>rfind('}')\<close>, or the body of the first fenced JSON block.\<close>

definition rfind_char :: "char \<Rightarrow> string \<Rightarrow> nat option" where
  "rfind_char c s = map_option (\<lambda>i. length s - 1 - i) (find_char (\<lambda>x. x = c) (rev s))"

definition braces_object :: "string \<Rightarrow> string option" where
  "braces_object t =
     (case find_char (\<lambda>c. c = CHR ''{'') t of None \<Rightarrow> None
      | Some s \<Rightarrow>
        (case rfind_char (CHR ''}'') t of None \<Rightarrow> None
         | Some e \<Rightarrow> if e > s then Some (take (e + 1 - s) (drop s t)) else None))"

definition extract_json_object :: "string \<Rightarrow> string option" where
  "extract_json_object t =
     (case find_sub ''```json'' t of
        Some start \<Rightarrow>
          (case find_sub ''```'' (drop (start + 7) t) of
             Some rel_end \<Rightarrow> Some (trim (take rel_end (drop (start + 7) t)))
           | None \<Rightarrow> braces_object t)
      | None \<Rightarrow> braces_object t)"

definition try_parse_bundle :: "(string \<Rightarrow> answer_bundle option) \<Rightarrow> string \<Rightarrow> answer_bundle option" where
  "try_parse_bundle parse full_text =
     (let trimmed = trim full_text in
      case parse trimmed of
        Some b \<Rightarrow> Some b
      | None \<Rightarrow> (case extract_json_object trimmed of None \<Rightarrow> None | Some j \<Rightarrow> parse j))"

definition from_model_text_with_contents ::
  "(string \<Rightarrow> answer_bundle option) \<Rightarrow> (f32 \<Rightarrow> string) \<Rightarrow> uuid \<Rightarrow> uuid \<Rightarrow> uuid \<Rightarrow> string
   \<Rightarrow> file_record list \<Rightarrow> text_map \<Rightarrow> answer_bundle" where
  "from_model_text_with_contents parse fmt fresh_id request snapshot full_text files texts =
     (case try_parse_bundle parse full_text of
        Some b0 \<Rightarrow>
          (let b = validate_citations snapshot files texts
                     (b0\<lparr>ab_request_id := request, ab_snapshot_id := snapshot,
                         ab_raw_model_response := Some full_text\<rparr>)
           in b\<lparr>ab_direct_answer := compose_verified_answer fmt (ab_claims b)\<rparr>)
      | None \<Rightarrow>
          \<lparr> ab_request_id = request, ab_snapshot_id = snapshot, ab_direct_answer = no_answer_text,
            ab_claims = [\<lparr> claim_id = fresh_id, claim_classification = Unknown,
              claim_statement = unstructured_statement, claim_confidence = F32 0,
              claim_evidence_ids = [], claim_rationale = Some ''UNSTRUCTURED_RESPONSE'' \<rparr>],
            ab_evidence_map = [], ab_recommendations = [], ab_conflicts = [],
            ab_raw_model_response = Some full_text \<rparr>)"

definition from_model_text ::
  "(string \<Rightarrow> answer_bundle option) \<Rightarrow> (f32 \<Rightarrow> string) \<Rightarrow> uuid \<Rightarrow> uuid \<Rightarrow> uuid \<Rightarrow> string
   \<Rightarrow> file_record list \<Rightarrow> answer_bundle" where
  "from_model_text parse fmt fresh_id request snapshot full_text files =
     from_model_text_with_contents parse fmt fresh_id request snapshot full_text files []"

section \<open>Lemmas\<close>

lemma trim_start_suffix: "suffix (trim_start s) s"
proof (induction s rule: trim_start.induct)
  case (1 s)
  show ?case
  proof (cases "ws_len s = 0")
    case True
    then show ?thesis by (simp add: trim_start.simps)
  next
    case False
    then have "suffix (trim_start (drop (ws_len s) s)) (drop (ws_len s) s)" using 1 by simp
    then show ?thesis using False
      by (subst trim_start.simps) (simp, meson suffix_drop suffix_order.trans)
  qed
qed

lemma trim_end_prefix: "prefix (trim_end s) s"
proof (induction s rule: trim_end.induct)
  case (1 s)
  show ?case
  proof (cases "ws_len_end s = 0")
    case True
    then show ?thesis by (simp add: trim_end.simps)
  next
    case False
    then show ?thesis using 1
      by (subst trim_end.simps) (simp, meson take_is_prefix prefix_order.trans)
  qed
qed

lemma trim_sublist: "sublist (trim s) s"
  unfolding trim_def
  by (meson trim_start_suffix trim_end_prefix prefix_imp_sublist suffix_imp_sublist sublist_order.order.trans)

text \<open>A valid citation quotes the cited lines of the cited file.\<close>

lemma excerpt_matches_range_sublist:
  assumes "excerpt_matches_range source a b excerpt"
  shows "1 \<le> a \<and> a \<le> length (lines source) \<and> a \<le> min b (length (lines source)) \<and>
    sublist (trim (crlf_to_lf excerpt))
      (crlf_to_lf (join [CHR 0x0A] (take (min b (length (lines source)) - (a - 1)) (drop (a - 1) (lines source)))))"
  using assms trim_sublist
  by (auto simp: excerpt_matches_range_def Let_def contains_iff_sublist split: if_splits)
     (metis trim_sublist)+

definition claim_verified ::
  "uuid \<Rightarrow> file_record list \<Rightarrow> text_map \<Rightarrow> evidence_ref list \<Rightarrow> claim \<Rightarrow> bool" where
  "claim_verified snapshot files texts evs c \<longleftrightarrow>
     claim_evidence_ids c \<noteq> [] \<and> distinct (claim_evidence_ids c) \<and> confidence_ok (claim_confidence c)
     \<and> (\<forall>i \<in> set (claim_evidence_ids c). count_list (map ev_id evs) i = 1
          \<and> (\<exists>ev \<in> set evs. ev_id ev = i \<and> citation_is_valid ev snapshot files texts))"

lemma usable_evidence:
  assumes "i \<notin> set (map ev_id (filter (evidence_rejected evs snapshot files texts) evs))"
    and "i \<in> set (map ev_id evs)"
  shows "count_list (map ev_id evs) i = 1
    \<and> (\<exists>ev \<in> set evs. ev_id ev = i \<and> citation_is_valid ev snapshot files texts)"
  using assms by (auto simp: evidence_rejected_def)

lemma validate_claim_kept:
  assumes "claim_classification (validate_claim invs known c) \<noteq> Unknown"
  shows "\<exists>ids. ids = remdups_adj (sort (filter (\<lambda>i. i \<notin> set invs \<and> i \<in> set known) (claim_evidence_ids c)))
    \<and> ids \<noteq> [] \<and> confidence_ok (claim_confidence c)
    \<and> validate_claim invs known c = c\<lparr>claim_evidence_ids := ids\<rparr>"
proof -
  define ids where
    "ids = remdups_adj (sort (filter (\<lambda>i. i \<notin> set invs \<and> i \<in> set known) (claim_evidence_ids c)))"
  define bad where "bad \<longleftrightarrow> (\<exists>i \<in> set (claim_evidence_ids c). \<not> (i \<notin> set invs \<and> i \<in> set known))
    \<or> \<not> distinct (claim_evidence_ids c)"
  obtain why where u: "validate_claim invs known c =
      (if bad \<or> claim_classification c \<noteq> Unknown \<and> ids = [] \<or> \<not> confidence_ok (claim_confidence c)
       then c\<lparr>claim_evidence_ids := ids, claim_classification := Unknown, claim_confidence := F32 0,
              claim_rationale := why\<rparr>
       else c\<lparr>claim_evidence_ids := ids\<rparr>)"
    by (simp only: validate_claim_def Let_def ids_def [symmetric] disj_assoc bad_def)
  then show ?thesis using assms ids_def by (auto split: if_splits)
qed

lemma validate_claim_verified:
  assumes "claim_classification
      (validate_claim (map ev_id (filter (evidence_rejected evs snapshot files texts) evs)) (map ev_id evs) c)
      \<noteq> Unknown"
  shows "claim_verified snapshot files texts evs
      (validate_claim (map ev_id (filter (evidence_rejected evs snapshot files texts) evs)) (map ev_id evs) c)"
proof -
  let ?inv = "map ev_id (filter (evidence_rejected evs snapshot files texts) evs)"
  let ?ids = "remdups_adj (sort (filter (\<lambda>i. i \<notin> set ?inv \<and> i \<in> set (map ev_id evs)) (claim_evidence_ids c)))"
  have "validate_claim ?inv (map ev_id evs) c = c\<lparr>claim_evidence_ids := ?ids\<rparr>"
    and "?ids \<noteq> []" and "confidence_ok (claim_confidence c)"
    using validate_claim_kept [OF assms] by auto
  moreover have "distinct ?ids" by (simp add: distinct_remdups_adj_sort)
  moreover have "\<forall>i \<in> set ?ids. count_list (map ev_id evs) i = 1
      \<and> (\<exists>ev \<in> set evs. ev_id ev = i \<and> citation_is_valid ev snapshot files texts)"
    using usable_evidence [of _ evs snapshot files texts] by simp
  ultimately show ?thesis by (simp add: claim_verified_def)
qed

lemma validate_citations_claims:
  assumes "c \<in> set (ab_claims (validate_citations snapshot files texts b))"
    and "claim_classification c \<noteq> Unknown"
  shows "claim_verified snapshot files texts (ab_evidence_map b) c"
  using assms validate_claim_verified by (auto simp: validate_citations_def Let_def)

section \<open>Properties\<close>

text \<open>
  After validation, a claim that is still classified other than Unknown has evidence, without
  duplicates, and a finite confidence between 0 and 1; each of its evidence ids names exactly one
  evidence of the bundle, whose citation is valid for the current snapshot.
\<close>

theorem classified_claims_are_verified:
  assumes "c \<in> set (ab_claims (validate_citations snapshot files texts b))"
    and "claim_classification c \<noteq> Unknown"
  shows "claim_verified snapshot files texts (ab_evidence_map b) c"
  using assms by (rule validate_citations_claims)

text \<open>
  A citation accepted as valid names a file of the snapshot with the same content hash, a
  range of at least one line within it, and an excerpt that occurs (up to line ends and outer white
  space) in exactly those lines of the text that was shown for the file.
\<close>

theorem valid_citation_quotes_source:
  assumes "citation_is_valid ev snapshot files texts"
  shows "\<exists>f \<in> set files. \<exists>source.
      path_eq (file_path f) (ev_path ev) \<and> ev_content_hash ev = file_content_hash f
      \<and> (text_get (ev_path ev) texts = Some source
         \<or> text_get (ev_path ev) texts = None \<and> file_text_preview f = Some source)
      \<and> 1 \<le> ev_line_start ev \<and> ev_line_start ev \<le> ev_line_end ev
      \<and> ev_line_start ev \<le> length (lines source)
      \<and> sublist (trim (crlf_to_lf (ev_excerpt ev)))
          (crlf_to_lf (join [CHR 0x0A]
            (take (min (ev_line_end ev) (length (lines source)) - (ev_line_start ev - 1))
              (drop (ev_line_start ev - 1) (lines source)))))"
proof -
  obtain f where f: "List.find (\<lambda>f. path_eq (file_path f) (ev_path ev)) files = Some f"
    and "ev_content_hash ev = file_content_hash f" and "\<not> ev_line_end ev < ev_line_start ev"
    and s: "\<exists>source. (case text_get (ev_path ev) texts of Some t \<Rightarrow> Some t | None \<Rightarrow> file_text_preview f)
           = Some source \<and> excerpt_matches_range source (ev_line_start ev) (ev_line_end ev) (ev_excerpt ev)"
    using assms by (auto simp: citation_is_valid_def split: if_splits option.splits)
  obtain source where "(case text_get (ev_path ev) texts of Some t \<Rightarrow> Some t | None \<Rightarrow> file_text_preview f)
        = Some source"
    and m: "excerpt_matches_range source (ev_line_start ev) (ev_line_end ev) (ev_excerpt ev)"
    using s by blast
  then have "text_get (ev_path ev) texts = Some source
         \<or> text_get (ev_path ev) texts = None \<and> file_text_preview f = Some source"
    by (auto split: option.splits)
  moreover have "f \<in> set files \<and> path_eq (file_path f) (ev_path ev)"
    using find_Some_set [OF f] .
  ultimately show ?thesis
    using excerpt_matches_range_sublist [OF m] \<open>ev_content_hash ev = file_content_hash f\<close>
      \<open>\<not> ev_line_end ev < ev_line_start ev\<close> by auto
qed

text \<open>
  C39: The answer shown for a model response is either the fixed refusal text or the heading
  followed by lines of verified claims only; free text of the model never becomes the answer.
\<close>

theorem answer_text_only_from_verified_claims:
  "ab_direct_answer (from_model_text_with_contents parse fmt i request snapshot full_text files texts) = no_answer_text
   \<or> (\<exists>b. try_parse_bundle parse full_text = Some b \<and>
       (\<exists>cs. cs \<noteq> [] \<and> (\<forall>c \<in> set cs. claim_verified snapshot files texts (ab_evidence_map b) c)
         \<and> ab_direct_answer (from_model_text_with_contents parse fmt i request snapshot full_text files texts)
             = answer_heading @ join [CHR 0x0A] (map (claim_line fmt) cs)))"
proof (cases "try_parse_bundle parse full_text")
  case None
  then show ?thesis by (simp add: from_model_text_with_contents_def)
next
  case (Some b)
  let ?b0 = "b\<lparr>ab_request_id := request, ab_snapshot_id := snapshot, ab_raw_model_response := Some full_text\<rparr>"
  let ?v = "validate_citations snapshot files texts ?b0"
  let ?cs = "filter (\<lambda>c. claim_classification c \<noteq> Unknown) (ab_claims ?v)"
  have "\<forall>c \<in> set ?cs. claim_verified snapshot files texts (ab_evidence_map b) c"
    using validate_citations_claims [of _ snapshot files texts ?b0] by simp
  moreover have "ab_direct_answer (from_model_text_with_contents parse fmt i request snapshot full_text files texts)
      = (if ?cs = [] then no_answer_text else answer_heading @ join [CHR 0x0A] (map (claim_line fmt) ?cs))"
    using Some by (simp add: from_model_text_with_contents_def compose_verified_answer_def Let_def)
  ultimately show ?thesis using Some by (cases "?cs = []") auto
qed

section \<open>Witnesses\<close>

definition sample_file :: file_record where
  "sample_file = \<lparr> file_path = ''src/a.rs'', file_kind = SourceCode, file_size_bytes = 10,
     file_content_hash = ''h'', file_is_text = True, file_line_count = Some 2,
     file_text_preview = Some (unlines [''fn x'', ''fn y'']) \<rparr>"

definition sample_evidence :: evidence_ref where
  "sample_evidence = \<lparr> ev_id = 7, ev_snapshot_id = 5, ev_path = ''src/./a.rs'', ev_line_start = 2,
     ev_line_end = 2, ev_content_hash = ''h'', ev_excerpt = '' fn y'' \<rparr>"

definition sample_claim :: claim where
  "sample_claim = \<lparr> claim_id = 8, claim_classification = Observed, claim_statement = ''y exists'',
     claim_confidence = F32 1, claim_evidence_ids = [7], claim_rationale = None \<rparr>"

definition sample_bundle :: answer_bundle where
  "sample_bundle = \<lparr> ab_request_id = 1, ab_snapshot_id = 0, ab_direct_answer = ''model text'',
     ab_claims = [sample_claim, sample_claim\<lparr>claim_evidence_ids := [9]\<rparr>],
     ab_evidence_map = [sample_evidence], ab_recommendations = [], ab_conflicts = [],
     ab_raw_model_response = None \<rparr>"

lemma sample_citation: "citation_is_valid sample_evidence 5 [sample_file] []"
  by code_simp

lemma valid_citation_quotes_source_witness:
  "\<exists>f \<in> set [sample_file]. \<exists>source.
      path_eq (file_path f) (ev_path sample_evidence)
      \<and> ev_content_hash sample_evidence = file_content_hash f
      \<and> ev_line_start sample_evidence \<le> length (lines source)"
  using valid_citation_quotes_source [OF sample_citation] by blast

lemma sample_claims:
  "map claim_classification (ab_claims (validate_citations 5 [sample_file] [] sample_bundle)) = [Observed, Unknown]"
  by code_simp

lemma classified_claims_are_verified_witness:
  "\<exists>c \<in> set (ab_claims (validate_citations 5 [sample_file] [] sample_bundle)).
     claim_verified 5 [sample_file] [] (ab_evidence_map sample_bundle) c"
proof -
  let ?cs = "ab_claims (validate_citations 5 [sample_file] [] sample_bundle)"
  have "Observed \<in> set (map claim_classification ?cs)" by (simp only: sample_claims) simp
  then obtain c where c: "c \<in> set ?cs" and "claim_classification c = Observed" by auto
  then have "claim_classification c \<noteq> Unknown" by simp
  from classified_claims_are_verified [OF c this] c show ?thesis by blast
qed

definition sample_parse :: "string \<Rightarrow> answer_bundle option" where
  "sample_parse s = (if s = ''{}'' then Some sample_bundle else None)"

lemma sample_answer:
  "ab_direct_answer (from_model_text_with_contents sample_parse (\<lambda>_. ''1.00'') 3 2 5 ''sure: {} ok'' [sample_file] [])
     \<noteq> no_answer_text"
  by code_simp

lemma sample_parsed: "try_parse_bundle sample_parse ''sure: {} ok'' = Some sample_bundle"
  by code_simp

lemma answer_text_only_from_verified_claims_witness:
  "\<exists>cs. cs \<noteq> [] \<and> (\<forall>c \<in> set cs. claim_verified 5 [sample_file] [] (ab_evidence_map sample_bundle) c)
     \<and> ab_direct_answer (from_model_text_with_contents sample_parse (\<lambda>_. ''1.00'') 3 2 5 ''sure: {} ok'' [sample_file] [])
         = answer_heading @ join [CHR 0x0A] (map (claim_line (\<lambda>_. ''1.00'')) cs)"
  using answer_text_only_from_verified_claims
      [of sample_parse "\<lambda>_. ''1.00''" 3 2 5 "''sure: {} ok''" "[sample_file]" "[]"]
    sample_answer sample_parsed by auto

end
