(* ===== verification/Egress.thy ===== *)
theory Egress
  imports Redaction Digests Inference_Types Answer_Bundle Project_Detector
begin

text \<open>
  The consent packet of \<open>crates/mentat-analysis/src/egress.rs\<close>: what leaves the machine for one
  question, the digest that seals it, the receipt, the approved request, and the assembly of a
  packet from the repository. Identifiers and the instant of approval are arguments, as are SHA-256,
  the reader of file contents, the text of a UUID and the Unicode test \<open>char::is_alphanumeric\<close>.
\<close>

section \<open>Packets\<close>

record included_file_ref =
  ifr_path :: string
  ifr_line_start :: nat
  ifr_line_end :: nat
  ifr_line_count :: nat

record egress_receipt =
  er_receipt_id :: uuid
  er_packet_hash :: string
  er_snapshot_id :: uuid
  er_token_count :: nat
  er_file_count :: nat
  er_granted_at :: string

record egress_packet =
  ep_packet_id :: uuid
  ep_packet_hash :: string
  ep_included_files :: "string list"
  ep_included_file_refs :: "included_file_ref list"
  ep_excluded_files :: "string list"
  ep_redactions :: nat
  ep_estimated_tokens :: nat
  ep_prompt_context :: string
  ep_snapshot_id :: uuid
  ep_question :: string
  ep_file_texts :: text_map

fun provider_name :: "provider_kind \<Rightarrow> string" where
  "provider_name GoogleGemini = ''GoogleGemini''"
| "provider_name OpenRouter = ''OpenRouter''"
| "provider_name OpenAi = ''OpenAi''"
| "provider_name OpenAICompatible = ''OpenAICompatible''"
| "provider_name CustomCompatible = ''CustomCompatible''"
| "provider_name LocalMock = ''LocalMock''"

section \<open>The canonical digest\<close>

definition ref_fields :: "included_file_ref \<Rightarrow> (string \<times> string) list" where
  "ref_fields r =
     [(''ref_path'', ifr_path r), (''ref_line_start'', u64_bytes (ifr_line_start r)),
      (''ref_line_end'', u64_bytes (ifr_line_end r)), (''ref_line_count'', u64_bytes (ifr_line_count r))]"

definition text_fields :: "(string \<Rightarrow> string) \<Rightarrow> string \<times> string \<Rightarrow> (string \<times> string) list" where
  "text_fields sha kv =
     [(''validation_path'', fst kv), (''validation_text_sha256'', sha (snd kv))]"

definition packet_head_fields :: "egress_packet \<Rightarrow> (string \<times> string) list" where
  "packet_head_fields p =
     [(''seal_version'', ''code-mentat-egress-v1''),
      (''packet_id'', uuid_bytes (ep_packet_id p)),
      (''snapshot_id'', uuid_bytes (ep_snapshot_id p)),
      (''prompt_context'', ep_prompt_context p),
      (''redacted_user_question'', ep_question p),
      (''redacted_secret_occurrences'', u64_bytes (ep_redactions p)),
      (''estimated_tokens'', u64_bytes (ep_estimated_tokens p))]"

definition packet_list_fields :: "(string \<Rightarrow> string) \<Rightarrow> egress_packet \<Rightarrow> (string \<times> string) list" where
  "packet_list_fields sha p =
     map (\<lambda>f. (''included_file'', f)) (sort (ep_included_files p)) @
     map (\<lambda>f. (''excluded_file'', f)) (sort (ep_excluded_files p)) @
     concat (map ref_fields
       (sort_key (\<lambda>r. (components (ifr_path r), ifr_line_start r, ifr_line_end r, ifr_line_count r))
         (ep_included_file_refs p))) @
     concat (map (text_fields sha) (sort_key (\<lambda>kv. components (fst kv)) (ep_file_texts p)))"

definition profile_fields :: "backend_profile \<Rightarrow> (string \<times> string) list" where
  "profile_fields b =
     [(''profile_id'', uuid_bytes (bp_id b)),
      (''provider'', provider_name (bp_provider b)),
      (''base_url'', trim_end_char (CHR ''/'') (bp_base_url b)),
      (''model'', bp_model b),
      (''timeout_secs'', u64_bytes (unat (bp_timeout_secs b)))]"

definition canonical_fields ::
  "(string \<Rightarrow> string) \<Rightarrow> backend_profile \<Rightarrow> egress_packet \<Rightarrow> (string \<times> string) list" where
  "canonical_fields sha b p = packet_head_fields p @ packet_list_fields sha p @ profile_fields b"

definition canonical_digest :: "(string \<Rightarrow> string) \<Rightarrow> backend_profile \<Rightarrow> egress_packet \<Rightarrow> string" where
  "canonical_digest sha b p = sha_hex sha (encode_fields (canonical_fields sha b p))"

definition seal_for_profile :: "(string \<Rightarrow> string) \<Rightarrow> backend_profile \<Rightarrow> egress_packet \<Rightarrow> egress_packet" where
  "seal_for_profile sha b p = p\<lparr>ep_packet_hash := canonical_digest sha b p\<rparr>"

text \<open>Sorted and deduplicated paths; two such vectors of \<open>PathBuf\<close> are compared by components.\<close>

definition path_vec :: "string list \<Rightarrow> path_component list list" where
  "path_vec ps = remdups_adj (sort (map components ps))"

definition has_consistent_validation_sources :: "egress_packet \<Rightarrow> bool" where
  "has_consistent_validation_sources p \<longleftrightarrow>
     path_vec (ep_included_files p) = path_vec (map ifr_path (ep_included_file_refs p))
     \<and> path_vec (ep_included_files p) = path_vec (map fst (ep_file_texts p))"

definition issue_receipt ::
  "(string \<Rightarrow> string) \<Rightarrow> uuid \<Rightarrow> string \<Rightarrow> backend_profile \<Rightarrow> egress_packet \<Rightarrow> egress_receipt" where
  "issue_receipt sha i now b p =
     \<lparr> er_receipt_id = i, er_packet_hash = canonical_digest sha b p,
       er_snapshot_id = ep_snapshot_id p, er_token_count = ep_estimated_tokens p,
       er_file_count = length (ep_included_files p), er_granted_at = now \<rparr>"

section \<open>Approved requests\<close>

record approved_request =
  ap_receipt :: egress_receipt
  ap_packet :: egress_packet
  ap_question :: string
  ap_snapshot_id :: uuid
  ap_profile :: backend_profile
  ap_digest :: string

definition approved_new ::
  "(string \<Rightarrow> string) \<Rightarrow> egress_receipt \<Rightarrow> egress_packet \<Rightarrow> string \<Rightarrow> uuid \<Rightarrow> backend_profile
   \<Rightarrow> approved_request result" where
  "approved_new sha receipt packet question snapshot b =
     (let redacted_question = redacted question; h = canonical_digest sha b packet in
      if redacted_question \<noteq> ep_question packet
        then Inl (EgressViolation ''question mismatch'')
      else if ep_snapshot_id packet \<noteq> snapshot \<or> er_snapshot_id receipt \<noteq> ep_snapshot_id packet
        then Inl (EgressViolation ''snapshot mismatch'')
      else if \<not> has_consistent_validation_sources packet
        then Inl (EgressViolation ''validation sources mismatch'')
      else if h \<noteq> ep_packet_hash packet then Inl (EgressViolation ''packet hash mismatch'')
      else if er_packet_hash receipt \<noteq> h then Inl (EgressViolation ''receipt hash mismatch'')
      else if er_file_count receipt \<noteq> length (ep_included_files packet)
        then Inl (EgressViolation ''file count mismatch'')
      else if er_token_count receipt \<noteq> ep_estimated_tokens packet
        then Inl (EgressViolation ''token count mismatch'')
      else Inr \<lparr> ap_receipt = receipt, ap_packet = packet, ap_question = redacted_question,
                 ap_snapshot_id = snapshot, ap_profile = b, ap_digest = h \<rparr>)"

definition verify_integrity :: "(string \<Rightarrow> string) \<Rightarrow> approved_request \<Rightarrow> bool" where
  "verify_integrity sha a \<longleftrightarrow>
     (let h = canonical_digest sha (ap_profile a) (ap_packet a) in
      ap_digest a = h \<and> er_packet_hash (ap_receipt a) = h \<and> ep_packet_hash (ap_packet a) = h
      \<and> ep_snapshot_id (ap_packet a) = ap_snapshot_id a
      \<and> er_snapshot_id (ap_receipt a) = ap_snapshot_id a
      \<and> ep_question (ap_packet a) = ap_question a
      \<and> has_consistent_validation_sources (ap_packet a))"

definition into_inference_request ::
  "(string \<Rightarrow> string) \<Rightarrow> (uuid \<Rightarrow> string) \<Rightarrow> approved_request \<Rightarrow> inference_request result" where
  "into_inference_request sha uuid_text a =
     (if \<not> verify_integrity sha a then Inl (EgressViolation ''integrity check failed'')
      else Inr \<lparr> ir_request_id = er_receipt_id (ap_receipt a),
                 ir_system_contract = system_contract (uuid_text (ap_snapshot_id a)),
                 ir_prompt_context = ep_prompt_context (ap_packet a),
                 ir_user_question =
                   (if ep_question (ap_packet a) = [] then redacted (ap_question a)
                    else ep_question (ap_packet a)),
                 ir_profile = ap_profile a \<rparr>)"

section \<open>Assembly of a packet\<close>

text \<open>\<open>str::chars\<close> as byte groups: a byte that is not a continuation byte starts a character.\<close>

definition is_continuation :: "char \<Rightarrow> bool" where
  "is_continuation c \<longleftrightarrow> 128 \<le> byte_of c \<and> byte_of c < 192"

function utf8_chars :: "string \<Rightarrow> string list" where
  "utf8_chars [] = []"
| "utf8_chars (c # cs) = (c # takeWhile is_continuation cs) # utf8_chars (dropWhile is_continuation cs)"
  by pat_completeness auto
termination by (relation "measure length") (auto simp: le_imp_less_Suc length_dropWhile_le)

text \<open>\<open>split_whitespace\<close>, and \<open>trim_matches\<close> of characters that are not alphanumeric.\<close>

fun word_len :: "string \<Rightarrow> nat" where
  "word_len [] = 0"
| "word_len (c # cs) = (if 0 < ws_len (c # cs) then 0 else Suc (word_len cs))"

function split_whitespace :: "string \<Rightarrow> string list" where
  "split_whitespace s =
     (let t = trim_start s in
      if t = [] \<or> word_len t = 0 then [] else take (word_len t) t # split_whitespace (drop (word_len t) t))"
  by pat_completeness auto
termination
proof (relation "measure length", goal_cases)
  case (2 s t)
  have "length (trim_start s) \<le> length s"
    using trim_start_suffix [of s] suffix_length_le by blast
  moreover have "length (trim_start s) - word_len (trim_start s) < length (trim_start s)"
    using 2 by (intro diff_less) simp_all
  ultimately have "length (trim_start s) - word_len (trim_start s) < length s" by (rule less_le_trans [rotated])
  then show ?case using 2 by simp
qed simp

definition trim_non_alnum :: "(string \<Rightarrow> bool) \<Rightarrow> string \<Rightarrow> string" where
  "trim_non_alnum alnum w =
     concat (rev (dropWhile (\<lambda>c. \<not> alnum c) (rev (dropWhile (\<lambda>c. \<not> alnum c) (utf8_chars w)))))"

definition query_keywords :: "(string \<Rightarrow> bool) \<Rightarrow> string \<Rightarrow> string list" where
  "query_keywords alnum question =
     filter (\<lambda>w. 3 \<le> length w) (map (\<lambda>w. to_lowercase (trim_non_alnum alnum w)) (split_whitespace question))"

definition MIN_CONTENT_RELEVANCE_SCORE :: nat where "MIN_CONTENT_RELEVANCE_SCORE = 3"

definition path_member :: "string \<Rightarrow> string list \<Rightarrow> bool" where
  "path_member p ps \<longleftrightarrow> (\<exists>q \<in> set ps. path_eq q p)"

definition relevance_score :: "string list \<Rightarrow> project_summary \<Rightarrow> string \<Rightarrow> nat" where
  "relevance_score keywords summary p =
     10 * length (filter (\<lambda>kw. contains (to_lowercase p) kw) keywords)
     + (if path_member p (ps_manifests summary) then 5 else 0)
     + (if path_member p (ps_entry_points summary) then 3 else 0)
     + (if extension p = Some ''md'' then 2 else 0)"

text \<open>A stable sort by descending score.\<close>

definition scored_files ::
  "string list \<Rightarrow> project_summary \<Rightarrow> file_record list \<Rightarrow> (file_record \<times> nat) list" where
  "scored_files keywords summary files =
     sort_key (\<lambda>fs. - int (snd fs)) (map (\<lambda>f. (f, relevance_score keywords summary (file_path f))) files)"

definition is_doc :: "string \<Rightarrow> bool" where
  "is_doc p \<longleftrightarrow> extension p \<in> Some ` set [''md'', ''toml'', ''json'', ''yaml'', ''yml'']"

text \<open>\<open>HashMap::insert\<close>: an equal path keeps its key and takes the new value.\<close>

fun text_insert :: "string \<Rightarrow> string \<Rightarrow> text_map \<Rightarrow> text_map" where
  "text_insert k v [] = [(k, v)]"
| "text_insert k v ((k', v') # m) =
     (if path_eq k' k then (k', v) # m else (k', v') # text_insert k v m)"

record assembly =
  as_included :: "string list"
  as_refs :: "included_file_ref list"
  as_texts :: text_map
  as_excluded :: "string list"
  as_redactions :: nat
  as_context :: string

definition catalog_row :: "string \<Rightarrow> string \<Rightarrow> nat \<Rightarrow> string" where
  "catalog_row p h n = ''| '' @ p @ '' | '' @ h @ '' | 1-'' @ show_nat n @ '' |'' @ [CHR 0x0A]"

definition file_section :: "string \<Rightarrow> string \<Rightarrow> nat \<Rightarrow> string \<Rightarrow> string" where
  "file_section p h n body =
     unlines [''### File: '' @ p, ''hash: '' @ h, ''allowed_lines: 1-'' @ show_nat n, ''```'', body, ''```'', []]"

text \<open>The loop body once a file passed every exclusion: live hash check, first 60 lines, redaction.\<close>

definition include_file ::
  "(string \<Rightarrow> string) \<Rightarrow> (string \<Rightarrow> string result) \<Rightarrow> file_record \<Rightarrow> assembly \<Rightarrow> assembly result" where
  "include_file sha read f st =
     (case read (file_path f) of
        Inl _ \<Rightarrow> Inl (EgressViolation ''file unreadable after scan'')
      | Inr content \<Rightarrow>
        if sha_hex sha content \<noteq> file_content_hash f
        then Inl (EgressViolation ''file changed after scan'')
        else
          (let ls = take 60 (lines content);
               n = length ls;
               red = scan_and_redact_secrets (join [CHR 0x0A] ls);
               p = file_path f
           in Inr (st\<lparr>as_redactions := as_redactions st + snd red,
                      as_context := as_context st @ catalog_row p (file_content_hash f) n
                        @ file_section p (file_content_hash f) n (fst red),
                      as_included := as_included st @ [p],
                      as_refs := as_refs st @ [\<lparr> ifr_path = p, ifr_line_start = 1,
                        ifr_line_end = n, ifr_line_count = n \<rparr>],
                      as_texts := text_insert p (fst red) (as_texts st)\<rparr>)))"

definition assemble_step ::
  "(string \<Rightarrow> string) \<Rightarrow> (string \<Rightarrow> string result) \<Rightarrow> project_summary \<Rightarrow> string list
   \<Rightarrow> file_record \<times> nat \<Rightarrow> assembly \<Rightarrow> assembly result" where
  "assemble_step sha read summary user_excluded fs st =
     (let p = file_path (fst fs) in
      if path_member p user_excluded \<or> is_sensitive_filename p \<or> snd fs < MIN_CONTENT_RELEVANCE_SCORE
      then Inr (st\<lparr>as_excluded := as_excluded st @ [p]\<rparr>)
      else if (is_doc p \<or> path_member p (ps_entry_points summary)) \<and> length (as_included st) < 8
      then include_file sha read (fst fs) st
      else Inr st)"

fun assemble_loop ::
  "(file_record \<times> nat \<Rightarrow> assembly \<Rightarrow> assembly result) \<Rightarrow> (file_record \<times> nat) list \<Rightarrow> assembly \<Rightarrow> assembly result" where
  "assemble_loop stepf [] st = Inr st"
| "assemble_loop stepf (fs # rest) st = then_do (stepf fs st) (assemble_loop stepf rest)"

definition context_head :: "string \<Rightarrow> project_summary \<Rightarrow> nat \<Rightarrow> string" where
  "context_head snapshot summary n =
     unlines [''# Repository Context Summary'', ''Snapshot ID: '' @ snapshot,
       ''Primary Language: '' @ (case ps_primary_language summary of Some l \<Rightarrow> l | None \<Rightarrow> ''Unknown''),
       ''Total Files: '' @ show_nat n, [], ''## Citation Catalog'',
       ''| path | content_hash | allowed_lines |'', ''|---|---|---|'',
       ''## Project Manifests & Key Documents'']"

definition assemble_packet_with_user_exclusions ::
  "(string \<Rightarrow> string) \<Rightarrow> (uuid \<Rightarrow> string) \<Rightarrow> (string \<Rightarrow> bool) \<Rightarrow> (string \<Rightarrow> string result)
   \<Rightarrow> file_record list \<Rightarrow> project_summary \<Rightarrow> string \<Rightarrow> string list \<Rightarrow> uuid \<Rightarrow> uuid \<Rightarrow> backend_profile
   \<Rightarrow> egress_packet result" where
  "assemble_packet_with_user_exclusions sha uuid_text alnum read files summary question user_excluded
     packet_id snapshot b =
     (let q = scan_and_redact_secrets question;
          start = \<lparr> as_included = [], as_refs = [], as_texts = [], as_excluded = [],
                    as_redactions = snd q,
                    as_context = context_head (uuid_text snapshot) summary (length files) \<rparr>
      in then_do (assemble_loop (assemble_step sha read summary user_excluded)
                    (scored_files (query_keywords alnum question) summary files) start)
          (\<lambda>st. Inr (seal_for_profile sha b
             \<lparr> ep_packet_id = packet_id, ep_packet_hash = [],
               ep_included_files = as_included st, ep_included_file_refs = as_refs st,
               ep_excluded_files = as_excluded st, ep_redactions = as_redactions st,
               ep_estimated_tokens = (length (as_context st) + length (fst q) + 3) div 4,
               ep_prompt_context = as_context st, ep_snapshot_id = snapshot, ep_question = fst q,
               ep_file_texts = as_texts st \<rparr>)))"

definition assemble_packet ::
  "(string \<Rightarrow> string) \<Rightarrow> (uuid \<Rightarrow> string) \<Rightarrow> (string \<Rightarrow> bool) \<Rightarrow> (string \<Rightarrow> string result)
   \<Rightarrow> file_record list \<Rightarrow> project_summary \<Rightarrow> string \<Rightarrow> uuid \<Rightarrow> uuid \<Rightarrow> backend_profile
   \<Rightarrow> egress_packet result" where
  "assemble_packet sha uuid_text alnum read files summary question packet_id snapshot b =
     assemble_packet_with_user_exclusions sha uuid_text alnum read files summary question []
       packet_id snapshot b"

section \<open>Lemmas\<close>

lemma path_vec_eq_iff: "path_vec a = path_vec b \<longleftrightarrow> components ` set a = components ` set b"
  by (simp add: path_vec_def remdups_adj_sort_eq_iff)

lemma text_insert_keys:
  "components ` fst ` set (text_insert k v m) = insert (components k) (components ` fst ` set m)"
  by (induction k v m rule: text_insert.induct) (auto simp: path_eq_def)

text \<open>
  What holds of the assembly after any number of steps: at most eight files; every included file
  is one of the given records, is not sensitive, not excluded by the user, is relevant, and its live
  content has the scanned hash; the line references and the stored texts name the same files.
\<close>

definition included_ok ::
  "(string \<Rightarrow> string) \<Rightarrow> (string \<Rightarrow> string result) \<Rightarrow> string list \<Rightarrow> (file_record \<times> nat) set \<Rightarrow> string \<Rightarrow> bool" where
  "included_ok sha read user_excluded fss p \<longleftrightarrow>
     \<not> is_sensitive_filename p \<and> \<not> path_member p user_excluded
     \<and> (\<exists>(f, score) \<in> fss. file_path f = p \<and> MIN_CONTENT_RELEVANCE_SCORE \<le> score
         \<and> (\<exists>content. read p = Inr content \<and> sha_hex sha content = file_content_hash f))"

definition assembly_inv ::
  "(string \<Rightarrow> string) \<Rightarrow> (string \<Rightarrow> string result) \<Rightarrow> string list \<Rightarrow> (file_record \<times> nat) set \<Rightarrow> assembly \<Rightarrow> bool" where
  "assembly_inv sha read user_excluded fss st \<longleftrightarrow>
     length (as_included st) \<le> 8
     \<and> (\<forall>p \<in> set (as_included st). included_ok sha read user_excluded fss p)
     \<and> map ifr_path (as_refs st) = as_included st
     \<and> components ` fst ` set (as_texts st) = components ` set (as_included st)"

lemma include_file_Inr:
  assumes "include_file sha read f st = Inr st'"
  shows "\<exists>content. read (file_path f) = Inr content \<and> sha_hex sha content = file_content_hash f
    \<and> as_included st' = as_included st @ [file_path f]
    \<and> map ifr_path (as_refs st') = map ifr_path (as_refs st) @ [file_path f]
    \<and> as_texts st' = text_insert (file_path f)
         (redacted (join [CHR 0x0A] (take 60 (lines content)))) (as_texts st)"
  using assms by (auto simp: include_file_def Let_def split: sum.splits if_splits)

lemma assemble_step_cases:
  assumes "assemble_step sha read summary ue fs st = Inr st'"
  shows "st' = st\<lparr>as_excluded := as_excluded st @ [file_path (fst fs)]\<rparr> \<or> st' = st
    \<or> include_file sha read (fst fs) st = Inr st' \<and> length (as_included st) < 8
        \<and> \<not> path_member (file_path (fst fs)) ue \<and> \<not> is_sensitive_filename (file_path (fst fs))
        \<and> MIN_CONTENT_RELEVANCE_SCORE \<le> snd fs"
proof (cases "path_member (file_path (fst fs)) ue \<or> is_sensitive_filename (file_path (fst fs))
    \<or> snd fs < MIN_CONTENT_RELEVANCE_SCORE")
  case True
  then show ?thesis using assms unfolding assemble_step_def Let_def if_P [OF True] by simp
next
  case False
  then show ?thesis using assms unfolding assemble_step_def Let_def if_not_P [OF False]
    by (simp only: de_Morgan_disj not_less split: if_split_asm) simp_all
qed

lemma assemble_step_inv:
  assumes "assembly_inv sha read ue fss st" and "fs \<in> fss"
    and "assemble_step sha read summary ue fs st = Inr st'"
  shows "assembly_inv sha read ue fss st'"
proof -
  let ?p = "file_path (fst fs)"
  consider (excluded) "st' = st\<lparr>as_excluded := as_excluded st @ [?p]\<rparr>" | (skipped) "st' = st"
    | (included) "include_file sha read (fst fs) st = Inr st'" "length (as_included st) < 8"
        "\<not> path_member ?p ue" "\<not> is_sensitive_filename ?p" "MIN_CONTENT_RELEVANCE_SCORE \<le> snd fs"
    using assemble_step_cases [OF assms(3)] by blast
  then show ?thesis
  proof cases
    case included
    obtain content where r: "read ?p = Inr content" "sha_hex sha content = file_content_hash (fst fs)"
      and st': "as_included st' = as_included st @ [?p]"
        "map ifr_path (as_refs st') = map ifr_path (as_refs st) @ [?p]"
        "as_texts st' = text_insert ?p (redacted (join [CHR 0x0A] (take 60 (lines content)))) (as_texts st)"
      using include_file_Inr [OF included(1)] by blast
    have "included_ok sha read ue fss ?p"
      using included r assms(2) by (cases fs) (force simp: included_ok_def)
    then show ?thesis using assms(1) included(2) st'
      by (simp add: assembly_inv_def text_insert_keys image_Un)
  qed (use assms(1) in \<open>simp_all add: assembly_inv_def\<close>)
qed

lemma assemble_loop_inv:
  "assembly_inv sha read ue fss st \<Longrightarrow> set fs \<subseteq> fss \<Longrightarrow>
     assemble_loop (assemble_step sha read summary ue) fs st = Inr st' \<Longrightarrow> assembly_inv sha read ue fss st'"
proof (induction fs arbitrary: st)
  case (Cons f fs)
  obtain st1 where s: "assemble_step sha read summary ue f st = Inr st1"
    and l: "assemble_loop (assemble_step sha read summary ue) fs st1 = Inr st'"
    using Cons.prems(3) by auto
  have "assembly_inv sha read ue fss st1"
    using assemble_step_inv [OF Cons.prems(1) _ s] Cons.prems(2) by simp
  then show ?case using Cons.IH [OF _ _ l] Cons.prems(2) by simp
qed simp

lemma scored_files_set:
  "(f, n) \<in> set (scored_files kws summary files) \<longleftrightarrow>
     f \<in> set files \<and> n = relevance_score kws summary (file_path f)"
  by (auto simp: scored_files_def)

lemma assembled_packet:
  assumes "assemble_packet_with_user_exclusions sha ut alnum read files summary question ue pid snap b = Inr p"
  shows "\<exists>st. assembly_inv sha read ue (set (scored_files (query_keywords alnum question) summary files)) st
    \<and> p = seal_for_profile sha b
        \<lparr> ep_packet_id = pid, ep_packet_hash = [], ep_included_files = as_included st,
          ep_included_file_refs = as_refs st, ep_excluded_files = as_excluded st,
          ep_redactions = as_redactions st,
          ep_estimated_tokens = (length (as_context st) + length (redacted question) + 3) div 4,
          ep_prompt_context = as_context st, ep_snapshot_id = snap,
          ep_question = redacted question, ep_file_texts = as_texts st \<rparr>"
proof -
  let ?start = "\<lparr> as_included = [], as_refs = [], as_texts = [], as_excluded = [],
      as_redactions = snd (scan_and_redact_secrets question),
      as_context = context_head (ut snap) summary (length files) \<rparr>"
  let ?fs = "scored_files (query_keywords alnum question) summary files"
  obtain st where l: "assemble_loop (assemble_step sha read summary ue) ?fs ?start = Inr st"
    and p: "p = seal_for_profile sha b
        \<lparr> ep_packet_id = pid, ep_packet_hash = [], ep_included_files = as_included st,
          ep_included_file_refs = as_refs st, ep_excluded_files = as_excluded st,
          ep_redactions = as_redactions st,
          ep_estimated_tokens = (length (as_context st) + length (redacted question) + 3) div 4,
          ep_prompt_context = as_context st, ep_snapshot_id = snap,
          ep_question = redacted question, ep_file_texts = as_texts st \<rparr>"
    using assms unfolding assemble_packet_with_user_exclusions_def Let_def then_do_Inr by auto
  have "assembly_inv sha read ue (set ?fs) ?start" by (simp add: assembly_inv_def)
  then have "assembly_inv sha read ue (set ?fs) st" by (rule assemble_loop_inv [OF _ subset_refl l])
  then show ?thesis using p by blast
qed

lemma approved_new_Inr:
  "approved_new sha receipt packet question snapshot b = Inr a \<longleftrightarrow>
     redacted question = ep_question packet \<and> ep_snapshot_id packet = snapshot
     \<and> er_snapshot_id receipt = snapshot \<and> has_consistent_validation_sources packet
     \<and> ep_packet_hash packet = canonical_digest sha b packet
     \<and> er_packet_hash receipt = canonical_digest sha b packet
     \<and> er_file_count receipt = length (ep_included_files packet)
     \<and> er_token_count receipt = ep_estimated_tokens packet
     \<and> a = \<lparr> ap_receipt = receipt, ap_packet = packet, ap_question = redacted question,
             ap_snapshot_id = snapshot, ap_profile = b, ap_digest = canonical_digest sha b packet \<rparr>"
  unfolding approved_new_def Let_def by (auto simp: eq_commute split: if_split_asm)

lemma redacted_Nil [simp]: "redacted [] = []"
  by (simp add: scan_and_redact_secrets_def)

lemma provider_name_inj: "provider_name a = provider_name b \<Longrightarrow> a = b"
  by (cases a; cases b) simp_all

lemma canonical_digest_seal [simp]:
  "canonical_digest sha b (p\<lparr>ep_packet_hash := h\<rparr>) = canonical_digest sha b p"
  by (simp add: canonical_digest_def canonical_fields_def packet_head_fields_def packet_list_fields_def)

lemma canonical_fields_parts:
  assumes "canonical_fields sha b p = canonical_fields sha b' p'"
  shows "packet_head_fields p = packet_head_fields p' \<and> packet_list_fields sha p = packet_list_fields sha p'
    \<and> profile_fields b = profile_fields b'"
proof -
  have "length (packet_head_fields p) = length (packet_head_fields p')"
    and "length (profile_fields b) = length (profile_fields b')"
    by (simp_all add: packet_head_fields_def profile_fields_def)
  then show ?thesis using assms unfolding canonical_fields_def by simp
qed

section \<open>Properties\<close>

text \<open>
  C8: A request that was approved passes its integrity check and becomes the inference request of
  exactly the packet that was shown: its prompt context, its redacted question, the approved
  profile, and the receipt's identifier.
\<close>

theorem approved_request_is_what_was_shown:
  assumes "approved_new sha receipt packet question snapshot b = Inr a"
  shows "verify_integrity sha a \<and> into_inference_request sha uuid_text a =
    Inr \<lparr> ir_request_id = er_receipt_id receipt, ir_system_contract = system_contract (uuid_text snapshot),
          ir_prompt_context = ep_prompt_context packet, ir_user_question = redacted question,
          ir_profile = b \<rparr>"
  using assms unfolding approved_new_Inr
  by (auto simp: verify_integrity_def into_inference_request_def Let_def)

text \<open>
  C38: Every file a packet includes is one of the scanned records, is not a sensitive file name, was
  not excluded by the user, has the relevance the threshold asks for, and had the scanned content
  when it was read; there are at most eight of them.
\<close>

theorem packet_files_are_allowed:
  assumes "assemble_packet_with_user_exclusions sha uuid_text alnum read files summary question ue pid snap b = Inr p"
  shows "length (ep_included_files p) \<le> 8 \<and>
    (\<forall>q \<in> set (ep_included_files p).
       \<not> is_sensitive_filename q \<and> \<not> path_member q ue
       \<and> MIN_CONTENT_RELEVANCE_SCORE \<le> relevance_score (query_keywords alnum question) summary q
       \<and> (\<exists>f \<in> set files. file_path f = q \<and>
           (\<exists>content. read q = Inr content \<and> sha_hex sha content = file_content_hash f)))"
proof -
  obtain st where i: "assembly_inv sha read ue
        (set (scored_files (query_keywords alnum question) summary files)) st"
    and p: "ep_included_files p = as_included st"
    using assembled_packet [OF assms] by (auto simp: seal_for_profile_def)
  then show ?thesis by (fastforce simp: assembly_inv_def included_ok_def scored_files_set)
qed

text \<open>
  An assembled packet, with the receipt issued for it, is accepted for approval under the same
  question, snapshot and profile.
\<close>

theorem assembled_packet_can_be_approved:
  assumes "assemble_packet_with_user_exclusions sha uuid_text alnum read files summary question ue pid snap b = Inr p"
  shows "is_ok (approved_new sha (issue_receipt sha i now b p) p question snap b)"
proof -
  obtain st where "assembly_inv sha read ue
        (set (scored_files (query_keywords alnum question) summary files)) st"
    and p: "p = seal_for_profile sha b
        \<lparr> ep_packet_id = pid, ep_packet_hash = [], ep_included_files = as_included st,
          ep_included_file_refs = as_refs st, ep_excluded_files = as_excluded st,
          ep_redactions = as_redactions st,
          ep_estimated_tokens = (length (as_context st) + length (redacted question) + 3) div 4,
          ep_prompt_context = as_context st, ep_snapshot_id = snap,
          ep_question = redacted question, ep_file_texts = as_texts st \<rparr>"
    using assembled_packet [OF assms] by blast
  then have "ifr_path ` set (as_refs st) = set (as_included st)"
    and "components ` fst ` set (as_texts st) = components ` set (as_included st)"
    by (auto simp: assembly_inv_def simp flip: set_map)
  then have "has_consistent_validation_sources p"
    by (simp add: p has_consistent_validation_sources_def seal_for_profile_def path_vec_eq_iff)
  moreover have "ep_packet_hash p = canonical_digest sha b p" "ep_snapshot_id p = snap" "ep_question p = redacted question"
    by (simp_all only: p seal_for_profile_def canonical_digest_seal) simp_all
  ultimately show ?thesis by (simp add: is_ok_iff approved_new_Inr issue_receipt_def)
qed

text \<open>
  One receipt seals one content: if two packets are accepted under the same receipt, they agree
  on the packet and snapshot identifiers, the prompt context, the question, the counts, and the
  target (profile, provider, model, base URL up to trailing slashes, time limit), or else the
  two canonical encodings are a collision of SHA-256.
\<close>

theorem receipt_binds_content:
  assumes "approved_new sha receipt p q s b = Inr a" and "approved_new sha receipt p' q' s' b' = Inr a'"
    and "\<forall>f \<in> set (canonical_fields sha b p). field_fits f"
    and "\<forall>f \<in> set (canonical_fields sha b' p'). field_fits f"
  shows "(packet_head_fields p = packet_head_fields p' \<and> packet_list_fields sha p = packet_list_fields sha p'
      \<and> ep_packet_id p = ep_packet_id p' \<and> s = s' \<and> ep_prompt_context p = ep_prompt_context p'
      \<and> redacted q = redacted q' \<and> bp_id b = bp_id b' \<and> bp_provider b = bp_provider b'
      \<and> bp_model b = bp_model b' \<and> bp_timeout_secs b = bp_timeout_secs b'
      \<and> trim_end_char (CHR ''/'') (bp_base_url b) = trim_end_char (CHR ''/'') (bp_base_url b'))
    \<or> collision sha (encode_fields (canonical_fields sha b p)) (encode_fields (canonical_fields sha b' p'))"
proof -
  have "sha_hex sha (encode_fields (canonical_fields sha b p)) = sha_hex sha (encode_fields (canonical_fields sha b' p'))"
    using assms(1,2) unfolding approved_new_Inr canonical_digest_def by simp
  then have "canonical_fields sha b p = canonical_fields sha b' p'
      \<or> collision sha (encode_fields (canonical_fields sha b p)) (encode_fields (canonical_fields sha b' p'))"
    using sha_hex_eq encode_fields_inj [OF _ assms(3,4)] by blast
  moreover have ?thesis if "canonical_fields sha b p = canonical_fields sha b' p'"
  proof -
    have h: "packet_head_fields p = packet_head_fields p'" "profile_fields b = profile_fields b'"
      "packet_list_fields sha p = packet_list_fields sha p'"
      using canonical_fields_parts [OF that] by auto
    have "unat (bp_timeout_secs b) = unat (bp_timeout_secs b')"
      using h(2) u64_bytes_inj unsigned_less [of "bp_timeout_secs b", where ?'a = nat]
        unsigned_less [of "bp_timeout_secs b'", where ?'a = nat]
      by (simp add: profile_fields_def)
    then have t: "bp_timeout_secs b = bp_timeout_secs b'" by (simp add: word_unat_eq_iff)
    show ?thesis
      using h t assms(1,2) unfolding approved_new_Inr
      by (auto simp: packet_head_fields_def profile_fields_def dest: uuid_bytes_inj provider_name_inj)
  qed
  ultimately show ?thesis by blast
qed

section \<open>Witnesses\<close>

text \<open>A digest parameter for the witnesses, whose value is the text itself.\<close>

definition plain_sha :: "string \<Rightarrow> string" where "plain_sha s = s"

definition sample_files :: "file_record list" where
  "sample_files = [\<lparr> file_path = ''README.md'', file_kind = Documentation, file_size_bytes = 2,
     file_content_hash = ''6869'', file_is_text = True, file_line_count = Some 1,
     file_text_preview = None \<rparr>]"

definition sample_read :: "string \<Rightarrow> string result" where
  "sample_read p = (if p = ''README.md'' then Inr ''hi'' else Inl (IoError ''no file''))"

definition sample_assemble :: "string \<Rightarrow> egress_packet result" where
  "sample_assemble question =
     assemble_packet_with_user_exclusions plain_sha (\<lambda>_. ''id'') (\<lambda>_. True) sample_read sample_files
       empty_summary question [] 1 2 (backend_profile_default 3)"

definition sample_packet :: egress_packet where
  "sample_packet = (case sample_assemble ''read me readme'' of Inr p \<Rightarrow> p)"

lemma assemble_is_ok:
  "is_ok (assemble_packet_with_user_exclusions sha ut alnum read files summary question ue pid snap b) =
   is_ok (assemble_loop (assemble_step sha read summary ue)
     (scored_files (query_keywords alnum question) summary files)
     \<lparr> as_included = [], as_refs = [], as_texts = [], as_excluded = [],
       as_redactions = snd (scan_and_redact_secrets question),
       as_context = context_head (ut snap) summary (length files) \<rparr>)"
  by (simp add: assemble_packet_with_user_exclusions_def Let_def is_ok_iff)

lemma sample_assembled: "sample_assemble ''read me readme'' = Inr sample_packet"
proof -
  have "is_ok (sample_assemble ''read me readme'')"
    unfolding sample_assemble_def assemble_is_ok by code_simp
  then show ?thesis by (auto simp: is_ok_iff sample_packet_def)
qed

lemma packet_files_are_allowed_witness: "length (ep_included_files sample_packet) \<le> 8"
  using packet_files_are_allowed [OF sample_assembled [unfolded sample_assemble_def]] by blast

lemma assembled_packet_can_be_approved_witness:
  "is_ok (approved_new plain_sha (issue_receipt plain_sha 9 ''now'' (backend_profile_default 3) sample_packet)
     sample_packet ''read me readme'' 2 (backend_profile_default 3))"
  by (rule assembled_packet_can_be_approved [OF sample_assembled [unfolded sample_assemble_def]])

text \<open>An empty packet is approved too.\<close>

definition unsealed_packet :: egress_packet where
  "unsealed_packet =
     \<lparr> ep_packet_id = 1, ep_packet_hash = [], ep_included_files = [], ep_included_file_refs = [],
       ep_excluded_files = [], ep_redactions = 0, ep_estimated_tokens = 0, ep_prompt_context = ''ctx'',
       ep_snapshot_id = 2, ep_question = [], ep_file_texts = [] \<rparr>"

definition empty_packet :: egress_packet where
  "empty_packet = seal_for_profile plain_sha (backend_profile_default 3) unsealed_packet"

definition empty_receipt :: egress_receipt where
  "empty_receipt = issue_receipt plain_sha 9 ''now'' (backend_profile_default 3) empty_packet"

lemma empty_approved:
  "approved_new plain_sha empty_receipt empty_packet [] 2 (backend_profile_default 3) =
     Inr \<lparr> ap_receipt = empty_receipt, ap_packet = empty_packet, ap_question = redacted [],
           ap_snapshot_id = 2, ap_profile = backend_profile_default 3,
           ap_digest = canonical_digest plain_sha (backend_profile_default 3) empty_packet \<rparr>"
proof -
  have "has_consistent_validation_sources empty_packet" "ep_question empty_packet = []" "ep_snapshot_id empty_packet = 2"
    by (simp_all add: empty_packet_def seal_for_profile_def unsealed_packet_def
        has_consistent_validation_sources_def path_vec_def)
  moreover have "ep_packet_hash empty_packet = canonical_digest plain_sha (backend_profile_default 3) empty_packet"
    unfolding empty_packet_def seal_for_profile_def canonical_digest_seal by simp
  ultimately show ?thesis
    unfolding approved_new_Inr by (simp add: empty_receipt_def issue_receipt_def)
qed

lemma approved_request_is_what_was_shown_witness:
  "\<exists>r. into_inference_request plain_sha (\<lambda>_. ''id'')
      \<lparr> ap_receipt = empty_receipt, ap_packet = empty_packet, ap_question = redacted [],
        ap_snapshot_id = 2, ap_profile = backend_profile_default 3,
        ap_digest = canonical_digest plain_sha (backend_profile_default 3) empty_packet \<rparr> = Inr r"
  using approved_request_is_what_was_shown [OF empty_approved] by blast

lemma empty_fields_fit:
  "\<forall>f \<in> set (canonical_fields plain_sha (backend_profile_default 3) empty_packet). field_fits f"
  by (simp add: canonical_fields_def packet_head_fields_def packet_list_fields_def profile_fields_def
      empty_packet_def seal_for_profile_def unsealed_packet_def backend_profile_default_def field_fits_def
      uuid_bytes_def u64_bytes_def trim_end_char_def)

lemma receipt_binds_content_witness:
  "ep_prompt_context empty_packet = ep_prompt_context empty_packet
   \<or> collision plain_sha
       (encode_fields (canonical_fields plain_sha (backend_profile_default 3) empty_packet))
       (encode_fields (canonical_fields plain_sha (backend_profile_default 3) empty_packet))"
  using receipt_binds_content [OF empty_approved empty_approved empty_fields_fit empty_fields_fit] by blast

end
