(* ===== verification/Consent.thy ===== *)
theory Consent
  imports Egress
begin

text \<open>
  \<open>crates/mentat-analysis/src/consent.rs\<close>: the state behind the approval sheet. Every change of the
  exclusions starts a new generation (a wrapping 64-bit counter) and drops the packet that could be
  approved; an assembler's result is accepted for the current generation only.
\<close>

record consent_state =
  cn_generation :: u64
  cn_rebuilding :: bool
  cn_pending :: "egress_packet option"
  cn_last_display :: "egress_packet option"
  cn_query :: "string option"
  cn_excluded :: "string list"

definition consent_default :: consent_state where
  "consent_default = \<lparr> cn_generation = 0, cn_rebuilding = False, cn_pending = None,
     cn_last_display = None, cn_query = None, cn_excluded = [] \<rparr>"

definition consent_reset :: "consent_state \<Rightarrow> consent_state" where
  "consent_reset s = consent_default\<lparr>cn_generation := cn_generation s\<rparr>"

definition begin_assembly :: "string \<Rightarrow> consent_state \<Rightarrow> u64 \<times> consent_state" where
  "begin_assembly query s =
     (let g = cn_generation s + 1 in
      (g, s\<lparr>cn_generation := g, cn_rebuilding := True, cn_pending := None, cn_query := Some query\<rparr>))"

definition apply_exclusion_toggle :: "string \<Rightarrow> bool \<Rightarrow> consent_state \<Rightarrow> u64 \<times> consent_state" where
  "apply_exclusion_toggle p exclude s =
     (let ex = (if exclude then
                  (if path_member p (cn_excluded s) then cn_excluded s else cn_excluded s @ [p])
                else filter (\<lambda>q. \<not> path_eq q p) (cn_excluded s))
      in begin_assembly (case cn_query s of Some q \<Rightarrow> q | None \<Rightarrow> []) (s\<lparr>cn_excluded := ex\<rparr>))"

definition accept_packet :: "u64 \<Rightarrow> egress_packet \<Rightarrow> consent_state \<Rightarrow> bool \<times> consent_state" where
  "accept_packet g p s =
     (if g \<noteq> cn_generation s then (False, s)
      else (True, s\<lparr>cn_last_display := Some p, cn_pending := Some p, cn_rebuilding := False\<rparr>))"

definition can_approve :: "consent_state \<Rightarrow> bool" where
  "can_approve s \<longleftrightarrow> \<not> cn_rebuilding s \<and> cn_pending s \<noteq> None"

definition should_show_sheet :: "consent_state \<Rightarrow> bool" where
  "should_show_sheet s \<longleftrightarrow> cn_rebuilding s \<or> cn_pending s \<noteq> None \<or> cn_last_display s \<noteq> None"

definition take_approved_packet :: "consent_state \<Rightarrow> (egress_packet \<times> string) option \<times> consent_state" where
  "take_approved_packet s =
     (if \<not> can_approve s then (None, s)
      else case cn_pending s of None \<Rightarrow> (None, s)
        | Some p \<Rightarrow> (Some (p, case cn_query s of Some q \<Rightarrow> q | None \<Rightarrow> []),
            s\<lparr>cn_pending := None, cn_query := None, cn_last_display := None, cn_rebuilding := False\<rparr>))"

definition consent_cancel :: "consent_state \<Rightarrow> consent_state" where
  "consent_cancel s = s\<lparr>cn_pending := None, cn_last_display := None, cn_query := None, cn_rebuilding := False\<rparr>"

definition display_packet :: "consent_state \<Rightarrow> egress_packet option" where
  "display_packet s = (case cn_pending s of Some p \<Rightarrow> Some p | None \<Rightarrow> cn_last_display s)"

definition preview_refs :: "consent_state \<Rightarrow> included_file_ref list" where
  "preview_refs s = (case display_packet s of Some p \<Rightarrow> ep_included_file_refs p | None \<Rightarrow> [])"

section \<open>Sequences of operations\<close>

datatype consent_op =
    OpReset | OpBegin string | OpToggle string bool | OpAccept u64 egress_packet | OpTake | OpCancel

fun consent_step :: "consent_op \<Rightarrow> consent_state \<Rightarrow> consent_state" where
  "consent_step OpReset s = consent_reset s"
| "consent_step (OpBegin q) s = snd (begin_assembly q s)"
| "consent_step (OpToggle p e) s = snd (apply_exclusion_toggle p e s)"
| "consent_step (OpAccept g p) s = snd (accept_packet g p s)"
| "consent_step OpTake s = snd (take_approved_packet s)"
| "consent_step OpCancel s = consent_cancel s"

definition consent_run :: "consent_op list \<Rightarrow> consent_state \<Rightarrow> consent_state" where
  "consent_run ops s = foldl (\<lambda>s op. consent_step op s) s ops"

fun starts_generation :: "consent_op \<Rightarrow> bool" where
  "starts_generation (OpBegin q) = True"
| "starts_generation (OpToggle p e) = True"
| "starts_generation op = False"

definition is_accept :: "consent_op \<Rightarrow> bool" where
  "is_accept op \<longleftrightarrow> (\<exists>g p. op = OpAccept g p)"

lemmas consent_defs =
  consent_default_def consent_reset_def begin_assembly_def apply_exclusion_toggle_def accept_packet_def
  can_approve_def take_approved_packet_def consent_cancel_def Let_def

lemma consent_run_simps [simp]:
  "consent_run [] s = s" "consent_run (op # ops) s = consent_run ops (consent_step op s)"
  "consent_run (ops @ ops') s = consent_run ops' (consent_run ops s)"
  by (simp_all add: consent_run_def)

lemma consent_step_generation:
  "cn_generation (consent_step op s) =
     (if starts_generation op then cn_generation s + 1 else cn_generation s)"
  by (cases op) (auto simp: consent_defs split: option.splits)

lemma consent_run_generation:
  "cn_generation (consent_run ops s) = cn_generation s + of_nat (length (filter starts_generation ops))"
  by (induction ops arbitrary: s) (auto simp: consent_step_generation)

text \<open>A pending packet never coexists with a rebuild, and is the one displayed.\<close>

definition consent_inv :: "consent_state \<Rightarrow> bool" where
  "consent_inv s \<longleftrightarrow>
     (cn_pending s \<noteq> None \<longrightarrow> \<not> cn_rebuilding s \<and> cn_last_display s = cn_pending s)"

lemma consent_step_inv: "consent_inv s \<Longrightarrow> consent_inv (consent_step op s)"
  by (cases op) (auto simp: consent_inv_def consent_defs split: option.splits)

lemma consent_run_inv: "consent_inv s \<Longrightarrow> consent_inv (consent_run ops s)"
  by (induction ops arbitrary: s) (auto simp: consent_step_inv)

lemma consent_step_pending:
  "cn_pending (consent_step op s) = Some p \<Longrightarrow> consent_inv s \<Longrightarrow>
     op = OpAccept (cn_generation s) p \<or> is_accept op \<and> cn_pending s = Some p"
  by (cases op) (auto simp: consent_defs consent_inv_def is_accept_def split: option.splits if_splits)

lemma consent_reachable_inv: "consent_inv (consent_run ops consent_default)"
  by (rule consent_run_inv) (simp add: consent_inv_def consent_default_def)

section \<open>Properties\<close>

text \<open>
  A result computed for an older generation is rejected: once at least one and fewer than
  2^64 assemblies or exclusion changes have begun since the generation was issued, whatever else
  happened in between, accepting a packet under it returns false and leaves the state as it is.
\<close>

theorem stale_generation_rejected:
  assumes "0 < length (filter starts_generation ops)" and "length (filter starts_generation ops) < 2 ^ 64"
  shows "accept_packet (cn_generation s) p (consent_run ops s) = (False, consent_run ops s)"
proof -
  let ?n = "length (filter starts_generation ops)"
  have "(of_nat ?n :: u64) \<noteq> 0"
    using assms by (simp add: word_of_nat_eq_0_iff nat_dvd_not_less)
  then show ?thesis by (simp add: accept_packet_def consent_run_generation)
qed

text \<open>
  Whatever sequence of operations led here, a packet handed out for sending was accepted under
  the generation that was current then, and since that acceptance nothing but further acceptances
  happened: no exclusion change, no new assembly, no cancellation, no earlier hand-out.
\<close>

theorem approved_packet_is_current:
  assumes "fst (take_approved_packet (consent_run ops consent_default)) = Some (p, q)"
  shows "\<exists>pre g post. ops = pre @ OpAccept g p # post \<and> g = cn_generation (consent_run pre consent_default)
    \<and> list_all is_accept post"
proof -
  have "cn_pending (consent_run ops consent_default) = Some p"
    using assms by (auto simp: take_approved_packet_def split: if_splits option.splits)
  then show ?thesis
  proof (induction ops rule: rev_induct)
    case Nil
    then show ?case by (simp add: consent_default_def)
  next
    case (snoc op ops)
    then have "cn_pending (consent_step op (consent_run ops consent_default)) = Some p" by simp
    from consent_step_pending [OF this consent_reachable_inv] show ?case
    proof
      assume "op = OpAccept (cn_generation (consent_run ops consent_default)) p"
      then show ?thesis by (intro exI [of _ ops] exI exI [of _ "[]"]) simp
    next
      assume a: "is_accept op \<and> cn_pending (consent_run ops consent_default) = Some p"
      with snoc.IH obtain pre g post where "ops = pre @ OpAccept g p # post"
        "g = cn_generation (consent_run pre consent_default)" "list_all is_accept post" by blast
      with a show ?thesis by (intro exI [of _ pre] exI [of _ g] exI [of _ "post @ [op]"]) simp
    qed
  qed
qed

text \<open>
  A packet is handed out once: after it was taken, taking again yields nothing until a new
  packet is accepted.
\<close>

theorem packet_taken_once:
  assumes "list_all (\<lambda>op. \<not> is_accept op) ops"
  shows "fst (take_approved_packet (consent_run ops
           (snd (take_approved_packet (consent_run pre consent_default))))) = None"
proof -
  let ?s = "consent_run pre consent_default"
  have run: "cn_pending (consent_run ops t) = None" if "cn_pending t = None" "consent_inv t" for t
    using assms that
  proof (induction ops arbitrary: t)
    case (Cons op ops)
    have "cn_pending (consent_step op t) = None"
      using consent_step_pending [of op t] Cons.prems
      by (cases "cn_pending (consent_step op t)") (auto simp: is_accept_def)
    then show ?case using Cons consent_step_inv [of t op] by simp
  qed simp
  have "cn_pending (snd (take_approved_packet ?s)) = None"
    using consent_reachable_inv [of pre]
    by (auto simp: consent_inv_def take_approved_packet_def can_approve_def split: option.splits)
  moreover have "consent_inv (snd (take_approved_packet ?s))"
    using consent_step_inv [OF consent_reachable_inv, of OpTake pre] by simp
  ultimately show ?thesis using run by (simp add: take_approved_packet_def can_approve_def)
qed

section \<open>Witnesses\<close>

lemma stale_generation_rejected_witness:
  "accept_packet (cn_generation consent_default) empty_packet
     (consent_run [OpBegin ''q'', OpToggle ''a'' True] consent_default)
   = (False, consent_run [OpBegin ''q'', OpToggle ''a'' True] consent_default)"
  by (rule stale_generation_rejected) simp_all

lemma sample_taken:
  "fst (take_approved_packet (consent_run [OpBegin ''q'', OpAccept 1 empty_packet] consent_default))
     = Some (empty_packet, ''q'')"
  by (simp add: consent_defs)

lemma approved_packet_is_current_witness:
  "\<exists>pre g post. [OpBegin ''q'', OpAccept 1 empty_packet] = pre @ OpAccept g empty_packet # post
     \<and> g = cn_generation (consent_run pre consent_default) \<and> list_all is_accept post"
  by (rule approved_packet_is_current [OF sample_taken])

lemma packet_taken_once_witness:
  "fst (take_approved_packet (consent_run [OpTake, OpCancel] (snd (take_approved_packet
     (consent_run [OpBegin ''q'', OpAccept 1 empty_packet] consent_default))))) = None"
  by (rule packet_taken_once) (simp add: is_accept_def)

end
