(* ===== verification/Repository_Tools.thy ===== *)
theory Repository_Tools
  imports Egress Path_Safety
begin

text \<open>
  \<open>crates/mentat-analysis/src/repository_tools.rs\<close>: the six read-only repository tools the agent may
  call, over one scanned snapshot. The environment of a call is a parameter: SHA-256, the reader of
  file contents, the JSON encoders, fresh identifiers, and what each poll of the cancellation token
  answers. The stale flag is part of the gateway state.
\<close>

definition MAX_RESULT_BYTES :: nat where "MAX_RESULT_BYTES = 65536"
definition MAX_READ_LINES :: nat where "MAX_READ_LINES = 400"

section \<open>Tool definitions\<close>

fun tool_description :: "repository_tool_name \<Rightarrow> string" where
  "tool_description RepoStatus = utf8
     [237, 152, 132, 236, 158, 172, 32, 114, 101, 112, 111, 115, 105, 116, 111, 114, 121, 32, 115,
      110, 97, 112, 115, 104, 111, 116, 236, 157, 152, 32, 109, 101, 116, 97, 100, 97, 116, 97,
      32, 236, 131, 129, 237, 131, 156, 235, 165, 188, 32, 236, 161, 176, 237, 154, 140, 237, 149,
      169, 235, 139, 136, 235, 139, 164, 46]"
| "tool_description ListTree = utf8
     [236, 131, 129, 235, 140, 128, 32, 234, 178, 189, 235, 161, 156, 32, 236, 149, 132, 235, 158,
      152, 236, 157, 152, 32, 236, 160, 149, 235, 160, 172, 235, 144, 156, 32, 237, 140, 140, 236,
      157, 188, 32, 237, 138, 184, 235, 166, 172, 235, 165, 188, 32, 236, 161, 176, 237, 154, 140,
      237, 149, 169, 235, 139, 136, 235, 139, 164, 46]"
| "tool_description SearchPaths = utf8
     [237, 140, 140, 236, 157, 188, 32, 236, 131, 129, 235, 140, 128, 32, 234, 178, 189, 235, 161,
      156, 236, 151, 144, 236, 132, 156, 32, 235, 172, 184, 236, 158, 144, 236, 151, 180, 236,
      157, 132, 32, 234, 178, 128, 236, 131, 137, 237, 149, 169, 235, 139, 136, 235, 139, 164, 46]"
| "tool_description SearchText = utf8
     [237, 133, 141, 236, 138, 164, 237, 138, 184, 32, 237, 140, 140, 236, 157, 188, 32, 235, 130,
      180, 236, 154, 169, 236, 151, 144, 236, 132, 156, 32, 235, 172, 184, 236, 158, 144, 236,
      151, 180, 234, 179, 188, 32, 83, 111, 117, 114, 99, 101, 82, 101, 102, 235, 165, 188, 32,
      234, 178, 128, 236, 131, 137, 237, 149, 169, 235, 139, 136, 235, 139, 164, 46]"
| "tool_description ReadFileLines = utf8
     [237, 133, 141, 236, 138, 164, 237, 138, 184, 32, 237, 140, 140, 236, 157, 188, 236, 157,
      152, 32, 236, 160, 156, 237, 149, 156, 235, 144, 156, 32, 236, 164, 132, 32, 235, 178, 148,
      236, 156, 132, 235, 165, 188, 32, 236, 157, 189, 236, 138, 181, 235, 139, 136, 235, 139,
      164, 46]"
| "tool_description FileMetadata = utf8
     [237, 140, 140, 236, 157, 188, 32, 237, 129, 172, 234, 184, 176, 44, 32, 104, 97, 115, 104,
      44, 32, 108, 105, 110, 101, 32, 99, 111, 117, 110, 116, 32, 109, 101, 116, 97, 100, 97, 116,
      97, 235, 165, 188, 32, 236, 161, 176, 237, 154, 140, 237, 149, 169, 235, 139, 136, 235, 139,
      164, 46]"

definition int_schema :: "int \<Rightarrow> int option \<Rightarrow> json" where
  "int_schema lo hi = JObj ([(''type'', JStr ''integer''), (''minimum'', JInt lo)] @
     (case hi of Some h \<Rightarrow> [(''maximum'', JInt h)] | None \<Rightarrow> []))"

definition str_schema :: json where "str_schema = JObj [(''type'', JStr ''string'')]"

definition opt_str_schema :: json where
  "opt_str_schema = JObj [(''type'', JArr [JStr ''string'', JStr ''null''])]"

definition object_schema :: "(string \<times> json) list \<Rightarrow> string list \<Rightarrow> json" where
  "object_schema props required =
     JObj [(''type'', JStr ''object''), (''properties'', JObj props),
           (''required'', JArr (map JStr required)), (''additionalProperties'', JBool False)]"

fun tool_input_schema :: "repository_tool_name \<Rightarrow> json" where
  "tool_input_schema RepoStatus =
     JObj [(''type'', JStr ''object''), (''properties'', JObj []), (''additionalProperties'', JBool False)]"
| "tool_input_schema ListTree = object_schema
     [(''relative_path'', opt_str_schema), (''depth'', int_schema 1 (Some 4)),
      (''limit'', int_schema 1 (Some 500))] [''depth'', ''limit'']"
| "tool_input_schema SearchPaths = object_schema
     [(''query'', str_schema), (''limit'', int_schema 1 (Some 100))] [''query'', ''limit'']"
| "tool_input_schema SearchText = object_schema
     [(''query'', str_schema), (''path_filter'', opt_str_schema), (''limit'', int_schema 1 (Some 100))]
     [''query'', ''limit'']"
| "tool_input_schema ReadFileLines = object_schema
     [(''relative_path'', str_schema), (''start_line'', int_schema 1 None), (''end_line'', int_schema 1 None)]
     [''relative_path'', ''start_line'', ''end_line'']"
| "tool_input_schema FileMetadata = object_schema [(''relative_path'', str_schema)] [''relative_path'']"

definition repository_tool_definitions :: "tool_definition list" where
  "repository_tool_definitions = map (\<lambda>n.
     \<lparr> td_name = wire_name n, td_schema_version = ''repository-tool.v1'',
       td_description = tool_description n, td_input_schema = tool_input_schema n \<rparr>) all_tool_names"

section \<open>The gateway\<close>

record gateway =
  gw_stale :: bool
  gw_snapshot :: repository_snapshot
  gw_files :: "file_record list"

record tool_env =
  te_sha :: "string \<Rightarrow> string"
  te_read :: "string \<Rightarrow> string result"
  te_json_text :: "json \<Rightarrow> string option"
  te_result_json :: "repository_tool_result \<Rightarrow> string option"
  te_uuid_text :: "uuid \<Rightarrow> string"
  te_fresh :: "nat \<Rightarrow> uuid"
  te_cancelled :: "nat \<Rightarrow> bool"

definition gateway_new :: "repository_snapshot \<Rightarrow> file_record list \<Rightarrow> gateway" where
  "gateway_new snap files =
     \<lparr> gw_stale = False, gw_snapshot = snap,
       gw_files = sort_key (\<lambda>f. components (file_path f))
         (filter (\<lambda>f. \<not> is_sensitive_filename (file_path f)) files) \<rparr>"

definition mark_stale :: "gateway \<Rightarrow> gateway" where
  "mark_stale g = g\<lparr>gw_stale := True\<rparr>"

section \<open>Checks and helpers\<close>

abbreviation tool_error :: "string \<Rightarrow> mentat_error" where
  "tool_error code \<equiv> BackendError code"

fun shape_matches :: "repository_tool_name \<Rightarrow> repository_tool_arguments \<Rightarrow> bool" where
  "shape_matches RepoStatus ArgRepoStatus = True"
| "shape_matches ListTree (ArgListTree p d l) = True"
| "shape_matches SearchPaths (ArgSearchPaths q l) = True"
| "shape_matches SearchText (ArgSearchText q f l) = True"
| "shape_matches ReadFileLines (ArgReadFileLines p a b) = True"
| "shape_matches FileMetadata (ArgFileMetadata p) = True"
| "shape_matches _ _ = False"

definition validate_call_shape :: "repository_tool_name \<Rightarrow> repository_tool_arguments \<Rightarrow> unit result" where
  "validate_call_shape n a = guard_err (shape_matches n a) (tool_error ''TOOL_ARGUMENT_VARIANT_MISMATCH'')"

definition validate_query :: "string \<Rightarrow> unit result" where
  "validate_query q = guard_err (\<not> is_blank q \<and> length q \<le> 512) (tool_error ''TOOL_QUERY_INVALID'')"

definition truncate_chars :: "string \<Rightarrow> nat \<Rightarrow> string" where
  "truncate_chars v limit = concat (take limit (utf8_chars v))"

definition source_ref_of ::
  "uuid \<Rightarrow> uuid \<Rightarrow> file_record \<Rightarrow> nat \<Rightarrow> nat \<Rightarrow> string \<Rightarrow> source_ref" where
  "source_ref_of i snapshot f line_start line_end excerpt =
     \<lparr> sr_id = i, sr_snapshot_id = snapshot, sr_path = file_path f, sr_line_start = line_start,
       sr_line_end = line_end, sr_content_hash = file_content_hash f,
       sr_excerpt = truncate_chars (trim_end_char (CHR 0x0A) (redacted excerpt)) 512 \<rparr>"

definition omission_of ::
  "tool_omission_reason \<Rightarrow> string option \<Rightarrow> string \<Rightarrow> nat \<Rightarrow> nat \<Rightarrow> tool_omission" where
  "omission_of r p code n b =
     \<lparr> om_reason = r, om_path = p, om_detail_code = code, om_count = n, om_bytes = b \<rparr>"

text \<open>The largest character boundary at or below a byte position inside the text.\<close>

fun floor_boundary :: "string \<Rightarrow> nat \<Rightarrow> nat" where
  "floor_boundary s 0 = 0"
| "floor_boundary s (Suc n) = (if is_continuation (s ! Suc n) then floor_boundary s n else Suc n)"

definition bound_content :: "string \<Rightarrow> tool_omission list \<Rightarrow> string \<times> tool_omission list" where
  "bound_content content oms =
     (if length content \<le> MAX_RESULT_BYTES then (content, oms)
      else let e = floor_boundary content MAX_RESULT_BYTES in
        (take e content,
         oms @ [omission_of ByteLimit None ''TOOL_RESULT_BYTE_LIMIT'' 0 (length content - e)]))"

type_synonym tool_output = "string \<times> source_ref list \<times> tool_omission list"

definition encode_json :: "tool_env \<Rightarrow> json \<Rightarrow> string result" where
  "encode_json env j = ok_or (te_json_text env j) (tool_error ''TOOL_RESULT_ENCODE_FAILED'')"

section \<open>The six tools\<close>

text \<open>The loop of \<open>list_tree\<close> and \<open>search_paths\<close>: up to \<open>limit\<close> matches, the others counted.\<close>

fun take_matches :: "(file_record \<Rightarrow> bool) \<Rightarrow> nat \<Rightarrow> file_record list \<Rightarrow> string list \<Rightarrow> nat \<Rightarrow> string list \<times> nat" where
  "take_matches match limit [] paths omitted = (paths, omitted)"
| "take_matches match limit (f # fs) paths omitted =
     (if \<not> match f then take_matches match limit fs paths omitted
      else if length paths = limit then take_matches match limit fs paths (omitted + 1)
      else take_matches match limit fs (paths @ [to_slashes (file_path f)]) omitted)"

definition limit_omissions :: "string \<Rightarrow> nat \<Rightarrow> tool_omission list" where
  "limit_omissions code omitted =
     (if omitted = 0 then [] else [omission_of EntryLimit None code omitted 0])"

definition in_tree :: "string \<Rightarrow> nat \<Rightarrow> file_record \<Rightarrow> bool" where
  "in_tree base depth f \<longleftrightarrow> path_starts_with (file_path f) base
     \<and> length (components (file_path f)) - length (components base) \<le> depth"

definition list_tree :: "tool_env \<Rightarrow> gateway \<Rightarrow> string option \<Rightarrow> u8 \<Rightarrow> u16 \<Rightarrow> tool_output result" where
  "list_tree env g relative depth limit =
     (let base = (case relative of Some p \<Rightarrow> p | None \<Rightarrow> []) in
      then_do (validate_relative_path base) (\<lambda>_.
        let d = unat (clamp depth 1 4); l = unat (clamp limit 1 500);
            (paths, omitted) = take_matches (in_tree base d) l (gw_files g) [] 0
        in then_do (encode_json env (JArr (map JStr paths))) (\<lambda>content.
             Inr (content, [], limit_omissions ''LIST_TREE_LIMIT'' omitted))))"

definition path_matches :: "string \<Rightarrow> file_record \<Rightarrow> bool" where
  "path_matches query f \<longleftrightarrow> contains (to_lowercase (to_slashes (file_path f))) (to_lowercase query)"

definition search_paths :: "tool_env \<Rightarrow> gateway \<Rightarrow> string \<Rightarrow> u16 \<Rightarrow> tool_output result" where
  "search_paths env g query limit =
     then_do (validate_query query) (\<lambda>_.
       let l = unat (clamp limit 1 100);
           (paths, omitted) = take_matches (path_matches query) l (gw_files g) [] 0
       in then_do (encode_json env (JArr (map JStr paths))) (\<lambda>content.
            Inr (content, [], limit_omissions ''SEARCH_PATHS_LIMIT'' omitted)))"

text \<open>
  The inner loop of \<open>search_text\<close> over the lines of one file, from line number \<open>n\<close>: it stops when
  the limit is reached, which ends the search (the returned flag).
\<close>

fun search_lines ::
  "tool_env \<Rightarrow> uuid \<Rightarrow> file_record \<Rightarrow> string \<Rightarrow> nat \<Rightarrow> nat \<Rightarrow> string list \<Rightarrow> source_ref list
   \<Rightarrow> source_ref list \<times> bool" where
  "search_lines env snap f query limit n [] refs = (refs, False)"
| "search_lines env snap f query limit n (l # ls) refs =
     (if \<not> contains (to_lowercase l) query then search_lines env snap f query limit (n + 1) ls refs
      else let refs' = refs @ [source_ref_of (te_fresh env (length refs)) snap f n n l] in
        if length refs' = limit then (refs', True)
        else search_lines env snap f query limit (n + 1) ls refs')"

definition filter_matches :: "string option \<Rightarrow> file_record \<Rightarrow> bool" where
  "filter_matches flt f \<longleftrightarrow>
     (case flt of None \<Rightarrow> True | Some s \<Rightarrow> contains (to_slashes (file_path f)) s)"

text \<open>The outer loop, from file index \<open>i\<close>; cancellation is polled once per file.\<close>

fun search_files ::
  "tool_env \<Rightarrow> uuid \<Rightarrow> string \<Rightarrow> string option \<Rightarrow> nat \<Rightarrow> nat \<Rightarrow> file_record list \<Rightarrow> source_ref list
   \<Rightarrow> tool_omission list \<Rightarrow> (source_ref list \<times> tool_omission list) result" where
  "search_files env snap query flt limit i [] refs oms = Inr (refs, oms)"
| "search_files env snap query flt limit i (f # fs) refs oms =
     (if length oms \<ge> 127
        then Inr (refs, oms @ [omission_of EntryLimit None ''OMISSION_LIMIT'' (length (f # fs)) 0])
      else if te_cancelled env (i + 1) then Inl ErrCancelled
      else if \<not> file_is_text f \<or> \<not> filter_matches flt f
        then search_files env snap query flt limit (i + 1) fs refs oms
      else if file_size_bytes f > MAX_RESULT_BYTES
        then search_files env snap query flt limit (i + 1) fs refs
          (oms @ [omission_of ByteLimit (Some (file_path f)) ''SEARCH_FILE_TOO_LARGE'' 1 (file_size_bytes f)])
      else case te_read env (file_path f) of
          Inl _ \<Rightarrow> search_files env snap query flt limit (i + 1) fs refs
            (oms @ [omission_of ReadError (Some (file_path f)) ''SEARCH_READ_FAILED'' 1 0])
        | Inr content \<Rightarrow>
            if sha_hex (te_sha env) content \<noteq> file_content_hash f
            then Inl (tool_error ''SOURCE_LIVE_HASH_MISMATCH'')
            else case search_lines env snap f query limit 1 (lines content) refs of
                (refs', True) \<Rightarrow> Inr (refs', oms)
              | (refs', False) \<Rightarrow> search_files env snap query flt limit (i + 1) fs refs' oms)"

definition summary_entry :: "tool_env \<Rightarrow> source_ref \<Rightarrow> json" where
  "summary_entry env r = JObj
     [(''source_ref_id'', JStr (te_uuid_text env (sr_id r))), (''path'', JStr (sr_path r)),
      (''line'', JInt (int (sr_line_start r))), (''excerpt'', JStr (sr_excerpt r))]"

definition search_text ::
  "tool_env \<Rightarrow> gateway \<Rightarrow> string \<Rightarrow> string option \<Rightarrow> u16 \<Rightarrow> tool_output result" where
  "search_text env g query flt limit =
     then_do (validate_query query) (\<lambda>_.
     then_do (case flt of Some p \<Rightarrow> validate_relative_path p | None \<Rightarrow> Inr ()) (\<lambda>_.
     then_do (search_files env (snap_id (gw_snapshot g)) (to_lowercase query) flt
                (unat (clamp limit 1 100)) 0 (gw_files g) [] []) (\<lambda>(refs, oms).
     then_do (encode_json env (JArr (map (summary_entry env) refs))) (\<lambda>content.
       Inr (content, refs, oms)))))"

definition gateway_file_record :: "gateway \<Rightarrow> string \<Rightarrow> file_record result" where
  "gateway_file_record g p =
     ok_or (List.find (\<lambda>f. path_eq (file_path f) p) (gw_files g)) (tool_error ''TOOL_PATH_NOT_FOUND'')"

definition gateway_read_lines :: "tool_env \<Rightarrow> gateway \<Rightarrow> string \<Rightarrow> nat \<Rightarrow> nat \<Rightarrow> tool_output result" where
  "gateway_read_lines env g p start_line end_line =
     then_do (validate_relative_path p) (\<lambda>_.
       if start_line = 0 \<or> end_line < start_line \<or> end_line - start_line + 1 > MAX_READ_LINES
         then Inl (tool_error ''READ_FILE_RANGE_INVALID'')
       else if te_cancelled env 1 then Inl ErrCancelled
       else then_do (gateway_file_record g p) (\<lambda>f.
         if \<not> file_is_text f then Inl (tool_error ''READ_FILE_BINARY'')
         else then_do (te_read env p) (\<lambda>content.
           if sha_hex (te_sha env) content \<noteq> file_content_hash f
             then Inl (tool_error ''SOURCE_LIVE_HASH_MISMATCH'')
           else let ls = lines content in
             if start_line > length ls then Inl (tool_error ''READ_FILE_RANGE_INVALID'')
             else let actual_end = min end_line (length ls);
                      selected = join [CHR 0x0A] (take (actual_end - (start_line - 1)) (drop (start_line - 1) ls))
                  in Inr (selected,
                       [source_ref_of (te_fresh env 0) (snap_id (gw_snapshot g)) f start_line actual_end selected],
                       []))))"

fun kind_name :: "file_kind \<Rightarrow> string" where
  "kind_name SourceCode = ''SourceCode''"
| "kind_name Documentation = ''Documentation''"
| "kind_name Manifest = ''Manifest''"
| "kind_name Configuration = ''Configuration''"
| "kind_name Asset = ''Asset''"
| "kind_name KindBinary = ''Binary''"
| "kind_name KindOther = ''Other''"

definition file_metadata :: "tool_env \<Rightarrow> gateway \<Rightarrow> string \<Rightarrow> tool_output result" where
  "file_metadata env g p =
     then_do (validate_relative_path p) (\<lambda>_.
     then_do (gateway_file_record g p) (\<lambda>f.
     then_do (encode_json env (JObj
         [(''path'', JStr (file_path f)), (''kind'', JStr (kind_name (file_kind f))),
          (''size_bytes'', JInt (int (file_size_bytes f))), (''content_hash'', JStr (file_content_hash f)),
          (''is_text'', JBool (file_is_text f)),
          (''line_count'', (case file_line_count f of Some n \<Rightarrow> JInt (int n) | None \<Rightarrow> JNull))])) (\<lambda>content.
       Inr (content, [], []))))"

fun status_name :: "snapshot_status \<Rightarrow> string" where
  "status_name SnapReady = ''Ready''"
| "status_name SnapStale = ''Stale''"
| "status_name SnapIndexing = ''Indexing''"
| "status_name SnapIncomplete = ''Incomplete''"

definition repo_status :: "tool_env \<Rightarrow> gateway \<Rightarrow> tool_output result" where
  "repo_status env g =
     (let s = gw_snapshot g in
      then_do (encode_json env (JObj
         [(''repository_id'', JStr (te_uuid_text env (snap_repo_id s))),
          (''snapshot_id'', JStr (te_uuid_text env (snap_id s))),
          (''status'', JStr (status_name (if gw_stale g then SnapStale else snap_status s))),
          (''file_count'', JInt (int (snap_file_count s))),
          (''total_bytes'', JInt (int (snap_total_bytes s)))])) (\<lambda>content.
       Inr (content, [], [])))"

section \<open>Execution of a call\<close>

fun run_tool :: "tool_env \<Rightarrow> gateway \<Rightarrow> repository_tool_arguments \<Rightarrow> tool_output result" where
  "run_tool env g ArgRepoStatus = repo_status env g"
| "run_tool env g (ArgListTree p d l) = list_tree env g p d l"
| "run_tool env g (ArgSearchPaths q l) = search_paths env g q l"
| "run_tool env g (ArgSearchText q f l) = search_text env g q f l"
| "run_tool env g (ArgReadFileLines p a b) = gateway_read_lines env g p a b"
| "run_tool env g (ArgFileMetadata p) = file_metadata env g p"

definition redact_source :: "source_ref \<Rightarrow> source_ref" where
  "redact_source r = r\<lparr>sr_excerpt := trim_end_char (CHR 0x0A) (redacted (sr_excerpt r))\<rparr>"

text \<open>
  What follows the tool: bound, redact, bound again, redact the excerpts, keep 128 omissions, and
  fail when the whole result is larger than the limit. It is measured with the largest byte count.
\<close>

definition finish_result :: "tool_env \<Rightarrow> repository_tool_call \<Rightarrow> tool_output \<Rightarrow> repository_tool_result result" where
  "finish_result env call out =
     (case out of (content0, refs, oms0) \<Rightarrow>
      (case bound_content content0 oms0 of (content1, oms1) \<Rightarrow>
      (case bound_content (redacted content1) oms1 of (content, oms) \<Rightarrow>
        (let r = \<lparr> res_call_id = call_id call, res_snapshot_id = call_snapshot_id call,
                   res_content = content, res_source_refs = map redact_source refs,
                   res_omissions = take 128 oms, res_content_bytes = - 1 \<rparr>
         in then_do (ok_or (te_result_json env r) (tool_error ''TOOL_RESULT_ENCODE_FAILED'')) (\<lambda>j.
              if length j > MAX_RESULT_BYTES then Inl (tool_error ''TOOL_RESULT_LIMIT_REACHED'')
              else Inr (r\<lparr>res_content_bytes := of_nat (length j)\<rparr>))))))"

definition gateway_execute ::
  "tool_env \<Rightarrow> gateway \<Rightarrow> repository_tool_call \<Rightarrow> repository_tool_result result" where
  "gateway_execute env g call =
     (if call_snapshot_id call \<noteq> snap_id (gw_snapshot g) then Inl (tool_error ''TOOL_SNAPSHOT_MISMATCH'')
      else then_do (validate_call_shape (call_name call) (call_arguments call)) (\<lambda>_.
        if call_name call \<noteq> RepoStatus \<and> (snap_status (gw_snapshot g) \<noteq> SnapReady \<or> gw_stale g)
          then Inl (tool_error ''REPOSITORY_REINDEX_REQUIRED'')
        else if te_cancelled env 0 then Inl ErrCancelled
        else then_do (run_tool env g (call_arguments call)) (finish_result env call)))"

section \<open>Lemmas\<close>

lemma take_matches_exact:
  "length paths \<le> limit \<Longrightarrow> take_matches m limit fs paths omitted =
     (paths @ take (limit - length paths) (map (\<lambda>f. to_slashes (file_path f)) (filter m fs)),
      omitted + (length (filter m fs) - (limit - length paths)))"
proof (induction m limit fs paths omitted rule: take_matches.induct)
  case (2 m limit f fs paths omitted)
  show ?case
  proof (cases "m f \<and> length paths < limit")
    case True
    then have "limit - length paths = Suc (limit - Suc (length paths))" by (simp add: Suc_diff_Suc)
    then show ?thesis using 2 True by simp
  next
    case False
    then show ?thesis using 2 by auto
  qed
qed simp

lemma clamp_limit_bounds:
  fixes x :: u16
  shows "1 \<le> unat (clamp x 1 500)" "unat (clamp x 1 500) \<le> 500"
    "1 \<le> unat (clamp x 1 100)" "unat (clamp x 1 100) \<le> 100"
  using clamp_bounds [of 1 500 x] clamp_bounds [of 1 100 x]
  by (simp_all add: word_le_nat_alt)

text \<open>What a search or a read promises of each reference it returns.\<close>

definition ref_grounded :: "tool_env \<Rightarrow> uuid \<Rightarrow> file_record list \<Rightarrow> source_ref \<Rightarrow> bool" where
  "ref_grounded env snap files r \<longleftrightarrow>
     sr_snapshot_id r = snap \<and>
     (\<exists>f \<in> set files. \<exists>p content. file_is_text f \<and> sr_path r = file_path f \<and> path_eq (file_path f) p
        \<and> sr_content_hash r = file_content_hash f \<and> te_read env p = Inr content
        \<and> sha_hex (te_sha env) content = file_content_hash f
        \<and> 1 \<le> sr_line_start r \<and> sr_line_start r \<le> sr_line_end r
        \<and> sr_line_end r \<le> length (lines content))"

lemma source_ref_of_simps [simp]:
  "sr_id (source_ref_of i s f a b e) = i" "sr_snapshot_id (source_ref_of i s f a b e) = s"
  "sr_path (source_ref_of i s f a b e) = file_path f" "sr_line_start (source_ref_of i s f a b e) = a"
  "sr_line_end (source_ref_of i s f a b e) = b"
  "sr_content_hash (source_ref_of i s f a b e) = file_content_hash f"
  by (simp_all add: source_ref_of_def)

lemma search_lines_refs:
  assumes "search_lines env snap f q limit n ls refs = (refs', stop)" and "length refs < limit"
  shows "length refs' \<le> limit \<and> (\<not> stop \<longrightarrow> length refs' < limit)
    \<and> (\<forall>r \<in> set refs'. r \<in> set refs \<or>
        (\<exists>k e i. n \<le> k \<and> k < n + length ls \<and> contains (to_lowercase (ls ! (k - n))) q
           \<and> r = source_ref_of i snap f k k e))"
  using assms
proof (induction ls arbitrary: n refs)
  case Nil
  then show ?case by auto
next
  case (Cons l ls)
  let ?r = "source_ref_of (te_fresh env (length refs)) snap f n n l"
  have shift: "\<exists>k e i. n \<le> k \<and> k < n + length (l # ls) \<and> contains (to_lowercase ((l # ls) ! (k - n))) q
      \<and> r = source_ref_of i snap f k k e"
    if "n + 1 \<le> k" "k < n + 1 + length ls" "contains (to_lowercase (ls ! (k - (n + 1)))) q"
      "r = source_ref_of i snap f k k e" for r k e i
    using that by (intro exI [of _ k] exI [of _ e] exI [of _ i]) (simp add: nth_Cons')
  show ?case
  proof (cases "contains (to_lowercase l) q")
    case False
    then show ?thesis using Cons.IH [of "n + 1" refs] Cons.prems shift by (fastforce simp: Let_def)
  next
    case True
    then have new: "\<exists>k e i. n \<le> k \<and> k < n + length (l # ls) \<and> contains (to_lowercase ((l # ls) ! (k - n))) q
        \<and> ?r = source_ref_of i snap f k k e"
      by (intro exI [of _ n] exI) (auto intro: refl)
    show ?thesis
    proof (cases "length (refs @ [?r]) = limit")
      case True
      then show ?thesis using \<open>contains (to_lowercase l) q\<close> Cons.prems new by (auto simp: Let_def)
    next
      case False
      then have "search_lines env snap f q limit (n + 1) ls (refs @ [?r]) = (refs', stop)"
        and "length (refs @ [?r]) < limit"
        using \<open>contains (to_lowercase l) q\<close> Cons.prems by (auto simp: Let_def)
      from Cons.IH [OF this] show ?thesis using new shift by (fastforce)
    qed
  qed
qed

lemma path_eq_refl [simp]: "path_eq p p"
  by (simp add: path_eq_def)

lemma search_lines_grounded:
  assumes "search_lines env snap f q limit 1 (lines content) refs = (refs', stop)" and "length refs < limit"
    and "f \<in> set files" and "file_is_text f" and "te_read env (file_path f) = Inr content"
    and "sha_hex (te_sha env) content = file_content_hash f"
    and "\<forall>r \<in> set refs. ref_grounded env snap files r"
  shows "length refs' \<le> limit \<and> (\<not> stop \<longrightarrow> length refs' < limit) \<and> (\<forall>r \<in> set refs'. ref_grounded env snap files r)"
proof -
  note s = search_lines_refs [OF assms(1,2)]
  have "ref_grounded env snap files (source_ref_of i snap f k k e)"
    if "1 \<le> k" "k < 1 + length (lines content)" for i k e
  proof -
    have "\<exists>p c. path_eq (file_path f) p \<and> te_read env p = Inr c
        \<and> sha_hex (te_sha env) c = file_content_hash f \<and> k \<le> length (lines c)"
      using that assms(5,6) path_eq_refl by fastforce
    then show ?thesis using that assms(3,4) by (auto simp: ref_grounded_def)
  qed
  then show ?thesis using s assms(7) by blast
qed

lemma search_files_grounded:
  assumes "search_files env snap q flt limit i fs refs oms = Inr (refs', oms')"
    and "length refs < limit" and "set fs \<subseteq> set files" and "length oms \<le> 127"
    and "\<forall>r \<in> set refs. ref_grounded env snap files r"
  shows "length refs' \<le> limit \<and> length oms' \<le> 128 \<and> (\<forall>r \<in> set refs'. ref_grounded env snap files r)"
  using assms
proof (induction fs arbitrary: i refs oms)
  case Nil
  then show ?case by auto
next
  case (Cons f fs)
  have sub: "set fs \<subseteq> set files" and f: "f \<in> set files" using Cons.prems(3) by auto
  show ?case
  proof (cases "length oms \<ge> 127")
    case True
    then show ?thesis using Cons.prems by auto
  next
    case False
    consider (skip) oms1 where "search_files env snap q flt limit (i + 1) fs refs oms1 = Inr (refs', oms')"
        "length oms1 \<le> 127"
      | (read) content where "file_is_text f" "te_read env (file_path f) = Inr content"
        "sha_hex (te_sha env) content = file_content_hash f"
        "(case search_lines env snap f q limit 1 (lines content) refs of
            (r, True) \<Rightarrow> Inr (r, oms)
          | (r, False) \<Rightarrow> search_files env snap q flt limit (i + 1) fs r oms) = Inr (refs', oms')"
      using Cons.prems(1) False by (auto split: if_split_asm sum.splits)
    then show ?thesis
    proof cases
      case skip
      then show ?thesis using Cons.IH Cons.prems(2,5) sub by blast
    next
      case read
      obtain r stop where sl: "search_lines env snap f q limit 1 (lines content) refs = (r, stop)" by fastforce
      note g = search_lines_grounded [OF sl Cons.prems(2) f read(1,2,3) Cons.prems(5)]
      show ?thesis
      proof (cases stop)
        case True
        then show ?thesis using g read(4) sl Cons.prems(4) by auto
      next
        case False
        then show ?thesis using g read(4) sl Cons.IH [of "i + 1" r oms] sub Cons.prems(4) by simp
      qed
    qed
  qed
qed

lemma run_tool_refs:
  assumes "run_tool env g args = Inr (content, refs, oms)"
  shows "\<forall>r \<in> set refs. ref_grounded env (snap_id (gw_snapshot g)) (gw_files g) r"
proof (cases args)
  case (ArgSearchText q f l)
  then obtain oms' where "search_files env (snap_id (gw_snapshot g)) (to_lowercase q) f
      (unat (clamp l 1 100)) 0 (gw_files g) [] [] = Inr (refs, oms')"
    using assms by (auto simp: search_text_def)
  from search_files_grounded [OF this, of "gw_files g"] show ?thesis
    using clamp_limit_bounds(3) [of l] by simp
next
  case (ArgReadFileLines p a b)
  then obtain f body where f: "gateway_file_record g p = Inr f" and t: "te_read env p = Inr body"
    and fs: "file_is_text f" "sha_hex (te_sha env) body = file_content_hash f"
      "a \<noteq> 0" "a \<le> b" "a \<le> length (lines body)"
    and r: "refs = [source_ref_of (te_fresh env 0) (snap_id (gw_snapshot g)) f a (min b (length (lines body)))
        (join [CHR 0x0A] (take (min b (length (lines body)) - (a - 1)) (drop (a - 1) (lines body))))]"
    using assms by (auto simp: gateway_read_lines_def Let_def not_less split: if_splits)
  have "f \<in> set (gw_files g)" "path_eq (file_path f) p"
    using f find_Some_set by (fastforce simp: gateway_file_record_def)+
  moreover have "min b (length (lines body)) \<le> length (lines body)" by simp
  ultimately have "\<exists>f' \<in> set (gw_files g). \<exists>p c. file_is_text f' \<and> file_path f = file_path f'
      \<and> path_eq (file_path f') p \<and> file_content_hash f = file_content_hash f' \<and> te_read env p = Inr c
      \<and> sha_hex (te_sha env) c = file_content_hash f' \<and> min b (length (lines body)) \<le> length (lines c)"
    using t fs(1,2) by blast
  then show ?thesis using fs r by (simp add: ref_grounded_def)
qed (use assms in \<open>auto simp: repo_status_def list_tree_def search_paths_def file_metadata_def Let_def
    split: prod.splits\<close>)

lemma floor_boundary_le: "floor_boundary s n \<le> n"
  by (induction s n rule: floor_boundary.induct) auto

lemma bound_content_length: "length (fst (bound_content c oms)) \<le> MAX_RESULT_BYTES"
  using floor_boundary_le [of c MAX_RESULT_BYTES] by (simp add: bound_content_def Let_def)

lemma finish_result_Inr:
  assumes "finish_result env call out = Inr r"
  shows "res_call_id r = call_id call \<and> res_snapshot_id r = call_snapshot_id call
    \<and> length (res_content r) \<le> MAX_RESULT_BYTES \<and> length (res_omissions r) \<le> 128
    \<and> res_source_refs r = map redact_source (fst (snd out))
    \<and> (\<exists>j. te_result_json env (r\<lparr>res_content_bytes := - 1\<rparr>) = Some j
          \<and> length j \<le> MAX_RESULT_BYTES \<and> res_content_bytes r = of_nat (length j))"
proof -
  obtain c0 refs oms0 where out: "out = (c0, refs, oms0)" by (cases out)
  obtain c1 oms1 where b1: "bound_content c0 oms0 = (c1, oms1)" by fastforce
  obtain c oms where b2: "bound_content (redacted c1) oms1 = (c, oms)" by fastforce
  have "length c \<le> MAX_RESULT_BYTES" using bound_content_length [of "redacted c1" oms1] b2 by simp
  then show ?thesis using assms by (auto simp: finish_result_def out b1 b2 Let_def split: if_splits)
qed

lemma gateway_execute_Inr:
  assumes "gateway_execute env g call = Inr r"
  shows "call_snapshot_id call = snap_id (gw_snapshot g)
    \<and> shape_matches (call_name call) (call_arguments call)
    \<and> (call_name call \<noteq> RepoStatus \<longrightarrow> snap_status (gw_snapshot g) = SnapReady \<and> \<not> gw_stale g)
    \<and> (\<exists>out. run_tool env g (call_arguments call) = Inr out \<and> finish_result env call out = Inr r)"
  using assms by (auto simp: gateway_execute_def validate_call_shape_def split: if_splits)

lemma gateway_refs_grounded:
  assumes "gateway_execute env (gateway_new snap files) call = Inr r" and "sr \<in> set (res_source_refs r)"
  shows "sr_snapshot_id sr = snap_id snap \<and>
    (\<exists>f \<in> set files. \<exists>p content. \<not> is_sensitive_filename (file_path f) \<and> file_is_text f
       \<and> sr_path sr = file_path f \<and> path_eq (file_path f) p \<and> sr_content_hash sr = file_content_hash f
       \<and> te_read env p = Inr content \<and> sha_hex (te_sha env) content = file_content_hash f
       \<and> 1 \<le> sr_line_start sr \<and> sr_line_start sr \<le> sr_line_end sr
       \<and> sr_line_end sr \<le> length (lines content))"
proof -
  let ?g = "gateway_new snap files"
  obtain c refs oms where t: "run_tool env ?g (call_arguments call) = Inr (c, refs, oms)"
    and f: "finish_result env call (c, refs, oms) = Inr r"
    using gateway_execute_Inr [OF assms(1)] by (metis prod_cases3)
  obtain sr0 where "sr0 \<in> set refs" and s: "sr = redact_source sr0"
    using finish_result_Inr [OF f] assms(2) by auto
  then have "ref_grounded env (snap_id snap) (gw_files ?g) sr0"
    using run_tool_refs [OF t] by (simp add: gateway_new_def)
  then show ?thesis by (auto simp: s redact_source_def ref_grounded_def gateway_new_def)
qed

section \<open>The interface the agent relies on\<close>

text \<open>
  What a caller of a tool executor may rely on: an answer carries the identifiers of the call, its
  declared size is bounded by the limit, and it is not empty of meaning: the declared size is that of
  an encoding of the result.
\<close>

locale tool_executor =
  fixes execute :: "repository_tool_call \<Rightarrow> repository_tool_result result"
  assumes result_ids: "execute call = Inr r \<Longrightarrow> res_call_id r = call_id call \<and> res_snapshot_id r = call_snapshot_id call"
    and result_size: "execute call = Inr r \<Longrightarrow> unat (res_content_bytes r) \<le> MAX_RESULT_BYTES"
begin

lemma results_total_size:
  "list_all2 (\<lambda>c r. execute c = Inr r) calls rs \<Longrightarrow>
     (\<Sum>r \<leftarrow> rs. unat (res_content_bytes r)) \<le> MAX_RESULT_BYTES * length calls"
proof (induction calls rs rule: list_all2_induct)
  case (Cons c cs r rs)
  then show ?case using result_size [of c r] by simp
qed simp

end

lemma gateway_result_size:
  assumes "gateway_execute env g call = Inr r"
  shows "unat (res_content_bytes r) \<le> MAX_RESULT_BYTES"
proof -
  obtain j :: string where "length j \<le> MAX_RESULT_BYTES" and "res_content_bytes r = of_nat (length j)"
    using gateway_execute_Inr [OF assms] finish_result_Inr by blast
  moreover from this(1) have "length j < 2 ^ 32" by (simp add: MAX_RESULT_BYTES_def)
  ultimately show ?thesis by (simp add: unat_of_nat)
qed

interpretation gateway_tools: tool_executor "gateway_execute env g" for env g
proof
  show "res_call_id r = call_id call \<and> res_snapshot_id r = call_snapshot_id call"
    if "gateway_execute env g call = Inr r" for call r
    using gateway_execute_Inr [OF that] finish_result_Inr by blast
  show "unat (res_content_bytes r) \<le> MAX_RESULT_BYTES"
    if "gateway_execute env g call = Inr r" for call r
    using that by (rule gateway_result_size)
qed

section \<open>Properties\<close>

text \<open>
  C7: Every source reference a tool call returns points into the current snapshot: to a text file
  of the scan that is not a sensitive file, with its scanned content hash, which the content read
  during the call has too, and to a range of lines that content has.
\<close>

theorem tool_references_are_grounded:
  assumes "gateway_execute env (gateway_new snap files) call = Inr r" and "sr \<in> set (res_source_refs r)"
  shows "sr_snapshot_id sr = snap_id snap \<and>
    (\<exists>f \<in> set files. \<exists>p content. \<not> is_sensitive_filename (file_path f) \<and> file_is_text f
       \<and> sr_path sr = file_path f \<and> path_eq (file_path f) p \<and> sr_content_hash sr = file_content_hash f
       \<and> te_read env p = Inr content \<and> sha_hex (te_sha env) content = file_content_hash f
       \<and> 1 \<le> sr_line_start sr \<and> sr_line_start sr \<le> sr_line_end sr
       \<and> sr_line_end sr \<le> length (lines content))"
  using assms by (rule gateway_refs_grounded)

text \<open>
  A tool result is bounded: at most 64 KiB of content, at most 128 omissions, and the encoding
  of the whole result (with the largest byte count in place) is at most 64 KiB and is what
  \<open>content_bytes\<close> reports, without wrap-around.
\<close>

theorem tool_result_is_bounded:
  assumes "gateway_execute env g call = Inr r"
  shows "length (res_content r) \<le> 65536 \<and> length (res_omissions r) \<le> 128
    \<and> (\<exists>j. te_result_json env (r\<lparr>res_content_bytes := - 1\<rparr>) = Some j
          \<and> unat (res_content_bytes r) = length j \<and> length j \<le> 65536)"
proof -
  obtain j where "length (res_content r) \<le> MAX_RESULT_BYTES" "length (res_omissions r) \<le> 128"
    "te_result_json env (r\<lparr>res_content_bytes := - 1\<rparr>) = Some j" "length j \<le> MAX_RESULT_BYTES"
    "res_content_bytes r = of_nat (length j)"
    using gateway_execute_Inr [OF assms] finish_result_Inr by blast
  then show ?thesis by (auto simp: MAX_RESULT_BYTES_def unat_of_nat)
qed

text \<open>
  On a snapshot that is stale or not ready, the only tool that answers is \<open>repo_status\<close>, and it
  returns no source reference.
\<close>

theorem stale_gateway_answers_status_only:
  assumes "gateway_execute env g call = Inr r" and "gw_stale g \<or> snap_status (gw_snapshot g) \<noteq> SnapReady"
  shows "call_name call = RepoStatus \<and> res_source_refs r = []"
proof -
  have n: "call_name call = RepoStatus" and sh: "shape_matches (call_name call) (call_arguments call)"
    using gateway_execute_Inr [OF assms(1)] assms(2) by auto
  then have a: "call_arguments call = ArgRepoStatus" by (cases "call_arguments call") auto
  obtain out where "repo_status env g = Inr out" and f: "finish_result env call out = Inr r"
    using gateway_execute_Inr [OF assms(1)] a by auto
  then have "fst (snd out) = []" by (auto simp: repo_status_def Let_def)
  then show ?thesis using n finish_result_Inr [OF f] by simp
qed

text \<open>
  A tree listing names, in path order, the first \<open>limit\<close> files under the requested directory
  within the requested depth, with the limit clamped to 1..500 and the depth to 1..4, and reports
  exactly how many more there are.
\<close>

theorem list_tree_exact:
  assumes "list_tree env g relative depth limit = Inr (content, refs, oms)"
  shows "let base = (case relative of Some p \<Rightarrow> p | None \<Rightarrow> []);
             found = filter (in_tree base (unat (clamp depth 1 4))) (gw_files g);
             l = unat (clamp limit 1 500)
         in 1 \<le> l \<and> l \<le> 500 \<and> validate_relative_path base = Inr () \<and> refs = []
            \<and> te_json_text env (JArr (map (\<lambda>f. JStr (to_slashes (file_path f))) (take l found))) = Some content
            \<and> oms = limit_omissions ''LIST_TREE_LIMIT'' (length found - l)"
  using assms clamp_limit_bounds(1,2) [of limit]
  by (auto simp: list_tree_def Let_def take_matches_exact encode_json_def take_map comp_def)

text \<open>
  Reading lines of a file returns exactly the requested range cut at the end of the file, for a
  range of at most 400 lines of a text file of the snapshot whose content still has the scanned
  hash, with one source reference for that range.
\<close>

theorem read_lines_exact:
  assumes "gateway_read_lines env g p a b = Inr (content, refs, oms)"
  shows "\<exists>f body. gateway_file_record g p = Inr f \<and> file_is_text f \<and> te_read env p = Inr body
    \<and> sha_hex (te_sha env) body = file_content_hash f
    \<and> 1 \<le> a \<and> a \<le> b \<and> b - a + 1 \<le> 400 \<and> a \<le> length (lines body)
    \<and> content = join [CHR 0x0A] (map (\<lambda>i. lines body ! i) [a - 1..<min b (length (lines body))])
    \<and> refs = [source_ref_of (te_fresh env 0) (snap_id (gw_snapshot g)) f a (min b (length (lines body))) content]
    \<and> oms = []"
proof -
  have "take (min b (length ls) - (a - 1)) (drop (a - 1) ls) = map (\<lambda>i. ls ! i) [a - 1..<min b (length ls)]"
    if "a \<le> length ls" for ls :: "string list"
    using that by - (rule nth_equalityI, simp, simp add: nth_upt less_diff_conv add.commute)
  then show ?thesis
    using assms by (auto simp: gateway_read_lines_def Let_def MAX_READ_LINES_def not_less split: if_splits)
qed

section \<open>Witnesses\<close>

definition demo_file :: file_record where
  "demo_file = \<lparr> file_path = ''src/a.rs'', file_kind = SourceCode, file_size_bytes = 5,
     file_content_hash = hex_of ''x=1'', file_is_text = True, file_line_count = Some 1,
     file_text_preview = None \<rparr>"

definition demo_snapshot :: repository_snapshot where
  "demo_snapshot = \<lparr> snap_id = 5, snap_repo_id = 6, snap_created_at = 0, snap_tree_digest = [],
     snap_status = SnapReady, snap_file_count = 1, snap_total_bytes = 3 \<rparr>"

definition demo_env :: tool_env where
  "demo_env = \<lparr> te_sha = plain_sha, te_read = (\<lambda>p. if p = ''src/a.rs'' then Inr ''x=1'' else Inl (IoError [])),
     te_json_text = (\<lambda>j. Some ''json''), te_result_json = (\<lambda>r. Some ''result''),
     te_uuid_text = (\<lambda>u. ''id''), te_fresh = (\<lambda>n. of_nat n), te_cancelled = (\<lambda>n. False) \<rparr>"

definition demo_gateway :: gateway where
  "demo_gateway = gateway_new demo_snapshot [demo_file]"

definition demo_call :: "repository_tool_name \<Rightarrow> repository_tool_arguments \<Rightarrow> repository_tool_call" where
  "demo_call n a = \<lparr> call_id = 1, call_snapshot_id = 5, call_name = n, call_arguments = a \<rparr>"

definition demo_result :: repository_tool_result where
  "demo_result = (case gateway_execute demo_env demo_gateway
     (demo_call ReadFileLines (ArgReadFileLines ''src/a.rs'' 1 9)) of Inr r \<Rightarrow> r)"

lemma demo_executed:
  "gateway_execute demo_env (gateway_new demo_snapshot [demo_file])
     (demo_call ReadFileLines (ArgReadFileLines ''src/a.rs'' 1 9)) = Inr demo_result"
  "length (res_source_refs demo_result) = 1"
proof -
  let ?e = "gateway_execute demo_env demo_gateway (demo_call ReadFileLines (ArgReadFileLines ''src/a.rs'' 1 9))"
  have "(case ?e of Inl _ \<Rightarrow> 0 | Inr r \<Rightarrow> length (res_source_refs r)) = 1"
    by code_simp
  then show "gateway_execute demo_env (gateway_new demo_snapshot [demo_file])
     (demo_call ReadFileLines (ArgReadFileLines ''src/a.rs'' 1 9)) = Inr demo_result"
    and "length (res_source_refs demo_result) = 1"
    by (auto simp: demo_result_def demo_gateway_def split: sum.splits)
qed

lemma tool_references_are_grounded_witness: "\<exists>sr \<in> set (res_source_refs demo_result). sr_snapshot_id sr = 5"
proof -
  obtain sr where sr: "sr \<in> set (res_source_refs demo_result)"
    using demo_executed(2) by (cases "res_source_refs demo_result") auto
  then show ?thesis
    using tool_references_are_grounded [OF demo_executed(1) sr] by (auto simp: demo_snapshot_def)
qed

lemma tool_result_is_bounded_witness: "length (res_content demo_result) \<le> 65536"
  using tool_result_is_bounded [OF demo_executed(1)] by blast

definition status_result :: repository_tool_result where
  "status_result = (case gateway_execute demo_env (mark_stale demo_gateway)
     (demo_call RepoStatus ArgRepoStatus) of Inr r \<Rightarrow> r)"

lemma status_executed:
  "gateway_execute demo_env (mark_stale demo_gateway) (demo_call RepoStatus ArgRepoStatus) = Inr status_result"
proof -
  have "is_ok (gateway_execute demo_env (mark_stale demo_gateway) (demo_call RepoStatus ArgRepoStatus))"
    by code_simp
  then show ?thesis by (auto simp: is_ok_iff status_result_def)
qed

lemma stale_gateway_answers_status_only_witness: "res_source_refs status_result = []"
  using stale_gateway_answers_status_only [OF status_executed] by (simp add: mark_stale_def)

lemma demo_tree: "list_tree demo_env demo_gateway None 1 0 = Inr (''json'', [], [])"
  by code_simp

lemma list_tree_exact_witness:
  "te_json_text demo_env (JArr (map (\<lambda>f. JStr (to_slashes (file_path f)))
     (take 1 (filter (in_tree [] 1) (gw_files demo_gateway))))) = Some ''json''"
  using list_tree_exact [OF demo_tree] by (simp add: Let_def clamp_def)

lemma demo_read: "\<exists>refs. gateway_read_lines demo_env demo_gateway ''src/a.rs'' 1 9 = Inr (''x=1'', refs, [])"
proof -
  have "map_sum id (\<lambda>(c, rs, os). (c, os)) (gateway_read_lines demo_env demo_gateway ''src/a.rs'' 1 9)
      = Inr (''x=1'', [])"
    by code_simp
  then show ?thesis by (cases "gateway_read_lines demo_env demo_gateway ''src/a.rs'' 1 9") auto
qed

lemma read_lines_exact_witness:
  "\<exists>f body. gateway_file_record demo_gateway ''src/a.rs'' = Inr f \<and> te_read demo_env ''src/a.rs'' = Inr body
     \<and> ''x=1'' = join [CHR 0x0A] (map (\<lambda>i. lines body ! i) [1 - 1..<min 9 (length (lines body))])"
proof -
  obtain refs where r: "gateway_read_lines demo_env demo_gateway ''src/a.rs'' 1 9 = Inr (''x=1'', refs, [])"
    using demo_read by blast
  show ?thesis using read_lines_exact [OF r] by blast
qed

end
