(* ===== verification/Agent_Loop.thy ===== *)
theory Agent_Loop
  imports Repository_Tools
begin

text \<open>
  \<open>crates/mentat-analysis/src/agent_loop.rs\<close>: the bounded loop that alternates provider rounds and
  repository tool calls. The provider is a parameter (the events of each round, as a list, or an
  error), and so are the tool executor, the answer of each poll of the cancellation token, the
  egress gate's receipt ids, the JSON encoders and the fresh trace identifier. An outcome carries the
  events that were emitted also when the loop ends in an error, as the event sink has seen them.
\<close>

record loop_env =
  le_round :: "nat \<Rightarrow> agent_request \<Rightarrow> round_event list result"
  le_cancelled :: "nat \<Rightarrow> bool"
  le_execute :: "(nat \<Rightarrow> repository_tool_call \<Rightarrow> repository_tool_result result) option"
  le_receipt_ids :: "uuid list result option"
  le_trace_id :: uuid
  le_sha :: "string \<Rightarrow> string"
  le_call_json :: "repository_tool_name \<times> repository_tool_arguments \<times> uuid \<Rightarrow> string option"
  le_parse_bundle :: "string \<Rightarrow> answer_bundle option"
  le_format :: "f32 \<Rightarrow> string"

record loop_state =
  ls_request :: agent_request
  ls_events :: "agent_event list"
  ls_trace :: "grounding_trace option"
  ls_total_calls :: u16
  ls_prior_text :: string
  ls_total_bytes :: u32
  ls_fingerprints :: "(string \<times> nat) list"
  ls_executed :: nat

datatype loop_outcome =
    LoopOk (out_events: "agent_event list") "grounding_trace option"
  | LoopErr (out_events: "agent_event list") mentat_error

abbreviation loop_error :: "string \<Rightarrow> mentat_error" where
  "loop_error code \<equiv> BackendError code"

definition emit :: "agent_event \<Rightarrow> loop_state \<Rightarrow> loop_state" where
  "emit e s = s\<lparr>ls_events := ls_events s @ [e]\<rparr>"

fun cancellation_payload :: "response_contract \<Rightarrow> string \<Rightarrow> cancelled_payload" where
  "cancellation_payload ContractAdvisor partial = AdvisorPartialMarkdown partial"
| "cancellation_payload (ContractAudit v) partial = AuditNoContent"

section \<open>Audit answers\<close>

definition evidence_is_source :: "evidence_ref \<Rightarrow> source_ref \<Rightarrow> bool" where
  "evidence_is_source ev src \<longleftrightarrow>
     ev_snapshot_id ev = sr_snapshot_id src \<and> path_eq (ev_path ev) (sr_path src)
     \<and> ev_line_start ev = sr_line_start src \<and> ev_line_end ev = sr_line_end src
     \<and> ev_content_hash ev = sr_content_hash src \<and> ev_excerpt ev = sr_excerpt src"

text \<open>The catalogue collected into a \<open>HashMap\<close> by id: the last reference with an id wins.\<close>

definition source_catalog :: "source_ref list \<Rightarrow> uuid \<Rightarrow> source_ref option" where
  "source_catalog refs = map_of (rev (map (\<lambda>r. (sr_id r, r)) refs))"

fun evidence_checked :: "(uuid \<Rightarrow> source_ref option) \<Rightarrow> uuid list \<Rightarrow> evidence_ref list \<Rightarrow> bool" where
  "evidence_checked catalog seen [] = True"
| "evidence_checked catalog seen (ev # evs) =
     (if ev_id ev \<in> set seen then False
      else case catalog (ev_id ev) of
          None \<Rightarrow> False
        | Some src \<Rightarrow> evidence_is_source ev src \<and> evidence_checked catalog (ev_id ev # seen) evs)"

definition audit_claim_ok :: "uuid list \<Rightarrow> claim \<Rightarrow> bool" where
  "audit_claim_ok known c \<longleftrightarrow>
     \<not> is_blank (claim_statement c) \<and> confidence_ok (claim_confidence c)
     \<and> \<not> (claim_classification c \<noteq> Unknown \<and> claim_evidence_ids c = [])
     \<and> list_all (\<lambda>i. i \<in> set known) (claim_evidence_ids c)"

definition audit_conflict_ok :: "uuid list \<Rightarrow> conflict_item \<Rightarrow> bool" where
  "audit_conflict_ok known cf \<longleftrightarrow>
     cf_evidence_ids cf \<noteq> [] \<and> distinct (cf_evidence_ids cf)
     \<and> list_all (\<lambda>i. i \<in> set known) (cf_evidence_ids cf)"

definition validate_audit_bundle ::
  "(string \<Rightarrow> answer_bundle option) \<Rightarrow> (f32 \<Rightarrow> string) \<Rightarrow> string \<Rightarrow> uuid \<Rightarrow> grounding_trace option
   \<Rightarrow> answer_bundle result" where
  "validate_audit_bundle parse fmt raw request trace =
     (let bad = loop_error ''AUDIT_RESPONSE_INVALID'' in
      then_do (ok_or trace bad) (\<lambda>t.
      then_do (ok_or (gt_snapshot_id t) bad) (\<lambda>snapshot.
      then_do (ok_or (parse raw) bad) (\<lambda>b.
        if ab_snapshot_id b \<noteq> snapshot \<or> is_blank (ab_direct_answer b) then Inl bad
        else let known = map ev_id (ab_evidence_map b) in
          if \<not> evidence_checked (source_catalog (gt_source_refs t)) [] (ab_evidence_map b) then Inl bad
          else if \<not> list_all (audit_claim_ok known) (ab_claims b) then Inl bad
          else if \<not> list_all (audit_conflict_ok known) (ab_conflicts b) then Inl bad
          else Inr (b\<lparr>ab_request_id := request, ab_raw_model_response := None,
                      ab_direct_answer := compose_verified_answer fmt (ab_claims b)\<rparr>)))))"

section \<open>One provider round\<close>

datatype round_end = EndCalls "repository_tool_call list" | EndDone string | EndFailed string string | EndMissing

text \<open>The \<open>while let\<close> over the stream: state, round text and provider parts when it stops.\<close>

fun consume_round ::
  "round_event list \<Rightarrow> loop_state \<Rightarrow> string \<Rightarrow> json list option
   \<Rightarrow> loop_state \<times> string \<times> json list option \<times> round_end" where
  "consume_round [] s txt parts = (s, txt, parts, EndMissing)"
| "consume_round (RvProviderToolParts p # es) s txt parts = consume_round es s txt (Some p)"
| "consume_round (RvStarted i # es) s txt parts = consume_round es s txt parts"
| "consume_round (RvThinkingDelta d # es) s txt parts = consume_round es (emit (EvThinkingDelta d) s) txt parts"
| "consume_round (RvTextDelta d # es) s txt parts =
     consume_round es
       (if ar_response_contract (ls_request s) = ContractAdvisor then emit (EvTextDelta d) s else s)
       (txt @ d) parts"
| "consume_round (RvUsageUpdate p c # es) s txt parts = consume_round es (emit (EvUsageUpdate p c) s) txt parts"
| "consume_round (RvToolCallsRequested r calls # es) s txt parts = (s, txt, parts, EndCalls calls)"
| "consume_round (RvRawCompleted t # es) s txt parts = (s, txt, parts, EndDone t)"
| "consume_round (RvFailed c m # es) s txt parts = (s, txt, parts, EndFailed c m)"

section \<open>Ends of the loop\<close>

text \<open>\<open>attach_receipt_ids\<close>, then the outcome.\<close>

definition finish_loop :: "loop_env \<Rightarrow> loop_state \<Rightarrow> loop_outcome" where
  "finish_loop env s =
     (case (ls_trace s, le_receipt_ids env) of
        (Some t, Some (Inr ids)) \<Rightarrow> LoopOk (ls_events s) (Some (t\<lparr>gt_egress_receipt_ids := ids\<rparr>))
      | (Some t, Some (Inl e)) \<Rightarrow> LoopErr (ls_events s) e
      | _ \<Rightarrow> LoopOk (ls_events s) (ls_trace s))"

definition completed_event :: "loop_env \<Rightarrow> loop_state \<Rightarrow> string \<Rightarrow> agent_event" where
  "completed_event env s full_text =
     (case ar_response_contract (ls_request s) of
        ContractAdvisor \<Rightarrow>
          EvCompleted (AdvisorMarkdown (ls_prior_text s @ full_text)) (map_option gt_id (ls_trace s))
      | ContractAudit _ \<Rightarrow>
          (case validate_audit_bundle (le_parse_bundle env) (le_format env) full_text
                  (ar_request_id (ls_request s)) (ls_trace s) of
             Inr b \<Rightarrow> EvCompleted (ValidatedAuditBundle b) (map_option gt_id (ls_trace s))
           | Inl _ \<Rightarrow> EvFailed ''AUDIT_RESPONSE_INVALID'' ''audit schema/evidence validation failed''))"

definition failed_event :: "loop_state \<Rightarrow> string \<Rightarrow> string \<Rightarrow> string \<Rightarrow> agent_event" where
  "failed_event s round_text code msg =
     (if code = ''CANCELLED''
      then EvCancelled (cancellation_payload (ar_response_contract (ls_request s)) (ls_prior_text s @ round_text))
      else EvFailed code msg)"

section \<open>Tool calls of a round\<close>

definition call_fingerprint :: "loop_env \<Rightarrow> repository_tool_call \<Rightarrow> string result" where
  "call_fingerprint env call =
     then_do (ok_or (le_call_json env (call_name call, call_arguments call, call_snapshot_id call))
                (loop_error ''AGENT_TOOL_SCHEMA_INVALID''))
       (\<lambda>j. Inr (sha_hex (le_sha env) j))"

definition push_message :: "agent_message \<Rightarrow> loop_state \<Rightarrow> loop_state" where
  "push_message m s =
     s\<lparr>ls_request := (ls_request s)\<lparr>ar_messages := ar_messages (ls_request s) @ [m]\<rparr>\<rparr>"

definition record_call ::
  "loop_env \<Rightarrow> nat \<Rightarrow> repository_tool_call \<Rightarrow> string \<Rightarrow> repository_tool_result \<Rightarrow> grounding_trace \<Rightarrow> grounding_trace" where
  "record_call env rnd call fingerprint r t =
     t\<lparr>gt_source_refs := gt_source_refs t @ res_source_refs r,
       gt_tool_calls := gt_tool_calls t @
         [\<lparr> cr_trace_id = gt_id t, cr_call_id = call_id call, cr_round = of_nat rnd,
            cr_name = call_name call, cr_arguments_digest = fingerprint,
            cr_result_digest = Some (sha_hex (le_sha env) (res_content r)),
            cr_content_bytes = res_content_bytes r,
            cr_source_ref_ids = map sr_id (res_source_refs r), cr_status = CallCompleted \<rparr>]\<rparr>"

text \<open>One call: repetition check, execution, byte budget, trace, message and progress.\<close>

definition exec_call ::
  "loop_env \<Rightarrow> (nat \<Rightarrow> repository_tool_call \<Rightarrow> repository_tool_result result) \<Rightarrow> nat \<Rightarrow> u16 \<Rightarrow> nat
   \<Rightarrow> repository_tool_call \<Rightarrow> loop_state \<Rightarrow> mentat_error + loop_state" where
  "exec_call env execute rnd call_count index call s =
     then_do (call_fingerprint env call) (\<lambda>fp.
       let fps = bump fp (ls_fingerprints s) in
       if entry_count fp fps \<ge> 3 then Inl (loop_error ''AGENT_LOOP_REPEATED_CALL'')
       else then_do (execute (ls_executed s) call) (\<lambda>r.
         then_do (ok_or (checked_add (ls_total_bytes s) (res_content_bytes r))
                    (loop_error ''TOOL_RESULT_LIMIT_REACHED'')) (\<lambda>bytes.
           if bytes > al_max_tool_result_bytes (ar_limits (ls_request s))
           then Inl (loop_error ''TOOL_RESULT_LIMIT_REACHED'')
           else Inr (emit (EvToolProgress (of_nat rnd) (try_from_or_max (index + 1)) call_count)
                  (push_message \<lparr> am_role = AgTool, am_content = MToolResult r, am_provider_parts = None \<rparr>
                    (s\<lparr>ls_fingerprints := fps, ls_executed := ls_executed s + 1, ls_total_bytes := bytes,
                       ls_trace := map_option (record_call env rnd call fp r) (ls_trace s)\<rparr>))))))"

fun exec_calls ::
  "loop_env \<Rightarrow> (nat \<Rightarrow> repository_tool_call \<Rightarrow> repository_tool_result result) \<Rightarrow> nat \<Rightarrow> u16 \<Rightarrow> nat
   \<Rightarrow> repository_tool_call list \<Rightarrow> loop_state \<Rightarrow> (mentat_error \<times> loop_state) + loop_state" where
  "exec_calls env execute rnd call_count index [] s = Inr s"
| "exec_calls env execute rnd call_count index (c # cs) s =
     (case exec_call env execute rnd call_count index c s of
        Inl e \<Rightarrow> Inl (e, s)
      | Inr s' \<Rightarrow> exec_calls env execute rnd call_count (index + 1) cs s')"

text \<open>From the requested calls to the end of the round, after the stream ended with them.\<close>

definition start_calls ::
  "loop_env \<Rightarrow> repository_tool_call list \<Rightarrow> string \<Rightarrow> json list option \<Rightarrow> loop_state
   \<Rightarrow> mentat_error + (nat \<Rightarrow> repository_tool_call \<Rightarrow> repository_tool_result result) \<times> loop_state" where
  "start_calls env calls round_text parts s =
     (let s1 = s\<lparr>ls_prior_text := ls_prior_text s @ round_text\<rparr>;
          s2 = (if round_text \<noteq> [] then push_message (assistant_message round_text) s1 else s1)
      in then_do (ok_or (le_execute env) (loop_error ''REPOSITORY_TOOL_UNAVAILABLE'')) (\<lambda>execute.
         then_do (ok_or (checked_add (ls_total_calls s) (try_from_or_max (length calls)))
                    (loop_error ''AGENT_LOOP_LIMIT_REACHED'')) (\<lambda>total.
           if total > al_max_tool_calls (ar_limits (ls_request s))
           then Inl (loop_error ''AGENT_LOOP_LIMIT_REACHED'')
           else Inr (execute, push_message
                  \<lparr> am_role = AgAssistant, am_content = MToolCalls calls, am_provider_parts = parts \<rparr>
                  (s2\<lparr>ls_total_calls := total\<rparr>)))))"

definition tool_phase ::
  "loop_env \<Rightarrow> nat \<Rightarrow> repository_tool_call list \<Rightarrow> string \<Rightarrow> json list option \<Rightarrow> loop_state
   \<Rightarrow> (mentat_error \<times> loop_state) + loop_state" where
  "tool_phase env rnd calls round_text parts s =
     (case start_calls env calls round_text parts s of
        Inl e \<Rightarrow> Inl (e, s)
      | Inr (execute, s') \<Rightarrow> exec_calls env execute rnd (try_from_or_max (length calls)) 0 calls s')"

section \<open>The loop\<close>

datatype round_result = RoundEnds loop_outcome | RoundContinues loop_state

definition run_round :: "loop_env \<Rightarrow> nat \<Rightarrow> loop_state \<Rightarrow> round_result" where
  "run_round env rnd s =
     (if le_cancelled env rnd
      then RoundEnds (finish_loop env (emit (EvCancelled
             (cancellation_payload (ar_response_contract (ls_request s)) (ls_prior_text s))) s))
      else case le_round env rnd (ls_request s) of
        Inl e \<Rightarrow> RoundEnds (LoopErr (ls_events s) e)
      | Inr stream \<Rightarrow>
          (case consume_round stream s [] None of
             (s1, txt, parts, EndDone full) \<Rightarrow>
               RoundEnds (finish_loop env (emit (completed_event env s1 full) s1))
           | (s1, txt, parts, EndFailed code msg) \<Rightarrow>
               RoundEnds (finish_loop env (emit (failed_event s1 txt code msg) s1))
           | (s1, txt, parts, EndMissing) \<Rightarrow>
               RoundEnds (LoopErr (ls_events s1) (loop_error ''AGENT_ROUND_TERMINAL_MISSING''))
           | (s1, txt, parts, EndCalls calls) \<Rightarrow>
               (case tool_phase env rnd calls txt parts s1 of
                  Inl (e, s2) \<Rightarrow> RoundEnds (LoopErr (ls_events s2) e)
                | Inr s2 \<Rightarrow> RoundContinues s2)))"

fun run_rounds :: "loop_env \<Rightarrow> nat list \<Rightarrow> loop_state \<Rightarrow> loop_outcome" where
  "run_rounds env [] s = LoopErr (ls_events s) (loop_error ''AGENT_LOOP_LIMIT_REACHED'')"
| "run_rounds env (n # ns) s =
     (case run_round env n s of RoundEnds out \<Rightarrow> out | RoundContinues s' \<Rightarrow> run_rounds env ns s')"

definition initial_state :: "loop_env \<Rightarrow> agent_request \<Rightarrow> loop_state" where
  "initial_state env req =
     \<lparr> ls_request = req, ls_events = [EvStarted (ar_request_id req)],
       ls_trace = map_option (\<lambda>c. \<lparr> gt_id = le_trace_id env, gt_conversation_id = ar_conversation_id req,
         gt_turn_id = ar_turn_id req, gt_snapshot_id = Some (rc_snapshot_id c), gt_tool_calls = [],
         gt_source_refs = [], gt_egress_receipt_ids = [], gt_freshness = FreshAtSend \<rparr>)
         (ar_repository_context req),
       ls_total_calls = 0, ls_prior_text = [], ls_total_bytes = 0, ls_fingerprints = [], ls_executed = 0 \<rparr>"

definition run_bounded :: "loop_env \<Rightarrow> agent_request \<Rightarrow> loop_outcome" where
  "run_bounded env req =
     run_rounds env [1..<unat (al_max_rounds (ar_limits req)) + 1] (initial_state env req)"

text \<open>\<open>AgentLoop::run\<close> gives up after the requested time, at most 300 seconds.\<close>

definition run_timeout_secs :: "agent_request \<Rightarrow> nat" where
  "run_timeout_secs req = min (unat (al_timeout_secs (ar_limits req))) 300"

section \<open>Invariant of the loop\<close>

fun is_terminal :: "agent_event \<Rightarrow> bool" where
  "is_terminal (EvCompleted p i) = True"
| "is_terminal (EvCancelled p) = True"
| "is_terminal (EvFailed c m) = True"
| "is_terminal _ = False"

fun is_text_delta :: "agent_event \<Rightarrow> bool" where
  "is_text_delta (EvTextDelta d) = True"
| "is_text_delta _ = False"

fun is_progress :: "agent_event \<Rightarrow> bool" where
  "is_progress (EvToolProgress r c t) = True"
| "is_progress _ = False"

text \<open>Events so far: the start, then nothing terminal, and no text for an audit.\<close>

definition event_inv :: "agent_request \<Rightarrow> loop_state \<Rightarrow> bool" where
  "event_inv req s \<longleftrightarrow>
     ar_request_id (ls_request s) = ar_request_id req \<and> ar_limits (ls_request s) = ar_limits req
     \<and> ar_response_contract (ls_request s) = ar_response_contract req
     \<and> (\<exists>es. ls_events s = EvStarted (ar_request_id req) # es \<and>
          list_all (\<lambda>e. \<not> is_terminal e \<and> (ar_response_contract req \<noteq> ContractAdvisor \<longrightarrow> \<not> is_text_delta e)) es)"

text \<open>Budgets, with \<open>k\<close> calls of the current round still to come.\<close>

definition budget_inv :: "agent_request \<Rightarrow> nat \<Rightarrow> loop_state \<Rightarrow> bool" where
  "budget_inv req k s \<longleftrightarrow>
     length (filter is_progress (ls_events s)) = ls_executed s
     \<and> ls_executed s + k \<le> unat (ls_total_calls s)
     \<and> ls_total_calls s \<le> al_max_tool_calls (ar_limits req)
     \<and> ls_total_bytes s \<le> al_max_tool_result_bytes (ar_limits req)
     \<and> (\<forall>fp. entry_count fp (ls_fingerprints s) \<le> 2)"

text \<open>The trace records the executed calls.\<close>

definition trace_inv :: "loop_state \<Rightarrow> bool" where
  "trace_inv s \<longleftrightarrow> (\<forall>t. ls_trace s = Some t \<longrightarrow>
     length (gt_tool_calls t) = ls_executed s
     \<and> (\<Sum>c \<leftarrow> gt_tool_calls t. unat (cr_content_bytes c)) = unat (ls_total_bytes s)
     \<and> (\<forall>fp. count_list (map cr_arguments_digest (gt_tool_calls t)) fp = entry_count fp (ls_fingerprints s)))"

lemma emit_simps [simp]:
  "ls_request (emit e s) = ls_request s" "ls_events (emit e s) = ls_events s @ [e]"
  "ls_trace (emit e s) = ls_trace s" "ls_total_calls (emit e s) = ls_total_calls s"
  "ls_total_bytes (emit e s) = ls_total_bytes s" "ls_fingerprints (emit e s) = ls_fingerprints s"
  "ls_executed (emit e s) = ls_executed s" "ls_prior_text (emit e s) = ls_prior_text s"
  by (simp_all add: emit_def)

lemma push_message_simps [simp]:
  "ls_events (push_message m s) = ls_events s" "ls_trace (push_message m s) = ls_trace s"
  "ls_total_calls (push_message m s) = ls_total_calls s" "ls_total_bytes (push_message m s) = ls_total_bytes s"
  "ls_fingerprints (push_message m s) = ls_fingerprints s" "ls_executed (push_message m s) = ls_executed s"
  "ls_prior_text (push_message m s) = ls_prior_text s"
  "ar_limits (ls_request (push_message m s)) = ar_limits (ls_request s)"
  "ar_request_id (ls_request (push_message m s)) = ar_request_id (ls_request s)"
  "ar_response_contract (ls_request (push_message m s)) = ar_response_contract (ls_request s)"
  by (simp_all add: push_message_def)

lemma event_inv_emit:
  "event_inv req s \<Longrightarrow> \<not> is_terminal e \<Longrightarrow> (ar_response_contract req \<noteq> ContractAdvisor \<longrightarrow> \<not> is_text_delta e) \<Longrightarrow>
     event_inv req (emit e s)"
  by (auto simp: event_inv_def)

lemma event_inv_contract:
  "event_inv req s \<Longrightarrow> ar_response_contract (ls_request s) = ar_response_contract req"
  by (simp add: event_inv_def)

lemma budget_inv_emit: "\<not> is_progress e \<Longrightarrow> budget_inv req k (emit e s) \<longleftrightarrow> budget_inv req k s"
  by (simp add: budget_inv_def)

lemma trace_inv_emit: "trace_inv (emit e s) \<longleftrightarrow> trace_inv s"
  by (simp add: trace_inv_def)

lemma consume_round_inv:
  assumes "consume_round es s t parts = (s', t', parts', e)" and "event_inv req s"
  shows "event_inv req s' \<and> ls_trace s' = ls_trace s \<and> (budget_inv req k s \<longrightarrow> budget_inv req k s')
    \<and> (trace_inv s \<longrightarrow> trace_inv s') \<and> ls_total_calls s' = ls_total_calls s \<and> ls_executed s' = ls_executed s"
  using assms
  by (induction es s t parts rule: consume_round.induct)
     (auto simp: event_inv_emit budget_inv_emit trace_inv_emit event_inv_contract split: if_split_asm)

lemma exec_call_Inr:
  assumes "exec_call env execute rnd n i call s = Inr s'"
  shows "\<exists>fp r bytes. entry_count fp (bump fp (ls_fingerprints s)) < 3
    \<and> execute (ls_executed s) call = Inr r \<and> unat bytes = unat (ls_total_bytes s) + unat (res_content_bytes r)
    \<and> bytes \<le> al_max_tool_result_bytes (ar_limits (ls_request s))
    \<and> s' = emit (EvToolProgress (of_nat rnd) (try_from_or_max (i + 1)) n)
          (push_message \<lparr> am_role = AgTool, am_content = MToolResult r, am_provider_parts = None \<rparr>
            (s\<lparr>ls_fingerprints := bump fp (ls_fingerprints s), ls_executed := ls_executed s + 1,
               ls_total_bytes := bytes, ls_trace := map_option (record_call env rnd call fp r) (ls_trace s)\<rparr>))"
  using assms checked_add_Some
  by (auto simp: exec_call_def Let_def not_le not_less split: if_splits) blast

lemma exec_call_inv:
  assumes "exec_call env execute rnd n i call s = Inr s'" and "event_inv req s"
    and "B \<longrightarrow> budget_inv req (Suc k) s" and "trace_inv s"
  shows "event_inv req s' \<and> (B \<longrightarrow> budget_inv req k s') \<and> trace_inv s'"
proof -
  obtain fp r bytes where fp: "entry_count fp (bump fp (ls_fingerprints s)) < 3"
    and b: "unat bytes = unat (ls_total_bytes s) + unat (res_content_bytes r)"
      "bytes \<le> al_max_tool_result_bytes (ar_limits (ls_request s))"
    and s': "s' = emit (EvToolProgress (of_nat rnd) (try_from_or_max (i + 1)) n)
          (push_message \<lparr> am_role = AgTool, am_content = MToolResult r, am_provider_parts = None \<rparr>
            (s\<lparr>ls_fingerprints := bump fp (ls_fingerprints s), ls_executed := ls_executed s + 1,
               ls_total_bytes := bytes, ls_trace := map_option (record_call env rnd call fp r) (ls_trace s)\<rparr>))"
    using exec_call_Inr [OF assms(1)] by blast
  have "event_inv req s'" using assms(2) by (auto simp: s' event_inv_def)
  moreover have "B \<longrightarrow> budget_inv req k s'"
    using assms(2,3) fp b(2) by (auto simp: s' budget_inv_def event_inv_def bump_count)
  moreover have "trace_inv s'"
    using assms(4) b(1) by (auto simp: s' trace_inv_def record_call_def bump_count)
  ultimately show ?thesis by simp
qed

text \<open>Every state in which a call can fail has the same invariant, whatever is left to do.\<close>

lemma budget_inv_weaken: "budget_inv req k s \<Longrightarrow> budget_inv req 0 s"
  by (auto simp: budget_inv_def)

lemma exec_calls_inv:
  assumes "event_inv req s" and "B \<longrightarrow> budget_inv req (length calls) s" and "trace_inv s"
  shows "case exec_calls env execute rnd n i calls s of
      Inr s' \<Rightarrow> event_inv req s' \<and> (B \<longrightarrow> budget_inv req 0 s') \<and> trace_inv s'
    | Inl (e, s') \<Rightarrow> event_inv req s' \<and> (B \<longrightarrow> budget_inv req 0 s') \<and> trace_inv s'"
  using assms
proof (induction calls arbitrary: i s)
  case (Cons c cs)
  show ?case
  proof (cases "exec_call env execute rnd n i c s")
    case (Inl e)
    then show ?thesis using Cons.prems budget_inv_weaken by auto
  next
    case (Inr s1)
    then show ?thesis using Cons.IH [of s1 "i + 1"] exec_call_inv [OF Inr, of req B "length cs"] Cons.prems by simp
  qed
qed simp

text \<open>
  With a limit of 65535 calls the saturated count of a round could hide calls beyond it; the
  budgets are stated for any smaller limit (the default is 24).
\<close>

definition counted :: "agent_request \<Rightarrow> bool" where
  "counted req \<longleftrightarrow> al_max_tool_calls (ar_limits req) \<noteq> - 1"

text \<open>The references of the trace come from the executor.\<close>

definition refs_inv :: "(source_ref \<Rightarrow> bool) \<Rightarrow> loop_state \<Rightarrow> bool" where
  "refs_inv good s \<longleftrightarrow> (\<forall>t. ls_trace s = Some t \<longrightarrow> (\<forall>sr \<in> set (gt_source_refs t). good sr))"

definition executor_good :: "(source_ref \<Rightarrow> bool) \<Rightarrow> (nat \<Rightarrow> repository_tool_call \<Rightarrow> repository_tool_result result) \<Rightarrow> bool" where
  "executor_good good execute \<longleftrightarrow>
     (\<forall>n c r. execute n c = Inr r \<longrightarrow> (\<forall>sr \<in> set (res_source_refs r). good sr))"

lemma exec_call_refs:
  assumes "exec_call env execute rnd n i call s = Inr s'" and "executor_good good execute" and "refs_inv good s"
  shows "refs_inv good s'"
  using exec_call_Inr [OF assms(1)] assms(2,3)
  by (auto simp: refs_inv_def executor_good_def record_call_def)

lemma exec_calls_refs:
  assumes "executor_good good execute" and "refs_inv good s"
  shows "case exec_calls env execute rnd n i calls s of
      Inr s' \<Rightarrow> refs_inv good s' | Inl (e, s') \<Rightarrow> refs_inv good s'"
  using assms(2)
proof (induction calls arbitrary: i s)
  case (Cons c cs)
  show ?case
  proof (cases "exec_call env execute rnd n i c s")
    case (Inr s1)
    then show ?thesis
      using Cons.IH [of s1 "i + 1"] exec_call_refs [OF Inr assms(1) Cons.prems] by simp
  qed (use Cons.prems in simp)
qed simp

definition loop_inv :: "(source_ref \<Rightarrow> bool) \<Rightarrow> agent_request \<Rightarrow> loop_state \<Rightarrow> bool" where
  "loop_inv good req s \<longleftrightarrow> event_inv req s \<and> (counted req \<longrightarrow> budget_inv req 0 s) \<and> trace_inv s \<and> refs_inv good s"

lemma start_calls_inv:
  assumes "start_calls env calls t parts s = Inr (execute, s')" and "loop_inv good req s"
  shows "le_execute env = Some execute \<and> event_inv req s' \<and> (counted req \<longrightarrow> budget_inv req (length calls) s')
    \<and> trace_inv s' \<and> refs_inv good s'"
proof -
  let ?max = "al_max_tool_calls (ar_limits req)"
  obtain total where e: "le_execute env = Some execute"
    and c: "checked_add (ls_total_calls s) (try_from_or_max (length calls)) = Some total"
    and m: "total \<le> ?max"
    and s': "s' = push_message
        \<lparr> am_role = AgAssistant, am_content = MToolCalls calls, am_provider_parts = parts \<rparr>
        ((if t \<noteq> [] then push_message (assistant_message t) (s\<lparr>ls_prior_text := ls_prior_text s @ t\<rparr>)
          else s\<lparr>ls_prior_text := ls_prior_text s @ t\<rparr>)\<lparr>ls_total_calls := total\<rparr>)"
    using assms(1,2) by (auto simp: start_calls_def Let_def loop_inv_def event_inv_def split: if_split_asm)
  have "budget_inv req (length calls) s'" if "counted req"
  proof -
  have "unat ?max \<noteq> unat (- 1 :: u16)" using that by (simp add: word_unat_eq_iff counted_def)
  moreover have "unat (- 1 :: u16) = 65535" by (simp add: unat_minus_one_max)
  moreover have "unat ?max < 65536" using unsigned_less [of ?max, where ?'a = nat] by simp
  ultimately have "unat ?max < 65535" by linarith
  moreover have tot: "unat total = unat (ls_total_calls s) + min (length calls) 65535"
    using checked_add_Some [OF c] by (simp add: unat_try_from_or_max)
  ultimately have "length calls < 65535" using m by (simp add: word_le_nat_alt)
  then have "unat total = unat (ls_total_calls s) + length calls" using tot by simp
  then show ?thesis
    using assms(2) m that by (auto simp: s' loop_inv_def budget_inv_def)
  qed
  moreover have "event_inv req s'" "trace_inv s'" "refs_inv good s'"
    using assms(2) by (auto simp: s' loop_inv_def event_inv_def trace_inv_def refs_inv_def)
  ultimately show ?thesis using e by simp
qed

lemma tool_phase_inv:
  assumes "loop_inv good req s"
    and "\<And>ex. le_execute env = Some ex \<Longrightarrow> executor_good good ex"
  shows "case tool_phase env rnd calls t parts s of
      Inr s' \<Rightarrow> loop_inv good req s' | Inl (e, s') \<Rightarrow> loop_inv good req s'"
proof (cases "start_calls env calls t parts s")
  case (Inl e)
  then show ?thesis using assms(1) by (simp add: tool_phase_def)
next
  case (Inr p)
  then obtain ex s1 where p: "start_calls env calls t parts s = Inr (ex, s1)" by (cases p) simp
  from start_calls_inv [OF p assms(1)] have i: "le_execute env = Some ex" "event_inv req s1"
    "counted req \<longrightarrow> budget_inv req (length calls) s1" "trace_inv s1" "refs_inv good s1" by auto
  show ?thesis
    using exec_calls_inv [OF i(2-4), of env ex rnd "try_from_or_max (length calls)" 0]
      exec_calls_refs [OF assms(2) [OF i(1)] i(5), of env rnd "try_from_or_max (length calls)" 0 calls]
    by (simp add: tool_phase_def p loop_inv_def split: sum.splits prod.splits)
qed

text \<open>How the loop can end, with the invariant in the last state.\<close>

definition terminal_event :: "loop_env \<Rightarrow> loop_state \<Rightarrow> agent_event \<Rightarrow> bool" where
  "terminal_event env s e \<longleftrightarrow>
     (\<exists>full. e = completed_event env s full) \<or> (\<exists>t code msg. e = failed_event s t code msg)
     \<or> e = EvCancelled (cancellation_payload (ar_response_contract (ls_request s)) (ls_prior_text s))"

definition ends_well :: "(source_ref \<Rightarrow> bool) \<Rightarrow> loop_env \<Rightarrow> agent_request \<Rightarrow> loop_outcome \<Rightarrow> bool" where
  "ends_well good env req out \<longleftrightarrow>
     (\<exists>s e. loop_inv good req s \<and> terminal_event env s e \<and> out = finish_loop env (emit e s))
     \<or> (\<exists>s err. loop_inv good req s \<and> out = LoopErr (ls_events s) err)"

lemma ends_wellI:
  "loop_inv good req s \<Longrightarrow> terminal_event env s e \<Longrightarrow> ends_well good env req (finish_loop env (emit e s))"
  "loop_inv good req s \<Longrightarrow> ends_well good env req (LoopErr (ls_events s) err)"
  by (auto simp: ends_well_def)

lemma terminal_eventI:
  "terminal_event env s (completed_event env s full)" "terminal_event env s (failed_event s t code msg)"
  "terminal_event env s (EvCancelled (cancellation_payload (ar_response_contract (ls_request s)) (ls_prior_text s)))"
  by (auto simp: terminal_event_def)

lemma consume_round_loop_inv:
  "consume_round es s t parts = (s', t', parts', e) \<Longrightarrow> loop_inv good req s \<Longrightarrow> loop_inv good req s'"
  using consume_round_inv [of es s t parts s' t' parts' e req 0]
  by (auto simp: loop_inv_def refs_inv_def)

lemma run_round_ends:
  assumes "loop_inv good req s"
    and "\<And>ex. le_execute env = Some ex \<Longrightarrow> executor_good good ex"
  shows "case run_round env rnd s of
      RoundEnds out \<Rightarrow> ends_well good env req out | RoundContinues s' \<Rightarrow> loop_inv good req s'"
proof (cases "le_cancelled env rnd")
  case True
  then show ?thesis using assms(1) by (auto simp: run_round_def ends_well_def terminal_event_def)
next
  case False
  show ?thesis
  proof (cases "le_round env rnd (ls_request s)")
    case (Inl e)
    then show ?thesis using False assms(1) by (auto simp: run_round_def ends_well_def)
  next
    case (Inr stream)
    obtain s1 t parts e where c: "consume_round stream s [] None = (s1, t, parts, e)"
      by (metis prod_cases4)
    have i: "loop_inv good req s1" using consume_round_loop_inv [OF c assms(1)] .
    show ?thesis
    proof (cases e)
      case (EndCalls calls)
      then show ?thesis
        using False Inr c tool_phase_inv [where ?env = env, OF i assms(2), where ?rnd = rnd and ?calls = calls and ?t = t and ?parts = parts]
        by (auto simp: run_round_def intro: ends_wellI split: sum.splits)
    qed (use False Inr c i in \<open>simp_all add: run_round_def ends_wellI terminal_eventI\<close>)
  qed
qed

lemma run_rounds_ends:
  assumes "loop_inv good req s"
    and "\<And>ex. le_execute env = Some ex \<Longrightarrow> executor_good good ex"
  shows "ends_well good env req (run_rounds env ns s)"
  using assms(1)
proof (induction ns arbitrary: s)
  case Nil
  then show ?case by (auto simp: ends_well_def)
next
  case (Cons n ns)
  then show ?case using run_round_ends [where ?env = env, OF Cons.prems assms(2), where ?rnd = n] by (auto split: round_result.splits)
qed

lemma initial_loop_inv: "loop_inv good req (initial_state env req)"
  by (auto simp: loop_inv_def event_inv_def budget_inv_def trace_inv_def refs_inv_def initial_state_def
      entry_count_def)

lemma run_bounded_ends:
  assumes "\<And>ex. le_execute env = Some ex \<Longrightarrow> executor_good good ex"
  shows "ends_well good env req (run_bounded env req)"
  unfolding run_bounded_def using run_rounds_ends [OF initial_loop_inv assms] .

lemma run_bounded_ends_any: "ends_well (\<lambda>_. True) env req (run_bounded env req)"
  by (rule run_bounded_ends) (simp add: executor_good_def)

lemma finish_loop_events: "out_events (finish_loop env s) = ls_events s"
  by (simp add: finish_loop_def split: option.splits sum.splits)

lemma finish_loop_Ok:
  "finish_loop env s = LoopOk evs tr \<Longrightarrow> evs = ls_events s \<and>
     (case tr of None \<Rightarrow> ls_trace s = None
      | Some t \<Rightarrow> \<exists>t0. ls_trace s = Some t0 \<and> gt_tool_calls t = gt_tool_calls t0
                    \<and> gt_source_refs t = gt_source_refs t0 \<and> gt_snapshot_id t = gt_snapshot_id t0)"
  by (cases "ls_trace s"; cases "le_receipt_ids env"; cases tr)
     (auto simp: finish_loop_def split: sum.splits)

lemma completed_event_cases:
  "ar_response_contract (ls_request s) = ContractAdvisor
     \<and> completed_event env s full = EvCompleted (AdvisorMarkdown (ls_prior_text s @ full)) (map_option gt_id (ls_trace s))
   \<or> (\<exists>v. ar_response_contract (ls_request s) = ContractAudit v) \<and>
     ((\<exists>b. validate_audit_bundle (le_parse_bundle env) (le_format env) full (ar_request_id (ls_request s)) (ls_trace s) = Inr b
         \<and> completed_event env s full = EvCompleted (ValidatedAuditBundle b) (map_option gt_id (ls_trace s)))
      \<or> (\<exists>c m. completed_event env s full = EvFailed c m))"
  by (cases "ar_response_contract (ls_request s)";
      cases "validate_audit_bundle (le_parse_bundle env) (le_format env) full (ar_request_id (ls_request s)) (ls_trace s)")
     (simp_all add: completed_event_def)

lemma terminal_event_is_terminal: "terminal_event env s e \<Longrightarrow> is_terminal e"
proof -
  have "is_terminal (completed_event env s full)" for full
    using completed_event_cases [of s env full] by auto
  then show "terminal_event env s e \<Longrightarrow> is_terminal e"
    by (auto simp: terminal_event_def failed_event_def)
qed

lemma run_bounded_Ok:
  assumes "run_bounded env req = LoopOk evs tr"
  shows "\<exists>s e. loop_inv (\<lambda>_. True) req s \<and> terminal_event env s e \<and> evs = ls_events s @ [e]
    \<and> finish_loop env (emit e s) = LoopOk evs tr"
  using run_bounded_ends_any [of env req] assms finish_loop_events
  unfolding ends_well_def by (metis emit_simps(2) loop_outcome.distinct(1) loop_outcome.sel(1))

section \<open>Validated audits\<close>

lemma evidence_checked_sound:
  "evidence_checked catalog seen evs \<Longrightarrow>
     distinct (map ev_id evs) \<and> (\<forall>ev \<in> set evs. ev_id ev \<notin> set seen) \<and>
     (\<forall>ev \<in> set evs. \<exists>src. catalog (ev_id ev) = Some src \<and> evidence_is_source ev src)"
  by (induction catalog seen evs rule: evidence_checked.induct) (auto split: if_splits option.splits)

lemma source_catalog_Some: "source_catalog refs i = Some src \<Longrightarrow> src \<in> set refs \<and> sr_id src = i"
  by (auto simp: source_catalog_def dest!: map_of_SomeD)

lemma validate_audit_bundle_Inr:
  assumes "validate_audit_bundle parse fmt raw request trace = Inr b"
  shows "\<exists>t. trace = Some t \<and> gt_snapshot_id t = Some (ab_snapshot_id b)
    \<and> distinct (map ev_id (ab_evidence_map b))
    \<and> (\<forall>ev \<in> set (ab_evidence_map b). \<exists>src \<in> set (gt_source_refs t). sr_id src = ev_id ev \<and> evidence_is_source ev src)
    \<and> list_all (audit_claim_ok (map ev_id (ab_evidence_map b))) (ab_claims b)
    \<and> list_all (audit_conflict_ok (map ev_id (ab_evidence_map b))) (ab_conflicts b)
    \<and> ab_request_id b = request \<and> ab_raw_model_response b = None
    \<and> ab_direct_answer b = compose_verified_answer fmt (ab_claims b)"
proof -
  obtain t b0 where t: "trace = Some t" "gt_snapshot_id t = Some (ab_snapshot_id b0)" "parse raw = Some b0"
    and e: "evidence_checked (source_catalog (gt_source_refs t)) [] (ab_evidence_map b0)"
    and c: "list_all (audit_claim_ok (map ev_id (ab_evidence_map b0))) (ab_claims b0)"
      "list_all (audit_conflict_ok (map ev_id (ab_evidence_map b0))) (ab_conflicts b0)"
    and b: "b = b0\<lparr>ab_request_id := request, ab_raw_model_response := None,
                   ab_direct_answer := compose_verified_answer fmt (ab_claims b0)\<rparr>"
    using assms by (auto simp: validate_audit_bundle_def Let_def split: if_splits)
  from evidence_checked_sound [OF e] source_catalog_Some
  have "distinct (map ev_id (ab_evidence_map b0))"
    "\<forall>ev \<in> set (ab_evidence_map b0). \<exists>src \<in> set (gt_source_refs t). sr_id src = ev_id ev \<and> evidence_is_source ev src"
    by blast+
  then show ?thesis using t c by (simp add: b)
qed

section \<open>An executor with a guarantee on its references\<close>

text \<open>What the trace of a loop inherits from the executor it calls.\<close>

locale grounded_executor =
  fixes execute :: "nat \<Rightarrow> repository_tool_call \<Rightarrow> repository_tool_result result"
    and good :: "source_ref \<Rightarrow> bool"
  assumes refs_good: "execute n c = Inr r \<Longrightarrow> sr \<in> set (res_source_refs r) \<Longrightarrow> good sr"
begin

lemma loop_ends_well:
  "le_execute env = Some execute \<Longrightarrow> ends_well good env req (run_bounded env req)"
  by (rule run_bounded_ends) (auto simp: executor_good_def refs_good)

lemma audit_evidence_good:
  assumes "le_execute env = Some execute" and "run_bounded env req = LoopOk evs tr"
    and "EvCompleted (ValidatedAuditBundle b) i \<in> set evs" and "ev \<in> set (ab_evidence_map b)"
  shows "\<exists>src. good src \<and> sr_id src = ev_id ev \<and> evidence_is_source ev src"
proof -
  obtain s e where inv: "loop_inv good req s" and te: "terminal_event env s e" and evs: "evs = ls_events s @ [e]"
    using loop_ends_well [OF assms(1), of req] assms(2) finish_loop_events
    unfolding ends_well_def by (metis emit_simps(2) loop_outcome.distinct(1) loop_outcome.sel(1))
  from inv obtain es where "ls_events s = EvStarted (ar_request_id req) # es" "list_all (\<lambda>e. \<not> is_terminal e) es"
    by (auto simp: loop_inv_def event_inv_def list_all_iff)
  then have "EvCompleted (ValidatedAuditBundle b) i = e"
    using assms(3) evs by (auto simp: list_all_iff)
  then have "\<exists>full. completed_event env s full = EvCompleted (ValidatedAuditBundle b) i"
    using te by (auto simp: terminal_event_def failed_event_def split: if_splits)
  then obtain full where
    "validate_audit_bundle (le_parse_bundle env) (le_format env) full (ar_request_id (ls_request s)) (ls_trace s) = Inr b"
    using completed_event_cases by (metis agent_event.inject(6) completed_payload.distinct(1)
        completed_payload.inject(2) agent_event.distinct)
  from validate_audit_bundle_Inr [OF this] obtain t src where "ls_trace s = Some t"
    "src \<in> set (gt_source_refs t)" "sr_id src = ev_id ev" "evidence_is_source ev src"
    using assms(4) by blast
  moreover from this(1,2) have "good src" using inv by (auto simp: loop_inv_def refs_inv_def)
  ultimately show ?thesis by blast
qed

end

text \<open>A reference grounded in the scanned files, for some call of the turn.\<close>

definition grounded_source :: "(nat \<Rightarrow> tool_env) \<Rightarrow> repository_snapshot \<Rightarrow> file_record list \<Rightarrow> source_ref \<Rightarrow> bool" where
  "grounded_source envs snap files sr \<longleftrightarrow> sr_snapshot_id sr = snap_id snap \<and>
    (\<exists>f \<in> set files. \<exists>n p content. \<not> is_sensitive_filename (file_path f) \<and> file_is_text f
       \<and> sr_path sr = file_path f \<and> path_eq (file_path f) p \<and> sr_content_hash sr = file_content_hash f
       \<and> te_read (envs n) p = Inr content \<and> sha_hex (te_sha (envs n)) content = file_content_hash f
       \<and> 1 \<le> sr_line_start sr \<and> sr_line_start sr \<le> sr_line_end sr
       \<and> sr_line_end sr \<le> length (lines content))"

interpretation gateway_refs: grounded_executor
  "\<lambda>n. gateway_execute (envs n) (gateway_new snap files)" "grounded_source envs snap files"
  for envs snap files
proof
  fix n c r sr
  assume "gateway_execute (envs n) (gateway_new snap files) c = Inr r" and "sr \<in> set (res_source_refs r)"
  from gateway_refs_grounded [OF this] show "grounded_source envs snap files sr"
    unfolding grounded_source_def by blast
qed

section \<open>Properties\<close>

text \<open>
  C40: A loop that returns an outcome has emitted the start of the request first, exactly one
  terminal event, and that one last.
\<close>

theorem one_terminal_event_last:
  assumes "run_bounded env req = LoopOk evs tr"
  shows "\<exists>mid e. evs = EvStarted (ar_request_id req) # mid @ [e] \<and> is_terminal e
    \<and> list_all (\<lambda>e. \<not> is_terminal e) mid"
proof -
  obtain s e where i: "event_inv req s" and e: "is_terminal e" and v: "evs = ls_events s @ [e]"
    using run_bounded_Ok [OF assms] terminal_event_is_terminal by (auto simp: loop_inv_def)
  from i obtain es where "ls_events s = EvStarted (ar_request_id req) # es" "list_all (\<lambda>e. \<not> is_terminal e) es"
    by (auto simp: event_inv_def list_all_iff)
  then show ?thesis using v e by auto
qed

text \<open>
  C6: An audit never shows unvalidated model text: whatever the provider and the tools do, and
  also when the loop fails, no text delta is emitted, no Markdown completion, and a cancellation
  carries no content; a completion carries a bundle that passed the audit validation.
\<close>

theorem audit_emits_no_raw_text:
  assumes "ar_response_contract req = ContractAudit v" and "e \<in> set (out_events (run_bounded env req))"
  shows "\<not> is_text_delta e
    \<and> (\<forall>p i. e = EvCompleted p i \<longrightarrow> (\<exists>b full t. p = ValidatedAuditBundle b \<and>
          validate_audit_bundle (le_parse_bundle env) (le_format env) full (ar_request_id req) t = Inr b))
    \<and> (\<forall>p. e = EvCancelled p \<longrightarrow> p = AuditNoContent)"
proof -
  have quiet: "\<not> is_text_delta e \<and> \<not> is_terminal e" if "event_inv req s" "e \<in> set (ls_events s)" for s
    using that assms(1) by (auto simp: event_inv_def list_all_iff)
  have last: ?thesis if i: "event_inv req s" and t: "terminal_event env s e" for s
  proof -
    have c: "ar_response_contract (ls_request s) = ContractAudit v" "ar_request_id (ls_request s) = ar_request_id req"
      using i assms(1) by (auto simp: event_inv_def)
    consider full where "e = completed_event env s full" | "\<exists>c m. e = EvFailed c m" | "e = EvCancelled AuditNoContent"
      using t c(1) by (auto simp: terminal_event_def failed_event_def split: if_splits)
    then show ?thesis
    proof cases
      case (1 full)
      then show ?thesis using completed_event_cases [of s env full] c by auto blast
    qed auto
  qed
  have "(\<exists>s. event_inv req s \<and> (e \<in> set (ls_events s) \<or> terminal_event env s e))"
    using run_bounded_ends_any [of env req] assms(2)
    by (auto simp: ends_well_def loop_inv_def finish_loop_events)
  then show ?thesis using quiet last by fastforce
qed

text \<open>
  Tool use of a turn stays within its limits. With a call limit below 65535, at most that many
  calls are executed, however the loop ends; and a returned trace records as many calls, of at most
  the permitted number of bytes in total, with no call (same tool, arguments and snapshot, by
  digest) executed more than twice.
\<close>

theorem tool_use_within_limits:
  assumes "counted req"
  shows "length (filter is_progress (out_events (run_bounded env req))) \<le> unat (al_max_tool_calls (ar_limits req))
    \<and> (\<forall>evs t. run_bounded env req = LoopOk evs (Some t) \<longrightarrow>
        length (gt_tool_calls t) \<le> unat (al_max_tool_calls (ar_limits req))
        \<and> (\<Sum>c \<leftarrow> gt_tool_calls t. unat (cr_content_bytes c)) \<le> unat (al_max_tool_result_bytes (ar_limits req))
        \<and> (\<forall>fp. count_list (map cr_arguments_digest (gt_tool_calls t)) fp \<le> 2))"
proof -
  let ?max = "unat (al_max_tool_calls (ar_limits req))"
  have le: "ls_executed s \<le> ?max \<and> unat (ls_total_bytes s) \<le> unat (al_max_tool_result_bytes (ar_limits req))"
    if "budget_inv req 0 s" for s
    using that by (auto simp: budget_inv_def word_le_nat_alt)
  have "length (filter is_progress (out_events (run_bounded env req))) \<le> ?max"
    using run_bounded_ends_any [of env req] assms le terminal_event_is_terminal
    by (fastforce simp: ends_well_def loop_inv_def finish_loop_events budget_inv_def elim: is_terminal.elims)
  moreover have "length (gt_tool_calls t) \<le> ?max
        \<and> (\<Sum>c \<leftarrow> gt_tool_calls t. unat (cr_content_bytes c)) \<le> unat (al_max_tool_result_bytes (ar_limits req))
        \<and> (\<forall>fp. count_list (map cr_arguments_digest (gt_tool_calls t)) fp \<le> 2)"
    if ok: "run_bounded env req = LoopOk evs (Some t)" for evs t
  proof -
    obtain s e where i: "loop_inv (\<lambda>_. True) req s" and f: "finish_loop env (emit e s) = LoopOk evs (Some t)"
      using run_bounded_Ok [OF ok] by blast
    obtain t0 where t0: "ls_trace s = Some t0" and c: "gt_tool_calls t = gt_tool_calls t0"
      using finish_loop_Ok [OF f] by auto
    have b: "budget_inv req 0 s" and tr: "trace_inv s" using i assms by (auto simp: loop_inv_def)
    then have "length (gt_tool_calls t0) = ls_executed s"
      "(\<Sum>c \<leftarrow> gt_tool_calls t0. unat (cr_content_bytes c)) = unat (ls_total_bytes s)"
      "\<forall>fp. count_list (map cr_arguments_digest (gt_tool_calls t0)) fp = entry_count fp (ls_fingerprints s)"
      using t0 by (auto simp: trace_inv_def)
    then show ?thesis using le [OF b] b c by (auto simp: budget_inv_def)
  qed
  ultimately show ?thesis by blast
qed

text \<open>
  C1: An audit that completes cites the repository and nothing else: when the tools are those of
  the gateway over a scan, every evidence of the completed bundle equals a reference a tool call of
  this turn returned, and so names a text file of the scan that is not sensitive, with its scanned
  hash, and lines that file has.
\<close>

theorem completed_audit_cites_scanned_files:
  assumes "le_execute env = Some (\<lambda>n. gateway_execute (envs n) (gateway_new snap files))"
    and "run_bounded env req = LoopOk evs tr"
    and "EvCompleted (ValidatedAuditBundle b) i \<in> set evs" and "ev \<in> set (ab_evidence_map b)"
  shows "ev_snapshot_id ev = snap_id snap \<and>
    (\<exists>f \<in> set files. \<not> is_sensitive_filename (file_path f) \<and> file_is_text f
       \<and> path_eq (ev_path ev) (file_path f) \<and> ev_content_hash ev = file_content_hash f
       \<and> (\<exists>n p content. path_eq (file_path f) p \<and> te_read (envs n) p = Inr content
            \<and> sha_hex (te_sha (envs n)) content = file_content_hash f
            \<and> 1 \<le> ev_line_start ev \<and> ev_line_start ev \<le> ev_line_end ev
            \<and> ev_line_end ev \<le> length (lines content)))"
proof -
  obtain src where "grounded_source envs snap files src" "evidence_is_source ev src"
    using gateway_refs.audit_evidence_good [OF assms] by blast
  then show ?thesis unfolding grounded_source_def evidence_is_source_def by metis
qed

section \<open>Witnesses\<close>

definition demo_round :: "nat \<Rightarrow> agent_request \<Rightarrow> round_event list result" where
  "demo_round n req =
     (if n = 1 then Inr [RvStarted 1, RvTextDelta ''looking'',
        RvToolCallsRequested 1 [demo_call ReadFileLines (ArgReadFileLines ''src/a.rs'' 1 9)]]
      else Inr [RvTextDelta ''json'', RvRawCompleted ''json''])"

definition demo_evidence :: evidence_ref where
  "demo_evidence = \<lparr> ev_id = 0, ev_snapshot_id = 5, ev_path = ''src/a.rs'', ev_line_start = 1,
     ev_line_end = 1, ev_content_hash = hex_of ''x=1'', ev_excerpt = ''x=1'' \<rparr>"

definition demo_audit :: answer_bundle where
  "demo_audit = \<lparr> ab_request_id = 0, ab_snapshot_id = 5, ab_direct_answer = ''a'', ab_claims = [],
     ab_evidence_map = [demo_evidence], ab_recommendations = [], ab_conflicts = [],
     ab_raw_model_response = None \<rparr>"

definition demo_loop_env :: loop_env where
  "demo_loop_env = \<lparr> le_round = demo_round, le_cancelled = (\<lambda>n. False),
     le_execute = Some (\<lambda>n. gateway_execute ((\<lambda>n. demo_env) n) (gateway_new demo_snapshot [demo_file])),
     le_receipt_ids = None, le_trace_id = 20, le_sha = plain_sha, le_call_json = (\<lambda>c. Some ''call''),
     le_parse_bundle = (\<lambda>t. Some demo_audit), le_format = (\<lambda>f. ''1.00'') \<rparr>"

definition demo_agent_request :: "response_contract \<Rightarrow> agent_request" where
  "demo_agent_request contract =
     \<lparr> ar_request_id = 1, ar_conversation_id = 2, ar_turn_id = 3, ar_profile = backend_profile_default 4,
       ar_system_prompt = [], ar_messages = [user_message ''q''], ar_tools = repository_tool_definitions,
       ar_repository_context = Some \<lparr> rc_repository_id = 6, rc_snapshot_id = 5, rc_snapshot_status = SnapReady,
         rc_tools_available = True, rc_display_name = ''demo'' \<rparr>,
       ar_response_contract = contract, ar_limits = agent_limits_default \<rparr>"

fun audit_finished :: "loop_outcome \<Rightarrow> bool" where
  "audit_finished (LoopOk evs tr) =
     (case rev evs of EvCompleted (ValidatedAuditBundle b) i # _ \<Rightarrow> demo_evidence \<in> set (ab_evidence_map b) | _ \<Rightarrow> False)"
| "audit_finished (LoopErr evs e) = False"

lemma demo_audit_finished: "audit_finished (run_bounded demo_loop_env (demo_agent_request (ContractAudit ''v'')))"
  by code_simp

lemma demo_audit_run:
  "\<exists>evs tr b i. run_bounded demo_loop_env (demo_agent_request (ContractAudit ''v'')) = LoopOk evs tr
     \<and> EvCompleted (ValidatedAuditBundle b) i \<in> set evs \<and> demo_evidence \<in> set (ab_evidence_map b)"
proof (cases "run_bounded demo_loop_env (demo_agent_request (ContractAudit ''v''))")
  case (LoopOk evs tr)
  then show ?thesis
    using demo_audit_finished
    by (cases "rev evs") (auto split: agent_event.splits completed_payload.splits simp flip: set_rev [of evs])
next
  case (LoopErr evs e)
  then show ?thesis using demo_audit_finished by simp
qed

lemma one_terminal_event_last_witness:
  "\<exists>evs tr mid e. run_bounded demo_loop_env (demo_agent_request (ContractAudit ''v'')) = LoopOk evs tr
     \<and> evs = EvStarted 1 # mid @ [e] \<and> is_terminal e"
proof -
  obtain evs tr where r: "run_bounded demo_loop_env (demo_agent_request (ContractAudit ''v'')) = LoopOk evs tr"
    using demo_audit_run by blast
  show ?thesis using one_terminal_event_last [OF r] r by (auto simp: demo_agent_request_def)
qed

lemma audit_emits_no_raw_text_witness:
  "\<exists>e \<in> set (out_events (run_bounded demo_loop_env (demo_agent_request (ContractAudit ''v'')))). \<not> is_text_delta e"
proof -
  obtain b i where e: "EvCompleted (ValidatedAuditBundle b) i
      \<in> set (out_events (run_bounded demo_loop_env (demo_agent_request (ContractAudit ''v''))))"
    using demo_audit_run by force
  have "ar_response_contract (demo_agent_request (ContractAudit ''v'')) = ContractAudit ''v''"
    by (simp add: demo_agent_request_def)
  from audit_emits_no_raw_text [OF this e] e show ?thesis by blast
qed

lemma tool_use_within_limits_witness:
  "length (filter is_progress (out_events (run_bounded demo_loop_env (demo_agent_request ContractAdvisor)))) \<le> 24"
proof -
  have "counted (demo_agent_request ContractAdvisor)"
    by (simp add: counted_def demo_agent_request_def agent_limits_default_def)
  from tool_use_within_limits [OF this, of demo_loop_env] show ?thesis
    by (simp add: demo_agent_request_def agent_limits_default_def)
qed

lemma completed_audit_cites_scanned_files_witness:
  "\<exists>f \<in> set [demo_file]. ev_content_hash demo_evidence = file_content_hash f"
proof -
  obtain evs tr b i where r: "run_bounded demo_loop_env (demo_agent_request (ContractAudit ''v'')) = LoopOk evs tr"
      "EvCompleted (ValidatedAuditBundle b) i \<in> set evs" "demo_evidence \<in> set (ab_evidence_map b)"
    using demo_audit_run by blast
  have "le_execute demo_loop_env = Some (\<lambda>n. gateway_execute ((\<lambda>n. demo_env) n) (gateway_new demo_snapshot [demo_file]))"
    by (simp add: demo_loop_env_def)
  from completed_audit_cites_scanned_files [OF this r] show ?thesis by blast
qed

end
