(* ===== verification/Tool_Egress.thy ===== *)
theory Tool_Egress
  imports Digests Inference_Types
begin

text \<open>
  Sealing of tool results before they are sent to a provider: \<open>ProviderBinding\<close>
  (\<open>mentat-core/src/models.rs\<close>) and \<open>tool_egress.rs\<close> of \<open>mentat-analysis\<close>. The revocation token
  of a capability is shared with the user interface; \<open>cap_revoked\<close> is its state at the time of the
  call. The URL parser, the text of a UUID and SHA-256 are parameters.
\<close>

section \<open>Provider binding\<close>

definition binding_preimage :: "(uuid \<Rightarrow> string) \<Rightarrow> uuid \<Rightarrow> string \<Rightarrow> string \<Rightarrow> string \<Rightarrow> string" where
  "binding_preimage uuid_text profile provider identity model =
     join [CHR 0x0A] [''CM_PROVIDER_TARGET_V1'', uuid_text profile, provider, identity, model]"

definition endpoint_identity :: "parsed_url \<Rightarrow> string \<Rightarrow> string" where
  "endpoint_identity u host =
     url_scheme u @ ''://'' @ to_lowercase host @
     (case url_port u of Some p \<Rightarrow> CHR '':'' # show_nat p | None \<Rightarrow> []) @
     trim_end_char (CHR ''/'') (if url_path u = [] then ''/'' else url_path u) @ ''/''"

text \<open>\<open>ProviderBinding::new\<close>.\<close>

definition binding_new ::
  "(string \<Rightarrow> string) \<Rightarrow> url_parser \<Rightarrow> (uuid \<Rightarrow> string) \<Rightarrow> uuid \<Rightarrow> string \<Rightarrow> string \<Rightarrow> string
   \<Rightarrow> provider_binding result" where
  "binding_new sha parse uuid_text profile provider endpoint model =
     (if is_blank provider \<or> is_blank model \<or> 256 < length model
      then Inl (EgressViolation ''provider or model empty or too long'')
      else then_do (ok_or (parse endpoint) (EgressViolation ''endpoint malformed'')) (\<lambda>u.
        if url_username u \<noteq> [] \<or> url_password u \<noteq> None \<or> url_query u \<noteq> None \<or> url_fragment u \<noteq> None
        then Inl (EgressViolation ''endpoint with user information, query or fragment'')
        else then_do (ok_or (url_host u) (EgressViolation ''endpoint without host'')) (\<lambda>host.
          let loopback = host \<in> {''localhost'', ''127.0.0.1'', ''::1'', ''[::1]''} in
          if url_scheme u \<noteq> ''https'' \<and> \<not> (url_scheme u = ''http'' \<and> loopback)
          then Inl (EgressViolation ''endpoint neither HTTPS nor local'')
          else let identity = endpoint_identity u host in
            Inr \<lparr> pb_profile_id = profile, pb_provider = provider, pb_endpoint_identity = identity,
                  pb_model_id = model,
                  pb_target_digest = sha_hex sha (binding_preimage uuid_text profile provider identity model) \<rparr>)))"

definition verify_target_digest ::
  "(string \<Rightarrow> string) \<Rightarrow> url_parser \<Rightarrow> (uuid \<Rightarrow> string) \<Rightarrow> provider_binding \<Rightarrow> unit result" where
  "verify_target_digest sha parse uuid_text b =
     then_do (binding_new sha parse uuid_text (pb_profile_id b) (pb_provider b) (pb_endpoint_identity b)
                (pb_model_id b)) (\<lambda>rebuilt.
       if pb_target_digest rebuilt \<noteq> pb_target_digest b
       then Inl (EgressViolation ''target digest mismatch'') else Inr ())"

section \<open>Capability and envelope\<close>

record consent_capability =
  cap_scope :: repository_consent_scope
  cap_nonce :: string
  cap_revoked :: bool

definition capability_new ::
  "(string \<Rightarrow> string) \<Rightarrow> uuid \<Rightarrow> uuid \<Rightarrow> repository_consent_scope \<Rightarrow> consent_capability" where
  "capability_new sha seed1 seed2 scope =
     \<lparr> cap_scope = scope, cap_nonce = sha (uuid_bytes seed1 @ uuid_bytes seed2), cap_revoked = False \<rparr>"

definition with_revocation :: "bool \<Rightarrow> consent_capability \<Rightarrow> consent_capability" where
  "with_revocation cancelled c = c\<lparr>cap_revoked := cancelled\<rparr>"

abbreviation egress_error :: "string \<Rightarrow> mentat_error" where
  "egress_error code \<equiv> BackendError code"

definition check_authorized :: "consent_capability \<Rightarrow> unit result" where
  "check_authorized c =
     (if cap_revoked c \<or> cs_revoked_at (cap_scope c) \<noteq> None
      then Inl (egress_error ''TOOL_EGRESS_CONSENT_REVOKED'') else Inr ())"

record tool_egress_envelope =
  te_trace_id :: uuid
  te_conversation_id :: uuid
  te_turn_id :: uuid
  te_tool_call_id :: uuid
  te_repository_id :: uuid
  te_snapshot_id :: uuid
  te_tool_name :: repository_tool_name
  te_refs :: "canonical_tool_ref list"
  te_provider_binding :: provider_binding
  te_semantic_payload :: string
  te_exact_provider_body :: string

section \<open>References and canonical digest\<close>

definition ref_valid :: "canonical_tool_ref \<Rightarrow> bool" where
  "ref_valid r \<longleftrightarrow>
     \<not> (is_absolute (ctr_path r) \<or> (\<exists>c \<in> set (components (ctr_path r)). c = ParentDir \<or> c = RootDir)
        \<or> ctr_line_start r = 0 \<or> ctr_line_end r < ctr_line_start r
        \<or> ctr_content_hash r = [] \<or> ctr_payload_digest r = [])"

definition validate_refs :: "canonical_tool_ref list \<Rightarrow> unit result" where
  "validate_refs refs =
     (if list_all ref_valid refs then Inr () else Inl (egress_error ''TOOL_EGRESS_REF_INVALID''))"

definition sort_refs :: "canonical_tool_ref list \<Rightarrow> canonical_tool_ref list" where
  "sort_refs =
     sort_key (\<lambda>r. (components (ctr_path r), ctr_line_start r, ctr_line_end r, ctr_content_hash r))"

definition canonical_ref_fields :: "canonical_tool_ref \<Rightarrow> string list" where
  "canonical_ref_fields r =
     [to_slashes (ctr_path r), show_nat (ctr_line_start r), show_nat (ctr_line_end r),
      ctr_content_hash r, ctr_payload_digest r]"

definition receipt_head_fields :: "(uuid \<Rightarrow> string) \<Rightarrow> tool_egress_receipt \<Rightarrow> string list" where
  "receipt_head_fields uuid_text r =
     [ter_seal_version r, uuid_text (ter_id r), uuid_text (ter_trace_id r),
      uuid_text (ter_consent_scope_id r), uuid_text (ter_conversation_id r), uuid_text (ter_turn_id r),
      uuid_text (ter_tool_call_id r), uuid_text (ter_repository_id r), uuid_text (ter_snapshot_id r),
      wire_name (ter_tool_name r), uuid_text (pb_profile_id (ter_provider_binding r)),
      pb_provider (ter_provider_binding r), pb_endpoint_identity (ter_provider_binding r),
      pb_model_id (ter_provider_binding r), pb_target_digest (ter_provider_binding r),
      ter_semantic_digest r, ter_body_digest r]"

definition receipt_fields :: "(uuid \<Rightarrow> string) \<Rightarrow> tool_egress_receipt \<Rightarrow> string list" where
  "receipt_fields uuid_text r =
     receipt_head_fields uuid_text r @ concat (map canonical_ref_fields (sort_refs (ter_canonical_refs r)))"

definition receipt_digest ::
  "(string \<Rightarrow> string) \<Rightarrow> (uuid \<Rightarrow> string) \<Rightarrow> tool_egress_receipt \<Rightarrow> string result" where
  "receipt_digest sha uuid_text r =
     (let fields = receipt_fields uuid_text r in
      if list_all (\<lambda>f. length f < 2 ^ 64) fields then Inr (sha_hex sha (concat (map framed fields)))
      else Inl (egress_error ''TOOL_EGRESS_FIELD_TOO_LARGE''))"

section \<open>The sealer\<close>

definition TOOL_EGRESS_SEAL_VERSION :: string where
  "TOOL_EGRESS_SEAL_VERSION = ''CM_TOOL_EGRESS_V1''"

fun turn_allowed :: "repository_consent_kind \<Rightarrow> uuid \<Rightarrow> bool" where
  "turn_allowed (RequestOnce t) turn = (t = turn)"
| "turn_allowed RepositorySession turn = True"

definition in_scope :: "repository_consent_scope \<Rightarrow> tool_egress_envelope \<Rightarrow> bool" where
  "in_scope s e \<longleftrightarrow> cs_conversation_id s = te_conversation_id e \<and> cs_repository_id s = te_repository_id e
     \<and> cs_snapshot_id s = te_snapshot_id e \<and> cs_provider_binding s = te_provider_binding e"

definition unsealed_receipt ::
  "(string \<Rightarrow> string) \<Rightarrow> uuid \<Rightarrow> datetime \<Rightarrow> uuid \<Rightarrow> tool_egress_envelope \<Rightarrow> tool_egress_receipt" where
  "unsealed_receipt sha i now scope_id e =
     \<lparr> ter_id = i, ter_seal_version = TOOL_EGRESS_SEAL_VERSION, ter_trace_id = te_trace_id e,
       ter_consent_scope_id = scope_id, ter_conversation_id = te_conversation_id e,
       ter_turn_id = te_turn_id e, ter_tool_call_id = te_tool_call_id e,
       ter_repository_id = te_repository_id e, ter_snapshot_id = te_snapshot_id e,
       ter_tool_name = te_tool_name e, ter_canonical_refs = sort_refs (te_refs e),
       ter_provider_binding = te_provider_binding e,
       ter_semantic_digest = sha_hex sha (te_semantic_payload e),
       ter_body_digest = sha_hex sha (te_exact_provider_body e), ter_canonical_digest = [],
       ter_status = Prepared, ter_prepared_at = now, ter_updated_at = now \<rparr>"

text \<open>\<open>ToolEgressSealer::prepare\<close>, given the fresh receipt id and the clock.\<close>

definition prepare_receipt ::
  "(string \<Rightarrow> string) \<Rightarrow> url_parser \<Rightarrow> (uuid \<Rightarrow> string) \<Rightarrow> uuid \<Rightarrow> datetime \<Rightarrow> consent_capability
   \<Rightarrow> tool_egress_envelope \<Rightarrow> tool_egress_receipt result" where
  "prepare_receipt sha parse uuid_text i now c e =
     (let scope = cap_scope c in
      then_do (check_authorized c) (\<lambda>_.
      if cap_nonce c = replicate 32 (CHR 0x00) then Inl (egress_error ''TOOL_EGRESS_CAPABILITY_INVALID'')
      else if cs_revoked_at scope \<noteq> None then Inl (egress_error ''TOOL_EGRESS_CONSENT_REVOKED'')
      else if \<not> in_scope scope e then Inl (egress_error ''TOOL_EGRESS_SCOPE_MISMATCH'')
      else if \<not> turn_allowed (cs_kind scope) (te_turn_id e)
        then Inl (egress_error ''TOOL_EGRESS_TURN_MISMATCH'')
      else then_do (verify_target_digest sha parse uuid_text (te_provider_binding e)) (\<lambda>_.
        then_do (validate_refs (te_refs e)) (\<lambda>_.
        let r = unsealed_receipt sha i now (cs_id scope) e in
        then_do (receipt_digest sha uuid_text r) (\<lambda>d. Inr (r\<lparr>ter_canonical_digest := d\<rparr>))))))"

text \<open>\<open>ToolEgressSealer::verify\<close> and \<open>verify_exact_body\<close>.\<close>

definition verify_receipt ::
  "(string \<Rightarrow> string) \<Rightarrow> url_parser \<Rightarrow> (uuid \<Rightarrow> string) \<Rightarrow> tool_egress_receipt \<Rightarrow> unit result" where
  "verify_receipt sha parse uuid_text r =
     (if ter_seal_version r \<noteq> TOOL_EGRESS_SEAL_VERSION
      then Inl (egress_error ''TOOL_EGRESS_SEAL_VERSION_INVALID'')
      else then_do (verify_target_digest sha parse uuid_text (ter_provider_binding r)) (\<lambda>_.
        then_do (validate_refs (ter_canonical_refs r)) (\<lambda>_.
        then_do (receipt_digest sha uuid_text r) (\<lambda>d.
          if d \<noteq> ter_canonical_digest r
          then Inl (egress_error ''TOOL_EGRESS_CANONICAL_DIGEST_MISMATCH'') else Inr ()))))"

definition verify_exact_body ::
  "(string \<Rightarrow> string) \<Rightarrow> url_parser \<Rightarrow> (uuid \<Rightarrow> string) \<Rightarrow> tool_egress_receipt \<Rightarrow> string \<Rightarrow> unit result" where
  "verify_exact_body sha parse uuid_text r body =
     then_do (verify_receipt sha parse uuid_text r) (\<lambda>_.
       if sha_hex sha body \<noteq> ter_body_digest r
       then Inl (egress_error ''TOOL_EGRESS_BODY_DIGEST_MISMATCH'') else Inr ())"

section \<open>Lemmas\<close>

lemma check_authorized_Inr [simp]:
  "check_authorized c = Inr u \<longleftrightarrow> \<not> cap_revoked c \<and> cs_revoked_at (cap_scope c) = None"
  by (auto simp: check_authorized_def)

lemma validate_refs_Inr [simp]: "validate_refs refs = Inr u \<longleftrightarrow> list_all ref_valid refs"
  by (auto simp: validate_refs_def)

lemma set_sort_refs [simp]: "set (sort_refs refs) = set refs"
  by (simp add: sort_refs_def)

lemma list_all_sort_refs [simp]: "list_all p (sort_refs refs) = list_all p refs"
  by (simp add: list_all_iff)

lemma receipt_digest_sealed [simp]:
  "receipt_digest sha uuid_text (r\<lparr>ter_canonical_digest := d\<rparr>) = receipt_digest sha uuid_text r"
  by (simp add: receipt_digest_def receipt_fields_def receipt_head_fields_def)

lemma receipt_fields_status [simp]:
  "receipt_fields uuid_text (r\<lparr>ter_status := st, ter_updated_at := t\<rparr>) = receipt_fields uuid_text r"
  "receipt_fields uuid_text (r\<lparr>ter_status := st\<rparr>) = receipt_fields uuid_text r"
  by (simp_all add: receipt_fields_def receipt_head_fields_def)

lemma prepare_receipt_Inr:
  "prepare_receipt sha parse uuid_text i now c e = Inr r \<longleftrightarrow>
     \<not> cap_revoked c \<and> cs_revoked_at (cap_scope c) = None \<and> cap_nonce c \<noteq> replicate 32 (CHR 0x00)
     \<and> in_scope (cap_scope c) e \<and> turn_allowed (cs_kind (cap_scope c)) (te_turn_id e)
     \<and> verify_target_digest sha parse uuid_text (te_provider_binding e) = Inr ()
     \<and> list_all ref_valid (te_refs e)
     \<and> (\<exists>d. receipt_digest sha uuid_text (unsealed_receipt sha i now (cs_id (cap_scope c)) e) = Inr d
          \<and> r = (unsealed_receipt sha i now (cs_id (cap_scope c)) e)\<lparr>ter_canonical_digest := d\<rparr>)"
  by (auto simp: prepare_receipt_def Let_def simp del: replicate.simps)

lemma verify_receipt_Inr:
  "verify_receipt sha parse uuid_text r = Inr u \<longleftrightarrow>
     ter_seal_version r = TOOL_EGRESS_SEAL_VERSION
     \<and> verify_target_digest sha parse uuid_text (ter_provider_binding r) = Inr ()
     \<and> list_all ref_valid (ter_canonical_refs r)
     \<and> receipt_digest sha uuid_text r = Inr (ter_canonical_digest r)"
  by (auto simp: verify_receipt_def split: if_splits)

lemma unsealed_receipt_simps [simp]:
  "ter_seal_version (unsealed_receipt sha i now s e) = TOOL_EGRESS_SEAL_VERSION"
  "ter_provider_binding (unsealed_receipt sha i now s e) = te_provider_binding e"
  "ter_canonical_refs (unsealed_receipt sha i now s e) = sort_refs (te_refs e)"
  "ter_body_digest (unsealed_receipt sha i now s e) = sha_hex sha (te_exact_provider_body e)"
  "ter_id (unsealed_receipt sha i now s e) = i"
  "ter_trace_id (unsealed_receipt sha i now s e) = te_trace_id e"
  "ter_consent_scope_id (unsealed_receipt sha i now s e) = s"
  "ter_status (unsealed_receipt sha i now s e) = Prepared"
  by (simp_all add: unsealed_receipt_def)

lemma prepared_verifies:
  assumes "prepare_receipt sha parse uuid_text i now c e = Inr r"
  shows "verify_receipt sha parse uuid_text r = Inr ()"
proof -
  obtain d where "receipt_digest sha uuid_text (unsealed_receipt sha i now (cs_id (cap_scope c)) e) = Inr d"
    and "r = (unsealed_receipt sha i now (cs_id (cap_scope c)) e)\<lparr>ter_canonical_digest := d\<rparr>"
    using assms by (auto simp only: prepare_receipt_Inr)
  then show ?thesis using assms by (simp add: prepare_receipt_Inr verify_receipt_Inr)
qed

lemma concat_framed_inj:
  "concat (map framed fs) = concat (map framed gs) \<Longrightarrow> list_all (\<lambda>f. length f < 2 ^ 64) fs
   \<Longrightarrow> list_all (\<lambda>f. length f < 2 ^ 64) gs \<Longrightarrow> fs = gs"
proof (induction fs arbitrary: gs)
  case Nil
  then show ?case by (cases gs) (auto simp: framed_def simp flip: length_0_conv)
next
  case (Cons f fs)
  then obtain g gs' where g: "gs = g # gs'"
    by (cases gs) (auto simp: framed_def simp flip: length_0_conv)
  have "framed f @ concat (map framed fs) = framed g @ concat (map framed gs')"
    using Cons.prems(1) g by simp
  then have "f = g \<and> concat (map framed fs) = concat (map framed gs')"
    using Cons.prems(2,3) g by (intro framed_append_inj) simp_all
  then show ?case using Cons g by simp
qed

lemma length_canonical_ref_fields [simp]: "length (canonical_ref_fields r) = 5"
  by (simp add: canonical_ref_fields_def)

lemma length_receipt_head_fields [simp]: "length (receipt_head_fields t r) = 17"
  by (simp add: receipt_head_fields_def)

lemma concat_ref_fields_inj:
  "concat (map canonical_ref_fields rs) = concat (map canonical_ref_fields qs)
   \<Longrightarrow> map canonical_ref_fields rs = map canonical_ref_fields qs"
proof (induction rs arbitrary: qs)
  case Nil
  then show ?case by (cases qs) (auto simp: canonical_ref_fields_def)
next
  case (Cons r rs)
  then obtain q qs' where q: "qs = q # qs'" by (cases qs) (auto simp: canonical_ref_fields_def)
  then show ?case using Cons by (simp add: append_eq_append_conv)
qed

lemma receipt_fields_inj:
  "receipt_fields t r = receipt_fields t r' \<Longrightarrow>
     receipt_head_fields t r = receipt_head_fields t r'
     \<and> map canonical_ref_fields (sort_refs (ter_canonical_refs r))
         = map canonical_ref_fields (sort_refs (ter_canonical_refs r'))"
  using concat_ref_fields_inj by (auto simp: receipt_fields_def append_eq_append_conv)

text \<open>What the canonical digest of a receipt fixes.\<close>

definition ref_view :: "canonical_tool_ref \<Rightarrow> string \<times> nat \<times> nat \<times> string \<times> string" where
  "ref_view c = (to_slashes (ctr_path c), ctr_line_start c, ctr_line_end c, ctr_content_hash c, ctr_payload_digest c)"

definition receipt_view ::
  "tool_egress_receipt \<Rightarrow> uuid list \<times> repository_tool_name \<times> provider_binding \<times> string list
   \<times> (string \<times> nat \<times> nat \<times> string \<times> string) list" where
  "receipt_view r =
     ([ter_id r, ter_trace_id r, ter_consent_scope_id r, ter_conversation_id r, ter_turn_id r,
       ter_tool_call_id r, ter_repository_id r, ter_snapshot_id r],
      ter_tool_name r, ter_provider_binding r,
      [ter_seal_version r, ter_semantic_digest r, ter_body_digest r],
      map ref_view (sort_refs (ter_canonical_refs r)))"

lemma show_nat_eq [simp]: "show_nat m = show_nat n \<longleftrightarrow> m = n"
  using show_nat_inj by blast

lemma canonical_ref_fields_eq: "canonical_ref_fields r = canonical_ref_fields q \<longleftrightarrow> ref_view r = ref_view q"
  by (simp only: canonical_ref_fields_def ref_view_def list.inject prod.inject show_nat_eq simp_thms)

lemma map_eq_factor:
  assumes "map f xs = map f ys" and "\<And>x y. f x = f y \<Longrightarrow> g x = g y"
  shows "map g xs = map g ys"
proof (rule nth_equalityI)
  show "length (map g xs) = length (map g ys)" using map_eq_imp_length_eq [OF assms(1)] by simp
  fix i assume i: "i < length (map g xs)"
  then have "f (xs ! i) = f (ys ! i)"
    using assms(1) map_eq_imp_length_eq [OF assms(1)] by (metis length_map nth_map)
  then have "g (xs ! i) = g (ys ! i)" by (rule assms(2))
  then show "map g xs ! i = map g ys ! i"
    using i map_eq_imp_length_eq [OF assms(1)] by simp
qed

lemma receipt_fields_view:
  assumes "inj t" and "receipt_fields t r = receipt_fields t r'"
  shows "receipt_view r = receipt_view r'"
proof -
  have "receipt_head_fields t r = receipt_head_fields t r'"
    and refs: "map canonical_ref_fields (sort_refs (ter_canonical_refs r))
         = map canonical_ref_fields (sort_refs (ter_canonical_refs r'))"
    using receipt_fields_inj [OF assms(2)] by blast+
  note heads = this(1) [unfolded receipt_head_fields_def list.inject inj_eq [OF assms(1)] wire_name_inj]
  moreover have "ter_provider_binding r = ter_provider_binding r'"
    using heads by (intro provider_binding.equality) simp_all
  ultimately show ?thesis
    using map_eq_factor [OF refs, of ref_view] canonical_ref_fields_eq by (simp only: receipt_view_def)
qed

lemma receipt_digest_eq:
  assumes "inj t" and "receipt_digest sha t r = Inr d" and "receipt_digest sha t r' = Inr d"
  shows "receipt_view r = receipt_view r'
    \<or> collision sha (concat (map framed (receipt_fields t r))) (concat (map framed (receipt_fields t r')))"
proof -
  have fits: "list_all (\<lambda>f. length f < 2 ^ 64) (receipt_fields t r)"
      "list_all (\<lambda>f. length f < 2 ^ 64) (receipt_fields t r')"
    and "sha_hex sha (concat (map framed (receipt_fields t r)))
           = sha_hex sha (concat (map framed (receipt_fields t r')))"
    using assms(2,3) by (auto simp: receipt_digest_def Let_def simp del: power_numeral split: if_splits)
  then show ?thesis
    using sha_hex_eq concat_framed_inj [OF _ fits] receipt_fields_view [OF assms(1)] by blast
qed

text \<open>Lines without line feeds can be read back from their concatenation.\<close>

lemma line_append_inj:
  assumes "a @ CHR 0x0A # x = b @ CHR 0x0A # y" and "CHR 0x0A \<notin> set a" and "CHR 0x0A \<notin> set b"
  shows "a = b \<and> x = y"
  using assms
proof (induction a arbitrary: b)
  case Nil
  then show ?case by (cases b) auto
next
  case (Cons c a)
  then show ?case by (cases b) auto
qed

section \<open>Properties\<close>

text \<open>
  A receipt is prepared only under a consent that is not revoked and covers the conversation,
  repository, snapshot, provider and, for a one-time consent, the turn of the envelope. The receipt
  then carries the identities of the envelope, passes its own verification, and accepts exactly the
  bodies with the digest of the approved one.
\<close>

theorem prepared_receipt_is_sealed:
  assumes "prepare_receipt sha parse uuid_text i now c e = Inr r"
  shows "\<not> cap_revoked c \<and> cs_revoked_at (cap_scope c) = None \<and> in_scope (cap_scope c) e
    \<and> turn_allowed (cs_kind (cap_scope c)) (te_turn_id e)
    \<and> ter_consent_scope_id r = cs_id (cap_scope c) \<and> ter_trace_id r = te_trace_id e
    \<and> ter_provider_binding r = te_provider_binding e \<and> set (ter_canonical_refs r) = set (te_refs e)
    \<and> ter_status r = Prepared \<and> verify_receipt sha parse uuid_text r = Inr ()
    \<and> (\<forall>body. verify_exact_body sha parse uuid_text r body = Inr ()
          \<longleftrightarrow> sha_hex sha body = sha_hex sha (te_exact_provider_body e))"
proof -
  obtain d where "r = (unsealed_receipt sha i now (cs_id (cap_scope c)) e)\<lparr>ter_canonical_digest := d\<rparr>"
    using assms by (auto simp only: prepare_receipt_Inr)
  then show ?thesis
    using assms prepared_verifies [OF assms] by (simp add: prepare_receipt_Inr verify_exact_body_def)
qed

text \<open>
  The canonical digest seals the receipt: two receipts that pass verification and have the same
  canonical digest agree on every identity, the tool, the provider binding, the payload and body
  digests and the references, or they exhibit a collision of the hash.
\<close>

theorem canonical_digest_seals_receipt:
  assumes "inj uuid_text" and "verify_receipt sha parse uuid_text r = Inr ()"
    and "verify_receipt sha parse uuid_text r' = Inr ()"
    and "ter_canonical_digest r = ter_canonical_digest r'"
  shows "receipt_view r = receipt_view r'
    \<or> collision sha (concat (map framed (receipt_fields uuid_text r)))
        (concat (map framed (receipt_fields uuid_text r')))"
  using assms receipt_digest_eq [OF assms(1), of sha r "ter_canonical_digest r" r']
  by (simp add: verify_receipt_Inr)

text \<open>
  The target digest of a provider binding identifies the provider: bindings built with the same
  digest from provider names without line feeds have the same profile, provider, endpoint and
  model, when the texts of UUIDs and endpoints have no line feed, or exhibit a collision.
\<close>

theorem target_digest_identifies_provider:
  assumes "inj uuid_text" and "\<And>u. CHR 0x0A \<notin> set (uuid_text u)"
    and "binding_new sha parse uuid_text pid prov ep model = Inr b"
    and "binding_new sha parse uuid_text pid' prov' ep' model' = Inr b'"
    and "pb_target_digest b = pb_target_digest b'"
    and "CHR 0x0A \<notin> set prov" and "CHR 0x0A \<notin> set prov'"
    and "CHR 0x0A \<notin> set (pb_endpoint_identity b)" and "CHR 0x0A \<notin> set (pb_endpoint_identity b')"
  shows "b = b' \<or> collision sha (binding_preimage uuid_text pid prov (pb_endpoint_identity b) model)
                    (binding_preimage uuid_text pid' prov' (pb_endpoint_identity b') model')"
proof -
  let ?x = "binding_preimage uuid_text pid prov (pb_endpoint_identity b) model"
  let ?y = "binding_preimage uuid_text pid' prov' (pb_endpoint_identity b') model'"
  have b: "b = \<lparr> pb_profile_id = pid, pb_provider = prov, pb_endpoint_identity = pb_endpoint_identity b,
                 pb_model_id = model, pb_target_digest = sha_hex sha ?x \<rparr>"
    using assms(3) by (auto simp: binding_new_def Let_def split: if_splits)
  have b': "b' = \<lparr> pb_profile_id = pid', pb_provider = prov', pb_endpoint_identity = pb_endpoint_identity b',
                 pb_model_id = model', pb_target_digest = sha_hex sha ?y \<rparr>"
    using assms(4) by (auto simp: binding_new_def Let_def split: if_splits)
  have "sha_hex sha ?x = sha_hex sha ?y"
    using assms(5) arg_cong [OF b, of pb_target_digest] arg_cong [OF b', of pb_target_digest] by simp
  then have "?x = ?y \<or> collision sha ?x ?y" by (rule sha_hex_eq)
  moreover have "b = b'" if xy: "?x = ?y"
  proof -
    have "uuid_text pid = uuid_text pid' \<and> prov @ CHR 0x0A # pb_endpoint_identity b @ CHR 0x0A # model
        = prov' @ CHR 0x0A # pb_endpoint_identity b' @ CHR 0x0A # model'"
      using xy assms(2) by (intro line_append_inj) (simp_all add: binding_preimage_def)
    moreover from this have "prov = prov' \<and> pb_endpoint_identity b @ CHR 0x0A # model
        = pb_endpoint_identity b' @ CHR 0x0A # model'"
      using assms(6,7) by (intro line_append_inj) simp_all
    moreover from this have "pb_endpoint_identity b = pb_endpoint_identity b' \<and> model = model'"
      using assms(8,9) by (intro line_append_inj) simp_all
    ultimately show ?thesis using b b' assms(1) xy by (simp add: inj_eq)
  qed
  ultimately show ?thesis by blast
qed

section \<open>Witnesses\<close>

definition demo_parse :: url_parser where
  "demo_parse s = (if take 11 s = ''https://h/x'' then Some \<lparr> url_scheme = ''https'', url_username = [],
     url_password = None, url_host = Some ''h'', url_port = None, url_path = ''/x'', url_query = None,
     url_fragment = None \<rparr> else None)"

definition demo_binding :: provider_binding where
  "demo_binding = (case binding_new (\<lambda>s. s) demo_parse hex_uuid 1 ''OpenAi'' ''https://h/x'' ''m'' of
     Inr b \<Rightarrow> b | Inl _ \<Rightarrow> undefined)"

definition demo_capability :: consent_capability where
  "demo_capability = capability_new (\<lambda>s. s) 5 6 \<lparr> cs_id = 2, cs_conversation_id = 3, cs_repository_id = 4,
     cs_snapshot_id = 5, cs_provider_binding = demo_binding, cs_kind = RequestOnce 6, cs_granted_at = 0,
     cs_revoked_at = None \<rparr>"

definition demo_envelope :: tool_egress_envelope where
  "demo_envelope = \<lparr> te_trace_id = 1, te_conversation_id = 3, te_turn_id = 6, te_tool_call_id = 7,
     te_repository_id = 4, te_snapshot_id = 5, te_tool_name = ReadFileLines,
     te_refs = [\<lparr> ctr_path = ''b'', ctr_line_start = 1, ctr_line_end = 2, ctr_content_hash = ''h'', ctr_payload_digest = ''p'' \<rparr>,
                \<lparr> ctr_path = ''a'', ctr_line_start = 1, ctr_line_end = 2, ctr_content_hash = ''h'', ctr_payload_digest = ''p'' \<rparr>],
     te_provider_binding = demo_binding, te_semantic_payload = ''s'', te_exact_provider_body = ''body'' \<rparr>"

definition demo_receipt :: tool_egress_receipt where
  "demo_receipt = (case prepare_receipt (\<lambda>s. s) demo_parse hex_uuid 9 1 demo_capability demo_envelope of
     Inr r \<Rightarrow> r | Inl _ \<Rightarrow> undefined)"

lemma demo_receipt_ok: "is_ok (prepare_receipt (\<lambda>s. s) demo_parse hex_uuid 9 1 demo_capability demo_envelope)"
  by code_simp

lemma demo_receipt_prepared:
  "prepare_receipt (\<lambda>s. s) demo_parse hex_uuid 9 1 demo_capability demo_envelope = Inr demo_receipt"
  using demo_receipt_ok by (auto simp: demo_receipt_def is_ok_iff)

lemma prepared_receipt_is_sealed_witness:
  "verify_receipt (\<lambda>s. s) demo_parse hex_uuid demo_receipt = Inr ()
   \<and> verify_exact_body (\<lambda>s. s) demo_parse hex_uuid demo_receipt ''body'' = Inr ()
   \<and> verify_exact_body (\<lambda>s. s) demo_parse hex_uuid demo_receipt ''bodx'' \<noteq> Inr ()"
proof -
  have "sha_hex (\<lambda>s. s) ''bodx'' \<noteq> sha_hex (\<lambda>s. s) ''body''" by code_simp
  then show ?thesis
    using prepared_receipt_is_sealed [OF demo_receipt_prepared] by (auto simp: demo_envelope_def)
qed

lemma canonical_digest_seals_receipt_witness:
  "receipt_view demo_receipt = receipt_view (demo_receipt\<lparr>ter_status := Sent\<rparr>)
   \<or> collision (\<lambda>s. s) (concat (map framed (receipt_fields hex_uuid demo_receipt)))
        (concat (map framed (receipt_fields hex_uuid (demo_receipt\<lparr>ter_status := Sent\<rparr>))))"
proof -
  have v: "verify_receipt (\<lambda>s. s) demo_parse hex_uuid demo_receipt = Inr ()"
    using prepared_verifies [OF demo_receipt_prepared] .
  then have "verify_receipt (\<lambda>s. s) demo_parse hex_uuid (demo_receipt\<lparr>ter_status := Sent\<rparr>) = Inr ()"
    by (simp add: verify_receipt_Inr receipt_digest_def)
  then show ?thesis by (rule canonical_digest_seals_receipt [OF inj_hex_uuid v]) simp
qed

lemma demo_binding_ok: "is_ok (binding_new (\<lambda>s. s) demo_parse hex_uuid 1 ''OpenAi'' ''https://h/x'' ''m'')"
  by code_simp

lemma demo_binding_new:
  "binding_new (\<lambda>s. s) demo_parse hex_uuid 1 ''OpenAi'' ''https://h/x'' ''m'' = Inr demo_binding"
  using demo_binding_ok by (auto simp: demo_binding_def is_ok_iff)

lemma demo_identity: "pb_endpoint_identity demo_binding = ''https://h/x/''"
  by code_simp

text \<open>A second endpoint text with the same identity.\<close>

definition demo_binding2 :: provider_binding where
  "demo_binding2 = (case binding_new (\<lambda>s. s) demo_parse hex_uuid 1 ''OpenAi'' ''https://h/x#'' ''m'' of
     Inr b \<Rightarrow> b | Inl _ \<Rightarrow> undefined)"

lemma demo_binding2_ok: "is_ok (binding_new (\<lambda>s. s) demo_parse hex_uuid 1 ''OpenAi'' ''https://h/x#'' ''m'')"
  by code_simp

lemma demo_binding2_new:
  "binding_new (\<lambda>s. s) demo_parse hex_uuid 1 ''OpenAi'' ''https://h/x#'' ''m'' = Inr demo_binding2"
  using demo_binding2_ok by (auto simp: demo_binding2_def is_ok_iff)

lemma demo_identity2: "pb_endpoint_identity demo_binding2 = ''https://h/x/''"
  by code_simp

lemma demo_digests: "pb_target_digest demo_binding = pb_target_digest demo_binding2"
  by code_simp

lemma target_digest_identifies_provider_witness:
  "demo_binding = demo_binding2
   \<or> collision (\<lambda>s. s) (binding_preimage hex_uuid 1 ''OpenAi'' (pb_endpoint_identity demo_binding) ''m'')
       (binding_preimage hex_uuid 1 ''OpenAi'' (pb_endpoint_identity demo_binding2) ''m'')"
  by (rule target_digest_identifies_provider
      [OF inj_hex_uuid hex_uuid_no_newline demo_binding_new demo_binding2_new demo_digests])
    (simp_all add: demo_identity demo_identity2)

end
