(* ===== verification/Storage_Schema.thy ===== *)
theory Storage_Schema
  imports Core_Models "HOL-Library.Product_Lexorder"
begin

text \<open>
  The tables of schema version 6 (\<open>run_migrations\<close> in \<open>mentat-storage/src/db.rs\<close>) that hold
  conversations, grounding and egress, as lists of rows in insertion order, and the SQL statements
  on them: \<open>INSERT\<close> checks the primary key, the \<open>UNIQUE\<close> and the foreign key constraints of its
  table, \<open>UPDATE .. WHERE\<close> rewrites and counts the matching rows, and \<open>DELETE\<close> cascades.

  Columns whose text the code encodes and decodes itself (roles, states, tool names) are strings;
  UUIDs, RFC 3339 instants and JSON columns are their values. A failed transaction leaves the
  database as it was: an operation returns \<open>Inl\<close> of the error, or \<open>Inr\<close> of the committed database.
  Failures of the disk or of the SQLite engine end an operation the same way and are not shown as
  branches of their own.
\<close>

section \<open>Statements\<close>

definition update_where :: "('r \<Rightarrow> bool) \<Rightarrow> ('r \<Rightarrow> 'r) \<Rightarrow> 'r list \<Rightarrow> 'r list" where
  "update_where p f rs = map (\<lambda>r. if p r then f r else r) rs"

definition count_where :: "('r \<Rightarrow> bool) \<Rightarrow> 'r list \<Rightarrow> nat" where
  "count_where p rs = length (filter p rs)"

abbreviation storage_error :: "string \<Rightarrow> mentat_error" where
  "storage_error code \<equiv> StorageError code"

definition insert_row :: "bool \<Rightarrow> string \<Rightarrow> 'r \<Rightarrow> 'r list \<Rightarrow> 'r list result" where
  "insert_row constraints_ok code r rs =
     (if constraints_ok then Inr (rs @ [r]) else Inl (storage_error code))"

text \<open>\<open>i64::try_from\<close> of an unsigned number.\<close>

definition fits_i64 :: "nat \<Rightarrow> bool" where
  "fits_i64 n \<longleftrightarrow> n < 2 ^ 63"

section \<open>Rows\<close>

record conversation_row =
  cvr_id :: uuid
  cvr_repository :: "uuid option"
  cvr_snapshot :: "uuid option"
  cvr_profile :: uuid
  cvr_summary :: "string option"
  cvr_persistence :: string
  cvr_created_at :: datetime
  cvr_updated_at :: datetime

record message_row =
  mr_id :: uuid
  mr_conversation :: uuid
  mr_turn :: uuid
  mr_role :: string
  mr_ordinal :: nat
  mr_markdown :: string
  mr_status :: string
  mr_error_code :: "string option"
  mr_trace :: "uuid option"
  mr_freshness :: "grounding_freshness option"
  mr_created_at :: datetime
  mr_updated_at :: datetime

record trace_row =
  tr_id :: uuid
  tr_conversation :: uuid
  tr_turn :: uuid
  tr_snapshot :: "uuid option"
  tr_freshness :: grounding_freshness
  tr_created_at :: datetime

record call_row =
  cl_trace :: uuid
  cl_call :: uuid
  cl_round :: nat
  cl_tool_name :: string
  cl_arguments_digest :: string
  cl_result_digest :: "string option"
  cl_content_bytes :: nat
  cl_source_ref_ids :: "uuid list"
  cl_status :: string

record source_row =
  so_id :: uuid
  so_trace :: uuid
  so_ordinal :: nat
  so_snapshot :: uuid
  so_path :: string
  so_line_start :: nat
  so_line_end :: nat
  so_content_hash :: string
  so_excerpt :: string

record audit_row =
  au_id :: uuid
  au_turn :: uuid
  au_schema_version :: string
  au_bundle :: answer_bundle
  au_created_at :: datetime

record consent_row =
  cr_id :: uuid
  cr_conversation :: uuid
  cr_repository :: uuid
  cr_snapshot :: uuid
  cr_binding :: provider_binding
  cr_kind :: string
  cr_once_turn :: "uuid option"
  cr_granted_at :: datetime
  cr_revoked_at :: "datetime option"

record receipt_row =
  rr_receipt :: tool_egress_receipt
  rr_tool_name :: string
  rr_status :: string
  rr_updated_at :: datetime
  rr_owner :: "uuid option"

record owner_row =
  ow_owner :: uuid
  ow_process :: nat
  ow_acquired_at :: datetime
  ow_heartbeat_at :: datetime

text \<open>The database: the ids of the prompt profiles that conversations refer to, and the tables.\<close>

record db =
  db_profile_ids :: "uuid list"
  db_conversations :: "conversation_row list"
  db_turns :: "conversation_turn list"
  db_messages :: "message_row list"
  db_traces :: "trace_row list"
  db_calls :: "call_row list"
  db_sources :: "source_row list"
  db_audits :: "audit_row list"
  db_consents :: "consent_row list"
  db_receipts :: "receipt_row list"
  db_owner :: "owner_row option"

definition empty_db :: "uuid list \<Rightarrow> db" where
  "empty_db profiles = \<lparr> db_profile_ids = profiles, db_conversations = [], db_turns = [], db_messages = [],
     db_traces = [], db_calls = [], db_sources = [], db_audits = [], db_consents = [], db_receipts = [],
     db_owner = None \<rparr>"

section \<open>Keys of the schema\<close>

text \<open>Primary keys and \<open>UNIQUE\<close> constraints.\<close>

definition keys_ok :: "db \<Rightarrow> bool" where
  "keys_ok d \<longleftrightarrow>
     distinct (map cvr_id (db_conversations d)) \<and> distinct (map turn_id (db_turns d))
     \<and> distinct (map (\<lambda>t. (turn_conversation_id t, turn_sequence t)) (db_turns d))
     \<and> distinct (map mr_id (db_messages d))
     \<and> distinct (map (\<lambda>m. (mr_conversation m, mr_ordinal m)) (db_messages d))
     \<and> distinct (map tr_id (db_traces d)) \<and> distinct (map cl_call (db_calls d))
     \<and> distinct (map so_id (db_sources d))
     \<and> distinct (map (\<lambda>s. (so_trace s, so_ordinal s)) (db_sources d))
     \<and> distinct (map au_id (db_audits d)) \<and> distinct (map au_turn (db_audits d))
     \<and> distinct (map cr_id (db_consents d))
     \<and> distinct (map (ter_id \<circ> rr_receipt) (db_receipts d))"

text \<open>Foreign keys, what \<open>PRAGMA foreign_key_check\<close> verifies.\<close>

definition refs_ok :: "db \<Rightarrow> bool" where
  "refs_ok d \<longleftrightarrow>
     (let convs = cvr_id ` set (db_conversations d); turns = turn_id ` set (db_turns d);
          traces = tr_id ` set (db_traces d) in
      cvr_profile ` set (db_conversations d) \<subseteq> set (db_profile_ids d)
      \<and> turn_conversation_id ` set (db_turns d) \<subseteq> convs
      \<and> mr_conversation ` set (db_messages d) \<subseteq> convs \<and> mr_turn ` set (db_messages d) \<subseteq> turns
      \<and> tr_conversation ` set (db_traces d) \<subseteq> convs \<and> tr_turn ` set (db_traces d) \<subseteq> turns
      \<and> cl_trace ` set (db_calls d) \<subseteq> traces \<and> so_trace ` set (db_sources d) \<subseteq> traces
      \<and> au_turn ` set (db_audits d) \<subseteq> turns \<and> cr_conversation ` set (db_consents d) \<subseteq> convs
      \<and> (ter_trace_id \<circ> rr_receipt) ` set (db_receipts d) \<subseteq> traces
      \<and> (ter_consent_scope_id \<circ> rr_receipt) ` set (db_receipts d) \<subseteq> cr_id ` set (db_consents d))"

section \<open>Lemmas on statements\<close>

lemma insert_row_Inr [simp]: "insert_row ok code r rs = Inr rs' \<longleftrightarrow> ok \<and> rs' = rs @ [r]"
  by (auto simp: insert_row_def)

lemma insert_then: "then_do (insert_row ok code r rs) f = Inr y \<longleftrightarrow> ok \<and> f (rs @ [r]) = Inr y"
  by (auto simp: insert_row_def)

lemma guarded_Inr: "(if b then Inl e else f) = Inr y \<longleftrightarrow> \<not> b \<and> f = Inr y"
  by simp

lemmas statement_simps =
  insert_then guarded_Inr not_not simp_thms sum.inject sum.distinct conj_assoc if_True if_False

lemma map_update_where [simp]:
  "(\<And>r. k (f r) = k r) \<Longrightarrow> map k (update_where p f rs) = map k rs"
  by (simp add: update_where_def)

lemma image_update_where [simp]:
  "(\<And>r. k (f r) = k r) \<Longrightarrow> k ` set (update_where p f rs) = k ` set rs"
  by (simp flip: set_map)

lemma update_where_none: "count_where p rs = 0 \<Longrightarrow> update_where p f rs = rs"
  by (auto simp: update_where_def count_where_def filter_empty_conv intro: map_idI)

lemma filter_update_where:
  "(\<And>r. q (f r) = q r) \<Longrightarrow> filter q (update_where p f rs) = update_where p f (filter q rs)"
  by (induction rs) (auto simp: update_where_def)

lemma distinct_key_unique:
  "distinct (map k rs) \<Longrightarrow> a \<in> set rs \<Longrightarrow> b \<in> set rs \<Longrightarrow> k a = k b \<Longrightarrow> a = b"
  by (auto simp: distinct_map inj_on_def)

lemma find_key:
  "distinct (map k rs) \<Longrightarrow> r \<in> set rs \<Longrightarrow> List.find (\<lambda>x. k x = k r) rs = Some r"
  by (induction rs) (auto simp: rev_image_eqI)

lemma find_key_None: "List.find (\<lambda>x. k x = i) rs = None \<longleftrightarrow> i \<notin> k ` set rs"
  by (auto simp: find_None_iff)

lemma find_key_Some:
  "distinct (map k rs) \<Longrightarrow> List.find (\<lambda>x. k x = i) rs = Some r \<longleftrightarrow> r \<in> set rs \<and> k r = i"
  using find_Some_set [of "\<lambda>x. k x = i" rs r] find_key [of k rs r] by auto

lemma count_where_one:
  "count_where p rs = 1 \<longleftrightarrow> (\<exists>r. filter p rs = [r])"
  by (auto simp: count_where_def length_Suc_conv)

end
