(* ===== verification/Grounding_Store.thy ===== *)
theory Grounding_Store
  imports Storage_Schema Rust_Paths
begin

text \<open>
  \<open>mentat-storage/src/grounding_store.rs\<close>: grounding traces with their tool calls and source
  references, repository consents and tool egress receipts. \<open>ORDER BY\<close> on the text of a UUID is the
  numeric order, on an RFC 3339 text the order of instants.
\<close>

section \<open>Text columns\<close>

definition parse_tool_name :: "string \<Rightarrow> repository_tool_name result" where
  "parse_tool_name s =
     ok_or (List.find (\<lambda>n. wire_name n = s) all_tool_names) (storage_error ''STORAGE_DECODE_ENUM'')"

fun call_status_text :: "tool_call_status \<Rightarrow> string" where
  "call_status_text CallPending = ''Pending''"
| "call_status_text CallCompleted = ''Completed''"
| "call_status_text CallOmitted = ''Omitted''"
| "call_status_text CallFailed = ''Failed''"

definition parse_tool_call_status :: "string \<Rightarrow> tool_call_status result" where
  "parse_tool_call_status s =
     (if s = ''Pending'' then Inr CallPending else if s = ''Completed'' then Inr CallCompleted
      else if s = ''Omitted'' then Inr CallOmitted else if s = ''Failed'' then Inr CallFailed
      else Inl (storage_error ''STORAGE_DECODE_ENUM''))"

fun egress_status_text :: "tool_egress_status \<Rightarrow> string" where
  "egress_status_text Prepared = ''Prepared''"
| "egress_status_text Sent = ''Sent''"
| "egress_status_text EgressFailed = ''Failed''"
| "egress_status_text OutcomeUnknown = ''OutcomeUnknown''"

definition parse_egress_status :: "string \<Rightarrow> tool_egress_status result" where
  "parse_egress_status s =
     (if s = ''Prepared'' then Inr Prepared else if s = ''Sent'' then Inr Sent
      else if s = ''Failed'' then Inr EgressFailed else if s = ''OutcomeUnknown'' then Inr OutcomeUnknown
      else Inl (storage_error ''STORAGE_DECODE_ENUM''))"

section \<open>Freshness and consent\<close>

definition mark_snapshot_changed :: "datetime \<Rightarrow> uuid \<Rightarrow> db \<Rightarrow> db result" where
  "mark_snapshot_changed now snapshot d =
     (let fresh = ChangedAfterSend now;
          ids = map tr_id (filter (\<lambda>t. tr_snapshot t = Some snapshot) (db_traces d)) in
      Inr (d\<lparr>db_traces := update_where (\<lambda>t. tr_snapshot t = Some snapshot) (\<lambda>t. t\<lparr>tr_freshness := fresh\<rparr>) (db_traces d),
             db_messages := update_where (\<lambda>m. \<exists>i \<in> set ids. mr_trace m = Some i)
               (\<lambda>m. m\<lparr>mr_freshness := Some fresh\<rparr>) (db_messages d)\<rparr>))"

definition revoke_repository_consent :: "datetime \<Rightarrow> uuid \<Rightarrow> db \<Rightarrow> db result" where
  "revoke_repository_consent now i d =
     Inr (d\<lparr>db_consents := update_where (\<lambda>c. cr_id c = i)
       (\<lambda>c. c\<lparr>cr_revoked_at := Some (case cr_revoked_at c of Some t \<Rightarrow> t | None \<Rightarrow> now)\<rparr>) (db_consents d)\<rparr>)"

fun consent_kind_columns :: "repository_consent_kind \<Rightarrow> string \<times> uuid option" where
  "consent_kind_columns (RequestOnce t) = (''RequestOnce'', Some t)"
| "consent_kind_columns RepositorySession = (''RepositorySession'', None)"

definition save_repository_consent_scope :: "repository_consent_scope \<Rightarrow> db \<Rightarrow> db result" where
  "save_repository_consent_scope s d =
     then_do (insert_row (cs_id s \<notin> cr_id ` set (db_consents d)
                \<and> cs_conversation_id s \<in> cvr_id ` set (db_conversations d)) ''CONSENT_SCOPE_INSERT_FAILED''
       \<lparr> cr_id = cs_id s, cr_conversation = cs_conversation_id s, cr_repository = cs_repository_id s,
         cr_snapshot = cs_snapshot_id s, cr_binding = cs_provider_binding s,
         cr_kind = fst (consent_kind_columns (cs_kind s)), cr_once_turn = snd (consent_kind_columns (cs_kind s)),
         cr_granted_at = cs_granted_at s, cr_revoked_at = cs_revoked_at s \<rparr> (db_consents d))
       (\<lambda>rows. Inr (d\<lparr>db_consents := rows\<rparr>))"

section \<open>Grounding traces\<close>

definition trace_row_of :: "datetime \<Rightarrow> grounding_trace \<Rightarrow> trace_row" where
  "trace_row_of now t = \<lparr> tr_id = gt_id t, tr_conversation = gt_conversation_id t, tr_turn = gt_turn_id t,
     tr_snapshot = gt_snapshot_id t, tr_freshness = gt_freshness t, tr_created_at = now \<rparr>"

definition call_row_of :: "uuid \<Rightarrow> tool_call_record \<Rightarrow> call_row" where
  "call_row_of trace c = \<lparr> cl_trace = trace, cl_call = cr_call_id c, cl_round = unat (cr_round c),
     cl_tool_name = wire_name (cr_name c), cl_arguments_digest = cr_arguments_digest c,
     cl_result_digest = cr_result_digest c, cl_content_bytes = unat (cr_content_bytes c),
     cl_source_ref_ids = cr_source_ref_ids c, cl_status = call_status_text (cr_status c) \<rparr>"

definition source_row_of :: "uuid \<Rightarrow> nat \<Rightarrow> source_ref \<Rightarrow> source_row" where
  "source_row_of trace ordinal s = \<lparr> so_id = sr_id s, so_trace = trace, so_ordinal = ordinal,
     so_snapshot = sr_snapshot_id s, so_path = to_slashes (sr_path s), so_line_start = sr_line_start s,
     so_line_end = sr_line_end s, so_content_hash = sr_content_hash s, so_excerpt = sr_excerpt s \<rparr>"

text \<open>\<open>INSERT .. ON CONFLICT(id) DO UPDATE\<close>, which keeps \<open>created_at\<close>.\<close>

definition upsert_trace :: "trace_row \<Rightarrow> trace_row list \<Rightarrow> trace_row list" where
  "upsert_trace r rs =
     (if tr_id r \<in> tr_id ` set rs
      then update_where (\<lambda>x. tr_id x = tr_id r) (\<lambda>x. r\<lparr>tr_id := tr_id x, tr_created_at := tr_created_at x\<rparr>) rs
      else rs @ [r])"

fun insert_calls :: "uuid \<Rightarrow> tool_call_record list \<Rightarrow> call_row list \<Rightarrow> call_row list result" where
  "insert_calls trace [] rows = Inr rows"
| "insert_calls trace (c # cs) rows =
     then_do (insert_row (cr_call_id c \<notin> cl_call ` set rows) ''GROUNDING_TOOL_RECORD_INSERT_FAILED''
                (call_row_of trace c) rows)
       (insert_calls trace cs)"

fun insert_sources :: "uuid \<Rightarrow> nat \<Rightarrow> source_ref list \<Rightarrow> source_row list \<Rightarrow> source_row list result" where
  "insert_sources trace n [] rows = Inr rows"
| "insert_sources trace n (s # ss) rows =
     (if \<not> fits_i64 n then Inl (storage_error ''GROUNDING_ORDINAL_OVERFLOW'')
      else if \<not> fits_i64 (sr_line_start s) \<or> \<not> fits_i64 (sr_line_end s)
        then Inl (storage_error ''GROUNDING_LINE_OVERFLOW'')
      else then_do (insert_row (sr_id s \<notin> so_id ` set rows \<and> (trace, n) \<notin> (\<lambda>r. (so_trace r, so_ordinal r)) ` set rows)
                ''GROUNDING_SOURCE_INSERT_FAILED'' (source_row_of trace n s) rows)
        (insert_sources trace (Suc n) ss))"

definition write_grounding_trace :: "datetime \<Rightarrow> grounding_trace \<Rightarrow> db \<Rightarrow> db result" where
  "write_grounding_trace now t d =
     (if gt_conversation_id t \<notin> cvr_id ` set (db_conversations d) \<or> gt_turn_id t \<notin> turn_id ` set (db_turns d)
      then Inl (storage_error ''GROUNDING_TRACE_INSERT_FAILED'')
      else then_do (insert_calls (gt_id t) (gt_tool_calls t)
                      (filter (\<lambda>r. cl_trace r \<noteq> gt_id t) (db_calls d))) (\<lambda>calls.
        then_do (insert_sources (gt_id t) 0 (gt_source_refs t)
                      (filter (\<lambda>r. so_trace r \<noteq> gt_id t) (db_sources d))) (\<lambda>sources.
        Inr (d\<lparr>db_traces := upsert_trace (trace_row_of now t) (db_traces d),
               db_calls := calls, db_sources := sources\<rparr>))))"

definition prepare_grounding_trace :: "datetime \<Rightarrow> grounding_trace \<Rightarrow> db \<Rightarrow> db result" where
  "prepare_grounding_trace = write_grounding_trace"

definition call_of_row :: "uuid \<Rightarrow> call_row \<Rightarrow> tool_call_record result" where
  "call_of_row trace r =
     then_do (if cl_round r < 2 ^ 8 then Inr (of_nat (cl_round r)) else Inl (storage_error ''STORAGE_DECODE_INTEGER'')) (\<lambda>rnd.
     then_do (parse_tool_name (cl_tool_name r)) (\<lambda>name.
     then_do (if cl_content_bytes r < 2 ^ 32 then Inr (of_nat (cl_content_bytes r))
              else Inl (storage_error ''STORAGE_DECODE_INTEGER'')) (\<lambda>bytes.
     then_do (parse_tool_call_status (cl_status r)) (\<lambda>st.
       Inr \<lparr> cr_trace_id = trace, cr_call_id = cl_call r, cr_round = rnd, cr_name = name,
             cr_arguments_digest = cl_arguments_digest r, cr_result_digest = cl_result_digest r,
             cr_content_bytes = bytes, cr_source_ref_ids = cl_source_ref_ids r, cr_status = st \<rparr>))))"

definition source_of_row :: "source_row \<Rightarrow> source_ref" where
  "source_of_row r = \<lparr> sr_id = so_id r, sr_snapshot_id = so_snapshot r, sr_path = so_path r,
     sr_line_start = so_line_start r, sr_line_end = so_line_end r, sr_content_hash = so_content_hash r,
     sr_excerpt = so_excerpt r \<rparr>"

definition load_grounding_trace :: "uuid \<Rightarrow> db \<Rightarrow> grounding_trace option result" where
  "load_grounding_trace i d =
     (case List.find (\<lambda>t. tr_id t = i) (db_traces d) of
        None \<Rightarrow> Inr None
      | Some h \<Rightarrow>
        then_do (collect_results (call_of_row i)
          (sort_key (\<lambda>r. (cl_round r, cl_call r)) (filter (\<lambda>r. cl_trace r = i) (db_calls d)))) (\<lambda>calls.
        Inr (Some \<lparr> gt_id = i, gt_conversation_id = tr_conversation h, gt_turn_id = tr_turn h,
          gt_snapshot_id = tr_snapshot h, gt_tool_calls = calls,
          gt_source_refs = map source_of_row (sort_key so_ordinal (filter (\<lambda>r. so_trace r = i) (db_sources d))),
          gt_egress_receipt_ids = map (ter_id \<circ> rr_receipt)
            (sort_key (ter_prepared_at \<circ> rr_receipt) (filter (\<lambda>r. ter_trace_id (rr_receipt r) = i) (db_receipts d))),
          gt_freshness = tr_freshness h \<rparr>)))"

section \<open>Tool egress receipts\<close>

definition receipt_id :: "receipt_row \<Rightarrow> uuid" where
  "receipt_id r = ter_id (rr_receipt r)"

definition prepare_tool_egress_receipt :: "uuid \<Rightarrow> tool_egress_receipt \<Rightarrow> db \<Rightarrow> db result" where
  "prepare_tool_egress_receipt owner r d =
     (if ter_status r \<noteq> Prepared then Inl (storage_error ''TOOL_EGRESS_RECEIPT_NOT_PREPARED'')
      else then_do (insert_row (ter_id r \<notin> receipt_id ` set (db_receipts d)
               \<and> ter_trace_id r \<in> tr_id ` set (db_traces d)
               \<and> ter_consent_scope_id r \<in> cr_id ` set (db_consents d)) ''TOOL_EGRESS_RECEIPT_INSERT_FAILED''
             \<lparr> rr_receipt = r, rr_tool_name = wire_name (ter_tool_name r), rr_status = ''Prepared'',
               rr_updated_at = ter_updated_at r, rr_owner = Some owner \<rparr> (db_receipts d))
        (\<lambda>rows. Inr (d\<lparr>db_receipts := rows\<rparr>)))"

text \<open>The reading pass of the batch: every receipt exists, has the expected state and seals one body.\<close>

fun check_batch :: "tool_egress_status \<Rightarrow> receipt_row list \<Rightarrow> string option \<Rightarrow> uuid list \<Rightarrow> unit result" where
  "check_batch expected rows body [] = Inr ()"
| "check_batch expected rows body (i # ids) =
     (case List.find (\<lambda>r. receipt_id r = i) rows of
        None \<Rightarrow> Inl (storage_error ''TOOL_EGRESS_STATUS_CONFLICT'')
      | Some r \<Rightarrow>
        if rr_status r \<noteq> egress_status_text expected then Inl (storage_error ''TOOL_EGRESS_STATUS_CONFLICT'')
        else if body \<noteq> None \<and> body \<noteq> Some (ter_body_digest (rr_receipt r))
          then Inl (storage_error ''TOOL_EGRESS_BATCH_BODY_MISMATCH'')
        else check_batch expected rows
          (Some (case body of Some b \<Rightarrow> b | None \<Rightarrow> ter_body_digest (rr_receipt r))) ids)"

fun apply_batch ::
  "datetime \<Rightarrow> tool_egress_status \<Rightarrow> tool_egress_status \<Rightarrow> uuid list \<Rightarrow> receipt_row list \<Rightarrow> receipt_row list result" where
  "apply_batch now expected nxt [] rows = Inr rows"
| "apply_batch now expected nxt (i # ids) rows =
     (let p = (\<lambda>r. receipt_id r = i \<and> rr_status r = egress_status_text expected) in
      if count_where p rows \<noteq> 1 then Inl (storage_error ''TOOL_EGRESS_STATUS_CONFLICT'')
      else apply_batch now expected nxt ids
        (update_where p (\<lambda>r. r\<lparr>rr_status := egress_status_text nxt, rr_updated_at := now\<rparr>) rows))"

definition cas_status_batch ::
  "datetime \<Rightarrow> uuid list \<Rightarrow> tool_egress_status \<Rightarrow> tool_egress_status \<Rightarrow> db \<Rightarrow> db result" where
  "cas_status_batch now ids expected nxt d =
     (if expected \<noteq> Prepared \<or> nxt \<notin> {Sent, EgressFailed, OutcomeUnknown}
        then Inl (storage_error ''TOOL_EGRESS_STATUS_TRANSITION_INVALID'')
      else if ids = [] then Inl (storage_error ''TOOL_EGRESS_BATCH_EMPTY'')
      else if \<not> distinct ids then Inl (storage_error ''TOOL_EGRESS_BATCH_DUPLICATE'')
      else then_do (check_batch expected (db_receipts d) None ids) (\<lambda>_.
        then_do (apply_batch now expected nxt ids (db_receipts d)) (\<lambda>rows.
          Inr (d\<lparr>db_receipts := rows\<rparr>))))"

definition cas_status ::
  "datetime \<Rightarrow> uuid \<Rightarrow> tool_egress_status \<Rightarrow> tool_egress_status \<Rightarrow> db \<Rightarrow> db result" where
  "cas_status now i expected nxt d = cas_status_batch now [i] expected nxt d"

definition load_tool_egress_receipt :: "uuid \<Rightarrow> db \<Rightarrow> tool_egress_receipt option result" where
  "load_tool_egress_receipt i d =
     (case List.find (\<lambda>r. receipt_id r = i) (db_receipts d) of
        None \<Rightarrow> Inr None
      | Some r \<Rightarrow> then_do (parse_tool_name (rr_tool_name r)) (\<lambda>name.
          then_do (parse_egress_status (rr_status r)) (\<lambda>st.
          Inr (Some ((rr_receipt r)\<lparr>ter_tool_name := name, ter_status := st, ter_updated_at := rr_updated_at r\<rparr>)))))"

end
