(* ===== verification/Conversation_Store.thy ===== *)
theory Conversation_Store
  imports Grounding_Store
begin

text \<open>
  \<open>mentat-storage/src/conversation.rs\<close>: conversations, the two-phase life of a turn (\<open>begin_turn\<close>
  with a pending answer, deltas, one terminal update), audit results, deletion, and loading. Fresh
  ids, the clock and the removal of backup files are parameters.
\<close>

section \<open>Message columns\<close>

fun role_text :: "chat_role \<Rightarrow> string" where
  "role_text RoleUser = ''User''"
| "role_text RoleAssistant = ''Assistant''"

fun encode_message_status :: "message_status \<Rightarrow> string \<times> string option" where
  "encode_message_status MsgPending = (''Pending'', None)"
| "encode_message_status MsgStreaming = (''Streaming'', None)"
| "encode_message_status MsgCompleted = (''Completed'', None)"
| "encode_message_status MsgCancelled = (''Cancelled'', None)"
| "encode_message_status (MsgFailed code) = (''Failed'', Some code)"

definition decode_role :: "string \<Rightarrow> chat_role result" where
  "decode_role s = (if s = ''User'' then Inr RoleUser else if s = ''Assistant'' then Inr RoleAssistant
     else Inl (storage_error ''STORAGE_DECODE_ENUM''))"

definition decode_status :: "string \<Rightarrow> string option \<Rightarrow> message_status result" where
  "decode_status s code =
     then_do (if s = ''Pending'' then Inr MsgPending else if s = ''Streaming'' then Inr MsgStreaming
       else if s = ''Completed'' then Inr MsgCompleted else if s = ''Cancelled'' then Inr MsgCancelled
       else if s = ''Failed'' then then_do (ok_or code (storage_error ''STORAGE_DECODE_STATUS'')) (\<lambda>c. Inr (MsgFailed c))
       else Inl (storage_error ''STORAGE_DECODE_ENUM'')) (\<lambda>st.
     if (case st of MsgFailed c \<Rightarrow> False | _ \<Rightarrow> True) \<and> code \<noteq> None then Inl (storage_error ''STORAGE_DECODE_STATUS'') else Inr st)"

definition into_message :: "message_row \<Rightarrow> chat_message result" where
  "into_message r =
     then_do (decode_role (mr_role r)) (\<lambda>role.
     then_do (decode_status (mr_status r) (mr_error_code r)) (\<lambda>st.
     Inr \<lparr> msg_id = mr_id r, msg_conversation_id = mr_conversation r, msg_turn_id = mr_turn r,
       msg_role = role, msg_ordinal = mr_ordinal r, msg_markdown = mr_markdown r, msg_status = st,
       msg_source_ref_ids = [], msg_grounding_trace_id = mr_trace r, msg_grounding_freshness = mr_freshness r,
       msg_created_at = mr_created_at r, msg_updated_at = mr_updated_at r \<rparr>))"

definition message_row_of :: "chat_message \<Rightarrow> message_row" where
  "message_row_of m = \<lparr> mr_id = msg_id m, mr_conversation = msg_conversation_id m, mr_turn = msg_turn_id m,
     mr_role = role_text (msg_role m), mr_ordinal = msg_ordinal m, mr_markdown = msg_markdown m,
     mr_status = fst (encode_message_status (msg_status m)),
     mr_error_code = snd (encode_message_status (msg_status m)), mr_trace = msg_grounding_trace_id m,
     mr_freshness = msg_grounding_freshness m, mr_created_at = msg_created_at m, mr_updated_at = msg_updated_at m \<rparr>"

section \<open>Conversations\<close>

definition create_conversation ::
  "uuid \<Rightarrow> datetime \<Rightarrow> new_conversation \<Rightarrow> db \<Rightarrow> (db \<times> conversation) result" where
  "create_conversation i now draft d =
     (let c = conversation_new i now (nc_prompt_profile_id draft) (nc_repository_id draft) (nc_active_snapshot_id draft) in
      if nc_persistence draft = Ephemeral then Inr (d, c)
      else then_do (insert_row (i \<notin> cvr_id ` set (db_conversations d) \<and> conv_prompt_profile_id c \<in> set (db_profile_ids d))
             ''CONVERSATION_CREATE_FAILED''
             \<lparr> cvr_id = i, cvr_repository = conv_repository_id c, cvr_snapshot = conv_active_snapshot_id c,
               cvr_profile = conv_prompt_profile_id c, cvr_summary = None, cvr_persistence = ''Durable'',
               cvr_created_at = now, cvr_updated_at = now \<rparr> (db_conversations d))
        (\<lambda>rows. Inr (d\<lparr>db_conversations := rows\<rparr>, c)))"

definition into_conversation :: "conversation_row \<Rightarrow> conversation" where
  "into_conversation r = \<lparr> conv_id = cvr_id r, conv_repository_id = cvr_repository r,
     conv_active_snapshot_id = cvr_snapshot r, conv_prompt_profile_id = cvr_profile r, conv_messages = [],
     conv_compact_summary = cvr_summary r, conv_created_at = cvr_created_at r, conv_updated_at = cvr_updated_at r \<rparr>"

definition load_conversation :: "uuid \<Rightarrow> db \<Rightarrow> conversation option result" where
  "load_conversation i d =
     (case List.find (\<lambda>c. cvr_id c = i) (db_conversations d) of
        None \<Rightarrow> Inr None
      | Some c \<Rightarrow> then_do (collect_results into_message
            (sort_key mr_ordinal (filter (\<lambda>m. mr_conversation m = cvr_id c) (db_messages d))))
          (\<lambda>ms. Inr (Some ((into_conversation c)\<lparr>conv_messages := ms\<rparr>))))"

text \<open>\<open>ORDER BY updated_at DESC LIMIT 1\<close>.\<close>

fun most_recent :: "conversation_row list \<Rightarrow> conversation_row option" where
  "most_recent [] = None"
| "most_recent (c # cs) =
     (case most_recent cs of None \<Rightarrow> Some c
      | Some c' \<Rightarrow> if cvr_updated_at c' > cvr_updated_at c then Some c' else Some c)"

definition load_most_recent_conversation :: "db \<Rightarrow> conversation option result" where
  "load_most_recent_conversation d =
     (case most_recent (db_conversations d) of None \<Rightarrow> Inr None | Some c \<Rightarrow> load_conversation (cvr_id c) d)"

definition bind_conversation_repository :: "datetime \<Rightarrow> uuid \<Rightarrow> uuid \<Rightarrow> uuid \<Rightarrow> db \<Rightarrow> db result" where
  "bind_conversation_repository now conv repo snapshot d =
     (let p = (\<lambda>c. cvr_id c = conv) in
      if count_where p (db_conversations d) \<noteq> 1 then Inl (storage_error ''CONVERSATION_NOT_FOUND'')
      else Inr (d\<lparr>db_conversations := update_where p
        (\<lambda>c. c\<lparr>cvr_repository := Some repo, cvr_snapshot := Some snapshot, cvr_updated_at := now\<rparr>) (db_conversations d)\<rparr>))"

section \<open>Deletion\<close>

text \<open>\<open>DELETE FROM conversations\<close> with \<open>ON DELETE CASCADE\<close>, table by table.\<close>

definition turns_of :: "uuid \<Rightarrow> db \<Rightarrow> uuid set" where
  "turns_of i d = turn_id ` set (filter (\<lambda>t. turn_conversation_id t = i) (db_turns d))"

definition traces_of :: "uuid \<Rightarrow> db \<Rightarrow> uuid set" where
  "traces_of i d = tr_id ` set (filter (\<lambda>t. tr_conversation t = i \<or> tr_turn t \<in> turns_of i d) (db_traces d))"

definition consents_of :: "uuid \<Rightarrow> db \<Rightarrow> uuid set" where
  "consents_of i d = cr_id ` set (filter (\<lambda>c. cr_conversation c = i) (db_consents d))"

definition cascade_conversation :: "uuid \<Rightarrow> db \<Rightarrow> db" where
  "cascade_conversation i d =
     d\<lparr>db_conversations := filter (\<lambda>c. cvr_id c \<noteq> i) (db_conversations d),
       db_turns := filter (\<lambda>t. turn_conversation_id t \<noteq> i) (db_turns d),
       db_messages := filter (\<lambda>m. \<not> (mr_conversation m = i \<or> mr_turn m \<in> turns_of i d)) (db_messages d),
       db_traces := filter (\<lambda>t. tr_id t \<notin> traces_of i d) (db_traces d),
       db_calls := filter (\<lambda>c. cl_trace c \<notin> traces_of i d) (db_calls d),
       db_sources := filter (\<lambda>s. so_trace s \<notin> traces_of i d) (db_sources d),
       db_audits := filter (\<lambda>a. au_turn a \<notin> turns_of i d) (db_audits d),
       db_consents := filter (\<lambda>c. cr_id c \<notin> consents_of i d) (db_consents d),
       db_receipts := filter (\<lambda>r. ter_trace_id (rr_receipt r) \<notin> traces_of i d
                              \<and> ter_consent_scope_id (rr_receipt r) \<notin> consents_of i d) (db_receipts d)\<rparr>"

definition deleted_counts :: "uuid \<Rightarrow> db \<Rightarrow> (string \<times> nat) list" where
  "deleted_counts i d =
     [(''turns'', count_where (\<lambda>t. turn_conversation_id t = i) (db_turns d)),
      (''messages'', count_where (\<lambda>m. mr_conversation m = i) (db_messages d)),
      (''grounding_traces'', count_where (\<lambda>t. tr_conversation t = i) (db_traces d)),
      (''egress_receipts'', count_where (\<lambda>r. ter_conversation_id (rr_receipt r) = i) (db_receipts d)),
      (''audit_results'', count_where (\<lambda>a. au_turn a \<in> turns_of i d) (db_audits d)),
      (''conversations'', 1)]"

text \<open>\<open>removed\<close> is the result of removing the backup files, which happens first.\<close>

definition delete_conversation ::
  "string list result \<Rightarrow> uuid \<Rightarrow> datetime \<Rightarrow> uuid \<Rightarrow> db \<Rightarrow> (db \<times> delete_receipt) result" where
  "delete_conversation removed operation now i d =
     then_do removed (\<lambda>artifacts.
       if count_where (\<lambda>c. cvr_id c = i) (db_conversations d) \<noteq> 1
       then Inl (storage_error ''CONVERSATION_NOT_FOUND'')
       else Inr (cascade_conversation i d,
         \<lparr> dr_operation_id = operation, dr_deleted_counts = deleted_counts i d,
           dr_removed_artifacts = artifacts, dr_completed_at = now \<rparr>))"

section \<open>Beginning a turn\<close>

definition turn_start_valid :: "turn_start \<Rightarrow> bool" where
  "turn_start_valid s \<longleftrightarrow>
     (let t = ts_turn s; u = ts_user_message s; a = ts_assistant_placeholder s in
      \<not> (msg_conversation_id u \<noteq> turn_conversation_id t \<or> msg_conversation_id a \<noteq> turn_conversation_id t
         \<or> msg_turn_id u \<noteq> turn_id t \<or> msg_turn_id a \<noteq> turn_id t
         \<or> msg_role u \<noteq> RoleUser \<or> msg_role a \<noteq> RoleAssistant
         \<or> msg_status u \<noteq> MsgCompleted \<or> msg_status a \<noteq> MsgPending \<or> msg_ordinal a \<le> msg_ordinal u))"

definition insert_message :: "chat_message \<Rightarrow> db \<Rightarrow> db result" where
  "insert_message m d =
     (if \<not> fits_i64 (msg_ordinal m) then Inl (storage_error ''CHAT_ORDINAL_OVERFLOW'')
      else then_do (insert_row (msg_id m \<notin> mr_id ` set (db_messages d)
               \<and> (msg_conversation_id m, msg_ordinal m) \<notin> (\<lambda>r. (mr_conversation r, mr_ordinal r)) ` set (db_messages d)
               \<and> msg_conversation_id m \<in> cvr_id ` set (db_conversations d)
               \<and> msg_turn_id m \<in> turn_id ` set (db_turns d)) ''CHAT_MESSAGE_INSERT_FAILED''
             (message_row_of m) (db_messages d))
        (\<lambda>rows. Inr (d\<lparr>db_messages := rows\<rparr>)))"

definition insert_turn :: "conversation_turn \<Rightarrow> db \<Rightarrow> db result" where
  "insert_turn t d =
     (if \<not> fits_i64 (turn_sequence t) then Inl (storage_error ''TURN_SEQUENCE_OVERFLOW'')
      else then_do (insert_row (turn_id t \<notin> turn_id ` set (db_turns d) \<and> 0 < turn_sequence t
               \<and> (turn_conversation_id t, turn_sequence t) \<notin> (\<lambda>x. (turn_conversation_id x, turn_sequence x)) ` set (db_turns d)
               \<and> turn_conversation_id t \<in> cvr_id ` set (db_conversations d)) ''TURN_INSERT_FAILED''
             (t\<lparr>turn_audit_result_id := None, turn_completed_at := None\<rparr>) (db_turns d))
        (\<lambda>rows. Inr (d\<lparr>db_turns := rows\<rparr>)))"

definition begin_turn :: "turn_start \<Rightarrow> db \<Rightarrow> db result" where
  "begin_turn s d =
     (if \<not> turn_start_valid s then Inl (storage_error ''TURN_START_INVALID'')
      else then_do (insert_turn (ts_turn s) d) (\<lambda>d1.
        then_do (insert_message (ts_user_message s) d1) (insert_message (ts_assistant_placeholder s))))"

section \<open>Deltas and the terminal update\<close>

definition open_status :: "string \<Rightarrow> bool" where
  "open_status s \<longleftrightarrow> s = ''Pending'' \<or> s = ''Streaming''"

definition append_assistant_delta :: "datetime \<Rightarrow> uuid \<Rightarrow> string \<Rightarrow> db \<Rightarrow> db result" where
  "append_assistant_delta now i delta d =
     (let p = (\<lambda>m. mr_id m = i \<and> mr_role m = ''Assistant'' \<and> open_status (mr_status m)) in
      if count_where p (db_messages d) \<noteq> 1 then Inl (storage_error ''CHAT_DELTA_TERMINAL_CONFLICT'')
      else Inr (d\<lparr>db_messages := update_where p
        (\<lambda>m. m\<lparr>mr_markdown := mr_markdown m @ delta, mr_status := ''Streaming'', mr_updated_at := now\<rparr>) (db_messages d)\<rparr>))"

text \<open>The two updates of a terminal: the open answer of the turn, then the open turn itself.\<close>

definition close_turn ::
  "uuid \<Rightarrow> uuid \<Rightarrow> (message_row \<Rightarrow> message_row) \<Rightarrow> (conversation_turn \<Rightarrow> conversation_turn) \<Rightarrow> db \<Rightarrow> db result" where
  "close_turn turn message f g d =
     (let p = (\<lambda>m. mr_id m = message \<and> mr_turn m = turn \<and> mr_role m = ''Assistant'' \<and> open_status (mr_status m));
          q = (\<lambda>t. turn_id t = turn \<and> turn_completed_at t = None) in
      if count_where p (db_messages d) \<noteq> 1 \<or> count_where q (db_turns d) \<noteq> 1
      then Inl (storage_error ''TURN_TERMINAL_CONFLICT'')
      else Inr (d\<lparr>db_messages := update_where p f (db_messages d), db_turns := update_where q g (db_turns d)\<rparr>))"

text \<open>\<open>terminal_values\<close> for the updates that are not audit results: markdown, state, error, trace, freshness.\<close>

fun terminal_values ::
  "turn_terminal_update \<Rightarrow> string \<times> string \<times> string option \<times> uuid option \<times> grounding_freshness option" where
  "terminal_values (AdvisorCompleted t m md tr fr ts) = (md, ''Completed'', None, tr, fr)"
| "terminal_values (AdvisorCancelled t m partial ts) = (partial, ''Cancelled'', None, None, None)"
| "terminal_values (AuditCancelled t m ts) = ([], ''Cancelled'', None, None, None)"
| "terminal_values (TurnFailed t m code safe ts) = (safe, ''Failed'', Some code, None, None)"
| "terminal_values (AuditCompleted t m b tr fr ts) = ([], ''Completed'', None, Some tr, Some fr)"

definition set_terminal ::
  "string \<times> string \<times> string option \<times> uuid option \<times> grounding_freshness option \<Rightarrow> datetime \<Rightarrow> message_row \<Rightarrow> message_row" where
  "set_terminal v now m = (case v of (md, st, code, tr, fr) \<Rightarrow>
     m\<lparr>mr_markdown := md, mr_status := st, mr_error_code := code, mr_trace := tr, mr_freshness := fr, mr_updated_at := now\<rparr>)"

text \<open>\<open>apply_audit_terminal_in_transaction\<close>; \<open>result_id\<close> is the fresh id of the stored result.\<close>

definition apply_audit_terminal ::
  "uuid \<Rightarrow> uuid \<Rightarrow> uuid \<Rightarrow> answer_bundle \<Rightarrow> uuid \<Rightarrow> grounding_freshness \<Rightarrow> datetime \<Rightarrow> db \<Rightarrow> db result" where
  "apply_audit_terminal result_id turn message b trace fr ts d =
     (if ab_raw_model_response b \<noteq> None then Inl (storage_error ''AUDIT_RAW_RESPONSE_FORBIDDEN'')
      else then_do (ok_or (List.find (\<lambda>t. turn_id t = turn) (db_turns d)) (storage_error ''AUDIT_CONTRACT_READ_FAILED'')) (\<lambda>t.
        if turn_response_contract t \<noteq> ContractAudit ''answer_bundle.v1''
        then Inl (storage_error ''AUDIT_TURN_CONTRACT_MISMATCH'')
        else then_do (insert_row (result_id \<notin> au_id ` set (db_audits d) \<and> turn \<notin> au_turn ` set (db_audits d))
               ''AUDIT_RESULT_INSERT_FAILED''
               \<lparr> au_id = result_id, au_turn = turn, au_schema_version = ''answer_bundle.v1'', au_bundle = b,
                 au_created_at = ts \<rparr> (db_audits d)) (\<lambda>rows.
          close_turn turn message (set_terminal ([], ''Completed'', None, Some trace, Some fr) ts)
            (\<lambda>x. x\<lparr>turn_audit_result_id := Some result_id, turn_completed_at := Some ts\<rparr>) (d\<lparr>db_audits := rows\<rparr>))))"

fun apply_terminal_update :: "uuid \<Rightarrow> turn_terminal_update \<Rightarrow> db \<Rightarrow> db result" where
  "apply_terminal_update result_id (AuditCompleted turn message b trace fr ts) d =
     apply_audit_terminal result_id turn message b trace fr ts d"
| "apply_terminal_update result_id u d =
     close_turn (tu_turn_id u) (tu_message_id u) (set_terminal (terminal_values u) (tu_completed_at u))
       (\<lambda>x. x\<lparr>turn_completed_at := Some (tu_completed_at u)\<rparr>) d"

definition finish_turn :: "uuid \<Rightarrow> turn_terminal_update \<Rightarrow> db \<Rightarrow> db result" where
  "finish_turn result_id u d = apply_terminal_update result_id u d"

section \<open>Finishing with a grounding trace\<close>

fun terminal_bound_to :: "grounding_trace \<Rightarrow> turn_terminal_update \<Rightarrow> bool" where
  "terminal_bound_to t (AdvisorCompleted turn m md (Some tr) (Some fr) ts) \<longleftrightarrow>
     turn = gt_turn_id t \<and> tr = gt_id t \<and> fr = gt_freshness t"
| "terminal_bound_to t (AuditCompleted turn m b tr fr ts) \<longleftrightarrow>
     turn = gt_turn_id t \<and> tr = gt_id t \<and> fr = gt_freshness t \<and> gt_snapshot_id t = Some (ab_snapshot_id b)"
| "terminal_bound_to t u \<longleftrightarrow> False"

definition validate_trace_database_binding :: "grounding_trace \<Rightarrow> db \<Rightarrow> unit result" where
  "validate_trace_database_binding t d =
     then_do (ok_or (List.find (\<lambda>x. turn_id x = gt_turn_id t) (db_turns d))
                (storage_error ''TURN_GROUNDING_BINDING_READ_FAILED'')) (\<lambda>x.
       if turn_conversation_id x \<noteq> gt_conversation_id t \<or> turn_snapshot_id x \<noteq> gt_snapshot_id t
       then Inl (storage_error ''TURN_GROUNDING_BINDING_INVALID'') else Inr ())"

definition finish_turn_with_grounding ::
  "datetime \<Rightarrow> uuid \<Rightarrow> grounding_trace \<Rightarrow> turn_terminal_update \<Rightarrow> db \<Rightarrow> db result" where
  "finish_turn_with_grounding now result_id t u d =
     (if \<not> terminal_bound_to t u then Inl (storage_error ''TURN_GROUNDING_BINDING_INVALID'')
      else then_do (validate_trace_database_binding t d) (\<lambda>_.
        then_do (write_grounding_trace now t d) (apply_terminal_update result_id u)))"

definition load_audit_result_for_turn :: "uuid \<Rightarrow> db \<Rightarrow> answer_bundle option result" where
  "load_audit_result_for_turn turn d =
     Inr (map_option au_bundle (List.find (\<lambda>a. au_turn a = turn) (db_audits d)))"

section \<open>Window preferences\<close>

fun positive_points :: "f32 \<Rightarrow> bool" where
  "positive_points (F32 x) \<longleftrightarrow> 0 < x"
| "positive_points (F32Inf b) \<longleftrightarrow> False"
| "positive_points F32NaN \<longleftrightarrow> False"

text \<open>The row with \<open>id = 1\<close>; the schema requires \<open>layout_revision > 0\<close>.\<close>

definition save_ui_preferences :: "ui_preferences \<Rightarrow> ui_preferences option \<Rightarrow> ui_preferences option result" where
  "save_ui_preferences p stored =
     (if \<not> (positive_points (ui_width_points p) \<and> positive_points (ui_height_points p))
        then Inl (storage_error ''UI_PREFERENCES_INVALID'')
      else if ui_layout_revision p = 0 then Inl (storage_error ''UI_PREFERENCES_SAVE_FAILED'')
      else Inr (Some p))"

definition load_ui_preferences :: "datetime \<Rightarrow> ui_preferences option \<Rightarrow> ui_preferences result" where
  "load_ui_preferences now stored =
     (case stored of None \<Rightarrow> Inr (ui_preferences_default now)
      | Some p \<Rightarrow> if \<not> (positive_points (ui_width_points p) \<and> positive_points (ui_height_points p))
                  then Inl (storage_error ''UI_PREFERENCES_INVALID'')
                  else if 2 ^ 32 \<le> ui_layout_revision p then Inl (storage_error ''STORAGE_DECODE_INTEGER'')
                  else Inr p)"

end
