(* ===== verification/Storage_Runtime.thy ===== *)
theory Storage_Runtime
  imports Conversation_Store
begin

text \<open>
  The database over its life: the ownership record and the recovery that \<open>acquire_runtime_ownership\<close>
  runs when the program starts (\<open>mentat-storage/src/db.rs\<close>), the operations of the store as one
  datatype, the states reachable by them, and the invariant of these states.
\<close>

section \<open>Recovery at start\<close>

definition interrupted_text :: string where
  "interrupted_text = map char_of ([236, 157, 180, 236, 160, 132, 32, 236, 139, 164, 237, 150, 137, 236, 157, 180, 32, 236, 162,
     133, 235, 163, 140, 235, 144, 152, 236, 150, 180, 32, 236, 154, 148, 236, 178, 173, 236,
     157, 132, 32, 236, 153, 132, 235, 163, 140, 237, 149, 152, 236, 167, 128, 32, 235, 170, 187,
     237, 150, 136, 236, 138, 181, 235, 139, 136, 235, 139, 164, 46] :: nat list)"

definition interrupted_message :: "datetime \<Rightarrow> message_row \<Rightarrow> message_row" where
  "interrupted_message now m = m\<lparr>mr_markdown := interrupted_text, mr_status := ''Failed'',
     mr_error_code := Some ''INTERRUPTED_BY_RESTART'', mr_updated_at := now\<rparr>"

definition is_open_answer :: "message_row \<Rightarrow> bool" where
  "is_open_answer m \<longleftrightarrow> mr_role m = ''Assistant'' \<and> open_status (mr_status m)"

definition is_interrupted :: "message_row \<Rightarrow> bool" where
  "is_interrupted m \<longleftrightarrow> mr_role m = ''Assistant'' \<and> mr_status m = ''Failed''
     \<and> mr_error_code m = Some ''INTERRUPTED_BY_RESTART''"

definition acquire_runtime_ownership :: "uuid \<Rightarrow> nat \<Rightarrow> datetime \<Rightarrow> db \<Rightarrow> db result" where
  "acquire_runtime_ownership owner pid now d =
     (let receipts = update_where (\<lambda>r. rr_status r = ''Prepared'')
            (\<lambda>r. r\<lparr>rr_status := ''OutcomeUnknown'', rr_updated_at := now\<rparr>) (db_receipts d);
          messages = update_where is_open_answer (interrupted_message now) (db_messages d);
          turns = update_where (\<lambda>t. turn_completed_at t = None
              \<and> (\<exists>m \<in> set messages. mr_turn m = turn_id t \<and> is_interrupted m))
            (\<lambda>t. t\<lparr>turn_completed_at := Some now\<rparr>) (db_turns d) in
      Inr (d\<lparr>db_owner := Some \<lparr> ow_owner = owner, ow_process = pid, ow_acquired_at = now, ow_heartbeat_at = now \<rparr>,
             db_receipts := receipts, db_messages := messages, db_turns := turns\<rparr>))"

text \<open>\<open>Drop\<close> of the guard: the ownership record goes when it is still this owner's.\<close>

definition release_runtime_ownership :: "uuid \<Rightarrow> db \<Rightarrow> db result" where
  "release_runtime_ownership owner d =
     Inr (d\<lparr>db_owner := (case db_owner d of
        Some o' \<Rightarrow> if ow_owner o' = owner then None else Some o' | None \<Rightarrow> None)\<rparr>)"

section \<open>Operations and reachable states\<close>

datatype db_op =
    OpAddProfile uuid
  | OpCreate uuid datetime new_conversation
  | OpBind datetime uuid uuid uuid
  | OpDelete "string list result" uuid datetime uuid
  | OpBegin turn_start
  | OpDelta datetime uuid string
  | OpFinish uuid turn_terminal_update
  | OpFinishGrounded datetime uuid grounding_trace turn_terminal_update
  | OpPrepareTrace datetime grounding_trace
  | OpMarkChanged datetime uuid
  | OpSaveConsent repository_consent_scope
  | OpRevoke datetime uuid
  | OpPrepareReceipt uuid tool_egress_receipt
  | OpCas datetime "uuid list" tool_egress_status tool_egress_status
  | OpStart uuid nat datetime
  | OpStop uuid

fun exec_op :: "db_op \<Rightarrow> db \<Rightarrow> db result" where
  "exec_op (OpAddProfile i) d = Inr (d\<lparr>db_profile_ids := db_profile_ids d @ [i]\<rparr>)"
| "exec_op (OpCreate i now draft) d = then_do (create_conversation i now draft d) (\<lambda>r. Inr (fst r))"
| "exec_op (OpBind now conv repo snap) d = bind_conversation_repository now conv repo snap d"
| "exec_op (OpDelete removed operation now i) d =
     then_do (delete_conversation removed operation now i d) (\<lambda>r. Inr (fst r))"
| "exec_op (OpBegin s) d = begin_turn s d"
| "exec_op (OpDelta now i delta) d = append_assistant_delta now i delta d"
| "exec_op (OpFinish rid u) d = finish_turn rid u d"
| "exec_op (OpFinishGrounded now rid t u) d = finish_turn_with_grounding now rid t u d"
| "exec_op (OpPrepareTrace now t) d = prepare_grounding_trace now t d"
| "exec_op (OpMarkChanged now snap) d = mark_snapshot_changed now snap d"
| "exec_op (OpSaveConsent s) d = save_repository_consent_scope s d"
| "exec_op (OpRevoke now i) d = revoke_repository_consent now i d"
| "exec_op (OpPrepareReceipt owner r) d = prepare_tool_egress_receipt owner r d"
| "exec_op (OpCas now ids expected nxt) d = cas_status_batch now ids expected nxt d"
| "exec_op (OpStart owner pid now) d = acquire_runtime_ownership owner pid now d"
| "exec_op (OpStop owner) d = release_runtime_ownership owner d"

inductive reachable :: "db \<Rightarrow> bool" where
  reachable_init: "reachable (empty_db profiles)"
| reachable_step: "reachable d \<Longrightarrow> exec_op op d = Inr d' \<Longrightarrow> reachable d'"

section \<open>The invariant\<close>

definition answers_of :: "db \<Rightarrow> uuid \<Rightarrow> message_row list" where
  "answers_of d t = filter (\<lambda>m. mr_turn m = t \<and> mr_role m = ''Assistant'') (db_messages d)"

text \<open>Every turn has one answer, which is open exactly as long as the turn is.\<close>

definition turn_ok :: "db \<Rightarrow> conversation_turn \<Rightarrow> bool" where
  "turn_ok d t \<longleftrightarrow> (\<exists>m. answers_of d (turn_id t) = [m]
     \<and> (turn_completed_at t = None \<longleftrightarrow> open_status (mr_status m)))"

text \<open>A message belongs to the conversation of its turn and decodes.\<close>

definition message_ok :: "db \<Rightarrow> message_row \<Rightarrow> bool" where
  "message_ok d m \<longleftrightarrow> (\<exists>t \<in> set (db_turns d). turn_id t = mr_turn m \<and> turn_conversation_id t = mr_conversation m)
     \<and> is_ok (into_message m)"

text \<open>A stored audit result belongs to a completed audit turn that names it, and has no raw text.\<close>

definition audit_ok :: "db \<Rightarrow> audit_row \<Rightarrow> bool" where
  "audit_ok d a \<longleftrightarrow> (\<exists>t \<in> set (db_turns d). turn_id t = au_turn a \<and> turn_completed_at t \<noteq> None
     \<and> turn_response_contract t = ContractAudit ''answer_bundle.v1''
     \<and> turn_audit_result_id t = Some (au_id a))
     \<and> ab_raw_model_response (au_bundle a) = None"

definition db_inv :: "db \<Rightarrow> bool" where
  "db_inv d \<longleftrightarrow> keys_ok d \<and> refs_ok d \<and> (\<forall>t \<in> set (db_turns d). turn_ok d t)
     \<and> (\<forall>m \<in> set (db_messages d). message_ok d m) \<and> (\<forall>a \<in> set (db_audits d). audit_ok d a)"

section \<open>Keys and references are kept\<close>

lemma set_terminal_keys [simp]:
  "mr_id (set_terminal v now m) = mr_id m" "mr_conversation (set_terminal v now m) = mr_conversation m"
  "mr_turn (set_terminal v now m) = mr_turn m" "mr_ordinal (set_terminal v now m) = mr_ordinal m"
  "mr_role (set_terminal v now m) = mr_role m" "mr_created_at (set_terminal v now m) = mr_created_at m"
  by (simp_all add: set_terminal_def split: prod.splits)

lemma interrupted_message_keys [simp]:
  "mr_id (interrupted_message now m) = mr_id m" "mr_conversation (interrupted_message now m) = mr_conversation m"
  "mr_turn (interrupted_message now m) = mr_turn m" "mr_ordinal (interrupted_message now m) = mr_ordinal m"
  "mr_role (interrupted_message now m) = mr_role m"
  by (simp_all add: interrupted_message_def)

text \<open>The rewriting of a turn and of its answer keeps every key and reference.\<close>

definition keeps_message :: "(message_row \<Rightarrow> message_row) \<Rightarrow> bool" where
  "keeps_message f \<longleftrightarrow> (\<forall>m. mr_id (f m) = mr_id m \<and> mr_conversation (f m) = mr_conversation m
     \<and> mr_turn (f m) = mr_turn m \<and> mr_ordinal (f m) = mr_ordinal m \<and> mr_role (f m) = mr_role m)"

definition keeps_turn :: "(conversation_turn \<Rightarrow> conversation_turn) \<Rightarrow> bool" where
  "keeps_turn g \<longleftrightarrow> (\<forall>t. turn_id (g t) = turn_id t \<and> turn_conversation_id (g t) = turn_conversation_id t
     \<and> turn_sequence (g t) = turn_sequence t \<and> turn_response_contract (g t) = turn_response_contract t)"

lemma keeps_messageD [simp]:
  assumes "keeps_message f"
  shows "mr_id (f m) = mr_id m" "mr_conversation (f m) = mr_conversation m" "mr_turn (f m) = mr_turn m"
    "mr_ordinal (f m) = mr_ordinal m" "mr_role (f m) = mr_role m"
  using assms by (simp_all add: keeps_message_def)

lemma keeps_turnD [simp]:
  assumes "keeps_turn g"
  shows "turn_id (g t) = turn_id t" "turn_conversation_id (g t) = turn_conversation_id t"
    "turn_sequence (g t) = turn_sequence t" "turn_response_contract (g t) = turn_response_contract t"
  using assms by (simp_all add: keeps_turn_def)

definition structure_ok :: "db \<Rightarrow> bool" where
  "structure_ok d \<longleftrightarrow> keys_ok d \<and> refs_ok d"

lemmas structure_defs = structure_ok_def keys_ok_def refs_ok_def Let_def

lemma structure_update:
  assumes "structure_ok d" and "keeps_message f" and "keeps_turn g"
  shows "structure_ok (d\<lparr>db_messages := update_where p f (db_messages d),
                         db_turns := update_where q g (db_turns d)\<rparr>)"
  using assms by (simp add: structure_defs)

lemma structure_messages:
  assumes "structure_ok d" and "keeps_message f"
  shows "structure_ok (d\<lparr>db_messages := update_where p f (db_messages d)\<rparr>)"
  using assms by (simp add: structure_defs)

text \<open>Each insert spelled out: what it requires, and the database it gives.\<close>

lemma insert_message_Inr:
  "insert_message m d = Inr d' \<longleftrightarrow> fits_i64 (msg_ordinal m) \<and> msg_id m \<notin> mr_id ` set (db_messages d)
     \<and> (msg_conversation_id m, msg_ordinal m) \<notin> (\<lambda>r. (mr_conversation r, mr_ordinal r)) ` set (db_messages d)
     \<and> msg_conversation_id m \<in> cvr_id ` set (db_conversations d) \<and> msg_turn_id m \<in> turn_id ` set (db_turns d)
     \<and> d' = d\<lparr>db_messages := db_messages d @ [message_row_of m]\<rparr>"
  by (simp only: insert_message_def statement_simps eq_commute [of d'])

lemma insert_turn_Inr:
  "insert_turn t d = Inr d' \<longleftrightarrow> fits_i64 (turn_sequence t) \<and> turn_id t \<notin> turn_id ` set (db_turns d)
     \<and> 0 < turn_sequence t
     \<and> (turn_conversation_id t, turn_sequence t) \<notin> (\<lambda>x. (turn_conversation_id x, turn_sequence x)) ` set (db_turns d)
     \<and> turn_conversation_id t \<in> cvr_id ` set (db_conversations d)
     \<and> d' = d\<lparr>db_turns := db_turns d @ [t\<lparr>turn_audit_result_id := None, turn_completed_at := None\<rparr>]\<rparr>"
  by (simp only: insert_turn_def statement_simps eq_commute [of d'])

lemma save_consent_Inr:
  "save_repository_consent_scope s d = Inr d' \<longleftrightarrow>
     cs_id s \<notin> cr_id ` set (db_consents d) \<and> cs_conversation_id s \<in> cvr_id ` set (db_conversations d)
     \<and> d' = d\<lparr>db_consents := db_consents d @ [\<lparr> cr_id = cs_id s, cr_conversation = cs_conversation_id s,
         cr_repository = cs_repository_id s, cr_snapshot = cs_snapshot_id s, cr_binding = cs_provider_binding s,
         cr_kind = fst (consent_kind_columns (cs_kind s)), cr_once_turn = snd (consent_kind_columns (cs_kind s)),
         cr_granted_at = cs_granted_at s, cr_revoked_at = cs_revoked_at s \<rparr>]\<rparr>"
  by (simp only: save_repository_consent_scope_def statement_simps eq_commute [of d'])

lemma prepare_receipt_row_Inr:
  "prepare_tool_egress_receipt owner r d = Inr d' \<longleftrightarrow>
     ter_status r = Prepared \<and> ter_id r \<notin> receipt_id ` set (db_receipts d)
     \<and> ter_trace_id r \<in> tr_id ` set (db_traces d) \<and> ter_consent_scope_id r \<in> cr_id ` set (db_consents d)
     \<and> d' = d\<lparr>db_receipts := db_receipts d @ [\<lparr> rr_receipt = r, rr_tool_name = wire_name (ter_tool_name r),
         rr_status = ''Prepared'', rr_updated_at = ter_updated_at r, rr_owner = Some owner \<rparr>]\<rparr>"
  by (simp only: prepare_tool_egress_receipt_def statement_simps eq_commute [of d'])

lemma insert_message_structure:
  assumes "insert_message m d = Inr d'" and "structure_ok d"
  shows "structure_ok d'"
  using assms unfolding insert_message_Inr
  by (elim conjE) (simp add: structure_defs message_row_of_def subset_insertI2)

lemma insert_turn_structure:
  assumes "insert_turn t d = Inr d'" and "structure_ok d"
  shows "structure_ok d'"
  using assms unfolding insert_turn_Inr
  by (elim conjE) (simp add: structure_defs subset_insertI2)

lemma save_consent_structure:
  assumes "save_repository_consent_scope s d = Inr d'" and "structure_ok d"
  shows "structure_ok d'"
  using assms unfolding save_consent_Inr by (elim conjE) (simp add: structure_defs subset_insertI2)

lemma prepare_receipt_structure:
  assumes "prepare_tool_egress_receipt owner r d = Inr d'" and "structure_ok d"
  shows "structure_ok d'"
  using assms unfolding prepare_receipt_row_Inr
  by (elim conjE) (simp add: structure_defs receipt_id_def [abs_def])

lemma create_conversation_Inr:
  "nc_persistence draft \<noteq> Ephemeral \<Longrightarrow> create_conversation i now draft d = Inr (d', c) \<longleftrightarrow>
     i \<notin> cvr_id ` set (db_conversations d) \<and> nc_prompt_profile_id draft \<in> set (db_profile_ids d)
     \<and> c = conversation_new i now (nc_prompt_profile_id draft) (nc_repository_id draft) (nc_active_snapshot_id draft)
     \<and> d' = d\<lparr>db_conversations := db_conversations d @ [\<lparr> cvr_id = i, cvr_repository = nc_repository_id draft,
         cvr_snapshot = nc_active_snapshot_id draft, cvr_profile = nc_prompt_profile_id draft, cvr_summary = None,
         cvr_persistence = ''Durable'', cvr_created_at = now, cvr_updated_at = now \<rparr>]\<rparr>"
  by (simp only: create_conversation_def Let_def statement_simps prod.inject conversation_new_def conversation.simps
      eq_commute [of d'] eq_commute [of c]) (simp only: conj_ac)

lemma create_conversation_Ephemeral:
  "nc_persistence draft = Ephemeral \<Longrightarrow> create_conversation i now draft d = Inr (d', c) \<Longrightarrow> d' = d"
  by (simp add: create_conversation_def Let_def)

lemma create_conversation_structure:
  assumes "create_conversation i now draft d = Inr (d', c)" and "structure_ok d"
  shows "structure_ok d'"
proof (cases "nc_persistence draft = Ephemeral")
  case True
  then show ?thesis using assms create_conversation_Ephemeral by blast
next
  case False
  show ?thesis
    using assms unfolding create_conversation_Inr [OF False]
    by (elim conjE) (simp add: structure_defs subset_insertI2)
qed

lemma bind_Inr:
  "bind_conversation_repository now conv repo snap d = Inr d' \<longleftrightarrow>
     count_where (\<lambda>c. cvr_id c = conv) (db_conversations d) = 1
     \<and> d' = d\<lparr>db_conversations := update_where (\<lambda>c. cvr_id c = conv)
         (\<lambda>c. c\<lparr>cvr_repository := Some repo, cvr_snapshot := Some snap, cvr_updated_at := now\<rparr>) (db_conversations d)\<rparr>"
  by (simp only: bind_conversation_repository_def Let_def statement_simps eq_commute [of d'])

lemma bind_structure:
  assumes "bind_conversation_repository now conv repo snap d = Inr d'" and "structure_ok d"
  shows "structure_ok d'"
  using assms unfolding bind_Inr by (elim conjE) (simp add: structure_defs)

end
