(* ===== verification/Storage_Invariant.thy ===== *)
theory Storage_Invariant
  imports Storage_Runtime
begin

text \<open>
  The invariant of the reachable databases, operation by operation: the keys and references of the
  schema, and the content: every turn has exactly one answer, which is open as long as the turn is,
  every message decodes, every audit result belongs to a completed audit turn.
\<close>

section \<open>Structure of the compound operations\<close>

lemma begin_turn_Inr:
  "begin_turn s d = Inr d' \<longleftrightarrow> turn_start_valid s \<and>
     (\<exists>d1 d2. insert_turn (ts_turn s) d = Inr d1 \<and> insert_message (ts_user_message s) d1 = Inr d2
        \<and> insert_message (ts_assistant_placeholder s) d2 = Inr d')"
  by (auto simp: begin_turn_def then_do_Inr)

lemma begin_turn_structure:
  assumes "begin_turn s d = Inr d'" and "structure_ok d"
  shows "structure_ok d'"
  using assms unfolding begin_turn_Inr by (blast intro: insert_turn_structure insert_message_structure)

lemma close_turn_Inr:
  "close_turn turn message f g d = Inr d' \<longleftrightarrow>
     count_where (\<lambda>m. mr_id m = message \<and> mr_turn m = turn \<and> mr_role m = ''Assistant'' \<and> open_status (mr_status m))
       (db_messages d) = 1
     \<and> count_where (\<lambda>t. turn_id t = turn \<and> turn_completed_at t = None) (db_turns d) = 1
     \<and> d' = d\<lparr>db_messages := update_where
           (\<lambda>m. mr_id m = message \<and> mr_turn m = turn \<and> mr_role m = ''Assistant'' \<and> open_status (mr_status m)) f (db_messages d),
         db_turns := update_where (\<lambda>t. turn_id t = turn \<and> turn_completed_at t = None) g (db_turns d)\<rparr>"
  unfolding close_turn_def Let_def statement_simps de_Morgan_disj by (simp only: eq_commute [of d'])

lemma close_turn_structure:
  assumes "close_turn turn message f g d = Inr d'" and "structure_ok d" "keeps_message f" "keeps_turn g"
  shows "structure_ok d'"
  using assms structure_update [OF assms(2-4)] unfolding close_turn_Inr by blast

lemma keeps_set_terminal [simp]: "keeps_message (set_terminal v now)"
  unfolding keeps_message_def by (intro allI conjI; simp)

lemma keeps_completed [simp]:
  "keeps_turn (\<lambda>x. x\<lparr>turn_completed_at := c\<rparr>)"
  "keeps_turn (\<lambda>x. x\<lparr>turn_audit_result_id := r, turn_completed_at := c\<rparr>)"
  unfolding keeps_turn_def by (intro allI conjI; simp)+

lemma apply_audit_Inr:
  "apply_audit_terminal rid turn message b trace fr ts d = Inr d' \<longleftrightarrow>
     ab_raw_model_response b = None \<and>
     (\<exists>t. List.find (\<lambda>t. turn_id t = turn) (db_turns d) = Some t
        \<and> turn_response_contract t = ContractAudit ''answer_bundle.v1'')
     \<and> rid \<notin> au_id ` set (db_audits d) \<and> turn \<notin> au_turn ` set (db_audits d)
     \<and> close_turn turn message (set_terminal ([], ''Completed'', None, Some trace, Some fr) ts)
         (\<lambda>x. x\<lparr>turn_audit_result_id := Some rid, turn_completed_at := Some ts\<rparr>)
         (d\<lparr>db_audits := db_audits d @ [\<lparr> au_id = rid, au_turn = turn, au_schema_version = ''answer_bundle.v1'',
            au_bundle = b, au_created_at = ts \<rparr>]\<rparr>) = Inr d'"
  by (cases "List.find (\<lambda>t. turn_id t = turn) (db_turns d)")
    (simp_all only: apply_audit_terminal_def ok_or.simps then_do.simps statement_simps option.inject option.distinct ex_simps simp_thms)

lemma audit_insert_structure:
  assumes "structure_ok d" and "au_id a \<notin> au_id ` set (db_audits d)" "au_turn a \<notin> au_turn ` set (db_audits d)"
    and "au_turn a \<in> turn_id ` set (db_turns d)"
  shows "structure_ok (d\<lparr>db_audits := db_audits d @ [a]\<rparr>)"
  using assms by (simp add: structure_defs)

lemma apply_audit_structure:
  assumes "apply_audit_terminal rid turn message b trace fr ts d = Inr d'" and "structure_ok d"
  shows "structure_ok d'"
proof -
  let ?a = "\<lparr> au_id = rid, au_turn = turn, au_schema_version = ''answer_bundle.v1'', au_bundle = b, au_created_at = ts \<rparr>"
  obtain t where t: "List.find (\<lambda>t. turn_id t = turn) (db_turns d) = Some t"
    and new: "rid \<notin> au_id ` set (db_audits d)" "turn \<notin> au_turn ` set (db_audits d)"
    and close: "close_turn turn message (set_terminal ([], ''Completed'', None, Some trace, Some fr) ts)
         (\<lambda>x. x\<lparr>turn_audit_result_id := Some rid, turn_completed_at := Some ts\<rparr>) (d\<lparr>db_audits := db_audits d @ [?a]\<rparr>) = Inr d'"
    using assms(1) unfolding apply_audit_Inr by blast
  have "turn \<in> turn_id ` set (db_turns d)"
    using find_Some_set [OF t] by blast
  then have "structure_ok (d\<lparr>db_audits := db_audits d @ [?a]\<rparr>)"
    using audit_insert_structure [OF assms(2), of ?a] new by simp
  from close_turn_structure [OF close this] show ?thesis by simp
qed

lemma apply_terminal_structure:
  assumes "apply_terminal_update rid u d = Inr d'" and "structure_ok d"
  shows "structure_ok d'"
  using assms by (cases u) (auto simp only: apply_terminal_update.simps keeps_set_terminal keeps_completed
      dest: apply_audit_structure close_turn_structure)

section \<open>Structure of the trace and receipt operations\<close>

lemma insert_calls_Inr:
  "insert_calls trace cs rows = Inr rows' \<longleftrightarrow>
     rows' = rows @ map (call_row_of trace) cs \<and> distinct (map cr_call_id cs)
     \<and> cr_call_id ` set cs \<inter> cl_call ` set rows = {}"
proof (induction cs arbitrary: rows)
  case (Cons c cs)
  show ?case
    by (simp only: insert_calls.simps insert_then Cons.IH) (auto simp: call_row_of_def)
qed auto

lemma insert_sources_Inr:
  assumes "insert_sources trace n ss rows = Inr rows'"
  shows "rows' = rows @ map (\<lambda>(k, s). source_row_of trace k s) (enumerate n ss) \<and> distinct (map sr_id ss)
     \<and> sr_id ` set ss \<inter> so_id ` set rows = {}"
  using assms
proof (induction ss arbitrary: n rows)
  case (Cons s ss)
  have "insert_sources trace (Suc n) ss (rows @ [source_row_of trace n s]) = Inr rows'"
    and new: "sr_id s \<notin> so_id ` set rows"
    using Cons.prems by (simp_all only: insert_sources.simps statement_simps)
  from Cons.IH [OF this(1)] new show ?case
    by (auto simp: source_row_of_def)
qed simp

lemma enumerate_pair_keys:
  "map ((\<lambda>r. (so_trace r, so_ordinal r)) \<circ> (\<lambda>(k, s). source_row_of t k s)) (enumerate n ss)
     = map (Pair t) [n ..< n + length ss]"
  by (induction ss arbitrary: n) (simp_all add: source_row_of_def upt_conv_Cons del: upt_Suc)

lemma enumerate_ids:
  "map (so_id \<circ> (\<lambda>(k, s). source_row_of t k s)) (enumerate n ss) = map sr_id ss"
  by (induction ss arbitrary: n) (simp_all add: source_row_of_def)

lemma enumerate_traces:
  "x \<in> set (map (\<lambda>(k, s). source_row_of t k s) (enumerate n ss)) \<Longrightarrow> so_trace x = t"
  by (auto simp: source_row_of_def)

lemma upsert_trace_ids:
  "tr_id ` set (upsert_trace r rs) = insert (tr_id r) (tr_id ` set rs)"
  by (cases "tr_id r \<in> tr_id ` set rs") (auto simp: upsert_trace_def)

lemma upsert_trace_distinct:
  "distinct (map tr_id rs) \<Longrightarrow> distinct (map tr_id (upsert_trace r rs))"
  by (simp add: upsert_trace_def)

lemma upsert_trace_image:
  "k \<in> {tr_conversation, tr_turn} \<Longrightarrow> k r \<in> S \<Longrightarrow> k ` set rs \<subseteq> S
    \<Longrightarrow> k ` set (upsert_trace r rs) \<subseteq> S"
  by (auto simp: upsert_trace_def update_where_def)

lemma write_trace_Inr:
  "write_grounding_trace now t d = Inr d' \<longleftrightarrow>
     gt_conversation_id t \<in> cvr_id ` set (db_conversations d) \<and> gt_turn_id t \<in> turn_id ` set (db_turns d)
     \<and> (\<exists>calls sources.
       insert_calls (gt_id t) (gt_tool_calls t) (filter (\<lambda>r. cl_trace r \<noteq> gt_id t) (db_calls d)) = Inr calls
       \<and> insert_sources (gt_id t) 0 (gt_source_refs t) (filter (\<lambda>r. so_trace r \<noteq> gt_id t) (db_sources d)) = Inr sources
       \<and> d' = d\<lparr>db_traces := upsert_trace (trace_row_of now t) (db_traces d), db_calls := calls, db_sources := sources\<rparr>)"
  by (simp only: write_grounding_trace_def statement_simps de_Morgan_disj then_do_Inr eq_commute [of d'] ex_simps simp_thms)

lemma distinct_map_filterI: "distinct (map k rs) \<Longrightarrow> distinct (map k (filter p rs))"
  by (simp add: distinct_map inj_on_def)

lemma written_sources:
  assumes "insert_sources t 0 ss (filter (\<lambda>r. so_trace r \<noteq> t) rows) = Inr rows'"
    and "distinct (map so_id rows)" "distinct (map (\<lambda>s. (so_trace s, so_ordinal s)) rows)"
  shows "distinct (map so_id rows')" "distinct (map (\<lambda>s. (so_trace s, so_ordinal s)) rows')"
    "so_trace ` set rows' \<subseteq> insert t (so_trace ` set rows)"
proof -
  let ?old = "filter (\<lambda>r. so_trace r \<noteq> t) rows" and ?new = "map (\<lambda>(k, s). source_row_of t k s) (enumerate 0 ss)"
  have rows': "rows' = ?old @ ?new" and ids: "distinct (map sr_id ss)" "sr_id ` set ss \<inter> so_id ` set ?old = {}"
    using insert_sources_Inr [OF assms(1)] by simp_all
  have new_ids: "so_id ` set ?new = sr_id ` set ss"
    using arg_cong [OF enumerate_ids [of t 0 ss], of set] by (simp only: set_map image_image map_map [symmetric])
  show "distinct (map so_id rows')"
    unfolding rows' map_append distinct_append using ids distinct_map_filterI [OF assms(2)] new_ids
    by (auto simp only: map_map enumerate_ids set_map)
  have "distinct (map (\<lambda>s. (so_trace s, so_ordinal s)) ?new)"
    unfolding map_map enumerate_pair_keys by (simp add: distinct_map inj_on_def)
  moreover have "(\<lambda>s. (so_trace s, so_ordinal s)) ` set ?old \<inter> (\<lambda>s. (so_trace s, so_ordinal s)) ` set ?new = {}"
    using enumerate_traces [of _ t 0 ss] by auto
  ultimately show "distinct (map (\<lambda>s. (so_trace s, so_ordinal s)) rows')"
    unfolding rows' map_append distinct_append using distinct_map_filterI [OF assms(3)] by (simp only: set_map)
  show "so_trace ` set rows' \<subseteq> insert t (so_trace ` set rows)"
    unfolding rows' using enumerate_traces [of _ t 0 ss] by auto
qed

lemma written_calls:
  assumes "insert_calls t cs (filter (\<lambda>r. cl_trace r \<noteq> t) rows) = Inr rows'" and "distinct (map cl_call rows)"
  shows "distinct (map cl_call rows')" "cl_trace ` set rows' \<subseteq> insert t (cl_trace ` set rows)"
proof -
  have "cl_call \<circ> call_row_of t = cr_call_id"
    by (simp add: fun_eq_iff call_row_of_def)
  then show "distinct (map cl_call rows')"
    using assms(1) distinct_map_filterI [OF assms(2), of "\<lambda>r. cl_trace r \<noteq> t"] unfolding insert_calls_Inr
    by (elim conjE) (simp add: Int_commute image_image call_row_of_def)
  show "cl_trace ` set rows' \<subseteq> insert t (cl_trace ` set rows)"
    using assms(1) unfolding insert_calls_Inr by (auto simp: call_row_of_def)
qed

lemma write_trace_structure:
  assumes "write_grounding_trace now t d = Inr d'" and d: "structure_ok d"
  shows "structure_ok d'"
proof -
  obtain calls sources where conv: "gt_conversation_id t \<in> cvr_id ` set (db_conversations d)"
    and turn: "gt_turn_id t \<in> turn_id ` set (db_turns d)"
    and calls: "insert_calls (gt_id t) (gt_tool_calls t) (filter (\<lambda>r. cl_trace r \<noteq> gt_id t) (db_calls d)) = Inr calls"
    and sources: "insert_sources (gt_id t) 0 (gt_source_refs t) (filter (\<lambda>r. so_trace r \<noteq> gt_id t) (db_sources d)) = Inr sources"
    and d': "d' = d\<lparr>db_traces := upsert_trace (trace_row_of now t) (db_traces d), db_calls := calls, db_sources := sources\<rparr>"
    using assms(1) unfolding write_trace_Inr by blast
  let ?traces = "upsert_trace (trace_row_of now t) (db_traces d)"
  have k: "distinct (map cl_call (db_calls d))" "distinct (map so_id (db_sources d))" "distinct (map tr_id (db_traces d))"
    "distinct (map (\<lambda>s. (so_trace s, so_ordinal s)) (db_sources d))"
    "tr_conversation ` set (db_traces d) \<subseteq> cvr_id ` set (db_conversations d)" "tr_turn ` set (db_traces d) \<subseteq> turn_id ` set (db_turns d)"
    "cl_trace ` set (db_calls d) \<subseteq> tr_id ` set (db_traces d)" "so_trace ` set (db_sources d) \<subseteq> tr_id ` set (db_traces d)"
    "(ter_trace_id \<circ> rr_receipt) ` set (db_receipts d) \<subseteq> tr_id ` set (db_traces d)"
    using d unfolding structure_defs by simp_all
  have ids: "tr_id ` set ?traces = insert (gt_id t) (tr_id ` set (db_traces d))"
    by (simp only: upsert_trace_ids) (simp add: trace_row_of_def)
  have "distinct (map tr_id ?traces)" by (rule upsert_trace_distinct) (rule k)
  moreover have "tr_conversation ` set ?traces \<subseteq> cvr_id ` set (db_conversations d)"
    by (rule upsert_trace_image [OF _ _ k(5)]) (simp_all add: trace_row_of_def conv)
  moreover have "tr_turn ` set ?traces \<subseteq> turn_id ` set (db_turns d)"
    by (rule upsert_trace_image [OF _ _ k(6)]) (simp_all add: trace_row_of_def turn)
  moreover have "cl_trace ` set calls \<subseteq> tr_id ` set ?traces"
    unfolding ids by (rule order_trans [OF written_calls(2) [OF calls k(1)]]) (rule insert_mono [OF k(7)])
  moreover have "so_trace ` set sources \<subseteq> tr_id ` set ?traces"
    unfolding ids by (rule order_trans [OF written_sources(3) [OF sources k(2,4)]]) (rule insert_mono [OF k(8)])
  moreover have "(ter_trace_id \<circ> rr_receipt) ` set (db_receipts d) \<subseteq> tr_id ` set ?traces"
    unfolding ids by (rule subset_insertI2 [OF k(9)])
  ultimately show ?thesis
    using d written_calls(1) [OF calls k(1)] written_sources(1,2) [OF sources k(2,4)]
    unfolding structure_defs d' by simp
qed

text \<open>The statements that rewrite no key.\<close>

lemma apply_batch_ids:
  "apply_batch now e n ids rows = Inr rows' \<Longrightarrow> map rr_receipt rows' = map rr_receipt rows"
proof (induction ids arbitrary: rows)
  case (Cons i ids)
  let ?p = "\<lambda>r. receipt_id r = i \<and> rr_status r = egress_status_text e"
  let ?f = "\<lambda>r. r\<lparr>rr_status := egress_status_text n, rr_updated_at := now\<rparr>"
  have "apply_batch now e n ids (update_where ?p ?f rows) = Inr rows'"
    using Cons.prems by (simp only: apply_batch.simps Let_def statement_simps)
  from Cons.IH [OF this] show ?case by simp
qed simp

lemma receipts_structure:
  assumes "structure_ok d" and "map rr_receipt rows = map rr_receipt (db_receipts d)"
  shows "structure_ok (d\<lparr>db_receipts := rows\<rparr>)"
proof -
  have "map (k \<circ> rr_receipt) rows = map (k \<circ> rr_receipt) (db_receipts d)" for k :: "tool_egress_receipt \<Rightarrow> uuid"
    using arg_cong [OF assms(2), of "map k"] by simp
  then have m: "map (k \<circ> rr_receipt) rows = map (k \<circ> rr_receipt) (db_receipts d)
      \<and> (k \<circ> rr_receipt) ` set rows = (k \<circ> rr_receipt) ` set (db_receipts d)" for k :: "tool_egress_receipt \<Rightarrow> uuid"
    by (metis set_map)
  show ?thesis using assms(1) m [of ter_id] m [of ter_trace_id] m [of ter_consent_scope_id] unfolding structure_defs by simp
qed

lemma cas_Inr:
  "cas_status_batch now ids expected nxt d = Inr d' \<longleftrightarrow>
     expected = Prepared \<and> nxt \<in> {Sent, EgressFailed, OutcomeUnknown} \<and> ids \<noteq> [] \<and> distinct ids
     \<and> check_batch expected (db_receipts d) None ids = Inr ()
     \<and> (\<exists>rows. apply_batch now expected nxt ids (db_receipts d) = Inr rows \<and> d' = d\<lparr>db_receipts := rows\<rparr>)"
  by (simp only: cas_status_batch_def statement_simps de_Morgan_disj then_do_Inr eq_commute [of d']) simp

lemma cas_structure:
  assumes "cas_status_batch now ids expected nxt d = Inr d'" and "structure_ok d"
  shows "structure_ok d'"
  using assms unfolding cas_Inr by (blast intro: receipts_structure apply_batch_ids)

lemma keeps_freshness [simp]: "keeps_message (\<lambda>m. m\<lparr>mr_freshness := f\<rparr>)"
  unfolding keeps_message_def by (intro allI conjI; simp)

lemma keeps_interrupted [simp]: "keeps_message (interrupted_message now)"
  unfolding keeps_message_def by (intro allI conjI; simp)

lemma keeps_delta [simp]:
  "keeps_message (\<lambda>m. m\<lparr>mr_markdown := mr_markdown m @ delta, mr_status := s, mr_updated_at := now\<rparr>)"
  unfolding keeps_message_def by (intro allI conjI; simp)

lemma mark_changed_structure:
  assumes "structure_ok d" and "mark_snapshot_changed now snap d = Inr d'"
  shows "structure_ok d'"
proof -
  have "structure_ok (d\<lparr>db_traces := update_where p (\<lambda>t. t\<lparr>tr_freshness := f\<rparr>) (db_traces d)\<rparr>)" for p f
    using assms(1) unfolding structure_defs by simp
  from structure_messages [OF this keeps_freshness] show ?thesis
    using assms(2) unfolding mark_snapshot_changed_def Let_def sum.inject by (elim subst) simp
qed

lemma revoke_structure:
  assumes "structure_ok d" and "revoke_repository_consent now i d = Inr d'"
  shows "structure_ok d'"
  using assms unfolding revoke_repository_consent_def sum.inject by (elim subst) (simp add: structure_defs)

lemma structure_owner [simp]: "structure_ok (d\<lparr>db_owner := w\<rparr>) = structure_ok d"
  unfolding structure_defs by simp

lemma acquire_structure:
  assumes "structure_ok d" and "acquire_runtime_ownership owner pid now d = Inr d'"
  shows "structure_ok d'"
proof -
  have "structure_ok (d\<lparr>db_owner := w, db_receipts := update_where (\<lambda>r. rr_status r = ''Prepared'')
            (\<lambda>r. r\<lparr>rr_status := ''OutcomeUnknown'', rr_updated_at := now\<rparr>) (db_receipts d)\<rparr>)" for w
    by (rule receipts_structure) (use assms(1) in simp_all)
  from structure_update [OF this keeps_interrupted keeps_completed(1)] show ?thesis
    using assms(2) unfolding acquire_runtime_ownership_def Let_def sum.inject by (elim subst) simp
qed

lemma release_structure:
  "structure_ok d \<Longrightarrow> release_runtime_ownership owner d = Inr d' \<Longrightarrow> structure_ok d'"
  unfolding release_runtime_ownership_def sum.inject by (elim subst) simp

text \<open>The cascade leaves no dangling reference.\<close>

lemma reference_filter:
  assumes "k ` set rs \<subseteq> j ` set ss"
    and "\<And>r s. r \<in> set rs \<Longrightarrow> s \<in> set ss \<Longrightarrow> j s = k r \<Longrightarrow> p r \<Longrightarrow> q s"
  shows "k ` set (filter p rs) \<subseteq> j ` set (filter q ss)"
proof
  fix x assume "x \<in> k ` set (filter p rs)"
  then obtain r where r: "r \<in> set rs" "p r" "x = k r" by auto
  then obtain s where "s \<in> set ss" "j s = k r" using assms(1) by force
  then show "x \<in> j ` set (filter q ss)" using assms(2) r by force
qed

lemma cascade_tables [simp]:
  "db_profile_ids (cascade_conversation i d) = db_profile_ids d"
  "db_conversations (cascade_conversation i d) = filter (\<lambda>c. cvr_id c \<noteq> i) (db_conversations d)"
  "db_turns (cascade_conversation i d) = filter (\<lambda>t. turn_conversation_id t \<noteq> i) (db_turns d)"
  "db_messages (cascade_conversation i d)
     = filter (\<lambda>m. \<not> (mr_conversation m = i \<or> mr_turn m \<in> turns_of i d)) (db_messages d)"
  "db_traces (cascade_conversation i d) = filter (\<lambda>t. tr_id t \<notin> traces_of i d) (db_traces d)"
  "db_calls (cascade_conversation i d) = filter (\<lambda>c. cl_trace c \<notin> traces_of i d) (db_calls d)"
  "db_sources (cascade_conversation i d) = filter (\<lambda>s. so_trace s \<notin> traces_of i d) (db_sources d)"
  "db_audits (cascade_conversation i d) = filter (\<lambda>a. au_turn a \<notin> turns_of i d) (db_audits d)"
  "db_consents (cascade_conversation i d) = filter (\<lambda>c. cr_id c \<notin> consents_of i d) (db_consents d)"
  "db_receipts (cascade_conversation i d) = filter (\<lambda>r. ter_trace_id (rr_receipt r) \<notin> traces_of i d
      \<and> ter_consent_scope_id (rr_receipt r) \<notin> consents_of i d) (db_receipts d)"
  by (simp_all add: cascade_conversation_def)

lemma in_turns_of: "t \<in> set (db_turns d) \<Longrightarrow> turn_conversation_id t = i \<Longrightarrow> turn_id t \<in> turns_of i d"
  by (simp add: turns_of_def)

lemma in_traces_of:
  "t \<in> set (db_traces d) \<Longrightarrow> tr_conversation t = i \<or> tr_turn t \<in> turns_of i d \<Longrightarrow> tr_id t \<in> traces_of i d"
  by (simp add: traces_of_def)

lemma in_consents_of: "c \<in> set (db_consents d) \<Longrightarrow> cr_conversation c = i \<Longrightarrow> cr_id c \<in> consents_of i d"
  by (simp add: consents_of_def)

lemma refs_okD:
  assumes "refs_ok d"
  shows "cvr_profile ` set (db_conversations d) \<subseteq> set (db_profile_ids d)"
    "turn_conversation_id ` set (db_turns d) \<subseteq> cvr_id ` set (db_conversations d)"
    "mr_conversation ` set (db_messages d) \<subseteq> cvr_id ` set (db_conversations d)"
    "mr_turn ` set (db_messages d) \<subseteq> turn_id ` set (db_turns d)"
    "tr_conversation ` set (db_traces d) \<subseteq> cvr_id ` set (db_conversations d)"
    "tr_turn ` set (db_traces d) \<subseteq> turn_id ` set (db_turns d)"
    "cl_trace ` set (db_calls d) \<subseteq> tr_id ` set (db_traces d)"
    "so_trace ` set (db_sources d) \<subseteq> tr_id ` set (db_traces d)"
    "au_turn ` set (db_audits d) \<subseteq> turn_id ` set (db_turns d)"
    "cr_conversation ` set (db_consents d) \<subseteq> cvr_id ` set (db_conversations d)"
    "(ter_trace_id \<circ> rr_receipt) ` set (db_receipts d) \<subseteq> tr_id ` set (db_traces d)"
    "(ter_consent_scope_id \<circ> rr_receipt) ` set (db_receipts d) \<subseteq> cr_id ` set (db_consents d)"
  using assms unfolding refs_ok_def Let_def by simp_all

lemma cascade_structure:
  assumes "structure_ok d"
  shows "structure_ok (cascade_conversation i d)"
proof -
  have k: "keys_ok d" and f: "refs_ok d" using assms by (simp_all only: structure_ok_def)
  have "keys_ok (cascade_conversation i d)"
    using k unfolding keys_ok_def by (simp add: distinct_map_filterI)
  moreover have "refs_ok (cascade_conversation i d)"
    unfolding refs_ok_def Let_def cascade_tables
  proof (intro conjI)
    show "cvr_profile ` set (filter (\<lambda>c. cvr_id c \<noteq> i) (db_conversations d)) \<subseteq> set (db_profile_ids d)"
      using refs_okD(1) [OF f] by auto
  qed (rule reference_filter, rule refs_okD [OF f],
      metis in_turns_of in_traces_of in_consents_of comp_apply)+
  ultimately show ?thesis by (simp add: structure_ok_def)
qed

lemma finish_grounded_Inr:
  "finish_turn_with_grounding now rid t u d = Inr d' \<longleftrightarrow> terminal_bound_to t u
     \<and> (\<exists>d1. validate_trace_database_binding t d = Inr () \<and> write_grounding_trace now t d = Inr d1
           \<and> apply_terminal_update rid u d1 = Inr d')"
  by (simp only: finish_turn_with_grounding_def statement_simps then_do_Inr) simp

lemma delete_Inr:
  "delete_conversation removed operation now i d = Inr (d', r) \<longleftrightarrow>
     (\<exists>artifacts. removed = Inr artifacts \<and> count_where (\<lambda>c. cvr_id c = i) (db_conversations d) = 1
       \<and> d' = cascade_conversation i d
       \<and> r = \<lparr> dr_operation_id = operation, dr_deleted_counts = deleted_counts i d,
               dr_removed_artifacts = artifacts, dr_completed_at = now \<rparr>)"
  by (simp only: delete_conversation_def statement_simps then_do_Inr prod.inject eq_commute [of d'] eq_commute [of r])

lemma delta_Inr:
  "append_assistant_delta now i delta d = Inr d' \<longleftrightarrow>
     count_where (\<lambda>m. mr_id m = i \<and> mr_role m = ''Assistant'' \<and> open_status (mr_status m)) (db_messages d) = 1
     \<and> d' = d\<lparr>db_messages := update_where (\<lambda>m. mr_id m = i \<and> mr_role m = ''Assistant'' \<and> open_status (mr_status m))
        (\<lambda>m. m\<lparr>mr_markdown := mr_markdown m @ delta, mr_status := ''Streaming'', mr_updated_at := now\<rparr>) (db_messages d)\<rparr>"
  unfolding append_assistant_delta_def Let_def statement_simps by (simp only: eq_commute [of d'])

lemma delta_structure:
  "append_assistant_delta now i delta d = Inr d' \<Longrightarrow> structure_ok d \<Longrightarrow> structure_ok d'"
  unfolding delta_Inr using structure_messages keeps_delta by blast

lemma exec_structure:
  assumes "exec_op op d = Inr d'" and "structure_ok d"
  shows "structure_ok d'"
proof (cases op)
  case (OpAddProfile i)
  have "d' = d\<lparr>db_profile_ids := db_profile_ids d @ [i]\<rparr>" using assms(1) OpAddProfile by simp
  then show ?thesis using assms(2) unfolding structure_defs by (simp add: subset_insertI2)
next
  case (OpDelete removed operation now i)
  then obtain r where "delete_conversation removed operation now i d = Inr (d', r)"
    using assms(1) by (auto simp only: exec_op.simps then_do_Inr sum.inject fst_conv)
  then show ?thesis unfolding delete_Inr using cascade_structure [OF assms(2)] by blast
next
  case (OpCreate i now draft)
  then obtain c where "create_conversation i now draft d = Inr (d', c)"
    using assms(1) by (auto simp only: exec_op.simps then_do_Inr sum.inject fst_conv)
  then show ?thesis using create_conversation_structure assms(2) by blast
next
  case (OpFinishGrounded now rid t u)
  then show ?thesis using assms apply_terminal_structure write_trace_structure
    by (simp only: exec_op.simps finish_grounded_Inr) blast
qed (use assms in \<open>simp only: exec_op.simps finish_turn_def prepare_grounding_trace_def,
      blast intro: bind_structure begin_turn_structure apply_terminal_structure write_trace_structure
        save_consent_structure prepare_receipt_structure cas_structure mark_changed_structure revoke_structure
        acquire_structure release_structure delta_structure\<close>)+

end
