(* ===== verification/Turn_Life.thy ===== *)
theory Turn_Life
  imports Storage_Invariant
begin

text \<open>
  The life of a turn in the database: the second half of the invariant (one answer per turn, open as
  long as the turn is; messages decode; audit results belong to completed audit turns), kept by every
  operation, and what follows of it for the reachable states: recovery, terminal answers, deletion.
\<close>

section \<open>Decoding\<close>

lemma is_ok_decode_status:
  "is_ok (decode_status s code) \<longleftrightarrow>
     (s \<in> {''Pending'', ''Streaming'', ''Completed'', ''Cancelled''} \<and> code = None) \<or> (s = ''Failed'' \<and> code \<noteq> None)"
  by (cases code) (auto simp: decode_status_def)

lemma is_ok_into_message:
  "is_ok (into_message m) \<longleftrightarrow> mr_role m \<in> {''User'', ''Assistant''} \<and> is_ok (decode_status (mr_status m) (mr_error_code m))"
  by (cases "decode_status (mr_status m) (mr_error_code m)") (auto simp: into_message_def decode_role_def)

lemma is_ok_message_row_of [simp]: "is_ok (into_message (message_row_of m))"
  unfolding is_ok_into_message is_ok_decode_status
  by (cases "msg_role m"; cases "msg_status m") (simp_all add: message_row_of_def)

lemma open_status_encode [simp]:
  "open_status (mr_status (message_row_of m)) \<longleftrightarrow> msg_status m = MsgPending \<or> msg_status m = MsgStreaming"
  by (cases "msg_status m") (simp_all add: message_row_of_def open_status_def)

section \<open>The content invariant\<close>

definition content_ok :: "db \<Rightarrow> bool" where
  "content_ok d \<longleftrightarrow> (\<forall>t \<in> set (db_turns d). turn_ok d t) \<and> (\<forall>m \<in> set (db_messages d). message_ok d m)
     \<and> (\<forall>a \<in> set (db_audits d). audit_ok d a)"

lemma db_inv_split: "db_inv d \<longleftrightarrow> structure_ok d \<and> content_ok d"
  by (simp only: db_inv_def structure_ok_def content_ok_def conj_assoc)

lemma content_frame:
  "db_turns d' = db_turns d \<Longrightarrow> db_messages d' = db_messages d \<Longrightarrow> db_audits d' = db_audits d
    \<Longrightarrow> content_ok d \<Longrightarrow> content_ok d'"
  by (simp only: content_ok_def turn_ok_def message_ok_def audit_ok_def answers_of_def)

lemma turn_okE:
  assumes "turn_ok d t"
  obtains m where "answers_of d (turn_id t) = [m]" "(turn_completed_at t = None) = open_status (mr_status m)"
  using assms unfolding turn_ok_def by (elim exE conjE) (rule that)

lemma turn_okI:
  "answers_of d (turn_id t) = [m] \<Longrightarrow> (turn_completed_at t = None) = open_status (mr_status m) \<Longrightarrow> turn_ok d t"
  unfolding turn_ok_def by (intro exI conjI)

lemma update_where_cong:
  "(\<And>x. x \<in> set rs \<Longrightarrow> p x = q x) \<Longrightarrow> update_where p f rs = update_where q f rs"
  by (simp add: update_where_def)

lemma answers_update:
  "keeps_message f \<Longrightarrow> answers_of (d\<lparr>db_messages := update_where p f (db_messages d)\<rparr>) t = update_where p f (answers_of d t)"
  by (simp add: answers_of_def filter_update_where)

lemma update_where_set: "x \<in> set (update_where p f rs) \<longleftrightarrow> (\<exists>r \<in> set rs. x = (if p r then f r else r))"
  by (auto simp: update_where_def)

lemma update_where_single: "update_where p f [m] = [if p m then f m else m]"
  by (simp add: update_where_def)

text \<open>An update of messages that keeps their keys, their being open, and that they decode.\<close>

lemma content_messages:
  assumes "content_ok d" and "keeps_message f"
    and "\<And>m. m \<in> set (db_messages d) \<Longrightarrow> p m \<Longrightarrow> open_status (mr_status (f m)) = open_status (mr_status m)"
    and "\<And>m. m \<in> set (db_messages d) \<Longrightarrow> p m \<Longrightarrow> is_ok (into_message m) \<Longrightarrow> is_ok (into_message (f m))"
  shows "content_ok (d\<lparr>db_messages := update_where p f (db_messages d)\<rparr>)"
  unfolding content_ok_def
proof (intro conjI ballI)
  let ?d = "d\<lparr>db_messages := update_where p f (db_messages d)\<rparr>"
  fix t assume "t \<in> set (db_turns ?d)"
  then have "turn_ok d t" using assms(1) by (simp add: content_ok_def)
  then obtain m where m: "answers_of d (turn_id t) = [m]" "(turn_completed_at t = None) = open_status (mr_status m)"
    by (rule turn_okE)
  have "m \<in> set (answers_of d (turn_id t))" using m(1) by simp
  then have "m \<in> set (db_messages d)" by (simp add: answers_of_def)
  then have "open_status (mr_status (if p m then f m else m)) = open_status (mr_status m)"
    using assms(3) by simp
  then show "turn_ok ?d t"
    using m by (intro turn_okI [of _ _ "if p m then f m else m"])
      (simp_all only: answers_update [OF assms(2)] update_where_single)
next
  let ?d = "d\<lparr>db_messages := update_where p f (db_messages d)\<rparr>"
  fix x assume "x \<in> set (db_messages ?d)"
  then obtain m where m: "m \<in> set (db_messages d)" "x = (if p m then f m else m)"
    by (auto simp: update_where_set)
  then have "message_ok d m" using assms(1) by (simp add: content_ok_def)
  then show "message_ok ?d x"
    using m assms(2,4) by (auto simp: message_ok_def)
next
  let ?d = "d\<lparr>db_messages := update_where p f (db_messages d)\<rparr>"
  fix a assume "a \<in> set (db_audits ?d)"
  then show "audit_ok ?d a" using assms(1) by (simp add: content_ok_def audit_ok_def)
qed

section \<open>Closing a turn\<close>

lemma structure_keys:
  assumes "structure_ok d"
  shows "distinct (map turn_id (db_turns d))" "distinct (map mr_id (db_messages d))"
    "distinct (map cvr_id (db_conversations d))" "distinct (map receipt_id (db_receipts d))"
    "distinct (map tr_id (db_traces d))" "distinct (map au_turn (db_audits d))"
  using assms unfolding structure_defs by (simp_all add: receipt_id_def [abs_def] comp_def)

text \<open>What closing does: the one answer of the open turn is rewritten, and the turn completed.\<close>

lemma close_turn_exact:
  assumes "close_turn turn message f g d = Inr d'" and "structure_ok d" and turns: "\<forall>t \<in> set (db_turns d). turn_ok d t"
    and f: "keeps_message f"
  obtains m t where "answers_of d turn = [m]" "mr_id m = message" "open_status (mr_status m)"
    "t \<in> set (db_turns d)" "turn_id t = turn" "turn_completed_at t = None"
    "answers_of d' turn = [f m]" "\<And>i. i \<noteq> turn \<Longrightarrow> answers_of d' i = answers_of d i"
    "db_turns d' = update_where (\<lambda>x. turn_id x = turn) g (db_turns d)"
    "db_messages d' = update_where (\<lambda>x. x = m) f (db_messages d)"
    "db_audits d' = db_audits d"
proof -
  let ?p = "\<lambda>m. mr_id m = message \<and> mr_turn m = turn \<and> mr_role m = ''Assistant'' \<and> open_status (mr_status m)"
  let ?q = "\<lambda>t. turn_id t = turn \<and> turn_completed_at t = None"
  have one: "count_where ?p (db_messages d) = 1" "count_where ?q (db_turns d) = 1"
    and d': "d' = d\<lparr>db_messages := update_where ?p f (db_messages d), db_turns := update_where ?q g (db_turns d)\<rparr>"
    using assms(1) unfolding close_turn_Inr by blast+
  obtain m where "filter ?p (db_messages d) = [m]" using one(1) unfolding count_where_one by blast
  then have m: "m \<in> set (db_messages d)" "?p m"
    using filter_set [of ?p "db_messages d"] by (auto simp: filter_eq_Cons_iff)
  obtain t where "filter ?q (db_turns d) = [t]" using one(2) unfolding count_where_one by blast
  then have t: "t \<in> set (db_turns d)" "?q t"
    by (auto simp: filter_eq_Cons_iff)
  have only_m: "?p x \<longleftrightarrow> x = m" if "x \<in> set (db_messages d)" for x
    using distinct_key_unique [OF structure_keys(2) [OF assms(2)] that m(1)] m(2) by auto
  have only_t: "?q x \<longleftrightarrow> turn_id x = turn" if "x \<in> set (db_turns d)" for x
    using distinct_key_unique [OF structure_keys(1) [OF assms(2)] that t(1)] t(2) by auto
  have "m \<in> set (answers_of d turn)" using m by (simp add: answers_of_def)
  moreover obtain m' where "answers_of d turn = [m']"
    using turns t by (metis turn_okE)
  ultimately have ans: "answers_of d turn = [m]" by simp
  have upd: "answers_of d' i = update_where ?p f (answers_of d i)" for i
    using f unfolding d' answers_of_def by (simp add: filter_update_where)
  have other: "answers_of d' i = answers_of d i" if "i \<noteq> turn" for i
    unfolding upd update_where_def using that by (intro map_idI) (simp add: answers_of_def)
  show thesis
  proof (rule that [OF ans _ _ t(1)])
    show "answers_of d' turn = [f m]" unfolding upd ans update_where_single using m(2) by simp
    show "db_messages d' = update_where (\<lambda>x. x = m) f (db_messages d)"
      unfolding d' by (simp, intro update_where_cong only_m)
    show "db_turns d' = update_where (\<lambda>x. turn_id x = turn) g (db_turns d)"
      unfolding d' by (simp, intro update_where_cong only_t)
  qed (use m(2) t(2) other d' in simp_all)
qed

lemma content_okD:
  assumes "content_ok d"
  shows "t \<in> set (db_turns d) \<Longrightarrow> turn_ok d t" "m \<in> set (db_messages d) \<Longrightarrow> message_ok d m"
    "a \<in> set (db_audits d) \<Longrightarrow> audit_ok d a"
  using assms by (simp_all add: content_ok_def)

lemma message_ok_turns:
  assumes "message_ok d m" and "keeps_turn g" and "db_turns d' = update_where p g (db_turns d)"
    and "is_ok (into_message m) \<Longrightarrow> is_ok (into_message m')" "mr_turn m' = mr_turn m" "mr_conversation m' = mr_conversation m"
  shows "message_ok d' m'"
proof -
  obtain t where t: "t \<in> set (db_turns d)" "turn_id t = mr_turn m" "turn_conversation_id t = mr_conversation m"
    and "is_ok (into_message m)"
    using assms(1) by (auto simp only: message_ok_def)
  moreover have "(if p t then g t else t) \<in> set (db_turns d')"
    using t(1) unfolding assms(3) update_where_set by blast
  ultimately show ?thesis
    using assms(2,4-6) unfolding message_ok_def
    by (intro conjI bexI [of _ "if p t then g t else t"]) simp_all
qed

lemma close_turn_content:
  assumes "close_turn turn message f g d = Inr d'" and "structure_ok d"
    and turns: "\<forall>t \<in> set (db_turns d). turn_ok d t" and messages: "\<forall>m \<in> set (db_messages d). message_ok d m"
    and f: "keeps_message f" "\<And>m. \<not> open_status (mr_status (f m))" "\<And>m. is_ok (into_message m) \<Longrightarrow> is_ok (into_message (f m))"
    and g: "keeps_turn g" "\<And>t. turn_completed_at (g t) \<noteq> None"
  shows "(\<forall>t \<in> set (db_turns d'). turn_ok d' t) \<and> (\<forall>m \<in> set (db_messages d'). message_ok d' m)"
    and "audit_ok d a \<Longrightarrow> audit_ok d' a"
proof -
  obtain m t where ans: "answers_of d turn = [m]" "mr_id m = message" "open_status (mr_status m)"
    and t: "t \<in> set (db_turns d)" "turn_id t = turn" "turn_completed_at t = None"
    and ans': "answers_of d' turn = [f m]" and other: "\<And>i. i \<noteq> turn \<Longrightarrow> answers_of d' i = answers_of d i"
    and d': "db_turns d' = update_where (\<lambda>x. turn_id x = turn) g (db_turns d)"
      "db_messages d' = update_where (\<lambda>x. x = m) f (db_messages d)" "db_audits d' = db_audits d"
    by (rule close_turn_exact [OF assms(1-2) turns f(1)]) (rule that)
  have "turn_ok d' x'" if x': "x' \<in> set (db_turns d')" for x'
  proof -
    obtain x where x: "x \<in> set (db_turns d)" "x' = (if turn_id x = turn then g x else x)"
      using x' unfolding d' update_where_set by blast
    show ?thesis
    proof (cases "turn_id x = turn")
      case True
      then show ?thesis using x f g ans' by (intro turn_okI [of _ _ "f m"]) simp_all
    next
      case False
      then show ?thesis using turns x other [OF False] by (simp add: turn_ok_def)
    qed
  qed
  moreover have "message_ok d' x'" if x': "x' \<in> set (db_messages d')" for x'
  proof -
    obtain x where x: "x \<in> set (db_messages d)" "x' = (if x = m then f x else x)"
      using x' unfolding d' update_where_set by blast
    show ?thesis
      by (rule message_ok_turns [OF messages [rule_format, OF x(1)] g(1) d'(1)]) (use x f in \<open>cases "x = m"; simp\<close>)+
  qed
  ultimately show "(\<forall>t \<in> set (db_turns d'). turn_ok d' t) \<and> (\<forall>m \<in> set (db_messages d'). message_ok d' m)" by blast
  assume a: "audit_ok d a"
  then obtain x where x: "x \<in> set (db_turns d)" "turn_id x = au_turn a" "turn_completed_at x \<noteq> None"
      "turn_response_contract x = ContractAudit ''answer_bundle.v1''" "turn_audit_result_id x = Some (au_id a)"
    and raw: "ab_raw_model_response (au_bundle a) = None"
    unfolding audit_ok_def by blast
  have "turn_id x \<noteq> turn"
    using distinct_key_unique [OF structure_keys(1) [OF assms(2)] x(1) t(1)] x(3) t by auto
  then have "x \<in> set (db_turns d')" unfolding d' update_where_set using x(1) by (intro bexI [of _ x]) simp_all
  then show "audit_ok d' a" using x raw unfolding audit_ok_def by blast
qed

lemma set_terminal_closed:
  assumes "v \<in> {(md, ''Completed'', None, tr, fr), (md, ''Cancelled'', None, tr, fr), (md, ''Failed'', Some code, tr, fr)}"
  shows "\<not> open_status (mr_status (set_terminal v now m))"
    "is_ok (into_message m) \<Longrightarrow> is_ok (into_message (set_terminal v now m))"
  using assms unfolding is_ok_into_message is_ok_decode_status
  by (auto simp: set_terminal_def open_status_def)

lemma terminal_values_closed:
  "\<not> open_status (mr_status (set_terminal (terminal_values u) now m))"
  "is_ok (into_message m) \<Longrightarrow> is_ok (into_message (set_terminal (terminal_values u) now m))"
  by (cases u; simp only: terminal_values.simps; rule set_terminal_closed; simp)+

lemma content_close:
  assumes "close_turn turn message f g d = Inr d'" and "structure_ok d" "content_ok d"
    and "keeps_message f" "\<And>m. \<not> open_status (mr_status (f m))" "\<And>m. is_ok (into_message m) \<Longrightarrow> is_ok (into_message (f m))"
    and "keeps_turn g" "\<And>t. turn_completed_at (g t) \<noteq> None"
  shows "content_ok d'"
proof -
  have c: "\<forall>t \<in> set (db_turns d). turn_ok d t" "\<forall>m \<in> set (db_messages d). message_ok d m" "\<forall>a \<in> set (db_audits d). audit_ok d a"
    using assms(3) by (simp_all add: content_ok_def)
  have "db_audits d' = db_audits d" using assms(1) unfolding close_turn_Inr by simp
  then show ?thesis
    using close_turn_content [OF assms(1,2) c(1,2) assms(4-)] c(3) unfolding content_ok_def by simp
qed

lemma apply_audit_content:
  assumes "apply_audit_terminal rid turn message b trace fr ts d = Inr d'" and "structure_ok d" "content_ok d"
  shows "content_ok d'"
proof -
  let ?a = "\<lparr> au_id = rid, au_turn = turn, au_schema_version = ''answer_bundle.v1'', au_bundle = b, au_created_at = ts \<rparr>"
  let ?d = "d\<lparr>db_audits := db_audits d @ [?a]\<rparr>"
  let ?f = "set_terminal ([], ''Completed'', None, Some trace, Some fr) ts"
  let ?g = "\<lambda>x. x\<lparr>turn_audit_result_id := Some rid, turn_completed_at := Some ts\<rparr>"
  obtain t where raw: "ab_raw_model_response b = None" and t: "List.find (\<lambda>t. turn_id t = turn) (db_turns d) = Some t"
    and contract: "turn_response_contract t = ContractAudit ''answer_bundle.v1''"
    and new: "rid \<notin> au_id ` set (db_audits d)" "turn \<notin> au_turn ` set (db_audits d)"
    and close: "close_turn turn message ?f ?g ?d = Inr d'"
    using assms(1) unfolding apply_audit_Inr by blast
  have tt: "t \<in> set (db_turns d)" "turn_id t = turn" using find_Some_set [OF t] by simp_all
  have s: "structure_ok ?d" by (rule audit_insert_structure) (use assms(2) new tt in auto)
  have c: "\<forall>t \<in> set (db_turns ?d). turn_ok ?d t" "\<forall>m \<in> set (db_messages ?d). message_ok ?d m"
    using content_okD(1,2) [OF assms(3)] by (simp_all add: turn_ok_def message_ok_def answers_of_def)
  have f: "\<And>m. \<not> open_status (mr_status (?f m))" "\<And>m. is_ok (into_message m) \<Longrightarrow> is_ok (into_message (?f m))"
    by (rule set_terminal_closed; simp)+
  have g: "\<And>t. turn_completed_at (?g t) \<noteq> None" by simp
  note closed = close_turn_content [OF close s c keeps_set_terminal f keeps_completed(2) g]
  have d': "db_turns d' = update_where (\<lambda>x. turn_id x = turn \<and> turn_completed_at x = None) ?g (db_turns d)"
    and audits: "db_audits d' = db_audits d @ [?a]" and one: "count_where (\<lambda>t. turn_id t = turn \<and> turn_completed_at t = None) (db_turns d) = 1"
    using close unfolding close_turn_Inr by simp_all
  have open_t: "turn_completed_at t = None"
  proof -
    obtain t' where "filter (\<lambda>t. turn_id t = turn \<and> turn_completed_at t = None) (db_turns d) = [t']"
      using one unfolding count_where_one by blast
    then have "t' \<in> set (db_turns d)" "turn_id t' = turn" "turn_completed_at t' = None" by (auto simp: filter_eq_Cons_iff)
    then show ?thesis using distinct_key_unique [OF structure_keys(1) [OF assms(2)] _ tt(1)] tt(2) by metis
  qed
  have "?g t \<in> set (db_turns d')" unfolding d' update_where_set using tt open_t by (intro bexI [of _ t]) simp_all
  then have "audit_ok d' ?a"
    unfolding audit_ok_def using tt(2) contract raw by (intro conjI bexI [of _ "?g t"]) simp_all
  moreover have "audit_ok d' a" if "a \<in> set (db_audits d)" for a
    using closed(2) content_okD(3) [OF assms(3) that] by (simp add: audit_ok_def)
  ultimately show ?thesis using closed(1) unfolding content_ok_def audits by simp
qed

lemma apply_terminal_cases:
  obtains turn message b trace fr ts where "u = AuditCompleted turn message b trace fr ts"
  | "\<And>rid d. apply_terminal_update rid u d =
       close_turn (tu_turn_id u) (tu_message_id u) (set_terminal (terminal_values u) (tu_completed_at u))
         (\<lambda>x. x\<lparr>turn_completed_at := Some (tu_completed_at u)\<rparr>) d"
  by (cases u) auto

lemma apply_terminal_content:
  assumes "apply_terminal_update rid u d = Inr d'" and "structure_ok d" "content_ok d"
  shows "content_ok d'"
proof (cases rule: apply_terminal_cases [of u])
  case (1 turn message b trace fr ts)
  then show ?thesis using apply_audit_content assms by (simp only: apply_terminal_update.simps)
next
  case 2
  have g: "\<And>t. turn_completed_at (t\<lparr>turn_completed_at := Some (tu_completed_at u)\<rparr>) \<noteq> None" by simp
  show ?thesis
    by (rule content_close [OF assms(1) [unfolded 2] assms(2,3) keeps_set_terminal terminal_values_closed keeps_completed(1) g])
qed

text \<open>The answers of a turn do not depend on its other messages.\<close>

lemma answers_append:
  "answers_of (d\<lparr>db_messages := db_messages d @ ms\<rparr>) t
     = answers_of d t @ filter (\<lambda>m. mr_turn m = t \<and> mr_role m = ''Assistant'') ms"
  by (simp add: answers_of_def)

lemma begin_turn_exact:
  assumes "begin_turn s d = Inr d'"
  shows "turn_start_valid s" "turn_id (ts_turn s) \<notin> turn_id ` set (db_turns d)"
    "db_turns d' = db_turns d @ [(ts_turn s)\<lparr>turn_audit_result_id := None, turn_completed_at := None\<rparr>]"
    "db_messages d' = db_messages d @ [message_row_of (ts_user_message s), message_row_of (ts_assistant_placeholder s)]"
    "db_audits d' = db_audits d" "db_conversations d' = db_conversations d"
    "turn_conversation_id (ts_turn s) \<in> cvr_id ` set (db_conversations d)"
proof -
  obtain d1 d2 where v: "turn_start_valid s" and d1: "insert_turn (ts_turn s) d = Inr d1"
    and d2: "insert_message (ts_user_message s) d1 = Inr d2" and d3: "insert_message (ts_assistant_placeholder s) d2 = Inr d'"
    using assms unfolding begin_turn_Inr by blast
  show "turn_start_valid s" by (rule v)
  show "turn_id (ts_turn s) \<notin> turn_id ` set (db_turns d)"
    "turn_conversation_id (ts_turn s) \<in> cvr_id ` set (db_conversations d)"
    using d1 unfolding insert_turn_Inr by blast+
  show "db_turns d' = db_turns d @ [(ts_turn s)\<lparr>turn_audit_result_id := None, turn_completed_at := None\<rparr>]"
    "db_messages d' = db_messages d @ [message_row_of (ts_user_message s), message_row_of (ts_assistant_placeholder s)]"
    "db_audits d' = db_audits d" "db_conversations d' = db_conversations d"
    using d1 d2 d3 unfolding insert_turn_Inr insert_message_Inr by simp_all
qed

lemma in_turn: "structure_ok d \<Longrightarrow> m \<in> set (db_messages d) \<Longrightarrow> mr_turn m \<in> turn_id ` set (db_turns d)"
  unfolding structure_ok_def using refs_okD(4) [of d] by (simp add: image_subset_iff)

lemma begin_turn_answers:
  assumes "begin_turn s d = Inr d'" and "structure_ok d"
  shows "answers_of d' i = answers_of d i @ (if i = turn_id (ts_turn s) then [message_row_of (ts_assistant_placeholder s)] else [])"
    and "answers_of d (turn_id (ts_turn s)) = []"
proof -
  let ?u = "ts_user_message s" and ?a = "ts_assistant_placeholder s"
  note d' = begin_turn_exact [OF assms(1)]
  have "msg_turn_id ?u = turn_id (ts_turn s)" "msg_turn_id ?a = turn_id (ts_turn s)" "msg_role ?u = RoleUser" "msg_role ?a = RoleAssistant"
    using d'(1) unfolding turn_start_valid_def Let_def by blast+
  then have "mr_turn (message_row_of ?a) = turn_id (ts_turn s)" "mr_role (message_row_of ?u) = ''User''"
      "mr_role (message_row_of ?a) = ''Assistant''"
    by (simp_all add: message_row_of_def)
  then show "answers_of d' i = answers_of d i @ (if i = turn_id (ts_turn s) then [message_row_of ?a] else [])"
    unfolding answers_of_def d'(4) by simp
  show "answers_of d (turn_id (ts_turn s)) = []"
    unfolding answers_of_def filter_empty_conv using d'(2) in_turn [of d] assms(2) by metis
qed

lemma begin_turn_content:
  assumes "begin_turn s d = Inr d'" and "structure_ok d" "content_ok d"
  shows "content_ok d'"
proof -
  let ?t = "ts_turn s" and ?u = "ts_user_message s" and ?a = "ts_assistant_placeholder s"
  let ?row = "?t\<lparr>turn_audit_result_id := None, turn_completed_at := None\<rparr>"
  note d' = begin_turn_exact [OF assms(1)]
  have v: "msg_conversation_id ?u = turn_conversation_id ?t" "msg_conversation_id ?a = turn_conversation_id ?t"
    "msg_turn_id ?u = turn_id ?t" "msg_turn_id ?a = turn_id ?t" "msg_role ?u = RoleUser" "msg_role ?a = RoleAssistant"
    "msg_status ?u = MsgCompleted" "msg_status ?a = MsgPending"
    using d'(1) unfolding turn_start_valid_def Let_def by blast+
  have keys: "mr_turn (message_row_of ?u) = turn_id ?t" "mr_turn (message_row_of ?a) = turn_id ?t"
    "mr_conversation (message_row_of ?u) = turn_conversation_id ?t" "mr_conversation (message_row_of ?a) = turn_conversation_id ?t"
    "mr_role (message_row_of ?u) = ''User''" "mr_role (message_row_of ?a) = ''Assistant''"
    "open_status (mr_status (message_row_of ?a))"
    unfolding open_status_encode by (simp_all add: message_row_of_def v)
  note ans = begin_turn_answers [OF assms(1,2)]
  have "turn_ok d' ?row" using keys(7) by (intro turn_okI [of _ _ "message_row_of ?a"]) (simp_all add: ans)
  moreover have "turn_ok d' t" if "t \<in> set (db_turns d)" for t
  proof -
    have "turn_id t \<noteq> turn_id ?t" using d'(2) that by (metis imageI)
    then show ?thesis using content_okD(1) [OF assms(3) that] by (simp add: turn_ok_def ans)
  qed
  moreover have "message_ok d' m" if "m \<in> set (db_messages d)" for m
    using content_okD(2) [OF assms(3) that] unfolding message_ok_def d'(3) by auto
  moreover have "message_ok d' (message_row_of ?u)" "message_ok d' (message_row_of ?a)"
    unfolding message_ok_def d'(3) by (intro conjI bexI [of _ ?row]; simp add: keys)+
  moreover have "audit_ok d' a" if "a \<in> set (db_audits d)" for a
    using content_okD(3) [OF assms(3) that] unfolding audit_ok_def d'(3) by auto
  ultimately show ?thesis unfolding content_ok_def d'(3-5) by simp
qed

lemma acquire_exact:
  assumes "acquire_runtime_ownership owner pid now d = Inr d'"
  shows "db_messages d' = update_where is_open_answer (interrupted_message now) (db_messages d)"
    "db_turns d' = update_where (\<lambda>t. turn_completed_at t = None
        \<and> (\<exists>m \<in> set (db_messages d'). mr_turn m = turn_id t \<and> is_interrupted m))
      (\<lambda>t. t\<lparr>turn_completed_at := Some now\<rparr>) (db_turns d)"
    "db_receipts d' = update_where (\<lambda>r. rr_status r = ''Prepared'')
      (\<lambda>r. r\<lparr>rr_status := ''OutcomeUnknown'', rr_updated_at := now\<rparr>) (db_receipts d)"
    "db_audits d' = db_audits d" "db_conversations d' = db_conversations d"
    "db_owner d' = Some \<lparr> ow_owner = owner, ow_process = pid, ow_acquired_at = now, ow_heartbeat_at = now \<rparr>"
  by (simp_all only: assms [unfolded acquire_runtime_ownership_def Let_def sum.inject, symmetric])
    simp_all

lemma interrupted_closed:
  "\<not> open_status (mr_status (interrupted_message now m))" "mr_role m = ''Assistant'' \<Longrightarrow> is_interrupted (interrupted_message now m)"
  "mr_role m = ''Assistant'' \<Longrightarrow> is_ok (into_message (interrupted_message now m))"
  unfolding is_ok_into_message is_ok_decode_status
  by (simp_all add: interrupted_message_def open_status_def is_interrupted_def)

lemma acquire_answers:
  assumes "acquire_runtime_ownership owner pid now d = Inr d'"
  shows "answers_of d' i = map (\<lambda>m. if open_status (mr_status m) then interrupted_message now m else m) (answers_of d i)"
  unfolding answers_of_def acquire_exact(1) [OF assms] by (simp add: filter_update_where)
    (auto simp: update_where_def is_open_answer_def)

lemma acquire_content:
  assumes "acquire_runtime_ownership owner pid now d = Inr d'" and "structure_ok d" "content_ok d"
  shows "content_ok d'"
proof -
  note d' = acquire_exact [OF assms(1)]
  let ?g = "\<lambda>t::conversation_turn. t\<lparr>turn_completed_at := Some now\<rparr>"
  let ?q = "\<lambda>t. turn_completed_at t = None \<and> (\<exists>m \<in> set (db_messages d'). mr_turn m = turn_id t \<and> is_interrupted m)"
  note ans = acquire_answers [OF assms(1)]
  have "turn_ok d' t'" if t': "t' \<in> set (db_turns d')" for t'
  proof -
    obtain t where t: "t \<in> set (db_turns d)" "t' = (if ?q t then ?g t else t)"
      using t' unfolding d'(2) update_where_set by blast
    obtain m where m: "answers_of d (turn_id t) = [m]" "(turn_completed_at t = None) = open_status (mr_status m)"
      by (rule turn_okE [OF content_okD(1) [OF assms(3) t(1)]])
    have id: "turn_id t' = turn_id t" using t(2) by simp
    show ?thesis
    proof (cases "open_status (mr_status m)")
      case True
      have a': "answers_of d' (turn_id t) = [interrupted_message now m]" by (simp add: ans m(1) True)
      have "m \<in> set (answers_of d (turn_id t))" by (simp add: m(1))
      then have "mr_role m = ''Assistant''" "mr_turn m = turn_id t" by (simp_all add: answers_of_def)
      moreover have "interrupted_message now m \<in> set (answers_of d' (turn_id t))" by (simp add: a')
      ultimately have "?q t"
        using m(2) True interrupted_closed(2) by (auto simp: answers_of_def intro!: bexI [of _ "interrupted_message now m"])
      then have "turn_completed_at t' = Some now" using t(2) by (simp only: if_True conversation_turn.simps) simp
      then show ?thesis
        by (intro turn_okI [of _ _ "interrupted_message now m"]) (simp_all add: id a' interrupted_closed(1))
    next
      case False
      then have "t' = t" using t(2) m(2) by (simp only: if_False simp_thms)
      then show ?thesis using False m(2) by (intro turn_okI [of _ _ m]) (simp_all add: ans m(1))
    qed
  qed
  moreover have "message_ok d' x'" if x': "x' \<in> set (db_messages d')" for x'
  proof -
    obtain x where x: "x \<in> set (db_messages d)" "x' = (if is_open_answer x then interrupted_message now x else x)"
      using x' unfolding d'(1) update_where_set by blast
    show ?thesis
      by (rule message_ok_turns [OF content_okD(2) [OF assms(3) x(1)] keeps_completed(1) d'(2)])
        (use x(2) interrupted_closed(3) in \<open>simp_all add: is_open_answer_def\<close>)
  qed
  moreover have "audit_ok d' a" if a: "a \<in> set (db_audits d)" for a
  proof -
    obtain x where x: "x \<in> set (db_turns d)" "turn_id x = au_turn a" "turn_completed_at x \<noteq> None"
      "turn_response_contract x = ContractAudit ''answer_bundle.v1''" "turn_audit_result_id x = Some (au_id a)"
      "ab_raw_model_response (au_bundle a) = None"
      using content_okD(3) [OF assms(3) a] unfolding audit_ok_def by blast
    have "x \<in> set (db_turns d')" unfolding d'(2) update_where_set using x(1,3) by (intro bexI [of _ x]) simp_all
    then show ?thesis using x unfolding audit_ok_def by blast
  qed
  ultimately show ?thesis unfolding content_ok_def d'(4) by simp
qed

lemma turns_of_iff: "structure_ok d \<Longrightarrow> t \<in> set (db_turns d) \<Longrightarrow> turn_id t \<in> turns_of i d \<longleftrightarrow> turn_conversation_id t = i"
  using distinct_key_unique [OF structure_keys(1), of d] by (auto simp: turns_of_def)

lemma cascade_answers:
  assumes "structure_ok d" "content_ok d"
  shows "answers_of (cascade_conversation i d) t = (if t \<in> turns_of i d then [] else answers_of d t)"
proof (cases "t \<in> turns_of i d")
  case True
  then show ?thesis by (simp add: answers_of_def filter_empty_conv)
next
  case False
  have "\<not> (mr_conversation m = i \<or> mr_turn m \<in> turns_of i d)" if m: "m \<in> set (db_messages d)" "mr_turn m = t" for m
  proof -
    obtain x where "x \<in> set (db_turns d)" "turn_id x = mr_turn m" "turn_conversation_id x = mr_conversation m"
      using content_okD(2) [OF assms(2) m(1)] unfolding message_ok_def by blast
    then show ?thesis using False m(2) turns_of_iff [OF assms(1)] by metis
  qed
  then show ?thesis
    using False unfolding answers_of_def cascade_tables filter_filter by (simp cong: filter_cong) (intro filter_cong; auto)
qed

lemma cascade_content:
  assumes "structure_ok d" "content_ok d"
  shows "content_ok (cascade_conversation i d)"
proof -
  let ?d = "cascade_conversation i d"
  have survives: "t \<in> set (db_turns ?d)" if "t \<in> set (db_turns d)" "turn_id t \<notin> turns_of i d" for t
    using that turns_of_iff [OF assms(1) that(1)] by simp
  have "turn_ok ?d t" if t: "t \<in> set (db_turns ?d)" for t
    using t content_okD(1) [OF assms(2), of t] turns_of_iff [OF assms(1), of t i]
    unfolding turn_ok_def cascade_answers [OF assms] by simp
  moreover have "message_ok ?d m" if "m \<in> set (db_messages ?d)" for m
    using that content_okD(2) [OF assms(2), of m] survives unfolding message_ok_def by (auto simp: turns_of_def)
  moreover have "audit_ok ?d a" if a: "a \<in> set (db_audits ?d)" for a
  proof -
    have a: "a \<in> set (db_audits d)" "au_turn a \<notin> turns_of i d" using a by simp_all
    obtain x where x: "x \<in> set (db_turns d)" "turn_id x = au_turn a" "turn_completed_at x \<noteq> None"
      "turn_response_contract x = ContractAudit ''answer_bundle.v1''" "turn_audit_result_id x = Some (au_id a)"
      "ab_raw_model_response (au_bundle a) = None"
      using content_okD(3) [OF assms(2) a(1)] unfolding audit_ok_def by blast
    then have "x \<in> set (db_turns ?d)" using survives a(2) by metis
    then show ?thesis using x unfolding audit_ok_def by blast
  qed
  ultimately show ?thesis by (simp only: content_ok_def) blast
qed

section \<open>Every operation\<close>

lemma delta_content:
  assumes "append_assistant_delta now i delta d = Inr d'" and "content_ok d"
  shows "content_ok d'"
proof -
  have "content_ok (d\<lparr>db_messages := update_where (\<lambda>m. mr_id m = i \<and> mr_role m = ''Assistant'' \<and> open_status (mr_status m))
        (\<lambda>m. m\<lparr>mr_markdown := mr_markdown m @ delta, mr_status := ''Streaming'', mr_updated_at := now\<rparr>) (db_messages d)\<rparr>)"
    by (rule content_messages [OF assms(2) keeps_delta])
      (auto simp: is_ok_into_message is_ok_decode_status open_status_def)
  then show ?thesis using assms(1) unfolding delta_Inr by simp
qed

lemma mark_changed_content:
  assumes "mark_snapshot_changed now snap d = Inr d'" and "content_ok d"
  shows "content_ok d'"
proof -
  have "content_ok (d\<lparr>db_traces := ts, db_messages := update_where p (\<lambda>m. m\<lparr>mr_freshness := f\<rparr>) (db_messages d)\<rparr>)" for ts p f
    using content_messages [OF content_frame [of "d\<lparr>db_traces := ts\<rparr>" d] keeps_freshness, of p f] assms(2)
    by (simp add: is_ok_into_message)
  then show ?thesis using assms(1) unfolding mark_snapshot_changed_def Let_def sum.inject by (elim subst) simp
qed

lemma write_trace_frame:
  assumes "write_grounding_trace now t d = Inr d'"
  shows "db_turns d' = db_turns d" "db_messages d' = db_messages d" "db_audits d' = db_audits d"
    "db_receipts d' = db_receipts d" "db_conversations d' = db_conversations d"
proof -
  obtain ts cs ss where d': "d' = d\<lparr>db_traces := ts, db_calls := cs, db_sources := ss\<rparr>"
    using assms unfolding write_trace_Inr by blast
  show "db_turns d' = db_turns d" "db_messages d' = db_messages d" "db_audits d' = db_audits d"
    "db_receipts d' = db_receipts d" "db_conversations d' = db_conversations d"
    by (simp_all add: d')
qed

lemma exec_content:
  assumes "exec_op op d = Inr d'" and "structure_ok d" "content_ok d"
  shows "content_ok d'"
proof (cases op)
  case (OpDelete removed operation now i)
  then obtain r where "delete_conversation removed operation now i d = Inr (d', r)"
    using assms(1) by (auto simp only: exec_op.simps then_do_Inr sum.inject fst_conv)
  then show ?thesis unfolding delete_Inr using cascade_content [OF assms(2,3)] by blast
next
  case (OpCreate i now draft)
  then obtain c where c: "create_conversation i now draft d = Inr (d', c)"
    using assms(1) by (auto simp only: exec_op.simps then_do_Inr sum.inject fst_conv)
  have "db_turns d' = db_turns d \<and> db_messages d' = db_messages d \<and> db_audits d' = db_audits d"
  proof (cases "nc_persistence draft = Ephemeral")
    case True
    then show ?thesis using create_conversation_Ephemeral c by blast
  next
    case False
    show ?thesis using c unfolding create_conversation_Inr [OF False] by simp
  qed
  then show ?thesis using content_frame assms(3) by blast
next
  case (OpFinishGrounded now rid t u)
  then obtain d1 where "write_grounding_trace now t d = Inr d1" "apply_terminal_update rid u d1 = Inr d'"
    using assms(1) by (auto simp only: exec_op.simps finish_grounded_Inr)
  then show ?thesis
    using apply_terminal_content write_trace_structure write_trace_frame content_frame assms(2,3) by metis
next
  case (OpPrepareTrace now t)
  then have "write_grounding_trace now t d = Inr d'" using assms(1) by (simp only: exec_op.simps prepare_grounding_trace_def)
  then show ?thesis using write_trace_frame content_frame assms(3) by metis
next
  case (OpBegin s)
  then show ?thesis using begin_turn_content assms by (simp only: exec_op.simps)
next
  case (OpDelta now i delta)
  then show ?thesis using delta_content assms by (simp only: exec_op.simps)
next
  case (OpFinish rid u)
  then show ?thesis using apply_terminal_content assms by (simp only: exec_op.simps finish_turn_def)
next
  case (OpMarkChanged now snap)
  then show ?thesis using mark_changed_content assms by (simp only: exec_op.simps)
next
  case (OpStart owner pid now)
  then show ?thesis using acquire_content assms by (simp only: exec_op.simps)
next
  case (OpAddProfile i)
  show ?thesis by (rule content_frame [OF _ _ _ assms(3)]) (use assms(1) OpAddProfile in auto)
next
  case (OpBind now conv repo snap)
  show ?thesis by (rule content_frame [OF _ _ _ assms(3)]) (use assms(1) in \<open>simp_all add: OpBind bind_Inr\<close>)
next
  case (OpSaveConsent s)
  show ?thesis by (rule content_frame [OF _ _ _ assms(3)]) (use assms(1) in \<open>simp_all add: OpSaveConsent save_consent_Inr\<close>)
next
  case (OpPrepareReceipt owner r)
  show ?thesis by (rule content_frame [OF _ _ _ assms(3)])
    (use assms(1) in \<open>simp_all add: OpPrepareReceipt prepare_receipt_row_Inr\<close>)
next
  case (OpCas now ids expected nxt)
  then obtain rows where "d' = d\<lparr>db_receipts := rows\<rparr>" using assms(1) by (auto simp only: exec_op.simps cas_Inr)
  then show ?thesis by (intro content_frame [OF _ _ _ assms(3)]) simp_all
next
  case (OpRevoke now i)
  show ?thesis by (rule content_frame [OF _ _ _ assms(3)])
    (use assms(1) in \<open>auto simp: OpRevoke revoke_repository_consent_def\<close>)
next
  case (OpStop owner)
  show ?thesis by (rule content_frame [OF _ _ _ assms(3)])
    (use assms(1) in \<open>auto simp: OpStop release_runtime_ownership_def\<close>)
qed

lemma reachable_ok: "reachable d \<Longrightarrow> structure_ok d \<and> content_ok d"
proof (induction rule: reachable.induct)
  case (reachable_init profiles)
  show ?case by (simp add: empty_db_def structure_defs content_ok_def)
next
  case (reachable_step d op d')
  then show ?case using exec_structure exec_content by blast
qed

end
