(* ===== verification/Storage_Contract.thy ===== *)
theory Storage_Contract
  imports Turn_Life
begin

text \<open>
  What the stores promise: the invariant of the reachable databases, the abstract machine of turns
  that every operation follows, the compare-and-swap of receipt states, recovery at start, and the
  deletion of a conversation.
\<close>

section \<open>The abstract machine of turns\<close>

datatype answer = Answering string | Answered string "string option" string

definition answer_row :: "message_row \<Rightarrow> answer" where
  "answer_row m = (if open_status (mr_status m) then Answering (mr_markdown m)
     else Answered (mr_status m) (mr_error_code m) (mr_markdown m))"

definition answer_of :: "db \<Rightarrow> uuid \<Rightarrow> answer option" where
  "answer_of d t = (case answers_of d t of [] \<Rightarrow> None | m # _ \<Rightarrow> Some (answer_row m))"

fun interrupt :: "answer \<Rightarrow> answer" where
  "interrupt (Answering s) = Answered ''Failed'' (Some ''INTERRUPTED_BY_RESTART'') interrupted_text"
| "interrupt (Answered st code s) = Answered st code s"

inductive turn_machine :: "(uuid \<Rightarrow> answer option) \<Rightarrow> (uuid \<Rightarrow> answer option) \<Rightarrow> bool" where
  idle: "turn_machine a a"
| begins: "a t = None \<Longrightarrow> turn_machine a (a(t \<mapsto> Answering s))"
| grows: "a t = Some (Answering s) \<Longrightarrow> turn_machine a (a(t \<mapsto> Answering (s @ delta)))"
| finishes: "a t = Some (Answering s) \<Longrightarrow> turn_machine a (a(t \<mapsto> Answered st code text'))"
| restarts: "turn_machine a (\<lambda>t. map_option interrupt (a t))"
| forgets: "turn_machine a (a |` T)"

inductive_cases turn_machineE: "turn_machine a b"

lemma answer_of_eqI: "(\<And>t. answers_of d' t = answers_of d t) \<Longrightarrow> answer_of d' = answer_of d"
  by (rule ext) (simp only: answer_of_def)

lemma idle_eq: "a' = a \<Longrightarrow> turn_machine a a'"
  by (simp only: turn_machine.idle)

lemma frame_machine: "db_messages d' = db_messages d \<Longrightarrow> turn_machine (answer_of d) (answer_of d')"
  by (intro idle_eq answer_of_eqI) (simp only: answers_of_def)

lemma close_machine:
  assumes "close_turn turn message f g d = Inr d'" and "structure_ok d" "\<forall>t \<in> set (db_turns d). turn_ok d t"
    and "keeps_message f" "\<And>m. \<not> open_status (mr_status (f m))"
  shows "turn_machine (answer_of d) (answer_of d')"
proof -
  obtain m t where m: "answers_of d turn = [m]" "mr_id m = message" "open_status (mr_status m)"
    and t: "t \<in> set (db_turns d)" "turn_id t = turn" "turn_completed_at t = None"
    and ans': "answers_of d' turn = [f m]" and other: "\<And>i. i \<noteq> turn \<Longrightarrow> answers_of d' i = answers_of d i"
    and d': "db_turns d' = update_where (\<lambda>x. turn_id x = turn) g (db_turns d)"
      "db_messages d' = update_where (\<lambda>x. x = m) f (db_messages d)" "db_audits d' = db_audits d"
    by (rule close_turn_exact [OF assms(1-4)]) (rule that)
  have "answer_of d turn = Some (Answering (mr_markdown m))"
    using m by (simp add: answer_of_def answer_row_def)
  moreover have "answer_of d' = (answer_of d)(turn \<mapsto> Answered (mr_status (f m)) (mr_error_code (f m)) (mr_markdown (f m)))"
  proof
    fix i
    show "answer_of d' i = ((answer_of d)(turn \<mapsto> Answered (mr_status (f m)) (mr_error_code (f m)) (mr_markdown (f m)))) i"
      using ans' other [of i] assms(5) by (simp add: answer_of_def answer_row_def)
  qed
  ultimately show ?thesis by (simp only: turn_machine.finishes)
qed

lemma terminal_machine:
  assumes "apply_terminal_update rid u d = Inr d'" and "structure_ok d" "content_ok d"
  shows "turn_machine (answer_of d) (answer_of d')"
proof -
  have turns: "\<forall>t \<in> set (db_turns d). turn_ok d t" using assms(3) by (simp add: content_ok_def)
  show ?thesis
  proof (cases rule: apply_terminal_cases [of u])
    case (1 turn message b trace fr ts)
    let ?d = "d\<lparr>db_audits := db_audits d @ [\<lparr> au_id = rid, au_turn = turn, au_schema_version = ''answer_bundle.v1'',
            au_bundle = b, au_created_at = ts \<rparr>]\<rparr>"
    let ?f = "set_terminal ([], ''Completed'', None, Some trace, Some fr) ts"
    let ?g = "\<lambda>x. x\<lparr>turn_audit_result_id := Some rid, turn_completed_at := Some ts\<rparr>"
    obtain t where t: "List.find (\<lambda>t. turn_id t = turn) (db_turns d) = Some t"
      and new: "rid \<notin> au_id ` set (db_audits d)" "turn \<notin> au_turn ` set (db_audits d)"
      and close: "close_turn turn message ?f ?g ?d = Inr d'"
      using assms(1) unfolding 1 apply_terminal_update.simps apply_audit_Inr by blast
    have "structure_ok ?d"
      by (rule audit_insert_structure) (use assms(2) new find_Some_set [OF t] in auto)
    moreover have "\<forall>t \<in> set (db_turns ?d). turn_ok ?d t" using turns by (simp add: turn_ok_def answers_of_def)
    moreover have "\<not> open_status (mr_status (?f m))" for m by (rule set_terminal_closed(1)) simp
    moreover have "answer_of ?d = answer_of d" by (rule answer_of_eqI) (simp add: answers_of_def)
    ultimately show ?thesis using close_machine [OF close _ _ keeps_set_terminal] by simp
  next
    case 2
    show ?thesis by (rule close_machine [OF assms(1) [unfolded 2] assms(2) turns keeps_set_terminal terminal_values_closed(1)])
  qed
qed

lemma begin_machine:
  assumes "begin_turn s d = Inr d'" and "structure_ok d"
  shows "turn_machine (answer_of d) (answer_of d')"
proof -
  let ?t = "turn_id (ts_turn s)" and ?a = "message_row_of (ts_assistant_placeholder s)"
  note ans = begin_turn_answers [OF assms]
  have "msg_status (ts_assistant_placeholder s) = MsgPending"
    using begin_turn_exact(1) [OF assms(1)] unfolding turn_start_valid_def Let_def by blast
  then have "answer_row ?a = Answering (mr_markdown ?a)"
    by (simp only: answer_row_def open_status_encode simp_thms if_True)
  then have "answer_of d' = (answer_of d)(?t \<mapsto> Answering (mr_markdown ?a))"
    by (intro ext) (simp add: answer_of_def ans)
  moreover have "answer_of d ?t = None" by (simp add: answer_of_def ans(2))
  ultimately show ?thesis by (simp only: turn_machine.begins)
qed

lemma delta_machine:
  assumes "append_assistant_delta now i delta d = Inr d'" and "structure_ok d" "content_ok d"
  shows "turn_machine (answer_of d) (answer_of d')"
proof -
  let ?p = "\<lambda>m. mr_id m = i \<and> mr_role m = ''Assistant'' \<and> open_status (mr_status m)"
  let ?f = "\<lambda>m. m\<lparr>mr_markdown := mr_markdown m @ delta, mr_status := ''Streaming'', mr_updated_at := now\<rparr>"
  have one: "count_where ?p (db_messages d) = 1" and d': "d' = d\<lparr>db_messages := update_where ?p ?f (db_messages d)\<rparr>"
    using assms(1) unfolding delta_Inr by blast+
  obtain m where "filter ?p (db_messages d) = [m]" using one unfolding count_where_one by blast
  then have m: "m \<in> set (db_messages d)" "?p m" by (auto simp: filter_eq_Cons_iff)
  have only: "x = m" if "x \<in> set (db_messages d)" "?p x" for x
    using distinct_key_unique [OF structure_keys(2) [OF assms(2)] that(1) m(1)] that(2) m(2) by simp
  have ans: "answers_of d' t = update_where ?p ?f (answers_of d t)" for t
    unfolding d' by (rule answers_update [OF keeps_delta])
  obtain t where t: "t \<in> set (db_turns d)" "turn_id t = mr_turn m"
    using content_okD(2) [OF assms(3) m(1)] unfolding message_ok_def by blast
  obtain m' where "answers_of d (turn_id t) = [m']" by (rule turn_okE [OF content_okD(1) [OF assms(3) t(1)]])
  moreover have "m \<in> set (answers_of d (turn_id t))" using m t by (simp add: answers_of_def)
  ultimately have mine: "answers_of d (mr_turn m) = [m]" using t by simp
  have "answers_of d' j = answers_of d j" if "j \<noteq> mr_turn m" for j
    unfolding ans update_where_def using that only by (intro map_idI) (auto simp: answers_of_def)
  moreover have "answers_of d' (mr_turn m) = [?f m]" unfolding ans mine update_where_single using m by simp
  ultimately have "answer_of d' = (answer_of d)(mr_turn m \<mapsto> Answering (mr_markdown m @ delta))"
    by (intro ext) (simp add: answer_of_def answer_row_def open_status_def)
  moreover have "answer_of d (mr_turn m) = Some (Answering (mr_markdown m))"
    using mine m by (simp add: answer_of_def answer_row_def)
  ultimately show ?thesis by (simp only: turn_machine.grows)
qed

lemma start_machine:
  assumes "acquire_runtime_ownership owner pid now d = Inr d'"
  shows "turn_machine (answer_of d) (answer_of d')"
proof -
  have row: "answer_row (if open_status (mr_status m) then interrupted_message now m else m) = interrupt (answer_row m)" for m
    using interrupted_closed(1) [of now m] by (simp add: answer_row_def) (simp add: interrupted_message_def)
  have "answer_of d' = (\<lambda>t. map_option interrupt (answer_of d t))"
  proof
    fix t
    show "answer_of d' t = map_option interrupt (answer_of d t)"
      unfolding answer_of_def acquire_answers [OF assms] by (cases "answers_of d t") (simp_all add: row)
  qed
  then show ?thesis by (simp only: turn_machine.restarts)
qed

lemma cascade_machine:
  assumes "structure_ok d" "content_ok d"
  shows "turn_machine (answer_of d) (answer_of (cascade_conversation i d))"
proof -
  have "answer_of (cascade_conversation i d) = answer_of d |` (- turns_of i d)"
    by (rule ext) (simp add: answer_of_def cascade_answers [OF assms] restrict_map_def)
  then show ?thesis by (simp only: turn_machine.forgets)
qed

lemma mark_machine:
  assumes "mark_snapshot_changed now snap d = Inr d'"
  shows "turn_machine (answer_of d) (answer_of d')"
proof -
  obtain ts p f where d': "d' = d\<lparr>db_traces := ts, db_messages := update_where p (\<lambda>m. m\<lparr>mr_freshness := f\<rparr>) (db_messages d)\<rparr>"
    by (rule that [OF assms [unfolded mark_snapshot_changed_def Let_def sum.inject, symmetric]])
  have "answers_of d' t = update_where p (\<lambda>m. m\<lparr>mr_freshness := f\<rparr>) (answers_of d t)" for t
    unfolding d' by (simp add: answers_of_def filter_update_where)
  moreover have "answer_row (if p m then m\<lparr>mr_freshness := f\<rparr> else m) = answer_row m" for m
    by (simp add: answer_row_def)
  ultimately have "answer_of d' = answer_of d"
    by (intro ext) (simp add: answer_of_def update_where_def split: list.split)
  then show ?thesis by (rule idle_eq)
qed

lemma create_frame:
  assumes "create_conversation i now draft d = Inr (d', c)"
  shows "db_messages d' = db_messages d" "db_receipts d' = db_receipts d" "db_calls d' = db_calls d"
  using create_conversation_Ephemeral [OF _ assms] assms create_conversation_Inr [of draft i now d d' c]
  by (cases "nc_persistence draft = Ephemeral"; simp)+

lemma exec_machine:
  assumes "exec_op op d = Inr d'" and s: "structure_ok d" and c: "content_ok d"
  shows "turn_machine (answer_of d) (answer_of d')"
proof (cases op)
  case (OpAddProfile i)
  show ?thesis by (rule frame_machine) (use assms(1) in \<open>auto simp: OpAddProfile\<close>)
next
  case (OpCreate i now draft)
  then obtain c where "create_conversation i now draft d = Inr (d', c)"
    using assms(1) by (auto simp only: exec_op.simps then_do_Inr sum.inject fst_conv)
  then show ?thesis by (intro frame_machine create_frame(1))
next
  case (OpBind now conv repo snap)
  show ?thesis by (rule frame_machine) (use assms(1) in \<open>simp add: OpBind bind_Inr\<close>)
next
  case (OpDelete removed operation now i)
  then obtain r where "delete_conversation removed operation now i d = Inr (d', r)"
    using assms(1) by (auto simp only: exec_op.simps then_do_Inr sum.inject fst_conv)
  then show ?thesis unfolding delete_Inr using cascade_machine [OF s c] by blast
next
  case (OpBegin s)
  then show ?thesis using begin_machine assms by (simp only: exec_op.simps)
next
  case (OpDelta now i delta)
  then show ?thesis using delta_machine assms by (simp only: exec_op.simps)
next
  case (OpFinish rid u)
  then show ?thesis using terminal_machine assms by (simp only: exec_op.simps finish_turn_def)
next
  case (OpFinishGrounded now rid t u)
  then obtain d1 where w: "write_grounding_trace now t d = Inr d1" and a: "apply_terminal_update rid u d1 = Inr d'"
    using assms(1) by (auto simp only: exec_op.simps finish_grounded_Inr)
  have "answer_of d1 = answer_of d" by (rule answer_of_eqI) (simp only: answers_of_def write_trace_frame(2) [OF w])
  then show ?thesis
    using terminal_machine [OF a write_trace_structure [OF w s] content_frame [OF write_trace_frame(1-3) [OF w] c]] by simp
next
  case (OpPrepareTrace now t)
  then have "write_grounding_trace now t d = Inr d'" using assms(1) by (simp only: exec_op.simps prepare_grounding_trace_def)
  then show ?thesis by (intro frame_machine write_trace_frame(2))
next
  case (OpMarkChanged now snap)
  then show ?thesis using mark_machine assms(1) by (simp only: exec_op.simps)
next
  case (OpSaveConsent s)
  show ?thesis by (rule frame_machine) (use assms(1) in \<open>simp add: OpSaveConsent save_consent_Inr\<close>)
next
  case (OpRevoke now i)
  show ?thesis by (rule frame_machine) (use assms(1) in \<open>auto simp: OpRevoke revoke_repository_consent_def\<close>)
next
  case (OpPrepareReceipt owner r)
  show ?thesis by (rule frame_machine) (use assms(1) in \<open>simp add: OpPrepareReceipt prepare_receipt_row_Inr\<close>)
next
  case (OpCas now ids expected nxt)
  then obtain rows where "d' = d\<lparr>db_receipts := rows\<rparr>" using assms(1) by (auto simp only: exec_op.simps cas_Inr)
  then show ?thesis by (intro frame_machine) simp
next
  case (OpStart owner pid now)
  then show ?thesis using start_machine assms(1) by (simp only: exec_op.simps)
next
  case (OpStop owner)
  show ?thesis by (rule frame_machine) (use assms(1) in \<open>auto simp: OpStop release_runtime_ownership_def\<close>)
qed

section \<open>Receipt states\<close>

lemma count_where_key:
  assumes "distinct (map k rs)" "r \<in> set rs" "p r" "\<And>x. x \<in> set rs \<Longrightarrow> p x \<Longrightarrow> k x = k r"
  shows "count_where p rs = 1"
proof -
  have "filter p rs = filter (\<lambda>x. x = r) rs"
    using distinct_key_unique [OF assms(1) _ assms(2)] assms(3,4) by (intro filter_cong) auto
  also have "\<dots> = [r]" using assms(1,2) by (induction rs) (auto simp: filter_empty_conv)
  finally show ?thesis by (simp add: count_where_def)
qed

lemma check_batch_Inr:
  assumes "distinct (map receipt_id rows)"
  shows "check_batch e rows body ids = Inr () \<longleftrightarrow>
    (\<exists>b. (body = None \<or> body = Some b) \<and> (\<forall>i \<in> set ids. \<exists>r \<in> set rows. receipt_id r = i
        \<and> rr_status r = egress_status_text e \<and> ter_body_digest (rr_receipt r) = b))"
proof (induction ids arbitrary: body)
  case Nil
  show ?case by (cases body) auto
next
  case (Cons i ids)
  show ?case
  proof (cases "List.find (\<lambda>r. receipt_id r = i) rows")
    case None
    then have "\<not> (\<exists>r \<in> set rows. receipt_id r = i)" by (auto simp: find_None_iff)
    then show ?thesis by (auto simp add: None)
  next
    case (Some r)
    have r: "r \<in> set rows" "receipt_id r = i" using find_Some_set [OF Some] by simp_all
    have only: "(\<exists>x \<in> set rows. receipt_id x = i \<and> P x) \<longleftrightarrow> P r" for P
      using distinct_key_unique [OF assms _ r(1)] r by metis
    show ?thesis
      unfolding check_batch.simps Some option.case list.set ball_simps only
      by (cases body) (auto simp: Cons.IH)
  qed
qed

lemma apply_batch_Inr:
  assumes "distinct (map receipt_id rows)" "distinct ids"
    and "\<forall>i \<in> set ids. \<exists>r \<in> set rows. receipt_id r = i \<and> rr_status r = egress_status_text e"
  shows "apply_batch now e n ids rows = Inr (update_where (\<lambda>r. receipt_id r \<in> set ids)
    (\<lambda>r. r\<lparr>rr_status := egress_status_text n, rr_updated_at := now\<rparr>) rows)"
  using assms
proof (induction ids arbitrary: rows)
  case Nil
  then show ?case by (simp add: update_where_def)
next
  case (Cons i ids)
  let ?p = "\<lambda>r. receipt_id r = i \<and> rr_status r = egress_status_text e"
  let ?f = "\<lambda>r. r\<lparr>rr_status := egress_status_text n, rr_updated_at := now\<rparr>"
  have id: "receipt_id (?f r) = receipt_id r" for r by (simp add: receipt_id_def)
  obtain r where r: "r \<in> set rows" "?p r" using Cons.prems(3) by auto
  have p: "?p x \<longleftrightarrow> receipt_id x = i" if "x \<in> set rows" for x
    using distinct_key_unique [OF Cons.prems(1) that r(1)] r(2) by metis
  have "count_where ?p rows = 1"
    by (rule count_where_key [where p = ?p, OF Cons.prems(1) r]) (use r(2) in simp)
  moreover have "apply_batch now e n ids (update_where ?p ?f rows)
      = Inr (update_where (\<lambda>r. receipt_id r \<in> set ids) ?f (update_where ?p ?f rows))"
  proof (rule Cons.IH)
    show "distinct (map receipt_id (update_where ?p ?f rows))" using Cons.prems(1) by (simp add: id)
    show "\<forall>j \<in> set ids. \<exists>x \<in> set (update_where ?p ?f rows). receipt_id x = j \<and> rr_status x = egress_status_text e"
    proof
      fix j assume j: "j \<in> set ids"
      then obtain x where x: "x \<in> set rows" "receipt_id x = j" "rr_status x = egress_status_text e" using Cons.prems(3) by auto
      moreover have "j \<noteq> i" using Cons.prems(2) j by auto
      ultimately have "x \<in> set (update_where ?p ?f rows)" unfolding update_where_set by (intro bexI [of _ x]) auto
      then show "\<exists>x \<in> set (update_where ?p ?f rows). receipt_id x = j \<and> rr_status x = egress_status_text e"
        using x by blast
    qed
  qed (use Cons.prems(2) in simp)
  moreover have "update_where (\<lambda>r. receipt_id r \<in> set ids) ?f (update_where ?p ?f rows)
      = update_where (\<lambda>r. receipt_id r \<in> set (i # ids)) ?f rows"
    unfolding update_where_def map_map using p Cons.prems(2) by (intro map_cong) (auto simp: id)
  ultimately show ?case by (simp only: apply_batch.simps Let_def if_False simp_thms)
qed


lemma terminal_receipts:
  assumes "apply_terminal_update rid u d = Inr d'"
  shows "db_receipts d' = db_receipts d" "db_calls d' = db_calls d"
proof -
  have close: "db_receipts d2 = db_receipts d1 \<and> db_calls d2 = db_calls d1"
    if "close_turn turn message f g d1 = Inr d2" for turn message f g d1 d2
    using that unfolding close_turn_Inr by simp
  have "db_receipts d' = db_receipts d \<and> db_calls d' = db_calls d"
  proof (cases rule: apply_terminal_cases [of u])
    case (1 turn message b trace fr ts)
    then show ?thesis using assms unfolding 1 apply_terminal_update.simps apply_audit_Inr by (auto dest: close)
  next
    case 2
    then show ?thesis using close assms by metis
  qed
  then show "db_receipts d' = db_receipts d" "db_calls d' = db_calls d" by simp_all
qed

definition receipt_row_loads :: "receipt_row \<Rightarrow> bool" where
  "receipt_row_loads r \<longleftrightarrow> parse_tool_name (rr_tool_name r) = Inr (ter_tool_name (rr_receipt r))
     \<and> is_ok (parse_egress_status (rr_status r))"

definition call_row_loads :: "call_row \<Rightarrow> bool" where
  "call_row_loads r \<longleftrightarrow> is_ok (call_of_row (cl_trace r) r)"

lemma parse_wire_name [simp]: "parse_tool_name (wire_name n) = Inr n"
  by (cases n) (simp_all add: parse_tool_name_def all_tool_names_def)

lemma parse_status_text [simp]: "parse_tool_call_status (call_status_text s) = Inr s"
  by (cases s) (simp_all add: parse_tool_call_status_def)

lemma parse_egress_text [simp]: "parse_egress_status (egress_status_text s) = Inr s"
  by (cases s) (simp_all add: parse_egress_status_def)

lemma unat_less_bytes [simp]: "unat (w :: 8 word) < 256" "unat (v :: 32 word) < 4294967296"
  using unsigned_less [of w, where ?'a = nat] unsigned_less [of v, where ?'a = nat] by simp_all

lemma call_loads_back: "call_of_row i (call_row_of i c) = Inr (c\<lparr>cr_trace_id := i\<rparr>)"
  by (simp add: call_of_row_def call_row_of_def)

lemma written_call_loads: "call_row_loads (call_row_of i c)"
proof -
  have "cl_trace (call_row_of i c) = i" by (simp add: call_row_of_def)
  then show ?thesis by (simp add: call_row_loads_def call_loads_back)
qed

lemma prepared_receipt_loads:
  "receipt_row_loads \<lparr> rr_receipt = r, rr_tool_name = wire_name (ter_tool_name r), rr_status = ''Prepared'',
     rr_updated_at = ts, rr_owner = w \<rparr>"
  using parse_egress_text [of Prepared] by (simp add: receipt_row_loads_def del: parse_egress_text)

lemma exec_receipts:
  assumes "exec_op op d = Inr d'" and "structure_ok d"
  obtains "db_receipts d' = db_receipts d" | r where "db_receipts d' = db_receipts d @ [r]" "receipt_row_loads r"
  | p n now where "n \<in> {Sent, EgressFailed, OutcomeUnknown}"
      "\<And>r. r \<in> set (db_receipts d) \<Longrightarrow> p r \<Longrightarrow> rr_status r = ''Prepared''"
      "db_receipts d' = update_where p (\<lambda>r. r\<lparr>rr_status := egress_status_text n, rr_updated_at := now\<rparr>) (db_receipts d)"
  | removed operation now i where "op = OpDelete removed operation now i" "d' = cascade_conversation i d"
proof (cases op)
  case (OpPrepareReceipt owner r)
  then show thesis using assms(1) that(2) prepared_receipt_loads
    by (auto simp only: exec_op.simps prepare_receipt_row_Inr db.simps) simp
next
  case (OpDelete removed operation now i)
  then obtain r where "delete_conversation removed operation now i d = Inr (d', r)"
    using assms(1) by (auto simp only: exec_op.simps then_do_Inr sum.inject fst_conv)
  then show thesis unfolding delete_Inr using that(4) [OF OpDelete] by blast
next
  case (OpCas now ids expected nxt)
  let ?rows = "db_receipts d"
  obtain rows where e: "expected = Prepared" "nxt \<in> {Sent, EgressFailed, OutcomeUnknown}" "distinct ids"
    and check: "check_batch expected ?rows None ids = Inr ()"
    and apply_b: "apply_batch now expected nxt ids ?rows = Inr rows" and d': "d' = d\<lparr>db_receipts := rows\<rparr>"
    using assms(1) unfolding OpCas exec_op.simps cas_Inr by blast
  have all: "\<forall>i \<in> set ids. \<exists>r \<in> set ?rows. receipt_id r = i \<and> rr_status r = egress_status_text Prepared"
    using check unfolding check_batch_Inr [OF structure_keys(4) [OF assms(2)]] e(1) by blast
  have "rr_status r = ''Prepared''" if r: "r \<in> set ?rows" "receipt_id r \<in> set ids" for r
  proof -
    obtain x where x: "x \<in> set ?rows" "receipt_id x = receipt_id r" "rr_status x = egress_status_text Prepared"
      using all r(2) by blast
    have "x = r" by (rule distinct_key_unique [OF structure_keys(4) [OF assms(2)] x(1) r(1) x(2)])
    then show ?thesis using x(3) by simp
  qed
  note prepared = this
  have "db_receipts d' = update_where (\<lambda>r. receipt_id r \<in> set ids)
      (\<lambda>r. r\<lparr>rr_status := egress_status_text nxt, rr_updated_at := now\<rparr>) ?rows"
    using apply_b apply_batch_Inr [OF structure_keys(4) [OF assms(2)] e(3) all, of now nxt] e(1) d' by simp
  then show thesis by (rule that(3) [rotated 2]) (fact e(2), fact prepared)
next
  case (OpStart owner pid now)
  then have "db_receipts d' = update_where (\<lambda>r. rr_status r = ''Prepared'')
      (\<lambda>r. r\<lparr>rr_status := egress_status_text OutcomeUnknown, rr_updated_at := now\<rparr>) (db_receipts d)"
    using acquire_exact(3) assms(1) by simp
  then show thesis by (rule that(3) [rotated 2]) simp_all
next
  case (OpCreate i now draft)
  then obtain c where "create_conversation i now draft d = Inr (d', c)"
    using assms(1) by (auto simp only: exec_op.simps then_do_Inr sum.inject fst_conv)
  then show thesis using that(1) create_frame(2) by blast
next
  case (OpFinishGrounded now rid t u)
  then obtain d1 where w: "write_grounding_trace now t d = Inr d1" and a: "apply_terminal_update rid u d1 = Inr d'"
    using assms(1) by (auto simp only: exec_op.simps finish_grounded_Inr)
  then show thesis using that(1) terminal_receipts write_trace_frame(4) by metis
next
  case (OpPrepareTrace now t)
  then have "write_grounding_trace now t d = Inr d'" using assms(1) by (simp only: exec_op.simps prepare_grounding_trace_def)
  then show thesis using that(1) write_trace_frame(4) by blast
next
  case (OpFinish rid u)
  then show thesis using that(1) terminal_receipts assms(1) by (simp only: exec_op.simps finish_turn_def)
next
  case (OpBegin s)
  then show thesis using that(1) assms(1) by (auto simp: begin_turn_Inr insert_turn_Inr insert_message_Inr)
qed (use that(1) assms(1) in \<open>auto simp: bind_Inr save_consent_Inr delta_Inr mark_snapshot_changed_def Let_def
      revoke_repository_consent_def release_runtime_ownership_def\<close>)+

text \<open>An operation stores no other call rows than those \<open>write_grounding_trace\<close> encodes.\<close>

lemma write_trace_calls:
  assumes "write_grounding_trace now t d = Inr d'"
  shows "set (db_calls d') \<subseteq> set (db_calls d) \<union> range (call_row_of (gt_id t))"
  using assms unfolding write_trace_Inr insert_calls_Inr by auto

lemma exec_calls_frame:
  assumes "exec_op op d = Inr d'" and "\<nexists>removed operation now i. op = OpDelete removed operation now i"
    and "\<nexists>now rid t u. op = OpFinishGrounded now rid t u" and "\<nexists>now t. op = OpPrepareTrace now t"
  shows "db_calls d' = db_calls d"
proof (cases op)
  case (OpCreate i now draft)
  then obtain c where "create_conversation i now draft d = Inr (d', c)"
    using assms(1) by (auto simp only: exec_op.simps then_do_Inr sum.inject fst_conv)
  then show ?thesis by (rule create_frame(3))
next
  case (OpFinish rid u)
  then show ?thesis using terminal_receipts(2) assms(1) by (simp only: exec_op.simps finish_turn_def)
next
  case (OpBegin s)
  then show ?thesis using assms(1) by (auto simp: begin_turn_Inr insert_turn_Inr insert_message_Inr)
next
  case (OpCas now ids expected nxt)
  then obtain rows where "d' = d\<lparr>db_receipts := rows\<rparr>" using assms(1) by (auto simp only: exec_op.simps cas_Inr)
  then show ?thesis by simp
next
  case (OpStart owner pid now)
  then show ?thesis using assms(1) by (auto simp: acquire_runtime_ownership_def Let_def)
qed (use assms in \<open>auto simp: bind_Inr save_consent_Inr delta_Inr mark_snapshot_changed_def Let_def prepare_receipt_row_Inr
      revoke_repository_consent_def release_runtime_ownership_def\<close>)+

lemma exec_calls:
  assumes "exec_op op d = Inr d'"
  shows "set (db_calls d') \<subseteq> set (db_calls d) \<union> (\<Union>i. range (call_row_of i))"
proof -
  consider removed operation now i where "op = OpDelete removed operation now i"
    | now rid t u where "op = OpFinishGrounded now rid t u" | now t where "op = OpPrepareTrace now t"
    | "db_calls d' = db_calls d"
    using exec_calls_frame [OF assms] by blast
  then show ?thesis
  proof cases
    case (1 removed operation now i)
    then obtain r where "delete_conversation removed operation now i d = Inr (d', r)"
      using assms by (auto simp only: exec_op.simps then_do_Inr sum.inject fst_conv)
    then have "d' = cascade_conversation i d" unfolding delete_Inr by blast
    then have "set (db_calls d') \<subseteq> set (db_calls d)" by auto
    then show ?thesis by (rule le_supI1)
  next
    case (2 now rid t u)
    then obtain d1 where w: "write_grounding_trace now t d = Inr d1" and a: "apply_terminal_update rid u d1 = Inr d'"
      using assms by (auto simp only: exec_op.simps finish_grounded_Inr)
    show ?thesis unfolding terminal_receipts(2) [OF a] using write_trace_calls [OF w] by blast
  next
    case (3 now t)
    then have "write_grounding_trace now t d = Inr d'" using assms by (simp only: exec_op.simps prepare_grounding_trace_def)
    from write_trace_calls [OF this] show ?thesis by blast
  next
    case 4
    then show ?thesis by (simp only: Un_upper1)
  qed
qed

text \<open>Every stored call and every stored receipt decodes, after any operation.\<close>

definition rows_load :: "db \<Rightarrow> bool" where
  "rows_load d \<longleftrightarrow> (\<forall>r \<in> set (db_calls d). call_row_loads r) \<and> (\<forall>r \<in> set (db_receipts d). receipt_row_loads r)"

lemma exec_rows_load:
  assumes "exec_op op d = Inr d'" and "structure_ok d" and "rows_load d"
  shows "rows_load d'"
proof -
  have "\<forall>r \<in> set (db_calls d'). call_row_loads r"
    using exec_calls [OF assms(1)] assms(3) written_call_loads unfolding rows_load_def by blast
  moreover have "\<forall>r \<in> set (db_receipts d'). receipt_row_loads r"
  proof (cases rule: exec_receipts [OF assms(1,2)])
    case (3 p n now)
    have moved: "receipt_row_loads (r\<lparr>rr_status := egress_status_text n, rr_updated_at := now\<rparr>)"
      if "receipt_row_loads r" for r
      using that by (simp add: receipt_row_loads_def)
    show ?thesis using assms(3) moved unfolding 3(3) rows_load_def update_where_def by auto
  qed (use assms(3) in \<open>auto simp: rows_load_def\<close>)
  ultimately show ?thesis by (simp add: rows_load_def)
qed

lemma reachable_rows_load: "reachable d \<Longrightarrow> rows_load d"
proof (induction rule: reachable.induct)
  case (reachable_step d op d')
  then show ?case using exec_rows_load reachable_ok by blast
qed (simp add: rows_load_def empty_db_def)

lemma collect_results_ok: "(\<And>x. x \<in> set xs \<Longrightarrow> is_ok (f x)) \<Longrightarrow> is_ok (collect_results f xs)"
proof (induction xs)
  case (Cons x xs)
  then have "is_ok (f x)" "is_ok (collect_results f xs)" by simp_all
  then obtain y ys where "f x = Inr y" "collect_results f xs = Inr ys" unfolding is_ok_iff by blast
  then show ?case by simp
qed simp

lemma trace_loads:
  assumes "rows_load d" and "t \<in> set (db_traces d)"
  shows "\<exists>g. load_grounding_trace (tr_id t) d = Inr (Some g)"
proof -
  let ?calls = "sort_key (\<lambda>r. (cl_round r, cl_call r)) (filter (\<lambda>r. cl_trace r = tr_id t) (db_calls d))"
  obtain h where h: "List.find (\<lambda>x. tr_id x = tr_id t) (db_traces d) = Some h"
    using assms(2) by (cases "List.find (\<lambda>x. tr_id x = tr_id t) (db_traces d)") (auto simp: find_None_iff)
  have "is_ok (collect_results (call_of_row (tr_id t)) ?calls)"
  proof (rule collect_results_ok)
    fix r assume "r \<in> set ?calls"
    then have "r \<in> set (db_calls d)" "cl_trace r = tr_id t" by simp_all
    then show "is_ok (call_of_row (tr_id t) r)" using assms(1) unfolding rows_load_def call_row_loads_def by auto
  qed
  then obtain cs where "collect_results (call_of_row (tr_id t)) ?calls = Inr cs" unfolding is_ok_iff by blast
  then show ?thesis unfolding load_grounding_trace_def h by simp
qed

lemma parsed_egress_text: "parse_egress_status s = Inr st \<Longrightarrow> s = egress_status_text st"
  by (auto simp: parse_egress_status_def split: if_splits)

lemma receipt_loads:
  assumes "rows_load d" and "structure_ok d" and r: "r \<in> set (db_receipts d)"
  shows "\<exists>st. rr_status r = egress_status_text st \<and> load_tool_egress_receipt (receipt_id r) d
    = Inr (Some ((rr_receipt r)\<lparr>ter_status := st, ter_updated_at := rr_updated_at r\<rparr>))"
proof -
  obtain x where x: "List.find (\<lambda>x. receipt_id x = receipt_id r) (db_receipts d) = Some x"
    using r by (cases "List.find (\<lambda>x. receipt_id x = receipt_id r) (db_receipts d)") (auto simp: find_None_iff)
  then have "x \<in> set (db_receipts d)" "receipt_id x = receipt_id r" by (auto dest: find_Some_set)
  then have "x = r" using distinct_key_unique [OF structure_keys(4) [OF assms(2)] _ r] by blast
  moreover obtain st where st: "parse_egress_status (rr_status r) = Inr st"
    using assms(1) r unfolding rows_load_def receipt_row_loads_def is_ok_iff by blast
  moreover have "parse_tool_name (rr_tool_name r) = Inr (ter_tool_name (rr_receipt r))"
    using assms(1) r unfolding rows_load_def receipt_row_loads_def by blast
  ultimately have "load_tool_egress_receipt (receipt_id r) d
      = Inr (Some ((rr_receipt r)\<lparr>ter_status := st, ter_updated_at := rr_updated_at r\<rparr>))"
    using x by (simp add: load_tool_egress_receipt_def)
  then show ?thesis using parsed_egress_text [OF st] by blast
qed

section \<open>Closing an open turn\<close>

lemma closed_turn_conflict:
  assumes "structure_ok d" and "t \<in> set (db_turns d)" "turn_completed_at t \<noteq> None" and u: "tu_turn_id u = turn_id t"
  shows "\<not> is_ok (apply_terminal_update rid u d)"
proof
  assume "is_ok (apply_terminal_update rid u d)"
  then obtain d' where a: "apply_terminal_update rid u d = Inr d'" by (auto simp: is_ok_iff)
  have no: "count_where (\<lambda>x. turn_id x = turn_id t \<and> turn_completed_at x = None) (db_turns d) \<noteq> 1"
  proof
    assume "count_where (\<lambda>x. turn_id x = turn_id t \<and> turn_completed_at x = None) (db_turns d) = 1"
    then obtain x where "filter (\<lambda>x. turn_id x = turn_id t \<and> turn_completed_at x = None) (db_turns d) = [x]"
      unfolding count_where_one by blast
    then have x: "x \<in> set (db_turns d)" "turn_id x = turn_id t" "turn_completed_at x = None"
      by (auto simp: filter_eq_Cons_iff)
    have "x = t" by (rule distinct_key_unique [OF structure_keys(1) [OF assms(1)] x(1) assms(2) x(2)])
    then show False using x(3) assms(3) by simp
  qed
  show False
  proof (cases rule: apply_terminal_cases [of u])
    case (1 turn message b trace fr ts)
    then show False using a u no unfolding 1 apply_terminal_update.simps apply_audit_Inr close_turn_Inr by simp
  next
    case 2
    then show False using a u no unfolding 2 close_turn_Inr by simp
  qed
qed

lemma open_turn_closes:
  assumes "structure_ok d" "content_ok d" and t: "t \<in> set (db_turns d)" "turn_completed_at t = None"
  obtains m where "m \<in> set (db_messages d)" "mr_turn m = turn_id t" "mr_role m = ''Assistant''" "open_status (mr_status m)"
    "\<And>f g. is_ok (close_turn (turn_id t) (mr_id m) f g d)"
proof -
  obtain m where ans: "answers_of d (turn_id t) = [m]" and "(turn_completed_at t = None) = open_status (mr_status m)"
    by (rule turn_okE [OF content_okD(1) [OF assms(2) t(1)]])
  then have o: "open_status (mr_status m)" using t(2) by simp
  have "m \<in> set (answers_of d (turn_id t))" using ans by simp
  then have m: "m \<in> set (db_messages d)" "mr_turn m = turn_id t" "mr_role m = ''Assistant''" by (simp_all add: answers_of_def)
  have "count_where (\<lambda>x. mr_id x = mr_id m \<and> mr_turn x = turn_id t \<and> mr_role x = ''Assistant'' \<and> open_status (mr_status x))
      (db_messages d) = 1"
    by (rule count_where_key [OF structure_keys(2) [OF assms(1)] m(1)]) (use m o in simp_all)
  moreover have "count_where (\<lambda>x. turn_id x = turn_id t \<and> turn_completed_at x = None) (db_turns d) = 1"
    by (rule count_where_key [OF structure_keys(1) [OF assms(1)] t(1)]) (use t in simp_all)
  ultimately have "is_ok (close_turn (turn_id t) (mr_id m) f g d)" for f g
    unfolding is_ok_iff close_turn_Inr by blast
  then show thesis using that m o by blast
qed

section \<open>Runs of operations\<close>

fun run_ops :: "db_op list \<Rightarrow> db \<Rightarrow> db result" where
  "run_ops [] d = Inr d"
| "run_ops (op # ops) d = then_do (exec_op op d) (run_ops ops)"

lemma run_ops_reachable: "run_ops ops d = Inr d' \<Longrightarrow> reachable d \<Longrightarrow> reachable d'"
proof (induction ops arbitrary: d)
  case (Cons op ops)
  then show ?case using reachable_step by (auto simp: then_do_Inr)
qed simp

lemma empty_reaches: "run_ops ops (empty_db profiles) = Inr d \<Longrightarrow> reachable d"
  by (rule run_ops_reachable [OF _ reachable_init])

lemma run_ops_append: "run_ops (xs @ ys) d = then_do (run_ops xs d) (run_ops ys)"
proof (induction xs arbitrary: d)
  case (Cons op xs)
  then show ?case by (cases "exec_op op d") simp_all
qed simp

definition demo_turn :: conversation_turn where
  "demo_turn = \<lparr> turn_id = 2, turn_conversation_id = 1, turn_sequence = 1, turn_prompt_profile_id = 7,
     turn_prompt_revision_id = 8, turn_kernel_version = ''k'', turn_kernel_digest = ''h'', turn_snapshot_id = None,
     turn_response_contract = ContractAdvisor, turn_audit_result_id = None, turn_started_at = 10, turn_completed_at = None \<rparr>"

definition demo_message :: "uuid \<Rightarrow> chat_role \<Rightarrow> nat \<Rightarrow> string \<Rightarrow> message_status \<Rightarrow> chat_message" where
  "demo_message i role n s st = \<lparr> msg_id = i, msg_conversation_id = 1, msg_turn_id = 2, msg_role = role, msg_ordinal = n,
     msg_markdown = s, msg_status = st, msg_source_ref_ids = [], msg_grounding_trace_id = None,
     msg_grounding_freshness = None, msg_created_at = 10, msg_updated_at = 10 \<rparr>"

definition demo_target :: provider_binding where
  "demo_target = \<lparr> pb_profile_id = 7, pb_provider = ''OpenAi'', pb_endpoint_identity = ''https://h/'', pb_model_id = ''m'',
     pb_target_digest = ''t'' \<rparr>"

definition demo_sealed :: "uuid \<Rightarrow> tool_egress_receipt" where
  "demo_sealed i = \<lparr> ter_id = i, ter_seal_version = ''v'', ter_trace_id = 5, ter_consent_scope_id = 6,
     ter_conversation_id = 1, ter_turn_id = 2, ter_tool_call_id = 30, ter_repository_id = 20, ter_snapshot_id = 21,
     ter_tool_name = SearchText, ter_canonical_refs = [], ter_provider_binding = demo_target,
     ter_semantic_digest = ''s'', ter_body_digest = ''b'', ter_canonical_digest = ''c'', ter_status = Prepared,
     ter_prepared_at = 12, ter_updated_at = 12 \<rparr>"

definition demo_ops :: "db_op list" where
  "demo_ops = [OpCreate 1 9 \<lparr> nc_repository_id = None, nc_active_snapshot_id = None, nc_prompt_profile_id = 7,
        nc_persistence = Durable \<rparr>,
     OpBegin \<lparr> ts_turn = demo_turn, ts_user_message = demo_message 3 RoleUser 1 ''q'' MsgCompleted,
        ts_assistant_placeholder = demo_message 4 RoleAssistant 2 [] MsgPending \<rparr>,
     OpDelta 11 4 ''an'',
     OpPrepareTrace 12 \<lparr> gt_id = 5, gt_conversation_id = 1, gt_turn_id = 2, gt_snapshot_id = None, gt_tool_calls = [],
        gt_source_refs = [], gt_egress_receipt_ids = [], gt_freshness = FreshAtSend \<rparr>,
     OpSaveConsent \<lparr> cs_id = 6, cs_conversation_id = 1, cs_repository_id = 20, cs_snapshot_id = 21,
        cs_provider_binding = demo_target, cs_kind = RepositorySession, cs_granted_at = 10, cs_revoked_at = None \<rparr>,
     OpPrepareReceipt 40 (demo_sealed 50), OpPrepareReceipt 40 (demo_sealed 51)]"

definition demo_db :: db where
  "demo_db = (case run_ops demo_ops (empty_db [7]) of Inr d \<Rightarrow> d | Inl _ \<Rightarrow> empty_db [])"

definition demo_stored :: receipt_row where
  "demo_stored = \<lparr> rr_receipt = demo_sealed 50, rr_tool_name = ''search_text'', rr_status = ''Prepared'',
     rr_updated_at = 12, rr_owner = Some 40 \<rparr>"

text \<open>What the witnesses below evaluate, in one run.\<close>

lemmas demo_defs = demo_ops_def demo_turn_def demo_message_def demo_sealed_def demo_stored_def empty_db_def
  create_conversation_def conversation_new_def begin_turn_def turn_start_valid_def insert_turn_def insert_message_def insert_row_def
  message_row_of_def fits_i64_def append_assistant_delta_def count_where_def open_status_def update_where_def
  prepare_grounding_trace_def write_grounding_trace_def upsert_trace_def trace_row_of_def
  save_repository_consent_scope_def prepare_tool_egress_receipt_def receipt_id_def Let_def
  cas_status_batch_def delete_conversation_def

lemma demo_checks:
  "(case run_ops demo_ops (empty_db [7]) of Inl e \<Rightarrow> None
    | Inr d \<Rightarrow> Some (map (\<lambda>op. is_ok (exec_op op d)) [OpDelta 13 4 ''swer'', OpCas 14 [50, 51] Prepared Sent,
          OpDelete (Inr []) 70 17 1], map (\<lambda>t. (turn_id t, turn_completed_at t)) (db_turns d), db_receipts d))
   = Some ([True, True, True], [(2, None)], [demo_stored, demo_stored\<lparr>rr_receipt := demo_sealed 51\<rparr>])"
  by (simp add: demo_defs)

lemma demo_run: "run_ops demo_ops (empty_db [7]) = Inr demo_db"
  using demo_checks by (cases "run_ops demo_ops (empty_db [7])") (simp_all only: demo_db_def sum.case option.distinct)

lemmas demo_evaluated = demo_checks [unfolded demo_run sum.case option.inject prod.inject list.map list.inject]

lemma demo_delta_ok: "is_ok (exec_op (OpDelta 13 4 ''swer'') demo_db)"
  and demo_batch_ok: "is_ok (exec_op (OpCas 14 [50, 51] Prepared Sent) demo_db)"
  and demo_delete_ok: "is_ok (exec_op (OpDelete (Inr []) 70 17 1) demo_db)"
  and demo_turns: "map (\<lambda>t. (turn_id t, turn_completed_at t)) (db_turns demo_db) = [(2, None)]"
  and demo_receipts: "db_receipts demo_db = [demo_stored, demo_stored\<lparr>rr_receipt := demo_sealed 51\<rparr>]"
  using demo_evaluated by (simp_all only: simp_thms)

lemma demo_reachable: "reachable demo_db"
  by (rule empty_reaches [OF demo_run])

section \<open>The contract\<close>

text \<open>C5: In every database reachable from an empty one by the operations of the store: the primary and unique keys
  and the foreign keys hold; every turn has exactly one answer, which is open exactly as long as the
  turn is not completed; every message belongs to the conversation of its turn, and its role and
  status decode; a stored audit result belongs to a completed audit turn that names it and carries no
  raw response; every stored trace loads, so that each of its call rows decodes (round, tool name,
  byte count and status); and every stored receipt loads as the sealed receipt, with the state and
  the time its row has.\<close>

theorem reachable_db_inv:
  assumes "reachable d"
  shows "db_inv d
    \<and> (\<forall>t. t \<in> set (db_traces d) \<longrightarrow> (\<exists>g. load_grounding_trace (tr_id t) d = Inr (Some g)))
    \<and> (\<forall>r. r \<in> set (db_receipts d) \<longrightarrow> (\<exists>st. rr_status r = egress_status_text st
         \<and> load_tool_egress_receipt (receipt_id r) d
           = Inr (Some ((rr_receipt r)\<lparr>ter_status := st, ter_updated_at := rr_updated_at r\<rparr>))))"
proof (intro conjI allI impI)
  have s: "structure_ok d" and c: "content_ok d" using reachable_ok [OF assms] by simp_all
  note loads = reachable_rows_load [OF assms]
  show "db_inv d" using s c by (simp only: db_inv_split)
  show "\<exists>g. load_grounding_trace (tr_id t) d = Inr (Some g)" if "t \<in> set (db_traces d)" for t
    by (rule trace_loads [OF loads that])
  show "\<exists>st. rr_status r = egress_status_text st \<and> load_tool_egress_receipt (receipt_id r) d
      = Inr (Some ((rr_receipt r)\<lparr>ter_status := st, ter_updated_at := rr_updated_at r\<rparr>))"
    if "r \<in> set (db_receipts d)" for r by (rule receipt_loads [OF loads s that])
qed

lemma reachable_db_inv_witness:
  "reachable demo_db \<and> db_inv demo_db \<and> (\<exists>st. ''Prepared'' = egress_status_text st
     \<and> load_tool_egress_receipt 50 demo_db = Inr (Some ((demo_sealed 50)\<lparr>ter_status := st, ter_updated_at := 12\<rparr>)))"
proof -
  have r: "demo_stored \<in> set (db_receipts demo_db)" using demo_receipts by simp
  note p = reachable_db_inv [OF demo_reachable]
  from p r have "\<exists>st. rr_status demo_stored = egress_status_text st \<and> load_tool_egress_receipt (receipt_id demo_stored) demo_db
      = Inr (Some ((rr_receipt demo_stored)\<lparr>ter_status := st, ter_updated_at := rr_updated_at demo_stored\<rparr>))" by blast
  moreover have "rr_status demo_stored = ''Prepared''" "receipt_id demo_stored = 50"
    "rr_receipt demo_stored = demo_sealed 50" "rr_updated_at demo_stored = 12"
    by (simp_all add: demo_stored_def demo_sealed_def receipt_id_def)
  ultimately show ?thesis using p demo_reachable by (simp only: simp_thms)
qed

text \<open>C4: Every operation of the store follows the abstract machine of turns: an answer begins open for a turn that has
  none, grows by its deltas at the end, is finished once, is interrupted by a restart when still open,
  and disappears with its conversation. A finished answer is never rewritten.\<close>

theorem operations_refine_turn_machine:
  assumes "reachable d" and "exec_op op d = Inr d'"
  shows "turn_machine (answer_of d) (answer_of d')"
  using exec_machine [OF assms(2)] reachable_ok [OF assms(1)] by blast

lemma operations_refine_turn_machine_witness:
  "reachable demo_db \<and> (\<exists>d'. exec_op (OpDelta 13 4 ''swer'') demo_db = Inr d' \<and> turn_machine (answer_of demo_db) (answer_of d'))"
proof -
  obtain d' where "exec_op (OpDelta 13 4 ''swer'') demo_db = Inr d'" using demo_delta_ok unfolding is_ok_iff by blast
  then show ?thesis using operations_refine_turn_machine [OF demo_reachable] demo_reachable by blast
qed

lemma batch_exact:
  assumes "structure_ok d"
  shows "cas_status_batch now ids Prepared nxt d = Inr d' \<longleftrightarrow>
    nxt \<noteq> Prepared \<and> ids \<noteq> [] \<and> distinct ids
    \<and> (\<exists>body. \<forall>i \<in> set ids. \<exists>r \<in> set (db_receipts d). receipt_id r = i \<and> rr_status r = ''Prepared''
          \<and> ter_body_digest (rr_receipt r) = body)
    \<and> d' = d\<lparr>db_receipts := map (\<lambda>r. if receipt_id r \<in> set ids
          then r\<lparr>rr_status := egress_status_text nxt, rr_updated_at := now\<rparr> else r) (db_receipts d)\<rparr>"
proof -
  have k: "distinct (map receipt_id (db_receipts d))" by (rule structure_keys(4) [OF assms])
  have n: "nxt \<in> {Sent, EgressFailed, OutcomeUnknown} \<longleftrightarrow> nxt \<noteq> Prepared" by (cases nxt) auto
  have batch: "apply_batch now Prepared nxt ids (db_receipts d) = Inr (map (\<lambda>r. if receipt_id r \<in> set ids
          then r\<lparr>rr_status := egress_status_text nxt, rr_updated_at := now\<rparr> else r) (db_receipts d))"
    if "distinct ids" "\<forall>i \<in> set ids. \<exists>r \<in> set (db_receipts d). receipt_id r = i \<and> rr_status r = ''Prepared''"
    using apply_batch_Inr [OF k that(1), of Prepared now nxt] that(2) by (simp add: update_where_def)
  have checked: "check_batch Prepared (db_receipts d) None ids = Inr () \<longleftrightarrow>
      (\<exists>body. \<forall>i \<in> set ids. \<exists>r \<in> set (db_receipts d). receipt_id r = i \<and> rr_status r = ''Prepared''
          \<and> ter_body_digest (rr_receipt r) = body)" (is "_ \<longleftrightarrow> ?body")
    unfolding check_batch_Inr [OF k] by simp
  have "?body \<Longrightarrow> \<forall>i \<in> set ids. \<exists>r \<in> set (db_receipts d). receipt_id r = i \<and> rr_status r = ''Prepared''" by blast
  then have "distinct ids \<Longrightarrow> ?body \<Longrightarrow> apply_batch now Prepared nxt ids (db_receipts d) = Inr (map (\<lambda>r. if receipt_id r \<in> set ids
          then r\<lparr>rr_status := egress_status_text nxt, rr_updated_at := now\<rparr> else r) (db_receipts d))"
    using batch by blast
  then show ?thesis
    unfolding cas_Inr n checked
    by (cases "distinct ids \<and> ?body") (simp only: simp_thms sum.inject, argo)
qed

text \<open>A batch of receipts changes state all or nothing: it succeeds exactly when the target state is a terminal one,
  the ids are distinct and not empty, and all of them are stored, still prepared and seal the same
  body; then precisely these rows have the new state and nothing else changed.\<close>

theorem receipt_batch_exact:
  assumes "reachable d"
  shows "cas_status_batch now ids Prepared nxt d = Inr d' \<longleftrightarrow>
    nxt \<noteq> Prepared \<and> ids \<noteq> [] \<and> distinct ids
    \<and> (\<exists>body. \<forall>i \<in> set ids. \<exists>r \<in> set (db_receipts d). receipt_id r = i \<and> rr_status r = ''Prepared''
          \<and> ter_body_digest (rr_receipt r) = body)
    \<and> d' = d\<lparr>db_receipts := map (\<lambda>r. if receipt_id r \<in> set ids
          then r\<lparr>rr_status := egress_status_text nxt, rr_updated_at := now\<rparr> else r) (db_receipts d)\<rparr>"
  using reachable_ok [OF assms] by (intro batch_exact) blast

text \<open>C34: The state of a receipt moves at most once: under every operation a stored receipt keeps its sealed content and
  its owner, and its row is unchanged unless it was still prepared and becomes sent, failed or of
  unknown outcome; a row goes only with the conversation of its trace or of its consent.\<close>

theorem receipt_state_moves_once:
  assumes "reachable d" and "exec_op op d = Inr d'" and r: "r \<in> set (db_receipts d)"
  shows "(\<exists>r' \<in> set (db_receipts d'). rr_receipt r' = rr_receipt r \<and> rr_owner r' = rr_owner r
        \<and> (r' = r \<or> rr_status r = ''Prepared'' \<and> rr_status r' \<in> {''Sent'', ''Failed'', ''OutcomeUnknown''}))
    \<or> (\<exists>removed operation now i. op = OpDelete removed operation now i
        \<and> (ter_trace_id (rr_receipt r) \<in> traces_of i d \<or> ter_consent_scope_id (rr_receipt r) \<in> consents_of i d))"
proof (rule exec_receipts [OF assms(2)])
  fix p n now
  assume n: "n \<in> {Sent, EgressFailed, OutcomeUnknown}"
    and p: "\<And>r. r \<in> set (db_receipts d) \<Longrightarrow> p r \<Longrightarrow> rr_status r = ''Prepared''"
    and d': "db_receipts d' = update_where p (\<lambda>r. r\<lparr>rr_status := egress_status_text n, rr_updated_at := now\<rparr>) (db_receipts d)"
  let ?r = "if p r then r\<lparr>rr_status := egress_status_text n, rr_updated_at := now\<rparr> else r"
  have "?r \<in> set (db_receipts d')" unfolding d' update_where_set using r by blast
  moreover have "egress_status_text n \<in> {''Sent'', ''Failed'', ''OutcomeUnknown''}" using n by auto
  then have "rr_receipt ?r = rr_receipt r \<and> rr_owner ?r = rr_owner r
      \<and> (?r = r \<or> rr_status r = ''Prepared'' \<and> rr_status ?r \<in> {''Sent'', ''Failed'', ''OutcomeUnknown''})"
    using p [OF r] by simp
  ultimately show ?thesis by blast
next
  fix removed operation now i
  assume "op = OpDelete removed operation now i" "d' = cascade_conversation i d"
  then show ?thesis using r
    by (cases "ter_trace_id (rr_receipt r) \<in> traces_of i d \<or> ter_consent_scope_id (rr_receipt r) \<in> consents_of i d") auto
qed (use r reachable_ok [OF assms(1)] in auto)

lemma receipt_batch_exact_witness:
  "reachable demo_db \<and> (\<exists>body. \<forall>i \<in> {50, 51}. \<exists>r \<in> set (db_receipts demo_db). receipt_id r = i \<and> rr_status r = ''Prepared''
          \<and> ter_body_digest (rr_receipt r) = body)"
proof -
  obtain d' where "cas_status_batch 14 [50, 51] Prepared Sent demo_db = Inr d'"
    using demo_batch_ok unfolding is_ok_iff exec_op.simps by blast
  from this [unfolded receipt_batch_exact [OF demo_reachable]] show ?thesis
    using demo_reachable by simp
qed

lemma receipt_state_moves_once_witness:
  "reachable demo_db \<and> demo_stored \<in> set (db_receipts demo_db)
   \<and> (\<exists>d'. exec_op (OpCas 14 [50, 51] Prepared Sent) demo_db = Inr d'
        \<and> (\<exists>r' \<in> set (db_receipts d'). rr_receipt r' = demo_sealed 50))"
proof -
  obtain d' where d': "exec_op (OpCas 14 [50, 51] Prepared Sent) demo_db = Inr d'"
    using demo_batch_ok unfolding is_ok_iff exec_op.simps by blast
  have stored: "demo_stored \<in> set (db_receipts demo_db)" by (simp add: demo_receipts)
  from receipt_state_moves_once [OF demo_reachable d' this]
  have "\<exists>r' \<in> set (db_receipts d'). rr_receipt r' = demo_sealed 50"
    by (auto simp: demo_stored_def)
  then show ?thesis using demo_reachable stored d' by blast
qed

text \<open>C29: Taking ownership at start always succeeds and leaves no receipt prepared, no answer open and no turn
  uncompleted: a prepared receipt becomes of unknown outcome, an open answer fails as interrupted,
  and everything else of receipts and messages is as before.\<close>

theorem restart_closes_everything:
  assumes "reachable d"
  shows "\<exists>d'. acquire_runtime_ownership owner pid now d = Inr d'
    \<and> (\<forall>r \<in> set (db_receipts d'). rr_status r \<noteq> ''Prepared'')
    \<and> (\<forall>m \<in> set (db_messages d'). \<not> is_open_answer m) \<and> (\<forall>t \<in> set (db_turns d'). turn_completed_at t \<noteq> None)
    \<and> db_receipts d' = map (\<lambda>r. if rr_status r = ''Prepared''
        then r\<lparr>rr_status := ''OutcomeUnknown'', rr_updated_at := now\<rparr> else r) (db_receipts d)
    \<and> db_messages d' = map (\<lambda>m. if is_open_answer m then interrupted_message now m else m) (db_messages d)
    \<and> map_option ow_owner (db_owner d') = Some owner"
proof -
  obtain d' where a: "acquire_runtime_ownership owner pid now d = Inr d'"
    by (simp add: acquire_runtime_ownership_def Let_def)
  note d' = acquire_exact [OF a]
  have closed: "\<not> is_open_answer m" if m: "m \<in> set (db_messages d')" for m
  proof -
    obtain x where "m = (if is_open_answer x then interrupted_message now x else x)"
      using m unfolding d'(1) update_where_set by blast
    then show ?thesis by (cases "is_open_answer x") (simp_all add: is_open_answer_def interrupted_closed(1))
  qed
  have turns: "turn_completed_at t \<noteq> None" if t: "t \<in> set (db_turns d')" for t
  proof -
    have "content_ok d'" using acquire_content [OF a] reachable_ok [OF assms] by blast
    then obtain m where ans: "answers_of d' (turn_id t) = [m]" and o: "(turn_completed_at t = None) = open_status (mr_status m)"
      using turn_okE content_okD(1) t by metis
    have "m \<in> set (answers_of d' (turn_id t))" using ans by simp
    then have "m \<in> set (db_messages d')" "mr_role m = ''Assistant''" by (simp_all add: answers_of_def)
    then show ?thesis using closed o by (simp add: is_open_answer_def)
  qed
  have receipts: "rr_status r \<noteq> ''Prepared''" if r: "r \<in> set (db_receipts d')" for r
  proof -
    obtain x where "r = (if rr_status x = ''Prepared'' then x\<lparr>rr_status := ''OutcomeUnknown'', rr_updated_at := now\<rparr> else x)"
      using r unfolding d'(3) update_where_set by blast
    then show ?thesis by (cases "rr_status x = ''Prepared''") simp_all
  qed
  show ?thesis
    by (intro exI [of _ d'] conjI ballI; (fact a | fact closed | fact turns | fact receipts | fact d'(1,3) [unfolded update_where_def])?)
      (simp_all add: d'(6) closed turns receipts)
qed

lemma restart_closes_everything_witness:
  "reachable demo_db \<and> (\<exists>d'. acquire_runtime_ownership 41 9 15 demo_db = Inr d'
     \<and> (\<forall>r \<in> set (db_receipts d'). rr_status r \<noteq> ''Prepared''))"
  using restart_closes_everything [OF demo_reachable, of 41 9 15] demo_reachable by blast

text \<open>C30: Every open turn can be closed, once: its answer is there, every terminal update addressed to it that is not an
  audit result succeeds, and after it no terminal update of this turn succeeds again.\<close>

theorem open_turn_closes_once:
  assumes "reachable d" and "t \<in> set (db_turns d)" "turn_completed_at t = None"
  shows "\<exists>m \<in> set (db_messages d). mr_turn m = turn_id t \<and> is_open_answer m \<and>
    (\<forall>rid u. tu_turn_id u = turn_id t \<and> tu_message_id u = mr_id m \<and> \<not> is_AuditCompleted u \<longrightarrow>
      (\<exists>d'. finish_turn rid u d = Inr d' \<and> (\<forall>rid' u'. tu_turn_id u' = turn_id t \<longrightarrow> \<not> is_ok (finish_turn rid' u' d'))))"
proof -
  have s: "structure_ok d" and c: "content_ok d" using reachable_ok [OF assms(1)] by auto
  obtain m where m: "m \<in> set (db_messages d)" "mr_turn m = turn_id t" "mr_role m = ''Assistant''" "open_status (mr_status m)"
    and close: "\<And>f g. is_ok (close_turn (turn_id t) (mr_id m) f g d)"
    by (rule open_turn_closes [OF s c assms(2,3)]) (rule that)
  have "\<exists>d'. finish_turn rid u d = Inr d' \<and> (\<forall>rid' u'. tu_turn_id u' = turn_id t \<longrightarrow> \<not> is_ok (finish_turn rid' u' d'))"
    if u: "tu_turn_id u = turn_id t" "tu_message_id u = mr_id m" "\<not> is_AuditCompleted u" for rid u
  proof -
    let ?g = "\<lambda>x. x\<lparr>turn_completed_at := Some (tu_completed_at u)\<rparr>"
    have plain: "finish_turn rid u d = close_turn (turn_id t) (mr_id m)
        (set_terminal (terminal_values u) (tu_completed_at u)) ?g d"
      using u by (cases rule: apply_terminal_cases [of u]) (simp_all add: finish_turn_def)
    then obtain d' where d': "finish_turn rid u d = Inr d'" using close unfolding is_ok_iff by metis
    have "db_turns d' = update_where (\<lambda>x. turn_id x = turn_id t \<and> turn_completed_at x = None) ?g (db_turns d)"
      using d' unfolding plain close_turn_Inr by simp
    then have "?g t \<in> set (db_turns d')"
      unfolding update_where_set [symmetric] using assms(2,3) by (auto simp: update_where_set)
    moreover have "structure_ok d'" using apply_terminal_structure s d' by (simp only: finish_turn_def)
    ultimately have "\<not> is_ok (finish_turn rid' u' d')" if "tu_turn_id u' = turn_id t" for rid' u'
      unfolding finish_turn_def using closed_turn_conflict [of d' "?g t" u' rid'] that by simp
    then show ?thesis using d' by blast
  qed
  then show ?thesis using m by (intro bexI [OF _ m(1)]) (simp add: is_open_answer_def)
qed

lemma open_turn_closes_once_witness:
  "\<exists>t \<in> set (db_turns demo_db). turn_id t = 2 \<and> turn_completed_at t = None
    \<and> (\<exists>m \<in> set (db_messages demo_db). mr_turn m = 2 \<and> is_open_answer m \<and> is_ok (finish_turn 60 (AdvisorCancelled 2 (mr_id m) ''an'' 16) demo_db))"
proof -
  obtain t where t: "t \<in> set (db_turns demo_db)" "turn_id t = 2" "turn_completed_at t = None"
    using demo_turns by auto
  from open_turn_closes_once [OF demo_reachable t(1,3)] obtain m
    where m: "m \<in> set (db_messages demo_db)" "mr_turn m = 2" "is_open_answer m"
      and u: "\<forall>rid u. tu_turn_id u = 2 \<and> tu_message_id u = mr_id m \<and> \<not> is_AuditCompleted u \<longrightarrow>
        (\<exists>d'. finish_turn rid u demo_db = Inr d' \<and> (\<forall>rid' u'. tu_turn_id u' = 2 \<longrightarrow> \<not> is_ok (finish_turn rid' u' d')))"
    unfolding t(2) by blast
  have "is_ok (finish_turn 60 (AdvisorCancelled 2 (mr_id m) ''an'' 16) demo_db)"
    using u [rule_format, of "AdvisorCancelled 2 (mr_id m) ''an'' 16" 60] by (auto simp: is_ok_iff)
  then show ?thesis using t m by blast
qed

lemma turns_of_messages:
  assumes "structure_ok d" "content_ok d" and m: "m \<in> set (db_messages d)"
  shows "mr_turn m \<in> turns_of i d \<longleftrightarrow> mr_conversation m = i"
proof -
  obtain t where "t \<in> set (db_turns d)" "turn_id t = mr_turn m" "turn_conversation_id t = mr_conversation m"
    using content_okD(2) [OF assms(2) m] unfolding message_ok_def by blast
  then show ?thesis using turns_of_iff [OF assms(1)] by metis
qed

lemma count_removed: "count_where p rs = length rs - length (filter (\<lambda>r. \<not> p r) rs)"
  using sum_length_filter_compl [of p rs] by (simp add: count_where_def)

lemma traces_of_iff:
  assumes "structure_ok d" and t: "t \<in> set (db_traces d)"
  shows "tr_id t \<in> traces_of i d \<longleftrightarrow> tr_conversation t = i \<or> tr_turn t \<in> turns_of i d"
proof
  assume "tr_id t \<in> traces_of i d"
  then obtain x where "x \<in> set (db_traces d)" "tr_id x = tr_id t" "tr_conversation x = i \<or> tr_turn x \<in> turns_of i d"
    unfolding traces_of_def by auto
  moreover from this have "x = t" using distinct_key_unique [OF structure_keys(5) [OF assms(1)] _ t] by blast
  ultimately show "tr_conversation t = i \<or> tr_turn t \<in> turns_of i d" by blast
qed (rule in_traces_of [OF t])

lemma consents_of_iff:
  assumes "structure_ok d" and c: "c \<in> set (db_consents d)"
  shows "cr_id c \<in> consents_of i d \<longleftrightarrow> cr_conversation c = i"
proof
  assume "cr_id c \<in> consents_of i d"
  then obtain x where x: "x \<in> set (db_consents d)" "cr_id x = cr_id c" "cr_conversation x = i"
    unfolding consents_of_def by auto
  have "distinct (map cr_id (db_consents d))" using assms(1) unfolding structure_defs by simp
  then have "x = c" using distinct_key_unique [OF _ x(1) c x(2)] by blast
  then show "cr_conversation c = i" using x(3) by simp
qed (rule in_consents_of [OF c])

text \<open>C13: Deleting a conversation, when the backup files could be removed, removes exactly what belongs to
  it, in every table: the conversation, its turns and messages, the traces that name it or one of
  its turns with their calls, source references and receipts, the audit results of its turns, its
  consents and the receipts that rest on them. Every other row, the prompt profiles and the runtime
  owner stay as they are, in their order. The receipt returned counts the conversation, the turns, messages
  and audit results removed, the traces that name the conversation and the receipts that name
  it.\<close>

theorem deletion_is_complete:
  assumes "reachable d" and "delete_conversation removed operation now i d = Inr (d', receipt)"
  shows "db_conversations d' = filter (\<lambda>c. cvr_id c \<noteq> i) (db_conversations d)
      \<and> db_turns d' = filter (\<lambda>t. turn_conversation_id t \<noteq> i) (db_turns d)
      \<and> db_messages d' = filter (\<lambda>m. mr_conversation m \<noteq> i) (db_messages d)
      \<and> db_traces d' = filter (\<lambda>t. tr_conversation t \<noteq> i \<and> tr_turn t \<notin> turns_of i d) (db_traces d)
      \<and> db_calls d' = filter (\<lambda>c. cl_trace c \<notin> traces_of i d) (db_calls d)
      \<and> db_sources d' = filter (\<lambda>s. so_trace s \<notin> traces_of i d) (db_sources d)
      \<and> db_audits d' = filter (\<lambda>a. au_turn a \<notin> turns_of i d) (db_audits d)
      \<and> db_consents d' = filter (\<lambda>c. cr_conversation c \<noteq> i) (db_consents d)
      \<and> db_receipts d' = filter (\<lambda>r. ter_trace_id (rr_receipt r) \<notin> traces_of i d
           \<and> ter_consent_scope_id (rr_receipt r) \<notin> consents_of i d) (db_receipts d)
      \<and> db_profile_ids d' = db_profile_ids d \<and> db_owner d' = db_owner d
      \<and> length (db_conversations d) = Suc (length (db_conversations d'))
      \<and> dr_deleted_counts receipt =
          [(''turns'', length (db_turns d) - length (db_turns d')),
           (''messages'', length (db_messages d) - length (db_messages d')),
           (''grounding_traces'', length (filter (\<lambda>t. tr_conversation t = i) (db_traces d))),
           (''egress_receipts'', length (filter (\<lambda>r. ter_conversation_id (rr_receipt r) = i) (db_receipts d))),
           (''audit_results'', length (db_audits d) - length (db_audits d')),
           (''conversations'', 1)]"
proof -
  have s: "structure_ok d" and c: "content_ok d" using reachable_ok [OF assms(1)] by auto
  have d': "d' = cascade_conversation i d" and counts: "dr_deleted_counts receipt = deleted_counts i d"
    and one: "count_where (\<lambda>c. cvr_id c = i) (db_conversations d) = 1"
    using assms(2) unfolding delete_Inr by auto
  have m: "db_messages d' = filter (\<lambda>m. mr_conversation m \<noteq> i) (db_messages d)"
    unfolding d' cascade_tables by (intro filter_cong refl) (simp add: turns_of_messages [OF s c])
  have t: "db_traces d' = filter (\<lambda>t. tr_conversation t \<noteq> i \<and> tr_turn t \<notin> turns_of i d) (db_traces d)"
    unfolding d' cascade_tables by (intro filter_cong refl) (simp add: traces_of_iff [OF s])
  have e: "db_consents d' = filter (\<lambda>c. cr_conversation c \<noteq> i) (db_consents d)"
    unfolding d' cascade_tables by (intro filter_cong refl) (simp add: consents_of_iff [OF s])
  have "length (db_conversations d) = Suc (length (db_conversations d'))"
    using one sum_length_filter_compl [of "\<lambda>c. cvr_id c = i" "db_conversations d"] unfolding d' cascade_tables count_where_def by simp
  moreover have "db_owner d' = db_owner d" by (simp add: d' cascade_conversation_def)
  moreover have "deleted_counts i d = [(''turns'', length (db_turns d) - length (db_turns d')),
           (''messages'', length (db_messages d) - length (db_messages d')),
           (''grounding_traces'', length (filter (\<lambda>t. tr_conversation t = i) (db_traces d))),
           (''egress_receipts'', length (filter (\<lambda>r. ter_conversation_id (rr_receipt r) = i) (db_receipts d))),
           (''audit_results'', length (db_audits d) - length (db_audits d')),
           (''conversations'', 1)]"
    unfolding m unfolding deleted_counts_def d' cascade_tables
    by (simp only: count_removed [of "\<lambda>t. turn_conversation_id t = i"] count_removed [of "\<lambda>m. mr_conversation m = i"]
        count_removed [of "\<lambda>a. au_turn a \<in> turns_of i d"]) (simp only: count_where_def)
  ultimately show ?thesis using m t e counts by (simp only: d' cascade_tables simp_thms)
qed

lemma deletion_is_complete_witness:
  "reachable demo_db \<and> (\<exists>d' r. delete_conversation (Inr []) 70 17 1 demo_db = Inr (d', r)
     \<and> db_messages d' = filter (\<lambda>m. mr_conversation m \<noteq> 1) (db_messages demo_db))"
proof -
  obtain d' r where "delete_conversation (Inr []) 70 17 1 demo_db = Inr (d', r)"
    using demo_delete_ok unfolding is_ok_iff exec_op.simps then_do_Inr by auto
  then show ?thesis using deletion_is_complete [OF demo_reachable] demo_reachable by blast
qed

end
