(* ===== verification/Tool_Egress_Gate.thy ===== *)
theory Tool_Egress_Gate
  imports Tool_Egress Egress Storage_Contract
begin

text \<open>
  \<open>mentat-app/src/tool_egress_gate.rs\<close>: the gate between the provider adapters and the receipt
  store. For every tool result of a provider body it seals a receipt, verifies it against the body and
  stores it as prepared; \<open>finish\<close> moves the receipts of a body to their outcome.

  The loop is written over the two store operations it calls; the locale \<open>receipt_store\<close> states what
  it relies on, and the database is an interpretation. The state of the shared revocation token at the
  \<open>k\<close>-th result is \<open>cancelled k\<close>, the fresh id and the clock there are \<open>fresh k\<close> and \<open>clock k\<close>; the
  JSON text of a result is a parameter.
\<close>

section \<open>What a body carries\<close>

definition assistant_calls :: "agent_message \<Rightarrow> repository_tool_call list" where
  "assistant_calls m =
     (case am_content m of MToolCalls calls \<Rightarrow> if am_role m = AgAssistant then calls else [] | _ \<Rightarrow> [])"

definition tool_results :: "agent_message list \<Rightarrow> repository_tool_result list" where
  "tool_results ms = concat (map (\<lambda>m. case am_content m of
     MToolResult r \<Rightarrow> if am_role m = AgTool then [r] else [] | _ \<Rightarrow> []) ms)"

text \<open>Collected into a map, so a later call with the same id wins.\<close>

definition call_names :: "agent_message list \<Rightarrow> uuid \<Rightarrow> repository_tool_name option" where
  "call_names ms =
     map_of (rev (map (\<lambda>c. (call_id c, call_name c)) (concat (map assistant_calls ms))))"

definition canonical_ref_of :: "(string \<Rightarrow> string) \<Rightarrow> source_ref \<Rightarrow> canonical_tool_ref" where
  "canonical_ref_of sha s = \<lparr> ctr_path = sr_path s, ctr_line_start = sr_line_start s, ctr_line_end = sr_line_end s,
     ctr_content_hash = sr_content_hash s, ctr_payload_digest = sha_hex sha (sr_excerpt s) \<rparr>"

definition result_envelope ::
  "(string \<Rightarrow> string) \<Rightarrow> uuid \<Rightarrow> agent_request \<Rightarrow> repository_context \<Rightarrow> provider_binding \<Rightarrow> string
   \<Rightarrow> repository_tool_name \<Rightarrow> string \<Rightarrow> repository_tool_result \<Rightarrow> tool_egress_envelope" where
  "result_envelope sha trace req ctx b body name payload r =
     \<lparr> te_trace_id = trace, te_conversation_id = ar_conversation_id req, te_turn_id = ar_turn_id req,
       te_tool_call_id = res_call_id r, te_repository_id = rc_repository_id ctx, te_snapshot_id = rc_snapshot_id ctx,
       te_tool_name = name, te_refs = map (canonical_ref_of sha) (res_source_refs r), te_provider_binding = b,
       te_semantic_payload = payload, te_exact_provider_body = body \<rparr>"

section \<open>The gate\<close>

record gate_env =
  ge_sha :: "string \<Rightarrow> string"
  ge_parse :: url_parser
  ge_uuid_text :: "uuid \<Rightarrow> string"
  ge_encode :: "repository_tool_result \<Rightarrow> string option"
  ge_fresh :: "nat \<Rightarrow> uuid"
  ge_clock :: "nat \<Rightarrow> datetime"
  ge_cancelled :: "nat \<Rightarrow> bool"

abbreviation gate_error :: "string \<Rightarrow> mentat_error" where
  "gate_error code \<equiv> BackendError code"

text \<open>Sealing the \<open>k\<close>-th result: everything of the loop body before the store is called.\<close>

definition seal_result ::
  "gate_env \<Rightarrow> consent_capability \<Rightarrow> uuid \<Rightarrow> agent_request \<Rightarrow> repository_context \<Rightarrow> provider_binding \<Rightarrow> string
   \<Rightarrow> nat \<Rightarrow> repository_tool_result \<Rightarrow> tool_egress_receipt result" where
  "seal_result g cap trace req ctx b body k r =
     (if res_snapshot_id r \<noteq> rc_snapshot_id ctx then Inl (gate_error ''TOOL_EGRESS_SNAPSHOT_MISMATCH'')
      else then_do (ok_or (call_names (ar_messages req) (res_call_id r)) (gate_error ''TOOL_EGRESS_CALL_MISSING'')) (\<lambda>name.
        then_do (ok_or (ge_encode g r) (gate_error ''TOOL_EGRESS_PAYLOAD_ENCODE_FAILED'')) (\<lambda>payload.
        then_do (prepare_receipt (ge_sha g) (ge_parse g) (ge_uuid_text g) (ge_fresh g k) (ge_clock g k)
                   (with_revocation (ge_cancelled g k) cap)
                   (result_envelope (ge_sha g) trace req ctx b body name payload r)) (\<lambda>receipt.
        then_do (verify_exact_body (ge_sha g) (ge_parse g) (ge_uuid_text g) receipt body) (\<lambda>_. Inr receipt)))))"

text \<open>\<open>fail_prepared\<close> ignores the outcome of the update.\<close>

definition fail_prepared ::
  "(uuid list \<Rightarrow> tool_egress_status \<Rightarrow> 's \<Rightarrow> 's result) \<Rightarrow> uuid list \<Rightarrow> 's \<Rightarrow> 's" where
  "fail_prepared cas ids s =
     (if ids = [] then s else case cas ids EgressFailed s of Inr s' \<Rightarrow> s' | Inl _ \<Rightarrow> s)"

fun authorize_loop ::
  "(tool_egress_receipt \<Rightarrow> 's \<Rightarrow> 's result) \<Rightarrow> (uuid list \<Rightarrow> tool_egress_status \<Rightarrow> 's \<Rightarrow> 's result)
   \<Rightarrow> (nat \<Rightarrow> repository_tool_result \<Rightarrow> tool_egress_receipt result) \<Rightarrow> nat \<Rightarrow> repository_tool_result list
   \<Rightarrow> uuid list \<Rightarrow> 's \<Rightarrow> 's \<times> uuid list result" where
  "authorize_loop prep cas seal k [] prepared s = (s, Inr prepared)"
| "authorize_loop prep cas seal k (r # rs) prepared s =
     (case seal k r of
        Inl e \<Rightarrow> (fail_prepared cas prepared s, Inl e)
      | Inr receipt \<Rightarrow>
        (case prep receipt s of
           Inl e \<Rightarrow> (fail_prepared cas prepared s, Inl e)
         | Inr s' \<Rightarrow> authorize_loop prep cas seal (Suc k) rs (prepared @ [ter_id receipt]) s'))"

text \<open>\<open>authorize_exact_body\<close>: the store, the receipt ids collected so far, and the outcome.\<close>

definition authorize_exact_body ::
  "gate_env \<Rightarrow> uuid \<Rightarrow> datetime \<Rightarrow> consent_capability \<Rightarrow> uuid \<Rightarrow> agent_request \<Rightarrow> string \<Rightarrow> string
   \<Rightarrow> db \<times> uuid list \<Rightarrow> (db \<times> uuid list) \<times> uuid list result" where
  "authorize_exact_body g owner now cap trace req endpoint body st =
     (case st of (d, ids) \<Rightarrow>
      case ar_repository_context req of
        None \<Rightarrow> (st, Inl (gate_error ''TOOL_EGRESS_CONTEXT_REQUIRED''))
      | Some ctx \<Rightarrow>
        (case binding_new (ge_sha g) (ge_parse g) (ge_uuid_text g) (bp_id (ar_profile req))
                (provider_name (bp_provider (ar_profile req))) endpoint (bp_model (ar_profile req)) of
           Inl e \<Rightarrow> (st, Inl e)
         | Inr b \<Rightarrow>
           (case authorize_loop (prepare_tool_egress_receipt owner) (\<lambda>is n. cas_status_batch now is Prepared n)
                   (seal_result g cap trace req ctx b body) 0 (tool_results (ar_messages req)) [] d of
              (d', Inl e) \<Rightarrow> ((d', ids), Inl e)
            | (d', Inr prepared) \<Rightarrow>
              if prepared = [] then ((d', ids), Inl (gate_error ''TOOL_EGRESS_RESULT_REQUIRED''))
              else ((d', ids @ prepared), Inr prepared))))"

definition gate_check_authorized :: "datetime \<Rightarrow> consent_capability \<Rightarrow> db \<Rightarrow> db \<times> unit result" where
  "gate_check_authorized now cap d =
     (case check_authorized cap of
        Inr u \<Rightarrow> (d, Inr u)
      | Inl e \<Rightarrow> (case revoke_repository_consent now (cs_id (cap_scope cap)) d of
          Inl e' \<Rightarrow> (d, Inl e') | Inr d' \<Rightarrow> (d', Inl e)))"

definition gate_finish ::
  "datetime \<Rightarrow> consent_capability \<Rightarrow> uuid list \<Rightarrow> tool_egress_status \<Rightarrow> db \<Rightarrow> db \<times> unit result" where
  "gate_finish now cap ids status d =
     (case (if is_ok (check_authorized cap) then Inr d
            else revoke_repository_consent now (cs_id (cap_scope cap)) d) of
        Inl e \<Rightarrow> (d, Inl e)
      | Inr d1 \<Rightarrow>
        if ids = [] then (d1, Inr ())
        else case cas_status_batch now ids Prepared status d1 of
          Inl e \<Rightarrow> (d1, Inl e) | Inr d2 \<Rightarrow> (d2, Inr ()))"

section \<open>The interface to the store\<close>

locale receipt_store =
  fixes prep :: "tool_egress_receipt \<Rightarrow> 's \<Rightarrow> 's result"
    and cas :: "uuid list \<Rightarrow> tool_egress_status \<Rightarrow> 's \<Rightarrow> 's result"
    and look :: "'s \<Rightarrow> uuid \<Rightarrow> (string \<times> tool_egress_receipt) option"
    and good :: "'s \<Rightarrow> bool"
  assumes prep_new: "good s \<Longrightarrow> prep r s = Inr s' \<Longrightarrow> look s (ter_id r) = None"
    and prep_look: "good s \<Longrightarrow> prep r s = Inr s' \<Longrightarrow> look s' = (look s)(ter_id r \<mapsto> (''Prepared'', r))"
    and prep_good: "good s \<Longrightarrow> prep r s = Inr s' \<Longrightarrow> good s'"
    and cas_succeeds: "good s \<Longrightarrow> n \<noteq> Prepared \<Longrightarrow> ids \<noteq> [] \<Longrightarrow> distinct ids
      \<Longrightarrow> \<forall>i \<in> set ids. \<exists>r. look s i = Some (''Prepared'', r) \<and> ter_body_digest r = digest
      \<Longrightarrow> \<exists>s'. cas ids n s = Inr s'"
    and cas_look: "good s \<Longrightarrow> cas ids n s = Inr s' \<Longrightarrow> look s' = (\<lambda>i. if i \<in> set ids
        then map_option (\<lambda>(_, r). (egress_status_text n, r)) (look s i) else look s i)"
    and cas_good: "good s \<Longrightarrow> cas ids n s = Inr s' \<Longrightarrow> good s'"
begin

text \<open>What holds of the store while the loop runs, when it began with \<open>s0\<close> and all receipts satisfy \<open>P\<close>.\<close>

definition authorizing :: "(tool_egress_receipt \<Rightarrow> bool) \<Rightarrow> 's \<Rightarrow> uuid list \<Rightarrow> 's \<Rightarrow> bool" where
  "authorizing P s0 prepared s \<longleftrightarrow> good s \<and> distinct prepared
     \<and> (\<forall>i \<in> set prepared. look s0 i = None \<and> (\<exists>r. look s i = Some (''Prepared'', r) \<and> ter_id r = i \<and> P r))
     \<and> (\<forall>i. i \<notin> set prepared \<longrightarrow> look s i = look s0 i)"

lemma authorizing_step:
  assumes "authorizing P s0 prepared s" and "prep r s = Inr s'" and "P r"
  shows "authorizing P s0 (prepared @ [ter_id r]) s'"
proof -
  have g: "good s" using assms(1) by (simp add: authorizing_def)
  note n = prep_new [OF g assms(2)] and l = prep_look [OF g assms(2)] and g' = prep_good [OF g assms(2)]
  have "ter_id r \<notin> set prepared" using assms(1) n unfolding authorizing_def by force
  then show ?thesis using assms(1,3) n g' unfolding authorizing_def l by auto
qed

lemma fail_prepared_effect:
  assumes "authorizing P s0 prepared s" and "\<And>r. P r \<Longrightarrow> ter_body_digest r = digest"
  shows "good (fail_prepared cas prepared s)"
    and "look (fail_prepared cas prepared s) i = look s0 i
      \<or> look s0 i = None \<and> (\<exists>r. look (fail_prepared cas prepared s) i = Some (''Failed'', r))"
proof -
  have g: "good s" and d: "distinct prepared"
    and mine: "\<And>i. i \<in> set prepared \<Longrightarrow> look s0 i = None \<and> (\<exists>r. look s i = Some (''Prepared'', r) \<and> P r)"
    and rest: "\<And>i. i \<notin> set prepared \<Longrightarrow> look s i = look s0 i"
    using assms(1) unfolding authorizing_def by auto
  have "good (fail_prepared cas prepared s) \<and> (look (fail_prepared cas prepared s) i = look s0 i
      \<or> look s0 i = None \<and> (\<exists>r. look (fail_prepared cas prepared s) i = Some (''Failed'', r)))"
  proof (cases "prepared = []")
    case True
    then show ?thesis using g rest by (simp add: fail_prepared_def)
  next
    case False
    have "\<forall>i \<in> set prepared. \<exists>r. look s i = Some (''Prepared'', r) \<and> ter_body_digest r = digest"
      using mine assms(2) by blast
    then obtain s' where s': "cas prepared EgressFailed s = Inr s'"
      using cas_succeeds [OF g _ False d] by blast
    have f: "fail_prepared cas prepared s = s'" using False s' by (simp add: fail_prepared_def)
    show ?thesis
    proof (cases "i \<in> set prepared")
      case True
      then obtain r where "look s i = Some (''Prepared'', r)" using mine by blast
      then show ?thesis using True mine cas_good [OF g s'] unfolding f cas_look [OF g s'] by auto
    next
      case False
      then show ?thesis using rest cas_good [OF g s'] unfolding f cas_look [OF g s'] by auto
    qed
  qed
  then show "good (fail_prepared cas prepared s)"
    and "look (fail_prepared cas prepared s) i = look s0 i
      \<or> look s0 i = None \<and> (\<exists>r. look (fail_prepared cas prepared s) i = Some (''Failed'', r))" by auto
qed

lemma authorize_loop_success:
  assumes "authorize_loop prep cas seal k rs prepared s = (s', Inr ids)" and "authorizing P s0 prepared s"
    and "\<And>k r receipt. seal k r = Inr receipt \<Longrightarrow> P receipt"
  shows "authorizing P s0 ids s' \<and> length ids = length prepared + length rs"
  using assms(1,2)
proof (induction rs arbitrary: k prepared s)
  case (Cons r rs)
  obtain receipt s1 where seal: "seal k r = Inr receipt" and p: "prep receipt s = Inr s1"
    and l: "authorize_loop prep cas seal (Suc k) rs (prepared @ [ter_id receipt]) s1 = (s', Inr ids)"
    using Cons.prems(1) by (auto split: sum.splits)
  have "authorizing P s0 (prepared @ [ter_id receipt]) s1"
    by (rule authorizing_step [OF Cons.prems(2) p assms(3) [OF seal]])
  from Cons.IH [OF l this] show ?case by simp
qed simp

lemma authorize_loop_failure:
  assumes "authorize_loop prep cas seal k rs prepared s = (s', Inl e)" and "authorizing P s0 prepared s"
    and "\<And>k r receipt. seal k r = Inr receipt \<Longrightarrow> P receipt" and "\<And>r. P r \<Longrightarrow> ter_body_digest r = digest"
  shows "good s' \<and> (look s' i = look s0 i \<or> look s0 i = None \<and> (\<exists>r. look s' i = Some (''Failed'', r)))"
  using assms(1,2)
proof (induction rs arbitrary: k prepared s)
  case (Cons r rs)
  show ?case
  proof (cases "seal k r")
    case (Inl e')
    then show ?thesis using Cons.prems fail_prepared_effect [OF Cons.prems(2) assms(4)] by auto
  next
    case seal: (Inr receipt)
    show ?thesis
    proof (cases "prep receipt s")
      case (Inl e')
      then show ?thesis using Cons.prems seal fail_prepared_effect [OF Cons.prems(2) assms(4)] by auto
    next
      case (Inr s1)
      have "authorizing P s0 (prepared @ [ter_id receipt]) s1"
        by (rule authorizing_step [OF Cons.prems(2) Inr assms(3) [OF seal]])
      moreover have "authorize_loop prep cas seal (Suc k) rs (prepared @ [ter_id receipt]) s1 = (s', Inl e)"
        using Cons.prems(1) seal Inr by simp
      ultimately show ?thesis using Cons.IH by blast
    qed
  qed
qed simp

lemma authorizing_start: "good s \<Longrightarrow> authorizing P s [] s"
  by (simp add: authorizing_def)

end

section \<open>The database is such a store\<close>

definition receipt_of :: "db \<Rightarrow> uuid \<Rightarrow> (string \<times> tool_egress_receipt) option" where
  "receipt_of d i = map_option (\<lambda>r. (rr_status r, rr_receipt r)) (List.find (\<lambda>r. receipt_id r = i) (db_receipts d))"

lemma receipt_of_Some:
  assumes "structure_ok d"
  shows "receipt_of d i = Some (st, r) \<longleftrightarrow>
    (\<exists>x \<in> set (db_receipts d). receipt_id x = i \<and> rr_status x = st \<and> rr_receipt x = r)"
proof -
  have "receipt_of d i = Some (st, r) \<longleftrightarrow>
      (\<exists>x. List.find (\<lambda>r. receipt_id r = i) (db_receipts d) = Some x \<and> rr_status x = st \<and> rr_receipt x = r)"
    by (auto simp: receipt_of_def)
  then show ?thesis unfolding find_key_Some [OF structure_keys(4) [OF assms]] by auto
qed

lemma receipt_of_None: "receipt_of d i = None \<longleftrightarrow> i \<notin> receipt_id ` set (db_receipts d)"
  by (simp add: receipt_of_def find_key_None)

lemma find_append: "List.find p (xs @ ys) = (case List.find p xs of None \<Rightarrow> List.find p ys | Some x \<Rightarrow> Some x)"
  by (induction xs) auto

lemma find_map_key:
  "(\<And>r. receipt_id (f r) = receipt_id r) \<Longrightarrow>
    List.find (\<lambda>r. receipt_id r = i) (map f rs) = map_option f (List.find (\<lambda>r. receipt_id r = i) rs)"
  by (induction rs) auto

lemma prepared_row_look:
  assumes "prepare_tool_egress_receipt owner r d = Inr d'"
  shows "receipt_of d (ter_id r) = None" "receipt_of d' = (receipt_of d)(ter_id r \<mapsto> (''Prepared'', r))"
proof -
  have new: "ter_id r \<notin> receipt_id ` set (db_receipts d)"
    and d': "d' = d\<lparr>db_receipts := db_receipts d @ [\<lparr> rr_receipt = r, rr_tool_name = wire_name (ter_tool_name r),
         rr_status = ''Prepared'', rr_updated_at = ter_updated_at r, rr_owner = Some owner \<rparr>]\<rparr>"
    using assms unfolding prepare_receipt_row_Inr by blast+
  show none: "receipt_of d (ter_id r) = None" unfolding receipt_of_None by (rule new)
  show "receipt_of d' = (receipt_of d)(ter_id r \<mapsto> (''Prepared'', r))"
  proof
    fix i
    show "receipt_of d' i = ((receipt_of d)(ter_id r \<mapsto> (''Prepared'', r))) i"
      using none unfolding receipt_of_def d'
      by (cases "List.find (\<lambda>r. receipt_id r = i) (db_receipts d)") (auto simp: find_append receipt_id_def)
  qed
qed

lemma batch_look:
  assumes "structure_ok d" and "cas_status_batch now ids Prepared n d = Inr d'"
  shows "receipt_of d' = (\<lambda>i. if i \<in> set ids
    then map_option (\<lambda>(_, r). (egress_status_text n, r)) (receipt_of d i) else receipt_of d i)"
proof
  fix i
  let ?f = "\<lambda>r. if receipt_id r \<in> set ids then r\<lparr>rr_status := egress_status_text n, rr_updated_at := now\<rparr> else r"
  have d': "db_receipts d' = map ?f (db_receipts d)"
    using batch_exact [OF assms(1)] assms(2) by simp
  have key: "receipt_id (?f r) = receipt_id r" for r by (simp add: receipt_id_def)
  show "receipt_of d' i = (if i \<in> set ids
      then map_option (\<lambda>(_, r). (egress_status_text n, r)) (receipt_of d i) else receipt_of d i)"
    unfolding receipt_of_def d' find_map_key [OF key] using find_Some_set [of "\<lambda>r. receipt_id r = i" "db_receipts d"]
    by (cases "List.find (\<lambda>r. receipt_id r = i) (db_receipts d)") auto
qed

interpretation database: receipt_store "prepare_tool_egress_receipt owner" "\<lambda>is n. cas_status_batch now is Prepared n"
  receipt_of structure_ok
proof unfold_locales
  fix s r s' assume g: "structure_ok s" and p: "prepare_tool_egress_receipt owner r s = Inr s'"
  show "receipt_of s (ter_id r) = None" "receipt_of s' = (receipt_of s)(ter_id r \<mapsto> (''Prepared'', r))"
    by (rule prepared_row_look [OF p])+
  show "structure_ok s'" by (rule prepare_receipt_structure [OF p g])
next
  fix s n ids digest
  assume g: "structure_ok s" and "n \<noteq> Prepared" "ids \<noteq> []" "distinct ids"
    and "\<forall>i \<in> set ids. \<exists>r. receipt_of s i = Some (''Prepared'', r) \<and> ter_body_digest r = digest"
  moreover from this(5) have "\<forall>i \<in> set ids. \<exists>r \<in> set (db_receipts s). receipt_id r = i \<and> rr_status r = ''Prepared''
      \<and> ter_body_digest (rr_receipt r) = digest"
    unfolding receipt_of_Some [OF g] by blast
  ultimately show "\<exists>s'. cas_status_batch now ids Prepared n s = Inr s'" unfolding batch_exact [OF g] by blast
next
  fix s ids n s' assume "structure_ok s" "cas_status_batch now ids Prepared n s = Inr s'"
  then show "receipt_of s' = (\<lambda>i. if i \<in> set ids
      then map_option (\<lambda>(_, r). (egress_status_text n, r)) (receipt_of s i) else receipt_of s i)"
    and "structure_ok s'"
    using batch_look cas_structure by blast+
qed

section \<open>What the gate guarantees\<close>

text \<open>A receipt of this body: sealed, valid for the body, and within the granted scope.\<close>

definition seals_body ::
  "gate_env \<Rightarrow> consent_capability \<Rightarrow> uuid \<Rightarrow> agent_request \<Rightarrow> string \<Rightarrow> tool_egress_receipt \<Rightarrow> bool" where
  "seals_body g cap trace req body r \<longleftrightarrow>
     verify_exact_body (ge_sha g) (ge_parse g) (ge_uuid_text g) r body = Inr ()
     \<and> ter_trace_id r = trace \<and> ter_turn_id r = ar_turn_id req \<and> ter_conversation_id r = ar_conversation_id req
     \<and> ter_consent_scope_id r = cs_id (cap_scope cap) \<and> cs_conversation_id (cap_scope cap) = ar_conversation_id req
     \<and> cs_revoked_at (cap_scope cap) = None \<and> cs_provider_binding (cap_scope cap) = ter_provider_binding r
     \<and> turn_allowed (cs_kind (cap_scope cap)) (ar_turn_id req)"

lemma with_revocation_scope [simp]: "cap_scope (with_revocation c cap) = cap_scope cap"
  by (simp add: with_revocation_def)

lemma result_envelope_simps [simp]:
  "te_trace_id (result_envelope sha trace req ctx b body name payload r) = trace"
  "te_turn_id (result_envelope sha trace req ctx b body name payload r) = ar_turn_id req"
  "te_conversation_id (result_envelope sha trace req ctx b body name payload r) = ar_conversation_id req"
  "te_provider_binding (result_envelope sha trace req ctx b body name payload r) = b"
  by (simp_all add: result_envelope_def)

lemma seal_result_seals:
  assumes "seal_result g cap trace req ctx b body k r = Inr receipt"
  shows "seals_body g cap trace req body receipt"
proof -
  obtain name payload where
    p: "prepare_receipt (ge_sha g) (ge_parse g) (ge_uuid_text g) (ge_fresh g k) (ge_clock g k)
          (with_revocation (ge_cancelled g k) cap) (result_envelope (ge_sha g) trace req ctx b body name payload r) = Inr receipt"
    and v: "verify_exact_body (ge_sha g) (ge_parse g) (ge_uuid_text g) receipt body = Inr ()"
    using assms unfolding seal_result_def by (auto split: if_splits)
  then show ?thesis
    unfolding seals_body_def prepare_receipt_Inr in_scope_def by (auto simp: unsealed_receipt_def)
qed

lemma seals_body_digest: "seals_body g cap trace req body r \<Longrightarrow> ter_body_digest r = sha_hex (ge_sha g) body"
  unfolding seals_body_def verify_exact_body_def by (auto split: if_splits)

lemma authorize_cases:
  assumes "authorize_exact_body g owner now cap trace req endpoint body (d, ids0) = ((d', ids'), out)"
  obtains (unchanged) e where "out = Inl e" "d' = d" "ids' = ids0"
  | (loop) ctx b res where "authorize_loop (prepare_tool_egress_receipt owner) (\<lambda>is n. cas_status_batch now is Prepared n)
        (seal_result g cap trace req ctx b body) 0 (tool_results (ar_messages req)) [] d = (d', res)"
      "case res of Inl e \<Rightarrow> out = Inl e \<and> ids' = ids0
        | Inr ids \<Rightarrow> if ids = [] then is_ok out = False \<and> ids' = ids0 else out = Inr ids \<and> ids' = ids0 @ ids"
  using assms unfolding authorize_exact_body_def
  by (auto split: option.splits sum.splits prod.splits if_splits)

lemma authorized_structure:
  assumes "structure_ok d" and "authorize_exact_body g owner now cap trace req endpoint body (d, ids0) = ((d', ids'), Inr ids)"
  shows "database.authorizing (seals_body g cap trace req body) d ids d' \<and> ids \<noteq> [] \<and> ids' = ids0 @ ids
    \<and> length ids = length (tool_results (ar_messages req))"
proof (rule authorize_cases [OF assms(2)])
  fix ctx b res
  assume l: "authorize_loop (prepare_tool_egress_receipt owner) (\<lambda>is n. cas_status_batch now is Prepared n)
      (seal_result g cap trace req ctx b body) 0 (tool_results (ar_messages req)) [] d = (d', res)"
    and out: "case res of Inl e \<Rightarrow> Inr ids = (Inl e :: uuid list result) \<and> ids' = ids0
      | Inr is \<Rightarrow> if is = [] then is_ok (Inr ids :: uuid list result) = False \<and> ids' = ids0
          else (Inr ids :: uuid list result) = Inr is \<and> ids' = ids0 @ is"
  then have res: "res = Inr ids" "ids \<noteq> []" "ids' = ids0 @ ids" by (auto split: sum.splits if_splits)
  have "database.authorizing (seals_body g cap trace req body) d ids d'
      \<and> length ids = length ([] :: uuid list) + length (tool_results (ar_messages req))"
    by (rule database.authorize_loop_success [OF l [unfolded res(1)] database.authorizing_start [OF assms(1)]])
      (rule seal_result_seals)
  then show ?thesis using res by simp
qed simp

text \<open>C2: When the gate authorizes a body it returns one fresh receipt for each tool result the body carries: all are
  stored as prepared, verify against exactly this body, belong to the turn and the conversation of the
  request and to a granted scope that was not revoked and names their provider; no other receipt
  changed, and the ids were added to those of the gate.\<close>

theorem authorized_body_is_sealed:
  assumes "reachable d"
    and "authorize_exact_body g owner now cap trace req endpoint body (d, ids0) = ((d', ids'), Inr ids)"
  shows "ids \<noteq> [] \<and> distinct ids \<and> length ids = length (tool_results (ar_messages req)) \<and> ids' = ids0 @ ids
    \<and> (\<forall>i \<in> set ids. receipt_of d i = None
        \<and> (\<exists>r. receipt_of d' i = Some (''Prepared'', r) \<and> ter_id r = i \<and> seals_body g cap trace req body r))
    \<and> (\<forall>i. i \<notin> set ids \<longrightarrow> receipt_of d' i = receipt_of d i)"
proof -
  have "structure_ok d" using reachable_ok [OF assms(1)] by blast
  then show ?thesis
    using authorized_structure [OF _ assms(2)] unfolding database.authorizing_def by blast
qed

lemma refused_effect:
  assumes s: "structure_ok d"
    and r: "authorize_exact_body g owner now cap trace req endpoint body (d, ids0) = ((d', ids'), Inl e)"
  shows "structure_ok d' \<and> ids' = ids0 \<and> (\<forall>i. receipt_of d' i = receipt_of d i
    \<or> receipt_of d i = None \<and> (\<exists>r. receipt_of d' i = Some (''Failed'', r)))"
proof (rule authorize_cases [OF r])
  fix ctx b res
  assume l: "authorize_loop (prepare_tool_egress_receipt owner) (\<lambda>is n. cas_status_batch now is Prepared n)
      (seal_result g cap trace req ctx b body) 0 (tool_results (ar_messages req)) [] d = (d', res)"
    and out: "case res of Inl e' \<Rightarrow> Inl e = (Inl e' :: uuid list result) \<and> ids' = ids0
      | Inr is \<Rightarrow> if is = [] then is_ok (Inl e :: uuid list result) = False \<and> ids' = ids0
          else (Inl e :: uuid list result) = Inr is \<and> ids' = ids0 @ is"
  show ?thesis
  proof (cases res)
    case (Inl e')
    have "structure_ok d' \<and> (receipt_of d' i = receipt_of d i
        \<or> receipt_of d i = None \<and> (\<exists>r. receipt_of d' i = Some (''Failed'', r)))" for i
      by (rule database.authorize_loop_failure [OF l [unfolded Inl] database.authorizing_start [OF s]])
        (erule seal_result_seals, erule seals_body_digest)
    then show ?thesis using out Inl by simp
  next
    case (Inr ids)
    then have empty: "ids = []" "ids' = ids0" using out by (auto split: if_splits)
    have "database.authorizing (seals_body g cap trace req body) d ids d'
        \<and> length ids = length ([] :: uuid list) + length (tool_results (ar_messages req))"
      by (rule database.authorize_loop_success [OF l [unfolded Inr] database.authorizing_start [OF s]])
        (rule seal_result_seals)
    then show ?thesis using empty unfolding database.authorizing_def by auto
  qed
qed (simp add: s)

text \<open>C21: When the gate refuses a body, no receipt of it is left prepared: every receipt is as before, except for new
  ones, which are all failed; the ids of the gate are unchanged.\<close>

theorem refused_body_leaves_nothing_prepared:
  assumes "reachable d"
    and "authorize_exact_body g owner now cap trace req endpoint body (d, ids0) = ((d', ids'), Inl e)"
  shows "ids' = ids0 \<and> (\<forall>i. receipt_of d' i = receipt_of d i
    \<or> receipt_of d i = None \<and> (\<exists>r. receipt_of d' i = Some (''Failed'', r)))"
proof -
  have "structure_ok d" using reachable_ok [OF assms(1)] by blast
  then show ?thesis using refused_effect [OF _ assms(2)] by blast
qed

lemma finish_start:
  assumes "structure_ok d"
  obtains d1 where "(if is_ok (check_authorized cap) then Inr d
      else revoke_repository_consent now (cs_id (cap_scope cap)) d) = Inr d1"
    "structure_ok d1" "receipt_of d1 = receipt_of d"
proof (cases "is_ok (check_authorized cap)")
  case True
  then show thesis using that assms by simp
next
  case False
  obtain d1 where d1: "revoke_repository_consent now (cs_id (cap_scope cap)) d = Inr d1"
    by (simp add: revoke_repository_consent_def)
  have "receipt_of d1 = receipt_of d"
    using d1 by (auto simp: revoke_repository_consent_def receipt_of_def fun_eq_iff)
  then show thesis using that False d1 revoke_structure [OF assms d1] by simp
qed

lemma finish_exact:
  assumes s: "structure_ok d" and "ids \<noteq> []" and "distinct ids" and "status \<noteq> Prepared"
    and same: "\<forall>i \<in> set ids. \<exists>r. receipt_of d i = Some (''Prepared'', r) \<and> ter_body_digest r = digest"
  obtains d2 where "gate_finish now cap ids status d = (d2, Inr ())" "structure_ok d2"
    "receipt_of d2 = (\<lambda>i. if i \<in> set ids then map_option (\<lambda>(_, r). (egress_status_text status, r)) (receipt_of d i)
       else receipt_of d i)"
proof -
  obtain d1 where d1: "(if is_ok (check_authorized cap) then Inr d
      else revoke_repository_consent now (cs_id (cap_scope cap)) d) = Inr d1"
    and s1: "structure_ok d1" and r1: "receipt_of d1 = receipt_of d" by (rule finish_start [OF s])
  obtain d2 where d2: "cas_status_batch now ids Prepared status d1 = Inr d2"
    using database.cas_succeeds [OF s1 assms(4,2,3), of digest] same unfolding r1 by blast
  have "gate_finish now cap ids status d = (d2, Inr ())" using d1 d2 assms(2) by (simp add: gate_finish_def)
  then show thesis
    by (rule that [OF _ database.cas_good [OF s1 d2] database.cas_look [OF s1 d2, unfolded r1]])
qed

text \<open>The receipts of an authorized body can be finished, all together, with any outcome, whether or not the consent
  was revoked in the meantime; afterwards each of them has this outcome and still seals the body.\<close>

theorem authorized_body_finishes:
  assumes "reachable d"
    and "authorize_exact_body g owner now cap trace req endpoint body (d, ids0) = ((d', ids'), Inr ids)"
    and "status \<noteq> Prepared"
  shows "\<exists>d2. gate_finish now2 cap2 ids status d' = (d2, Inr ())
    \<and> (\<forall>i \<in> set ids. \<exists>r. receipt_of d2 i = Some (egress_status_text status, r) \<and> seals_body g cap trace req body r)"
proof -
  have s: "structure_ok d" using reachable_ok [OF assms(1)] by blast
  have a: "database.authorizing (seals_body g cap trace req body) d ids d'" and ne: "ids \<noteq> []"
    using authorized_structure [OF s assms(2)] by auto
  then have s': "structure_ok d'" and dist: "distinct ids"
    and mine: "\<forall>i \<in> set ids. \<exists>r. receipt_of d' i = Some (''Prepared'', r) \<and> seals_body g cap trace req body r"
    unfolding database.authorizing_def by blast+
  then have "\<forall>i \<in> set ids. \<exists>r. receipt_of d' i = Some (''Prepared'', r) \<and> ter_body_digest r = sha_hex (ge_sha g) body"
    using seals_body_digest by blast
  from finish_exact [OF s' ne dist assms(3) this] obtain d2 where "gate_finish now2 cap2 ids status d' = (d2, Inr ())"
    and look: "receipt_of d2 = (\<lambda>i. if i \<in> set ids then map_option (\<lambda>(_, r). (egress_status_text status, r)) (receipt_of d' i)
       else receipt_of d' i)" by blast
  moreover have "\<exists>r. receipt_of d2 i = Some (egress_status_text status, r) \<and> seals_body g cap trace req body r"
    if i: "i \<in> set ids" for i
    using mine i unfolding look by fastforce
  ultimately show ?thesis by blast
qed

section \<open>A concrete run\<close>

definition demo_gate :: gate_env where
  "demo_gate = \<lparr> ge_sha = (\<lambda>_. ''d''), ge_parse = demo_parse, ge_uuid_text = (\<lambda>_. ''u''), ge_encode = (\<lambda>_. Some ''s''),
     ge_fresh = (\<lambda>k. 100 + of_nat k), ge_clock = (\<lambda>_. 1), ge_cancelled = (\<lambda>_. False) \<rparr>"

definition demo_context :: repository_context where
  "demo_context = \<lparr> rc_repository_id = 4, rc_snapshot_id = 5, rc_snapshot_status = SnapReady, rc_tools_available = True,
     rc_display_name = ''r'' \<rparr>"

definition demo_tool_result :: repository_tool_result where
  "demo_tool_result = \<lparr> res_call_id = 7, res_snapshot_id = 5, res_content = ''c'', res_source_refs = [],
     res_omissions = [], res_content_bytes = 1 \<rparr>"

definition demo_request :: agent_request where
  "demo_request = \<lparr> ar_request_id = 8, ar_conversation_id = 3, ar_turn_id = 6,
     ar_profile = \<lparr> bp_id = 1, bp_name = ''p'', bp_provider = OpenAi, bp_base_url = ''https://h/x'', bp_model = ''m'',
       bp_api_key = None, bp_timeout_secs = 30 \<rparr>, ar_system_prompt = [],
     ar_messages = [\<lparr> am_role = AgAssistant, am_content = MToolCalls [\<lparr> call_id = 7, call_snapshot_id = 5,
         call_name = RepoStatus, call_arguments = ArgRepoStatus \<rparr>], am_provider_parts = None \<rparr>,
       \<lparr> am_role = AgTool, am_content = MToolResult demo_tool_result, am_provider_parts = None \<rparr>],
     ar_tools = [], ar_repository_context = Some demo_context, ar_response_contract = ContractAdvisor,
     ar_limits = agent_limits_default \<rparr>"

definition demo_gate_binding :: provider_binding where
  "demo_gate_binding = \<lparr> pb_profile_id = 1, pb_provider = ''OpenAi'', pb_endpoint_identity = ''https://h/x/'',
     pb_model_id = ''m'', pb_target_digest = ''64'' \<rparr>"

definition demo_granted :: consent_capability where
  "demo_granted = capability_new (\<lambda>_. ''d'') 5 6 \<lparr> cs_id = 2, cs_conversation_id = 3, cs_repository_id = 4,
     cs_snapshot_id = 5, cs_provider_binding = demo_gate_binding, cs_kind = RequestOnce 6, cs_granted_at = 0,
     cs_revoked_at = None \<rparr>"

definition demo_gate_ops :: "db_op list" where
  "demo_gate_ops = [OpCreate 3 9 \<lparr> nc_repository_id = Some 4, nc_active_snapshot_id = Some 5, nc_prompt_profile_id = 7,
        nc_persistence = Durable \<rparr>,
     OpBegin \<lparr> ts_turn = demo_turn\<lparr>turn_id := 6, turn_conversation_id := 3\<rparr>,
        ts_user_message = (demo_message 11 RoleUser 1 ''q'' MsgCompleted)\<lparr>msg_conversation_id := 3, msg_turn_id := 6\<rparr>,
        ts_assistant_placeholder = (demo_message 12 RoleAssistant 2 [] MsgPending)\<lparr>msg_conversation_id := 3, msg_turn_id := 6\<rparr> \<rparr>,
     OpPrepareTrace 12 \<lparr> gt_id = 1, gt_conversation_id = 3, gt_turn_id = 6, gt_snapshot_id = Some 5, gt_tool_calls = [],
        gt_source_refs = [], gt_egress_receipt_ids = [], gt_freshness = FreshAtSend \<rparr>,
     OpSaveConsent (cap_scope demo_granted)]"

lemma demo_gate_binding: "binding_new (\<lambda>_. ''d'') demo_parse (\<lambda>_. ''u'') 1 ''OpenAi'' ''https://h/x'' ''m'' = Inr demo_gate_binding"
  by code_simp

definition demo_gate_receipt :: tool_egress_receipt where
  "demo_gate_receipt = \<lparr> ter_id = 100, ter_seal_version = ''CM_TOOL_EGRESS_V1'', ter_trace_id = 1, ter_consent_scope_id = 2,
     ter_conversation_id = 3, ter_turn_id = 6, ter_tool_call_id = 7, ter_repository_id = 4, ter_snapshot_id = 5,
     ter_tool_name = RepoStatus, ter_canonical_refs = [], ter_provider_binding = demo_gate_binding,
     ter_semantic_digest = ''64'', ter_body_digest = ''64'', ter_canonical_digest = ''64'', ter_status = Prepared,
     ter_prepared_at = 1, ter_updated_at = 1 \<rparr>"

lemma demo_seal:
  "seal_result demo_gate demo_granted 1 demo_request demo_context demo_gate_binding ''body'' 0 demo_tool_result = Inr demo_gate_receipt"
  by code_simp

definition demo_gate_db :: db where
  "demo_gate_db = (case run_ops demo_gate_ops (empty_db [7]) of Inr d \<Rightarrow> d | Inl _ \<Rightarrow> empty_db [])"

lemma demo_gate_checks:
  "(case run_ops demo_gate_ops (empty_db [7]) of Inl e \<Rightarrow> None
    | Inr d \<Rightarrow> Some (db_receipts d, is_ok (prepare_tool_egress_receipt 40 demo_gate_receipt d))) = Some ([], True)"
  by (simp add: demo_defs demo_gate_ops_def demo_granted_def capability_new_def demo_gate_receipt_def)

lemma demo_gate_run: "run_ops demo_gate_ops (empty_db [7]) = Inr demo_gate_db"
  using demo_gate_checks by (cases "run_ops demo_gate_ops (empty_db [7])") (simp_all only: demo_gate_db_def sum.case option.distinct)

lemma demo_gate_reachable: "reachable demo_gate_db"
  by (rule empty_reaches [OF demo_gate_run])

lemma demo_tool_results: "tool_results (ar_messages demo_request) = [demo_tool_result]"
  by (simp add: tool_results_def demo_request_def)

lemma demo_authorized:
  obtains d' where "authorize_exact_body demo_gate 40 13 demo_granted 1 demo_request ''https://h/x'' ''body'' (demo_gate_db, [])
    = ((d', [100]), Inr [100])"
proof -
  obtain d' where p: "prepare_tool_egress_receipt 40 demo_gate_receipt demo_gate_db = Inr d'"
    using demo_gate_checks unfolding demo_gate_run by (auto simp: is_ok_iff)
  have ctx: "ar_repository_context demo_request = Some demo_context"
    "bp_id (ar_profile demo_request) = 1" "bp_provider (ar_profile demo_request) = OpenAi" "bp_model (ar_profile demo_request) = ''m''"
    by (simp_all add: demo_request_def)
  have g: "ge_sha demo_gate = (\<lambda>_. ''d'')" "ge_parse demo_gate = demo_parse" "ge_uuid_text demo_gate = (\<lambda>_. ''u'')"
    by (simp_all add: demo_gate_def)
  have "ter_id demo_gate_receipt = 100" by (simp add: demo_gate_receipt_def)
  then have "authorize_exact_body demo_gate 40 13 demo_granted 1 demo_request ''https://h/x'' ''body'' (demo_gate_db, [])
    = ((d', [100]), Inr [100])"
    by (simp add: authorize_exact_body_def ctx g demo_gate_binding demo_tool_results demo_seal p)
  then show thesis by (rule that)
qed

lemma authorized_body_is_sealed_witness:
  "reachable demo_gate_db \<and> (\<exists>d'. authorize_exact_body demo_gate 40 13 demo_granted 1 demo_request ''https://h/x'' ''body'' (demo_gate_db, [])
      = ((d', [100]), Inr [100])
    \<and> (\<exists>r. receipt_of d' 100 = Some (''Prepared'', r) \<and> seals_body demo_gate demo_granted 1 demo_request ''body'' r))"
proof (rule demo_authorized)
  fix d' assume a: "authorize_exact_body demo_gate 40 13 demo_granted 1 demo_request ''https://h/x'' ''body'' (demo_gate_db, [])
    = ((d', [100]), Inr [100])"
  from authorized_body_is_sealed [OF demo_gate_reachable a]
  have "\<exists>r. receipt_of d' 100 = Some (''Prepared'', r) \<and> seals_body demo_gate demo_granted 1 demo_request ''body'' r" by auto
  then show ?thesis using a demo_gate_reachable by blast
qed

lemma authorized_body_finishes_witness:
  "reachable demo_gate_db \<and> (\<exists>d' d2. authorize_exact_body demo_gate 40 13 demo_granted 1 demo_request ''https://h/x'' ''body'' (demo_gate_db, [])
      = ((d', [100]), Inr [100])
    \<and> gate_finish 14 demo_granted [100] Sent d' = (d2, Inr ()) \<and> (\<exists>r. receipt_of d2 100 = Some (''Sent'', r)))"
proof (rule demo_authorized)
  fix d' assume a: "authorize_exact_body demo_gate 40 13 demo_granted 1 demo_request ''https://h/x'' ''body'' (demo_gate_db, [])
    = ((d', [100]), Inr [100])"
  have "Sent \<noteq> Prepared" by simp
  from authorized_body_finishes [OF demo_gate_reachable a this, of 14 demo_granted]
  obtain d2 where "gate_finish 14 demo_granted [100] Sent d' = (d2, Inr ())" "\<exists>r. receipt_of d2 100 = Some (''Sent'', r)" by auto
  then show ?thesis using a demo_gate_reachable by blast
qed

text \<open>A request whose second result answers no call is refused after its first receipt was stored.\<close>

definition demo_request2 :: agent_request where
  "demo_request2 = demo_request\<lparr>ar_messages := ar_messages demo_request @
     [\<lparr> am_role = AgTool, am_content = MToolResult (demo_tool_result\<lparr>res_call_id := 99\<rparr>), am_provider_parts = None \<rparr>]\<rparr>"

lemma demo_seal2:
  "seal_result demo_gate demo_granted 1 demo_request2 demo_context demo_gate_binding ''body'' 0 demo_tool_result = Inr demo_gate_receipt"
  "\<not> is_ok (seal_result demo_gate demo_granted 1 demo_request2 demo_context demo_gate_binding ''body'' 1 (demo_tool_result\<lparr>res_call_id := 99\<rparr>))"
  by code_simp+

lemma refused_body_leaves_nothing_prepared_witness:
  "reachable demo_gate_db \<and> (\<exists>d' e. authorize_exact_body demo_gate 40 13 demo_granted 1 demo_request2 ''https://h/x'' ''body'' (demo_gate_db, [])
      = ((d', []), Inl e) \<and> (\<forall>i. receipt_of d' i = receipt_of demo_gate_db i
        \<or> receipt_of demo_gate_db i = None \<and> (\<exists>r. receipt_of d' i = Some (''Failed'', r))))"
proof -
  obtain d1 where p: "prepare_tool_egress_receipt 40 demo_gate_receipt demo_gate_db = Inr d1"
    using demo_gate_checks unfolding demo_gate_run by (auto simp: is_ok_iff)
  obtain e where e: "seal_result demo_gate demo_granted 1 demo_request2 demo_context demo_gate_binding ''body'' (Suc 0)
      (demo_tool_result\<lparr>res_call_id := 99\<rparr>) = Inl e"
    using demo_seal2(2) by (cases "seal_result demo_gate demo_granted 1 demo_request2 demo_context demo_gate_binding ''body'' 1
      (demo_tool_result\<lparr>res_call_id := 99\<rparr>)") auto
  have ctx: "ar_repository_context demo_request2 = Some demo_context"
    "bp_id (ar_profile demo_request2) = 1" "bp_provider (ar_profile demo_request2) = OpenAi" "bp_model (ar_profile demo_request2) = ''m''"
    "tool_results (ar_messages demo_request2) = [demo_tool_result, demo_tool_result\<lparr>res_call_id := 99\<rparr>]"
    by (simp_all add: demo_request2_def demo_request_def tool_results_def)
  have g: "ge_sha demo_gate = (\<lambda>_. ''d'')" "ge_parse demo_gate = demo_parse" "ge_uuid_text demo_gate = (\<lambda>_. ''u'')"
    by (simp_all add: demo_gate_def)
  have "\<exists>d'. authorize_exact_body demo_gate 40 13 demo_granted 1 demo_request2 ''https://h/x'' ''body'' (demo_gate_db, [])
      = ((d', []), Inl e)"
    by (simp add: authorize_exact_body_def ctx g demo_gate_binding demo_seal2(1) e p)
  then show ?thesis using refused_body_leaves_nothing_prepared [OF demo_gate_reachable] demo_gate_reachable by blast
qed

end
