(* ===== verification/Prompt_Composition.thy ===== *)
theory Prompt_Composition
  imports Answer_Bundle Digests
begin

text \<open>
  \<open>mentat-persona\<close>: the persona wrapping of an answer (\<open>persona.rs\<close>), the announcement levels
  (\<open>announcer.rs\<close>), the factory catalogue and the composition of the effective system prompt
  (\<open>prompt.rs\<close>). The eight asset texts and SHA-256 are parameters, as is the text of a UUID.
\<close>

section \<open>UTF-8\<close>

text \<open>\<open>String::from_utf8\<close> succeeds on exactly these byte lists.\<close>

definition in_range :: "nat \<Rightarrow> nat \<Rightarrow> char \<Rightarrow> bool" where
  "in_range lo hi c \<longleftrightarrow> lo \<le> byte_of c \<and> byte_of c \<le> hi"

fun utf8_valid :: "string \<Rightarrow> bool" where
  "utf8_valid [] \<longleftrightarrow> True"
| "utf8_valid [a] \<longleftrightarrow> in_range 0 127 a"
| "utf8_valid [a, b] \<longleftrightarrow>
     in_range 0 127 a \<and> utf8_valid [b] \<or> in_range 194 223 a \<and> in_range 128 191 b"
| "utf8_valid [a, b, c] \<longleftrightarrow>
     in_range 0 127 a \<and> utf8_valid [b, c]
     \<or> in_range 194 223 a \<and> in_range 128 191 b \<and> utf8_valid [c]
     \<or> in_range 224 239 a \<and> in_range (if byte_of a = 224 then 160 else 128)
         (if byte_of a = 237 then 159 else 191) b \<and> in_range 128 191 c"
| "utf8_valid (a # b # c # d # s) \<longleftrightarrow>
     in_range 0 127 a \<and> utf8_valid (b # c # d # s)
     \<or> in_range 194 223 a \<and> in_range 128 191 b \<and> utf8_valid (c # d # s)
     \<or> in_range 224 239 a \<and> in_range (if byte_of a = 224 then 160 else 128)
         (if byte_of a = 237 then 159 else 191) b \<and> in_range 128 191 c \<and> utf8_valid (d # s)
     \<or> in_range 240 244 a \<and> in_range (if byte_of a = 240 then 144 else 128)
         (if byte_of a = 244 then 143 else 191) b \<and> in_range 128 191 c \<and> in_range 128 191 d \<and> utf8_valid s"

definition is_ascii :: "char \<Rightarrow> bool" where
  "is_ascii c \<longleftrightarrow> byte_of c \<le> 127"

lemma utf8_valid_Cons_ascii: "is_ascii a \<Longrightarrow> utf8_valid (a # s) = utf8_valid s"
  by (cases "a # s" rule: utf8_valid.cases) (auto simp: is_ascii_def in_range_def)

lemma utf8_valid_ascii: "list_all is_ascii s \<Longrightarrow> utf8_valid s"
  by (induction s) (simp_all add: utf8_valid_Cons_ascii)

section \<open>Personas and announcements\<close>

datatype persona_kind = DefaultAnalyst | MesugakiAnnouncer | ConciseAuditor

definition all_personas :: "persona_kind list" where
  "all_personas = [DefaultAnalyst, MesugakiAnnouncer, ConciseAuditor]"

fun persona_key :: "persona_kind \<Rightarrow> string" where
  "persona_key DefaultAnalyst = ''persona.default_analyst.v1''"
| "persona_key MesugakiAnnouncer = ''persona.mesugaki.v1''"
| "persona_key ConciseAuditor = ''persona.concise_auditor.v1''"

definition announcer_intro :: string where
  "announcer_intro = utf8 [237, 151, 136, 236, 160, 145, 126, 32, 236, 157, 180, 235, 159, 176, 32, 234, 178, 131, 235,
     143, 132, 32, 237, 152, 188, 236, 158, 144, 32, 235, 170, 187, 32, 235, 180, 144, 236, 132,
     156, 32, 235, 169, 152, 237, 131, 128, 237, 138, 184, 237, 149, 156, 237, 133, 140, 32, 235,
     172, 188, 236, 150, 180, 235, 179, 180, 235, 138, 148, 32, 234, 177, 176, 236, 149, 188, 63,
     32, 236, 158, 144, 44, 32, 237, 140, 169, 237, 138, 184, 235, 130, 152, 32, 235, 152, 145,
     235, 176, 148, 235, 161, 156, 32, 237, 153, 149, 236, 157, 184, 237, 149, 180, 235, 180,
     144, 33, 10, 10]"

definition announcer_outro :: string where
  "announcer_outro = utf8 [10, 10, 237, 157, 165, 44, 32, 235, 139, 164, 236, 157, 140, 236, 151, 148, 32, 236, 138,
     164, 236, 138, 164, 235, 161, 156, 32, 235, 172, 184, 236, 132, 156, 235, 158, 145, 32, 236,
     189, 148, 235, 147, 156, 32, 235, 185, 132, 234, 181, 144, 237, 149, 180, 235, 179, 180,
     234, 179, 160, 32, 236, 152, 164, 235, 157, 188, 234, 179, 160, 126, 63]"

definition auditor_intro :: string where
  "auditor_intro = utf8 [91, 234, 176, 144, 236, 130, 172, 32, 237, 149, 181, 236, 139, 172, 32, 236, 154, 148, 236,
     149, 189, 93, 10]"

text \<open>\<open>PersonaRenderer::render\<close>.\<close>

definition render_persona :: "answer_bundle \<Rightarrow> persona_kind \<Rightarrow> answer_bundle" where
  "render_persona b k =
     (case k of
        DefaultAnalyst \<Rightarrow> b\<lparr>ab_direct_answer := ab_direct_answer b\<rparr>
      | MesugakiAnnouncer \<Rightarrow> b\<lparr>ab_direct_answer := announcer_intro @ ab_direct_answer b @ announcer_outro\<rparr>
      | ConciseAuditor \<Rightarrow> b\<lparr>ab_direct_answer := auditor_intro @ ab_direct_answer b\<rparr>)"

datatype announcer_level = LvTrace | LvInfo | LvNotice | LvSignificant | LvWarning | LvCritical

fun level_number :: "announcer_level \<Rightarrow> nat" where
  "level_number LvTrace = 0"
| "level_number LvInfo = 1"
| "level_number LvNotice = 2"
| "level_number LvSignificant = 3"
| "level_number LvWarning = 4"
| "level_number LvCritical = 5"

instantiation announcer_level :: linorder
begin

definition less_eq_announcer_level :: "announcer_level \<Rightarrow> announcer_level \<Rightarrow> bool" where
  "less_eq_announcer_level a b \<longleftrightarrow> level_number a \<le> level_number b"

definition less_announcer_level :: "announcer_level \<Rightarrow> announcer_level \<Rightarrow> bool" where
  "less_announcer_level a b \<longleftrightarrow> level_number a < level_number b"

instance
proof
  fix a b c :: announcer_level
  show "a < b \<longleftrightarrow> a \<le> b \<and> \<not> b \<le> a"
    by (auto simp: less_eq_announcer_level_def less_announcer_level_def)
  show "a \<le> a" by (simp add: less_eq_announcer_level_def)
  show "a \<le> b \<Longrightarrow> b \<le> c \<Longrightarrow> a \<le> c" by (simp add: less_eq_announcer_level_def)
  show "a \<le> b \<Longrightarrow> b \<le> a \<Longrightarrow> a = b"
    by (cases a; cases b) (simp_all add: less_eq_announcer_level_def)
  show "a \<le> b \<or> b \<le> a" by (auto simp: less_eq_announcer_level_def)
qed

end

definition should_interrupt_user :: "announcer_level \<Rightarrow> bool" where
  "should_interrupt_user l \<longleftrightarrow> l = LvCritical"

definition should_highlight_in_feed :: "announcer_level \<Rightarrow> bool" where
  "should_highlight_in_feed l \<longleftrightarrow> LvSignificant \<le> l"

section \<open>Factory catalogue\<close>

text \<open>The texts of \<open>assets/prompts\<close>, as \<open>include_str!\<close> reads them.\<close>

record prompt_assets =
  pa_kernel :: string
  pa_system :: "system_preset \<Rightarrow> string"
  pa_persona :: "persona_kind \<Rightarrow> string"

definition FACTORY_BUNDLE_VERSION :: string where
  "FACTORY_BUNDLE_VERSION = ''cr-ux-001.1''"

definition KERNEL_VERSION :: string where
  "KERNEL_VERSION = ''kernel.v1''"

definition MAX_EDITABLE_PROMPT_BYTES :: nat where
  "MAX_EDITABLE_PROMPT_BYTES = 32 * 1024"

definition canonical_asset :: "string \<Rightarrow> string" where
  "canonical_asset t =
     (if suffix [CHR 0x0D, CHR 0x0A] t then take (length t - 2) t
      else if suffix [CHR 0x0A] t then butlast t else t)"

definition all_presets :: "system_preset list" where
  "all_presets = [SysBeginner, SysIntermediate, SysProfessional, SysSenior]"

abbreviation prompt_error :: "string \<Rightarrow> mentat_error" where
  "prompt_error code \<equiv> PromptError code"

definition catalog_kernel :: "prompt_assets \<Rightarrow> string" where
  "catalog_kernel a = canonical_asset (pa_kernel a)"

definition catalog_system :: "prompt_assets \<Rightarrow> system_preset \<Rightarrow> string" where
  "catalog_system a p = canonical_asset (pa_system a p)"

definition catalog_persona :: "prompt_assets \<Rightarrow> persona_kind \<Rightarrow> string" where
  "catalog_persona a k = canonical_asset (pa_persona a k)"

definition catalog_load :: "prompt_assets \<Rightarrow> unit result" where
  "catalog_load a =
     (if catalog_kernel a \<noteq> [] \<and> list_all (\<lambda>p. catalog_system a p \<noteq> []) all_presets
         \<and> list_all (\<lambda>k. catalog_persona a k \<noteq> []) all_personas
      then Inr () else Inl (prompt_error ''FACTORY_PROMPT_EMPTY''))"

definition factory_by_key :: "prompt_assets \<Rightarrow> string \<Rightarrow> string option" where
  "factory_by_key a key =
     (case List.find (\<lambda>p. resource_key p = key) all_presets of
        Some p \<Rightarrow> Some (catalog_system a p)
      | None \<Rightarrow> map_option (catalog_persona a) (List.find (\<lambda>k. persona_key k = key) all_personas))"

definition validate_editable :: "string \<Rightarrow> unit result" where
  "validate_editable value =
     (if MAX_EDITABLE_PROMPT_BYTES < length value then Inl (prompt_error ''PROMPT_TOO_LARGE'') else Inr ())"

fun source_text :: "prompt_assets \<Rightarrow> prompt_content_source \<Rightarrow> (string \<times> string) result" where
  "source_text a (FactoryRef key version checksum) =
     (if version \<noteq> FACTORY_BUNDLE_VERSION then Inl (prompt_error ''FACTORY_PROMPT_VERSION_UNKNOWN'')
      else then_do (ok_or (factory_by_key a key) (prompt_error ''FACTORY_PROMPT_KEY_UNKNOWN''))
        (\<lambda>t. Inr (t, checksum)))"
| "source_text a (UserText content checksum) =
     then_do (validate_editable content) (\<lambda>_. Inr (content, checksum))"
| "source_text a (RestoredText content checksum restored_from) =
     then_do (validate_editable content) (\<lambda>_. Inr (content, checksum))"

definition resolve_source ::
  "(string \<Rightarrow> string) \<Rightarrow> prompt_assets \<Rightarrow> prompt_content_source \<Rightarrow> string result" where
  "resolve_source sha a src =
     then_do (source_text a src) (\<lambda>(t, expected).
       if sha_hex sha t \<noteq> expected then Inl (prompt_error ''PROMPT_CHECKSUM_MISMATCH'') else Inr t)"

section \<open>Composition\<close>

record repository_prompt_state =
  rps_repository_id :: "uuid option"
  rps_snapshot_id :: "uuid option"
  rps_status :: "snapshot_status option"
  rps_tools_available :: bool

definition no_repository :: repository_prompt_state where
  "no_repository = \<lparr> rps_repository_id = None, rps_snapshot_id = None, rps_status = None,
     rps_tools_available = False \<rparr>"

fun status_word :: "snapshot_status option \<Rightarrow> string" where
  "status_word None = ''none''"
| "status_word (Some SnapReady) = ''ready''"
| "status_word (Some SnapStale) = ''stale''"
| "status_word (Some SnapIndexing) = ''indexing''"
| "status_word (Some SnapIncomplete) = ''incomplete''"

definition canonical_text :: "(uuid \<Rightarrow> string) \<Rightarrow> repository_prompt_state \<Rightarrow> string" where
  "canonical_text uuid_text s =
     ''repository='' @ (case rps_repository_id s of Some i \<Rightarrow> uuid_text i | None \<Rightarrow> ''none'') @
     '';snapshot='' @ (case rps_snapshot_id s of Some i \<Rightarrow> uuid_text i | None \<Rightarrow> ''none'') @
     '';status='' @ status_word (rps_status s) @
     '';tools='' @ (if rps_tools_available s then ''available'' else ''unavailable'')"

record composition_input =
  ci_revision_id :: uuid
  ci_system :: string
  ci_persona :: string
  ci_repository :: repository_prompt_state

record prompt_composition =
  pc_effective :: string
  pc_digest :: string
  pc_kernel_digest :: string

record prompt_sections =
  sec_kernel :: string
  sec_system :: string
  sec_persona :: string
  sec_repository :: string

definition section_text :: "string \<Rightarrow> string \<Rightarrow> string" where
  "section_text header body = header @ '' '' @ show_nat (length body) @ [CHR 0x0A] @ body @ [CHR 0x0A]"

definition effective_prompt :: "(uuid \<Rightarrow> string) \<Rightarrow> string \<Rightarrow> composition_input \<Rightarrow> string" where
  "effective_prompt uuid_text kern i =
     ''CM_PROMPT_V1'' @ [CHR 0x0A] @
     section_text (''KERNEL '' @ KERNEL_VERSION) kern @
     section_text (''SYSTEM '' @ uuid_text (ci_revision_id i)) (ci_system i) @
     section_text (''PERSONA '' @ uuid_text (ci_revision_id i)) (ci_persona i) @
     section_text ''REPOSITORY'' (canonical_text uuid_text (ci_repository i))"

definition compose_prompt ::
  "(string \<Rightarrow> string) \<Rightarrow> (uuid \<Rightarrow> string) \<Rightarrow> prompt_assets \<Rightarrow> composition_input \<Rightarrow> prompt_composition result" where
  "compose_prompt sha uuid_text a i =
     then_do (validate_editable (ci_system i)) (\<lambda>_.
     then_do (validate_editable (ci_persona i)) (\<lambda>_.
     then_do (catalog_load a) (\<lambda>_.
       let effective = effective_prompt uuid_text (catalog_kernel a) i in
       Inr \<lparr> pc_effective = effective, pc_digest = sha_hex sha effective,
             pc_kernel_digest = sha_hex sha (catalog_kernel a) \<rparr>)))"

section \<open>Parsing a composition\<close>

abbreviation frame_error :: mentat_error where
  "frame_error \<equiv> prompt_error ''PROMPT_FRAME_INVALID''"

definition read_line :: "string \<Rightarrow> nat \<Rightarrow> (string \<times> nat) result" where
  "read_line bytes cursor =
     (if length bytes < cursor then Inl frame_error
      else then_do (ok_or (find_char (\<lambda>c. c = CHR 0x0A) (drop cursor bytes)) frame_error) (\<lambda>e.
        let l = take e (drop cursor bytes) in
        if utf8_valid l then Inr (l, cursor + e + 1) else Inl frame_error))"

definition expect_line :: "string \<Rightarrow> nat \<Rightarrow> string \<Rightarrow> nat result" where
  "expect_line bytes cursor expected =
     then_do (read_line bytes cursor) (\<lambda>(l, c). if l \<noteq> expected then Inl frame_error else Inr c)"

definition read_framed_section :: "string \<Rightarrow> nat \<Rightarrow> string \<Rightarrow> nat \<Rightarrow> (string \<times> nat) result" where
  "read_framed_section bytes cursor kind token_count =
     then_do (read_line bytes cursor) (\<lambda>(header, c).
       let tokens = split_on (CHR '' '') header in
       if length tokens \<noteq> token_count \<or> hd tokens \<noteq> kind then Inl frame_error
       else then_do (ok_or (parse_usize (last tokens)) frame_error) (\<lambda>n.
         if 2 ^ 64 \<le> c + n then Inl frame_error
         else if length bytes < c + n then Inl frame_error
         else let body = take n (drop c bytes); e = c + n in
           if e < length bytes \<and> bytes ! e = CHR 0x0A
           then (if utf8_valid body then Inr (body, e + 1) else Inl frame_error)
           else Inl frame_error))"

definition parse_composition :: "string \<Rightarrow> prompt_sections result" where
  "parse_composition bytes =
     then_do (expect_line bytes 0 ''CM_PROMPT_V1'') (\<lambda>c0.
     then_do (read_framed_section bytes c0 ''KERNEL'' 3) (\<lambda>(kern, c1).
     then_do (read_framed_section bytes c1 ''SYSTEM'' 3) (\<lambda>(system, c2).
     then_do (read_framed_section bytes c2 ''PERSONA'' 3) (\<lambda>(persona, c3).
     then_do (read_framed_section bytes c3 ''REPOSITORY'' 2) (\<lambda>(repository, c4).
       if c4 \<noteq> length bytes then Inl frame_error
       else Inr \<lparr> sec_kernel = kern, sec_system = system, sec_persona = persona,
                  sec_repository = repository \<rparr>)))))"

section \<open>Framing\<close>

lemma find_char_first:
  "LF \<notin> set l \<Longrightarrow> find_char (\<lambda>c. c = LF) (l @ LF # post) = Some (length l)"
  by (induction l) auto

lemma read_line_at:
  assumes "CHR 0x0A \<notin> set l" and "utf8_valid l"
  shows "read_line (pre @ l @ CHR 0x0A # post) (length pre) = Inr (l, length pre + length l + 1)"
  using assms by (simp add: read_line_def find_char_first)

lemma split_on_no: "c \<notin> set s \<Longrightarrow> split_on c s = [s]"
  by (induction s) auto

lemma show_nat_no_space: "CHR '' '' \<notin> set (show_nat n)" "CHR 0x0A \<notin> set (show_nat n)"
  by (rule show_nat_no_char, code_simp)+

lemma show_nat_ascii: "list_all is_ascii (show_nat n)"
  using show_nat_digits [of n] by (auto simp: list_all_iff is_ascii_digit_def is_ascii_def)

text \<open>A header of \<open>k\<close> words, the first of them the kind, is read back with its body.\<close>

lemma read_section_at:
  assumes "CHR 0x0A \<notin> set header" and "list_all is_ascii header"
    and "split_on (CHR '' '') header = ws" and "hd ws = kind" and "Suc (length ws) = k"
    and "utf8_valid body" and "length (pre @ section_text header body) < 2 ^ 64"
  shows "read_framed_section (pre @ section_text header body @ post) (length pre) kind k
    = Inr (body, length (pre @ section_text header body))"
proof -
  let ?h = "header @ '' '' @ show_nat (length body)"
  have h: "CHR 0x0A \<notin> set ?h" "utf8_valid ?h"
    using assms(1,2) show_nat_no_space show_nat_ascii
    by (auto intro!: utf8_valid_ascii simp: is_ascii_def byte_of_def)
  have "split_on (CHR '' '') ?h = ws @ [show_nat (length body)]"
    using assms(3) split_on_join [of "CHR '' ''" header "show_nat (length body)"]
      split_on_no [OF show_nat_no_space(1)] by simp
  moreover have "ws \<noteq> []" using assms(3) by auto
  moreover have "parse_usize (show_nat (length body)) = Some (length body)"
    using assms(7) by (intro parse_usize_show_nat) (simp add: section_text_def)
  moreover have "read_line (pre @ section_text header body @ post) (length pre)
      = Inr (?h, length pre + length ?h + 1)"
    using read_line_at [OF h, of pre "body @ CHR 0x0A # post"] by (simp add: section_text_def)
  moreover have "drop (length pre + length ?h + 1) (pre @ section_text header body @ post)
      = body @ CHR 0x0A # post"
    by (simp add: section_text_def)
  moreover have "(pre @ section_text header body @ post) ! (length pre + length ?h + 1 + length body) = CHR 0x0A"
    by (simp add: section_text_def nth_append)
  ultimately show ?thesis
    using assms(4-7)
    by (simp add: read_framed_section_def Let_def section_text_def del: power_numeral)
qed

text \<open>The documented shape of a UUID's text.\<close>

definition uuid_text_plain :: "(uuid \<Rightarrow> string) \<Rightarrow> bool" where
  "uuid_text_plain t \<longleftrightarrow> (\<forall>u. t u \<noteq> [] \<and> list_all (\<lambda>c. is_ascii_alphanumeric c \<or> c = CHR ''-'') (t u))"

lemma plain_char:
  assumes "is_ascii_alphanumeric c \<or> c = CHR ''-''"
  shows "is_ascii c" "c \<noteq> CHR 0x0A" "c \<noteq> CHR '' ''"
  using assms by (auto simp: ascii_class_defs is_ascii_def byte_of_def)

lemma plain_text:
  assumes "uuid_text_plain t"
  shows "list_all is_ascii (t u)" "CHR 0x0A \<notin> set (t u)" "CHR '' '' \<notin> set (t u)"
proof -
  have c: "is_ascii_alphanumeric c \<or> c = CHR ''-''" if "c \<in> set (t u)" for c
    using assms that unfolding uuid_text_plain_def list_all_iff by blast
  show "list_all is_ascii (t u)" using plain_char(1) [OF c] unfolding list_all_iff by blast
  show "CHR 0x0A \<notin> set (t u)" using plain_char(2) [OF c] by blast
  show "CHR '' '' \<notin> set (t u)" using plain_char(3) [OF c] by blast
qed

lemma canonical_text_ascii:
  assumes "uuid_text_plain t"
  shows "list_all is_ascii (canonical_text t s)"
proof -
  have "list_all is_ascii (status_word st)" for st
    by (cases st rule: status_word.cases) (simp_all add: is_ascii_def byte_of_def)
  then show ?thesis
    using plain_text(1) [OF assms]
    by (auto simp: canonical_text_def is_ascii_def byte_of_def split: option.splits)
qed

lemma magic_valid: "utf8_valid ''CM_PROMPT_V1''"
  by (rule utf8_valid_ascii) code_simp

declare utf8_valid.simps [simp del]

lemma parse_effective_prompt:
  assumes "uuid_text_plain t" and "utf8_valid kern" and "utf8_valid (ci_system i)" and "utf8_valid (ci_persona i)"
    and "length (effective_prompt t kern i) < 2 ^ 64"
  shows "parse_composition (effective_prompt t kern i) =
    Inr \<lparr> sec_kernel = kern, sec_system = ci_system i, sec_persona = ci_persona i,
          sec_repository = canonical_text t (ci_repository i) \<rparr>"
proof -
  let ?magic = "''CM_PROMPT_V1'' @ [CHR 0x0A]"
  let ?k = "section_text (''KERNEL '' @ KERNEL_VERSION) kern"
  let ?s = "section_text (''SYSTEM '' @ t (ci_revision_id i)) (ci_system i)"
  let ?p = "section_text (''PERSONA '' @ t (ci_revision_id i)) (ci_persona i)"
  let ?r = "section_text ''REPOSITORY'' (canonical_text t (ci_repository i))"
  have eff: "effective_prompt t kern i = ?magic @ ?k @ ?s @ ?p @ ?r"
    by (simp add: effective_prompt_def)
  note len = assms(5) [unfolded eff]
  have words: "split_on (CHR '' '') (kind @ '' '' @ w) = [kind, w]"
    if "CHR '' '' \<notin> set kind" and "CHR '' '' \<notin> set w" for kind w
    using that split_on_join [of "CHR '' ''" kind w] by (simp add: split_on_no)
  have m: "expect_line (?magic @ ?k @ ?s @ ?p @ ?r) 0 ''CM_PROMPT_V1'' = Inr (length ?magic)"
    using read_line_at [of "''CM_PROMPT_V1''" "[]" "?k @ ?s @ ?p @ ?r"]
    by (simp add: expect_line_def magic_valid)
  have k: "read_framed_section (?magic @ ?k @ ?s @ ?p @ ?r) (length ?magic) ''KERNEL'' 3
      = Inr (kern, length (?magic @ ?k))"
    by (rule read_section_at [where ws = "[''KERNEL'', KERNEL_VERSION]"])
      (use len assms(2) in \<open>simp_all add: KERNEL_VERSION_def is_ascii_def byte_of_def\<close>)
  have s: "read_framed_section ((?magic @ ?k) @ ?s @ ?p @ ?r) (length (?magic @ ?k)) ''SYSTEM'' 3
      = Inr (ci_system i, length ((?magic @ ?k) @ ?s))"
    by (rule read_section_at [where ws = "[''SYSTEM'', t (ci_revision_id i)]"])
      (use len assms(3) plain_text [OF assms(1)] words [of "''SYSTEM''" "t (ci_revision_id i)"]
        in \<open>simp_all add: is_ascii_def byte_of_def\<close>)
  have p: "read_framed_section ((?magic @ ?k @ ?s) @ ?p @ ?r) (length (?magic @ ?k @ ?s)) ''PERSONA'' 3
      = Inr (ci_persona i, length ((?magic @ ?k @ ?s) @ ?p))"
    by (rule read_section_at [where ws = "[''PERSONA'', t (ci_revision_id i)]"])
      (use len assms(4) plain_text [OF assms(1)] words [of "''PERSONA''" "t (ci_revision_id i)"]
        in \<open>simp_all add: is_ascii_def byte_of_def\<close>)
  have r: "read_framed_section ((?magic @ ?k @ ?s @ ?p) @ ?r @ []) (length (?magic @ ?k @ ?s @ ?p)) ''REPOSITORY'' 2
      = Inr (canonical_text t (ci_repository i), length ((?magic @ ?k @ ?s @ ?p) @ ?r))"
    by (rule read_section_at [where ws = "[''REPOSITORY'']"])
      (use len utf8_valid_ascii [OF canonical_text_ascii [OF assms(1)]]
        in \<open>simp_all add: is_ascii_def byte_of_def\<close>)
  show ?thesis
    using m k s p r by (simp add: parse_composition_def eff)
qed

section \<open>Properties\<close>

text \<open>
  C37: The composed system prompt is read back exactly: whatever the editable prompts contain, framing
  markers included, parsing yields the kernel, the system and persona prompts and the repository
  line as they were put in. (UUID texts are ASCII letters, digits and dashes; the texts are UTF-8.)
\<close>

theorem composed_prompt_parses_back:
  assumes "uuid_text_plain uuid_text" and "compose_prompt sha uuid_text a i = Inr c"
    and "utf8_valid (catalog_kernel a)" and "utf8_valid (ci_system i)" and "utf8_valid (ci_persona i)"
    and "length (pc_effective c) < 2 ^ 64"
  shows "parse_composition (pc_effective c) =
    Inr \<lparr> sec_kernel = catalog_kernel a, sec_system = ci_system i, sec_persona = ci_persona i,
          sec_repository = canonical_text uuid_text (ci_repository i) \<rparr>"
proof -
  have "pc_effective c = effective_prompt uuid_text (catalog_kernel a) i"
    using assms(2) by (auto simp: compose_prompt_def Let_def)
  then show ?thesis
    using parse_effective_prompt [OF assms(1,3-5)] assms(6) by simp
qed

text \<open>
  The digest recorded with a turn identifies the prompt: two compositions with the same digest
  were made from the same system prompt, persona prompt and repository state text, or their
  prompts are a collision of the hash.
\<close>

theorem prompt_digest_identifies_prompts:
  assumes "uuid_text_plain uuid_text" and "utf8_valid (catalog_kernel a)"
    and "compose_prompt sha uuid_text a i = Inr c" and "compose_prompt sha uuid_text a j = Inr d"
    and "pc_digest c = pc_digest d"
    and "utf8_valid (ci_system i) \<and> utf8_valid (ci_persona i) \<and> length (pc_effective c) < 2 ^ 64"
    and "utf8_valid (ci_system j) \<and> utf8_valid (ci_persona j) \<and> length (pc_effective d) < 2 ^ 64"
  shows "ci_system i = ci_system j \<and> ci_persona i = ci_persona j
      \<and> canonical_text uuid_text (ci_repository i) = canonical_text uuid_text (ci_repository j)
    \<or> collision sha (pc_effective c) (pc_effective d)"
proof -
  have c: "pc_effective c = effective_prompt uuid_text (catalog_kernel a) i"
      "pc_digest c = sha_hex sha (pc_effective c)"
    using assms(3) by (auto simp: compose_prompt_def Let_def)
  have d: "pc_effective d = effective_prompt uuid_text (catalog_kernel a) j"
      "pc_digest d = sha_hex sha (pc_effective d)"
    using assms(4) by (auto simp: compose_prompt_def Let_def)
  have "pc_effective c = pc_effective d \<or> collision sha (pc_effective c) (pc_effective d)"
    using assms(5) c(2) d(2) sha_hex_eq by metis
  moreover have "ci_system i = ci_system j \<and> ci_persona i = ci_persona j
      \<and> canonical_text uuid_text (ci_repository i) = canonical_text uuid_text (ci_repository j)"
    if "pc_effective c = pc_effective d"
    using parse_effective_prompt [OF assms(1,2), of i] parse_effective_prompt [OF assms(1,2), of j]
      assms(6,7) c(1) d(1) that by simp
  ultimately show ?thesis by blast
qed

text \<open>
  A factory reference with the key of a preset or of a persona and the current bundle version
  resolves to the text of that preset or persona exactly when the checksum is the text's digest.
\<close>

theorem factory_reference_resolves:
  "resolve_source sha a (FactoryRef (resource_key p) FACTORY_BUNDLE_VERSION cs) =
     (if sha_hex sha (catalog_system a p) = cs then Inr (catalog_system a p)
      else Inl (PromptError ''PROMPT_CHECKSUM_MISMATCH''))
   \<and> resolve_source sha a (FactoryRef (persona_key k) FACTORY_BUNDLE_VERSION cs) =
     (if sha_hex sha (catalog_persona a k) = cs then Inr (catalog_persona a k)
      else Inl (PromptError ''PROMPT_CHECKSUM_MISMATCH''))"
proof -
  have "factory_by_key a (resource_key p) = Some (catalog_system a p)"
    by (cases p) (simp_all add: factory_by_key_def all_presets_def)
  moreover have "factory_by_key a (persona_key k) = Some (catalog_persona a k)"
    by (cases k) (simp_all add: factory_by_key_def all_presets_def all_personas_def)
  ultimately show ?thesis by (simp add: resolve_source_def)
qed

section \<open>Witnesses\<close>

lemma hex_uuid_plain: "uuid_text_plain hex_uuid"
  using hex_uuid_alphanumeric hex_uuid_nonempty by (auto simp: uuid_text_plain_def list_all_iff)

definition demo_assets :: prompt_assets where
  "demo_assets = \<lparr> pa_kernel = ''rules'' @ [CHR 0x0A], pa_system = (\<lambda>_. ''sys''), pa_persona = (\<lambda>_. ''per'') \<rparr>"

text \<open>The system prompt imitates the frame of the next section.\<close>

definition demo_input :: composition_input where
  "demo_input = \<lparr> ci_revision_id = 7, ci_system = ''x'' @ [CHR 0x0A] @ ''PERSONA fake 3'' @ [CHR 0x0A],
     ci_persona = ''calm'', ci_repository = no_repository \<rparr>"

definition demo_composition :: prompt_composition where
  "demo_composition = (case compose_prompt (\<lambda>s. s) hex_uuid demo_assets demo_input of Inr c \<Rightarrow> c | Inl _ \<Rightarrow> undefined)"

lemma demo_composes: "is_ok (compose_prompt (\<lambda>s. s) hex_uuid demo_assets demo_input)"
  by code_simp

lemma demo_composed: "compose_prompt (\<lambda>s. s) hex_uuid demo_assets demo_input = Inr demo_composition"
  using demo_composes by (auto simp: demo_composition_def is_ok_iff)

lemma demo_utf8:
  "utf8_valid (catalog_kernel demo_assets)" "utf8_valid (ci_system demo_input)" "utf8_valid (ci_persona demo_input)"
  by (rule utf8_valid_ascii, code_simp)+

lemma demo_length: "length (pc_effective demo_composition) < 2 ^ 64"
proof -
  have "length (pc_effective demo_composition) < 1000" by code_simp
  then show ?thesis by simp
qed

lemma composed_prompt_parses_back_witness:
  "parse_composition (pc_effective demo_composition) =
    Inr \<lparr> sec_kernel = catalog_kernel demo_assets, sec_system = ci_system demo_input,
          sec_persona = ci_persona demo_input,
          sec_repository = canonical_text hex_uuid (ci_repository demo_input) \<rparr>"
  by (rule composed_prompt_parses_back [OF hex_uuid_plain demo_composed demo_utf8 demo_length])

lemma prompt_digest_identifies_prompts_witness:
  "ci_system demo_input = ci_system demo_input \<and> ci_persona demo_input = ci_persona demo_input
     \<and> canonical_text hex_uuid (ci_repository demo_input) = canonical_text hex_uuid (ci_repository demo_input)
   \<or> collision (\<lambda>s. s) (pc_effective demo_composition) (pc_effective demo_composition)"
  by (rule prompt_digest_identifies_prompts [OF hex_uuid_plain demo_utf8(1) demo_composed demo_composed])
    (simp_all add: demo_utf8 demo_length [simplified])

end
