(* ===== verification/Grounding_Contract.thy ===== *)
theory Grounding_Contract
  imports Storage_Contract
begin




















end
