(* ===== verification/Prompt_Store.thy ===== *)
theory Prompt_Store
  imports Storage_Schema Digests
begin

text \<open>
  \<open>mentat-storage/src/prompt_store.rs\<close>: prompt profiles with immutable content versions and
  revisions. A profile row points at its active revision; applying a draft inserts the contents it
  changes, inserts a revision and moves the pointer, when the active revision is still the one the
  draft was edited from. Fresh ids, the clock and SHA-256 are parameters; \<open>INTEGER\<close> columns are
  \<open>int\<close>, columns whose text the code encodes are strings.
\<close>

section \<open>Tables\<close>

record profile_row =
  pf_id :: uuid
  pf_name :: string
  pf_experience :: string
  pf_base :: string
  pf_active :: uuid
  pf_system_version :: string
  pf_persona_version :: string
  pf_created_at :: datetime
  pf_updated_at :: datetime

record content_row =
  ct_id :: uuid
  ct_profile :: uuid
  ct_layer :: string
  ct_version :: int
  ct_kind :: string
  ct_key :: "string option"
  ct_resource_version :: "string option"
  ct_content :: "string option"
  ct_checksum :: string
  ct_restored_from :: "uuid option"
  ct_parent :: "uuid option"
  ct_created_at :: datetime

record revision_row =
  rv_id :: uuid
  rv_profile :: uuid
  rv_revision :: int
  rv_system :: "uuid option"
  rv_persona :: "uuid option"
  rv_system_checksum :: string
  rv_persona_checksum :: string
  rv_deleted :: int
  rv_previous :: "uuid option"
  rv_created_at :: datetime

record prompt_db =
  pt_profiles :: "profile_row list"
  pt_contents :: "content_row list"
  pt_revisions :: "revision_row list"

definition empty_prompt_db :: prompt_db where
  "empty_prompt_db = \<lparr> pt_profiles = [], pt_contents = [], pt_revisions = [] \<rparr>"

text \<open>The \<open>INSERT\<close> statements with the constraints of their tables.\<close>

definition insert_profile_row :: "string \<Rightarrow> profile_row \<Rightarrow> prompt_db \<Rightarrow> prompt_db result" where
  "insert_profile_row code r d =
     then_do (insert_row (pf_id r \<notin> pf_id ` set (pt_profiles d)) code r (pt_profiles d))
       (\<lambda>rs. Inr (d\<lparr>pt_profiles := rs\<rparr>))"

definition content_shape_ok :: "content_row \<Rightarrow> bool" where
  "content_shape_ok r \<longleftrightarrow>
     ct_kind r = ''FactoryRef'' \<and> ct_key r \<noteq> None \<and> ct_resource_version r \<noteq> None \<and> ct_content r = None
   \<or> ct_kind r = ''UserText'' \<and> ct_key r = None \<and> ct_resource_version r = None \<and> ct_content r \<noteq> None
   \<or> ct_kind r = ''RestoredText'' \<and> ct_key r = None \<and> ct_resource_version r = None \<and> ct_content r \<noteq> None
     \<and> ct_restored_from r \<noteq> None"

definition insert_content_row :: "string \<Rightarrow> content_row \<Rightarrow> prompt_db \<Rightarrow> prompt_db result" where
  "insert_content_row code r d =
     then_do (insert_row (ct_id r \<notin> ct_id ` set (pt_contents d)
         \<and> ct_profile r \<in> pf_id ` set (pt_profiles d)
         \<and> ct_layer r \<in> {''System'', ''Persona''} \<and> 0 < ct_version r \<and> content_shape_ok r
         \<and> (ct_profile r, ct_layer r, ct_version r) \<notin> (\<lambda>c. (ct_profile c, ct_layer c, ct_version c)) ` set (pt_contents d))
       code r (pt_contents d)) (\<lambda>rs. Inr (d\<lparr>pt_contents := rs\<rparr>))"

definition refers_to_content :: "prompt_db \<Rightarrow> uuid option \<Rightarrow> bool" where
  "refers_to_content d v \<longleftrightarrow> (case v of None \<Rightarrow> True | Some i \<Rightarrow> i \<in> ct_id ` set (pt_contents d))"

definition insert_revision_row :: "string \<Rightarrow> revision_row \<Rightarrow> prompt_db \<Rightarrow> prompt_db result" where
  "insert_revision_row code r d =
     then_do (insert_row (rv_id r \<notin> rv_id ` set (pt_revisions d)
         \<and> rv_profile r \<in> pf_id ` set (pt_profiles d) \<and> 0 < rv_revision r
         \<and> refers_to_content d (rv_system r) \<and> refers_to_content d (rv_persona r)
         \<and> rv_deleted r \<in> {0, 1}
         \<and> (rv_profile r, rv_revision r) \<notin> (\<lambda>v. (rv_profile v, rv_revision v)) ` set (pt_revisions d))
       code r (pt_revisions d)) (\<lambda>rs. Inr (d\<lparr>pt_revisions := rs\<rparr>))"

section \<open>Text columns\<close>

fun experience_preset_text :: "experience_preset \<Rightarrow> string" where
  "experience_preset_text ExpBeginner = ''Beginner''"
| "experience_preset_text ExpIntermediate = ''Intermediate''"
| "experience_preset_text ExpProfessional = ''Professional''"
| "experience_preset_text ExpSenior = ''Senior''"
| "experience_preset_text ExpCustom = ''Custom''"

definition parse_experience_preset :: "string \<Rightarrow> experience_preset result" where
  "parse_experience_preset s =
     (if s = ''Beginner'' then Inr ExpBeginner else if s = ''Intermediate'' then Inr ExpIntermediate
      else if s = ''Professional'' then Inr ExpProfessional else if s = ''Senior'' then Inr ExpSenior
      else if s = ''Custom'' then Inr ExpCustom else Inl (storage_error ''STORAGE_DECODE_ENUM''))"

fun system_preset_text :: "system_preset \<Rightarrow> string" where
  "system_preset_text SysBeginner = ''Beginner''"
| "system_preset_text SysIntermediate = ''Intermediate''"
| "system_preset_text SysProfessional = ''Professional''"
| "system_preset_text SysSenior = ''Senior''"

definition parse_system_preset :: "string \<Rightarrow> system_preset result" where
  "parse_system_preset s =
     (if s = ''Beginner'' then Inr SysBeginner else if s = ''Intermediate'' then Inr SysIntermediate
      else if s = ''Professional'' then Inr SysProfessional else if s = ''Senior'' then Inr SysSenior
      else Inl (storage_error ''STORAGE_DECODE_ENUM''))"

fun prompt_layer_text :: "prompt_layer \<Rightarrow> string" where
  "prompt_layer_text LayerSystem = ''System''"
| "prompt_layer_text LayerPersona = ''Persona''"

definition parse_prompt_layer :: "string \<Rightarrow> prompt_layer result" where
  "parse_prompt_layer s =
     (if s = ''System'' then Inr LayerSystem else if s = ''Persona'' then Inr LayerPersona
      else Inl (storage_error ''STORAGE_DECODE_ENUM''))"

lemma parse_experience_preset_text [simp]: "parse_experience_preset (experience_preset_text e) = Inr e"
  by (cases e) (simp_all add: parse_experience_preset_def)

lemma parse_system_preset_text [simp]: "parse_system_preset (system_preset_text e) = Inr e"
  by (cases e) (simp_all add: parse_system_preset_def)

lemma parse_prompt_layer_text [simp]: "parse_prompt_layer (prompt_layer_text l) = Inr l"
  by (cases l) (simp_all add: parse_prompt_layer_def)

lemma prompt_layer_text_inj [simp]: "prompt_layer_text l = prompt_layer_text l' \<longleftrightarrow> l = l'"
  by (cases l; cases l') simp_all

section \<open>Decoding\<close>

definition into_profile :: "profile_row \<Rightarrow> prompt_profile result" where
  "into_profile r =
     then_do (parse_experience_preset (pf_experience r)) (\<lambda>e.
     then_do (parse_system_preset (pf_base r)) (\<lambda>b.
       Inr \<lparr> pp_id = pf_id r, pp_name = pf_name r, pp_experience_preset = e, pp_base_system_preset = b,
             pp_active_revision_id = pf_active r, pp_factory_system_version = pf_system_version r,
             pp_factory_persona_version = pf_persona_version r, pp_created_at = pf_created_at r,
             pp_updated_at = pf_updated_at r \<rparr>))"

definition into_revision :: "revision_row \<Rightarrow> prompt_profile_revision result" where
  "into_revision r =
     (if rv_revision r < 0 then Inl (storage_error ''STORAGE_DECODE_INTEGER'')
      else if rv_deleted r \<noteq> 0 \<and> rv_deleted r \<noteq> 1 then Inl (storage_error ''STORAGE_DECODE_BOOL'')
      else Inr \<lparr> pr_id = rv_id r, pr_profile_id = rv_profile r, pr_revision = nat (rv_revision r),
             pr_system_version_id = rv_system r, pr_persona_version_id = rv_persona r,
             pr_system_checksum = rv_system_checksum r, pr_persona_checksum = rv_persona_checksum r,
             pr_content_deleted = (rv_deleted r = 1), pr_expected_previous = rv_previous r,
             pr_created_at = rv_created_at r \<rparr>)"

definition into_source :: "content_row \<Rightarrow> prompt_content_source result" where
  "into_source r =
     (let missing = storage_error ''STORAGE_DECODE_SOURCE'' in
      if ct_kind r = ''FactoryRef'' then
        then_do (ok_or (ct_key r) missing) (\<lambda>k. then_do (ok_or (ct_resource_version r) missing) (\<lambda>v.
          Inr (FactoryRef k v (ct_checksum r))))
      else if ct_kind r = ''UserText'' then
        then_do (ok_or (ct_content r) missing) (\<lambda>c. Inr (UserText c (ct_checksum r)))
      else if ct_kind r = ''RestoredText'' then
        then_do (ok_or (ct_content r) missing) (\<lambda>c. then_do (ok_or (ct_restored_from r) missing) (\<lambda>i.
          Inr (RestoredText c (ct_checksum r) i)))
      else Inl (storage_error ''STORAGE_DECODE_ENUM''))"

definition into_version :: "content_row \<Rightarrow> prompt_content_version result" where
  "into_version r =
     (if ct_version r < 0 then Inl (storage_error ''STORAGE_DECODE_INTEGER'')
      else then_do (into_source r) (\<lambda>s. then_do (parse_prompt_layer (ct_layer r)) (\<lambda>l.
        Inr \<lparr> pv_id = ct_id r, pv_profile_id = ct_profile r, pv_layer = l, pv_version = nat (ct_version r),
              pv_source = s, pv_parent_version_id = ct_parent r, pv_created_at = ct_created_at r \<rparr>)))"

section \<open>Loading\<close>

definition load_content_version :: "uuid \<Rightarrow> uuid \<Rightarrow> prompt_db \<Rightarrow> prompt_content_version result" where
  "load_content_version profile i d =
     then_do (ok_or (List.find (\<lambda>c. ct_id c = i \<and> ct_profile c = profile) (pt_contents d))
         (storage_error ''PROMPT_CONTENT_READ_FAILED'')) into_version"

definition load_content_source :: "uuid \<Rightarrow> uuid \<Rightarrow> prompt_db \<Rightarrow> prompt_content_source result" where
  "load_content_source profile i d = then_do (load_content_version profile i d) (\<lambda>v. Inr (pv_source v))"

definition load_active_prompt_profile :: "uuid \<Rightarrow> prompt_db \<Rightarrow> stored_prompt_profile option result" where
  "load_active_prompt_profile i d =
     (case List.find (\<lambda>p. pf_id p = i) (pt_profiles d) of
        None \<Rightarrow> Inr None
      | Some row \<Rightarrow>
        then_do (into_profile row) (\<lambda>p.
        then_do (ok_or (List.find (\<lambda>r. rv_id r = pp_active_revision_id p \<and> rv_profile r = pp_id p) (pt_revisions d))
            (storage_error ''PROMPT_REVISION_READ_FAILED'')) (\<lambda>rrow.
        then_do (into_revision rrow) (\<lambda>r.
        then_do (ok_or (pr_system_version_id r) (storage_error ''PROMPT_ACTIVE_CONTENT_DELETED'')) (\<lambda>sv.
        then_do (ok_or (pr_persona_version_id r) (storage_error ''PROMPT_ACTIVE_CONTENT_DELETED'')) (\<lambda>pv.
        then_do (load_content_source (pp_id p) sv d) (\<lambda>ss.
        then_do (load_content_source (pp_id p) pv d) (\<lambda>ps.
          Inr (Some \<lparr> sp_profile = p, sp_revision = r, sp_system_source = ss, sp_persona_source = ps \<rparr>)))))))))"

text \<open>\<open>ORDER BY version DESC\<close>: the versions of a layer are distinct, so the order is determined.\<close>

definition list_prompt_versions :: "uuid \<Rightarrow> prompt_layer \<Rightarrow> prompt_db \<Rightarrow> prompt_content_version list result" where
  "list_prompt_versions profile l d =
     collect_results into_version
       (sort_key (\<lambda>c. - ct_version c)
         (filter (\<lambda>c. ct_profile c = profile \<and> ct_layer c = prompt_layer_text l) (pt_contents d)))"

section \<open>Writing\<close>

definition source_columns ::
  "prompt_content_source \<Rightarrow> string \<times> string option \<times> string option \<times> string option \<times> string \<times> uuid option" where
  "source_columns s =
     (case s of
        FactoryRef k v c \<Rightarrow> (''FactoryRef'', Some k, Some v, None, c, None)
      | UserText t c \<Rightarrow> (''UserText'', None, None, Some t, c, None)
      | RestoredText t c i \<Rightarrow> (''RestoredText'', None, None, Some t, c, Some i))"

definition content_row_of ::
  "uuid \<Rightarrow> uuid \<Rightarrow> prompt_layer \<Rightarrow> int \<Rightarrow> prompt_content_source \<Rightarrow> uuid option \<Rightarrow> datetime \<Rightarrow> content_row" where
  "content_row_of i profile l n s parent now =
     (case source_columns s of (kind, k, rv, c, digest, from) \<Rightarrow>
        \<lparr> ct_id = i, ct_profile = profile, ct_layer = prompt_layer_text l, ct_version = n, ct_kind = kind,
          ct_key = k, ct_resource_version = rv, ct_content = c, ct_checksum = digest, ct_restored_from = from,
          ct_parent = parent, ct_created_at = now \<rparr>)"

definition next_version :: "uuid \<Rightarrow> prompt_layer \<Rightarrow> prompt_db \<Rightarrow> int" where
  "next_version profile l d =
     foldr max (map ct_version
       (filter (\<lambda>c. ct_profile c = profile \<and> ct_layer c = prompt_layer_text l) (pt_contents d))) 0 + 1"

text \<open>A maximum beyond \<open>i64\<close> becomes a floating-point number in SQLite, which does not read back as an integer.\<close>

definition insert_content_source ::
  "uuid \<Rightarrow> datetime \<Rightarrow> uuid \<Rightarrow> prompt_layer \<Rightarrow> prompt_content_source \<Rightarrow> uuid option \<Rightarrow> prompt_db
   \<Rightarrow> (prompt_db \<times> uuid \<times> string) result" where
  "insert_content_source i now profile l s parent d =
     (if next_version profile l d \<ge> 2 ^ 63 then Inl (storage_error ''PROMPT_VERSION_READ_FAILED'')
      else then_do (insert_content_row ''PROMPT_CONTENT_INSERT_FAILED''
          (content_row_of i profile l (next_version profile l d) s parent now) d)
        (\<lambda>d'. Inr (d', i, pcs_checksum s)))"

definition validate_user_prompt :: "string \<Rightarrow> unit result" where
  "validate_user_prompt c = guard_err (\<not> 32 * 1024 < length c) (storage_error ''PROMPT_TOO_LARGE'')"

definition restored_source :: "uuid \<Rightarrow> prompt_content_source \<Rightarrow> prompt_content_source" where
  "restored_source i s =
     (case s of FactoryRef k v c \<Rightarrow> FactoryRef k v c | UserText t c \<Rightarrow> RestoredText t c i
      | RestoredText t c _ \<Rightarrow> RestoredText t c i)"

definition materialize_draft ::
  "(string \<Rightarrow> string) \<Rightarrow> uuid \<Rightarrow> datetime \<Rightarrow> uuid \<Rightarrow> prompt_layer \<Rightarrow> uuid \<Rightarrow> string \<Rightarrow> prompt_layer_draft
   \<Rightarrow> prompt_db \<Rightarrow> (prompt_db \<times> uuid \<times> string) result" where
  "materialize_draft sha i now profile l current current_sum draft d =
     (case draft of
        Preserve \<Rightarrow> Inr (d, current, current_sum)
      | DraftUserText c \<Rightarrow>
          then_do (validate_user_prompt c) (\<lambda>_.
            insert_content_source i now profile l (UserText c (sha_hex sha c)) None d)
      | ResetToFactory k v c \<Rightarrow>
          if k = [] \<or> v = [] \<or> c = [] then Inl (storage_error ''PROMPT_FACTORY_REF_INVALID'')
          else insert_content_source i now profile l (FactoryRef k v c) (Some current) d
      | RestoreVersion old \<Rightarrow>
          then_do (load_content_version profile old d) (\<lambda>v.
            if pv_layer v \<noteq> l then Inl (storage_error ''PROMPT_RESTORE_LAYER_MISMATCH'')
            else insert_content_source i now profile l (restored_source old (pv_source v)) (Some old) d))"

text \<open>The fresh ids of a call: for the two contents and the revision.\<close>

record fresh_ids =
  fi_system :: uuid
  fi_persona :: uuid
  fi_revision :: uuid

record factory_seed =
  fs_profile_id :: uuid
  fs_profile_name :: string
  fs_experience_preset :: experience_preset
  fs_base_system_preset :: system_preset
  fs_system_key :: string
  fs_system_version :: string
  fs_system_checksum :: string
  fs_persona_key :: string
  fs_persona_version :: string
  fs_persona_checksum :: string

definition seed_rows :: "fresh_ids \<Rightarrow> datetime \<Rightarrow> factory_seed \<Rightarrow> prompt_db \<Rightarrow> prompt_db result" where
  "seed_rows ids now s d =
     then_do (insert_profile_row ''PROMPT_SEED_PROFILE_FAILED''
         \<lparr> pf_id = fs_profile_id s, pf_name = fs_profile_name s,
           pf_experience = experience_preset_text (fs_experience_preset s),
           pf_base = system_preset_text (fs_base_system_preset s), pf_active = fi_revision ids,
           pf_system_version = fs_system_version s, pf_persona_version = fs_persona_version s,
           pf_created_at = now, pf_updated_at = now \<rparr> d) (\<lambda>d1.
     then_do (insert_content_row ''PROMPT_SEED_CONTENT_FAILED''
         (content_row_of (fi_system ids) (fs_profile_id s) LayerSystem 1
           (FactoryRef (fs_system_key s) (fs_system_version s) (fs_system_checksum s)) None now) d1) (\<lambda>d2.
     then_do (insert_content_row ''PROMPT_SEED_CONTENT_FAILED''
         (content_row_of (fi_persona ids) (fs_profile_id s) LayerPersona 1
           (FactoryRef (fs_persona_key s) (fs_persona_version s) (fs_persona_checksum s)) None now) d2) (\<lambda>d3.
       insert_revision_row ''PROMPT_SEED_REVISION_FAILED''
         \<lparr> rv_id = fi_revision ids, rv_profile = fs_profile_id s, rv_revision = 1,
           rv_system = Some (fi_system ids), rv_persona = Some (fi_persona ids),
           rv_system_checksum = fs_system_checksum s, rv_persona_checksum = fs_persona_checksum s,
           rv_deleted = 0, rv_previous = None, rv_created_at = now \<rparr> d3)))"

text \<open>The loads before and after the transaction are part of the call; the transaction stays committed
  when the second one fails.\<close>

definition seed_factory_prompt_profile ::
  "fresh_ids \<Rightarrow> datetime \<Rightarrow> factory_seed \<Rightarrow> prompt_db \<Rightarrow> prompt_db \<times> prompt_profile result" where
  "seed_factory_prompt_profile ids now s d =
     (case load_active_prompt_profile (fs_profile_id s) d of
        Inl e \<Rightarrow> (d, Inl e)
      | Inr (Some existing) \<Rightarrow> (d, Inr (sp_profile existing))
      | Inr None \<Rightarrow>
        (case seed_rows ids now s d of
           Inl e \<Rightarrow> (d, Inl e)
         | Inr d' \<Rightarrow> (d', then_do (load_active_prompt_profile (fs_profile_id s) d') (\<lambda>stored.
             ok_or (map_option sp_profile stored) (storage_error ''PROMPT_SEED_VERIFY_FAILED'')))))"

definition update_active ::
  "datetime \<Rightarrow> uuid \<Rightarrow> prompt_draft \<Rightarrow> uuid \<Rightarrow> prompt_db \<Rightarrow> prompt_db result" where
  "update_active now expected draft revision d =
     (let p = (\<lambda>r. pf_id r = pd_profile_id draft \<and> pf_active r = expected) in
      if count_where p (pt_profiles d) \<noteq> 1 then Inl (storage_error ''PROMPT_REVISION_CONFLICT'')
      else Inr (d\<lparr>pt_profiles := update_where p
        (\<lambda>r. r\<lparr>pf_name := pd_name draft, pf_experience := experience_preset_text (pd_experience_preset draft),
               pf_base := system_preset_text (pd_base_system_preset draft), pf_active := revision,
               pf_updated_at := now\<rparr>) (pt_profiles d)\<rparr>))"

definition revision_row_of :: "prompt_profile_revision \<Rightarrow> revision_row" where
  "revision_row_of r =
     \<lparr> rv_id = pr_id r, rv_profile = pr_profile_id r, rv_revision = int (pr_revision r),
       rv_system = pr_system_version_id r, rv_persona = pr_persona_version_id r,
       rv_system_checksum = pr_system_checksum r, rv_persona_checksum = pr_persona_checksum r,
       rv_deleted = 0, rv_previous = pr_expected_previous r, rv_created_at = pr_created_at r \<rparr>"

definition active_row :: "uuid \<Rightarrow> prompt_db \<Rightarrow> (uuid \<times> revision_row) option" where
  "active_row profile d =
     (case List.find (\<lambda>p. pf_id p = profile) (pt_profiles d) of None \<Rightarrow> None
      | Some p \<Rightarrow> map_option (\<lambda>r. (pf_active p, r)) (List.find (\<lambda>r. rv_id r = pf_active p) (pt_revisions d)))"

definition apply_prompt_draft ::
  "(string \<Rightarrow> string) \<Rightarrow> fresh_ids \<Rightarrow> datetime \<Rightarrow> uuid \<Rightarrow> prompt_draft \<Rightarrow> prompt_db
   \<Rightarrow> (prompt_db \<times> prompt_profile_revision) result" where
  "apply_prompt_draft sha ids now expected draft d =
     (if is_blank (pd_name draft) \<or> length (pd_name draft) > 256
      then Inl (storage_error ''PROMPT_PROFILE_NAME_INVALID'')
      else then_do (ok_or (active_row (pd_profile_id draft) d) (storage_error ''PROMPT_PROFILE_NOT_FOUND'')) (\<lambda>(active, row).
        if active \<noteq> expected then Inl (storage_error ''PROMPT_REVISION_CONFLICT'')
        else if rv_revision row < 0 then Inl (storage_error ''STORAGE_DECODE_INTEGER'')
        else then_do (ok_or (rv_system row) (storage_error ''PROMPT_ACTIVE_CONTENT_DELETED'')) (\<lambda>system.
          then_do (ok_or (rv_persona row) (storage_error ''PROMPT_ACTIVE_CONTENT_DELETED'')) (\<lambda>persona.
          then_do (materialize_draft sha (fi_system ids) now (pd_profile_id draft) LayerSystem system
              (rv_system_checksum row) (pd_system draft) d) (\<lambda>(d1, sv, ssum).
          then_do (materialize_draft sha (fi_persona ids) now (pd_profile_id draft) LayerPersona persona
              (rv_persona_checksum row) (pd_persona draft) d1) (\<lambda>(d2, pv, psum).
          let revision = \<lparr> pr_id = fi_revision ids, pr_profile_id = pd_profile_id draft,
                pr_revision = nat (rv_revision row) + 1, pr_system_version_id = Some sv,
                pr_persona_version_id = Some pv, pr_system_checksum = ssum, pr_persona_checksum = psum,
                pr_content_deleted = False, pr_expected_previous = Some expected, pr_created_at = now \<rparr> in
          if \<not> fits_i64 (pr_revision revision) then Inl (storage_error ''PROMPT_REVISION_OVERFLOW'')
          else then_do (insert_revision_row ''PROMPT_APPLY_REVISION_FAILED'' (revision_row_of revision) d2) (\<lambda>d3.
            then_do (update_active now expected draft (pr_id revision) d3) (\<lambda>d4. Inr (d4, revision)))))))))"

end
