(* ===== verification/Prompt_History.thy ===== *)
theory Prompt_History
  imports Prompt_Store
begin

text \<open>
  What the prompt store promises. Abstractly a profile is its history, the list of pairs of a system
  and a persona source it has had; seeding starts one, applying a draft extends the one it was edited
  from at the end, nothing is ever rewritten, and loading a profile gives the end of its history.
\<close>

section \<open>Abstraction\<close>

definition source_of :: "prompt_db \<Rightarrow> uuid \<Rightarrow> prompt_content_source option" where
  "source_of d i =
     (case List.find (\<lambda>c. ct_id c = i) (pt_contents d) of None \<Rightarrow> None
      | Some c \<Rightarrow> (case into_source c of Inr s \<Rightarrow> Some s | Inl _ \<Rightarrow> None))"

definition revisions_of :: "prompt_db \<Rightarrow> uuid \<Rightarrow> revision_row list" where
  "revisions_of d p = filter (\<lambda>r. rv_profile r = p) (pt_revisions d)"

definition revision_sources ::
  "prompt_db \<Rightarrow> revision_row \<Rightarrow> prompt_content_source option \<times> prompt_content_source option" where
  "revision_sources d r = (Option.bind (rv_system r) (source_of d), Option.bind (rv_persona r) (source_of d))"

definition history ::
  "prompt_db \<Rightarrow> uuid \<Rightarrow> (prompt_content_source option \<times> prompt_content_source option) list" where
  "history d p = map (revision_sources d) (revisions_of d p)"

text \<open>What a draft makes of the source of a layer.\<close>

definition drafted ::
  "(string \<Rightarrow> string) \<Rightarrow> prompt_db \<Rightarrow> prompt_content_source option \<Rightarrow> prompt_layer_draft \<Rightarrow> prompt_content_source option" where
  "drafted sha d current draft =
     (case draft of Preserve \<Rightarrow> current
      | DraftUserText c \<Rightarrow> Some (UserText c (sha_hex sha c))
      | ResetToFactory k v c \<Rightarrow> Some (FactoryRef k v c)
      | RestoreVersion i \<Rightarrow> map_option (\<lambda>s. case s of FactoryRef _ _ _ \<Rightarrow> s
          | _ \<Rightarrow> RestoredText (pcs_content s) (pcs_checksum s) i) (source_of d i))"

section \<open>The reachable stores\<close>

inductive prompt_step :: "(string \<Rightarrow> string) \<Rightarrow> prompt_db \<Rightarrow> prompt_db \<Rightarrow> bool" for sha where
  seed_step: "seed_factory_prompt_profile ids now s d = (d', res) \<Longrightarrow> prompt_step sha d d'"
| apply_step: "apply_prompt_draft sha ids now expected draft d = Inr (d', r) \<Longrightarrow> prompt_step sha d d'"

definition prompts_reachable :: "(string \<Rightarrow> string) \<Rightarrow> prompt_db \<Rightarrow> bool" where
  "prompts_reachable sha d \<longleftrightarrow> (prompt_step sha)\<^sup>*\<^sup>* empty_prompt_db d"

section \<open>The invariant\<close>

definition contents_ok :: "prompt_db \<Rightarrow> bool" where
  "contents_ok d \<longleftrightarrow> distinct (map ct_id (pt_contents d))
     \<and> (\<forall>c \<in> set (pt_contents d). content_shape_ok c \<and> 0 < ct_version c \<and> ct_layer c \<in> {''System'', ''Persona''})"

definition content_at :: "prompt_db \<Rightarrow> uuid \<Rightarrow> prompt_layer \<Rightarrow> uuid \<Rightarrow> string \<Rightarrow> bool" where
  "content_at d p l i digest \<longleftrightarrow> (\<exists>c \<in> set (pt_contents d). ct_id c = i \<and> ct_profile c = p
     \<and> ct_layer c = prompt_layer_text l \<and> ct_checksum c = digest)"

definition revision_ok :: "prompt_db \<Rightarrow> revision_row \<Rightarrow> bool" where
  "revision_ok d r \<longleftrightarrow> rv_deleted r = 0
     \<and> (\<exists>i. rv_system r = Some i \<and> content_at d (rv_profile r) LayerSystem i (rv_system_checksum r))
     \<and> (\<exists>i. rv_persona r = Some i \<and> content_at d (rv_profile r) LayerPersona i (rv_persona_checksum r))"

text \<open>The revisions of a profile are numbered from one, and each names the one before.\<close>

definition linear :: "revision_row list \<Rightarrow> bool" where
  "linear rs \<longleftrightarrow> (\<forall>k < length rs. rv_revision (rs ! k) = int k + 1
     \<and> rv_previous (rs ! k) = (if k = 0 then None else Some (rv_id (rs ! (k - 1)))))"

definition profile_ok :: "prompt_db \<Rightarrow> profile_row \<Rightarrow> bool" where
  "profile_ok d p \<longleftrightarrow> is_ok (parse_experience_preset (pf_experience p)) \<and> is_ok (parse_system_preset (pf_base p))
     \<and> revisions_of d (pf_id p) \<noteq> [] \<and> rv_id (last (revisions_of d (pf_id p))) = pf_active p"

definition prompt_ok :: "prompt_db \<Rightarrow> bool" where
  "prompt_ok d \<longleftrightarrow> contents_ok d \<and> distinct (map pf_id (pt_profiles d)) \<and> distinct (map rv_id (pt_revisions d))
     \<and> (\<forall>r \<in> set (pt_revisions d). revision_ok d r \<and> rv_profile r \<in> pf_id ` set (pt_profiles d))
     \<and> (\<forall>p. linear (revisions_of d p)) \<and> (\<forall>p \<in> set (pt_profiles d). profile_ok d p)"

section \<open>Contents\<close>

lemma into_source_row [simp]: "into_source (content_row_of i p l n s parent now) = Inr s"
  by (cases s) (simp_all add: content_row_of_def source_columns_def into_source_def)

lemma content_row_fields [simp]:
  "ct_id (content_row_of i p l n s parent now) = i" "ct_profile (content_row_of i p l n s parent now) = p"
  "ct_layer (content_row_of i p l n s parent now) = prompt_layer_text l"
  "ct_version (content_row_of i p l n s parent now) = n"
  "ct_checksum (content_row_of i p l n s parent now) = pcs_checksum s"
  by (cases s; simp add: content_row_of_def source_columns_def)+

lemma into_source_ok: "content_shape_ok c \<Longrightarrow> is_ok (into_source c)"
  by (auto simp: content_shape_ok_def into_source_def)

lemma into_source_checksum: "into_source c = Inr s \<Longrightarrow> pcs_checksum s = ct_checksum c"
  by (auto simp: into_source_def Let_def split: if_splits)

lemma find_by_key:
  assumes "distinct (map k xs)" and "x \<in> set xs"
  shows "List.find (\<lambda>y. k y = k x) xs = Some x"
  using assms by (induction xs) auto

lemma find_by_key_and:
  assumes "distinct (map k xs)" and "x \<in> set xs" and "q x"
  shows "List.find (\<lambda>y. k y = k x \<and> q y) xs = Some x"
  using assms by (induction xs) auto

lemma source_of_row:
  assumes "contents_ok d" and "c \<in> set (pt_contents d)"
  shows "\<exists>s. into_source c = Inr s \<and> source_of d (ct_id c) = Some s \<and> pcs_checksum s = ct_checksum c"
proof -
  obtain s where "into_source c = Inr s"
    using assms into_source_ok [of c] unfolding contents_ok_def is_ok_iff by blast
  then show ?thesis using assms find_by_key [of ct_id "pt_contents d" c] into_source_checksum
    by (simp add: source_of_def contents_ok_def)
qed

lemma find_append_Some: "List.find P xs = Some y \<Longrightarrow> List.find P (xs @ ys) = Some y"
  by (induction xs) auto

lemma find_append_None: "List.find P xs = None \<Longrightarrow> List.find P (xs @ ys) = List.find P ys"
  by (induction xs) (auto split: if_splits)

lemma source_of_append:
  assumes "pt_contents d' = pt_contents d @ new" and "source_of d i = Some s"
  shows "source_of d' i = Some s"
  using assms find_append_Some [of _ "pt_contents d"]
  by (auto simp: source_of_def split: option.splits)

lemma insert_content_effect:
  assumes "insert_content_source i now p l s parent d = Inr (d', j, digest)"
  obtains c where "c = content_row_of i p l (next_version p l d) s parent now" "j = i" "digest = pcs_checksum s"
    "d' = d\<lparr>pt_contents := pt_contents d @ [c]\<rparr>" "i \<notin> ct_id ` set (pt_contents d)"
    "content_shape_ok c" "0 < ct_version c" "ct_layer c \<in> {''System'', ''Persona''}"
  using assms by (auto simp: insert_content_source_def insert_content_row_def split: if_splits)

lemma content_shape_row [simp]: "content_shape_ok (content_row_of i p l n s parent now)"
  by (cases s) (simp_all add: content_row_of_def source_columns_def content_shape_ok_def)

lemma contents_ok_append:
  assumes "contents_ok d" and "ct_id c \<notin> ct_id ` set (pt_contents d)"
    and "content_shape_ok c" and "0 < ct_version c" and "ct_layer c \<in> {''System'', ''Persona''}"
  shows "contents_ok (d\<lparr>pt_contents := pt_contents d @ [c]\<rparr>)"
  using assms by (auto simp: contents_ok_def)

lemma content_at_append:
  "content_at d p l i digest \<Longrightarrow> pt_contents d' = pt_contents d @ new \<Longrightarrow> content_at d' p l i digest"
  by (auto simp: content_at_def)

text \<open>\<open>d'\<close> has the rows of \<open>d\<close> and more contents of the layer.\<close>

definition more_contents :: "prompt_layer \<Rightarrow> prompt_db \<Rightarrow> prompt_db \<Rightarrow> bool" where
  "more_contents l d d' \<longleftrightarrow> (\<exists>new. d' = d\<lparr>pt_contents := pt_contents d @ new\<rparr>
     \<and> (\<forall>c \<in> set new. ct_layer c = prompt_layer_text l))"

lemma more_contents_refl: "more_contents l d d"
  unfolding more_contents_def by (rule exI [of _ "[]"]) simp

lemma more_contentsD:
  "more_contents l d d' \<Longrightarrow> \<exists>new. pt_contents d' = pt_contents d @ new"
  "more_contents l d d' \<Longrightarrow> pt_revisions d' = pt_revisions d"
  "more_contents l d d' \<Longrightarrow> pt_profiles d' = pt_profiles d"
  by (auto simp: more_contents_def)

lemma source_of_more: "more_contents l d d' \<Longrightarrow> source_of d i = Some s \<Longrightarrow> source_of d' i = Some s"
  using more_contentsD(1) source_of_append by blast

lemma content_at_more: "more_contents l' d d' \<Longrightarrow> content_at d p l i digest \<Longrightarrow> content_at d' p l i digest"
  using more_contentsD(1) content_at_append by blast

lemma content_at_source: "contents_ok d \<Longrightarrow> content_at d p l i digest \<Longrightarrow> \<exists>s. source_of d i = Some s \<and> pcs_checksum s = digest"
  using source_of_row by (fastforce simp: content_at_def)

lemma insert_content_ok:
  assumes "insert_content_source i now p l s parent d = Inr (d', j, digest)" and "contents_ok d"
  shows "contents_ok d' \<and> more_contents l d d' \<and> content_at d' p l j digest \<and> source_of d' j = Some s"
proof -
  obtain c where c: "c = content_row_of i p l (next_version p l d) s parent now" "j = i" "digest = pcs_checksum s"
    "d' = d\<lparr>pt_contents := pt_contents d @ [c]\<rparr>" "i \<notin> ct_id ` set (pt_contents d)"
    "content_shape_ok c" "0 < ct_version c" "ct_layer c \<in> {''System'', ''Persona''}"
    by (rule insert_content_effect [OF assms(1)])
  have ok: "contents_ok d'" using contents_ok_append [OF assms(2), of c] c by simp
  have here: "c \<in> set (pt_contents d')" using c by simp
  have "source_of d' i = Some s" using source_of_row [OF ok here] c(1) by simp
  moreover have "content_at d' p l j digest"
    unfolding content_at_def using here c(1-3) by (intro bexI [of _ c]) simp_all
  moreover have "more_contents l d d'" using c(1,4) by (auto simp: more_contents_def)
  ultimately show ?thesis using ok c(2) by simp
qed

lemma load_content_version_Inr:
  assumes "contents_ok d" and "load_content_version p i d = Inr v"
  obtains c where "c \<in> set (pt_contents d)" "ct_id c = i" "into_source c = Inr (pv_source v)"
    "ct_layer c = prompt_layer_text (pv_layer v)"
proof -
  obtain c where c: "List.find (\<lambda>c. ct_id c = i \<and> ct_profile c = p) (pt_contents d) = Some c"
    and v: "into_version c = Inr v"
    using assms(2) by (auto simp: load_content_version_def)
  have m: "c \<in> set (pt_contents d)" "ct_id c = i" using find_Some_set [OF c] by auto
  have "into_source c = Inr (pv_source v)" "parse_prompt_layer (ct_layer c) = Inr (pv_layer v)"
    using v by (auto simp: into_version_def split: if_splits)
  then show thesis using that m by (auto simp: parse_prompt_layer_def split: if_splits)
qed

text \<open>A version of a layer that loads was there before contents of the other layer were added.\<close>

lemma load_before_more:
  assumes "contents_ok d0" and "contents_ok d" and "more_contents l0 d0 d"
    and "load_content_version p i d = Inr v" and "pv_layer v = l" and "l0 \<noteq> l \<or> d0 = d"
  shows "source_of d0 i = Some (pv_source v)"
proof -
  obtain c where c: "c \<in> set (pt_contents d)" "ct_id c = i" "into_source c = Inr (pv_source v)"
    "ct_layer c = prompt_layer_text (pv_layer v)" by (rule load_content_version_Inr [OF assms(2,4)])
  have "c \<in> set (pt_contents d0)" using assms(3,5,6) c by (auto simp: more_contents_def)
  then show ?thesis using source_of_row [OF assms(1)] c by fastforce
qed

lemma materialize_ok:
  assumes m: "materialize_draft sha i now p l cur csum draft d = Inr (d', j, digest)"
    and ok: "contents_ok d" and at: "content_at d p l cur csum"
    and ok0: "contents_ok d0" and more: "more_contents l0 d0 d" and other: "l0 \<noteq> l \<or> d0 = d"
  shows "contents_ok d' \<and> more_contents l d d' \<and> content_at d' p l j digest
    \<and> source_of d' j = drafted sha d0 (source_of d cur) draft"
proof (cases draft)
  case Preserve
  then show ?thesis using m ok at by (simp add: materialize_draft_def drafted_def more_contents_refl)
next
  case (DraftUserText c)
  then show ?thesis using m insert_content_ok [OF _ ok] by (fastforce simp: materialize_draft_def drafted_def)
next
  case (ResetToFactory k v c)
  then show ?thesis using m insert_content_ok [OF _ ok]
    by (fastforce simp: materialize_draft_def drafted_def split: if_splits)
next
  case (RestoreVersion old)
  then obtain v where v: "load_content_version p old d = Inr v" "pv_layer v = l"
    and ins: "insert_content_source i now p l (restored_source old (pv_source v)) (Some old) d = Inr (d', j, digest)"
    using m by (auto simp: materialize_draft_def split: if_splits)
  then show ?thesis using insert_content_ok [OF ins ok] load_before_more [OF ok0 ok more v other] RestoreVersion
    by (simp add: drafted_def restored_source_def split: prompt_content_source.splits)
qed

section \<open>Applying a draft\<close>

lemma active_row_Some:
  "active_row i d = Some (a, r) \<Longrightarrow> \<exists>p \<in> set (pt_profiles d). pf_id p = i \<and> pf_active p = a
     \<and> r \<in> set (pt_revisions d) \<and> rv_id r = a"
  by (auto simp: active_row_def split: option.splits dest!: find_Some_set)

lemma active_is_last:
  assumes "prompt_ok d" and "p \<in> set (pt_profiles d)" and "r \<in> set (pt_revisions d)" and "rv_id r = pf_active p"
  shows "revisions_of d (pf_id p) \<noteq> [] \<and> r = last (revisions_of d (pf_id p))"
proof -
  have l: "revisions_of d (pf_id p) \<noteq> []" "rv_id (last (revisions_of d (pf_id p))) = pf_active p"
    using assms(1,2) unfolding prompt_ok_def profile_ok_def by blast+
  then have "last (revisions_of d (pf_id p)) \<in> set (pt_revisions d)"
    using last_in_set [OF l(1)] by (simp add: revisions_of_def)
  then show ?thesis using l assms(1,3,4) unfolding prompt_ok_def distinct_map by (metis inj_onD)
qed

definition draft_revision ::
  "uuid \<Rightarrow> datetime \<Rightarrow> uuid \<Rightarrow> uuid \<Rightarrow> revision_row \<Rightarrow> uuid \<Rightarrow> string \<Rightarrow> uuid \<Rightarrow> string \<Rightarrow> revision_row" where
  "draft_revision i now p expected row sv ssum pv psum =
     \<lparr> rv_id = i, rv_profile = p, rv_revision = 1 + rv_revision row, rv_system = Some sv, rv_persona = Some pv,
       rv_system_checksum = ssum, rv_persona_checksum = psum, rv_deleted = 0, rv_previous = Some expected,
       rv_created_at = now \<rparr>"

definition activated :: "datetime \<Rightarrow> prompt_draft \<Rightarrow> uuid \<Rightarrow> profile_row \<Rightarrow> profile_row" where
  "activated now draft i r =
     r\<lparr>pf_name := pd_name draft, pf_experience := experience_preset_text (pd_experience_preset draft),
       pf_base := system_preset_text (pd_base_system_preset draft), pf_active := i, pf_updated_at := now\<rparr>"

lemma apply_effect:
  assumes ok: "prompt_ok d" and a: "apply_prompt_draft sha ids now expected draft d = Inr (d', r)"
  obtains p row d1 d2 sv ssum pv psum where
    "p \<in> set (pt_profiles d)" "pf_id p = pd_profile_id draft" "pf_active p = expected"
    "revisions_of d (pd_profile_id draft) \<noteq> []" "row = last (revisions_of d (pd_profile_id draft))" "rv_id row = expected"
    "more_contents LayerSystem d d1" "more_contents LayerPersona d1 d2" "contents_ok d2"
    "content_at d2 (pd_profile_id draft) LayerSystem sv ssum" "content_at d2 (pd_profile_id draft) LayerPersona pv psum"
    "source_of d2 sv = drafted sha d (fst (revision_sources d row)) (pd_system draft)"
    "source_of d2 pv = drafted sha d (snd (revision_sources d row)) (pd_persona draft)"
    "fi_revision ids \<notin> rv_id ` set (pt_revisions d)"
    "pt_contents d' = pt_contents d2"
    "pt_revisions d' = pt_revisions d @ [draft_revision (fi_revision ids) now (pd_profile_id draft) expected row sv ssum pv psum]"
    "pt_profiles d' = map (\<lambda>q. if q = p then activated now draft (fi_revision ids) q else q) (pt_profiles d)"
proof -
  let ?i = "pd_profile_id draft"
  obtain row s0 p0 d1 sv ssum d2 pv psum d3 where
    act: "active_row ?i d = Some (expected, row)" and nneg: "\<not> rv_revision row < 0"
    and cur: "rv_system row = Some s0" "rv_persona row = Some p0"
    and m1: "materialize_draft sha (fi_system ids) now ?i LayerSystem s0 (rv_system_checksum row) (pd_system draft) d
        = Inr (d1, sv, ssum)"
    and m2: "materialize_draft sha (fi_persona ids) now ?i LayerPersona p0 (rv_persona_checksum row) (pd_persona draft) d1
        = Inr (d2, pv, psum)"
    and ins: "insert_revision_row ''PROMPT_APPLY_REVISION_FAILED'' (draft_revision (fi_revision ids) now ?i expected row sv ssum pv psum) d2 = Inr d3"
    and upd: "update_active now expected draft (fi_revision ids) d3 = Inr d'"
    using a by (auto simp: apply_prompt_draft_def Let_def draft_revision_def revision_row_of_def split: if_splits)
  obtain p where p: "p \<in> set (pt_profiles d)" "pf_id p = ?i" "pf_active p = expected"
      "row \<in> set (pt_revisions d)" "rv_id row = expected"
    using active_row_Some [OF act] by blast
  have last: "revisions_of d ?i \<noteq> []" "row = last (revisions_of d ?i)"
    using active_is_last [OF ok p(1) p(4)] p by auto
  have prof: "rv_profile row = ?i" using last_in_set [OF last(1)] last(2) by (simp add: revisions_of_def)
  have c: "contents_ok d" and rok: "revision_ok d row" using ok p(4) unfolding prompt_ok_def by blast+
  have at: "content_at d ?i LayerSystem s0 (rv_system_checksum row)" "content_at d ?i LayerPersona p0 (rv_persona_checksum row)"
    using rok cur prof by (auto simp: revision_ok_def)
  note r1 = materialize_ok [OF m1 c at(1) c more_contents_refl disjI2 [OF refl]]
  note r2 = materialize_ok [OF m2 conjunct1 [OF r1] content_at_more [OF _ at(2), of LayerSystem d1] c, of LayerSystem]
  have m12: "more_contents LayerSystem d d1" using r1 by blast
  have r2': "contents_ok d2 \<and> more_contents LayerPersona d1 d2 \<and> content_at d2 ?i LayerPersona pv psum
      \<and> source_of d2 pv = drafted sha d (source_of d1 p0) (pd_persona draft)"
    using r2 m12 by simp
  have m23: "more_contents LayerPersona d1 d2" using r2' by blast
  obtain ss ps where src: "source_of d s0 = Some ss" "source_of d p0 = Some ps"
    using content_at_source [OF c at(1)] content_at_source [OF c at(2)] by blast
  obtain s1 where s1: "source_of d1 sv = Some s1" using content_at_source r1 by blast
  have sys: "source_of d2 sv = drafted sha d (fst (revision_sources d row)) (pd_system draft)"
    using r1 s1 source_of_more [OF m23 s1] src cur by (simp add: revision_sources_def)
  have per: "source_of d2 pv = drafted sha d (snd (revision_sources d row)) (pd_persona draft)"
    using r2' source_of_more [OF m12 src(2)] src cur by (simp add: revision_sources_def)
  have rows: "pt_revisions d2 = pt_revisions d" "pt_profiles d2 = pt_profiles d"
    using more_contentsD(2,3) [OF m12] more_contentsD(2,3) [OF m23] by simp_all
  have d3: "d3 = d2\<lparr>pt_revisions := pt_revisions d @ [draft_revision (fi_revision ids) now ?i expected row sv ssum pv psum]\<rparr>"
    and new: "fi_revision ids \<notin> rv_id ` set (pt_revisions d)"
    using ins by (auto simp: insert_revision_row_def draft_revision_def rows)
  have one: "pf_id q = ?i \<longleftrightarrow> q = p" if "q \<in> set (pt_profiles d)" for q
    using that p(1,2) ok unfolding prompt_ok_def distinct_map by (metis inj_onD)
  have profs: "pt_profiles d' = map (\<lambda>q. if q = p then activated now draft (fi_revision ids) q else q) (pt_profiles d)"
    using upd one p(3) by (auto simp: update_active_def Let_def d3 rows update_where_def activated_def split: if_splits)
  have rest: "pt_contents d' = pt_contents d2" "pt_revisions d' = pt_revisions d3"
    using upd by (auto simp: update_active_def Let_def d3 split: if_splits)
  have rv: "pt_revisions d' = pt_revisions d @ [draft_revision (fi_revision ids) now ?i expected row sv ssum pv psum]"
    by (simp add: rest(2) d3)
  have "contents_ok d2" "content_at d2 ?i LayerSystem sv ssum" "content_at d2 ?i LayerPersona pv psum"
    using r1 r2' content_at_more [OF m23] by blast+
  then show thesis by (rule that [OF p(1-3) last p(5) m12 m23 _ _ _ sys per new rest(1) rv profs])
qed

section \<open>Every step keeps the invariant and extends the histories\<close>

definition extends :: "prompt_db \<Rightarrow> prompt_db \<Rightarrow> bool" where
  "extends d d' \<longleftrightarrow> (\<exists>new. pt_contents d' = pt_contents d @ new) \<and> (\<forall>q. \<exists>new. revisions_of d' q = revisions_of d q @ new)"

lemma extends_refl: "extends d d"
  by (simp add: extends_def)

lemma extends_trans: "extends d d' \<Longrightarrow> extends d' d'' \<Longrightarrow> extends d d''"
  unfolding extends_def by (metis append.assoc)

lemma revision_sources_append:
  assumes "pt_contents d' = pt_contents d @ new" and "contents_ok d" and "revision_ok d r"
  shows "revision_sources d' r = revision_sources d r"
proof -
  obtain i j where i: "rv_system r = Some i" "content_at d (rv_profile r) LayerSystem i (rv_system_checksum r)"
    and j: "rv_persona r = Some j" "content_at d (rv_profile r) LayerPersona j (rv_persona_checksum r)"
    using assms(3) unfolding revision_ok_def by blast
  show ?thesis
    using content_at_source [OF assms(2) i(2)] content_at_source [OF assms(2) j(2)] i(1) j(1) source_of_append [OF assms(1)]
    by (auto simp: revision_sources_def)
qed

lemma contents_ok_cong: "pt_contents d' = pt_contents d \<Longrightarrow> contents_ok d' = contents_ok d"
  by (simp add: contents_ok_def)

lemma revision_ok_append:
  "pt_contents d' = pt_contents d @ new \<Longrightarrow> revision_ok d r \<Longrightarrow> revision_ok d' r"
  unfolding revision_ok_def using content_at_append by blast

lemma linear_append:
  assumes "linear rs" and "rs \<noteq> []" and "rv_revision r = 1 + rv_revision (last rs)" and "rv_previous r = Some (rv_id (last rs))"
  shows "linear (rs @ [r])"
proof -
  have "rv_revision (last rs) = int (length rs - 1) + 1" using assms(1,2) by (simp add: linear_def last_conv_nth)
  then show ?thesis using assms by (auto simp: linear_def nth_append less_Suc_eq last_conv_nth)
qed

lemma linear_single: "rv_revision r = 1 \<Longrightarrow> rv_previous r = None \<Longrightarrow> linear [r]"
  by (simp add: linear_def)

lemma apply_revisions:
  assumes "pt_revisions d' = pt_revisions d @ [new]"
  shows "revisions_of d' q = (if q = rv_profile new then revisions_of d q @ [new] else revisions_of d q)"
  by (simp add: revisions_of_def assms)

text \<open>A new revision of a profile, with its contents stored, keeps the invariant.\<close>

lemma new_revision_ok:
  assumes ok: "prompt_ok d" and c: "contents_ok d'" "pt_contents d' = pt_contents d @ cs"
    and r: "pt_revisions d' = pt_revisions d @ [new]" "rv_id new \<notin> rv_id ` set (pt_revisions d)" "revision_ok d' new"
    and l: "linear (revisions_of d (rv_profile new) @ [new])"
    and ids: "distinct (map pf_id (pt_profiles d'))" "pf_id ` set (pt_profiles d') = insert (rv_profile new) (pf_id ` set (pt_profiles d))"
    and p: "\<forall>q \<in> set (pt_profiles d'). if pf_id q = rv_profile new
        then is_ok (parse_experience_preset (pf_experience q)) \<and> is_ok (parse_system_preset (pf_base q)) \<and> pf_active q = rv_id new
        else q \<in> set (pt_profiles d)"
  shows "prompt_ok d' \<and> extends d d'"
proof -
  have "linear (revisions_of d' q)" for q
    using ok l by (simp add: apply_revisions [OF r(1)] prompt_ok_def)
  moreover have "revision_ok d' x \<and> rv_profile x \<in> pf_id ` set (pt_profiles d')" if "x \<in> set (pt_revisions d')" for x
    using that ok r revision_ok_append [OF c(2)] unfolding ids(2) prompt_ok_def by auto
  moreover have "profile_ok d' q" if "q \<in> set (pt_profiles d')" for q
    using that p ok by (auto simp: apply_revisions [OF r(1)] profile_ok_def prompt_ok_def split: if_splits)
  moreover have "distinct (map rv_id (pt_revisions d'))" using ok r by (simp add: prompt_ok_def)
  moreover have "extends d d'" using c(2) by (auto simp: extends_def apply_revisions [OF r(1)])
  ultimately show ?thesis using c(1) ids(1) by (simp add: prompt_ok_def)
qed

lemma apply_ok:
  assumes ok: "prompt_ok d" and a: "apply_prompt_draft sha ids now expected draft d = Inr (d', r)"
  shows "prompt_ok d' \<and> extends d d'"
proof (rule apply_effect [OF ok a])
  fix p row d1 d2 sv ssum pv psum
  let ?i = "pd_profile_id draft" and ?new = "draft_revision (fi_revision ids) now (pd_profile_id draft) expected row sv ssum pv psum"
  assume p: "p \<in> set (pt_profiles d)" "pf_id p = ?i" "pf_active p = expected"
    and last: "revisions_of d ?i \<noteq> []" "row = last (revisions_of d ?i)" "rv_id row = expected"
    and m: "more_contents LayerSystem d d1" "more_contents LayerPersona d1 d2" and c2: "contents_ok d2"
    and at: "content_at d2 ?i LayerSystem sv ssum" "content_at d2 ?i LayerPersona pv psum"
    and new: "fi_revision ids \<notin> rv_id ` set (pt_revisions d)"
    and c: "pt_contents d' = pt_contents d2" and rv: "pt_revisions d' = pt_revisions d @ [?new]"
    and profs: "pt_profiles d' = map (\<lambda>q. if q = p then activated now draft (fi_revision ids) q else q) (pt_profiles d)"
  obtain cs where cs: "pt_contents d' = pt_contents d @ cs" using more_contentsD(1) m c by (metis append.assoc)
  have one: "pf_id q = ?i \<longleftrightarrow> q = p" if "q \<in> set (pt_profiles d)" for q
    using that p(1,2) ok unfolding prompt_ok_def distinct_map by (metis inj_onD)
  have same: "map pf_id (pt_profiles d') = map pf_id (pt_profiles d)" using profs by (simp add: activated_def)
  have fields: "rv_profile ?new = ?i" "rv_id ?new = fi_revision ids" "rv_revision ?new = 1 + rv_revision row"
    "rv_previous ?new = Some expected" by (simp_all add: draft_revision_def)
  have "distinct (map pf_id (pt_profiles d'))" using ok same by (simp add: prompt_ok_def)
  moreover have "pf_id ` set (pt_profiles d') = insert ?i (pf_id ` set (pt_profiles d))"
    using arg_cong [OF same, of set] imageI [OF p(1), of pf_id] p(2) by (simp add: insert_absorb)
  moreover have "contents_ok d'" using c2 contents_ok_cong [OF c] by simp
  moreover have "revision_ok d' ?new" using at c by (simp add: revision_ok_def draft_revision_def content_at_def)
  moreover have "linear (revisions_of d ?i @ [?new])"
    using ok last fields by (intro linear_append) (simp_all add: prompt_ok_def)
  moreover have "\<forall>q \<in> set (pt_profiles d'). if pf_id q = ?i
        then is_ok (parse_experience_preset (pf_experience q)) \<and> is_ok (parse_system_preset (pf_base q)) \<and> pf_active q = fi_revision ids
        else q \<in> set (pt_profiles d)"
    using one unfolding profs by (auto simp: activated_def)
  ultimately show "prompt_ok d' \<and> extends d d'"
    using new_revision_ok [OF ok _ cs rv] new fields by simp
qed

lemma seed_rows_ok:
  assumes ok: "prompt_ok d" and s: "seed_rows ids now s d = Inr d'"
  shows "prompt_ok d' \<and> extends d d' \<and> revisions_of d (fs_profile_id s) = []
    \<and> history d' (fs_profile_id s) = [(Some (FactoryRef (fs_system_key s) (fs_system_version s) (fs_system_checksum s)),
          Some (FactoryRef (fs_persona_key s) (fs_persona_version s) (fs_persona_checksum s)))]"
proof -
  let ?i = "fs_profile_id s"
  define prow where "prow = \<lparr> pf_id = ?i, pf_name = fs_profile_name s,
           pf_experience = experience_preset_text (fs_experience_preset s),
           pf_base = system_preset_text (fs_base_system_preset s), pf_active = fi_revision ids,
           pf_system_version = fs_system_version s, pf_persona_version = fs_persona_version s,
           pf_created_at = now, pf_updated_at = now \<rparr>"
  define c1 where "c1 = content_row_of (fi_system ids) ?i LayerSystem 1
      (FactoryRef (fs_system_key s) (fs_system_version s) (fs_system_checksum s)) None now"
  define c2 where "c2 = content_row_of (fi_persona ids) ?i LayerPersona 1
      (FactoryRef (fs_persona_key s) (fs_persona_version s) (fs_persona_checksum s)) None now"
  define new where "new = \<lparr> rv_id = fi_revision ids, rv_profile = ?i, rv_revision = 1,
           rv_system = Some (fi_system ids), rv_persona = Some (fi_persona ids),
           rv_system_checksum = fs_system_checksum s, rv_persona_checksum = fs_persona_checksum s,
           rv_deleted = 0, rv_previous = None, rv_created_at = now \<rparr>"
  have fields: "pf_id prow = ?i" "rv_profile new = ?i" "rv_id new = fi_revision ids" "ct_id c1 = fi_system ids" "ct_id c2 = fi_persona ids"
    by (simp_all add: prow_def new_def c1_def c2_def)
  have d': "d' = \<lparr> pt_profiles = pt_profiles d @ [prow], pt_contents = pt_contents d @ [c1, c2], pt_revisions = pt_revisions d @ [new] \<rparr>"
    and fresh: "?i \<notin> pf_id ` set (pt_profiles d)" "fi_system ids \<notin> ct_id ` set (pt_contents d)"
      "fi_persona ids \<notin> insert (fi_system ids) (ct_id ` set (pt_contents d))" "fi_revision ids \<notin> rv_id ` set (pt_revisions d)"
    using s unfolding seed_rows_def prow_def [symmetric] c1_def [symmetric] c2_def [symmetric] new_def [symmetric]
    by (auto simp: insert_profile_row_def insert_content_row_def insert_revision_row_def fields)
  have none: "revisions_of d ?i = []"
    using ok fresh(1) unfolding prompt_ok_def revisions_of_def filter_empty_conv by metis
  have other: "pf_id q \<noteq> ?i" if "q \<in> set (pt_profiles d)" for q
    using that fresh(1) by (metis imageI)
  have c: "contents_ok d'"
    using ok fresh(2,3) unfolding d' prompt_ok_def contents_ok_def by (auto simp: c1_def c2_def)
  have in': "c1 \<in> set (pt_contents d')" "c2 \<in> set (pt_contents d')" by (simp_all add: d')
  have "revision_ok d' new"
    unfolding revision_ok_def content_at_def using in'
    by (auto simp: new_def c1_def c2_def intro: bexI [OF _ in'(1)] bexI [OF _ in'(2)])
  moreover have "linear (revisions_of d (rv_profile new) @ [new])" using none fields by (simp add: linear_single new_def)
  moreover have "pt_contents d' = pt_contents d @ [c1, c2]" "pt_revisions d' = pt_revisions d @ [new]" by (simp_all add: d')
  moreover have "distinct (map pf_id (pt_profiles d'))" using ok fresh(1) by (simp add: d' prompt_ok_def fields)
  moreover have "\<forall>q \<in> set (pt_profiles d'). if pf_id q = rv_profile new
        then is_ok (parse_experience_preset (pf_experience q)) \<and> is_ok (parse_system_preset (pf_base q)) \<and> pf_active q = rv_id new
        else q \<in> set (pt_profiles d)"
    using other by (auto simp: d' fields) (auto simp: prow_def)
  ultimately have res: "prompt_ok d' \<and> extends d d'"
    using new_revision_ok [OF ok c] fresh(4) fields by (simp add: d')
  have "source_of d' (fi_system ids) = Some (FactoryRef (fs_system_key s) (fs_system_version s) (fs_system_checksum s))"
    "source_of d' (fi_persona ids) = Some (FactoryRef (fs_persona_key s) (fs_persona_version s) (fs_persona_checksum s))"
    using source_of_row [OF c in'(1)] source_of_row [OF c in'(2)] by (simp_all add: fields) (simp_all add: c1_def c2_def)
  moreover have "revisions_of d' ?i = [new]" using none by (simp add: revisions_of_def d' new_def)
  ultimately show ?thesis using res none by (simp add: history_def revision_sources_def new_def)
qed

lemma seed_ok:
  assumes "prompt_ok d" and "seed_factory_prompt_profile ids now s d = (d', res)"
  shows "prompt_ok d' \<and> extends d d'"
  using assms seed_rows_ok [OF assms(1)]
  by (auto simp: seed_factory_prompt_profile_def extends_refl split: sum.splits option.splits)

lemma step_ok: "prompt_step sha d d' \<Longrightarrow> prompt_ok d \<Longrightarrow> prompt_ok d' \<and> extends d d'"
  by (induction rule: prompt_step.induct) (use seed_ok apply_ok in blast)+

lemma steps_ok: "(prompt_step sha)\<^sup>*\<^sup>* d d' \<Longrightarrow> prompt_ok d \<Longrightarrow> prompt_ok d' \<and> extends d d'"
  by (induction rule: rtranclp_induct) (use extends_refl step_ok extends_trans in blast)+

lemma empty_prompt_ok: "prompt_ok empty_prompt_db"
  by (simp add: prompt_ok_def empty_prompt_db_def contents_ok_def linear_def revisions_of_def)

lemma reachable_prompt_ok: "prompts_reachable sha d \<Longrightarrow> prompt_ok d"
  using steps_ok empty_prompt_ok unfolding prompts_reachable_def by blast

section \<open>Loading\<close>

lemma load_content_at:
  assumes "contents_ok d" and "content_at d p l i digest"
  shows "\<exists>s. load_content_source p i d = Inr s \<and> source_of d i = Some s \<and> pcs_checksum s = digest"
proof -
  obtain c where c: "c \<in> set (pt_contents d)" "ct_id c = i" "ct_profile c = p" "ct_layer c = prompt_layer_text l" "ct_checksum c = digest"
    using assms(2) unfolding content_at_def by blast
  obtain s where s: "into_source c = Inr s" "source_of d i = Some s" "pcs_checksum s = digest"
    using source_of_row [OF assms(1) c(1)] c by auto
  have "List.find (\<lambda>x. ct_id x = i \<and> ct_profile x = p) (pt_contents d) = Some c"
    using find_by_key_and [of ct_id "pt_contents d" c "\<lambda>x. ct_profile x = p"] assms(1) c by (simp add: contents_ok_def)
  moreover have "0 < ct_version c" using assms(1) c(1) unfolding contents_ok_def by blast
  ultimately show ?thesis using s c by (simp add: load_content_source_def load_content_version_def into_version_def)
qed

lemma load_active_ok:
  assumes ok: "prompt_ok d" and p: "p \<in> set (pt_profiles d)"
  shows "\<exists>sp. load_active_prompt_profile (pf_id p) d = Inr (Some sp)
    \<and> last (history d (pf_id p)) = (Some (sp_system_source sp), Some (sp_persona_source sp))
    \<and> pr_id (sp_revision sp) = pf_active p \<and> pr_revision (sp_revision sp) = length (history d (pf_id p))
    \<and> pcs_checksum (sp_system_source sp) = pr_system_checksum (sp_revision sp)
    \<and> pcs_checksum (sp_persona_source sp) = pr_persona_checksum (sp_revision sp)"
proof -
  let ?rs = "revisions_of d (pf_id p)"
  define r where "r = last ?rs"
  have ne: "?rs \<noteq> []" and act: "rv_id r = pf_active p"
    and parse: "is_ok (parse_experience_preset (pf_experience p))" "is_ok (parse_system_preset (pf_base p))"
    using ok p unfolding prompt_ok_def profile_ok_def r_def by blast+
  have rin: "r \<in> set (pt_revisions d)" "rv_profile r = pf_id p"
    using last_in_set [OF ne] by (simp_all add: r_def revisions_of_def)
  have c: "contents_ok d" and rok: "revision_ok d r" and lin: "linear ?rs" using ok rin(1) unfolding prompt_ok_def by blast+
  obtain i j where i: "rv_system r = Some i" "content_at d (pf_id p) LayerSystem i (rv_system_checksum r)"
    and j: "rv_persona r = Some j" "content_at d (pf_id p) LayerPersona j (rv_persona_checksum r)" and del: "rv_deleted r = 0"
    using rok rin(2) unfolding revision_ok_def by auto
  obtain ss where ss: "load_content_source (pf_id p) i d = Inr ss" "source_of d i = Some ss" "pcs_checksum ss = rv_system_checksum r"
    using load_content_at [OF c i(2)] by blast
  obtain ps where ps: "load_content_source (pf_id p) j d = Inr ps" "source_of d j = Some ps" "pcs_checksum ps = rv_persona_checksum r"
    using load_content_at [OF c j(2)] by blast
  have num: "rv_revision r = int (length ?rs)" using lin ne by (simp add: linear_def r_def last_conv_nth Suc_le_eq of_nat_diff)
  have f1: "List.find (\<lambda>x. pf_id x = pf_id p) (pt_profiles d) = Some p"
    using ok p by (intro find_by_key) (simp_all add: prompt_ok_def)
  have f2: "List.find (\<lambda>x. rv_id x = pf_active p \<and> rv_profile x = pf_id p) (pt_revisions d) = Some r"
    using find_by_key_and [of rv_id "pt_revisions d" r "\<lambda>x. rv_profile x = pf_id p"] ok rin act by (simp add: prompt_ok_def)
  have h: "last (history d (pf_id p)) = (Some ss, Some ps)" "length (history d (pf_id p)) = length ?rs"
    using ne i(1) j(1) ss(2) ps(2) by (simp_all add: history_def last_map revision_sources_def r_def [symmetric])
  obtain e b where eb: "parse_experience_preset (pf_experience p) = Inr e" "parse_system_preset (pf_base p) = Inr b"
    using parse unfolding is_ok_iff by blast
  show ?thesis
    unfolding h load_active_prompt_profile_def f1
    by (simp add: into_profile_def eb f2 into_revision_def num del i(1) j(1) ss(1,3) ps(1,3) act)
qed

section \<open>A concrete store\<close>

definition demo_seed :: factory_seed where
  "demo_seed = \<lparr> fs_profile_id = 7, fs_profile_name = ''p'', fs_experience_preset = ExpSenior, fs_base_system_preset = SysSenior,
     fs_system_key = ''s'', fs_system_version = ''1'', fs_system_checksum = ''a'', fs_persona_key = ''t'',
     fs_persona_version = ''1'', fs_persona_checksum = ''b'' \<rparr>"

definition demo_ids :: "uuid \<Rightarrow> fresh_ids" where
  "demo_ids i = \<lparr> fi_system = i, fi_persona = i + 1, fi_revision = i + 2 \<rparr>"

definition demo_draft :: prompt_draft where
  "demo_draft = \<lparr> pd_profile_id = 7, pd_name = ''q'', pd_experience_preset = ExpCustom, pd_base_system_preset = SysSenior,
     pd_system = DraftUserText ''hello'', pd_persona = RestoreVersion 11 \<rparr>"

abbreviation demo_sha :: "string \<Rightarrow> string" where
  "demo_sha \<equiv> (\<lambda>_. ''d'')"

definition seeded :: prompt_db where
  "seeded = fst (seed_factory_prompt_profile (demo_ids 10) 1 demo_seed empty_prompt_db)"

definition redrafted :: prompt_db where
  "redrafted = (case apply_prompt_draft demo_sha (demo_ids 20) 2 12 demo_draft seeded of Inr (d, r) \<Rightarrow> d | Inl _ \<Rightarrow> seeded)"

lemma seeded_rows: "seeded = \<lparr> pt_profiles = [\<lparr> pf_id = 7, pf_name = ''p'', pf_experience = ''Senior'', pf_base = ''Senior'',
      pf_active = 12, pf_system_version = ''1'', pf_persona_version = ''1'', pf_created_at = 1, pf_updated_at = 1 \<rparr>],
    pt_contents = [content_row_of 10 7 LayerSystem 1 (FactoryRef ''s'' ''1'' ''a'') None 1,
      content_row_of 11 7 LayerPersona 1 (FactoryRef ''t'' ''1'' ''b'') None 1],
    pt_revisions = [\<lparr> rv_id = 12, rv_profile = 7, rv_revision = 1, rv_system = Some 10, rv_persona = Some 11,
      rv_system_checksum = ''a'', rv_persona_checksum = ''b'', rv_deleted = 0, rv_previous = None, rv_created_at = 1 \<rparr>] \<rparr>"
  by (simp add: seeded_def seed_factory_prompt_profile_def load_active_prompt_profile_def empty_prompt_db_def seed_rows_def
    demo_seed_def demo_ids_def insert_row_def insert_profile_row_def insert_content_row_def insert_revision_row_def refers_to_content_def)

lemma demo_name: "\<not> is_blank ''q''"
  by code_simp

lemma demo_applies: "is_ok (apply_prompt_draft demo_sha (demo_ids 20) 2 12 demo_draft seeded)"
  by (simp add: apply_prompt_draft_def seeded_rows demo_draft_def demo_ids_def demo_name active_row_def materialize_draft_def
    validate_user_prompt_def insert_content_source_def next_version_def insert_content_row_def load_content_version_def
    into_version_def insert_revision_row_def refers_to_content_def revision_row_of_def update_active_def count_where_def
    Let_def fits_i64_def restored_source_def insert_row_def parse_prompt_layer_def)

lemma demo_redrafted:
  obtains r where "apply_prompt_draft demo_sha (demo_ids 20) 2 12 demo_draft seeded = Inr (redrafted, r)"
  using demo_applies unfolding is_ok_iff redrafted_def by fastforce

lemma seeded_reachable: "prompts_reachable sha seeded"
  unfolding prompts_reachable_def seeded_def
  by (rule r_into_rtranclp, rule seed_step [of "demo_ids 10" 1 demo_seed _ _ "snd (seed_factory_prompt_profile (demo_ids 10) 1 demo_seed empty_prompt_db)"]) simp

lemma redrafted_reachable: "prompts_reachable demo_sha redrafted"
proof (rule demo_redrafted)
  fix r assume "apply_prompt_draft demo_sha (demo_ids 20) 2 12 demo_draft seeded = Inr (redrafted, r)"
  then show ?thesis using seeded_reachable [of demo_sha] apply_step
    unfolding prompts_reachable_def by (metis rtranclp.rtrancl_into_rtrancl)
qed

lemma demo_in_redrafted: "map pf_id (pt_profiles redrafted) = [7]"
proof (rule demo_redrafted)
  fix r assume a: "apply_prompt_draft demo_sha (demo_ids 20) 2 12 demo_draft seeded = Inr (redrafted, r)"
  show ?thesis
    by (rule apply_effect [OF reachable_prompt_ok [OF seeded_reachable] a]) (simp add: seeded_rows activated_def)
qed

section \<open>The contract\<close>

text \<open>C33: In every store made by seeding and applying drafts, every profile loads: the result is the last entry of its
  history, with the number of the revision its length, and the digests of the two sources are those
  sealed in the active revision.\<close>

theorem stored_profile_always_loads:
  assumes "prompts_reachable sha d" and "i \<in> pf_id ` set (pt_profiles d)"
  shows "\<exists>sp. load_active_prompt_profile i d = Inr (Some sp)
    \<and> last (history d i) = (Some (sp_system_source sp), Some (sp_persona_source sp))
    \<and> pr_revision (sp_revision sp) = length (history d i)
    \<and> pcs_checksum (sp_system_source sp) = pr_system_checksum (sp_revision sp)
    \<and> pcs_checksum (sp_persona_source sp) = pr_persona_checksum (sp_revision sp)"
  using load_active_ok [OF reachable_prompt_ok [OF assms(1)]] assms(2) by blast

lemma stored_profile_always_loads_witness:
  "prompts_reachable demo_sha redrafted \<and> (\<exists>sp. load_active_prompt_profile 7 redrafted = Inr (Some sp))"
proof -
  have "7 \<in> pf_id ` set (pt_profiles redrafted)" using demo_in_redrafted by (metis list.set_intros(1) set_map)
  then show ?thesis using stored_profile_always_loads [OF redrafted_reachable] redrafted_reachable by blast
qed

text \<open>C32: Applying a draft extends the history of its profile at the end by what the draft makes of the current sources:
  a preserved layer stays, a text is stored with its digest, a factory reference as given, and a
  restored version has the text of the old one. All other histories and all earlier entries are as before.\<close>

theorem draft_extends_history:
  assumes "prompts_reachable sha d" and "apply_prompt_draft sha ids now expected draft d = Inr (d', r)"
  shows "history d (pd_profile_id draft) \<noteq> []
    \<and> history d' (pd_profile_id draft) = history d (pd_profile_id draft)
        @ [(drafted sha d (fst (last (history d (pd_profile_id draft)))) (pd_system draft),
            drafted sha d (snd (last (history d (pd_profile_id draft)))) (pd_persona draft))]
    \<and> (\<forall>q. q \<noteq> pd_profile_id draft \<longrightarrow> history d' q = history d q)"
proof (rule apply_effect [OF reachable_prompt_ok [OF assms(1)] assms(2)])
  have ok: "prompt_ok d" by (rule reachable_prompt_ok [OF assms(1)])
  let ?i = "pd_profile_id draft"
  fix p row d1 d2 sv ssum pv psum
  let ?new = "draft_revision (fi_revision ids) now ?i expected row sv ssum pv psum"
  assume last: "revisions_of d ?i \<noteq> []" "row = last (revisions_of d ?i)"
    and m: "more_contents LayerSystem d d1" "more_contents LayerPersona d1 d2"
    and src: "source_of d2 sv = drafted sha d (fst (revision_sources d row)) (pd_system draft)"
      "source_of d2 pv = drafted sha d (snd (revision_sources d row)) (pd_persona draft)"
    and c: "pt_contents d' = pt_contents d2" and rv: "pt_revisions d' = pt_revisions d @ [?new]"
  obtain cs where cs: "pt_contents d' = pt_contents d @ cs" using more_contentsD(1) m c by (metis append.assoc)
  have same: "revision_sources d' x = revision_sources d x" if "x \<in> set (revisions_of d q)" for x q
    using that ok revision_sources_append [OF cs] by (simp add: revisions_of_def prompt_ok_def)
  have new: "revision_sources d' ?new = (source_of d2 sv, source_of d2 pv)"
    by (simp add: revision_sources_def draft_revision_def source_of_def c)
  have "rv_profile ?new = ?i" by (simp add: draft_revision_def)
  then show ?thesis
    using last same new src by (simp add: history_def apply_revisions [OF rv] last_map)
qed

lemma draft_extends_history_witness:
  "prompts_reachable demo_sha seeded \<and> (\<exists>d' r. apply_prompt_draft demo_sha (demo_ids 20) 2 12 demo_draft seeded = Inr (d', r)
     \<and> history seeded 7 \<noteq> [] \<and> length (history d' 7) = Suc (length (history seeded 7)))"
proof (rule demo_redrafted)
  fix r assume a: "apply_prompt_draft demo_sha (demo_ids 20) 2 12 demo_draft seeded = Inr (redrafted, r)"
  have i: "pd_profile_id demo_draft = 7" by (simp add: demo_draft_def)
  show ?thesis using draft_extends_history [OF seeded_reachable a] a seeded_reachable by (auto simp: i)
qed

text \<open>A revision is the base of at most one draft: once a draft was applied to it, every further draft of this profile
  that was edited from the same revision is refused as a conflict, whatever happened in between.\<close>

theorem draft_base_used_once:
  assumes "prompts_reachable sha d" and "apply_prompt_draft sha ids now expected draft d = Inr (d', r)"
    and "(prompt_step sha)\<^sup>*\<^sup>* d' d''" and "pd_profile_id draft2 = pd_profile_id draft"
    and "\<not> is_blank (pd_name draft2)" and "length (pd_name draft2) \<le> 256"
  shows "apply_prompt_draft sha ids2 now2 expected draft2 d'' = Inl (storage_error ''PROMPT_REVISION_CONFLICT'')"
proof (rule apply_effect [OF reachable_prompt_ok [OF assms(1)] assms(2)])
  have ok: "prompt_ok d" by (rule reachable_prompt_ok [OF assms(1)])
  have ok': "prompt_ok d'" using apply_ok [OF ok assms(2)] by blast
  have ok'': "prompt_ok d''" and ext: "extends d' d''" using steps_ok [OF assms(3) ok'] by blast+
  let ?i = "pd_profile_id draft"
  fix p row d1 d2 sv ssum pv psum
  let ?new = "draft_revision (fi_revision ids) now ?i expected row sv ssum pv psum"
  assume last: "revisions_of d ?i \<noteq> []" "row = last (revisions_of d ?i)" "rv_id row = expected"
    and rv: "pt_revisions d' = pt_revisions d @ [?new]"
  have prof: "rv_profile ?new = ?i" by (simp add: draft_revision_def)
  obtain more where "revisions_of d'' ?i = revisions_of d' ?i @ more" using ext unfolding extends_def by blast
  then have rs: "revisions_of d'' ?i = revisions_of d ?i @ ?new # more"
    by (simp add: apply_revisions [OF rv] prof)
  have "distinct (map rv_id (revisions_of d'' ?i))"
    using ok'' unfolding prompt_ok_def revisions_of_def by (simp add: distinct_map_filter)
  moreover have "expected \<in> set (map rv_id (revisions_of d ?i))"
    using imageI [OF last_in_set [OF last(1)], of rv_id] last(2,3) by simp
  moreover have "last (?new # more) \<in> set (?new # more)" by (rule last_in_set) simp
  then have "rv_id (last (revisions_of d'' ?i)) \<in> set (map rv_id (?new # more))"
    unfolding rs by simp
  ultimately have ne: "rv_id (last (revisions_of d'' ?i)) \<noteq> expected" unfolding rs by auto
  have "?new \<in> set (revisions_of d'' ?i)" using rs by simp
  then have "?new \<in> set (pt_revisions d'')" by (simp add: revisions_of_def)
  then have "rv_profile ?new \<in> pf_id ` set (pt_profiles d'')" using ok'' unfolding prompt_ok_def by blast
  then have "?i \<in> pf_id ` set (pt_profiles d'')" by (simp only: prof)
  then obtain q where q: "q \<in> set (pt_profiles d'')" "pf_id q = ?i" by (rule imageE) (rule that, assumption, rule sym)
  have "profile_ok d'' q" using ok'' q(1) unfolding prompt_ok_def by blast
  then have act: "rv_id (last (revisions_of d'' ?i)) = pf_active q" unfolding profile_ok_def q(2) by blast
  have "last (revisions_of d'' ?i) \<in> set (revisions_of d'' ?i)" using rs by simp
  then have lin: "last (revisions_of d'' ?i) \<in> set (pt_revisions d'')" by (simp add: revisions_of_def)
  have f1: "List.find (\<lambda>x. pf_id x = ?i) (pt_profiles d'') = Some q"
    using find_by_key [of pf_id "pt_profiles d''" q] ok'' q by (simp add: prompt_ok_def)
  have f2: "List.find (\<lambda>x. rv_id x = pf_active q) (pt_revisions d'') = Some (last (revisions_of d'' ?i))"
    using find_by_key [OF _ lin, of rv_id] ok'' act by (simp add: prompt_ok_def)
  show ?thesis
    using assms(4-6) ne act by (simp add: apply_prompt_draft_def active_row_def f1 f2)
qed

lemma draft_base_used_once_witness:
  "\<exists>r. apply_prompt_draft demo_sha (demo_ids 20) 2 12 demo_draft seeded = Inr (redrafted, r)
    \<and> apply_prompt_draft demo_sha (demo_ids 30) 3 12 demo_draft redrafted = Inl (storage_error ''PROMPT_REVISION_CONFLICT'')"
proof (rule demo_redrafted)
  fix r assume a: "apply_prompt_draft demo_sha (demo_ids 20) 2 12 demo_draft seeded = Inr (redrafted, r)"
  have "\<not> is_blank (pd_name demo_draft)" "length (pd_name demo_draft) \<le> 256" using demo_name by (simp_all add: demo_draft_def)
  then show ?thesis using draft_base_used_once [OF seeded_reachable a rtranclp.rtrancl_refl refl] a by blast
qed

end
