(* ===== verification/Profile_Store.thy ===== *)
theory Profile_Store
  imports Storage_Schema Inference_Types "HOL-Library.Multiset"
begin

text \<open>
  The tables of schema version 1 and the preferences of version 5 (\<open>mentat-storage/src/db.rs\<close>,
  \<open>secret_preferences.rs\<close>): recent repositories, saved backend profiles, snapshot history and the
  provider secret preferences. \<open>canon\<close> is what \<open>canonicalize\<close> returns, the text of a UUID a parameter.
  An \<open>INSERT .. ON CONFLICT(id) DO UPDATE\<close> rewrites the row with the id in place, or appends one.
\<close>

section \<open>Tables\<close>

record repository_row =
  ro_id :: uuid
  ro_display_name :: string
  ro_root_path :: string
  ro_type :: string
  ro_last_opened_at :: datetime

record saved_profile_row =
  sv_id :: uuid
  sv_name :: string
  sv_provider :: string
  sv_base_url :: string
  sv_model :: string
  sv_timeout_secs :: int
  sv_updated_at :: datetime

record snapshot_row =
  sn_id :: uuid
  sn_repo :: uuid
  sn_created_at :: datetime
  sn_tree_digest :: string
  sn_status :: string
  sn_file_count :: int
  sn_total_bytes :: int

record secret_row =
  sr_profile :: uuid
  sr_credential_ref :: string
  sr_remember :: int
  sr_updated_at :: datetime

record settings_db =
  sd_repositories :: "repository_row list"
  sd_profiles :: "saved_profile_row list"
  sd_snapshots :: "snapshot_row list"
  sd_secrets :: "secret_row list"

definition upsert :: "('r \<Rightarrow> 'k) \<Rightarrow> 'r \<Rightarrow> 'r list \<Rightarrow> 'r list" where
  "upsert key r rs =
     (if key r \<in> key ` set rs then map (\<lambda>x. if key x = key r then r else x) rs else rs @ [r])"

text \<open>\<open>ORDER BY .. DESC\<close>; \<open>i64\<close> of a number that was cast with \<open>as\<close>.\<close>

definition newest_first :: "('r \<Rightarrow> datetime) \<Rightarrow> 'r list \<Rightarrow> 'r list" where
  "newest_first t rs = sort_key (\<lambda>r. - int (t r)) rs"

definition as_i64 :: "nat \<Rightarrow> int" where
  "as_i64 n = (let m = n mod 2 ^ 64 in if m < 2 ^ 63 then int m else int m - 2 ^ 64)"

section \<open>Recent repositories\<close>

fun repository_type_text :: "repository_type \<Rightarrow> string" where
  "repository_type_text RepoGit = ''Git''"
| "repository_type_text RepoDirectory = ''Directory''"

definition parse_repository_type :: "string \<Rightarrow> repository_type result" where
  "parse_repository_type s =
     (if s = ''Git'' then Inr RepoGit else if s = ''Directory'' then Inr RepoDirectory
      else Inl (storage_error ''STORAGE_DECODE_ENUM''))"

definition stored_root :: "(string \<Rightarrow> string option) \<Rightarrow> string \<Rightarrow> string" where
  "stored_root canon p = (case canon p of Some c \<Rightarrow> c | None \<Rightarrow> p)"

definition save_recent_repo ::
  "(string \<Rightarrow> string option) \<Rightarrow> datetime \<Rightarrow> repository_profile \<Rightarrow> settings_db \<Rightarrow> settings_db result" where
  "save_recent_repo canon now p d =
     (let r = \<lparr> ro_id = repo_id p, ro_display_name = repo_display_name p, ro_root_path = stored_root canon (repo_root_path p),
                ro_type = repository_type_text (repo_type p), ro_last_opened_at = now \<rparr> in
      if ro_root_path r \<in> ro_root_path ` set (filter (\<lambda>x. ro_id x \<noteq> ro_id r) (sd_repositories d))
      then Inl (IoError ''UNIQUE constraint failed: recent_repositories.root_path'')
      else Inr (d\<lparr>sd_repositories := upsert ro_id r (sd_repositories d)\<rparr>))"

definition repository_of_row :: "repository_row \<Rightarrow> repository_profile result" where
  "repository_of_row r =
     then_do (parse_repository_type (ro_type r)) (\<lambda>t.
       Inr \<lparr> repo_id = ro_id r, repo_display_name = ro_display_name r, repo_root_path = ro_root_path r,
             repo_type = t, repo_consent_policy = False \<rparr>)"

definition list_recent_repos :: "settings_db \<Rightarrow> repository_profile list result" where
  "list_recent_repos d = collect_results repository_of_row (take 10 (newest_first ro_last_opened_at (sd_repositories d)))"

text \<open>\<open>normalize_root_key\<close>: the verbatim prefixes of Windows are stripped, separators unified.\<close>

definition strip_verbatim :: "string \<Rightarrow> string" where
  "strip_verbatim s =
     (if prefix [CHR 0x5C, CHR 0x5C, CHR ''?'', CHR 0x5C] s \<or> prefix ''//?/'' s then drop 4 s else s)"

definition normalize_root_key :: "(string \<Rightarrow> string option) \<Rightarrow> string \<Rightarrow> string" where
  "normalize_root_key canon p =
     to_lowercase (trim_end_char (CHR 0x5C) (replace_char (CHR ''/'') (CHR 0x5C) (strip_verbatim (stored_root canon p))))"

definition find_repo_by_root :: "(string \<Rightarrow> string option) \<Rightarrow> string \<Rightarrow> settings_db \<Rightarrow> repository_profile option result" where
  "find_repo_by_root canon path d =
     then_do (list_recent_repos d) (\<lambda>rs.
       Inr (List.find (\<lambda>r. normalize_root_key canon (repo_root_path r) = normalize_root_key canon path) rs))"

section \<open>Backend profiles\<close>

fun provider_text :: "provider_kind \<Rightarrow> string" where
  "provider_text GoogleGemini = ''GoogleGemini''"
| "provider_text OpenRouter = ''OpenRouter''"
| "provider_text OpenAi = ''OpenAi''"
| "provider_text OpenAICompatible = ''OpenAICompatible''"
| "provider_text CustomCompatible = ''CustomCompatible''"
| "provider_text LocalMock = ''LocalMock''"

definition parse_provider :: "string \<Rightarrow> provider_kind result" where
  "parse_provider s =
     (if s = ''GoogleGemini'' then Inr GoogleGemini else if s = ''OpenRouter'' then Inr OpenRouter
      else if s = ''OpenAi'' then Inr OpenAi else if s = ''OpenAICompatible'' then Inr OpenAICompatible
      else if s = ''CustomCompatible'' then Inr CustomCompatible else if s = ''LocalMock'' then Inr LocalMock
      else Inl (storage_error ''STORAGE_DECODE_ENUM''))"

text \<open>An unsigned parameter beyond \<open>i64\<close> is refused by the driver, and the column must be positive.\<close>

definition save_backend_profile :: "datetime \<Rightarrow> backend_profile \<Rightarrow> settings_db \<Rightarrow> settings_db result" where
  "save_backend_profile now p d =
     (if \<not> fits_i64 (unat (bp_timeout_secs p)) \<or> bp_timeout_secs p = 0 then Inl (IoError ''saved_profiles'')
      else Inr (d\<lparr>sd_profiles := upsert sv_id
        \<lparr> sv_id = bp_id p, sv_name = bp_name p, sv_provider = provider_text (bp_provider p), sv_base_url = bp_base_url p,
          sv_model = bp_model p, sv_timeout_secs = int (unat (bp_timeout_secs p)), sv_updated_at = now \<rparr> (sd_profiles d)\<rparr>))"

definition backend_profile_of_row :: "saved_profile_row \<Rightarrow> backend_profile result" where
  "backend_profile_of_row r =
     then_do (parse_provider (sv_provider r)) (\<lambda>k.
       if sv_timeout_secs r < 0 then Inl (storage_error ''STORAGE_DECODE_INTEGER'')
       else Inr \<lparr> bp_id = sv_id r, bp_name = sv_name r, bp_provider = k, bp_base_url = sv_base_url r,
                  bp_model = sv_model r, bp_api_key = None, bp_timeout_secs = of_int (sv_timeout_secs r) \<rparr>)"

definition load_backend_profile :: "settings_db \<Rightarrow> backend_profile option result" where
  "load_backend_profile d =
     (case newest_first sv_updated_at (sd_profiles d) of
        [] \<Rightarrow> Inr None | r # _ \<Rightarrow> then_do (backend_profile_of_row r) (\<lambda>p. Inr (Some p)))"

section \<open>Snapshots\<close>

fun snapshot_status_text :: "snapshot_status \<Rightarrow> string" where
  "snapshot_status_text SnapReady = ''Ready''"
| "snapshot_status_text SnapStale = ''Stale''"
| "snapshot_status_text SnapIndexing = ''Indexing''"
| "snapshot_status_text SnapIncomplete = ''Incomplete''"

definition parse_snapshot_status :: "string \<Rightarrow> snapshot_status result" where
  "parse_snapshot_status s =
     (if s = ''Ready'' then Inr SnapReady else if s = ''Stale'' then Inr SnapStale
      else if s = ''Indexing'' then Inr SnapIndexing else if s = ''Incomplete'' then Inr SnapIncomplete
      else Inl (storage_error ''STORAGE_DECODE_ENUM''))"

definition save_snapshot_meta :: "repository_snapshot \<Rightarrow> settings_db \<Rightarrow> settings_db result" where
  "save_snapshot_meta s d =
     (let r = \<lparr> sn_id = snap_id s, sn_repo = snap_repo_id s, sn_created_at = snap_created_at s,
                sn_tree_digest = snap_tree_digest s, sn_status = snapshot_status_text (snap_status s),
                sn_file_count = as_i64 (snap_file_count s), sn_total_bytes = as_i64 (snap_total_bytes s) \<rparr> in
      if sn_file_count r < 0 \<or> sn_total_bytes r < 0 then Inl (IoError ''CHECK constraint failed: snapshot_history'')
      else Inr (d\<lparr>sd_snapshots := upsert sn_id r (sd_snapshots d)\<rparr>))"

definition snapshot_of_row :: "snapshot_row \<Rightarrow> repository_snapshot result" where
  "snapshot_of_row r =
     then_do (parse_snapshot_status (sn_status r)) (\<lambda>st.
       if sn_file_count r < 0 \<or> sn_total_bytes r < 0 then Inl (storage_error ''STORAGE_DECODE_INTEGER'')
       else Inr \<lparr> snap_id = sn_id r, snap_repo_id = sn_repo r, snap_created_at = sn_created_at r,
                  snap_tree_digest = sn_tree_digest r, snap_status = st, snap_file_count = nat (sn_file_count r),
                  snap_total_bytes = nat (sn_total_bytes r) \<rparr>)"

definition load_latest_snapshot :: "uuid \<Rightarrow> settings_db \<Rightarrow> repository_snapshot option result" where
  "load_latest_snapshot repo d =
     (case newest_first sn_created_at (filter (\<lambda>r. sn_repo r = repo) (sd_snapshots d)) of
        [] \<Rightarrow> Inr None | r # _ \<Rightarrow> then_do (snapshot_of_row r) (\<lambda>s. Inr (Some s)))"

section \<open>Provider secret preferences\<close>

record secret_preference =
  pref_profile_id :: uuid
  pref_credential_ref :: string
  pref_remember_api_key :: bool

definition validate_preference :: "(uuid \<Rightarrow> string) \<Rightarrow> secret_preference \<Rightarrow> unit result" where
  "validate_preference uuid_text p =
     guard_err (pref_credential_ref p = ''provider:'' @ uuid_text (pref_profile_id p))
       (storage_error ''SECRET_REFERENCE_PROFILE_MISMATCH'')"

text \<open>The credential reference is \<open>UNIQUE\<close> too.\<close>

definition save_provider_secret_preference ::
  "(uuid \<Rightarrow> string) \<Rightarrow> datetime \<Rightarrow> secret_preference \<Rightarrow> settings_db \<Rightarrow> settings_db result" where
  "save_provider_secret_preference uuid_text now p d =
     then_do (validate_preference uuid_text p) (\<lambda>_.
       if pref_credential_ref p \<in> sr_credential_ref ` set (filter (\<lambda>x. sr_profile x \<noteq> pref_profile_id p) (sd_secrets d))
       then Inl (storage_error ''SECRET_PREFERENCE_SAVE_FAILED'')
       else Inr (d\<lparr>sd_secrets := upsert sr_profile
         \<lparr> sr_profile = pref_profile_id p, sr_credential_ref = pref_credential_ref p,
           sr_remember = of_bool (pref_remember_api_key p), sr_updated_at = now \<rparr> (sd_secrets d)\<rparr>))"

definition load_provider_secret_preference ::
  "(uuid \<Rightarrow> string) \<Rightarrow> uuid \<Rightarrow> settings_db \<Rightarrow> secret_preference option result" where
  "load_provider_secret_preference uuid_text i d =
     (case List.find (\<lambda>r. sr_profile r = i) (sd_secrets d) of
        None \<Rightarrow> Inr None
      | Some r \<Rightarrow>
        if sr_remember r \<noteq> 0 \<and> sr_remember r \<noteq> 1 then Inl (storage_error ''STORAGE_DECODE_BOOL'')
        else let p = \<lparr> pref_profile_id = sr_profile r, pref_credential_ref = sr_credential_ref r,
                       pref_remember_api_key = (sr_remember r = 1) \<rparr> in
          then_do (validate_preference uuid_text p) (\<lambda>_. Inr (Some p)))"

definition delete_provider_secret_preference :: "uuid \<Rightarrow> settings_db \<Rightarrow> settings_db result" where
  "delete_provider_secret_preference i d = Inr (d\<lparr>sd_secrets := filter (\<lambda>r. sr_profile r \<noteq> i) (sd_secrets d)\<rparr>)"

section \<open>Ordered selects\<close>

lemma set_newest_first [simp]: "set (newest_first t rs) = set rs"
  by (simp add: newest_first_def)

lemma newest_first_hd:
  assumes "r \<in> set rs" and "\<And>x. x \<in> set rs \<Longrightarrow> x \<noteq> r \<Longrightarrow> t x < t r"
  shows "\<exists>ys. newest_first t rs = r # ys"
proof (cases "newest_first t rs")
  case Nil
  then show ?thesis using assms(1) set_newest_first [of t rs] by simp
next
  case (Cons x ys)
  have "sorted (map (\<lambda>r. - int (t r)) (x # ys))" using Cons sorted_sort_key [of "\<lambda>r. - int (t r)" rs] by (simp add: newest_first_def)
  moreover have "r \<in> set (x # ys)" "x \<in> set rs" using assms(1) Cons set_newest_first [of t rs] by auto
  ultimately have "x = r" using assms(2) by force
  then show ?thesis using Cons by simp
qed

lemma set_upsert: "set (upsert key r rs) = insert r {x \<in> set rs. key x \<noteq> key r}"
  by (auto simp: upsert_def) (metis imageI)

lemma fits_as_i64: "fits_i64 n \<Longrightarrow> as_i64 n = int n"
  by (simp add: fits_i64_def as_i64_def)

lemma parse_provider_text [simp]: "parse_provider (provider_text k) = Inr k"
  by (cases k) (simp_all add: parse_provider_def)

lemma parse_snapshot_status_text [simp]: "parse_snapshot_status (snapshot_status_text k) = Inr k"
  by (cases k) (simp_all add: parse_snapshot_status_def)

lemma parse_repository_type_text [simp]: "parse_repository_type (repository_type_text k) = Inr k"
  by (cases k) (simp_all add: parse_repository_type_def)

text \<open>A row that is among the first \<open>n\<close> has fewer than \<open>n\<close> newer ones.\<close>

lemma take_newest:
  assumes "r \<in> set (take n (newest_first t rs))"
  shows "length (filter (\<lambda>x. t r < t x) rs) < n"
proof -
  let ?s = "newest_first t rs"
  obtain k where k: "k < n" "k < length ?s" "?s ! k = r"
    using assms by (auto simp: in_set_conv_nth)
  have sorted: "sorted (map (\<lambda>r. - int (t r)) ?s)" by (simp add: newest_first_def)
  have later: "\<not> t r < t (?s ! j)" if "k \<le> j" "j < length ?s" for j
    using sorted_nth_mono [OF sorted that(1)] that k by simp
  have "filter (\<lambda>x. t r < t x) (drop k ?s) = []"
    using later by (auto simp: filter_empty_conv in_set_conv_nth)
  then have "filter (\<lambda>x. t r < t x) ?s = filter (\<lambda>x. t r < t x) (take k ?s)"
    by (metis append_Nil2 append_take_drop_id filter_append)
  moreover have "mset (filter (\<lambda>x. t r < t x) ?s) = mset (filter (\<lambda>x. t r < t x) rs)"
    unfolding newest_first_def mset_filter mset_sort ..
  ultimately have "length (filter (\<lambda>x. t r < t x) rs) = length (filter (\<lambda>x. t r < t x) (take k ?s))"
    by (metis size_mset)
  also have "\<dots> \<le> k" using k(2) length_filter_le [of _ "take k ?s"] by (metis (no_types, lifting) length_take min.absorb4)
  finally show ?thesis using k(1) by simp
qed

lemma repository_of_row_ok: "ro_type x \<in> {''Git'', ''Directory''} \<Longrightarrow> is_ok (repository_of_row x)"
  by (auto simp: repository_of_row_def parse_repository_type_def)

lemma collect_profiles_ok: "\<forall>x \<in> set xs. is_ok (f x) \<Longrightarrow> \<exists>ys. collect_results f xs = Inr ys"
  by (induction xs) (auto simp: is_ok_iff)

section \<open>Properties\<close>

text \<open>A saved backend profile loads back as it was, except for its API key: the saved table does not depend on the
  key, and the loaded profile has none.\<close>

theorem saved_profile_loads_without_key:
  assumes "save_backend_profile now p d = Inr d'" and "\<forall>r \<in> set (sd_profiles d). sv_updated_at r < now"
  shows "load_backend_profile d' = Inr (Some (p\<lparr>bp_api_key := None\<rparr>))
    \<and> (\<forall>k. save_backend_profile now (p\<lparr>bp_api_key := k\<rparr>) d = Inr d')"
proof -
  let ?r = "\<lparr> sv_id = bp_id p, sv_name = bp_name p, sv_provider = provider_text (bp_provider p), sv_base_url = bp_base_url p,
          sv_model = bp_model p, sv_timeout_secs = int (unat (bp_timeout_secs p)), sv_updated_at = now \<rparr>"
  have d': "d' = d\<lparr>sd_profiles := upsert sv_id ?r (sd_profiles d)\<rparr>"
    using assms(1) by (auto simp: save_backend_profile_def split: if_splits)
  have "\<exists>ys. newest_first sv_updated_at (sd_profiles d') = ?r # ys"
    using assms(2) by (intro newest_first_hd) (auto simp: d' set_upsert)
  then have "load_backend_profile d' = Inr (Some (p\<lparr>bp_api_key := None\<rparr>))"
    by (auto simp: load_backend_profile_def backend_profile_of_row_def)
  moreover have "save_backend_profile now (p\<lparr>bp_api_key := k\<rparr>) d = Inr d'" for k
    unfolding assms(1) [symmetric] by (simp add: save_backend_profile_def)
  ultimately show ?thesis by blast
qed

definition demo_settings :: settings_db where
  "demo_settings = \<lparr> sd_repositories = [], sd_profiles = [], sd_snapshots = [], sd_secrets = [] \<rparr>"

lemma saved_profile_loads_without_key_witness:
  "\<exists>d'. save_backend_profile 5 ((backend_profile_default 1)\<lparr>bp_api_key := Some ''secret''\<rparr>) demo_settings = Inr d'
    \<and> load_backend_profile d' = Inr (Some (backend_profile_default 1))"
proof -
  obtain d' where d': "save_backend_profile 5 ((backend_profile_default 1)\<lparr>bp_api_key := Some ''secret''\<rparr>) demo_settings = Inr d'"
    by (simp add: save_backend_profile_def demo_settings_def backend_profile_default_def fits_i64_def)
  have "\<forall>r \<in> set (sd_profiles demo_settings). sv_updated_at r < 5" by (simp add: demo_settings_def)
  from saved_profile_loads_without_key [OF d' this] d' show ?thesis by (auto simp: backend_profile_default_def)
qed

text \<open>A repository that ten others were opened after is forgotten: looking it up by its root finds nothing, and saving
  it again under a fresh id fails on the unique root path.\<close>

theorem older_repository_is_locked_out:
  assumes "r \<in> set (sd_repositories d)" and "10 \<le> length (filter (\<lambda>x. ro_last_opened_at r < ro_last_opened_at x) (sd_repositories d))"
    and "\<forall>x \<in> set (sd_repositories d). ro_type x \<in> {''Git'', ''Directory''}
      \<and> (normalize_root_key canon (ro_root_path x) = normalize_root_key canon path \<longrightarrow> x = r)"
    and "stored_root canon (repo_root_path p) = ro_root_path r" and "\<forall>x \<in> set (sd_repositories d). ro_id x \<noteq> repo_id p"
  shows "find_repo_by_root canon path d = Inr None \<and> \<not> is_ok (save_recent_repo canon now p d)"
proof -
  let ?rs = "take 10 (newest_first ro_last_opened_at (sd_repositories d))"
  have out: "r \<notin> set ?rs" using take_newest [of r 10 ro_last_opened_at "sd_repositories d"] assms(2) by force
  have sub: "set ?rs \<subseteq> set (sd_repositories d)" by (rule order_trans [OF set_take_subset]) simp
  have "is_ok (repository_of_row x)" if "x \<in> set ?rs" for x
    by (rule repository_of_row_ok, rule conjunct1 [OF bspec [OF assms(3) subsetD [OF sub that]]])
  then obtain ps where ps: "list_recent_repos d = Inr ps"
    unfolding list_recent_repos_def using collect_profiles_ok [of ?rs repository_of_row] by metis
  have "normalize_root_key canon (repo_root_path q) \<noteq> normalize_root_key canon path" if q: "q \<in> set ps" for q
  proof -
    obtain x where "x \<in> set ?rs" "repository_of_row x = Inr q"
      using collect_results_set [OF ps [unfolded list_recent_repos_def] q] by blast
    then have x: "x \<in> set (sd_repositories d)" "x \<noteq> r" "repo_root_path q = ro_root_path x"
      using sub out by (auto simp: repository_of_row_def)
    have "normalize_root_key canon (ro_root_path x) = normalize_root_key canon path \<longrightarrow> x = r"
      by (rule conjunct2 [OF bspec [OF assms(3) x(1)]])
    then show ?thesis using x(2) unfolding x(3) by blast
  qed
  then have "find_repo_by_root canon path d = Inr None" by (simp add: find_repo_by_root_def ps find_None_set)
  moreover have "\<not> is_ok (save_recent_repo canon now p d)"
  proof -
    have "ro_root_path r \<in> ro_root_path ` set (filter (\<lambda>x. ro_id x \<noteq> repo_id p) (sd_repositories d))"
      using assms(1,5) by (intro imageI) simp
    then show ?thesis unfolding save_recent_repo_def Let_def by (simp add: assms(4))
  qed
  ultimately show ?thesis by blast
qed

definition demo_rows :: "repository_row list" where
  "demo_rows = map (\<lambda>(i, t, p). \<lparr> ro_id = i, ro_display_name = p, ro_root_path = p, ro_type = ''Directory'', ro_last_opened_at = t \<rparr>)
     [(1, 1, ''/a''), (2, 2, ''/b''), (3, 3, ''/c''), (4, 4, ''/d''), (5, 5, ''/e''), (6, 6, ''/f''), (7, 7, ''/g''), (8, 8, ''/h''), (9, 9, ''/i''), (10, 10, ''/j''), (11, 11, ''/k'')]"

definition demo_known :: settings_db where
  "demo_known = demo_settings\<lparr>sd_repositories := demo_rows\<rparr>"

definition demo_reopened :: repository_profile where
  "demo_reopened = \<lparr> repo_id = 99, repo_display_name = ''a'', repo_root_path = ''/a'', repo_type = RepoDirectory, repo_consent_policy = False \<rparr>"

lemma demo_keys: "map (\<lambda>r. normalize_root_key (\<lambda>_. None) (ro_root_path r)) demo_rows
    = map (\<lambda>c. [CHR 0x5C, c]) ''abcdefghijk''"
  by code_simp

lemma older_repository_is_locked_out_witness:
  "find_repo_by_root (\<lambda>_. None) ''/a'' demo_known = Inr None \<and> \<not> is_ok (save_recent_repo (\<lambda>_. None) 50 demo_reopened demo_known)"
proof -
  have rows: "sd_repositories demo_known = demo_rows" by (simp add: demo_known_def)
  have keys: "normalize_root_key (\<lambda>_. None) (ro_root_path x) = normalize_root_key (\<lambda>_. None) ''/a'' \<longrightarrow> x = hd demo_rows"
    if "x \<in> set demo_rows" for x
    using that demo_keys by (auto simp: demo_rows_def)
  show ?thesis
    by (rule older_repository_is_locked_out [where r = "hd demo_rows"], unfold rows)
      (use keys in \<open>auto simp: demo_rows_def stored_root_def demo_reopened_def\<close>)
qed

end
