(* ===== verification/Credentials.thy ===== *)
theory Credentials
  imports Profile_Store
begin

text \<open>
  API keys: the native secret store (\<open>NativeSecretStore\<close> in \<open>mentat-platform/src/lib.rs\<close>) over the
  keyring of the operating system, which is a parameter; the credential controller
  (\<open>mentat-app/src/credential_state.rs\<close>) over any secret store and the preferences table; and the
  key file of developers (\<open>mentat-app/src/local_credentials.rs\<close>).
\<close>

section \<open>The secret store\<close>

text \<open>The trait \<open>SecretStore\<close>: the store's own state is \<open>'k\<close>.\<close>

record 'k secret_store =
  ss_available :: "'k \<Rightarrow> unit result"
  ss_put :: "string \<Rightarrow> string \<Rightarrow> 'k \<Rightarrow> 'k result"
  ss_get :: "string \<Rightarrow> 'k \<Rightarrow> string option result"
  ss_delete :: "string \<Rightarrow> 'k \<Rightarrow> 'k result"

text \<open>What the keyring crate does with an entry, and its errors as far as the code tells them apart.\<close>

datatype keyring_error = NoEntry | OtherKeyringError

record 'k keyring =
  kr_status :: "'k \<Rightarrow> keyring_error + unit"
  kr_open :: "string \<Rightarrow> bool"
  kr_set :: "string \<Rightarrow> string \<Rightarrow> 'k \<Rightarrow> keyring_error + 'k"
  kr_get :: "string \<Rightarrow> 'k \<Rightarrow> keyring_error + string"
  kr_delete :: "string \<Rightarrow> 'k \<Rightarrow> keyring_error + 'k"

definition credential_ref :: "(uuid \<Rightarrow> string) \<Rightarrow> uuid \<Rightarrow> string" where
  "credential_ref uuid_text i = ''provider:'' @ uuid_text i"

definition validate_credential_ref :: "(string \<Rightarrow> bool) \<Rightarrow> string \<Rightarrow> unit result" where
  "validate_credential_ref is_uuid r =
     (if \<not> prefix ''provider:'' r then Inl (PlatformError ''SECRET_REFERENCE_INVALID'')
      else guard_err (is_uuid (drop 9 r)) (PlatformError ''SECRET_REFERENCE_INVALID''))"

definition native_entry :: "(string \<Rightarrow> bool) \<Rightarrow> 'k keyring \<Rightarrow> string \<Rightarrow> unit result" where
  "native_entry is_uuid kr r =
     then_do (validate_credential_ref is_uuid r) (\<lambda>_.
       guard_err (kr_open kr r) (PlatformError ''SECRET_ENTRY_OPEN_FAILED''))"

definition secret_length_ok :: "string \<Rightarrow> bool" where
  "secret_length_ok s \<longleftrightarrow> s \<noteq> [] \<and> length s \<le> 8 * 1024"

definition native_put :: "(string \<Rightarrow> bool) \<Rightarrow> 'k keyring \<Rightarrow> string \<Rightarrow> string \<Rightarrow> 'k \<Rightarrow> 'k result" where
  "native_put is_uuid kr r s k =
     (if \<not> secret_length_ok s then Inl (PlatformError ''SECRET_VALUE_INVALID'')
      else then_do (native_entry is_uuid kr r) (\<lambda>_.
        case kr_set kr r s k of Inl _ \<Rightarrow> Inl (PlatformError ''SECRET_STORE_WRITE_FAILED'') | Inr k' \<Rightarrow> Inr k'))"

definition native_get :: "(string \<Rightarrow> bool) \<Rightarrow> 'k keyring \<Rightarrow> string \<Rightarrow> 'k \<Rightarrow> string option result" where
  "native_get is_uuid kr r k =
     then_do (native_entry is_uuid kr r) (\<lambda>_.
       case kr_get kr r k of
         Inr s \<Rightarrow> if \<not> secret_length_ok s then Inl (PlatformError ''SECRET_VALUE_INVALID'') else Inr (Some s)
       | Inl NoEntry \<Rightarrow> Inr None
       | Inl _ \<Rightarrow> Inl (PlatformError ''SECRET_STORE_READ_FAILED''))"

definition native_delete :: "(string \<Rightarrow> bool) \<Rightarrow> 'k keyring \<Rightarrow> string \<Rightarrow> 'k \<Rightarrow> 'k result" where
  "native_delete is_uuid kr r k =
     then_do (native_entry is_uuid kr r) (\<lambda>_.
       case kr_delete kr r k of
         Inr k' \<Rightarrow> Inr k' | Inl NoEntry \<Rightarrow> Inr k | Inl _ \<Rightarrow> Inl (PlatformError ''SECRET_STORE_DELETE_FAILED''))"

definition native_available :: "'k keyring \<Rightarrow> 'k \<Rightarrow> unit result" where
  "native_available kr k =
     (case kr_status kr k of Inl _ \<Rightarrow> Inl (PlatformError ''SECRET_STORE_UNAVAILABLE'') | Inr u \<Rightarrow> Inr u)"

definition native_store :: "(string \<Rightarrow> bool) \<Rightarrow> 'k keyring \<Rightarrow> 'k secret_store" where
  "native_store is_uuid kr = \<lparr> ss_available = native_available kr, ss_put = native_put is_uuid kr,
     ss_get = native_get is_uuid kr, ss_delete = native_delete is_uuid kr \<rparr>"

text \<open>What a keyring documents: it returns what was set last, has no entry after a deletion, and an operation on
  one entry leaves the others alone.\<close>

definition keyring_laws :: "'k keyring \<Rightarrow> bool" where
  "keyring_laws kr \<longleftrightarrow>
     (\<forall>r s k k'. kr_set kr r s k = Inr k' \<longrightarrow> kr_get kr r k' = Inr s \<and> (\<forall>q. q \<noteq> r \<longrightarrow> kr_get kr q k' = kr_get kr q k))
   \<and> (\<forall>r k k'. kr_delete kr r k = Inr k' \<longrightarrow> kr_get kr r k' = Inl NoEntry \<and> (\<forall>q. q \<noteq> r \<longrightarrow> kr_get kr q k' = kr_get kr q k))
   \<and> (\<forall>r k. kr_delete kr r k = Inl NoEntry \<longrightarrow> kr_get kr r k = Inl NoEntry)"

section \<open>The credential controller\<close>

record restore_state =
  rs_remember_api_key :: bool
  rs_restored :: bool
  rs_missing :: bool

definition usable_key :: "backend_profile \<Rightarrow> string option" where
  "usable_key p = (case bp_api_key p of Some s \<Rightarrow> if is_blank s then None else Some s | None \<Rightarrow> None)"

definition persist_credential ::
  "'k secret_store \<Rightarrow> (uuid \<Rightarrow> string) \<Rightarrow> datetime \<Rightarrow> backend_profile \<Rightarrow> bool \<Rightarrow> 'k \<times> settings_db
   \<Rightarrow> ('k \<times> settings_db) \<times> unit result" where
  "persist_credential ss uuid_text now p remember st =
     (case st of (k, d) \<Rightarrow>
      let r = credential_ref uuid_text (bp_id p) in
      if \<not> requires_api_key (bp_provider p) \<or> \<not> remember then
        (case ss_delete ss r k of
           Inl e \<Rightarrow> (st, Inl e)
         | Inr k' \<Rightarrow> (case delete_provider_secret_preference (bp_id p) d of
             Inl e \<Rightarrow> ((k', d), Inl e) | Inr d' \<Rightarrow> ((k', d'), Inr ())))
      else case usable_key p of
        None \<Rightarrow> (st, Inl (PlatformError ''SECRET_VALUE_REQUIRED''))
      | Some secret \<Rightarrow>
        (case ss_available ss k of
           Inl e \<Rightarrow> (st, Inl e)
         | Inr _ \<Rightarrow>
           (case ss_put ss r secret k of
              Inl e \<Rightarrow> (st, Inl e)
            | Inr k' \<Rightarrow>
              (case save_provider_secret_preference uuid_text now
                  \<lparr> pref_profile_id = bp_id p, pref_credential_ref = r, pref_remember_api_key = True \<rparr> d of
                 Inl e \<Rightarrow> ((case ss_delete ss r k' of Inr k'' \<Rightarrow> k'' | Inl _ \<Rightarrow> k', d), Inl e)
               | Inr d' \<Rightarrow> ((k', d'), Inr ())))))"

definition restore_credential ::
  "'k secret_store \<Rightarrow> (uuid \<Rightarrow> string) \<Rightarrow> 'k \<times> settings_db \<Rightarrow> backend_profile \<Rightarrow> backend_profile \<times> restore_state result" where
  "restore_credential ss uuid_text st p =
     (case st of (k, d) \<Rightarrow>
      let p0 = p\<lparr>bp_api_key := None\<rparr>;
          nothing = \<lparr> rs_remember_api_key = False, rs_restored = False, rs_missing = False \<rparr> in
      case load_provider_secret_preference uuid_text (bp_id p) d of
        Inl e \<Rightarrow> (p0, Inl e)
      | Inr None \<Rightarrow> (p0, Inr nothing)
      | Inr (Some pref) \<Rightarrow>
        if \<not> pref_remember_api_key pref then (p0, Inr nothing)
        else (case ss_available ss k of
           Inl e \<Rightarrow> (p0, Inl e)
         | Inr _ \<Rightarrow> (case ss_get ss (pref_credential_ref pref) k of
             Inl e \<Rightarrow> (p0, Inl e)
           | Inr secret \<Rightarrow> (p0\<lparr>bp_api_key := secret\<rparr>,
               Inr \<lparr> rs_remember_api_key = True, rs_restored = (secret \<noteq> None), rs_missing = (secret = None) \<rparr>))))"

definition delete_profile_credential ::
  "'k secret_store \<Rightarrow> (uuid \<Rightarrow> string) \<Rightarrow> uuid \<Rightarrow> 'k \<times> settings_db \<Rightarrow> ('k \<times> settings_db) \<times> unit result" where
  "delete_profile_credential ss uuid_text i st =
     (case st of (k, d) \<Rightarrow>
      case ss_delete ss (credential_ref uuid_text i) k of
        Inl e \<Rightarrow> (st, Inl e)
      | Inr k' \<Rightarrow> (case delete_provider_secret_preference i d of
          Inl e \<Rightarrow> ((k', d), Inl e) | Inr d' \<Rightarrow> ((k', d'), Inr ())))"

section \<open>The key file of developers\<close>

definition trim_quotes :: "string \<Rightarrow> string" where
  "trim_quotes s =
     (let q = (\<lambda>c. c = CHR 0x22 \<or> c = CHR 0x27) in rev (dropWhile q (rev (dropWhile q s))))"

fun strip_bom :: "string \<Rightarrow> string" where
  "strip_bom (a # b # c # s) =
     (if a = CHR 0xEF \<and> b = CHR 0xBB \<and> c = CHR 0xBF then strip_bom s else a # b # c # s)"
| "strip_bom s = s"

fun has_whitespace :: "string \<Rightarrow> bool" where
  "has_whitespace [] \<longleftrightarrow> False"
| "has_whitespace (c # s) \<longleftrightarrow> ws_len (c # s) \<noteq> 0 \<or> has_whitespace s"

definition key_of_line :: "string \<Rightarrow> string option" where
  "key_of_line line =
     (if CHR ''='' \<notin> set line then None
      else let name = takeWhile (\<lambda>c. c \<noteq> CHR ''='') line; v = drop (length name + 1) line in
        if trim name \<in> {''GEMINI_API_KEY'', ''GOOGLE_API_KEY''} then Some (trim v) else None)"

abbreviation invalid_file :: mentat_error where
  "invalid_file \<equiv> PlatformError ''.env.local''"

fun find_map :: "('a \<Rightarrow> 'b option) \<Rightarrow> 'a list \<Rightarrow> 'b option" where
  "find_map f [] = None"
| "find_map f (x # xs) = (case f x of Some y \<Rightarrow> Some y | None \<Rightarrow> find_map f xs)"

definition parse_key :: "string \<Rightarrow> string option result" where
  "parse_key text =
     (let ls = filter (\<lambda>l. l \<noteq> [] \<and> hd l \<noteq> CHR ''#'') (map trim (lines (strip_bom text))) in
      if ls = [] then Inr None
      else then_do (if length ls = 1 \<and> CHR ''='' \<notin> set (hd ls) then Inr (hd ls) else ok_or (find_map key_of_line ls) invalid_file) (\<lambda>v.
        let w = trim (trim_quotes v) in
        if w = [] then Inr None else if has_whitespace w then Inl invalid_file else Inr (Some w)))"

text \<open>The file: \<open>None\<close> when it does not exist, otherwise its size, and its text when it can be read as UTF-8.\<close>

definition gemini_key :: "(nat \<times> string option) option result \<Rightarrow> string option result" where
  "gemini_key file =
     (case file of Inl e \<Rightarrow> Inl invalid_file | Inr None \<Rightarrow> Inr None
      | Inr (Some (len, content)) \<Rightarrow>
        if 8192 < len then Inl invalid_file
        else then_do (ok_or content invalid_file) parse_key)"

section \<open>Lemmas\<close>

lemma keyring_set: "keyring_laws kr \<Longrightarrow> kr_set kr r s k = Inr k' \<Longrightarrow> kr_get kr r k' = Inr s"
  by (simp add: keyring_laws_def)

lemma keyring_delete: "keyring_laws kr \<Longrightarrow> kr_delete kr r k = Inr k' \<Longrightarrow> kr_get kr r k' = Inl NoEntry"
  by (simp add: keyring_laws_def)

lemma keyring_delete_none: "keyring_laws kr \<Longrightarrow> kr_delete kr r k = Inl NoEntry \<Longrightarrow> kr_get kr r k = Inl NoEntry"
  by (simp add: keyring_laws_def)

lemma native_put_get:
  assumes "keyring_laws kr" and "native_put is_uuid kr r s k = Inr k'"
  shows "native_get is_uuid kr r k' = Inr (Some s)"
  using assms(2) keyring_set [OF assms(1)]
  by (auto simp: native_put_def native_get_def split: if_splits sum.splits)

lemma native_delete_get:
  assumes "keyring_laws kr" and "native_delete is_uuid kr r k = Inr k'"
  shows "native_get is_uuid kr r k' = Inr None"
  using assms(2) keyring_delete [OF assms(1)] keyring_delete_none [OF assms(1)]
  by (auto simp: native_delete_def native_get_def split: if_splits sum.splits keyring_error.splits)

lemma find_upsert:
  "List.find (\<lambda>x. key x = key r) (upsert key r rs) = Some r"
proof (cases "key r \<in> key ` set rs")
  case True
  then have "List.find (\<lambda>x. key x = key r) (map (\<lambda>x. if key x = key r then r else x) rs) = Some r"
    by (induction rs) auto
  then show ?thesis using True by (simp add: upsert_def)
next
  case False
  then have "List.find (\<lambda>x. key x = key r) (rs @ [r]) = Some r" by (induction rs) auto
  then show ?thesis using False by (simp add: upsert_def)
qed

lemma persist_remembered:
  assumes "persist_credential ss uuid_text now p True (k, d) = ((k', d'), Inr ())" and "requires_api_key (bp_provider p)"
  obtains s where "usable_key p = Some s" "ss_put ss (credential_ref uuid_text (bp_id p)) s k = Inr k'"
    "save_provider_secret_preference uuid_text now \<lparr> pref_profile_id = bp_id p,
       pref_credential_ref = credential_ref uuid_text (bp_id p), pref_remember_api_key = True \<rparr> d = Inr d'"
  using assms by (auto simp: persist_credential_def Let_def split: option.splits sum.splits)

lemma saved_preference_loads:
  assumes "save_provider_secret_preference uuid_text now p d = Inr d'"
  shows "load_provider_secret_preference uuid_text (pref_profile_id p) d' = Inr (Some p)"
proof -
  let ?r = "\<lparr> sr_profile = pref_profile_id p, sr_credential_ref = pref_credential_ref p,
           sr_remember = of_bool (pref_remember_api_key p), sr_updated_at = now \<rparr>"
  have v: "validate_preference uuid_text p = Inr ()" and d': "d' = d\<lparr>sd_secrets := upsert sr_profile ?r (sd_secrets d)\<rparr>"
    using assms by (auto simp: save_provider_secret_preference_def split: if_splits)
  show ?thesis
    using find_upsert [of sr_profile ?r "sd_secrets d"] v by (cases p) (simp add: load_provider_secret_preference_def d')
qed

section \<open>Properties\<close>

text \<open>A remembered key comes back from the native store and only from there: after a successful save, restoring a
  profile with this id yields exactly the key, and the preferences table does not depend on the key.\<close>

theorem remembered_key_restores:
  assumes "keyring_laws kr" and "requires_api_key (bp_provider p)" and "kr_status kr k' = Inr ()"
    and "persist_credential (native_store is_uuid kr) uuid_text now p True (k, d) = ((k', d'), Inr ())"
    and "bp_id q = bp_id p"
  shows "\<exists>s. bp_api_key p = Some s
    \<and> restore_credential (native_store is_uuid kr) uuid_text (k', d') q
      = (q\<lparr>bp_api_key := Some s\<rparr>, Inr \<lparr> rs_remember_api_key = True, rs_restored = True, rs_missing = False \<rparr>)
    \<and> (\<forall>s2 k2 k2' d2. persist_credential (native_store is_uuid kr) uuid_text now (p\<lparr>bp_api_key := s2\<rparr>) True (k2, d)
          = ((k2', d2), Inr ()) \<longrightarrow> d2 = d')"
proof -
  obtain s where s: "usable_key p = Some s" and put: "native_put is_uuid kr (credential_ref uuid_text (bp_id p)) s k = Inr k'"
    and pref: "save_provider_secret_preference uuid_text now \<lparr> pref_profile_id = bp_id p,
       pref_credential_ref = credential_ref uuid_text (bp_id p), pref_remember_api_key = True \<rparr> d = Inr d'"
    by (rule persist_remembered [OF assms(4,2)]) (rule that, simp_all add: native_store_def)
  have key: "bp_api_key p = Some s" using s by (auto simp: usable_key_def split: option.splits if_splits)
  have "restore_credential (native_store is_uuid kr) uuid_text (k', d') q
      = (q\<lparr>bp_api_key := Some s\<rparr>, Inr \<lparr> rs_remember_api_key = True, rs_restored = True, rs_missing = False \<rparr>)"
    using saved_preference_loads [OF pref] native_put_get [OF assms(1) put] assms(3,5)
    by (simp add: restore_credential_def native_store_def native_available_def)
  moreover have "d2 = d'" if same: "persist_credential (native_store is_uuid kr) uuid_text now (p\<lparr>bp_api_key := s2\<rparr>) True (k2, d)
          = ((k2', d2), Inr ())" for s2 k2 k2' d2
  proof -
    have "requires_api_key (bp_provider (p\<lparr>bp_api_key := s2\<rparr>))" using assms(2) by simp
    then have "save_provider_secret_preference uuid_text now \<lparr> pref_profile_id = bp_id p,
       pref_credential_ref = credential_ref uuid_text (bp_id p), pref_remember_api_key = True \<rparr> d = Inr d2"
      by (rule persist_remembered [OF same]) simp
    then show ?thesis using pref by simp
  qed
  ultimately show ?thesis using key by blast
qed

text \<open>Turning remembering off forgets: afterwards the native store has no entry for the profile, and restoring it yields
  no key and no preference.\<close>

theorem forgotten_key_is_gone:
  assumes "keyring_laws kr"
    and "persist_credential (native_store is_uuid kr) uuid_text now p False (k, d) = ((k', d'), Inr ())"
    and "bp_id q = bp_id p"
  shows "native_get is_uuid kr (credential_ref uuid_text (bp_id p)) k' = Inr None
    \<and> restore_credential (native_store is_uuid kr) uuid_text (k', d') q
      = (q\<lparr>bp_api_key := None\<rparr>, Inr \<lparr> rs_remember_api_key = False, rs_restored = False, rs_missing = False \<rparr>)"
proof -
  have del: "native_delete is_uuid kr (credential_ref uuid_text (bp_id p)) k = Inr k'"
    and d': "d' = d\<lparr>sd_secrets := filter (\<lambda>r. sr_profile r \<noteq> bp_id p) (sd_secrets d)\<rparr>"
    using assms(2) by (auto simp: persist_credential_def native_store_def delete_provider_secret_preference_def Let_def split: sum.splits)
  have "List.find (\<lambda>r. sr_profile r = bp_id q) (sd_secrets d') = None"
    by (simp add: d' find_None_set assms(3))
  then have "load_provider_secret_preference uuid_text (bp_id q) d' = Inr None"
    by (simp add: load_provider_secret_preference_def)
  then show ?thesis using native_delete_get [OF assms(1) del] by (simp add: restore_credential_def)
qed

section \<open>A concrete keyring\<close>

definition demo_keyring :: "(string \<Rightarrow> string option) keyring" where
  "demo_keyring = \<lparr> kr_status = (\<lambda>_. Inr ()), kr_open = (\<lambda>_. True), kr_set = (\<lambda>r s k. Inr (k(r \<mapsto> s))),
     kr_get = (\<lambda>r k. case k r of None \<Rightarrow> Inl NoEntry | Some s \<Rightarrow> Inr s),
     kr_delete = (\<lambda>r k. case k r of None \<Rightarrow> Inl NoEntry | Some _ \<Rightarrow> Inr (k(r := None))) \<rparr>"

lemma demo_keyring_laws: "keyring_laws demo_keyring"
  by (auto simp: keyring_laws_def demo_keyring_def split: option.splits)

definition demo_key_profile :: backend_profile where
  "demo_key_profile = (backend_profile_default 1)\<lparr>bp_api_key := Some ''key''\<rparr>"

lemma demo_usable: "usable_key demo_key_profile = Some ''key''" "requires_api_key (bp_provider demo_key_profile)"
  by code_simp+

lemma demo_persisted:
  "\<exists>k' d'. persist_credential (native_store (\<lambda>_. True) demo_keyring) (\<lambda>_. ''u'') 5 demo_key_profile True (Map.empty, demo_settings)
    = ((k', d'), Inr ())"
  by (simp add: persist_credential_def demo_usable native_store_def native_available_def native_put_def native_entry_def
    validate_credential_ref_def credential_ref_def demo_keyring_def save_provider_secret_preference_def validate_preference_def
    secret_length_ok_def demo_settings_def Let_def)

lemma remembered_key_restores_witness:
  "\<exists>k' d'. persist_credential (native_store (\<lambda>_. True) demo_keyring) (\<lambda>_. ''u'') 5 demo_key_profile True (Map.empty, demo_settings)
      = ((k', d'), Inr ())
    \<and> bp_api_key (fst (restore_credential (native_store (\<lambda>_. True) demo_keyring) (\<lambda>_. ''u'') (k', d') (backend_profile_default 1)))
      = Some ''key''"
proof -
  obtain k' d' where p: "persist_credential (native_store (\<lambda>_. True) demo_keyring) (\<lambda>_. ''u'') 5 demo_key_profile True (Map.empty, demo_settings)
      = ((k', d'), Inr ())" using demo_persisted by blast
  have h: "requires_api_key (bp_provider demo_key_profile)" "kr_status demo_keyring k' = Inr ()"
      "bp_id (backend_profile_default 1) = bp_id demo_key_profile" "bp_api_key demo_key_profile = Some ''key''"
    by (simp_all add: demo_key_profile_def backend_profile_default_def requires_api_key_def demo_keyring_def)
  from remembered_key_restores [OF demo_keyring_laws h(1,2) p h(3)] show ?thesis using p h(4) by auto
qed

lemma forgotten_key_is_gone_witness:
  "\<exists>k' d'. persist_credential (native_store (\<lambda>_. True) demo_keyring) (\<lambda>_. ''u'') 5 demo_key_profile False ([''provider:u'' \<mapsto> ''key''], demo_settings)
      = ((k', d'), Inr ())
    \<and> native_get (\<lambda>_. True) demo_keyring (credential_ref (\<lambda>_. ''u'') (bp_id demo_key_profile)) k' = Inr None"
proof -
  obtain k' d' where p: "persist_credential (native_store (\<lambda>_. True) demo_keyring) (\<lambda>_. ''u'') 5 demo_key_profile False ([''provider:u'' \<mapsto> ''key''], demo_settings)
      = ((k', d'), Inr ())"
    by (simp add: persist_credential_def native_store_def native_delete_def native_entry_def validate_credential_ref_def
      credential_ref_def demo_keyring_def delete_provider_secret_preference_def)
  from forgotten_key_is_gone [OF demo_keyring_laws p refl] p show ?thesis by blast
qed

end
