(* ===== verification/Provider_Setup.thy ===== *)
theory Provider_Setup
  imports Inference_Types
begin

text \<open>
  \<open>mentat-app/src/provider_setup.rs\<close>: choosing a provider and a model. The user edits a draft profile;
  models are discovered, one is verified, and only a profile that was verified exactly as it is can
  be activated. Discovery and verification run in the background, so their results come back with the
  profile they were requested for. Error texts are short glosses of the displayed ones.
\<close>

datatype setup_stage = StageDraft | StageModelsDiscovered | StageModelVerified | StageActive

record setup_state =
  st_draft :: backend_profile
  st_catalog :: model_catalog
  st_verified :: "backend_profile option"
  st_verified_caps :: "agent_capabilities option"
  st_active :: "backend_profile option"
  st_active_caps :: "agent_capabilities option"

definition setup_new :: "backend_profile \<Rightarrow> setup_state" where
  "setup_new p = \<lparr> st_draft = p, st_catalog = from_untrusted [], st_verified = None, st_verified_caps = None,
     st_active = None, st_active_caps = None \<rparr>"

definition setup_stage_of :: "setup_state \<Rightarrow> setup_stage" where
  "setup_stage_of s =
     (if st_active s = Some (st_draft s) \<and> st_verified s = Some (st_draft s) then StageActive
      else if st_verified s = Some (st_draft s) then StageModelVerified
      else if mc_models (st_catalog s) \<noteq> [] then StageModelsDiscovered
      else StageDraft)"

definition in_catalog :: "model_catalog \<Rightarrow> string \<Rightarrow> bool" where
  "in_catalog c i \<longleftrightarrow> list_ex (\<lambda>m. am_id m = i) (mc_models c)"

abbreviation unverified :: "setup_state \<Rightarrow> setup_state" where
  "unverified s \<equiv> s\<lparr>st_verified := None, st_verified_caps := None\<rparr>"

text \<open>Every operation returns the state together with its outcome.\<close>

definition accept_catalog :: "backend_profile \<Rightarrow> model_catalog \<Rightarrow> setup_state \<Rightarrow> setup_state \<times> (string + unit)" where
  "accept_catalog requested c s =
     (if requested \<noteq> st_draft s then (s, Inl ''outdated catalog'')
      else if mc_models c = [] then (s, Inl ''no model'')
      else let s1 = s\<lparr>st_catalog := c\<rparr>;
               s2 = (if in_catalog c (bp_model (st_draft s1)) then s1 else s1\<lparr>st_draft := (st_draft s1)\<lparr>bp_model := []\<rparr>\<rparr>) in
        (unverified s2, Inr ()))"

definition begin_discovery :: "setup_state \<Rightarrow> setup_state \<times> backend_profile" where
  "begin_discovery s = (unverified (s\<lparr>st_catalog := from_untrusted []\<rparr>), st_draft s)"

definition verification_request :: "setup_state \<Rightarrow> string + backend_profile" where
  "verification_request s =
     (if bp_model (st_draft s) = [] \<or> \<not> in_catalog (st_catalog s) (bp_model (st_draft s))
      then Inl ''choose a model'' else Inr (st_draft s))"

definition select_model :: "string \<Rightarrow> setup_state \<Rightarrow> setup_state \<times> (string + unit)" where
  "select_model i s =
     (if \<not> in_catalog (st_catalog s) i then (s, Inl ''unknown model'')
      else (unverified (s\<lparr>st_draft := (st_draft s)\<lparr>bp_model := i\<rparr>\<rparr>), Inr ()))"

definition accept_verification ::
  "backend_profile \<Rightarrow> model_verification \<Rightarrow> setup_state \<Rightarrow> setup_state \<times> (string + unit)" where
  "accept_verification requested v s =
     (if requested \<noteq> st_draft s then (s, Inl ''outdated verification'')
      else if \<not> in_catalog (st_catalog s) (bp_model (st_draft s)) then (s, Inl ''choose a model'')
      else if \<not> mv_compatible v then (s, Inl (mv_message v))
      else (s\<lparr>st_verified := Some requested, st_verified_caps := Some CHAT_ONLY\<rparr>, Inr ()))"

definition accept_capability_verification ::
  "backend_profile \<Rightarrow> model_verification \<Rightarrow> agent_capabilities \<Rightarrow> setup_state \<Rightarrow> setup_state \<times> (string + unit)" where
  "accept_capability_verification requested v caps s =
     (case accept_verification requested v s of
        (s1, Inl e) \<Rightarrow> (s1, Inl e)
      | (s1, Inr _) \<Rightarrow>
        if \<not> ac_chat caps then (unverified s1, Inl ''no chat capability'')
        else (s1\<lparr>st_verified_caps := Some caps\<rparr>, Inr ()))"

definition activate :: "setup_state \<Rightarrow> setup_state \<times> (string + unit)" where
  "activate s =
     (if st_verified s \<noteq> Some (st_draft s) then (s, Inl ''verify first'')
      else (s\<lparr>st_active := Some (st_draft s), st_active_caps := st_verified_caps s\<rparr>, Inr ()))"

definition connection_changed :: "backend_profile \<Rightarrow> backend_profile \<Rightarrow> bool" where
  "connection_changed p q \<longleftrightarrow> bp_provider p \<noteq> bp_provider q \<or> bp_base_url p \<noteq> bp_base_url q
     \<or> bp_api_key p \<noteq> bp_api_key q \<or> bp_timeout_secs p \<noteq> bp_timeout_secs q"

definition reconcile_edit :: "backend_profile \<Rightarrow> setup_state \<Rightarrow> setup_state" where
  "reconcile_edit previous s =
     (if connection_changed previous (st_draft s)
      then unverified (s\<lparr>st_catalog := from_untrusted [], st_draft := (st_draft s)\<lparr>bp_model := []\<rparr>\<rparr>)
      else if bp_model previous \<noteq> bp_model (st_draft s) then unverified s else s)"

text \<open>The draft is a public field: the user interface writes an edited profile and then reconciles.\<close>

definition edit_draft :: "backend_profile \<Rightarrow> setup_state \<Rightarrow> setup_state" where
  "edit_draft p s = reconcile_edit (st_draft s) (s\<lparr>st_draft := p\<rparr>)"

section \<open>Runs\<close>

datatype setup_op =
    AcceptCatalog backend_profile model_catalog
  | BeginDiscovery
  | SelectModel string
  | AcceptVerification backend_profile model_verification
  | AcceptCapabilities backend_profile model_verification agent_capabilities
  | Activate
  | EditDraft backend_profile

fun setup_step :: "setup_op \<Rightarrow> setup_state \<Rightarrow> setup_state" where
  "setup_step (AcceptCatalog p c) s = fst (accept_catalog p c s)"
| "setup_step BeginDiscovery s = fst (begin_discovery s)"
| "setup_step (SelectModel i) s = fst (select_model i s)"
| "setup_step (AcceptVerification p v) s = fst (accept_verification p v s)"
| "setup_step (AcceptCapabilities p v c) s = fst (accept_capability_verification p v c s)"
| "setup_step Activate s = fst (activate s)"
| "setup_step (EditDraft p) s = edit_draft p s"

definition run_setup :: "setup_op list \<Rightarrow> setup_state \<Rightarrow> setup_state" where
  "run_setup ops s = fold setup_step ops s"

text \<open>The verifications an operation reports: profile and capabilities.\<close>

fun reported :: "setup_op \<Rightarrow> (backend_profile \<times> agent_capabilities) set" where
  "reported (AcceptVerification p v) = (if mv_compatible v then {(p, CHAT_ONLY)} else {})"
| "reported (AcceptCapabilities p v c) = (if mv_compatible v \<and> ac_chat c then {(p, c)} else {})"
| "reported _ = {}"

text \<open>Invariant: what is verified or active was reported as verified, and the verified model is in the catalogue.\<close>

definition setup_ok :: "(backend_profile \<times> agent_capabilities) set \<Rightarrow> setup_state \<Rightarrow> bool" where
  "setup_ok R s \<longleftrightarrow>
     (case st_verified s of None \<Rightarrow> st_verified_caps s = None
      | Some p \<Rightarrow> in_catalog (st_catalog s) (bp_model p) \<and> (\<exists>c. st_verified_caps s = Some c \<and> (p, c) \<in> R))
   \<and> (case st_active s of None \<Rightarrow> st_active_caps s = None
      | Some p \<Rightarrow> \<exists>c. st_active_caps s = Some c \<and> (p, c) \<in> R)"

lemma setup_ok_mono: "R \<subseteq> R' \<Longrightarrow> setup_ok R s \<Longrightarrow> setup_ok R' s"
  by (fastforce simp: setup_ok_def split: option.splits)

lemma setup_ok_unverified:
  "setup_ok R s \<Longrightarrow> st_active s' = st_active s \<Longrightarrow> st_active_caps s' = st_active_caps s
   \<Longrightarrow> st_verified s' = None \<Longrightarrow> st_verified_caps s' = None \<Longrightarrow> setup_ok R s'"
  by (simp add: setup_ok_def split: option.splits)

lemma setup_ok_verified:
  assumes "setup_ok R s" and "in_catalog (st_catalog s) (bp_model p)" and "(p, c) \<in> R"
  shows "setup_ok R (s\<lparr>st_verified := Some p, st_verified_caps := Some c\<rparr>)"
  using assms by (simp add: setup_ok_def split: option.splits)

lemma setup_step_ok: "setup_ok R s \<Longrightarrow> setup_ok (reported x \<union> R) (setup_step x s)"
proof (induction x)
  case (AcceptCatalog p c)
  then show ?case by (simp add: accept_catalog_def Let_def setup_ok_unverified)
next
  case BeginDiscovery
  then show ?case by (simp add: begin_discovery_def setup_ok_unverified)
next
  case (SelectModel i)
  then show ?case by (simp add: select_model_def setup_ok_unverified)
next
  case (AcceptVerification p v)
  then have "setup_ok (reported (AcceptVerification p v) \<union> R) s" by (rule setup_ok_mono [rotated]) blast
  then show ?case by (auto simp: accept_verification_def intro: setup_ok_verified)
next
  case (AcceptCapabilities p v c)
  then have "setup_ok (reported (AcceptCapabilities p v c) \<union> R) s" by (rule setup_ok_mono [rotated]) blast
  then show ?case
    using setup_ok_verified [of "reported (AcceptCapabilities p v c) \<union> R" s p c]
    by (auto simp: accept_capability_verification_def accept_verification_def setup_ok_unverified)
next
  case Activate
  then show ?case by (auto simp: activate_def setup_ok_def split: option.splits)
next
  case (EditDraft p)
  then show ?case
    by (auto simp: edit_draft_def reconcile_edit_def setup_ok_unverified) (simp add: setup_ok_def split: option.splits)
qed

lemma run_setup_ok: "setup_ok R s \<Longrightarrow> setup_ok (\<Union> (reported ` set ops) \<union> R) (run_setup ops s)"
proof (induction ops arbitrary: R s)
  case (Cons x ops)
  have "setup_ok (\<Union> (reported ` set ops) \<union> (reported x \<union> R)) (run_setup ops (setup_step x s))"
    by (rule Cons.IH [OF setup_step_ok [OF Cons.prems]])
  then show ?case by (simp add: run_setup_def Un_assoc Un_left_commute)
qed (simp add: run_setup_def)

text \<open>C36: A profile is active only with a verification: after any sequence of operations the active profile is one for
  which a compatible verification was reported, exactly as it is, and its capabilities are the ones
  reported with it; and a verified model is one of the discovered models.\<close>

theorem active_profile_was_verified:
  "case st_active (run_setup ops (setup_new p)) of
     None \<Rightarrow> st_active_caps (run_setup ops (setup_new p)) = None
   | Some q \<Rightarrow> \<exists>c x. st_active_caps (run_setup ops (setup_new p)) = Some c \<and> x \<in> set ops \<and> (q, c) \<in> reported x"
proof -
  have "setup_ok (\<Union> (reported ` set ops) \<union> {}) (run_setup ops (setup_new p))"
    by (rule run_setup_ok) (simp add: setup_ok_def setup_new_def)
  then show ?thesis by (auto simp: setup_ok_def split: option.splits)
qed

text \<open>A result that comes back late changes nothing: a catalogue or a verification for another profile than the draft
  is refused and leaves the state as it is.\<close>

theorem outdated_result_is_dropped:
  assumes "p \<noteq> st_draft s"
  shows "fst (accept_catalog p c s) = s \<and> fst (accept_verification p v s) = s
    \<and> fst (accept_capability_verification p v caps s) = s
    \<and> \<not> is_ok (snd (accept_catalog p c s)) \<and> \<not> is_ok (snd (accept_capability_verification p v caps s))"
  using assms by (simp add: accept_catalog_def accept_verification_def accept_capability_verification_def)

lemma outdated_result_is_dropped_witness:
  "backend_profile_default 1 \<noteq> st_draft (setup_new (backend_profile_default 2))
    \<and> fst (accept_catalog (backend_profile_default 1) (from_untrusted []) (setup_new (backend_profile_default 2)))
      = setup_new (backend_profile_default 2)"
proof -
  have "backend_profile_default 1 \<noteq> st_draft (setup_new (backend_profile_default 2))"
    by (simp add: backend_profile_default_def setup_new_def)
  from outdated_result_is_dropped [OF this, of "from_untrusted []"] this show ?thesis by blast
qed

end
