(* ===== verification/Stream_Store.thy ===== *)
theory Stream_Store
  imports Storage_Contract
begin

text \<open>
  \<open>persist_deltas\<close> (\<open>mentat-app/src/stream_store.rs\<close>): the worker that collects the deltas of an
  answer and writes them to the database in batches, at every tick of a timer and when 4096 bytes
  have come together, and drains the buffer when the channel closes. What \<open>select!\<close> yields is a list of
  events; a list that does not end with the closing of the channel leaves the worker waiting (\<open>None\<close>).
  \<open>put_text k\<close> is the \<open>k\<close>-th write, \<open>None\<close> no database.
\<close>

datatype stream_event = Delta string | Tick | Closed

definition flush_buffer :: "(nat \<Rightarrow> string \<Rightarrow> 's \<Rightarrow> 's result) option \<Rightarrow> nat \<Rightarrow> string \<Rightarrow> 's \<Rightarrow> (nat \<times> 's) result" where
  "flush_buffer put_text k buffer s =
     (if buffer = [] then Inr (k, s)
      else case put_text of None \<Rightarrow> Inr (k, s) | Some f \<Rightarrow> then_do (f k buffer s) (\<lambda>s'. Inr (Suc k, s')))"

fun persist_deltas ::
  "(nat \<Rightarrow> string \<Rightarrow> 's \<Rightarrow> 's result) option \<Rightarrow> nat \<Rightarrow> string \<Rightarrow> stream_event list \<Rightarrow> 's \<Rightarrow> 's \<times> unit result option" where
  "persist_deltas put_text k buffer [] s = (s, None)"
| "persist_deltas put_text k buffer (Closed # es) s =
     (case flush_buffer put_text k buffer s of Inl e \<Rightarrow> (s, Some (Inl e)) | Inr (k', s') \<Rightarrow> (s', Some (Inr ())))"
| "persist_deltas put_text k buffer (Tick # es) s =
     (case flush_buffer put_text k buffer s of Inl e \<Rightarrow> (s, Some (Inl e))
      | Inr (k', s') \<Rightarrow> persist_deltas put_text k' [] es s')"
| "persist_deltas put_text k buffer (Delta d # es) s =
     (if 4096 \<le> length (buffer @ d) then
        (case flush_buffer put_text k (buffer @ d) s of Inl e \<Rightarrow> (s, Some (Inl e))
         | Inr (k', s') \<Rightarrow> persist_deltas put_text k' [] es s')
      else persist_deltas put_text k (buffer @ d) es s)"

fun delta_text :: "stream_event \<Rightarrow> string" where
  "delta_text (Delta d) = d"
| "delta_text _ = []"

section \<open>The interface to the store\<close>

locale delta_sink =
  fixes put_text :: "nat \<Rightarrow> string \<Rightarrow> 's \<Rightarrow> 's result" and shown :: "'s \<Rightarrow> string option"
  assumes put_text_shown: "shown s = Some x \<Longrightarrow> \<exists>s'. put_text k delta s = Inr s' \<and> shown s' = Some (x @ delta)"
begin

lemma flush_shown:
  assumes "shown s = Some x"
  shows "\<exists>k' s'. flush_buffer (Some put_text) k buffer s = Inr (k', s') \<and> shown s' = Some (x @ buffer)"
  using put_text_shown [OF assms, of k buffer] assms by (auto simp: flush_buffer_def)

lemma drained:
  assumes "shown s = Some x" and "Closed \<notin> set es"
  shows "\<exists>s'. persist_deltas (Some put_text) k buffer (es @ Closed # rest) s = (s', Some (Inr ()))
    \<and> shown s' = Some (x @ buffer @ concat (map delta_text es))"
  using assms
proof (induction es arbitrary: s x k buffer)
  case Nil
  then show ?case using flush_shown [OF Nil(1), of k buffer] by auto
next
  case (Cons e es)
  have flushed: "\<exists>s'. (case flush_buffer (Some put_text) k b s of Inl e \<Rightarrow> (s, Some (Inl e))
      | Inr (k', s') \<Rightarrow> persist_deltas (Some put_text) k' [] (es @ Closed # rest) s') = (s', Some (Inr ()))
      \<and> shown s' = Some (x @ b @ concat (map delta_text es))" for b
  proof -
    obtain k' s' where "flush_buffer (Some put_text) k b s = Inr (k', s')" "shown s' = Some (x @ b)"
      using flush_shown [OF Cons.prems(1)] by blast
    then show ?thesis using Cons.IH [of s' "x @ b" k' "[]"] Cons.prems(2) by simp
  qed
  show ?case
  proof (cases e)
    case (Delta d)
    then show ?thesis
      using flushed [of "buffer @ d"] Cons.IH [OF Cons.prems(1), of k "buffer @ d"] Cons.prems(2) by simp
  next
    case Tick
    then show ?thesis using flushed [of buffer] by simp
  qed (use Cons.prems in simp)
qed

end

section \<open>The database as a sink\<close>

definition open_answer_row :: "uuid \<Rightarrow> message_row \<Rightarrow> bool" where
  "open_answer_row i m \<longleftrightarrow> mr_id m = i \<and> mr_role m = ''Assistant'' \<and> open_status (mr_status m)"

definition open_text :: "uuid \<Rightarrow> db \<Rightarrow> string option" where
  "open_text i d =
     (if distinct (map mr_id (db_messages d)) then map_option mr_markdown (List.find (open_answer_row i) (db_messages d)) else None)"

lemma find_update:
  assumes "List.find p rs = Some m" and "p (f m)"
  shows "List.find p (map (\<lambda>r. if p r then f r else r) rs) = Some (f m)"
  using assms by (induction rs) (auto split: if_splits)

lemma singleton_list: "distinct xs \<Longrightarrow> set xs = {x} \<Longrightarrow> xs = [x]"
  by (cases xs; cases "tl xs") auto

lemma append_open_text:
  assumes "open_text i d = Some x"
  shows "\<exists>d'. append_assistant_delta now i delta d = Inr d' \<and> open_text i d' = Some (x @ delta)"
proof -
  let ?p = "\<lambda>m. mr_id m = i \<and> mr_role m = ''Assistant'' \<and> open_status (mr_status m)"
  let ?f = "\<lambda>m. m\<lparr>mr_markdown := mr_markdown m @ delta, mr_status := ''Streaming'', mr_updated_at := now\<rparr>"
  have p: "open_answer_row i = ?p" by (rule ext) (simp add: open_answer_row_def)
  have dist: "distinct (map mr_id (db_messages d))" using assms by (simp add: open_text_def split: if_splits)
  then obtain m where m: "List.find ?p (db_messages d) = Some m" "x = mr_markdown m"
    using assms unfolding open_text_def p by auto
  have mem: "m \<in> set (db_messages d)" "?p m" using find_Some_set [OF m(1)] by auto
  have "count_where ?p (db_messages d) = 1"
    unfolding count_where_one
  proof
    have "set (filter ?p (db_messages d)) \<subseteq> {m}"
    proof (rule subsetI)
      fix y assume "y \<in> set (filter ?p (db_messages d))"
      then have "y = m" using mem by (intro distinct_key_unique [OF dist]) simp_all
      then show "y \<in> {m}" by simp
    qed
    moreover have "{m} \<subseteq> set (filter ?p (db_messages d))" using mem by simp
    ultimately have "set (filter ?p (db_messages d)) = {m}" by (rule equalityI)
    moreover have "distinct (filter ?p (db_messages d))" using dist by (simp only: distinct_map distinct_filter simp_thms)
    ultimately show "filter ?p (db_messages d) = [m]" by (rule singleton_list [rotated])
  qed
  then have "append_assistant_delta now i delta d = Inr (d\<lparr>db_messages := update_where ?p ?f (db_messages d)\<rparr>)"
    unfolding delta_Inr by blast
  moreover have "List.find ?p (update_where ?p ?f (db_messages d)) = Some (?f m)"
    unfolding update_where_def by (rule find_update [OF m(1)]) (use mem in \<open>simp add: open_status_def\<close>)
  moreover have "map mr_id (update_where ?p ?f (db_messages d)) = map mr_id (db_messages d)" by simp
  ultimately show ?thesis using dist m(2) by (simp add: open_text_def p)
qed

interpretation answer_sink: delta_sink "\<lambda>k. append_assistant_delta (clock k) i" "open_text i" for clock i
  by unfold_locales (rule append_open_text)

text \<open>C35: Nothing of a streamed answer is lost or reordered: whatever the timing of the ticks and the sizes of the deltas,
  when the channel closes the worker has returned without an error and the answer in the database is
  its text before, followed by all deltas in order.\<close>

theorem streamed_text_is_stored:
  assumes "reachable d" and "m \<in> set (db_messages d)" and "mr_role m = ''Assistant''" and "open_status (mr_status m)"
    and "Closed \<notin> set es"
  shows "\<exists>d'. persist_deltas (Some (\<lambda>k. append_assistant_delta (clock k) (mr_id m))) 0 [] (es @ [Closed]) d = (d', Some (Inr ()))
    \<and> open_text (mr_id m) d' = Some (mr_markdown m @ concat (map delta_text es))"
proof -
  have dist: "distinct (map mr_id (db_messages d))" using structure_keys(2) reachable_ok [OF assms(1)] by blast
  have "List.find (open_answer_row (mr_id m)) (db_messages d) = Some m"
  proof (cases "List.find (open_answer_row (mr_id m)) (db_messages d)")
    case None
    then show ?thesis using assms(2-4) by (auto simp: find_None_set open_answer_row_def)
  next
    case (Some y)
    then have "y \<in> set (db_messages d)" "mr_id y = mr_id m" using find_Some_set [OF Some] by (simp_all add: open_answer_row_def)
    then show ?thesis using distinct_key_unique [OF dist _ assms(2)] Some by simp
  qed
  then have "open_text (mr_id m) d = Some (mr_markdown m)" using dist by (simp add: open_text_def)
  from answer_sink.drained [OF this assms(5), of clock 0 "[]" "[]"] show ?thesis by simp
qed

lemma streamed_text_is_stored_witness:
  "reachable demo_db \<and> (\<exists>m \<in> set (db_messages demo_db). mr_id m = 4 \<and> (\<exists>d'.
     persist_deltas (Some (\<lambda>k. append_assistant_delta 13 4)) 0 [] ([Delta ''sw'', Tick, Delta ''er''] @ [Closed]) demo_db = (d', Some (Inr ()))
     \<and> open_text 4 d' = Some (mr_markdown m @ ''swer'')))"
proof -
  obtain d' where "append_assistant_delta 13 4 ''swer'' demo_db = Inr d'" using demo_delta_ok unfolding is_ok_iff by auto
  then obtain m where "filter (\<lambda>m. mr_id m = 4 \<and> mr_role m = ''Assistant'' \<and> open_status (mr_status m)) (db_messages demo_db) = [m]"
    unfolding delta_Inr count_where_one by (elim conjE exE)
  then have "m \<in> set (filter (\<lambda>m. mr_id m = 4 \<and> mr_role m = ''Assistant'' \<and> open_status (mr_status m)) (db_messages demo_db))" by simp
  then have m: "m \<in> set (db_messages demo_db)" "mr_id m = 4" "mr_role m = ''Assistant''" "open_status (mr_status m)" by simp_all
  have "Closed \<notin> set [Delta ''sw'', Tick, Delta ''er'']" by simp
  from streamed_text_is_stored [OF demo_reachable m(1,3,4) this, of "\<lambda>_. 13"] show ?thesis
    using m(1,2) demo_reachable by auto
qed

end
