(* ===== verification/Agent_Wire.thy ===== *)
theory Agent_Wire
  imports Repository_Tools Inference_Types
begin

text \<open>
  \<open>mentat-inference-openai/src/agent_wire.rs\<close>: the JSON bodies of an agent round for the OpenAI and
  Gemini protocols, and the decoding of a provider's tool call into a repository tool call.

  A \<open>serde_json::Map\<close> is an association list read by its first entry; its keys here are distinct, and
  their order is a matter of the JSON printer, which is a parameter with the other codecs (the JSON
  text of a value and of a tool result, the text of a uuid and its parser).
\<close>

section \<open>Reading JSON values\<close>

fun as_str :: "json \<Rightarrow> string option" where
  "as_str (JStr s) = Some s"
| "as_str _ = None"

fun as_u64 :: "json \<Rightarrow> nat option" where
  "as_u64 (JInt i) = (if 0 \<le> i \<and> i < 2 ^ 64 then Some (nat i) else None)"
| "as_u64 _ = None"

fun as_bool :: "json \<Rightarrow> bool option" where
  "as_bool (JBool b) = Some b"
| "as_bool _ = None"

fun as_array :: "json \<Rightarrow> json list option" where
  "as_array (JArr xs) = Some xs"
| "as_array _ = None"

fun as_object :: "json \<Rightarrow> (string \<times> json) list option" where
  "as_object (JObj kvs) = Some kvs"
| "as_object _ = None"

text \<open>\<open>Value::get\<close> with a key.\<close>

fun jget :: "string \<Rightarrow> json \<Rightarrow> json option" where
  "jget k (JObj kvs) = map_of kvs k"
| "jget k _ = None"

text \<open>\<open>Value::get\<close> with an index.\<close>

fun jindex :: "nat \<Rightarrow> json \<Rightarrow> json option" where
  "jindex i (JArr xs) = (if i < length xs then Some (xs ! i) else None)"
| "jindex i _ = None"

text \<open>\<open>Value::pointer\<close>, its tokens already split: a token is a key of an object or an index of an array.\<close>

definition parse_index :: "string \<Rightarrow> nat option" where
  "parse_index t = (if prefix ''+'' t \<or> prefix ''0'' t \<and> length t \<noteq> 1 then None else parse_usize t)"

fun jstep :: "string \<Rightarrow> json \<Rightarrow> json option" where
  "jstep t (JObj kvs) = map_of kvs t"
| "jstep t (JArr xs) = (case parse_index t of Some i \<Rightarrow> if i < length xs then Some (xs ! i) else None | None \<Rightarrow> None)"
| "jstep t _ = None"

fun jpointer :: "string list \<Rightarrow> json \<Rightarrow> json option" where
  "jpointer [] v = Some v"
| "jpointer (t # ts) v = Option.bind (jstep t v) (jpointer ts)"

abbreviation pointer_str :: "string list \<Rightarrow> json \<Rightarrow> string option" where
  "pointer_str ts v \<equiv> Option.bind (jpointer ts v) as_str"

abbreviation get_str :: "string \<Rightarrow> json \<Rightarrow> string option" where
  "get_str k v \<equiv> Option.bind (jget k v) as_str"

section \<open>Decoding a tool call\<close>

abbreviation wire_error :: "string \<Rightarrow> mentat_error" where
  "wire_error code \<equiv> BackendError code"

definition required_string :: "(string \<times> json) list \<Rightarrow> string \<Rightarrow> string result" where
  "required_string obj k =
     then_do (ok_or (Option.bind (map_of obj k) as_str) (wire_error ''AGENT_TOOL_SCHEMA_INVALID'')) (\<lambda>v.
       if is_blank v \<or> length v > 1024 then Inl (wire_error ''AGENT_TOOL_SCHEMA_INVALID'') else Inr v)"

definition optional_string :: "(string \<times> json) list \<Rightarrow> string \<Rightarrow> string option result" where
  "optional_string obj k =
     (case map_of obj k of
        None \<Rightarrow> Inr None
      | Some JNull \<Rightarrow> Inr None
      | Some (JStr v) \<Rightarrow> if length v \<le> 1024 then Inr (Some v) else Inl (wire_error ''AGENT_TOOL_SCHEMA_INVALID'')
      | Some _ \<Rightarrow> Inl (wire_error ''AGENT_TOOL_SCHEMA_INVALID''))"

definition bounded_u64 :: "(string \<times> json) list \<Rightarrow> string \<Rightarrow> nat \<Rightarrow> nat \<Rightarrow> nat result" where
  "bounded_u64 obj k lo hi =
     then_do (ok_or (Option.bind (map_of obj k) as_u64) (wire_error ''AGENT_TOOL_SCHEMA_INVALID'')) (\<lambda>v.
       if lo \<le> v \<and> v \<le> hi then Inr v else Inl (wire_error ''AGENT_TOOL_SCHEMA_INVALID''))"

text \<open>The arguments of each tool; \<open>as u8\<close> and \<open>as u16\<close> keep the low bits.\<close>

fun parse_tool_arguments :: "repository_tool_name \<Rightarrow> (string \<times> json) list \<Rightarrow> repository_tool_arguments result" where
  "parse_tool_arguments RepoStatus obj = Inr ArgRepoStatus"
| "parse_tool_arguments ListTree obj =
     then_do (optional_string obj ''relative_path'') (\<lambda>p.
     then_do (bounded_u64 obj ''depth'' 1 4) (\<lambda>depth.
     then_do (bounded_u64 obj ''limit'' 1 500) (\<lambda>limit. Inr (ArgListTree p (of_nat depth) (of_nat limit)))))"
| "parse_tool_arguments SearchPaths obj =
     then_do (required_string obj ''query'') (\<lambda>q.
     then_do (bounded_u64 obj ''limit'' 1 100) (\<lambda>limit. Inr (ArgSearchPaths q (of_nat limit))))"
| "parse_tool_arguments SearchText obj =
     then_do (required_string obj ''query'') (\<lambda>q.
     then_do (optional_string obj ''path_filter'') (\<lambda>f.
     then_do (bounded_u64 obj ''limit'' 1 100) (\<lambda>limit. Inr (ArgSearchText q f (of_nat limit)))))"
| "parse_tool_arguments ReadFileLines obj =
     then_do (required_string obj ''relative_path'') (\<lambda>p.
     then_do (bounded_u64 obj ''start_line'' 1 (2 ^ 32 - 1)) (\<lambda>a.
     then_do (bounded_u64 obj ''end_line'' 1 (2 ^ 32 - 1)) (\<lambda>b. Inr (ArgReadFileLines p a b))))"
| "parse_tool_arguments FileMetadata obj =
     then_do (required_string obj ''relative_path'') (\<lambda>p. Inr (ArgFileMetadata p))"

definition parse_repository_tool_call ::
  "(string \<Rightarrow> uuid option) \<Rightarrow> uuid \<Rightarrow> string \<Rightarrow> json \<Rightarrow> string option \<Rightarrow> uuid \<Rightarrow> repository_tool_call result" where
  "parse_repository_tool_call parse_uuid fresh name args id_text snapshot =
     then_do (ok_or (List.find (\<lambda>n. wire_name n = name) all_tool_names) (wire_error ''AGENT_TOOL_NAME_INVALID'')) (\<lambda>n.
     then_do (ok_or (as_object args) (wire_error ''AGENT_TOOL_SCHEMA_INVALID'')) (\<lambda>obj.
     then_do (parse_tool_arguments n obj) (\<lambda>a.
       Inr \<lparr> call_id = (case Option.bind id_text parse_uuid of Some i \<Rightarrow> i | None \<Rightarrow> fresh),
             call_snapshot_id = snapshot, call_name = n, call_arguments = a \<rparr>)))"

section \<open>Encoding a tool call\<close>

fun json_of_option :: "string option \<Rightarrow> json" where
  "json_of_option None = JNull"
| "json_of_option (Some s) = JStr s"

abbreviation json_word :: "'l::len word \<Rightarrow> json" where
  "json_word w \<equiv> JInt (int (unat w))"

fun arguments_value :: "repository_tool_arguments \<Rightarrow> json" where
  "arguments_value ArgRepoStatus = JObj []"
| "arguments_value (ArgListTree p depth limit) = JObj [(''relative_path'', json_of_option (map_option to_slashes p)),
     (''depth'', json_word depth), (''limit'', json_word limit)]"
| "arguments_value (ArgSearchPaths q limit) = JObj [(''query'', JStr q), (''limit'', json_word limit)]"
| "arguments_value (ArgSearchText q f limit) =
     JObj [(''query'', JStr q), (''path_filter'', json_of_option f), (''limit'', json_word limit)]"
| "arguments_value (ArgReadFileLines p a b) =
     JObj [(''relative_path'', JStr (to_slashes p)), (''start_line'', JInt (int a)), (''end_line'', JInt (int b))]"
| "arguments_value (ArgFileMetadata p) = JObj [(''relative_path'', JStr (to_slashes p))]"


section \<open>The request bodies\<close>

record wire_codec =
  wc_text :: "json \<Rightarrow> string option"
  wc_result_text :: "repository_tool_result \<Rightarrow> string option"
  wc_result_value :: "repository_tool_result \<Rightarrow> json option"
  wc_uuid :: "uuid \<Rightarrow> string"

definition request_has_tool_results :: "agent_request \<Rightarrow> bool" where
  "request_has_tool_results req \<longleftrightarrow> list_ex is_tool_result (ar_messages req)"

abbreviation encode_failed :: mentat_error where
  "encode_failed \<equiv> wire_error ''AGENT_TOOL_ENCODE_FAILED''"

definition openai_call :: "wire_codec \<Rightarrow> repository_tool_call \<Rightarrow> json result" where
  "openai_call w c =
     then_do (ok_or (wc_text w (arguments_value (call_arguments c))) encode_failed) (\<lambda>args.
       Inr (JObj [(''id'', JStr (wc_uuid w (call_id c))), (''type'', JStr ''function''),
         (''function'', JObj [(''name'', JStr (wire_name (call_name c))), (''arguments'', JStr args)])]))"

definition openai_message :: "wire_codec \<Rightarrow> agent_message \<Rightarrow> json result" where
  "openai_message w m =
     (case (am_role m, am_content m) of
        (AgUser, MText t) \<Rightarrow> Inr (JObj [(''role'', JStr ''user''), (''content'', JStr t)])
      | (AgAssistant, MText t) \<Rightarrow> Inr (JObj [(''role'', JStr ''assistant''), (''content'', JStr t)])
      | (AgAssistant, MToolCalls calls) \<Rightarrow>
          then_do (collect_results (openai_call w) calls) (\<lambda>cs.
            Inr (JObj [(''role'', JStr ''assistant''), (''tool_calls'', JArr cs)]))
      | (AgTool, MToolResult r) \<Rightarrow>
          then_do (ok_or (wc_result_text w r) encode_failed) (\<lambda>t.
            Inr (JObj [(''role'', JStr ''tool''), (''tool_call_id'', JStr (wc_uuid w (res_call_id r))), (''content'', JStr t)]))
      | _ \<Rightarrow> Inl (wire_error ''AGENT_MESSAGE_ROLE_INVALID''))"

definition openai_tool :: "tool_definition \<Rightarrow> json" where
  "openai_tool d = JObj [(''type'', JStr ''function''), (''function'', JObj [(''name'', JStr (td_name d)),
     (''description'', JStr (td_description d)), (''parameters'', td_input_schema d)])]"

definition openai_body :: "wire_codec \<Rightarrow> agent_request \<Rightarrow> json result" where
  "openai_body w req =
     then_do (collect_results (openai_message w) (ar_messages req)) (\<lambda>ms.
       Inr (JObj ([(''model'', JStr (bp_model (ar_profile req))), (''stream'', JBool True),
           (''messages'', JArr (JObj [(''role'', JStr ''system''), (''content'', JStr (ar_system_prompt req))] # ms))]
         @ (if ar_tools req \<noteq> []
            then [(''tools'', JArr (map openai_tool (ar_tools req))), (''tool_choice'', JStr ''auto'')] else []))))"

text \<open>
  Gemini names the function in its response, so the calls made so far are kept with their names, and
  with the provider's own call id where its part carried one.
\<close>

record gemini_calls =
  gc_names :: "uuid \<rightharpoonup> string"
  gc_native :: "uuid \<rightharpoonup> string"

definition gemini_note_call :: "repository_tool_call \<Rightarrow> gemini_calls \<Rightarrow> gemini_calls" where
  "gemini_note_call c g = g\<lparr>gc_names := (gc_names g)(call_id c \<mapsto> wire_name (call_name c))\<rparr>"

fun gemini_note_parts :: "(repository_tool_call \<times> json) list \<Rightarrow> gemini_calls \<Rightarrow> gemini_calls result" where
  "gemini_note_parts [] g = Inr g"
| "gemini_note_parts ((c, part) # cps) g =
     (if pointer_str [''functionCall'', ''name''] part \<noteq> Some (wire_name (call_name c))
      then Inl (wire_error ''PROVIDER_CONTINUATION_INVALID'')
      else let g1 = gemini_note_call c g in
        gemini_note_parts cps
          (case pointer_str [''functionCall'', ''id''] part of
             Some i \<Rightarrow> g1\<lparr>gc_native := (gc_native g1)(call_id c \<mapsto> i)\<rparr> | None \<Rightarrow> g1))"

definition gemini_call :: "repository_tool_call \<Rightarrow> json" where
  "gemini_call c = JObj [(''functionCall'', JObj [(''name'', JStr (wire_name (call_name c))),
     (''args'', arguments_value (call_arguments c))])]"

definition gemini_turn :: "string \<Rightarrow> json list \<Rightarrow> json" where
  "gemini_turn who parts = JObj [(''role'', JStr who), (''parts'', JArr parts)]"

definition gemini_result_part :: "gemini_calls \<Rightarrow> uuid \<Rightarrow> string \<Rightarrow> json \<Rightarrow> json" where
  "gemini_result_part g i name response = JObj [(''functionResponse'', JObj ([(''name'', JStr name), (''response'', response)]
     @ (case gc_native g i of Some n \<Rightarrow> [(''id'', JStr n)] | None \<Rightarrow> [])))]"

text \<open>One message: the turn it becomes and the calls known afterwards.\<close>

definition gemini_message :: "wire_codec \<Rightarrow> gemini_calls \<Rightarrow> agent_message \<Rightarrow> (json \<times> gemini_calls) result" where
  "gemini_message w g m =
     (case (am_role m, am_content m) of
        (AgUser, MText t) \<Rightarrow> Inr (gemini_turn ''user'' [JObj [(''text'', JStr t)]], g)
      | (AgAssistant, MText t) \<Rightarrow> Inr (gemini_turn ''model'' [JObj [(''text'', JStr t)]], g)
      | (AgAssistant, MToolCalls calls) \<Rightarrow>
          (case am_provider_parts m of
             Some parts \<Rightarrow>
               if length parts \<noteq> length calls then Inl (wire_error ''PROVIDER_CONTINUATION_INVALID'')
               else then_do (gemini_note_parts (zip calls parts) g) (\<lambda>g'. Inr (gemini_turn ''model'' parts, g'))
           | None \<Rightarrow> Inr (gemini_turn ''model'' (map gemini_call calls), foldl (\<lambda>g c. gemini_note_call c g) g calls))
      | (AgTool, MToolResult r) \<Rightarrow>
          then_do (ok_or (gc_names g (res_call_id r)) (wire_error ''AGENT_TOOL_CALL_MISSING'')) (\<lambda>name.
          then_do (ok_or (wc_result_value w r) encode_failed) (\<lambda>response.
            Inr (gemini_turn ''user'' [gemini_result_part g (res_call_id r) name response], g)))
      | _ \<Rightarrow> Inl (wire_error ''AGENT_MESSAGE_ROLE_INVALID''))"

fun gemini_messages :: "wire_codec \<Rightarrow> gemini_calls \<Rightarrow> agent_message list \<Rightarrow> json list result" where
  "gemini_messages w g [] = Inr []"
| "gemini_messages w g (m # ms) =
     then_do (gemini_message w g m) (\<lambda>(turn, g').
     then_do (gemini_messages w g' ms) (\<lambda>turns. Inr (turn # turns)))"

definition gemini_tool :: "tool_definition \<Rightarrow> json" where
  "gemini_tool d = JObj [(''name'', JStr (td_name d)), (''description'', JStr (td_description d)),
     (''parametersJsonSchema'', td_input_schema d)]"

definition gemini_body :: "wire_codec \<Rightarrow> agent_request \<Rightarrow> json result" where
  "gemini_body w req =
     then_do (gemini_messages w \<lparr> gc_names = Map.empty, gc_native = Map.empty \<rparr> (ar_messages req)) (\<lambda>contents.
       Inr (JObj ([(''system_instruction'', JObj [(''parts'', JArr [JObj [(''text'', JStr (ar_system_prompt req))]])]),
           (''contents'', JArr contents),
           (''generationConfig'', JObj [(''temperature'', JFloat ''0.2''), (''maxOutputTokens'', JInt 4096)])]
         @ (if ar_tools req \<noteq> []
            then [(''tools'', JArr [JObj [(''functionDeclarations'', JArr (map gemini_tool (ar_tools req)))]])] else []))))"

section \<open>Lemmas\<close>

text \<open>What a call must satisfy to be accepted from the wire.\<close>

definition wire_text_ok :: "string \<Rightarrow> bool" where
  "wire_text_ok s \<longleftrightarrow> \<not> is_blank s \<and> length s \<le> 1024"

fun wire_bounded :: "repository_tool_arguments \<Rightarrow> bool" where
  "wire_bounded ArgRepoStatus = True"
| "wire_bounded (ArgListTree p depth limit) \<longleftrightarrow> (\<forall>s \<in> set_option p. length s \<le> 1024)
     \<and> 1 \<le> unat depth \<and> unat depth \<le> 4 \<and> 1 \<le> unat limit \<and> unat limit \<le> 500"
| "wire_bounded (ArgSearchPaths q limit) \<longleftrightarrow> wire_text_ok q \<and> 1 \<le> unat limit \<and> unat limit \<le> 100"
| "wire_bounded (ArgSearchText q f limit) \<longleftrightarrow> wire_text_ok q \<and> (\<forall>s \<in> set_option f. length s \<le> 1024)
     \<and> 1 \<le> unat limit \<and> unat limit \<le> 100"
| "wire_bounded (ArgReadFileLines p a b) \<longleftrightarrow> wire_text_ok p \<and> 1 \<le> a \<and> a < 2 ^ 32 \<and> 1 \<le> b \<and> b < 2 ^ 32"
| "wire_bounded (ArgFileMetadata p) \<longleftrightarrow> wire_text_ok p"

fun argument_paths :: "repository_tool_arguments \<Rightarrow> string set" where
  "argument_paths (ArgListTree p depth limit) = set_option p"
| "argument_paths (ArgReadFileLines p a b) = {p}"
| "argument_paths (ArgFileMetadata p) = {p}"
| "argument_paths _ = {}"

text \<open>Writing a path with slashes changes neither its length nor whether it is blank.\<close>

lemma to_slashes_simps [simp]:
  "to_slashes [] = []" "to_slashes (c # s) = (if c = CHR 0x5C then CHR ''/'' else c) # to_slashes s"
  "length (to_slashes s) = length s" "drop n (to_slashes s) = to_slashes (drop n s)" "take n (to_slashes s) = to_slashes (take n s)"
  by (simp_all add: to_slashes_def replace_char_def drop_map take_map)

lemma slash_unlike [simp]:
  "is_ascii_ws (CHR 0x5C) = False" "is_ascii_ws (CHR ''/'') = False"
  by code_simp+

lemma ws_len_to_slashes [simp]: "ws_len (to_slashes s) = ws_len s"
proof (cases s)
  case (Cons a s1)
  show ?thesis
  proof (cases s1)
    case Nil
    then show ?thesis by (simp add: Cons)
  next
    case (Cons b s2)
    note s1 = this
    show ?thesis
    proof (cases s2)
      case Nil
      then show ?thesis by (simp add: \<open>s = a # s1\<close> s1)
    next
      case (Cons c s3)
      have "byte_of (CHR 0x5C) = 0x5C" "byte_of (CHR ''/'') = 0x2F" by code_simp+
      then show ?thesis by (simp add: \<open>s = a # s1\<close> s1 Cons) auto
    qed
  qed
qed simp

lemma trim_start_to_slashes: "trim_start (to_slashes s) = to_slashes (trim_start s)"
proof (induction s rule: trim_start.induct)
  case (1 s)
  then show ?case by (cases "ws_len s = 0") (simp_all add: trim_start.simps [of s] trim_start.simps [of "to_slashes s"])
qed

lemma ws_len_end_to_slashes [simp]: "ws_len_end (to_slashes s) = ws_len_end s"
  unfolding ws_len_end_def to_slashes_simps ws_len_to_slashes ..

lemma trim_end_to_slashes: "trim_end (to_slashes s) = to_slashes (trim_end s)"
proof (induction s rule: trim_end.induct)
  case (1 s)
  then show ?case by (cases "ws_len_end s = 0") (simp_all add: trim_end.simps [of s] trim_end.simps [of "to_slashes s"])
qed

lemma is_blank_to_slashes [simp]: "is_blank (to_slashes s) = is_blank s"
  by (simp add: is_blank_def trim_def trim_start_to_slashes trim_end_to_slashes) (cases "trim_end (trim_start s)"; simp)

lemma to_slashes_plain: "CHR 0x5C \<notin> set s \<Longrightarrow> to_slashes s = s"
  by (induction s) auto

text \<open>The arguments with their paths written with slashes, as the encoder sends them.\<close>

fun slashed :: "repository_tool_arguments \<Rightarrow> repository_tool_arguments" where
  "slashed (ArgListTree p depth limit) = ArgListTree (map_option to_slashes p) depth limit"
| "slashed (ArgReadFileLines p a b) = ArgReadFileLines (to_slashes p) a b"
| "slashed (ArgFileMetadata p) = ArgFileMetadata (to_slashes p)"
| "slashed a = a"

lemma to_slashes_clean [simp]: "CHR 0x5C \<notin> set (to_slashes s)"
  by (induction s) auto

lemma to_slashes_twice [simp]: "to_slashes (to_slashes s) = to_slashes s"
  by (rule to_slashes_plain) simp

lemma slashed_facts:
  "shape_matches n (slashed a) = shape_matches n a" "wire_bounded (slashed a) = wire_bounded a"
  "arguments_value (slashed a) = arguments_value a" "\<forall>p \<in> argument_paths (slashed a). CHR 0x5C \<notin> set p"
  by (cases n; cases a; simp add: wire_text_ok_def option.set_map)
    (cases a; simp add: wire_text_ok_def option.set_map option.map_comp comp_def)+

lemma slashed_plain: "\<forall>p \<in> argument_paths a. CHR 0x5C \<notin> set p \<Longrightarrow> slashed a = a"
  by (cases a) (auto simp: to_slashes_plain intro: option.map_ident_strong)

lemma required_string_Inr: "required_string obj k = Inr s \<longleftrightarrow> map_of obj k = Some (JStr s) \<and> wire_text_ok s"
proof (cases "map_of obj k")
  case (Some v)
  then show ?thesis by (cases v) (auto simp: required_string_def wire_text_ok_def)
qed (simp add: required_string_def)

lemma optional_string_Inr:
  "optional_string obj k = Inr p \<longleftrightarrow> (case p of None \<Rightarrow> map_of obj k \<in> {None, Some JNull}
     | Some s \<Rightarrow> map_of obj k = Some (JStr s) \<and> length s \<le> 1024)"
  by (auto simp: optional_string_def split: option.splits json.splits if_splits)

lemma bounded_u64_Inr:
  "bounded_u64 obj k lo hi = Inr n \<longleftrightarrow> map_of obj k = Some (JInt (int n)) \<and> n < 2 ^ 64 \<and> lo \<le> n \<and> n \<le> hi"
proof (cases "map_of obj k")
  case (Some v)
  then show ?thesis by (cases v) (auto simp: bounded_u64_def nat_less_iff)
qed (simp add: bounded_u64_def)

lemmas wire_field_Inr = required_string_Inr optional_string_Inr bounded_u64_Inr

lemma optional_length: "optional_string obj k = Inr p \<Longrightarrow> \<forall>s \<in> set_option p. length s \<le> 1024"
  by (auto simp: optional_string_Inr split: option.splits)

lemma bounded_as_word:
  assumes "bounded_u64 obj k lo hi = Inr n" and "hi < 2 ^ LENGTH('l)"
  shows "lo \<le> unat (of_nat n :: 'l::len word) \<and> unat (of_nat n :: 'l::len word) \<le> hi"
  using assms by (simp add: bounded_u64_Inr unat_of_nat)

lemma parsed_arguments:
  assumes "parse_tool_arguments n obj = Inr a"
  shows "shape_matches n a \<and> wire_bounded a"
proof (cases n)
  case ListTree
  then show ?thesis using assms optional_length [of obj]
    bounded_as_word [of obj "''depth''" 1 4, where 'l = 8] bounded_as_word [of obj "''limit''" 1 500, where 'l = 16]
    by auto
next
  case SearchPaths
  then show ?thesis using assms bounded_as_word [of obj "''limit''" 1 100, where 'l = 16]
    by (auto simp: required_string_Inr)
next
  case SearchText
  then show ?thesis using assms optional_length [of obj] bounded_as_word [of obj "''limit''" 1 100, where 'l = 16]
    by (auto simp: required_string_Inr)
next
  case ReadFileLines
  then show ?thesis using assms by (auto simp: required_string_Inr bounded_u64_Inr)
qed (use assms in \<open>auto simp: required_string_Inr\<close>)

text \<open>Reading back what the encoder wrote.\<close>

lemma read_option: "map_of obj k = Some (json_of_option p) \<Longrightarrow> \<forall>s \<in> set_option p. length s \<le> 1024
    \<Longrightarrow> optional_string obj k = Inr p"
  by (cases p) (auto simp: optional_string_def)

lemma read_word: "map_of obj k = Some (json_word w) \<Longrightarrow> lo \<le> unat w \<Longrightarrow> unat w \<le> hi \<Longrightarrow> hi < 2 ^ 64
    \<Longrightarrow> bounded_u64 obj k lo hi = Inr (unat w)"
  unfolding bounded_u64_Inr by simp

lemma read_nat: "map_of obj k = Some (JInt (int n)) \<Longrightarrow> lo \<le> n \<Longrightarrow> n \<le> hi \<Longrightarrow> hi < 2 ^ 64
    \<Longrightarrow> bounded_u64 obj k lo hi = Inr n"
  unfolding bounded_u64_Inr by simp

lemma read_text: "map_of obj k = Some (JStr s) \<Longrightarrow> wire_text_ok s \<Longrightarrow> required_string obj k = Inr s"
  unfolding required_string_Inr by simp

lemmas read_back = read_option read_word read_nat read_text

lemma option_slashes: "\<forall>s \<in> set_option p. CHR 0x5C \<notin> set s \<Longrightarrow> map_option to_slashes p = p"
  by (cases p) (auto simp: to_slashes_plain)

lemma arguments_reparse:
  assumes "shape_matches n a" and "wire_bounded a" and "\<forall>p \<in> argument_paths a. CHR 0x5C \<notin> set p"
  shows "\<exists>obj. arguments_value a = JObj obj \<and> parse_tool_arguments n obj = Inr a"
proof (cases "(n, a)" rule: shape_matches.cases)
  case (2 p d l)
  then show ?thesis using assms by (simp add: option_slashes read_option read_word)
next
  case (3 q l)
  then show ?thesis using assms by (simp add: read_text read_word)
next
  case (4 q f l)
  then show ?thesis using assms by (simp add: read_text read_option read_word)
next
  case (5 p a b)
  then show ?thesis using assms by (simp add: read_text read_nat to_slashes_plain)
next
  case (6 p)
  then show ?thesis using assms by (simp add: read_text to_slashes_plain)
qed (use assms in auto)


text \<open>The calls known while the body is built are those of the messages before.\<close>

definition calls_of_message :: "agent_message \<Rightarrow> repository_tool_call list" where
  "calls_of_message m = (case am_content m of MToolCalls calls \<Rightarrow> calls | _ \<Rightarrow> [])"

lemma note_call_names: "dom (gc_names (gemini_note_call c g)) = insert (call_id c) (dom (gc_names g))"
  by (simp add: gemini_note_call_def)

lemma note_parts_names:
  "gemini_note_parts cps g = Inr g' \<Longrightarrow> dom (gc_names g') = dom (gc_names g) \<union> (call_id \<circ> fst) ` set cps"
  by (induction cps g rule: gemini_note_parts.induct)
    (auto simp: Let_def note_call_names split: if_splits option.splits)

lemma note_calls_names:
  "dom (gc_names (foldl (\<lambda>g c. gemini_note_call c g) g calls)) = dom (gc_names g) \<union> call_id ` set calls"
  by (induction calls arbitrary: g) (auto simp: note_call_names)

lemma image_fst_zip: "length ys = length xs \<Longrightarrow> (f \<circ> fst) ` set (zip xs ys) = f ` set xs"
  by (metis image_comp list.set_map map_fst_zip)

lemma gemini_message_names:
  assumes "gemini_message w g m = Inr (turn, g')"
  shows "dom (gc_names g') = dom (gc_names g) \<union> call_id ` set (calls_of_message m)"
proof (cases "am_content m")
  case (MText t)
  then show ?thesis using assms by (auto simp: gemini_message_def calls_of_message_def split: agent_role.splits)
next
  case (MToolResult r)
  then show ?thesis using assms by (auto simp: gemini_message_def calls_of_message_def split: agent_role.splits)
next
  case (MToolCalls calls)
  then have c: "calls_of_message m = calls" by (simp add: calls_of_message_def)
  show ?thesis
  proof (cases "am_provider_parts m")
    case None
    then have "g' = foldl (\<lambda>g c. gemini_note_call c g) g calls"
      using assms MToolCalls by (simp add: gemini_message_def split: agent_role.splits)
    then show ?thesis by (simp only: c note_calls_names)
  next
    case (Some parts)
    then have "length parts = length calls" "gemini_note_parts (zip calls parts) g = Inr g'"
      using assms MToolCalls by (simp_all add: gemini_message_def split: agent_role.splits if_splits)
    then show ?thesis by (simp only: c note_parts_names image_fst_zip)
  qed
qed

lemma gemini_messages_answer:
  assumes "gemini_messages w g (before @ m # after) = Inr turns" and "am_content m = MToolResult r"
  shows "res_call_id r \<in> dom (gc_names g) \<or> (\<exists>m' \<in> set before. res_call_id r \<in> call_id ` set (calls_of_message m'))"
  using assms(1)
proof (induction before arbitrary: g turns)
  case Nil
  then show ?case using assms(2) by (auto simp: gemini_message_def split: agent_role.splits)
next
  case (Cons a before)
  obtain turn g' rest where a: "gemini_message w g a = Inr (turn, g')"
    and rest: "gemini_messages w g' (before @ m # after) = Inr rest" using Cons.prems by auto
  show ?case using Cons.IH [OF rest] unfolding gemini_message_names [OF a] by auto
qed

lemma gemini_messages_length: "gemini_messages w g ms = Inr turns \<Longrightarrow> length turns = length ms"
  by (induction w g ms arbitrary: turns rule: gemini_messages.induct) auto

lemma find_wire_name: "List.find (\<lambda>n. wire_name n = name) all_tool_names = Some n \<longleftrightarrow> wire_name n = name"
proof
  assume "wire_name n = name"
  then show "List.find (\<lambda>n. wire_name n = name) all_tool_names = Some n"
    by (cases n) (auto simp: all_tool_names_def)
qed (use find_Some_set in fastforce)

lemma as_object_Some: "as_object v = Some kvs \<longleftrightarrow> v = JObj kvs"
  by (cases v) auto

lemma parsed_call_Inr:
  "parse_repository_tool_call parse_uuid fresh name args id_text snapshot = Inr c \<longleftrightarrow>
     wire_name (call_name c) = name \<and> call_snapshot_id c = snapshot
     \<and> call_id c = (case Option.bind id_text parse_uuid of Some i \<Rightarrow> i | None \<Rightarrow> fresh)
     \<and> (\<exists>obj. args = JObj obj \<and> parse_tool_arguments (call_name c) obj = Inr (call_arguments c))"
proof -
  let ?i = "case Option.bind id_text parse_uuid of Some i \<Rightarrow> i | None \<Rightarrow> fresh"
  have "parse_repository_tool_call parse_uuid fresh name args id_text snapshot = Inr c \<longleftrightarrow>
      (\<exists>n. wire_name n = name \<and> (\<exists>obj. args = JObj obj \<and> (\<exists>a. parse_tool_arguments n obj = Inr a
        \<and> c = \<lparr> call_id = ?i, call_snapshot_id = snapshot, call_name = n, call_arguments = a \<rparr>)))"
    unfolding parse_repository_tool_call_def then_do_Inr ok_or_Inr find_wire_name as_object_Some sum.inject eq_commute [of _ c] by (rule refl)
  also have "\<dots> \<longleftrightarrow> wire_name (call_name c) = name \<and> call_snapshot_id c = snapshot \<and> call_id c = ?i
      \<and> (\<exists>obj. args = JObj obj \<and> parse_tool_arguments (call_name c) obj = Inr (call_arguments c))"
    by (cases c) auto
  finally show ?thesis .
qed

section \<open>Properties\<close>

text \<open>
  A tool call accepted from a provider has the name on the wire, the snapshot of the request, the
  arguments of its tool, and every text and number within the limits of the wire.
\<close>

theorem parsed_call_is_bounded:
  assumes "parse_repository_tool_call parse_uuid fresh name args id_text snapshot = Inr c"
  shows "wire_name (call_name c) = name \<and> call_snapshot_id c = snapshot
    \<and> validate_call_shape (call_name c) (call_arguments c) = Inr () \<and> wire_bounded (call_arguments c)"
  using assms parsed_arguments unfolding parsed_call_Inr by (auto simp: validate_call_shape_def)

text \<open>
  C27: A call with the arguments of its tool, every text and number within the limits of the wire,
  whose id reads back from its own text, is read back from the wire form the encoder gives it: the
  id, snapshot and tool are exactly those of the call, and so are the arguments, except that the
  paths of \<open>list_tree\<close>, \<open>read_file_lines\<close> and \<open>file_metadata\<close> come back with every backslash as a
  slash. A call whose paths have no backslash is therefore read back exactly.
\<close>

theorem tool_call_round_trip:
  assumes "validate_call_shape (call_name c) (call_arguments c) = Inr ()" and "wire_bounded (call_arguments c)"
    and "parse_uuid (uuid_text (call_id c)) = Some (call_id c)"
  shows "parse_repository_tool_call parse_uuid fresh (wire_name (call_name c)) (arguments_value (call_arguments c))
      (Some (uuid_text (call_id c))) (call_snapshot_id c) = Inr (c\<lparr>call_arguments := slashed (call_arguments c)\<rparr>)
    \<and> ((\<forall>p \<in> argument_paths (call_arguments c). CHR 0x5C \<notin> set p) \<longrightarrow>
        parse_repository_tool_call parse_uuid fresh (wire_name (call_name c)) (arguments_value (call_arguments c))
          (Some (uuid_text (call_id c))) (call_snapshot_id c) = Inr c)"
proof -
  let ?a = "call_arguments c"
  have "shape_matches (call_name c) ?a" using assms(1) by (simp add: validate_call_shape_def split: if_splits)
  then obtain obj where "arguments_value ?a = JObj obj" "parse_tool_arguments (call_name c) obj = Inr (slashed ?a)"
    using arguments_reparse [of "call_name c" "slashed ?a"] assms(2) by (auto simp: slashed_facts)
  then have "parse_repository_tool_call parse_uuid fresh (wire_name (call_name c)) (arguments_value ?a)
      (Some (uuid_text (call_id c))) (call_snapshot_id c) = Inr (c\<lparr>call_arguments := slashed ?a\<rparr>)"
    using assms(1,3) slashed_facts(1) unfolding parsed_call_Inr by (simp add: validate_call_shape_def)
  then show ?thesis by (simp add: slashed_plain)
qed

text \<open>
  A Gemini body that is built has one turn for each message, and every tool result in it answers a
  call of an earlier message.
\<close>

theorem gemini_body_answers_calls:
  assumes "gemini_body w req = Inr body"
  shows "(\<exists>turns. jget ''contents'' body = Some (JArr turns) \<and> length turns = length (ar_messages req))
    \<and> (\<forall>before m after r. ar_messages req = before @ m # after \<and> am_content m = MToolResult r \<longrightarrow>
         (\<exists>m' \<in> set before. \<exists>c \<in> set (calls_of_message m'). call_id c = res_call_id r))"
proof -
  obtain turns where t: "gemini_messages w \<lparr> gc_names = Map.empty, gc_native = Map.empty \<rparr> (ar_messages req) = Inr turns"
    and "jget ''contents'' body = Some (JArr turns)"
    using assms by (auto simp: gemini_body_def)
  moreover have "\<exists>m' \<in> set before. \<exists>c \<in> set (calls_of_message m'). call_id c = res_call_id r"
    if "ar_messages req = before @ m # after" "am_content m = MToolResult r" for before m after r
    using gemini_messages_answer [OF t [unfolded that(1)] that(2)] by force
  ultimately show ?thesis using gemini_messages_length [OF t] by blast
qed

section \<open>Witnesses\<close>

definition wire_demo_call :: repository_tool_call where
  "wire_demo_call = \<lparr> call_id = 7, call_snapshot_id = 5, call_name = ReadFileLines,
     call_arguments = ArgReadFileLines ''src/a.rs'' 1 20 \<rparr>"

definition wire_demo_uuid :: "string \<Rightarrow> uuid option" where
  "wire_demo_uuid t = (if t = ''7'' then Some 7 else None)"

lemma wire_demo_parsed: "parse_repository_tool_call wire_demo_uuid 9 ''read_file_lines''
    (JObj [(''relative_path'', JStr ''src/a.rs''), (''start_line'', JInt 1), (''end_line'', JInt 20)]) (Some ''7'') 5
  = Inr wire_demo_call"
  by code_simp

lemma parsed_call_is_bounded_witness:
  "wire_bounded (call_arguments wire_demo_call) \<and> call_snapshot_id wire_demo_call = 5"
  using parsed_call_is_bounded [OF wire_demo_parsed] by blast

definition wire_demo_back :: repository_tool_call where
  "wire_demo_back = wire_demo_call\<lparr>call_arguments := ArgReadFileLines (''src'' @ [CHR 0x5C] @ ''a.rs'') 1 20\<rparr>"

lemma tool_call_round_trip_witness:
  "parse_repository_tool_call wire_demo_uuid 9 (wire_name (call_name wire_demo_back))
     (arguments_value (call_arguments wire_demo_back)) (Some ''7'') 5 = Inr wire_demo_call"
proof -
  have "validate_call_shape (call_name wire_demo_back) (call_arguments wire_demo_back) = Inr ()" by code_simp
  moreover have "wire_bounded (call_arguments wire_demo_back)" by code_simp
  ultimately show ?thesis
    using tool_call_round_trip [of wire_demo_back wire_demo_uuid "\<lambda>_. ''7''" 9]
    by (simp add: wire_demo_back_def wire_demo_call_def wire_demo_uuid_def)
qed

definition wire_demo_codec :: wire_codec where
  "wire_demo_codec = \<lparr> wc_text = (\<lambda>_. Some ''{}''), wc_result_text = (\<lambda>_. Some ''r''),
     wc_result_value = (\<lambda>r. Some (JStr (res_content r))), wc_uuid = (\<lambda>_. ''7'') \<rparr>"

definition wire_demo_request :: agent_request where
  "wire_demo_request = \<lparr> ar_request_id = 1, ar_conversation_id = 2, ar_turn_id = 3,
     ar_profile = backend_profile_default 4, ar_system_prompt = ''s'',
     ar_messages = [user_message ''q'',
       \<lparr> am_role = AgAssistant, am_content = MToolCalls [wire_demo_call], am_provider_parts = None \<rparr>,
       \<lparr> am_role = AgTool, am_content = MToolResult \<lparr> res_call_id = 7, res_snapshot_id = 5, res_content = ''c'',
           res_source_refs = [], res_omissions = [], res_content_bytes = 1 \<rparr>, am_provider_parts = None \<rparr>],
     ar_tools = [], ar_repository_context = None, ar_response_contract = ContractAdvisor,
     ar_limits = agent_limits_default \<rparr>"

lemma wire_demo_gemini: "is_ok (gemini_body wire_demo_codec wire_demo_request)"
  by code_simp

lemma gemini_body_answers_calls_witness:
  "\<exists>body turns. gemini_body wire_demo_codec wire_demo_request = Inr body
     \<and> jget ''contents'' body = Some (JArr turns) \<and> length turns = length (ar_messages wire_demo_request)"
proof -
  obtain body where body: "gemini_body wire_demo_codec wire_demo_request = Inr body"
    using wire_demo_gemini unfolding is_ok_iff by blast
  with gemini_body_answers_calls [OF body] show ?thesis by blast
qed

end
