(* ===== verification/Provider_Stream.thy ===== *)
theory Provider_Stream
  imports Agent_Wire
begin

text \<open>
  The streams of \<open>mentat-inference-openai\<close>: how \<open>openai_adapter.rs\<close> and \<open>gemini_adapter.rs\<close> turn the
  bytes of a server-sent event response into inference events, for chat (\<open>infer_stream\<close>) and for an
  agent round (\<open>infer_agent_round\<close>).

  The four \<open>stream!\<close> blocks share their outer shape, \<open>read_loop\<close> over \<open>drain_lines\<close>; what each does with
  a line, a limit, a cancellation, a read error and the end of the body is its \<open>sse_reader\<close>. What the
  \<open>select!\<close> of the loop sees is a list of reads, whose end is the end of the body. The JSON parser and
  printer, the uuid parser and the fresh ids are parameters; message texts of failures are left out.
\<close>

section \<open>Lossy UTF-8\<close>

text \<open>The bytes of the character a text starts with, or of the longest invalid prefix that is replaced.\<close>

definition byte_at :: "string \<Rightarrow> nat \<Rightarrow> nat" where
  "byte_at s i = (if i < length s then byte_of (s ! i) else 0)"

definition cont_at :: "string \<Rightarrow> nat \<Rightarrow> bool" where
  "cont_at s i \<longleftrightarrow> 128 \<le> byte_at s i \<and> byte_at s i \<le> 191"

definition second_ok :: "string \<Rightarrow> bool" where
  "second_ok s \<longleftrightarrow>
     (let a = byte_at s 0; b = byte_at s 1 in
      (if a = 224 then 160 else if a = 240 then 144 else 128) \<le> b
      \<and> b \<le> (if a = 237 then 159 else if a = 244 then 143 else 191))"

definition utf8_head :: "string \<Rightarrow> nat \<times> bool" where
  "utf8_head s =
     (let a = byte_at s 0 in
      if a < 128 then (1, True)
      else if 194 \<le> a \<and> a \<le> 223 then (if cont_at s 1 then (2, True) else (1, False))
      else if 224 \<le> a \<and> a \<le> 239 then
        (if \<not> second_ok s then (1, False) else if cont_at s 2 then (3, True) else (2, False))
      else if 240 \<le> a \<and> a \<le> 244 then
        (if \<not> second_ok s then (1, False) else if \<not> cont_at s 2 then (2, False)
         else if cont_at s 3 then (4, True) else (3, False))
      else (1, False))"

text \<open>\<open>String::from_utf8_lossy\<close>: every invalid prefix becomes U+FFFD.\<close>

lemma utf8_head_pos: "0 < fst (utf8_head s)"
  by (simp add: utf8_head_def Let_def)

function from_utf8_lossy :: "string \<Rightarrow> string" where
  "from_utf8_lossy s =
     (if s = [] then []
      else (if snd (utf8_head s) then take (fst (utf8_head s)) s else [CHR 0xEF, CHR 0xBF, CHR 0xBD])
           @ from_utf8_lossy (drop (fst (utf8_head s)) s))"
  by pat_completeness auto
termination
  by (relation "measure length") (use utf8_head_pos in auto)

declare from_utf8_lossy.simps [simp del]

section \<open>The read loop\<close>

datatype stream_read = ReadChunk string | ReadFailed | ReadCancelled

text \<open>How the handling of a line ends: \<open>continue\<close>, \<open>break\<close> out of the line loop, or \<open>return\<close>.\<close>

datatype line_exit = NextLine | StopChunk | EndStream

record ('s, 'e) sse_reader =
  sse_line :: "'s \<Rightarrow> string \<Rightarrow> 's \<times> 'e list \<times> line_exit"
  sse_over :: "nat \<Rightarrow> nat \<Rightarrow> bool"
  sse_limit :: "'e list"
  sse_cancelled :: "'e list"
  sse_failed :: "'s \<Rightarrow> 'e list"
  sse_ended :: "'s \<Rightarrow> 'e list"

definition decode_line :: "string \<Rightarrow> string" where
  "decode_line bytes = trim (from_utf8_lossy bytes)"

text \<open>The inner \<open>while let\<close>: the state, the events, the bytes left and whether the stream returned.\<close>

function drain_lines ::
  "('s \<Rightarrow> string \<Rightarrow> 's \<times> 'e list \<times> line_exit) \<Rightarrow> 's \<Rightarrow> string \<Rightarrow> 's \<times> 'e list \<times> string \<times> bool" where
  "drain_lines h s buf =
     (case find_char (\<lambda>b. b = CHR 0x0A) buf of
        None \<Rightarrow> (s, [], buf, False)
      | Some p \<Rightarrow>
        (case h s (decode_line (take p buf)) of
           (s1, evs, EndStream) \<Rightarrow> (s1, evs, drop (Suc p) buf, True)
         | (s1, evs, StopChunk) \<Rightarrow> (s1, evs, drop (Suc p) buf, False)
         | (s1, evs, NextLine) \<Rightarrow>
             (case drain_lines h s1 (drop (Suc p) buf) of (s2, evs2, rest, stop) \<Rightarrow> (s2, evs @ evs2, rest, stop))))"
  by pat_completeness auto
termination
proof (relation "measure (\<lambda>(h, s, buf). length buf)", goal_cases)
  case (2 h s buf p)
  then show ?case by (auto dest: find_char_Some)
qed simp

declare drain_lines.simps [simp del]

text \<open>The outer \<open>loop\<close>, with the bytes received and the bytes buffered so far.\<close>

fun read_loop :: "('s, 'e) sse_reader \<Rightarrow> nat \<Rightarrow> string \<Rightarrow> 's \<Rightarrow> stream_read list \<Rightarrow> 'e list" where
  "read_loop R received buf s [] = sse_ended R s"
| "read_loop R received buf s (ReadCancelled # reads) = sse_cancelled R"
| "read_loop R received buf s (ReadFailed # reads) = sse_failed R s"
| "read_loop R received buf s (ReadChunk bytes # reads) =
     (if sse_over R (received + length bytes) (length buf + length bytes) then sse_limit R
      else case drain_lines (sse_line R) s (buf @ bytes) of
        (s1, evs, rest, stop) \<Rightarrow>
          evs @ (if stop then [] else read_loop R (received + length bytes) rest s1 reads))"

definition MAX_STREAM_BYTES :: nat where
  "MAX_STREAM_BYTES = 4194304"

definition MAX_LINE_BUFFER :: nat where
  "MAX_LINE_BUFFER = 1048576"

text \<open>\<open>strip_prefix\<close>.\<close>

definition strip_prefix :: "string \<Rightarrow> string \<Rightarrow> string option" where
  "strip_prefix p s = (if prefix p s then Some (drop (length p) s) else None)"

section \<open>OpenAI: chat\<close>

record stream_env =
  sv_json :: "string \<Rightarrow> json option"
  sv_show :: "json \<Rightarrow> string"
  sv_uuid :: "string \<Rightarrow> uuid option"
  sv_fresh :: "nat \<Rightarrow> uuid"

definition openai_chat_delta :: "json \<Rightarrow> string option" where
  "openai_chat_delta v =
     Option.bind (jget ''choices'' v) (\<lambda>c. Option.bind (jindex 0 c) (\<lambda>c.
     Option.bind (jget ''delta'' c) (\<lambda>d. Option.bind (jget ''content'' d) as_str)))"

definition openai_chat_line :: "stream_env \<Rightarrow> string \<Rightarrow> string \<Rightarrow> string \<times> inference_event list \<times> line_exit" where
  "openai_chat_line env full line =
     (if line = [] \<or> prefix '':'' line then (full, [], NextLine)
      else case strip_prefix ''data: '' line of
        None \<Rightarrow> (full, [], NextLine)
      | Some data \<Rightarrow>
          if trim data = ''[DONE]'' then (full, [IvCompleted full], EndStream)
          else case Option.bind (sv_json env data) openai_chat_delta of
            None \<Rightarrow> (full, [], NextLine)
          | Some delta \<Rightarrow> (full @ delta, [IvTextDelta delta], NextLine))"

definition openai_chat_reader :: "stream_env \<Rightarrow> (string, inference_event) sse_reader" where
  "openai_chat_reader env =
     \<lparr> sse_line = openai_chat_line env, sse_over = (\<lambda>received buffered. received > MAX_STREAM_BYTES),
       sse_limit = [IvFailed ''STREAM_LIMIT'' []], sse_cancelled = [IvCancelled],
       sse_failed = (\<lambda>full. [IvFailed ''STREAM_READ_ERROR'' []]), sse_ended = (\<lambda>full. [IvCompleted full]) \<rparr>"

definition openai_chat_stream :: "stream_env \<Rightarrow> uuid \<Rightarrow> stream_read list \<Rightarrow> inference_event list" where
  "openai_chat_stream env request_id reads =
     IvStarted request_id # read_loop (openai_chat_reader env) 0 [] [] reads"


section \<open>OpenAI: agent round\<close>

record pending_call =
  pc_id :: string
  pc_name :: string
  pc_arguments :: string

definition empty_pending :: pending_call where
  "empty_pending = \<lparr> pc_id = [], pc_name = [], pc_arguments = [] \<rparr>"

text \<open>The \<open>BTreeMap\<close> of the calls by index, as a list in the order of the keys.\<close>

fun entry_update :: "nat \<Rightarrow> (pending_call \<Rightarrow> pending_call) \<Rightarrow> (nat \<times> pending_call) list \<Rightarrow> (nat \<times> pending_call) list" where
  "entry_update i f [] = [(i, f empty_pending)]"
| "entry_update i f ((j, c) # ps) =
     (if i < j then (i, f empty_pending) # (j, c) # ps
      else if i = j then (j, f c) # ps else (j, c) # entry_update i f ps)"

fun push_text :: "string option \<Rightarrow> string \<Rightarrow> string" where
  "push_text None t = t"
| "push_text (Some d) t = t @ d"

definition push_delta :: "json \<Rightarrow> pending_call \<Rightarrow> pending_call" where
  "push_delta d c = \<lparr> pc_id = push_text (get_str ''id'' d) (pc_id c),
     pc_name = push_text (pointer_str [''function'', ''name''] d) (pc_name c),
     pc_arguments = push_text (pointer_str [''function'', ''arguments''] d) (pc_arguments c) \<rparr>"

definition MAX_ARGUMENT_BYTES :: nat where
  "MAX_ARGUMENT_BYTES = 65536"

definition MAX_ROUND_CALLS :: nat where
  "MAX_ROUND_CALLS = 24"

text \<open>The tool deltas of one line; true when a limit was passed.\<close>

fun tool_deltas :: "json list \<Rightarrow> (nat \<times> pending_call) list \<Rightarrow> (nat \<times> pending_call) list \<times> bool" where
  "tool_deltas [] ps = (ps, False)"
| "tool_deltas (d # ds) ps =
     (let i = (case Option.bind (jget ''index'' d) as_u64 of Some i \<Rightarrow> i | None \<Rightarrow> 0);
          ps' = entry_update i (push_delta d) ps;
          over = (case map_of ps' i of Some c \<Rightarrow> length (pc_arguments c) > MAX_ARGUMENT_BYTES | None \<Rightarrow> False)
      in if over \<or> length ps' > MAX_ROUND_CALLS then (ps', True) else tool_deltas ds ps')"

record openai_round =
  or_text :: string
  or_pending :: "(nat \<times> pending_call) list"

definition parse_pending :: "stream_env \<Rightarrow> uuid \<Rightarrow> nat \<times> pending_call \<Rightarrow> repository_tool_call result" where
  "parse_pending env snapshot kc =
     (case kc of (k, c) \<Rightarrow>
       then_do (ok_or (sv_json env (pc_arguments c)) (BackendError ''AGENT_TOOL_SCHEMA_INVALID'')) (\<lambda>args.
         parse_repository_tool_call (sv_uuid env) (sv_fresh env k) (pc_name c) args (Some (pc_id c)) snapshot))"

text \<open>What \<open>[DONE]\<close> yields.\<close>

definition openai_done :: "stream_env \<Rightarrow> uuid option \<Rightarrow> openai_round \<Rightarrow> round_event" where
  "openai_done env snapshot s =
     (if or_pending s = [] then RvRawCompleted (or_text s)
      else case snapshot of
        None \<Rightarrow> RvFailed ''AGENT_TOOL_CONTEXT_MISSING'' []
      | Some snap \<Rightarrow>
          (case collect_results (parse_pending env snap) (List.enumerate 0 (map snd (or_pending s))) of
             Inr calls \<Rightarrow> RvToolCallsRequested 0 calls
           | Inl _ \<Rightarrow> RvFailed ''AGENT_TOOL_SCHEMA_INVALID'' []))"

definition openai_choice ::
  "json \<Rightarrow> openai_round \<Rightarrow> openai_round \<times> round_event list \<times> line_exit" where
  "openai_choice choice s =
     (let delta = pointer_str [''delta'', ''content''] choice;
          s1 = s\<lparr>or_text := push_text delta (or_text s)\<rparr>;
          evs = (case delta of Some d \<Rightarrow> [RvTextDelta d] | None \<Rightarrow> []) in
      case Option.bind (jpointer [''delta'', ''tool_calls''] choice) as_array of
        None \<Rightarrow> (s1, evs, NextLine)
      | Some ds \<Rightarrow>
          (case tool_deltas ds (or_pending s) of
             (ps, False) \<Rightarrow> (s1\<lparr>or_pending := ps\<rparr>, evs, NextLine)
           | (ps, True) \<Rightarrow> (s1\<lparr>or_pending := ps\<rparr>, evs @ [RvFailed ''TOOL_ARGUMENT_LIMIT'' []], EndStream)))"

definition openai_round_line ::
  "stream_env \<Rightarrow> uuid option \<Rightarrow> openai_round \<Rightarrow> string \<Rightarrow> openai_round \<times> round_event list \<times> line_exit" where
  "openai_round_line env snapshot s line =
     (case strip_prefix ''data: '' line of
        None \<Rightarrow> (s, [], NextLine)
      | Some data \<Rightarrow>
          if trim data = ''[DONE]'' then (s, [openai_done env snapshot s], EndStream)
          else case Option.bind (sv_json env data) (jpointer [''choices'', ''0'']) of
            None \<Rightarrow> (s, [], NextLine)
          | Some choice \<Rightarrow> openai_choice choice s)"

definition round_over :: "nat \<Rightarrow> nat \<Rightarrow> bool" where
  "round_over received buffered \<longleftrightarrow> received > MAX_STREAM_BYTES \<or> buffered > MAX_LINE_BUFFER"

definition openai_round_reader :: "stream_env \<Rightarrow> uuid option \<Rightarrow> (openai_round, round_event) sse_reader" where
  "openai_round_reader env snapshot =
     \<lparr> sse_line = openai_round_line env snapshot, sse_over = round_over,
       sse_limit = [RvFailed ''STREAM_LIMIT'' []], sse_cancelled = [RvFailed ''CANCELLED'' []],
       sse_failed = (\<lambda>s. [RvFailed ''STREAM_READ_ERROR'' []]),
       sse_ended = (\<lambda>s. [if or_pending s = [] then RvRawCompleted (or_text s)
                         else RvFailed ''AGENT_TOOL_STREAM_INCOMPLETE'' []]) \<rparr>"

definition openai_round_stream :: "stream_env \<Rightarrow> uuid \<Rightarrow> uuid option \<Rightarrow> stream_read list \<Rightarrow> round_event list" where
  "openai_round_stream env request_id snapshot reads =
     RvStarted request_id # read_loop (openai_round_reader env snapshot) 0 [] \<lparr> or_text = [], or_pending = [] \<rparr> reads"

section \<open>Gemini: chat\<close>

definition json_items :: "json option \<Rightarrow> json list" where
  "json_items v = (case Option.bind v as_array of Some xs \<Rightarrow> xs | None \<Rightarrow> [])"

definition gemini_chat_texts :: "json \<Rightarrow> string list" where
  "gemini_chat_texts v =
     concat (map (\<lambda>cand. List.map_filter (get_str ''text'')
         (json_items (Option.bind (jget ''content'' cand) (jget ''parts''))))
       (json_items (jget ''candidates'' v)))"

definition gemini_chat_line :: "stream_env \<Rightarrow> string \<Rightarrow> string \<Rightarrow> string \<times> inference_event list \<times> line_exit" where
  "gemini_chat_line env full line =
     (case strip_prefix ''data: '' line of
        None \<Rightarrow> (full, [], NextLine)
      | Some data \<Rightarrow>
          if trim data = ''[DONE]'' then (full, [], StopChunk)
          else case sv_json env data of
            None \<Rightarrow> (full, [], NextLine)
          | Some v \<Rightarrow> (full @ concat (gemini_chat_texts v), map IvTextDelta (gemini_chat_texts v), NextLine))"

text \<open>
  After the loop the completion is yielded unless the token is cancelled then; \<open>late_cancel\<close> says whether
  it is, for the ways out of the loop other than the cancellation itself.
\<close>

definition gemini_chat_reader :: "stream_env \<Rightarrow> bool \<Rightarrow> (string, inference_event) sse_reader" where
  "gemini_chat_reader env late_cancel =
     (let finish = (\<lambda>full. if late_cancel then [] else [IvCompleted full]) in
      \<lparr> sse_line = gemini_chat_line env, sse_over = (\<lambda>received buffered. received > MAX_STREAM_BYTES),
        sse_limit = [IvFailed ''STREAM_LIMIT'' []], sse_cancelled = [IvCancelled],
        sse_failed = (\<lambda>full. IvFailed ''STREAM_READ_ERROR'' [] # finish full), sse_ended = finish \<rparr>)"

definition gemini_chat_stream :: "stream_env \<Rightarrow> bool \<Rightarrow> uuid \<Rightarrow> stream_read list \<Rightarrow> inference_event list" where
  "gemini_chat_stream env late_cancel request_id reads =
     IvStarted request_id # read_loop (gemini_chat_reader env late_cancel) 0 [] [] reads"

section \<open>Gemini: agent round\<close>

record gemini_round =
  gr_text :: string
  gr_calls :: "repository_tool_call list"
  gr_parts :: "json list"

text \<open>The function call of a part: the state after it, or the code of the failure that ends the stream.\<close>

definition gemini_function ::
  "stream_env \<Rightarrow> uuid option \<Rightarrow> json \<Rightarrow> gemini_round \<Rightarrow> string + gemini_round" where
  "gemini_function env snapshot part s =
     (case jget ''functionCall'' part of
        None \<Rightarrow> Inr s
      | Some f \<Rightarrow>
        (case get_str ''name'' f of
           None \<Rightarrow> Inr s
         | Some name \<Rightarrow>
           (let args = (case jget ''args'' f of Some a \<Rightarrow> a | None \<Rightarrow> JObj []) in
            if length (sv_show env args) > MAX_ARGUMENT_BYTES \<or> length (gr_calls s) \<ge> MAX_ROUND_CALLS
              then Inl ''TOOL_ARGUMENT_LIMIT''
            else case snapshot of
              None \<Rightarrow> Inl ''AGENT_TOOL_CONTEXT_MISSING''
            | Some snap \<Rightarrow>
              (case parse_repository_tool_call (sv_uuid env) (sv_fresh env (length (gr_calls s))) name args
                      (get_str ''id'' f) snap of
                 Inr call \<Rightarrow> Inr (s\<lparr>gr_calls := gr_calls s @ [call], gr_parts := gr_parts s @ [part]\<rparr>)
               | Inl _ \<Rightarrow> Inl ''AGENT_TOOL_SCHEMA_INVALID''))))"

fun gemini_parts ::
  "stream_env \<Rightarrow> uuid option \<Rightarrow> json list \<Rightarrow> gemini_round \<Rightarrow> gemini_round \<times> round_event list \<times> line_exit" where
  "gemini_parts env snapshot [] s = (s, [], NextLine)"
| "gemini_parts env snapshot (part # parts) s =
     (if Option.bind (jget ''thought'' part) as_bool = Some True then gemini_parts env snapshot parts s
      else
        let delta = get_str ''text'' part;
            s1 = s\<lparr>gr_text := push_text delta (gr_text s)\<rparr>;
            evs = (case delta of Some d \<Rightarrow> [RvTextDelta d] | None \<Rightarrow> []) in
        case gemini_function env snapshot part s1 of
          Inl code \<Rightarrow> (s1, evs @ [RvFailed code []], EndStream)
        | Inr s2 \<Rightarrow>
            (case gemini_parts env snapshot parts s2 of (s3, evs3, x) \<Rightarrow> (s3, evs @ evs3, x)))"

definition gemini_round_line ::
  "stream_env \<Rightarrow> uuid option \<Rightarrow> gemini_round \<Rightarrow> string \<Rightarrow> gemini_round \<times> round_event list \<times> line_exit" where
  "gemini_round_line env snapshot s line =
     (case strip_prefix ''data: '' line of
        None \<Rightarrow> (s, [], NextLine)
      | Some data \<Rightarrow>
          if trim data = ''[DONE]'' then (s, [], StopChunk)
          else case Option.bind (sv_json env data) (\<lambda>v. Option.bind
                 (jpointer [''candidates'', ''0'', ''content'', ''parts''] v) as_array) of
            None \<Rightarrow> (s, [], NextLine)
          | Some parts \<Rightarrow> gemini_parts env snapshot parts s)"

definition gemini_finish :: "gemini_round \<Rightarrow> round_event list" where
  "gemini_finish s =
     (if gr_calls s = [] then [RvRawCompleted (gr_text s)]
      else [RvProviderToolParts (gr_parts s), RvToolCallsRequested 0 (gr_calls s)])"

definition gemini_round_reader :: "stream_env \<Rightarrow> uuid option \<Rightarrow> (gemini_round, round_event) sse_reader" where
  "gemini_round_reader env snapshot =
     \<lparr> sse_line = gemini_round_line env snapshot, sse_over = round_over,
       sse_limit = [RvFailed ''STREAM_LIMIT'' []], sse_cancelled = [RvFailed ''CANCELLED'' []],
       sse_failed = (\<lambda>s. [RvFailed ''STREAM_READ_ERROR'' []]), sse_ended = gemini_finish \<rparr>"

definition gemini_round_stream :: "stream_env \<Rightarrow> uuid \<Rightarrow> uuid option \<Rightarrow> stream_read list \<Rightarrow> round_event list" where
  "gemini_round_stream env request_id snapshot reads =
     RvStarted request_id # read_loop (gemini_round_reader env snapshot) 0 []
       \<lparr> gr_text = [], gr_calls = [], gr_parts = [] \<rparr> reads"

end
