(* ===== verification/Stream_Protocol.thy ===== *)
theory Stream_Protocol
  imports Provider_Stream
begin

text \<open>
  What the streams of the provider adapters promise. \<open>sse_text\<close> is the law that the completed text is
  the concatenation of the deltas, \<open>sse_protocol\<close> the law that a stream ends with its only terminal
  event; both are stated on one line and proved once for the read loop, then interpreted on the four
  readers. The Gemini chat reader satisfies the first law only.
\<close>

section \<open>Draining lines\<close>

lemma drain_none: "CHR 0x0A \<notin> set buf \<Longrightarrow> drain_lines h s buf = (s, [], buf, False)"
proof -
  assume "CHR 0x0A \<notin> set buf"
  then have "find_char (\<lambda>b. b = CHR 0x0A) buf = None" unfolding find_char_None by blast
  then show ?thesis by (subst drain_lines.simps) simp
qed

lemma drain_some:
  assumes "find_char (\<lambda>b. b = CHR 0x0A) buf = Some p"
  shows "drain_lines h s buf = (case h s (decode_line (take p buf)) of
      (s1, evs, EndStream) \<Rightarrow> (s1, evs, drop (Suc p) buf, True)
    | (s1, evs, StopChunk) \<Rightarrow> (s1, evs, drop (Suc p) buf, False)
    | (s1, evs, NextLine) \<Rightarrow>
        (case drain_lines h s1 (drop (Suc p) buf) of (s2, evs2, rest, stop) \<Rightarrow> (s2, evs @ evs2, rest, stop)))"
  by (subst drain_lines.simps) (simp add: assms)

text \<open>An invariant of the state and a law of the events of each line carry over to the whole buffer.\<close>

lemma drain_length: "drain_lines h s buf = (s1, evs, rest, stop) \<Longrightarrow> length rest \<le> length buf"
proof (induction h s buf arbitrary: s1 evs rest stop rule: drain_lines.induct)
  case (1 h s buf)
  show ?case
  proof (cases "find_char (\<lambda>b. b = CHR 0x0A) buf")
    case None
    then show ?thesis using "1.prems" by (simp add: drain_lines.simps [of h s buf])
  next
    case (Some p)
    obtain s2 e2 x where l: "h s (decode_line (take p buf)) = (s2, e2, x)" by (rule prod_cases3)
    show ?thesis
    proof (cases x)
      case NextLine
      obtain s3 e3 r3 t3 where d: "drain_lines h s2 (drop (Suc p) buf) = (s3, e3, r3, t3)" by (rule prod_cases4)
      have "length r3 \<le> length (drop (Suc p) buf)" by (rule "1.IH" [OF Some l [symmetric] refl NextLine d])
      then show ?thesis using "1.prems" l NextLine d by (simp add: drain_some [OF Some])
    qed (use "1.prems" l in \<open>auto simp: drain_some [OF Some]\<close>)
  qed
qed

text \<open>Reading more bytes after a buffer was drained is draining the longer buffer.\<close>

lemma find_char_append_Some: "find_char P a = Some p \<Longrightarrow> find_char P (a @ b) = Some p"
  by (induction a arbitrary: p) (auto split: if_splits option.splits)

lemma drain_append:
  assumes "\<And>s l. snd (snd (h s l)) \<noteq> StopChunk" and "drain_lines h s a = (s1, evs, rest, stop)"
  shows "drain_lines h s (a @ b) =
    (if stop then (s1, evs, rest @ b, True)
     else case drain_lines h s1 (rest @ b) of (s2, evs2, rest2, stop2) \<Rightarrow> (s2, evs @ evs2, rest2, stop2))"
  using assms
proof (induction h s a arbitrary: s1 evs rest stop rule: drain_lines.induct)
  case (1 h s a)
  show ?case
  proof (cases "find_char (\<lambda>b. b = CHR 0x0A) a")
    case None
    then have "s1 = s" "evs = []" "rest = a" "stop = False"
      using "1.prems"(2) by (simp_all add: drain_lines.simps [of h s a])
    then show ?thesis by (simp split: prod.splits)
  next
    case (Some p)
    obtain s2 e2 x where l: "h s (decode_line (take p a)) = (s2, e2, x)" by (rule prod_cases3)
    have len: "p < length a" using find_char_Some [OF Some] by simp
    note Some' = find_char_append_Some [OF Some, of b]
    have l': "h s (decode_line (take p (a @ b))) = (s2, e2, x)" using l len by simp
    have dr: "drop (Suc p) (a @ b) = drop (Suc p) a @ b" using len by simp
    show ?thesis
    proof (cases x)
      case NextLine
      obtain s3 e3 r3 t3 where d: "drain_lines h s2 (drop (Suc p) a) = (s3, e3, r3, t3)" by (rule prod_cases4)
      have v: "s1 = s3" "evs = e2 @ e3" "rest = r3" "stop = t3"
        using "1.prems"(2) l NextLine d by (simp_all add: drain_some [OF Some])
      note ih = "1.IH" [OF Some l [symmetric] refl NextLine "1.prems"(1) d]
      have "drain_lines h s (a @ b) = (case drain_lines h s2 (drop (Suc p) a @ b) of
          (s2, evs2, rest, stop) \<Rightarrow> (s2, e2 @ evs2, rest, stop))"
        unfolding drain_some [OF Some'] l' dr NextLine by (simp add: case_prod_beta)
      also have "\<dots> = (if t3 then (s3, e2 @ e3, r3 @ b, True)
          else case drain_lines h s3 (r3 @ b) of (s2, evs2, rest2, stop2) \<Rightarrow> (s2, (e2 @ e3) @ evs2, rest2, stop2))"
        unfolding ih by (simp split: prod.splits)
      finally show ?thesis unfolding v .
    next
      case EndStream
      have "drain_lines h s (a @ b) = (s2, e2, drop (Suc p) a @ b, True)"
        unfolding drain_some [OF Some'] l' dr using EndStream by simp
      moreover have "s1 = s2" "evs = e2" "rest = drop (Suc p) a" "stop"
        using "1.prems"(2) l EndStream by (simp_all add: drain_some [OF Some])
      ultimately show ?thesis by simp
    next
      case StopChunk
      then show ?thesis using "1.prems"(1) [of s "decode_line (take p a)"] l by simp
    qed
  qed
qed

lemma drain_rest_plain:
  assumes "\<And>s l. snd (snd (h s l)) \<noteq> StopChunk" and "drain_lines h s buf = (s1, evs, rest, False)"
  shows "CHR 0x0A \<notin> set rest"
  using assms
proof (induction h s buf arbitrary: s1 evs rest rule: drain_lines.induct)
  case (1 h s buf)
  show ?case
  proof (cases "find_char (\<lambda>b. b = CHR 0x0A) buf")
    case None
    then have "rest = buf" using "1.prems"(2) by (simp add: drain_lines.simps [of h s buf])
    then show ?thesis using None unfolding find_char_None by blast
  next
    case (Some p)
    obtain s2 e2 x where l: "h s (decode_line (take p buf)) = (s2, e2, x)" by (rule prod_cases3)
    show ?thesis
    proof (cases x)
      case NextLine
      obtain s3 e3 r3 t3 where d: "drain_lines h s2 (drop (Suc p) buf) = (s3, e3, r3, t3)" by (rule prod_cases4)
      have v: "rest = r3" "t3 = False" using "1.prems"(2) l NextLine d by (simp_all add: drain_some [OF Some])
      show ?thesis unfolding v(1)
        by (rule "1.IH" [OF Some l [symmetric] refl NextLine "1.prems"(1) d [unfolded v(2)]])
    next
      case EndStream
      then show ?thesis using "1.prems"(2) l by (simp add: drain_some [OF Some])
    next
      case StopChunk
      then show ?thesis using "1.prems"(1) [of s "decode_line (take p buf)"] l by simp
    qed
  qed
qed

section \<open>Chunk boundaries\<close>

definition at_end :: "stream_read list \<Rightarrow> bool" where
  "at_end tail \<longleftrightarrow> (case tail of ReadChunk _ # _ \<Rightarrow> False | _ \<Rightarrow> True)"

lemma read_loop_chunks:
  assumes stop: "\<And>s l. snd (snd (sse_line R s l)) \<noteq> StopChunk"
    and over: "\<And>r b. sse_over R r b \<longleftrightarrow> r > max_r \<or> b > max_b"
    and "received + length (concat cs) \<le> max_r" and "length buf + length (concat cs) \<le> max_b"
    and "CHR 0x0A \<notin> set buf" and "at_end tail"
  shows "read_loop R received buf s (map ReadChunk cs @ tail) =
    (case drain_lines (sse_line R) s (buf @ concat cs) of (s1, evs, rest, stopped) \<Rightarrow>
      evs @ (if stopped then [] else read_loop R (received + length (concat cs)) rest s1 tail))"
  using assms(3-5)
proof (induction cs arbitrary: received buf s)
  case Nil
  then show ?case by (simp add: drain_none)
next
  case (Cons c cs)
  obtain s1 e1 b1 t1 where d: "drain_lines (sse_line R) s (buf @ c) = (s1, e1, b1, t1)" by (rule prod_cases4)
  have ok: "\<not> sse_over R (received + length c) (length buf + length c)" using Cons.prems over by simp
  note whole = drain_append [OF stop d, of "concat cs", unfolded append_assoc]
  show ?case
  proof (cases t1)
    case True
    then show ?thesis using ok d whole by simp
  next
    case False
    have len: "length b1 \<le> length (buf @ c)" by (rule drain_length [OF d])
    have d': "drain_lines (sse_line R) s (buf @ c) = (s1, e1, b1, False)" using d False by simp
    have "CHR 0x0A \<notin> set b1" by (rule drain_rest_plain [OF stop d'])
    moreover have "length b1 + length (concat cs) \<le> max_b" using Cons.prems(2) len by simp
    moreover have "received + length c + length (concat cs) \<le> max_r" using Cons.prems(1) by simp
    ultimately have ih: "read_loop R (received + length c) b1 s1 (map ReadChunk cs @ tail) =
        (case drain_lines (sse_line R) s1 (b1 @ concat cs) of (s1, evs, rest, stopped) \<Rightarrow>
          evs @ (if stopped then [] else read_loop R (received + length c + length (concat cs)) rest s1 tail))"
      by (intro Cons.IH)
    show ?thesis using ok d False whole ih by (simp add: add.assoc split: prod.splits)
  qed
qed


section \<open>The laws of a reader\<close>

text \<open>A relation between the state before, the events, the state after and the return, line by line.\<close>

lemma drain_rule:
  assumes "drain_lines h s buf = (s1, evs, rest, stop)"
    and none: "\<And>s. Q s [] s False"
    and last: "\<And>s l s1 evs x. h s l = (s1, evs, x) \<Longrightarrow> x \<noteq> NextLine \<Longrightarrow> Q s evs s1 (x = EndStream)"
    and step: "\<And>s l s1 evs evs2 s2 stop. h s l = (s1, evs, NextLine) \<Longrightarrow> Q s1 evs2 s2 stop \<Longrightarrow> Q s (evs @ evs2) s2 stop"
  shows "Q s evs s1 stop"
  using assms
proof (induction h s buf arbitrary: s1 evs rest stop rule: drain_lines.induct)
  case (1 h s buf)
  show ?case
  proof (cases "find_char (\<lambda>b. b = CHR 0x0A) buf")
    case None
    then show ?thesis using "1.prems"(1,2) by (simp add: drain_lines.simps [of h s buf])
  next
    case (Some p)
    obtain s2 e2 x where l: "h s (decode_line (take p buf)) = (s2, e2, x)" by (rule prod_cases3)
    show ?thesis
    proof (cases x)
      case NextLine
      obtain s3 e3 r3 t3 where d: "drain_lines h s2 (drop (Suc p) buf) = (s3, e3, r3, t3)" by (rule prod_cases4)
      have "Q s2 e3 s3 t3" by (rule "1.IH" [OF Some l [symmetric] refl NextLine d]) (rule "1.prems"(2-4); assumption)+
      from "1.prems"(4) [OF l [unfolded NextLine] this]
      show ?thesis using "1.prems"(1) l NextLine d by (simp add: drain_some [OF Some])
    next
      case StopChunk
      then show ?thesis using "1.prems"(1) "1.prems"(3) [OF l] l by (simp add: drain_some [OF Some])
    next
      case EndStream
      then show ?thesis using "1.prems"(1) "1.prems"(3) [OF l] l by (simp add: drain_some [OF Some])
    qed
  qed
qed

text \<open>Every event the reader can yield is good, given an invariant of its state.\<close>

locale sse_events =
  fixes R :: "('s, 'e) sse_reader" and inv_of :: "'s \<Rightarrow> bool" and good :: "'e \<Rightarrow> bool"
  assumes line_good: "sse_line R s l = (s1, evs, x) \<Longrightarrow> inv_of s \<Longrightarrow> list_all good evs \<and> (x \<noteq> EndStream \<longrightarrow> inv_of s1)"
    and limit_good: "list_all good (sse_limit R)"
    and cancelled_good: "list_all good (sse_cancelled R)"
    and failed_good: "inv_of s \<Longrightarrow> list_all good (sse_failed R s)"
    and ended_good: "inv_of s \<Longrightarrow> list_all good (sse_ended R s)"
begin

lemma drain_good:
  assumes "drain_lines (sse_line R) s buf = (s1, evs, rest, stop)" and "inv_of s"
  shows "list_all good evs \<and> (\<not> stop \<longrightarrow> inv_of s1)"
proof -
  have "inv_of s \<longrightarrow> list_all good evs \<and> (\<not> stop \<longrightarrow> inv_of s1)"
  proof (rule drain_rule [OF assms(1)])
    fix s l s1 evs evs2 s2 stop
    assume l: "sse_line R s l = (s1, evs, NextLine)"
      and "inv_of s1 \<longrightarrow> list_all good evs2 \<and> (\<not> stop \<longrightarrow> inv_of s2)"
    then show "inv_of s \<longrightarrow> list_all good (evs @ evs2) \<and> (\<not> stop \<longrightarrow> inv_of s2)" using line_good [OF l] by auto
  qed (use line_good in \<open>auto\<close>)
  then show ?thesis using assms(2) by blast
qed

lemma loop_good: "inv_of s \<Longrightarrow> list_all good (read_loop R n buf s reads)"
proof (induction reads arbitrary: n buf s)
  case (Cons r reads)
  show ?case
  proof (cases r)
    case (ReadChunk bytes)
    obtain s1 e1 b1 t1 where d: "drain_lines (sse_line R) s (buf @ bytes) = (s1, e1, b1, t1)" by (rule prod_cases4)
    show ?thesis using Cons.IH drain_good [OF d Cons.prems] d ReadChunk limit_good by (cases t1) simp_all
  qed (use failed_good cancelled_good Cons.prems in simp_all)
qed (simp add: ended_good)

end

text \<open>The text of a completion is what was streamed.\<close>

locale sse_text =
  fixes R :: "('s, 'e) sse_reader" and body_of :: "'s \<Rightarrow> string" and delta :: "'e \<Rightarrow> string"
    and completed :: "'e \<Rightarrow> string option"
  assumes line_text: "sse_line R s l = (s1, evs, x) \<Longrightarrow> body_of s1 = body_of s @ concat (map delta evs)"
    and line_completed: "sse_line R s l = (s1, evs, x) \<Longrightarrow> e \<in> set evs \<Longrightarrow> completed e = Some t
      \<Longrightarrow> x = EndStream \<and> t = body_of s1"
    and limit_silent: "e \<in> set (sse_limit R) \<Longrightarrow> completed e = None"
    and cancelled_silent: "e \<in> set (sse_cancelled R) \<Longrightarrow> completed e = None"
    and failed_text: "concat (map delta (sse_failed R s)) = []"
    and failed_completed: "e \<in> set (sse_failed R s) \<Longrightarrow> completed e = Some t \<Longrightarrow> t = body_of s"
    and ended_text: "concat (map delta (sse_ended R s)) = []"
    and ended_completed: "e \<in> set (sse_ended R s) \<Longrightarrow> completed e = Some t \<Longrightarrow> t = body_of s"
begin

lemma drain_text:
  assumes "drain_lines (sse_line R) s buf = (s1, evs, rest, stop)"
  shows "body_of s1 = body_of s @ concat (map delta evs)
    \<and> (\<forall>e \<in> set evs. \<forall>t. completed e = Some t \<longrightarrow> stop \<and> t = body_of s1)"
proof (rule drain_rule [OF assms])
  fix s l s1 evs evs2 s2 stop
  assume l: "sse_line R s l = (s1, evs, NextLine)"
    and r: "body_of s2 = body_of s1 @ concat (map delta evs2) \<and> (\<forall>e \<in> set evs2. \<forall>t. completed e = Some t \<longrightarrow> stop \<and> t = body_of s2)"
  have "\<forall>e \<in> set evs. completed e = None" 
  proof
    fix e assume "e \<in> set evs"
    then show "completed e = None" using line_completed [OF l] by (cases "completed e") auto
  qed
  then show "body_of s2 = body_of s @ concat (map delta (evs @ evs2))
      \<and> (\<forall>e \<in> set (evs @ evs2). \<forall>t. completed e = Some t \<longrightarrow> stop \<and> t = body_of s2)"
    using r line_text [OF l] by auto
qed (use line_text line_completed in auto)

lemma loop_text:
  "e \<in> set (read_loop R n buf s reads) \<Longrightarrow> completed e = Some t
    \<Longrightarrow> t = body_of s @ concat (map delta (read_loop R n buf s reads))"
proof (induction reads arbitrary: n buf s)
  case Nil
  then show ?case using ended_completed ended_text by simp
next
  case (Cons r reads)
  show ?case
  proof (cases r)
    case (ReadChunk bytes)
    obtain s1 e1 b1 t1 where d: "drain_lines (sse_line R) s (buf @ bytes) = (s1, e1, b1, t1)" by (rule prod_cases4)
    note dt = drain_text [OF d]
    show ?thesis
    proof (cases "sse_over R (n + length bytes) (length buf + length bytes)")
      case True
      then show ?thesis using Cons.prems ReadChunk limit_silent by simp
    next
      case False
      have loop: "read_loop R n buf s (r # reads) = e1 @ (if t1 then [] else read_loop R (n + length bytes) b1 s1 reads)"
        using False d ReadChunk by simp
      show ?thesis
      proof (cases "e \<in> set e1")
        case True
        then have "t1 \<and> t = body_of s1" using dt Cons.prems(2) by blast
        then show ?thesis using dt unfolding loop by simp
      next
        case False
        then have nt: "\<not> t1" and e: "e \<in> set (read_loop R (n + length bytes) b1 s1 reads)"
          using Cons.prems(1) unfolding loop by (auto split: if_splits)
        show ?thesis unfolding loop using nt dt Cons.IH [OF e Cons.prems(2)] by simp
      qed
    qed
  next
    case ReadFailed
    then show ?thesis using Cons.prems failed_completed failed_text by simp
  next
    case ReadCancelled
    then show ?thesis using Cons.prems cancelled_silent by simp
  qed
qed

end

text \<open>A stream ends with its terminal event and has no other.\<close>

definition ends_once :: "('e \<Rightarrow> bool) \<Rightarrow> 'e list \<Rightarrow> bool" where
  "ends_once terminal evs \<longleftrightarrow>
     (\<exists>before e. evs = before @ [e] \<and> terminal e \<and> list_all (\<lambda>e. \<not> terminal e) before)"

lemma ends_once_append: "list_all (\<lambda>e. \<not> terminal e) a \<Longrightarrow> ends_once terminal b \<Longrightarrow> ends_once terminal (a @ b)"
  unfolding ends_once_def by (metis append_assoc list_all_append)

lemma ends_once_single: "terminal e \<Longrightarrow> ends_once terminal [e]"
  by (simp add: ends_once_def)

locale sse_protocol = sse_text +
  fixes terminal :: "'e \<Rightarrow> bool"
  assumes line_open: "sse_line R s l = (s1, evs, x) \<Longrightarrow> x \<noteq> EndStream \<Longrightarrow> list_all (\<lambda>e. \<not> terminal e) evs"
    and line_close: "sse_line R s l = (s1, evs, x) \<Longrightarrow> x = EndStream \<Longrightarrow> ends_once terminal evs"
    and limit_ends: "ends_once terminal (sse_limit R)"
    and cancelled_ends: "ends_once terminal (sse_cancelled R)"
    and failed_ends: "ends_once terminal (sse_failed R s)"
    and ended_ends: "ends_once terminal (sse_ended R s)"
begin

lemma drain_ends:
  assumes "drain_lines (sse_line R) s buf = (s1, evs, rest, stop)"
  shows "if stop then ends_once terminal evs else list_all (\<lambda>e. \<not> terminal e) evs"
proof (rule drain_rule [OF assms])
  fix s l s1 evs evs2 s2 stop
  assume l: "sse_line R s l = (s1, evs, NextLine)"
    and r: "if stop then ends_once terminal evs2 else list_all (\<lambda>e. \<not> terminal e) evs2"
  show "if stop then ends_once terminal (evs @ evs2) else list_all (\<lambda>e. \<not> terminal e) (evs @ evs2)"
    using r line_open [OF l] ends_once_append by auto
qed (use line_open line_close in auto)

lemma loop_ends: "ends_once terminal (read_loop R n buf s reads)"
proof (induction reads arbitrary: n buf s)
  case (Cons r reads)
  show ?case
  proof (cases r)
    case (ReadChunk bytes)
    obtain s1 e1 b1 t1 where d: "drain_lines (sse_line R) s (buf @ bytes) = (s1, e1, b1, t1)" by (rule prod_cases4)
    show ?thesis using drain_ends [OF d] d ReadChunk limit_ends
      by (cases t1) (simp_all add: ends_once_append [OF _ Cons.IH])
  qed (use failed_ends cancelled_ends in simp_all)
qed (simp add: ended_ends)

end


section \<open>The events of the two protocols\<close>

fun chat_delta :: "inference_event \<Rightarrow> string" where
  "chat_delta (IvTextDelta d) = d"
| "chat_delta _ = []"

fun chat_completed :: "inference_event \<Rightarrow> string option" where
  "chat_completed (IvCompleted t) = Some t"
| "chat_completed _ = None"

fun chat_terminal :: "inference_event \<Rightarrow> bool" where
  "chat_terminal (IvCompleted t) = True"
| "chat_terminal IvCancelled = True"
| "chat_terminal (IvFailed c m) = True"
| "chat_terminal _ = False"

fun round_delta :: "round_event \<Rightarrow> string" where
  "round_delta (RvTextDelta d) = d"
| "round_delta _ = []"

fun round_completed :: "round_event \<Rightarrow> string option" where
  "round_completed (RvRawCompleted t) = Some t"
| "round_completed _ = None"

fun round_terminal :: "round_event \<Rightarrow> bool" where
  "round_terminal (RvToolCallsRequested r calls) = True"
| "round_terminal (RvRawCompleted t) = True"
| "round_terminal (RvFailed c m) = True"
| "round_terminal _ = False"

text \<open>Tool calls as a round may request them: at most 24, each for the given snapshot and well formed.\<close>

fun calls_within :: "uuid option \<Rightarrow> round_event \<Rightarrow> bool" where
  "calls_within snapshot (RvToolCallsRequested r calls) \<longleftrightarrow> calls \<noteq> [] \<and> length calls \<le> MAX_ROUND_CALLS
     \<and> (\<forall>c \<in> set calls. Some (call_snapshot_id c) = snapshot \<and> wire_bounded (call_arguments c)
          \<and> validate_call_shape (call_name c) (call_arguments c) = Inr ())"
| "calls_within snapshot _ = True"

section \<open>The OpenAI readers\<close>

lemma openai_chat_cases:
  assumes "openai_chat_line env full line = (full', evs, x)"
  obtains (skip) "full' = full" "evs = []" "x = NextLine"
  | (finish) "full' = full" "evs = [IvCompleted full]" "x = EndStream"
  | (delta) d where "full' = full @ d" "evs = [IvTextDelta d]" "x = NextLine"
  using assms unfolding openai_chat_line_def by (auto split: option.splits if_splits)

interpretation openai_chat: sse_protocol "openai_chat_reader env" "\<lambda>full. full" chat_delta chat_completed chat_terminal
proof unfold_locales
  fix s l s1 evs x
  assume "sse_line (openai_chat_reader env) s l = (s1, evs, x)"
  then have l: "openai_chat_line env s l = (s1, evs, x)" by (simp add: openai_chat_reader_def)
  show "s1 = s @ concat (map chat_delta evs)" by (rule openai_chat_cases [OF l]) simp_all
  show "x = EndStream \<and> t = s1" if "e \<in> set evs" "chat_completed e = Some t" for e t
    by (rule openai_chat_cases [OF l]) (use that in simp_all)
  show "list_all (\<lambda>e. \<not> chat_terminal e) evs" if "x \<noteq> EndStream"
    by (rule openai_chat_cases [OF l]) (use that in simp_all)
  show "ends_once chat_terminal evs" if "x = EndStream"
    by (rule openai_chat_cases [OF l]) (use that in \<open>simp_all add: ends_once_single\<close>)
qed (auto simp: openai_chat_reader_def ends_once_single)

lemma openai_choice_cases:
  assumes "openai_choice choice s = (s1, evs, x)"
  obtains ds where "or_text s1 = or_text s @ concat (map round_delta evs)"
    "evs = map RvTextDelta ds \<and> x = NextLine \<or> evs = map RvTextDelta ds @ [RvFailed ''TOOL_ARGUMENT_LIMIT'' []] \<and> x = EndStream"
proof -
  have "\<exists>ds. or_text s1 = or_text s @ concat (map round_delta evs) \<and>
      (evs = map RvTextDelta ds \<and> x = NextLine
       \<or> evs = map RvTextDelta ds @ [RvFailed ''TOOL_ARGUMENT_LIMIT'' []] \<and> x = EndStream)"
  proof (cases "pointer_str [''delta'', ''content''] choice")
    case None
    then have "or_text s1 = or_text s @ concat (map round_delta evs) \<and>
      (evs = map RvTextDelta [] \<and> x = NextLine
       \<or> evs = map RvTextDelta [] @ [RvFailed ''TOOL_ARGUMENT_LIMIT'' []] \<and> x = EndStream)"
      using assms unfolding openai_choice_def Let_def by (auto split: option.splits prod.splits bool.splits)
    then show ?thesis by blast
  next
    case (Some d)
    then have "or_text s1 = or_text s @ concat (map round_delta evs) \<and>
      (evs = map RvTextDelta [d] \<and> x = NextLine
       \<or> evs = map RvTextDelta [d] @ [RvFailed ''TOOL_ARGUMENT_LIMIT'' []] \<and> x = EndStream)"
      using assms unfolding openai_choice_def Let_def by (auto split: option.splits prod.splits bool.splits)
    then show ?thesis by blast
  qed
  then show thesis using that by blast
qed

lemma round_deltas [simp]:
  "list_all (\<lambda>e. \<not> round_terminal e) (map RvTextDelta ds)" "e \<in> set (map RvTextDelta ds) \<Longrightarrow> round_completed e = None"
  "list_all (calls_within snapshot) (map RvTextDelta ds)" "ends_once round_terminal (map RvTextDelta ds @ [RvFailed c m])"
  by (auto simp: list_all_iff intro!: ends_once_append ends_once_single)

lemma openai_done_round:
  "round_delta (openai_done env snapshot s) = []" "round_terminal (openai_done env snapshot s)"
  "round_completed (openai_done env snapshot s) = Some t \<Longrightarrow> t = or_text s"
  unfolding openai_done_def by (auto split: if_splits option.splits sum.splits)

lemma openai_round_cases:
  assumes "openai_round_line env snapshot s line = (s1, evs, x)"
  obtains (skip) "s1 = s" "evs = []" "x = NextLine"
  | (finish) "s1 = s" "evs = [openai_done env snapshot s]" "x = EndStream"
  | (choice) choice where "openai_choice choice s = (s1, evs, x)"
proof (cases "strip_prefix ''data: '' line")
  case None
  then show thesis using assms skip by (simp add: openai_round_line_def)
next
  case (Some data)
  show thesis
  proof (cases "trim data = ''[DONE]''")
    case True
    then have "s1 = s" "evs = [openai_done env snapshot s]" "x = EndStream"
      using assms Some by (auto simp: openai_round_line_def)
    then show thesis by (rule finish)
  next
    case False
    then show thesis using assms Some skip choice
      by (cases "Option.bind (sv_json env data) (jpointer [''choices'', ''0''])") (simp_all add: openai_round_line_def)
  qed
qed

interpretation openai_round: sse_protocol "openai_round_reader env snapshot" or_text round_delta round_completed round_terminal
proof unfold_locales
  fix s l s1 evs x
  assume "sse_line (openai_round_reader env snapshot) s l = (s1, evs, x)"
  then have "openai_round_line env snapshot s l = (s1, evs, x)" by (simp add: openai_round_reader_def)
  then have "or_text s1 = or_text s @ concat (map round_delta evs)
    \<and> (\<forall>e \<in> set evs. \<forall>t. round_completed e = Some t \<longrightarrow> x = EndStream \<and> t = or_text s1)
    \<and> (x \<noteq> EndStream \<longrightarrow> list_all (\<lambda>e. \<not> round_terminal e) evs) \<and> (x = EndStream \<longrightarrow> ends_once round_terminal evs)"
  proof (cases rule: openai_round_cases)
    case finish
    then show ?thesis by (auto simp: openai_done_round ends_once_single)
  next
    case (choice choice)
    then show ?thesis by (rule openai_choice_cases) auto
  qed simp
  then show "or_text s1 = or_text s @ concat (map round_delta evs)"
    "\<And>e t. e \<in> set evs \<Longrightarrow> round_completed e = Some t \<Longrightarrow> x = EndStream \<and> t = or_text s1"
    "x \<noteq> EndStream \<Longrightarrow> list_all (\<lambda>e. \<not> round_terminal e) evs" "x = EndStream \<Longrightarrow> ends_once round_terminal evs"
    by blast+
qed (auto simp: openai_round_reader_def ends_once_single split: if_splits)


text \<open>The calls requested are at most 24: the map is checked after every insertion.\<close>

lemma entry_update_some: "entry_update i f ps \<noteq> []"
  by (cases "(i, f, ps)" rule: entry_update.cases) auto

lemma tool_deltas_bound:
  "tool_deltas ds ps = (ps', False) \<Longrightarrow> length ps \<le> MAX_ROUND_CALLS \<Longrightarrow> length ps' \<le> MAX_ROUND_CALLS"
  by (induction ds ps arbitrary: ps' rule: tool_deltas.induct) (auto simp: Let_def split: if_splits)

definition openai_inv :: "openai_round \<Rightarrow> bool" where
  "openai_inv s \<longleftrightarrow> length (or_pending s) \<le> MAX_ROUND_CALLS"

lemma openai_done_good:
  assumes "openai_inv s"
  shows "calls_within snapshot (openai_done env snapshot s)"
proof (cases "or_pending s = []")
  case True
  then show ?thesis by (simp add: openai_done_def)
next
  case False
  show ?thesis
  proof (cases snapshot)
    case (Some snap)
    show ?thesis
    proof (cases "collect_results (parse_pending env snap) (List.enumerate 0 (map snd (or_pending s)))")
      case (Inr calls)
      have len: "length calls = length (or_pending s)" using collect_results_length [OF Inr] by simp
      have "call_snapshot_id c = snap \<and> wire_bounded (call_arguments c)
          \<and> validate_call_shape (call_name c) (call_arguments c) = Inr ()" if c: "c \<in> set calls" for c
      proof -
        obtain kc where "parse_pending env snap kc = Inr c" using collect_results_set [OF Inr c] by blast
        then obtain f n args i where "parse_repository_tool_call (sv_uuid env) f n args i snap = Inr c"
          by (cases kc) (auto simp: parse_pending_def)
        then show ?thesis unfolding parsed_call_Inr validate_call_shape_def using parsed_arguments by auto
      qed
      then show ?thesis using False Some Inr len assms by (auto simp: openai_done_def openai_inv_def)
    qed (simp add: openai_done_def False Some)
  qed (simp add: openai_done_def False)
qed

lemma openai_choice_inv:
  assumes "openai_choice choice s = (s1, evs, x)" and "openai_inv s" and "x \<noteq> EndStream"
  shows "openai_inv s1"
proof (cases "Option.bind (jpointer [''delta'', ''tool_calls''] choice) as_array")
  case None
  then show ?thesis using assms by (auto simp: openai_choice_def openai_inv_def Let_def)
next
  case (Some ds)
  obtain ps over where t: "tool_deltas ds (or_pending s) = (ps, over)" by (rule prod.exhaust)
  then show ?thesis using assms Some tool_deltas_bound [of ds "or_pending s" ps]
    by (cases over) (auto simp: openai_choice_def openai_inv_def Let_def)
qed


interpretation openai_calls: sse_events "openai_round_reader env snapshot" openai_inv "calls_within snapshot"
proof unfold_locales
  fix s l s1 evs x
  assume "sse_line (openai_round_reader env snapshot) s l = (s1, evs, x)" and i: "openai_inv s"
  then have "openai_round_line env snapshot s l = (s1, evs, x)" by (simp add: openai_round_reader_def)
  then show "list_all (calls_within snapshot) evs \<and> (x \<noteq> EndStream \<longrightarrow> openai_inv s1)"
  proof (cases rule: openai_round_cases)
    case finish
    then show ?thesis using openai_done_good [OF i] by simp
  next
    case (choice choice)
    then show ?thesis using openai_choice_inv [OF choice i] by (elim openai_choice_cases) auto
  qed (simp add: i)
qed (auto simp: openai_round_reader_def)

lemma openai_never_breaks: "snd (snd (sse_line (openai_round_reader env snapshot) s l)) \<noteq> StopChunk"
proof -
  obtain s1 evs x where l: "openai_round_line env snapshot s l = (s1, evs, x)" by (rule prod_cases3)
  then have "x \<noteq> StopChunk"
  proof (cases rule: openai_round_cases)
    case (choice choice)
    then show ?thesis by (rule openai_choice_cases) auto
  qed simp_all
  then show ?thesis using l by (simp add: openai_round_reader_def)
qed

section \<open>The Gemini readers\<close>

lemma chat_deltas [simp]: "concat (map (chat_delta \<circ> IvTextDelta) ds) = concat ds"
  by (induction ds) auto

interpretation gemini_chat: sse_text "gemini_chat_reader env late" "\<lambda>full. full" chat_delta chat_completed
proof unfold_locales
  fix s l s1 evs x
  assume "sse_line (gemini_chat_reader env late) s l = (s1, evs, x)"
  then have "gemini_chat_line env s l = (s1, evs, x)" by (simp add: gemini_chat_reader_def Let_def)
  then obtain ds where "s1 = s @ concat ds" "evs = map IvTextDelta ds"
    unfolding gemini_chat_line_def by (force split: option.splits if_splits)
  then show "s1 = s @ concat (map chat_delta evs)"
    "\<And>e t. e \<in> set evs \<Longrightarrow> chat_completed e = Some t \<Longrightarrow> x = EndStream \<and> t = s1" by auto
qed (auto simp: gemini_chat_reader_def Let_def split: if_splits)

text \<open>The parts of one line: deltas, and a failure when the stream ends there.\<close>

definition gemini_inv :: "uuid option \<Rightarrow> gemini_round \<Rightarrow> bool" where
  "gemini_inv snapshot s \<longleftrightarrow> length (gr_calls s) \<le> MAX_ROUND_CALLS
     \<and> (\<forall>c \<in> set (gr_calls s). Some (call_snapshot_id c) = snapshot \<and> wire_bounded (call_arguments c)
          \<and> validate_call_shape (call_name c) (call_arguments c) = Inr ())"

lemma gemini_function_step:
  assumes "gemini_function env snapshot part s = Inr s1"
  shows "gr_text s1 = gr_text s" and "gemini_inv snapshot s \<Longrightarrow> gemini_inv snapshot s1"
proof -
  have "s1 = s \<or> (\<exists>call f n args i snap. length (gr_calls s) < MAX_ROUND_CALLS \<and> snapshot = Some snap
      \<and> s1 = s\<lparr>gr_calls := gr_calls s @ [call], gr_parts := gr_parts s @ [part]\<rparr>
      \<and> parse_repository_tool_call (sv_uuid env) f n args i snap = Inr call)"
    using assms unfolding gemini_function_def Let_def by (auto split: option.splits if_splits sum.splits)
  then show "gr_text s1 = gr_text s" "gemini_inv snapshot s \<Longrightarrow> gemini_inv snapshot s1"
    using parsed_arguments by (auto simp: gemini_inv_def parsed_call_Inr validate_call_shape_def)
qed


text \<open>
  The parts of a line yield deltas, and a failure as the last event exactly when the stream ends there.
\<close>

lemma gemini_parts_step:
  "gemini_parts env snapshot parts s = (s1, evs, x) \<Longrightarrow>
     gr_text s1 = gr_text s @ concat (map round_delta evs) \<and> (gemini_inv snapshot s \<longrightarrow> gemini_inv snapshot s1)
     \<and> (\<exists>ds. evs = map RvTextDelta ds \<and> x = NextLine \<or> (\<exists>code. evs = map RvTextDelta ds @ [RvFailed code []] \<and> x = EndStream))"
proof (induction env snapshot parts s arbitrary: s1 evs x rule: gemini_parts.induct)
  case (1 env snapshot s)
  then show ?case by auto
next
  case (2 env snapshot part parts s)
  show ?case
  proof (cases "Option.bind (jget ''thought'' part) as_bool = Some True")
    case True
    then show ?thesis using 2 by simp
  next
    case False
    define s2 where "s2 = s\<lparr>gr_text := push_text (get_str ''text'' part) (gr_text s)\<rparr>"
    define ds where "ds = (case get_str ''text'' part of Some d \<Rightarrow> [d] | None \<Rightarrow> [])"
    have grow: "gr_text s2 = gr_text s @ concat ds" and inv2: "gemini_inv snapshot s \<Longrightarrow> gemini_inv snapshot s2"
      unfolding s2_def ds_def by (cases "get_str ''text'' part"; simp add: gemini_inv_def)+
    have evs1: "(case get_str ''text'' part of Some d \<Rightarrow> [RvTextDelta d] | None \<Rightarrow> []) = map RvTextDelta ds"
      unfolding ds_def by (cases "get_str ''text'' part") simp_all
    have c: "concat (map round_delta (map RvTextDelta zs)) = concat zs" for zs by (induction zs) auto
    have step: "gemini_parts env snapshot (part # parts) s = (case gemini_function env snapshot part s2 of
        Inl code \<Rightarrow> (s2, map RvTextDelta ds @ [RvFailed code []], EndStream)
      | Inr s3 \<Rightarrow> (case gemini_parts env snapshot parts s3 of (s4, evs4, x) \<Rightarrow> (s4, map RvTextDelta ds @ evs4, x)))"
      using False by (simp only: gemini_parts.simps if_False Let_def s2_def [symmetric] evs1)
    show ?thesis
    proof (cases "gemini_function env snapshot part s2")
      case (Inl code)
      then have "s1 = s2" "evs = map RvTextDelta ds @ [RvFailed code []]" "x = EndStream"
        using 2(3) unfolding step by simp_all
      then show ?thesis using grow inv2 c [of ds] by auto
    next
      case (Inr s3)
      obtain s4 evs4 x4 where p: "gemini_parts env snapshot parts s3 = (s4, evs4, x4)" by (rule prod_cases3)
      then have v: "s1 = s4" "evs = map RvTextDelta ds @ evs4" "x = x4" using 2(3) Inr unfolding step by simp_all
      have ih: "gr_text s4 = gr_text s3 @ concat (map round_delta evs4) \<and> (gemini_inv snapshot s3 \<longrightarrow> gemini_inv snapshot s4)
        \<and> (\<exists>ds. evs4 = map RvTextDelta ds \<and> x4 = NextLine
             \<or> (\<exists>code. evs4 = map RvTextDelta ds @ [RvFailed code []] \<and> x4 = EndStream))"
        using "2.IH"(2) [OF False refl s2_def refl Inr] p by simp
      then obtain ds4 where e: "evs4 = map RvTextDelta ds4 \<and> x4 = NextLine
          \<or> (\<exists>code. evs4 = map RvTextDelta ds4 @ [RvFailed code []] \<and> x4 = EndStream)" by blast
      have "evs = map RvTextDelta (ds @ ds4) \<and> x = NextLine
          \<or> (\<exists>code. evs = map RvTextDelta (ds @ ds4) @ [RvFailed code []] \<and> x = EndStream)"
        using e v by auto
      moreover have "gr_text s1 = gr_text s @ concat (map round_delta evs)"
        using ih grow gemini_function_step(1) [OF Inr] v c [of ds] by simp
      moreover have "gemini_inv snapshot s \<longrightarrow> gemini_inv snapshot s1"
        using ih inv2 gemini_function_step(2) [OF Inr] v by blast
      ultimately show ?thesis by blast
    qed
  qed
qed


lemma gemini_round_cases:
  assumes "gemini_round_line env snapshot s line = (s1, evs, x)"
  obtains (skip) "s1 = s" "evs = []" "x \<noteq> EndStream"
  | (parts) parts where "gemini_parts env snapshot parts s = (s1, evs, x)"
proof (cases "strip_prefix ''data: '' line")
  case None
  then show thesis using assms skip by (simp add: gemini_round_line_def)
next
  case (Some data)
  show thesis
  proof (cases "trim data = ''[DONE]''")
    case True
    then have "s1 = s" "evs = []" "x \<noteq> EndStream" using assms Some by (auto simp: gemini_round_line_def)
    then show thesis by (rule skip)
  next
    case False
    then show thesis using assms Some skip parts
      by (cases "Option.bind (sv_json env data) (\<lambda>v. Option.bind
        (jpointer [''candidates'', ''0'', ''content'', ''parts''] v) as_array)") (simp_all add: gemini_round_line_def)
  qed
qed

lemma gemini_finish_round:
  "ends_once round_terminal (gemini_finish s)" "concat (map round_delta (gemini_finish s)) = []"
  "e \<in> set (gemini_finish s) \<Longrightarrow> round_completed e = Some t \<Longrightarrow> t = gr_text s"
  "gemini_inv snapshot s \<Longrightarrow> list_all (calls_within snapshot) (gemini_finish s)"
  by (auto simp: gemini_finish_def gemini_inv_def ends_once_single
      intro: ends_once_append [of _ "[RvProviderToolParts p]" for p, simplified] split: if_splits)

interpretation gemini_round: sse_protocol "gemini_round_reader env snapshot" gr_text round_delta round_completed round_terminal
proof unfold_locales
  fix s l s1 evs x
  assume "sse_line (gemini_round_reader env snapshot) s l = (s1, evs, x)"
  then have "gemini_round_line env snapshot s l = (s1, evs, x)" by (simp add: gemini_round_reader_def)
  then have "gr_text s1 = gr_text s @ concat (map round_delta evs)
    \<and> (\<forall>e \<in> set evs. round_completed e = None)
    \<and> (x \<noteq> EndStream \<longrightarrow> list_all (\<lambda>e. \<not> round_terminal e) evs) \<and> (x = EndStream \<longrightarrow> ends_once round_terminal evs)"
  proof (cases rule: gemini_round_cases)
    case (parts parts)
    from gemini_parts_step [OF parts] show ?thesis by auto
  qed simp
  then show "gr_text s1 = gr_text s @ concat (map round_delta evs)"
    "\<And>e t. e \<in> set evs \<Longrightarrow> round_completed e = Some t \<Longrightarrow> x = EndStream \<and> t = gr_text s1"
    "x \<noteq> EndStream \<Longrightarrow> list_all (\<lambda>e. \<not> round_terminal e) evs" "x = EndStream \<Longrightarrow> ends_once round_terminal evs"
    by (simp_all only: HOL.simp_thms option.distinct not_False_eq_True)
qed (simp_all add: gemini_round_reader_def ends_once_single gemini_finish_round)

interpretation gemini_calls: sse_events "gemini_round_reader env snapshot" "gemini_inv snapshot" "calls_within snapshot"
proof unfold_locales
  fix s l s1 evs x
  assume "sse_line (gemini_round_reader env snapshot) s l = (s1, evs, x)" and i: "gemini_inv snapshot s"
  then have "gemini_round_line env snapshot s l = (s1, evs, x)" by (simp add: gemini_round_reader_def)
  then show "list_all (calls_within snapshot) evs \<and> (x \<noteq> EndStream \<longrightarrow> gemini_inv snapshot s1)"
  proof (cases rule: gemini_round_cases)
    case (parts parts)
    from gemini_parts_step [OF parts] i show ?thesis by auto
  qed (simp add: i)
qed (simp_all add: gemini_round_reader_def gemini_finish_round)

section \<open>Properties\<close>

text \<open>
  C23: A round stream of either provider, whatever the bytes, read errors and cancellations it meets, ends
  with its only terminal event: requested calls, a raw completion, or a failure.
\<close>

theorem round_stream_ends_once:
  "ends_once round_terminal (openai_round_stream env request_id snapshot reads)
   \<and> ends_once round_terminal (gemini_round_stream env request_id snapshot reads)"
proof -
  have "list_all (\<lambda>e. \<not> round_terminal e) [RvStarted request_id]" by simp
  from ends_once_append [OF this] show ?thesis
    using openai_round.loop_ends gemini_round.loop_ends
    unfolding openai_round_stream_def gemini_round_stream_def by fastforce
qed

text \<open>
  C26: Every stream that completes does so with exactly the text it streamed: the concatenation of its
  deltas, for both providers, in chat and in an agent round.
\<close>

theorem completed_text_was_streamed:
  "(IvCompleted t \<in> set (openai_chat_stream env i reads) \<longrightarrow> t = concat (map chat_delta (openai_chat_stream env i reads)))
   \<and> (IvCompleted t \<in> set (gemini_chat_stream env late i reads)
       \<longrightarrow> t = concat (map chat_delta (gemini_chat_stream env late i reads)))
   \<and> (RvRawCompleted t \<in> set (openai_round_stream env i snapshot reads)
       \<longrightarrow> t = concat (map round_delta (openai_round_stream env i snapshot reads)))
   \<and> (RvRawCompleted t \<in> set (gemini_round_stream env i snapshot reads)
       \<longrightarrow> t = concat (map round_delta (gemini_round_stream env i snapshot reads)))"
proof (intro conjI impI)
  assume "IvCompleted t \<in> set (openai_chat_stream env i reads)"
  then show "t = concat (map chat_delta (openai_chat_stream env i reads))"
    using openai_chat.loop_text [of "IvCompleted t" env 0 "[]" "[]" reads t] by (simp add: openai_chat_stream_def)
next
  assume "IvCompleted t \<in> set (gemini_chat_stream env late i reads)"
  then show "t = concat (map chat_delta (gemini_chat_stream env late i reads))"
    using gemini_chat.loop_text [of "IvCompleted t" env late 0 "[]" "[]" reads t] by (simp add: gemini_chat_stream_def)
next
  assume "RvRawCompleted t \<in> set (openai_round_stream env i snapshot reads)"
  then show "t = concat (map round_delta (openai_round_stream env i snapshot reads))"
    using openai_round.loop_text [of "RvRawCompleted t" env snapshot 0 "[]" "\<lparr> or_text = [], or_pending = [] \<rparr>" reads t] by (simp add: openai_round_stream_def)
next
  assume "RvRawCompleted t \<in> set (gemini_round_stream env i snapshot reads)"
  then show "t = concat (map round_delta (gemini_round_stream env i snapshot reads))"
    using gemini_round.loop_text [of "RvRawCompleted t" env snapshot 0 "[]" "\<lparr> gr_text = [], gr_calls = [], gr_parts = [] \<rparr>" reads t] by (simp add: gemini_round_stream_def)
qed

text \<open>
  C24: Whatever a provider sends, the tool calls it can request in a round are between one and 24, are for
  the snapshot of the request, and have well-formed arguments within the limits of the wire.
\<close>

theorem requested_calls_are_bounded:
  assumes "e \<in> set (openai_round_stream env i snapshot reads) \<or> e \<in> set (gemini_round_stream env i snapshot reads)"
  shows "calls_within snapshot e"
proof -
  have "list_all (calls_within snapshot) (openai_round_stream env i snapshot reads)"
    unfolding openai_round_stream_def by (simp add: openai_calls.loop_good openai_inv_def)
  moreover have "list_all (calls_within snapshot) (gemini_round_stream env i snapshot reads)"
    unfolding gemini_round_stream_def by (simp add: gemini_calls.loop_good gemini_inv_def)
  ultimately show ?thesis using assms unfolding list_all_iff by blast
qed

text \<open>
  C25: How the network splits an OpenAI response does not matter: a body of at most 1 MiB yields the same
  events in any chunks as in one, also when a read error or a cancellation follows it.
\<close>

theorem chunk_boundaries_do_not_matter:
  assumes "length (concat cs) \<le> MAX_LINE_BUFFER" and "at_end tail"
  shows "openai_round_stream env i snapshot (map ReadChunk cs @ tail)
    = openai_round_stream env i snapshot (ReadChunk (concat cs) # tail)"
proof -
  have over: "sse_over (openai_round_reader env snapshot) r b \<longleftrightarrow> r > MAX_STREAM_BYTES \<or> b > MAX_LINE_BUFFER" for r b
    by (simp add: openai_round_reader_def round_over_def)
  have r: "0 + length (concat cs) \<le> MAX_STREAM_BYTES"
    using assms(1) by (simp add: MAX_LINE_BUFFER_def MAX_STREAM_BYTES_def)
  have b: "length [] + length (concat cs) \<le> MAX_LINE_BUFFER" using assms(1) by simp
  note split = read_loop_chunks [where R = "openai_round_reader env snapshot", OF openai_never_breaks over]
  have plain: "CHR 0x0A \<notin> set ([] :: string)" by simp
  have "read_loop (openai_round_reader env snapshot) 0 [] s (map ReadChunk cs @ tail)
      = read_loop (openai_round_reader env snapshot) 0 [] s (map ReadChunk [concat cs] @ tail)" for s
    by (subst (1 2) split) (use r b plain assms(2) in \<open>simp_all only: concat.simps append_Nil2 not_False_eq_True list.set empty_iff\<close>)
  then show ?thesis by (simp add: openai_round_stream_def)
qed

text \<open>
  The Gemini chat stream does not keep the protocol: after a read error it reports the failure and
  then a completion, unless the request happens to be cancelled.
\<close>

theorem gemini_chat_completes_after_failure:
  "gemini_chat_stream env False i (ReadFailed # reads) =
     [IvStarted i, IvFailed ''STREAM_READ_ERROR'' [], IvCompleted []]
   \<and> \<not> ends_once chat_terminal (gemini_chat_stream env False i (ReadFailed # reads))"
proof -
  have s: "gemini_chat_stream env False i (ReadFailed # reads) =
      [IvStarted i, IvFailed ''STREAM_READ_ERROR'' [], IvCompleted []]"
    by (simp add: gemini_chat_stream_def gemini_chat_reader_def Let_def)
  show ?thesis unfolding s by (auto simp: ends_once_def append_eq_Cons_conv Cons_eq_append_conv)
qed


section \<open>Witnesses\<close>

definition stream_demo_env :: stream_env where
  "stream_demo_env = \<lparr>
     sv_json = (\<lambda>t. if t = ''{}'' then Some (JObj [])
       else Some (JObj [(''choices'', JArr [JObj [(''delta'', JObj [(''tool_calls'', JArr [JObj [(''index'', JInt 0),
         (''id'', JStr ''7''), (''function'', JObj [(''name'', JStr ''repo_status''), (''arguments'', JStr ''{}'')])]])])]])])),
     sv_show = (\<lambda>_. ''{}''), sv_uuid = (\<lambda>t. if t = ''7'' then Some 7 else None), sv_fresh = (\<lambda>k. of_nat k) \<rparr>"

definition stream_demo_chunks :: "string list" where
  "stream_demo_chunks = [''data'', '': call'' @ [CHR 0x0A] @ ''data: [DO'', ''NE]'' @ [CHR 0x0A]]"

lemma stream_demo_events: "openai_round_stream stream_demo_env 1 (Some 5) (map ReadChunk stream_demo_chunks @ []) =
    [RvStarted 1, RvToolCallsRequested 0 [\<lparr> call_id = 7, call_snapshot_id = 5, call_name = RepoStatus,
       call_arguments = ArgRepoStatus \<rparr>]]"
  by code_simp

lemma requested_calls_are_bounded_witness:
  "calls_within (Some 5) (RvToolCallsRequested 0 [\<lparr> call_id = 7, call_snapshot_id = 5, call_name = RepoStatus,
     call_arguments = ArgRepoStatus \<rparr>])"
  by (rule requested_calls_are_bounded [where reads = "map ReadChunk stream_demo_chunks @ []" and i = 1 and env = stream_demo_env])
    (simp only: stream_demo_events list.set insert_iff simp_thms)

lemma completed_text_was_streamed_witness:
  "IvCompleted ''hi'' \<in> set (openai_chat_stream (stream_demo_env\<lparr>sv_json := (\<lambda>_. Some (JObj [(''choices'', JArr [JObj
       [(''delta'', JObj [(''content'', JStr ''hi'')])]])]))\<rparr>) 1 [ReadChunk (''data: x'' @ [CHR 0x0A])])
   \<and> ''hi'' = concat (map chat_delta (openai_chat_stream (stream_demo_env\<lparr>sv_json := (\<lambda>_. Some (JObj [(''choices'', JArr [JObj
       [(''delta'', JObj [(''content'', JStr ''hi'')])]])]))\<rparr>) 1 [ReadChunk (''data: x'' @ [CHR 0x0A])]))"
    (is "?e \<in> set (openai_chat_stream ?env 1 ?reads) \<and> _")
proof -
  have "?e \<in> set (openai_chat_stream ?env 1 ?reads)" by code_simp
  then show ?thesis using completed_text_was_streamed [of "''hi''" ?env 1 ?reads] by blast
qed

lemma chunk_boundaries_do_not_matter_witness:
  "length (concat stream_demo_chunks) \<le> MAX_LINE_BUFFER \<and> at_end []
   \<and> openai_round_stream stream_demo_env 1 (Some 5) (map ReadChunk stream_demo_chunks @ [])
     = openai_round_stream stream_demo_env 1 (Some 5) (ReadChunk (concat stream_demo_chunks) # [])"
proof -
  have len: "length (concat stream_demo_chunks) \<le> MAX_LINE_BUFFER" by (simp add: stream_demo_chunks_def MAX_LINE_BUFFER_def)
  have tail: "at_end []" by (simp add: at_end_def)
  show ?thesis using len tail chunk_boundaries_do_not_matter [OF len tail] by blast
qed

end
