(* ===== verification/Provider_Adapters.thy ===== *)
theory Provider_Adapters
  imports Provider_Stream
begin

text \<open>
  The requests of \<open>mentat-inference-openai\<close>: how \<open>openai_adapter.rs\<close> and \<open>gemini_adapter.rs\<close> build the
  HTTP requests of model discovery, verification, health check and chat, how they read the bounded JSON
  replies, and the dispatch of \<open>MultiProviderAdapter\<close> (\<open>lib.rs\<close>).

  The HTTP library is the parameter \<open>hv_send\<close>, from a request to what came back; whether its client could
  be built and which texts are header values are parameters too, with the URL and JSON parsers and the
  latency. Texts for the user are left out, but for the diagnosis of a Gemini reply without text.
\<close>

section \<open>Requests and replies\<close>

datatype http_body = NoBody | JsonBody json | RawBody string

record http_request =
  hr_post :: bool
  hr_url :: string
  hr_headers :: "(string \<times> string) list"
  hr_timeout :: u64
  hr_body :: http_body

datatype http_reply = SendError | Reply nat "nat option" "stream_read list"

record http_env =
  hv_client :: bool
  hv_header_ok :: "string \<Rightarrow> bool"
  hv_send :: "http_request \<Rightarrow> http_reply"
  hv_url :: url_parser
  hv_json :: "string \<Rightarrow> json option"
  hv_elapsed :: u64

definition is_success :: "nat \<Rightarrow> bool" where
  "is_success status \<longleftrightarrow> 200 \<le> status \<and> status < 300"

definition request_timeout :: "backend_profile \<Rightarrow> u64" where
  "request_timeout p = clamp (bp_timeout_secs p) 5 300"

definition profile_key :: "backend_profile \<Rightarrow> string" where
  "profile_key p = (case bp_api_key p of Some k \<Rightarrow> k | None \<Rightarrow> [])"

text \<open>The body of a reply read under a limit; there is no cancellation token here.\<close>

fun read_bounded :: "nat \<Rightarrow> string \<Rightarrow> string \<Rightarrow> stream_read list \<Rightarrow> string \<Rightarrow> string result" where
  "read_bounded limit too_large read_error [] body = Inr body"
| "read_bounded limit too_large read_error (ReadFailed # reads) body = Inl (BackendError read_error)"
| "read_bounded limit too_large read_error (ReadCancelled # reads) body = read_bounded limit too_large read_error reads body"
| "read_bounded limit too_large read_error (ReadChunk c # reads) body =
     (if length body + length c > limit then Inl (BackendError too_large)
      else read_bounded limit too_large read_error reads (body @ c))"

definition parse_bounded_json ::
  "(string \<Rightarrow> json option) \<Rightarrow> nat option \<Rightarrow> stream_read list \<Rightarrow> nat \<Rightarrow> string \<Rightarrow> string \<Rightarrow> string \<Rightarrow> json result" where
  "parse_bounded_json parse content_length reads limit too_large read_error invalid =
     (if \<exists>n \<in> set_option content_length. n > limit then Inl (BackendError too_large)
      else then_do (read_bounded limit too_large read_error reads []) (\<lambda>body.
        ok_or (parse body) (BackendError invalid)))"

text \<open>Sending a request whose reply is a JSON value, with the error codes of the operation.\<close>

definition fetch_json :: "http_env \<Rightarrow> string \<Rightarrow> nat \<Rightarrow> http_request \<Rightarrow> json result" where
  "fetch_json env operation limit rq =
     (case hv_send env rq of
        SendError \<Rightarrow> Inl (BackendError (operation @ ''_NETWORK_ERROR''))
      | Reply status content_length reads \<Rightarrow>
          if \<not> is_success status then Inl (BackendError (operation @ ''_HTTP_'' @ show_nat status))
          else parse_bounded_json (hv_json env) content_length reads limit
            (operation @ ''_RESPONSE_TOO_LARGE'') (operation @ ''_READ_ERROR'') (operation @ ''_INVALID_JSON''))"

definition finish_catalog :: "http_env \<Rightarrow> available_model list \<Rightarrow> model_catalog result" where
  "finish_catalog env ms =
     (let c = with_latency (hv_elapsed env) (from_untrusted ms) in
      if mc_models c = [] then Inl (BackendError ''MODEL_DISCOVERY_EMPTY'') else Inr c)"

definition health_of :: "http_env \<Rightarrow> http_request \<Rightarrow> health_status" where
  "health_of env rq =
     (case hv_send env rq of
        SendError \<Rightarrow> \<lparr> hs_healthy = False, hs_message = [], hs_latency_ms = None \<rparr>
      | Reply status content_length reads \<Rightarrow>
          \<lparr> hs_healthy = is_success status, hs_message = [], hs_latency_ms = Some (hv_elapsed env) \<rparr>)"

definition unhealthy :: health_status where
  "unhealthy = \<lparr> hs_healthy = False, hs_message = [], hs_latency_ms = None \<rparr>"

section \<open>OpenAI and compatible providers\<close>

abbreviation backend_error :: "string \<Rightarrow> mentat_error" where
  "backend_error code \<equiv> BackendError code"

definition bearer :: "http_env \<Rightarrow> string \<Rightarrow> (string \<times> string) list result" where
  "bearer env key =
     (if hv_header_ok env (''Bearer '' @ key) then Inr [(''authorization'', ''Bearer '' @ key)]
      else Inl (backend_error ''INVALID_HEADER''))"

definition authorization_headers :: "http_env \<Rightarrow> backend_profile \<Rightarrow> (string \<times> string) list result" where
  "authorization_headers env p =
     (if bp_provider p = LocalMock then Inl (backend_error ''LOCAL_RUNTIME_UNAVAILABLE'')
      else if requires_api_key (bp_provider p) \<and> profile_key p = [] then Inl (backend_error ''MISSING_API_KEY'')
      else if profile_key p \<noteq> [] then bearer env (profile_key p) else Inr [])"

definition CHAT_PATH :: string where
  "CHAT_PATH = ''/chat/completions''"

abbreviation base_of :: "backend_profile \<Rightarrow> string" where
  "base_of p \<equiv> trim_end_char (CHR ''/'') (bp_base_url p)"

definition models_url :: "string \<Rightarrow> string" where
  "models_url base_url =
     (let base = trim_end_char (CHR ''/'') base_url in
      if suffix CHAT_PATH base then take (length base - length CHAT_PATH) base @ ''/models'' else base @ ''/models'')"

definition chat_completions_url :: "string \<Rightarrow> string" where
  "chat_completions_url base_url =
     (let base = trim_end_char (CHR ''/'') base_url in if suffix CHAT_PATH base then base else base @ CHAT_PATH)"

definition openai_agent_endpoint :: "backend_profile \<Rightarrow> string" where
  "openai_agent_endpoint p = chat_completions_url (bp_base_url p)"

definition openai_client :: "http_env \<Rightarrow> unit result" where
  "openai_client env = guard_err (hv_client env) (backend_error ''OPENAI_CLIENT_INIT_FAILED'')"

definition openai_discover_request :: "http_env \<Rightarrow> backend_profile \<Rightarrow> http_request result" where
  "openai_discover_request env p =
     then_do (validate_url (hv_url env) p) (\<lambda>_.
     then_do (openai_client env) (\<lambda>_.
     then_do (authorization_headers env p) (\<lambda>headers.
       Inr \<lparr> hr_post = False, hr_url = models_url (bp_base_url p), hr_headers = headers,
             hr_timeout = request_timeout p, hr_body = NoBody \<rparr>)))"

definition openai_models :: "json \<Rightarrow> available_model list result" where
  "openai_models v =
     then_do (ok_or (Option.bind (jget ''data'' v) as_array) (backend_error ''MODEL_DISCOVERY_INVALID_SCHEMA'')) (\<lambda>items.
       Inr (map (\<lambda>i. \<lparr> am_id = i, am_display_name = i \<rparr>) (List.map_filter (get_str ''id'') items)))"

definition openai_discover_models :: "http_env \<Rightarrow> backend_profile \<Rightarrow> model_catalog result" where
  "openai_discover_models env p =
     then_do (openai_discover_request env p) (\<lambda>rq.
     then_do (fetch_json env ''MODEL_DISCOVERY'' 4194304 rq) (\<lambda>v.
     then_do (openai_models v) (finish_catalog env)))"

definition openai_verify_request :: "http_env \<Rightarrow> backend_profile \<Rightarrow> http_request result" where
  "openai_verify_request env p =
     then_do (validate_url (hv_url env) p) (\<lambda>_.
       if is_blank (bp_model p) then Inl (backend_error ''MODEL_NOT_SELECTED'')
       else then_do (openai_client env) (\<lambda>_.
       then_do (authorization_headers env p) (\<lambda>headers.
         Inr \<lparr> hr_post = True, hr_url = chat_completions_url (bp_base_url p), hr_headers = headers,
               hr_timeout = request_timeout p,
               hr_body = JsonBody (JObj [(''model'', JStr (bp_model p)),
                 (''messages'', JArr [JObj [(''role'', JStr ''user''), (''content'', JStr ''Reply with OK.'')]]),
                 (''max_tokens'', JInt 1), (''stream'', JBool False)]) \<rparr>)))"

definition openai_compatible :: "json \<Rightarrow> bool" where
  "openai_compatible v =
     (case pointer_str [''choices'', ''0'', ''message'', ''content''] v of
        Some t \<Rightarrow> \<not> is_blank t | None \<Rightarrow> False)"

definition openai_verify_model :: "http_env \<Rightarrow> backend_profile \<Rightarrow> model_verification result" where
  "openai_verify_model env p =
     then_do (openai_verify_request env p) (\<lambda>rq.
     then_do (fetch_json env ''MODEL_VERIFY'' 1048576 rq) (\<lambda>v.
       Inr \<lparr> mv_compatible = openai_compatible v, mv_message = [], mv_latency_ms = Some (hv_elapsed env) \<rparr>))"

text \<open>
  The health check and the chat request look for the chat path in the URL as it is written, without
  removing slashes first.
\<close>

definition openai_health_url :: "backend_profile \<Rightarrow> string" where
  "openai_health_url p =
     (if suffix CHAT_PATH (bp_base_url p) then bp_base_url p else base_of p @ ''/models'')"

definition openai_health_request :: "http_env \<Rightarrow> backend_profile \<Rightarrow> http_request result" where
  "openai_health_request env p =
     then_do (validate_url (hv_url env) p) (\<lambda>_.
     then_do (bearer env (profile_key p)) (\<lambda>headers.
     then_do (openai_client env) (\<lambda>_.
       Inr \<lparr> hr_post = False, hr_url = openai_health_url p, hr_headers = headers,
             hr_timeout = request_timeout p, hr_body = NoBody \<rparr>)))"

definition openai_health_check :: "http_env \<Rightarrow> backend_profile \<Rightarrow> health_status result" where
  "openai_health_check env p =
     (if profile_key p = [] then Inr unhealthy
      else then_do (openai_health_request env p) (\<lambda>rq. Inr (health_of env rq)))"

definition json_header :: "string \<times> string" where
  "json_header = (''content-type'', ''application/json'')"

definition router_headers :: "backend_profile \<Rightarrow> (string \<times> string) list" where
  "router_headers p =
     (if bp_provider p = OpenRouter
      then [(''http-referer'', ''https://github.com/Yupkidangju/CodeMentat''), (''x-title'', ''Code Mentat'')] else [])"

definition openai_chat_url :: "backend_profile \<Rightarrow> string" where
  "openai_chat_url p = (if suffix CHAT_PATH (bp_base_url p) then bp_base_url p else base_of p @ CHAT_PATH)"

definition user_content :: "inference_request \<Rightarrow> string" where
  "user_content req =
     (if ir_user_question req = [] then ir_prompt_context req
      else ir_prompt_context req @ [CHR 0x0A, CHR 0x0A] @ ''## User Question'' @ [CHR 0x0A] @ ir_user_question req)"

definition openai_chat_request :: "http_env \<Rightarrow> inference_request \<Rightarrow> http_request result" where
  "openai_chat_request env req =
     (let p = ir_profile req in
      if profile_key p = [] then Inl (backend_error ''MISSING_API_KEY'')
      else if is_blank (bp_model p) then Inl (backend_error ''MODEL_NOT_SELECTED'')
      else then_do (validate_url (hv_url env) p) (\<lambda>_.
        then_do (bearer env (profile_key p)) (\<lambda>auth.
        then_do (openai_client env) (\<lambda>_.
          Inr \<lparr> hr_post = True, hr_url = openai_chat_url p, hr_headers = json_header # auth @ router_headers p,
                hr_timeout = request_timeout p,
                hr_body = JsonBody (JObj [(''model'', JStr (bp_model p)), (''stream'', JBool True),
                  (''messages'', JArr [JObj [(''role'', JStr ''system''), (''content'', JStr (ir_system_contract req))],
                     JObj [(''role'', JStr ''user''), (''content'', JStr (user_content req))]])]) \<rparr>))))"

text \<open>The response, or the cancellation when it comes first.\<close>

definition open_stream :: "http_env \<Rightarrow> bool \<Rightarrow> string \<Rightarrow> string \<Rightarrow> http_request \<Rightarrow> stream_read list result" where
  "open_stream env cancelled_first network_error http_prefix rq =
     (if cancelled_first then Inl ErrCancelled
      else case hv_send env rq of
        SendError \<Rightarrow> Inl (backend_error network_error)
      | Reply status content_length reads \<Rightarrow>
          if is_success status then Inr reads else Inl (backend_error (http_prefix @ show_nat status)))"

definition openai_infer_stream ::
  "http_env \<Rightarrow> stream_env \<Rightarrow> bool \<Rightarrow> inference_request \<Rightarrow> inference_event list result" where
  "openai_infer_stream env senv cancelled_first req =
     then_do (openai_chat_request env req) (\<lambda>rq.
     then_do (open_stream env cancelled_first ''HTTP_SEND_ERROR'' ''HTTP_'' rq) (\<lambda>reads.
       Inr (openai_chat_stream senv (ir_request_id req) reads)))"

section \<open>Gemini\<close>

text \<open>\<open>trim_start_matches\<close> with a text: every leading copy goes.\<close>

function trim_start_str :: "string \<Rightarrow> string \<Rightarrow> string" where
  "trim_start_str p s = (if p \<noteq> [] \<and> prefix p s then trim_start_str p (drop (length p) s) else s)"
  by pat_completeness auto
termination
  by (relation "measure (\<lambda>(p, s). length s)") (auto simp: prefix_def)

declare trim_start_str.simps [simp del]

definition gemini_model :: "backend_profile \<Rightarrow> string" where
  "gemini_model p = trim_start_str ''models/'' (trim (bp_model p))"

definition candidate_parts :: "json \<Rightarrow> json list" where
  "candidate_parts cand = json_items (jpointer [''content'', ''parts''] cand)"

text \<open>The first visible text that is not blank.\<close>

definition generated_text :: "json \<Rightarrow> string option" where
  "generated_text v =
     List.find (\<lambda>t. \<not> is_blank t)
       (List.map_filter (get_str ''text'')
         (filter (\<lambda>part. Option.bind (jget ''thought'' part) as_bool \<noteq> Some True)
           (concat (map candidate_parts (json_items (jget ''candidates'' v))))))"

definition bounded_metadata :: "string \<Rightarrow> string" where
  "bounded_metadata t =
     concat (take 160 (utf8_chars t))
       @ (if length (utf8_chars t) > 160 then [CHR 0xE2, CHR 0x80, CHR 0xA6] else [])"

definition NO_VISIBLE_TEXT :: string where
  "NO_VISIBLE_TEXT = utf8 [71, 101, 109, 105, 110, 105, 32, 236, 157, 145, 235, 139, 181, 236, 151, 144, 32, 118, 105, 115,
     105, 98, 108, 101, 32, 116, 101, 120, 116, 32, 236, 131, 157, 236, 132, 177, 32, 234, 178, 176, 234,
     179, 188, 234, 176, 128, 32, 236, 151, 134, 236, 138, 181, 235, 139, 136, 235, 139, 164, 46]"

definition labelled :: "string \<Rightarrow> string option \<Rightarrow> string list" where
  "labelled label t = (case t of Some t \<Rightarrow> [label @ bounded_metadata t] | None \<Rightarrow> [])"

definition missing_text_details :: "json \<Rightarrow> string list" where
  "missing_text_details v =
     labelled ''prompt block: '' (pointer_str [''promptFeedback'', ''blockReason''] v)
     @ (case json_items (jget ''candidates'' v) of
          [] \<Rightarrow> []
        | cand # _ \<Rightarrow> labelled ''finish reason: '' (get_str ''finishReason'' cand)
            @ labelled ''finish message: '' (get_str ''finishMessage'' cand))
     @ (case Option.bind (jpointer [''usageMetadata'', ''thoughtsTokenCount''] v) as_u64 of
          Some n \<Rightarrow> [''thinking tokens: '' @ show_nat n] | None \<Rightarrow> [])"

definition missing_text_message :: "json \<Rightarrow> string" where
  "missing_text_message v =
     (if missing_text_details v = [] then NO_VISIBLE_TEXT
      else NO_VISIBLE_TEXT @ '' ('' @ join '', '' (missing_text_details v) @ '')'')"

definition api_key_header :: "http_env \<Rightarrow> backend_profile \<Rightarrow> (string \<times> string) list result" where
  "api_key_header env p =
     (if profile_key p = [] then Inl (backend_error ''MISSING_GEMINI_KEY'')
      else if hv_header_ok env (profile_key p) then Inr [(''x-goog-api-key'', profile_key p)]
      else Inl (backend_error ''INVALID_HEADER''))"

definition gemini_client :: "http_env \<Rightarrow> unit result" where
  "gemini_client env = guard_err (hv_client env) (backend_error ''GEMINI_CLIENT_INIT_FAILED'')"

definition gemini_agent_endpoint :: "backend_profile \<Rightarrow> string" where
  "gemini_agent_endpoint p = base_of p @ ''/v1beta/models/'' @ gemini_model p @ '':streamGenerateContent''"

definition gemini_discover_request :: "http_env \<Rightarrow> backend_profile \<Rightarrow> http_request result" where
  "gemini_discover_request env p =
     then_do (validate_url (hv_url env) p) (\<lambda>_.
     then_do (gemini_client env) (\<lambda>_.
     then_do (api_key_header env p) (\<lambda>headers.
       Inr \<lparr> hr_post = False, hr_url = base_of p @ ''/v1beta/models'', hr_headers = headers,
             hr_timeout = request_timeout p, hr_body = NoBody \<rparr>)))"

definition generates_content :: "json \<Rightarrow> bool" where
  "generates_content item \<longleftrightarrow> list_ex (\<lambda>m. as_str m = Some ''generateContent'')
     (json_items (jget ''supportedGenerationMethods'' item))"

definition gemini_model_of :: "json \<Rightarrow> available_model option" where
  "gemini_model_of item =
     Option.bind (case get_str ''baseModelId'' item of Some i \<Rightarrow> Some i | None \<Rightarrow> get_str ''name'' item) (\<lambda>full.
       let i = trim_start_str ''models/'' full in
       Some \<lparr> am_id = i,
              am_display_name = (case get_str ''displayName'' item of Some d \<Rightarrow> d | None \<Rightarrow> i) \<rparr>)"

definition gemini_models :: "json \<Rightarrow> available_model list result" where
  "gemini_models v =
     then_do (ok_or (Option.bind (jget ''models'' v) as_array) (backend_error ''MODEL_DISCOVERY_INVALID_SCHEMA'')) (\<lambda>items.
       Inr (List.map_filter gemini_model_of (filter generates_content items)))"

definition gemini_discover_models :: "http_env \<Rightarrow> backend_profile \<Rightarrow> model_catalog result" where
  "gemini_discover_models env p =
     then_do (gemini_discover_request env p) (\<lambda>rq.
     then_do (fetch_json env ''MODEL_DISCOVERY'' 4194304 rq) (\<lambda>v.
     then_do (gemini_models v) (finish_catalog env)))"

definition gemini_verify_request :: "http_env \<Rightarrow> backend_profile \<Rightarrow> http_request result" where
  "gemini_verify_request env p =
     then_do (validate_url (hv_url env) p) (\<lambda>_.
       if gemini_model p = [] then Inl (backend_error ''MODEL_NOT_SELECTED'')
       else then_do (gemini_client env) (\<lambda>_.
       then_do (api_key_header env p) (\<lambda>headers.
         Inr \<lparr> hr_post = True, hr_url = base_of p @ ''/v1beta/models/'' @ gemini_model p @ '':generateContent'',
               hr_headers = headers, hr_timeout = request_timeout p,
               hr_body = JsonBody (JObj [(''contents'', JArr [JObj [(''parts'', JArr [JObj
                 [(''text'', JStr ''Reply exactly with OK.'')]])]])]) \<rparr>)))"

definition gemini_verify_model :: "http_env \<Rightarrow> backend_profile \<Rightarrow> model_verification result" where
  "gemini_verify_model env p =
     then_do (gemini_verify_request env p) (\<lambda>rq.
     then_do (fetch_json env ''MODEL_VERIFY'' 1048576 rq) (\<lambda>v.
       let compatible = generated_text v \<noteq> None in
       Inr \<lparr> mv_compatible = compatible, mv_message = (if compatible then [] else missing_text_message v),
             mv_latency_ms = Some (hv_elapsed env) \<rparr>))"

text \<open>The health check and the chat request leave the key out when it is not a header value.\<close>

definition optional_key_header :: "http_env \<Rightarrow> string \<Rightarrow> (string \<times> string) list" where
  "optional_key_header env key = (if hv_header_ok env key then [(''x-goog-api-key'', key)] else [])"

definition gemini_health_request :: "http_env \<Rightarrow> backend_profile \<Rightarrow> http_request result" where
  "gemini_health_request env p =
     then_do (validate_url (hv_url env) p) (\<lambda>_.
     then_do (gemini_client env) (\<lambda>_.
       Inr \<lparr> hr_post = False, hr_url = base_of p @ ''/v1beta/models'',
             hr_headers = optional_key_header env (profile_key p), hr_timeout = request_timeout p, hr_body = NoBody \<rparr>))"

definition gemini_health_check :: "http_env \<Rightarrow> backend_profile \<Rightarrow> health_status result" where
  "gemini_health_check env p =
     (if profile_key p = [] then Inr unhealthy
      else then_do (gemini_health_request env p) (\<lambda>rq. Inr (health_of env rq)))"

definition gemini_chat_request :: "http_env \<Rightarrow> inference_request \<Rightarrow> http_request result" where
  "gemini_chat_request env req =
     (let p = ir_profile req in
      if profile_key p = [] then Inl (backend_error ''MISSING_GEMINI_KEY'')
      else if is_blank (bp_model p) then Inl (backend_error ''MODEL_NOT_SELECTED'')
      else then_do (validate_url (hv_url env) p) (\<lambda>_.
        then_do (gemini_client env) (\<lambda>_.
          Inr \<lparr> hr_post = True, hr_url = gemini_agent_endpoint p @ ''?alt=sse'',
                hr_headers = json_header # optional_key_header env (profile_key p), hr_timeout = request_timeout p,
                hr_body = JsonBody (JObj [
                  (''system_instruction'', JObj [(''parts'', JArr [JObj [(''text'', JStr (ir_system_contract req))]])]),
                  (''contents'', JArr [JObj [(''parts'', JArr [JObj [(''text'', JStr (user_content req))]])]]),
                  (''generationConfig'', JObj [(''temperature'', JFloat ''0.2''), (''maxOutputTokens'', JInt 4096)])]) \<rparr>)))"

definition gemini_infer_stream ::
  "http_env \<Rightarrow> stream_env \<Rightarrow> bool \<Rightarrow> bool \<Rightarrow> inference_request \<Rightarrow> inference_event list result" where
  "gemini_infer_stream env senv cancelled_first late_cancel req =
     then_do (gemini_chat_request env req) (\<lambda>rq.
     then_do (open_stream env cancelled_first ''GEMINI_NETWORK_ERROR'' ''GEMINI_HTTP_'' rq) (\<lambda>reads.
       Inr (gemini_chat_stream senv late_cancel (ir_request_id req) reads)))"

section \<open>The adapter of all providers\<close>

definition agent_endpoint :: "backend_profile \<Rightarrow> string" where
  "agent_endpoint p =
     (if bp_provider p = GoogleGemini then gemini_agent_endpoint p else openai_agent_endpoint p)"

definition adapter_health_check :: "http_env \<Rightarrow> backend_profile \<Rightarrow> health_status result" where
  "adapter_health_check env p =
     (if bp_provider p = GoogleGemini then gemini_health_check env p else openai_health_check env p)"

definition adapter_discover_models :: "http_env \<Rightarrow> backend_profile \<Rightarrow> model_catalog result" where
  "adapter_discover_models env p =
     (if bp_provider p = GoogleGemini then gemini_discover_models env p else openai_discover_models env p)"

definition adapter_verify_model :: "http_env \<Rightarrow> backend_profile \<Rightarrow> model_verification result" where
  "adapter_verify_model env p =
     (if bp_provider p = GoogleGemini then gemini_verify_model env p else openai_verify_model env p)"

definition adapter_infer_stream ::
  "http_env \<Rightarrow> stream_env \<Rightarrow> bool \<Rightarrow> bool \<Rightarrow> inference_request \<Rightarrow> inference_event list result" where
  "adapter_infer_stream env senv cancelled_first late_cancel req =
     (if bp_provider (ir_profile req) = GoogleGemini
      then gemini_infer_stream env senv cancelled_first late_cancel req
      else openai_infer_stream env senv cancelled_first req)"


section \<open>Lemmas\<close>

lemma request_timeout_bounds: "5 \<le> request_timeout p \<and> request_timeout p \<le> 300"
  unfolding request_timeout_def by (rule clamp_bounds) simp

lemma validate_url_key: "validate_url parse (p\<lparr>bp_api_key := k\<rparr>) = validate_url parse p"
  by (simp add: validate_url_def)

text \<open>
  Where requests go: the base URL of the profile without its trailing slashes, and without the chat path
  it may end with, followed by one of the paths of the two services.
\<close>

definition endpoint_root :: "backend_profile \<Rightarrow> string" where
  "endpoint_root p =
     (if suffix CHAT_PATH (base_of p) then take (length (base_of p) - length CHAT_PATH) (base_of p) else base_of p)"

definition endpoint_paths :: "backend_profile \<Rightarrow> string list" where
  "endpoint_paths p = [CHAT_PATH, ''/models'', ''/v1beta/models'',
     ''/v1beta/models/'' @ gemini_model p @ '':generateContent'',
     ''/v1beta/models/'' @ gemini_model p @ '':streamGenerateContent?alt=sse'']"

definition below_base :: "backend_profile \<Rightarrow> string \<Rightarrow> bool" where
  "below_base p url \<longleftrightarrow> (\<exists>base \<in> {base_of p, endpoint_root p}. \<exists>path \<in> set (endpoint_paths p). url = base @ path)"

lemma endpoint_root_chat: "suffix CHAT_PATH (base_of p) \<Longrightarrow> endpoint_root p @ CHAT_PATH = base_of p"
  by (auto simp: endpoint_root_def suffix_def)

lemma chat_base: "suffix CHAT_PATH (bp_base_url p) \<Longrightarrow> base_of p = bp_base_url p"
  by (auto simp: suffix_def trim_end_char_def CHAT_PATH_def)

lemma below_base_openai:
  "below_base p (models_url (bp_base_url p))" "below_base p (chat_completions_url (bp_base_url p))"
  "below_base p (openai_health_url p)" "below_base p (openai_chat_url p)" "below_base p (openai_agent_endpoint p)"
proof -
  have root: "below_base p (endpoint_root p @ CHAT_PATH)" "below_base p (endpoint_root p @ ''/models'')"
    and base: "below_base p (base_of p @ CHAT_PATH)" "below_base p (base_of p @ ''/models'')"
    by (auto simp: below_base_def endpoint_paths_def)
  show chat: "below_base p (chat_completions_url (bp_base_url p))"
    using root(1) base(1) endpoint_root_chat [of p] by (auto simp: chat_completions_url_def Let_def)
  show "below_base p (models_url (bp_base_url p))"
    using root(2) base(2) by (auto simp: models_url_def endpoint_root_def Let_def split: if_splits)
  show "below_base p (openai_health_url p)"
    using root(1) base(2) endpoint_root_chat [of p] chat_base [of p] by (auto simp: openai_health_url_def)
  show "below_base p (openai_chat_url p)"
    using root(1) base(1) endpoint_root_chat [of p] chat_base [of p] by (auto simp: openai_chat_url_def)
  show "below_base p (openai_agent_endpoint p)" using chat by (simp add: openai_agent_endpoint_def)
qed

lemma below_base_gemini:
  "below_base p (base_of p @ ''/v1beta/models'')"
  "below_base p (base_of p @ ''/v1beta/models/'' @ gemini_model p @ '':generateContent'')"
  "below_base p (gemini_agent_endpoint p @ ''?alt=sse'')"
  by (auto simp: below_base_def endpoint_paths_def gemini_agent_endpoint_def)

text \<open>What a request must be for its target to be the profile's and independent of the key.\<close>

definition keyless :: "http_env \<Rightarrow> (backend_profile \<Rightarrow> http_request result) \<Rightarrow> bool" where
  "keyless env f \<longleftrightarrow> (\<forall>p rq. f p = Inr rq \<longrightarrow> validate_url (hv_url env) p = Inr () \<and> below_base p (hr_url rq)
     \<and> hr_timeout rq = request_timeout p
     \<and> (\<forall>k rq'. f (p\<lparr>bp_api_key := k\<rparr>) = Inr rq' \<longrightarrow> hr_url rq' = hr_url rq \<and> hr_body rq' = hr_body rq))"

lemma keyless_by_target:
  assumes "\<And>p rq. f p = Inr rq \<Longrightarrow> validate_url (hv_url env) p = Inr () \<and> hr_timeout rq = request_timeout p
      \<and> hr_url rq = url p \<and> hr_body rq = body p"
    and "\<And>p. below_base p (url p)" and "\<And>p k. url (p\<lparr>bp_api_key := k\<rparr>) = url p"
    and "\<And>p k. body (p\<lparr>bp_api_key := k\<rparr>) = body p"
  shows "keyless env f"
  using assms unfolding keyless_def by metis

lemma key_independent [simp]:
  "openai_agent_endpoint (p\<lparr>bp_api_key := k\<rparr>) = openai_agent_endpoint p"
  "openai_chat_url (p\<lparr>bp_api_key := k\<rparr>) = openai_chat_url p"
  "openai_health_url (p\<lparr>bp_api_key := k\<rparr>) = openai_health_url p"
  "gemini_agent_endpoint (p\<lparr>bp_api_key := k\<rparr>) = gemini_agent_endpoint p"
  "gemini_model (p\<lparr>bp_api_key := k\<rparr>) = gemini_model p"
  by (simp_all add: openai_agent_endpoint_def openai_chat_url_def openai_health_url_def gemini_agent_endpoint_def gemini_model_def)

lemma keyless_openai:
  "keyless env (openai_discover_request env)" "keyless env (openai_verify_request env)"
  "keyless env (openai_health_request env)" "keyless env (\<lambda>p. openai_chat_request env (req\<lparr>ir_profile := p\<rparr>))"
proof -
  show "keyless env (openai_discover_request env)"
    by (rule keyless_by_target [where url = "\<lambda>p. models_url (bp_base_url p)" and body = "\<lambda>p. NoBody"])
      (auto simp: openai_discover_request_def below_base_openai)
  show "keyless env (openai_verify_request env)"
    by (rule keyless_by_target [where url = "\<lambda>p. chat_completions_url (bp_base_url p)"
          and body = "\<lambda>p. JsonBody (JObj [(''model'', JStr (bp_model p)),
                 (''messages'', JArr [JObj [(''role'', JStr ''user''), (''content'', JStr ''Reply with OK.'')]]),
                 (''max_tokens'', JInt 1), (''stream'', JBool False)])"])
      (auto simp: openai_verify_request_def below_base_openai split: if_splits)
  show "keyless env (openai_health_request env)"
    by (rule keyless_by_target [where url = openai_health_url and body = "\<lambda>p. NoBody"])
      (auto simp: openai_health_request_def below_base_openai)
  show "keyless env (\<lambda>p. openai_chat_request env (req\<lparr>ir_profile := p\<rparr>))"
    by (rule keyless_by_target [where url = openai_chat_url
          and body = "\<lambda>p. JsonBody (JObj [(''model'', JStr (bp_model p)), (''stream'', JBool True),
                  (''messages'', JArr [JObj [(''role'', JStr ''system''), (''content'', JStr (ir_system_contract req))],
                     JObj [(''role'', JStr ''user''), (''content'', JStr (user_content req))]])])"])
      (auto simp: openai_chat_request_def below_base_openai user_content_def Let_def split: if_splits)
qed

lemma keyless_gemini:
  "keyless env (gemini_discover_request env)" "keyless env (gemini_verify_request env)"
  "keyless env (gemini_health_request env)" "keyless env (\<lambda>p. gemini_chat_request env (req\<lparr>ir_profile := p\<rparr>))"
proof -
  show "keyless env (gemini_discover_request env)"
    by (rule keyless_by_target [where url = "\<lambda>p. base_of p @ ''/v1beta/models''" and body = "\<lambda>p. NoBody"])
      (auto simp: gemini_discover_request_def below_base_gemini)
  show "keyless env (gemini_health_request env)"
    by (rule keyless_by_target [where url = "\<lambda>p. base_of p @ ''/v1beta/models''" and body = "\<lambda>p. NoBody"])
      (auto simp: gemini_health_request_def below_base_gemini)
  show "keyless env (gemini_verify_request env)"
    by (rule keyless_by_target [where url = "\<lambda>p. base_of p @ ''/v1beta/models/'' @ gemini_model p @ '':generateContent''"
          and body = "\<lambda>p. JsonBody (JObj [(''contents'', JArr [JObj [(''parts'', JArr [JObj
                 [(''text'', JStr ''Reply exactly with OK.'')]])]])])"])
      (use below_base_gemini(2) in \<open>auto simp: gemini_verify_request_def split: if_splits\<close>)
  show "keyless env (\<lambda>p. gemini_chat_request env (req\<lparr>ir_profile := p\<rparr>))"
    by (rule keyless_by_target [where url = "\<lambda>p. gemini_agent_endpoint p @ ''?alt=sse''"
          and body = "\<lambda>p. JsonBody (JObj [
                  (''system_instruction'', JObj [(''parts'', JArr [JObj [(''text'', JStr (ir_system_contract req))]])]),
                  (''contents'', JArr [JObj [(''parts'', JArr [JObj [(''text'', JStr (user_content req))]])]]),
                  (''generationConfig'', JObj [(''temperature'', JFloat ''0.2''), (''maxOutputTokens'', JInt 4096)])])"])
      (auto simp: gemini_chat_request_def below_base_gemini user_content_def Let_def split: if_splits)
qed

text \<open>Replies.\<close>

fun read_bytes :: "stream_read list \<Rightarrow> string" where
  "read_bytes [] = []"
| "read_bytes (ReadChunk c # reads) = c @ read_bytes reads"
| "read_bytes (_ # reads) = read_bytes reads"

lemma read_bounded_Inr:
  "read_bounded limit large err reads body = Inr whole \<Longrightarrow> length body \<le> limit \<Longrightarrow>
     whole = body @ read_bytes reads \<and> length whole \<le> limit \<and> ReadFailed \<notin> set reads"
  by (induction limit large err reads body rule: read_bounded.induct) (auto split: if_splits)

lemma fetch_json_Inr:
  assumes "fetch_json env operation limit rq = Inr v"
  obtains status len reads where "hv_send env rq = Reply status len reads" "is_success status"
    "hv_json env (read_bytes reads) = Some v" "length (read_bytes reads) \<le> limit" "ReadFailed \<notin> set reads"
proof (cases "hv_send env rq")
  case (Reply status len reads)
  then obtain body where ok: "is_success status" "hv_json env body = Some v"
    and r: "read_bounded limit (operation @ ''_RESPONSE_TOO_LARGE'') (operation @ ''_READ_ERROR'') reads [] = Inr body"
    using assms unfolding fetch_json_def parse_bounded_json_def by (auto split: if_splits)
  have b: "body = read_bytes reads" "length body \<le> limit" "ReadFailed \<notin> set reads"
    using read_bounded_Inr [OF r] unfolding append_Nil list.size by (blast intro: le0)+
  show thesis by (rule that [OF Reply ok(1) ok(2) [unfolded b(1)] b(2) [unfolded b(1)] b(3)])
qed (use assms in \<open>simp add: fetch_json_def\<close>)

lemma finish_catalog_Inr:
  "finish_catalog env ms = Inr c \<Longrightarrow> mc_models c \<noteq> [] \<and>
     map am_id (mc_models c) = rev (remdups (rev (filter valid_model_id (map (\<lambda>m. trim (am_id m)) ms))))"
  unfolding finish_catalog_def Let_def with_latency_def from_untrusted_def
  by (auto simp: untrusted_ids split: if_splits)


section \<open>Properties\<close>

text \<open>
  A model discovery that succeeds sent a keyed request to the validated URL, got a successful reply of
  at most 4 MiB, and lists at least one model; its ids are exactly the valid ids of the reply, each
  once, in the order of the reply.
\<close>

theorem discovered_models_come_from_reply:
  assumes "adapter_discover_models env p = Inr c"
  shows "\<exists>rq status len reads v ms. hv_send env rq = Reply status len reads \<and> is_success status
    \<and> length (read_bytes reads) \<le> 4194304 \<and> hv_json env (read_bytes reads) = Some v
    \<and> (if bp_provider p = GoogleGemini then gemini_models v else openai_models v) = Inr ms
    \<and> mc_models c \<noteq> []
    \<and> map am_id (mc_models c) = rev (remdups (rev (filter valid_model_id (map (\<lambda>m. trim (am_id m)) ms))))"
proof -
  obtain rq v ms where f: "fetch_json env ''MODEL_DISCOVERY'' 4194304 rq = Inr v"
    and m: "(if bp_provider p = GoogleGemini then gemini_models v else openai_models v) = Inr ms"
    and c: "finish_catalog env ms = Inr c"
    using assms unfolding adapter_discover_models_def gemini_discover_models_def openai_discover_models_def
    by (cases "bp_provider p = GoogleGemini") auto
  show ?thesis by (rule fetch_json_Inr [OF f]) (use m finish_catalog_Inr [OF c] in blast)
qed

text \<open>
  Where a base URL already ends with the chat path and a slash, the chat request repeats the path, while
  the agent endpoint drops the slash.
\<close>

theorem chat_url_repeats_path:
  "openai_chat_url (p\<lparr>bp_base_url := base @ CHAT_PATH @ ''/''\<rparr>) = base @ CHAT_PATH @ CHAT_PATH
   \<and> openai_agent_endpoint (p\<lparr>bp_base_url := base @ CHAT_PATH @ ''/''\<rparr>) = base @ CHAT_PATH"
proof -
  have slash: "suffix s (t @ [c]) \<Longrightarrow> s \<noteq> [] \<Longrightarrow> last s = c" for s t and c :: char
    by (metis last_appendR last_snoc suffix_def)
  have "\<not> suffix CHAT_PATH ((base @ CHAT_PATH) @ ''/'')"
    using slash [of CHAT_PATH "base @ CHAT_PATH" "CHR ''/''"] by (auto simp: CHAT_PATH_def)
  moreover have "trim_end_char (CHR ''/'') (base @ CHAT_PATH @ ''/'') = base @ CHAT_PATH"
    by (simp add: trim_end_char_def CHAT_PATH_def)
  moreover have "suffix CHAT_PATH (base @ CHAT_PATH)" by (simp add: suffix_def)
  ultimately show ?thesis
    by (simp add: openai_chat_url_def openai_agent_endpoint_def chat_completions_url_def Let_def)
qed

section \<open>Witnesses\<close>

definition adapter_demo_profile :: backend_profile where
  "adapter_demo_profile = \<lparr> bp_id = 1, bp_name = ''p'', bp_provider = OpenAi, bp_base_url = ''https://h/v1'',
     bp_model = ''m'', bp_api_key = Some ''k'', bp_timeout_secs = 1 \<rparr>"

definition adapter_demo_url :: parsed_url where
  "adapter_demo_url = \<lparr> url_scheme = ''https'', url_username = [], url_password = None, url_host = Some ''h'', url_port = None,
     url_path = ''/v1'', url_query = None, url_fragment = None \<rparr>"

definition adapter_demo_env :: http_env where
  "adapter_demo_env = \<lparr> hv_client = True, hv_header_ok = (\<lambda>_. True), hv_send = (\<lambda>_. Reply 200 None [ReadChunk ''{}'']),
     hv_url = (\<lambda>_. Some adapter_demo_url),
     hv_json = (\<lambda>_. Some (JObj [(''data'', JArr [JObj [(''id'', JStr ''gpt'')], JObj [(''id'', JStr '' '')]])])), hv_elapsed = 9 \<rparr>"

lemma adapter_demo_discovered: "adapter_discover_models adapter_demo_env adapter_demo_profile =
    Inr \<lparr> mc_models = [\<lparr> am_id = ''gpt'', am_display_name = ''gpt'' \<rparr>], mc_latency_ms = Some 9 \<rparr>"
  by code_simp

lemma discovered_models_come_from_reply_witness:
  "\<exists>c. adapter_discover_models adapter_demo_env adapter_demo_profile = Inr c \<and> mc_models c \<noteq> []"
  using discovered_models_come_from_reply [OF adapter_demo_discovered] adapter_demo_discovered by blast

end
