(* ===== verification/Agent_Round.thy ===== *)
theory Agent_Round
  imports Provider_Adapters Stream_Protocol Tool_Egress_Gate
begin

text \<open>
  \<open>infer_agent_round\<close> of both adapters of \<open>mentat-inference-openai\<close>, with the pending receipts of
  \<open>mentat-inference/src/lib.rs\<close> (\<open>PendingEgress\<close>), and the guarded rounds and capability probe of
  \<open>MultiProviderAdapter\<close>: the body is encoded, authorized by the gate when it carries tool results,
  sent, and its receipts are moved to what is known of the sending.

  The gate is a record of the operations of \<open>ProviderBodyEgressGate\<close> over a state; the locale
  \<open>egress_gate\<close> states what a round relies on, and the gate of the application on its database is the
  interpretation. The cancellation token is read at three points of a round, which are parameters;
  the wait for the response ends with the response or with the cancellation, before or after the
  request was handed to the network. The value returned is the state, the request that was handed to
  the network, and the outcome.
\<close>

section \<open>The gate and its pending receipts\<close>

record 's body_gate =
  bg_authorize :: "agent_request \<Rightarrow> string \<Rightarrow> string \<Rightarrow> 's \<Rightarrow> 's \<times> uuid list result"
  bg_check :: "'s \<Rightarrow> 's \<times> unit result"
  bg_finish :: "uuid list \<Rightarrow> tool_egress_status \<Rightarrow> 's \<Rightarrow> 's \<times> unit result"

text \<open>\<open>PendingEgress::finish\<close>: the state, the ids still pending, and the outcome.\<close>

definition pending_finish ::
  "'s body_gate option \<Rightarrow> uuid list \<Rightarrow> tool_egress_status \<Rightarrow> 's \<Rightarrow> 's \<times> uuid list \<times> unit result" where
  "pending_finish gate ids status s =
     (if ids = [] then (s, [], Inr ())
      else case gate of
        None \<Rightarrow> (s, [], Inr ())
      | Some g \<Rightarrow> (case bg_finish g ids status s of (s', Inr _) \<Rightarrow> (s', [], Inr ()) | (s', Inl e) \<Rightarrow> (s', ids, Inl e)))"

text \<open>\<open>Drop\<close>: what is still pending becomes unknown, an error is only logged.\<close>

definition pending_drop :: "'s body_gate option \<Rightarrow> uuid list \<Rightarrow> 's \<Rightarrow> 's" where
  "pending_drop gate ids s = fst (pending_finish gate ids OutcomeUnknown s)"

text \<open>\<open>finish(status)?\<close> and then leaving the function with the outcome, which drops the guard.\<close>

definition settle :: "'s body_gate option \<Rightarrow> uuid list \<Rightarrow> tool_egress_status \<Rightarrow> 'a result \<Rightarrow> 's \<Rightarrow> 's \<times> 'a result" where
  "settle gate ids status out s =
     (case pending_finish gate ids status s of
        (s', ids', Inl e) \<Rightarrow> (pending_drop gate ids' s', Inl e)
      | (s', ids', Inr _) \<Rightarrow> (pending_drop gate ids' s', out))"

section \<open>One round\<close>

datatype send_wait = CancelledUnsent | CancelledSent | Answered

record round_polls =
  rp_before_gate :: bool
  rp_before_send :: bool
  rp_wait :: send_wait

text \<open>What differs between the providers: the endpoint of the receipts, the body, the request, and the codes.\<close>

record round_plan =
  pl_identity :: string
  pl_body :: string
  pl_request :: "http_request result"
  pl_network_error :: string
  pl_http_prefix :: string

text \<open>From the request to the network to the status of its response.\<close>

definition send_round ::
  "http_env \<Rightarrow> send_wait \<Rightarrow> round_plan \<Rightarrow> 's body_gate option \<Rightarrow> uuid list \<Rightarrow> http_request \<Rightarrow> 's
   \<Rightarrow> 's \<times> http_request option \<times> stream_read list result" where
  "send_round env wait plan gate ids rq s =
     (case wait of
        CancelledUnsent \<Rightarrow> (case settle gate ids OutcomeUnknown (Inl ErrCancelled) s of (s', out) \<Rightarrow> (s', None, out))
      | CancelledSent \<Rightarrow> (case settle gate ids OutcomeUnknown (Inl ErrCancelled) s of (s', out) \<Rightarrow> (s', Some rq, out))
      | Answered \<Rightarrow>
        (case hv_send env rq of
           SendError \<Rightarrow>
             (case settle gate ids OutcomeUnknown (Inl (backend_error (pl_network_error plan))) s of
                (s', out) \<Rightarrow> (s', Some rq, out))
         | Reply status content_length reads \<Rightarrow>
             (case settle gate ids Sent
                 (if is_success status then Inr reads else Inl (backend_error (pl_http_prefix plan @ show_nat status))) s of
                (s', out) \<Rightarrow> (s', Some rq, out))))"

text \<open>From the authorization on; \<open>?\<close> on the headers or the client drops the guard.\<close>

definition authorized_round ::
  "http_env \<Rightarrow> round_polls \<Rightarrow> round_plan \<Rightarrow> 's body_gate option \<Rightarrow> uuid list \<Rightarrow> 's
   \<Rightarrow> 's \<times> http_request option \<times> stream_read list result" where
  "authorized_round env polls plan gate ids s =
     (case pl_request plan of
        Inl e \<Rightarrow> (pending_drop gate ids s, None, Inl e)
      | Inr rq \<Rightarrow>
        (case (case gate of None \<Rightarrow> (s, Inr ()) | Some g \<Rightarrow> bg_check g s) of
           (s1, Inl e) \<Rightarrow> (case settle gate ids EgressFailed (Inl e) s1 of (s', out) \<Rightarrow> (s', None, out))
         | (s1, Inr _) \<Rightarrow>
             if rp_before_send polls
             then (case settle gate ids EgressFailed (Inl ErrCancelled) s1 of (s', out) \<Rightarrow> (s', None, out))
             else send_round env (rp_wait polls) plan gate ids rq s1))"

definition exchange_round ::
  "http_env \<Rightarrow> round_polls \<Rightarrow> round_plan \<Rightarrow> 's body_gate option \<Rightarrow> agent_request \<Rightarrow> 's
   \<Rightarrow> 's \<times> http_request option \<times> stream_read list result" where
  "exchange_round env polls plan gate req s =
     (if rp_before_gate polls then (s, None, Inl ErrCancelled)
      else if request_has_tool_results req then
        (case gate of
           None \<Rightarrow> (s, None, Inl (backend_error ''TOOL_EGRESS_GATE_REQUIRED''))
         | Some g \<Rightarrow>
           (case bg_authorize g req (pl_identity plan) (pl_body plan) s of
              (s1, Inl e) \<Rightarrow> (s1, None, Inl e)
            | (s1, Inr ids) \<Rightarrow> authorized_round env polls plan gate ids s1))
      else authorized_round env polls plan gate [] s)"

section \<open>The two providers\<close>

text \<open>The checks before the body, and the body as the exact bytes that are sent.\<close>

definition openai_round_plan :: "http_env \<Rightarrow> wire_codec \<Rightarrow> agent_request \<Rightarrow> round_plan result" where
  "openai_round_plan env w req =
     (let p = ar_profile req in
      if profile_key p = [] then Inl (backend_error ''MISSING_API_KEY'')
      else if is_blank (bp_model p) then Inl (backend_error ''MODEL_NOT_SELECTED'')
      else then_do (validate_url (hv_url env) p) (\<lambda>_.
        then_do (openai_body w req) (\<lambda>body.
        then_do (ok_or (wc_text w body) (backend_error ''AGENT_BODY_ENCODE_FAILED'')) (\<lambda>bytes.
          Inr \<lparr> pl_identity = openai_agent_endpoint p, pl_body = bytes,
                pl_request = then_do (authorization_headers env p) (\<lambda>auth.
                  then_do (openai_client env) (\<lambda>_.
                    Inr \<lparr> hr_post = True, hr_url = openai_agent_endpoint p, hr_headers = auth @ json_header # router_headers p,
                          hr_timeout = request_timeout p, hr_body = RawBody bytes \<rparr>)),
                pl_network_error = ''HTTP_SEND_ERROR'', pl_http_prefix = ''HTTP_'' \<rparr>))))"

definition gemini_round_plan :: "http_env \<Rightarrow> wire_codec \<Rightarrow> agent_request \<Rightarrow> round_plan result" where
  "gemini_round_plan env w req =
     (let p = ar_profile req in
      if profile_key p = [] then Inl (backend_error ''MISSING_GEMINI_KEY'')
      else if is_blank (bp_model p) then Inl (backend_error ''MODEL_NOT_SELECTED'')
      else then_do (validate_url (hv_url env) p) (\<lambda>_.
        then_do (gemini_body w req) (\<lambda>body.
        then_do (ok_or (wc_text w body) (backend_error ''AGENT_BODY_ENCODE_FAILED'')) (\<lambda>bytes.
          Inr \<lparr> pl_identity = gemini_agent_endpoint p, pl_body = bytes,
                pl_request = then_do (api_key_header env p) (\<lambda>auth.
                  then_do (gemini_client env) (\<lambda>_.
                    Inr \<lparr> hr_post = True, hr_url = gemini_agent_endpoint p @ ''?alt=sse'', hr_headers = auth @ [json_header],
                          hr_timeout = request_timeout p, hr_body = RawBody bytes \<rparr>)),
                pl_network_error = ''GEMINI_NETWORK_ERROR'', pl_http_prefix = ''GEMINI_HTTP_'' \<rparr>))))"

definition round_plan_of :: "http_env \<Rightarrow> wire_codec \<Rightarrow> agent_request \<Rightarrow> round_plan result" where
  "round_plan_of env w req =
     (if bp_provider (ar_profile req) = GoogleGemini then gemini_round_plan env w req else openai_round_plan env w req)"

text \<open>\<open>infer_round_stream_guarded\<close>: the state, what was sent, and the events of the round.\<close>

definition infer_agent_round ::
  "http_env \<Rightarrow> wire_codec \<Rightarrow> stream_env \<Rightarrow> round_polls \<Rightarrow> 's body_gate option \<Rightarrow> agent_request \<Rightarrow> 's
   \<Rightarrow> 's \<times> http_request option \<times> round_event list result" where
  "infer_agent_round env w senv polls gate req s =
     (case round_plan_of env w req of
        Inl e \<Rightarrow> (s, None, Inl e)
      | Inr plan \<Rightarrow>
        (case exchange_round env polls plan gate req s of (s', sent, out) \<Rightarrow>
          (s', sent, then_do out (\<lambda>reads.
            let snapshot = map_option rc_snapshot_id (ar_repository_context req) in
            Inr (if bp_provider (ar_profile req) = GoogleGemini
                 then gemini_round_stream senv (ar_request_id req) snapshot reads
                 else openai_round_stream senv (ar_request_id req) snapshot reads)))))"

section \<open>The capability probe\<close>

record probe_ids =
  pi_request :: uuid
  pi_conversation :: uuid
  pi_turn :: uuid
  pi_snapshot :: uuid
  pi_repository :: uuid

record probe_texts =
  pt_system :: string
  pt_question :: string
  pt_description :: string

definition probe_request :: "probe_ids \<Rightarrow> probe_texts \<Rightarrow> backend_profile \<Rightarrow> agent_request" where
  "probe_request ids texts p =
     \<lparr> ar_request_id = pi_request ids, ar_conversation_id = pi_conversation ids, ar_turn_id = pi_turn ids,
       ar_profile = p, ar_system_prompt = pt_system texts, ar_messages = [user_message (pt_question texts)],
       ar_tools = [\<lparr> td_name = ''repo_status'', td_schema_version = ''repository-tool.v1'',
         td_description = pt_description texts,
         td_input_schema = JObj [(''type'', JStr ''object''), (''properties'', JObj []), (''additionalProperties'', JBool False)] \<rparr>],
       ar_repository_context = Some \<lparr> rc_repository_id = pi_repository ids, rc_snapshot_id = pi_snapshot ids,
         rc_snapshot_status = SnapReady, rc_tools_available = True, rc_display_name = ''capability-probe'' \<rparr>,
       ar_response_contract = ContractAdvisor,
       ar_limits = \<lparr> al_max_rounds = 1, al_max_tool_calls = 1, al_max_tool_result_bytes = 1024,
         al_timeout_secs = clamp (bp_timeout_secs p) 5 30 \<rparr> \<rparr>"

fun probe_events :: "uuid \<Rightarrow> round_event list \<Rightarrow> agent_capabilities result" where
  "probe_events snapshot [] = Inr CHAT_ONLY"
| "probe_events snapshot (RvFailed code message # evs) = Inl (backend_error code)"
| "probe_events snapshot (RvToolCallsRequested r calls # evs) =
     (let native = (case calls of [c] \<Rightarrow> call_name c = RepoStatus \<and> call_snapshot_id c = snapshot | _ \<Rightarrow> False) in
      Inr \<lparr> ac_chat = True, ac_native_tool = native, ac_emulated_tool = False, ac_repository_advisor = native \<rparr>)"
| "probe_events snapshot (_ # evs) = probe_events snapshot evs"

definition verify_capabilities ::
  "http_env \<Rightarrow> wire_codec \<Rightarrow> stream_env \<Rightarrow> probe_ids \<Rightarrow> probe_texts \<Rightarrow> backend_profile \<Rightarrow> agent_capabilities result" where
  "verify_capabilities env w senv ids texts p =
     (case infer_agent_round env w senv \<lparr> rp_before_gate = False, rp_before_send = False, rp_wait = Answered \<rparr>
             (None :: unit body_gate option) (probe_request ids texts p) () of
        (_, _, out) \<Rightarrow> then_do out (probe_events (pi_snapshot ids)))"


section \<open>The interface of the gate\<close>

text \<open>
  \<open>pending\<close> are the receipts that are prepared and not yet finished, \<open>batch\<close> says that a list of them
  can be finished together.
\<close>

locale egress_gate =
  fixes gate :: "'s body_gate" and good :: "'s \<Rightarrow> bool" and pending :: "'s \<Rightarrow> uuid set"
    and batch :: "'s \<Rightarrow> uuid list \<Rightarrow> bool"
  assumes authorize_ok: "good s \<Longrightarrow> bg_authorize gate req endpoint body s = (s', Inr ids)
      \<Longrightarrow> good s' \<and> batch s' ids \<and> pending s' \<subseteq> pending s \<union> set ids \<and> set ids \<inter> pending s = {}"
    and authorize_err: "good s \<Longrightarrow> bg_authorize gate req endpoint body s = (s', Inl e) \<Longrightarrow> good s' \<and> pending s' \<subseteq> pending s"
    and check_keeps: "good s \<Longrightarrow> bg_check gate s = (s', out) \<Longrightarrow> good s' \<and> pending s' = pending s \<and> (batch s ids \<longrightarrow> batch s' ids)"
    and finish_ok: "good s \<Longrightarrow> batch s ids \<Longrightarrow> status \<noteq> Prepared
      \<Longrightarrow> \<exists>s'. bg_finish gate ids status s = (s', Inr ()) \<and> good s' \<and> pending s' = pending s - set ids"
begin

definition settled :: "uuid list \<Rightarrow> 's \<Rightarrow> 's \<Rightarrow> bool" where
  "settled ids s s' \<longleftrightarrow> good s' \<and> pending s' \<subseteq> pending s - set ids
     \<and> (ids \<noteq> [] \<longrightarrow> (\<exists>status. bg_finish gate ids status s = (s', Inr ())))"

lemma pending_finish_ok:
  assumes "good s" and "ids = [] \<or> batch s ids" and "status \<noteq> Prepared"
  obtains s' where "pending_finish (Some gate) ids status s = (s', [], Inr ())" "settled ids s s'"
    "ids \<noteq> [] \<Longrightarrow> bg_finish gate ids status s = (s', Inr ())"
proof (cases "ids = []")
  case True
  then show thesis using that [of s] assms(1) by (simp add: pending_finish_def settled_def)
next
  case False
  then obtain s' where f: "bg_finish gate ids status s = (s', Inr ())" "good s'" "pending s' = pending s - set ids"
    using finish_ok [OF assms(1) _ assms(3)] assms(2) by blast
  then show thesis using that [of s'] False by (auto simp: pending_finish_def settled_def)
qed

lemma settle_settled:
  assumes "settle (Some gate) ids status out s = (s', out')" and "good s" and "ids = [] \<or> batch s ids" and "status \<noteq> Prepared"
  shows "out' = out \<and> settled ids s s' \<and> (ids \<noteq> [] \<longrightarrow> bg_finish gate ids status s = (s', Inr ()))"
proof (rule pending_finish_ok [OF assms(2-4)])
  fix s1 assume p: "pending_finish (Some gate) ids status s = (s1, [], Inr ())"
    and d: "settled ids s s1" and f: "ids \<noteq> [] \<Longrightarrow> bg_finish gate ids status s = (s1, Inr ())"
  have "settle (Some gate) ids status out s = (s1, out)"
    unfolding settle_def p by (simp add: pending_drop_def pending_finish_def)
  then show ?thesis using assms(1) d f by simp
qed

lemma drop_settled:
  assumes "good s" and "ids = [] \<or> batch s ids"
  shows "settled ids s (pending_drop (Some gate) ids s)"
  by (rule pending_finish_ok [OF assms, of OutcomeUnknown]) (simp_all add: pending_drop_def)

lemma send_round_settles:
  assumes "send_round env wait plan (Some gate) ids rq s = (s', sent, out)" and "good s" and "ids = [] \<or> batch s ids"
  shows "settled ids s s' \<and> (sent \<noteq> None \<and> ids \<noteq> []
    \<longrightarrow> sent = Some rq \<and> (\<exists>status \<in> {Sent, OutcomeUnknown}. bg_finish gate ids status s = (s', Inr ())))"
proof -
  obtain status out0 s1 out1 where st: "settle (Some gate) ids status (out0 :: stream_read list result) s = (s1, out1)"
    and "status \<in> {Sent, OutcomeUnknown}" and "s' = s1" and "sent = None \<or> sent = Some rq"
    using assms(1) unfolding send_round_def
    by (auto split: send_wait.splits http_reply.splits prod.splits)
  then show ?thesis using settle_settled [OF st assms(2,3)] by auto
qed

lemma authorized_round_settles:
  assumes "authorized_round env polls plan (Some gate) ids s = (s', sent, out)" and "good s" and "ids = [] \<or> batch s ids"
  shows "pending s' \<subseteq> pending s - set ids \<and> good s' \<and> (sent \<noteq> None \<and> ids \<noteq> []
    \<longrightarrow> sent = (case pl_request plan of Inr rq \<Rightarrow> Some rq | Inl _ \<Rightarrow> None)
      \<and> (\<exists>s1. bg_check gate s = (s1, Inr ()) \<and> (\<exists>status \<in> {Sent, OutcomeUnknown}. bg_finish gate ids status s1 = (s', Inr ()))))"
proof (cases "pl_request plan")
  case (Inl e)
  then show ?thesis using assms(1) drop_settled [OF assms(2,3)] by (auto simp: authorized_round_def settled_def)
next
  case (Inr rq)
  obtain s1 c where c: "bg_check gate s = (s1, c)" by (rule prod.exhaust)
  have g1: "good s1" "pending s1 = pending s" "ids = [] \<or> batch s1 ids"
    using check_keeps [OF assms(2) c] assms(3) by blast+
  have failed: "pending s' \<subseteq> pending s - set ids \<and> good s'"
    if "settle (Some gate) ids EgressFailed (out0 :: stream_read list result) s1 = (s', out1)" for out0 out1
    using settle_settled [OF that g1(1,3)] g1(2) by (simp add: settled_def)
  show ?thesis
  proof (cases c)
    case (Inl e)
    then show ?thesis using assms(1) Inr c failed by (auto simp: authorized_round_def split: prod.splits)
  next
    case ok: (Inr u)
    show ?thesis
    proof (cases "rp_before_send polls")
      case True
      then show ?thesis using assms(1) Inr c ok failed by (auto simp: authorized_round_def split: prod.splits)
    next
      case False
      then have "send_round env (rp_wait polls) plan (Some gate) ids rq s1 = (s', sent, out)"
        using assms(1) Inr c ok by (simp add: authorized_round_def)
      from send_round_settles [OF this g1(1,3)] show ?thesis
        using Inr c ok g1(2) by (auto simp: settled_def)
    qed
  qed
qed

lemma exchange_settles:
  assumes "exchange_round env polls plan (Some gate) req s = (s', sent, out)" and "good s"
  shows "pending s' \<subseteq> pending s \<and> good s'"
proof (cases "rp_before_gate polls \<or> \<not> request_has_tool_results req")
  case True
  then show ?thesis using assms authorized_round_settles [of env polls plan "[]" s]
    by (cases "rp_before_gate polls") (auto simp: exchange_round_def)
next
  case False
  obtain s1 r where a: "bg_authorize gate req (pl_identity plan) (pl_body plan) s = (s1, r)" by (rule prod.exhaust)
  show ?thesis
  proof (cases r)
    case (Inl e)
    then show ?thesis using assms False a authorize_err [OF assms(2)] by (simp add: exchange_round_def)
  next
    case (Inr ids)
    then have ok: "authorized_round env polls plan (Some gate) ids s1 = (s', sent, out)"
      using assms(1) False a by (simp add: exchange_round_def)
    note g = authorize_ok [OF assms(2) a [unfolded Inr]]
    then have "good s1" "ids = [] \<or> batch s1 ids" by blast+
    from authorized_round_settles [OF ok this] show ?thesis using g by blast
  qed
qed

lemma exchange_sent:
  assumes "exchange_round env polls plan (Some gate) req s = (s', Some rq, out)" and "good s" and "request_has_tool_results req"
    and nonempty: "\<And>s ids. batch s ids \<Longrightarrow> ids \<noteq> []"
  obtains s1 s2 ids status where "bg_authorize gate req (pl_identity plan) (pl_body plan) s = (s1, Inr ids)"
    "bg_check gate s1 = (s2, Inr ())" "bg_finish gate ids status s2 = (s', Inr ())" "status \<in> {Sent, OutcomeUnknown}"
    "pl_request plan = Inr rq"
proof -
  obtain s1 r where a: "bg_authorize gate req (pl_identity plan) (pl_body plan) s = (s1, r)" by (rule prod.exhaust)
  obtain ids where r: "r = Inr ids" and ok: "authorized_round env polls plan (Some gate) ids s1 = (s', Some rq, out)"
    using assms(1,3) a by (cases r) (auto simp: exchange_round_def split: if_splits)
  note g = authorize_ok [OF assms(2) a [unfolded r]]
  then have "good s1" "ids = [] \<or> batch s1 ids" "ids \<noteq> []" using nonempty by blast+
  with authorized_round_settles [OF ok this(1,2)] obtain s2 status where
    "bg_check gate s1 = (s2, Inr ())" "bg_finish gate ids status s2 = (s', Inr ())" "status \<in> {Sent, OutcomeUnknown}"
    "pl_request plan = Inr rq" by (auto split: sum.splits)
  then show thesis using that a r by blast
qed

end


section \<open>The gate of the application\<close>

text \<open>
  The gate on its database with the ids it has handed out. The capability is shared: what its
  revocation token says, and the clock, may differ at each call.
\<close>

record gate_times =
  gt_authorize :: datetime
  gt_check :: datetime
  gt_finish :: datetime
  gt_revoked_check :: bool
  gt_revoked_finish :: bool

definition database_gate ::
  "gate_env \<Rightarrow> uuid \<Rightarrow> gate_times \<Rightarrow> consent_capability \<Rightarrow> uuid \<Rightarrow> (db \<times> uuid list) body_gate" where
  "database_gate g owner clocks cap trace =
     \<lparr> bg_authorize = (\<lambda>req endpoint body st. authorize_exact_body g owner (gt_authorize clocks) cap trace req endpoint body st),
       bg_check = (\<lambda>(d, all). case gate_check_authorized (gt_check clocks) (with_revocation (gt_revoked_check clocks) cap) d of
         (d', out) \<Rightarrow> ((d', all), out)),
       bg_finish = (\<lambda>ids status (d, all).
         case gate_finish (gt_finish clocks) (with_revocation (gt_revoked_finish clocks) cap) ids status d of
         (d', out) \<Rightarrow> ((d', all), out)) \<rparr>"

definition prepared_of :: "db \<times> uuid list \<Rightarrow> uuid set" where
  "prepared_of s = {i. \<exists>r. receipt_of (fst s) i = Some (''Prepared'', r)}"

definition one_body :: "db \<times> uuid list \<Rightarrow> uuid list \<Rightarrow> bool" where
  "one_body s ids \<longleftrightarrow> ids \<noteq> [] \<and> distinct ids
     \<and> (\<exists>digest. \<forall>i \<in> set ids. \<exists>r. receipt_of (fst s) i = Some (''Prepared'', r) \<and> ter_body_digest r = digest)"

lemma check_frame:
  assumes "gate_check_authorized now cap d = (d', out)" and "structure_ok d"
  shows "structure_ok d' \<and> receipt_of d' = receipt_of d"
proof (cases "check_authorized cap")
  case (Inl e)
  obtain d1 where d1: "revoke_repository_consent now (cs_id (cap_scope cap)) d = Inr d1"
    by (simp add: revoke_repository_consent_def)
  then have "d' = d1" using assms(1) Inl by (simp add: gate_check_authorized_def)
  moreover have "receipt_of d1 = receipt_of d"
    using d1 by (auto simp: revoke_repository_consent_def receipt_of_def fun_eq_iff)
  ultimately show ?thesis using revoke_structure [OF assms(2) d1] by simp
next
  case (Inr u)
  then have "d' = d" using assms(1) by (simp add: gate_check_authorized_def del: check_authorized_Inr)
  then show ?thesis using assms(2) by simp
qed

lemma status_text_prepared: "egress_status_text status = ''Prepared'' \<longleftrightarrow> status = Prepared"
  by (cases status) auto

interpretation application: egress_gate "database_gate g owner clocks cap trace" "\<lambda>s. structure_ok (fst s)" prepared_of one_body
proof unfold_locales
  fix s s' :: "db \<times> uuid list" and req endpoint body ids
  assume g: "structure_ok (fst s)" and "bg_authorize (database_gate g owner clocks cap trace) req endpoint body s = (s', Inr ids)"
  then have a: "authorize_exact_body g owner (gt_authorize clocks) cap trace req endpoint body (fst s, snd s)
      = ((fst s', snd s'), Inr ids)" by (simp add: database_gate_def)
  have "database.authorizing (seals_body g cap trace req body) (fst s) ids (fst s')" and ne: "ids \<noteq> []"
    using authorized_structure [OF g a] by blast+
  then have s': "structure_ok (fst s')" and dist: "distinct ids"
    and mine: "\<And>i. i \<in> set ids \<Longrightarrow> receipt_of (fst s) i = None
      \<and> (\<exists>r. receipt_of (fst s') i = Some (''Prepared'', r) \<and> seals_body g cap trace req body r)"
    and rest: "\<And>i. i \<notin> set ids \<Longrightarrow> receipt_of (fst s') i = receipt_of (fst s) i"
    unfolding database.authorizing_def by blast+
  have "one_body s' ids" unfolding one_body_def using ne dist mine seals_body_digest by blast
  moreover have "prepared_of s' \<subseteq> prepared_of s \<union> set ids"
  proof
    fix i assume "i \<in> prepared_of s'"
    then show "i \<in> prepared_of s \<union> set ids" using rest [of i] by (cases "i \<in> set ids") (auto simp: prepared_of_def)
  qed
  moreover have "set ids \<inter> prepared_of s = {}" using mine by (auto simp: prepared_of_def)
  ultimately show "structure_ok (fst s') \<and> one_body s' ids \<and> prepared_of s' \<subseteq> prepared_of s \<union> set ids
      \<and> set ids \<inter> prepared_of s = {}" using s' by blast
next
  fix s s' :: "db \<times> uuid list" and req endpoint body e
  assume g: "structure_ok (fst s)" and "bg_authorize (database_gate g owner clocks cap trace) req endpoint body s = (s', Inl e)"
  then have "authorize_exact_body g owner (gt_authorize clocks) cap trace req endpoint body (fst s, snd s)
      = ((fst s', snd s'), Inl e)" by (simp add: database_gate_def)
  note r = refused_effect [OF g this]
  have "prepared_of s' \<subseteq> prepared_of s"
  proof
    fix i assume "i \<in> prepared_of s'"
    then show "i \<in> prepared_of s" using r [THEN conjunct2, THEN conjunct2, rule_format, of i] by (auto simp: prepared_of_def)
  qed
  then show "structure_ok (fst s') \<and> prepared_of s' \<subseteq> prepared_of s" using r by blast
next
  fix s s' :: "db \<times> uuid list" and out ids
  assume "structure_ok (fst s)" and "bg_check (database_gate g owner clocks cap trace) s = (s', out)"
  then have "structure_ok (fst s') \<and> receipt_of (fst s') = receipt_of (fst s)"
    using check_frame by (auto simp: database_gate_def split: prod.splits)
  then show "structure_ok (fst s') \<and> prepared_of s' = prepared_of s \<and> (one_body s ids \<longrightarrow> one_body s' ids)"
    by (simp add: prepared_of_def one_body_def)
next
  fix s :: "db \<times> uuid list" and ids status
  assume g: "structure_ok (fst s)" and b: "one_body s ids" and st: "status \<noteq> Prepared"
  then obtain digest where ids: "ids \<noteq> []" "distinct ids"
    and same: "\<forall>i \<in> set ids. \<exists>r. receipt_of (fst s) i = Some (''Prepared'', r) \<and> ter_body_digest r = digest"
    unfolding one_body_def by blast
  show "\<exists>s'. bg_finish (database_gate g owner clocks cap trace) ids status s = (s', Inr ())
      \<and> structure_ok (fst s') \<and> prepared_of s' = prepared_of s - set ids"
  proof (rule finish_exact [OF g ids st same])
    fix d2 assume f: "gate_finish (gt_finish clocks) (with_revocation (gt_revoked_finish clocks) cap) ids status (fst s) = (d2, Inr ())"
      and s2: "structure_ok d2"
      and look: "receipt_of d2 = (\<lambda>i. if i \<in> set ids then map_option (\<lambda>(_, r). (egress_status_text status, r)) (receipt_of (fst s) i)
        else receipt_of (fst s) i)"
    have "bg_finish (database_gate g owner clocks cap trace) ids status s = ((d2, snd s), Inr ())"
      using f by (simp add: database_gate_def case_prod_beta)
    moreover have "prepared_of (d2, snd s) = prepared_of s - set ids"
      using status_text_prepared [of status] st unfolding prepared_of_def fst_conv look by auto
    ultimately show ?thesis using s2 by auto
  qed
qed


section \<open>Properties\<close>

lemma plan_request:
  assumes "round_plan_of env w req = Inr plan" and "pl_request plan = Inr rq"
  shows "hr_body rq = RawBody (pl_body plan) \<and> pl_identity plan = agent_endpoint (ar_profile req)
    \<and> (hr_url rq = pl_identity plan \<or> hr_url rq = pl_identity plan @ ''?alt=sse'')"
  using assms unfolding round_plan_of_def openai_round_plan_def gemini_round_plan_def agent_endpoint_def Let_def
  by (auto split: if_splits)

text \<open>
  Every request the two adapters build for a profile: of model discovery, verification, health check and
  chat, and of an agent round.
\<close>

definition adapter_requests ::
  "http_env \<Rightarrow> wire_codec \<Rightarrow> inference_request \<Rightarrow> agent_request \<Rightarrow> (backend_profile \<Rightarrow> http_request result) list" where
  "adapter_requests env w chat round' =
     [openai_discover_request env, openai_verify_request env, openai_health_request env,
      (\<lambda>p. openai_chat_request env (chat\<lparr>ir_profile := p\<rparr>)),
      (\<lambda>p. then_do (openai_round_plan env w (round'\<lparr>ar_profile := p\<rparr>)) pl_request),
      gemini_discover_request env, gemini_verify_request env, gemini_health_request env,
      (\<lambda>p. gemini_chat_request env (chat\<lparr>ir_profile := p\<rparr>)),
      (\<lambda>p. then_do (gemini_round_plan env w (round'\<lparr>ar_profile := p\<rparr>)) pl_request)]"

definition round_bytes :: "wire_codec \<Rightarrow> json result \<Rightarrow> http_body" where
  "round_bytes w body = (case body of Inr v \<Rightarrow> RawBody (the (wc_text w v)) | Inl e \<Rightarrow> NoBody)"

lemma bodies_keyless:
  "openai_body w (req\<lparr>ar_profile := p\<lparr>bp_api_key := k\<rparr>\<rparr>) = openai_body w (req\<lparr>ar_profile := p\<rparr>)"
  "gemini_body w (req\<lparr>ar_profile := p\<lparr>bp_api_key := k\<rparr>\<rparr>) = gemini_body w (req\<lparr>ar_profile := p\<rparr>)"
  by (simp_all add: openai_body_def gemini_body_def)

lemma keyless_rounds:
  "keyless env (\<lambda>p. then_do (openai_round_plan env w (req\<lparr>ar_profile := p\<rparr>)) pl_request)"
  "keyless env (\<lambda>p. then_do (gemini_round_plan env w (req\<lparr>ar_profile := p\<rparr>)) pl_request)"
proof -
  show "keyless env (\<lambda>p. then_do (openai_round_plan env w (req\<lparr>ar_profile := p\<rparr>)) pl_request)"
    by (rule keyless_by_target [where url = openai_agent_endpoint
          and body = "\<lambda>p. round_bytes w (openai_body w (req\<lparr>ar_profile := p\<rparr>))"])
      (auto simp: openai_round_plan_def below_base_openai round_bytes_def bodies_keyless Let_def split: if_splits)
  show "keyless env (\<lambda>p. then_do (gemini_round_plan env w (req\<lparr>ar_profile := p\<rparr>)) pl_request)"
    by (rule keyless_by_target [where url = "\<lambda>p. gemini_agent_endpoint p @ ''?alt=sse''"
          and body = "\<lambda>p. round_bytes w (gemini_body w (req\<lparr>ar_profile := p\<rparr>))"])
      (auto simp: gemini_round_plan_def below_base_gemini round_bytes_def bodies_keyless Let_def split: if_splits)
qed

lemma requests_keyless: "f \<in> set (adapter_requests env w chat round') \<Longrightarrow> keyless env f"
  unfolding adapter_requests_def by (auto simp: keyless_openai keyless_gemini keyless_rounds)

text \<open>
  C28: The API key is only ever a header. Every request the two adapters build for a profile, of model
  discovery, verification, health check, chat and agent rounds, is built only when the base URL of the
  profile passed the validation; its URL is that base URL without trailing slashes, and possibly
  without the chat path it ended with, followed by one of five paths of the services, in which at most the model
  name varies; it waits between 5 and 300 seconds; and its URL and its body are the same
  with any other key.
\<close>

theorem api_key_stays_in_headers:
  assumes "f \<in> set (adapter_requests env w chat round')" and "f p = Inr rq"
  shows "validate_url (hv_url env) p = Inr ()
    \<and> (\<exists>base \<in> {base_of p, endpoint_root p}. \<exists>path \<in> set (endpoint_paths p). hr_url rq = base @ path)
    \<and> 5 \<le> hr_timeout rq \<and> hr_timeout rq \<le> 300
    \<and> (\<forall>k rq'. f (p\<lparr>bp_api_key := k\<rparr>) = Inr rq' \<longrightarrow> hr_url rq' = hr_url rq \<and> hr_body rq' = hr_body rq)"
proof -
  have "validate_url (hv_url env) p = Inr () \<and> below_base p (hr_url rq) \<and> hr_timeout rq = request_timeout p
    \<and> (\<forall>k rq'. f (p\<lparr>bp_api_key := k\<rparr>) = Inr rq' \<longrightarrow> hr_url rq' = hr_url rq \<and> hr_body rq' = hr_body rq)"
    using requests_keyless [OF assms(1)] assms(2) unfolding keyless_def by blast
  then show ?thesis using request_timeout_bounds [of p] unfolding below_base_def by metis
qed

text \<open>
  C22: However a round ends - refused, cancelled at any point, failed, rejected by the provider or answered -
  it leaves no new receipt in the prepared state of the database.
\<close>

theorem round_leaves_nothing_prepared:
  assumes "reachable d"
    and "infer_agent_round env w senv polls (Some (database_gate g owner clocks cap trace)) req (d, ids0) = ((d', ids'), sent, out)"
    and "receipt_of d' i = Some (''Prepared'', r)"
  shows "\<exists>r'. receipt_of d i = Some (''Prepared'', r')"
proof (cases "round_plan_of env w req")
  case (Inl e)
  then show ?thesis using assms by (simp add: infer_agent_round_def)
next
  case (Inr plan)
  obtain s1 sent1 out1 where x: "exchange_round env polls plan (Some (database_gate g owner clocks cap trace)) req (d, ids0)
      = (s1, sent1, out1)" by (rule prod_cases3)
  have "s1 = (d', ids')" using assms(2) Inr x by (simp add: infer_agent_round_def)
  moreover have "prepared_of s1 \<subseteq> prepared_of (d, ids0)"
    using application.exchange_settles [OF x] reachable_ok [OF assms(1)] by simp
  ultimately show ?thesis using assms(3) by (auto simp: prepared_of_def)
qed

lemma gate_run_seals:
  assumes s: "structure_ok d" and st: "status \<noteq> Prepared"
    and a: "bg_authorize (database_gate g owner clocks cap trace) req endpoint body (d, ids0) = (s1, Inr ids)"
    and c: "bg_check (database_gate g owner clocks cap trace) s1 = (s2, Inr ())"
    and f: "bg_finish (database_gate g owner clocks cap trace) ids status s2 = ((d', ids'), Inr ())"
  shows "distinct ids \<and> ids \<noteq> [] \<and> length ids = length (tool_results (ar_messages req))
    \<and> (\<forall>i \<in> set ids. receipt_of d i = None
         \<and> (\<exists>r. receipt_of d' i = Some (egress_status_text status, r) \<and> seals_body g cap trace req body r))"
proof -
  have au: "authorize_exact_body g owner (gt_authorize clocks) cap trace req endpoint body (d, ids0)
      = ((fst s1, snd s1), Inr ids)" using a by (simp add: database_gate_def)
  note auth = authorized_structure [OF s au]
  then have s1: "structure_ok (fst s1)" and dist: "distinct ids" and nonempty: "ids \<noteq> []"
    and mine: "\<And>i. i \<in> set ids \<Longrightarrow> receipt_of d i = None
      \<and> (\<exists>r. receipt_of (fst s1) i = Some (''Prepared'', r) \<and> seals_body g cap trace req body r)"
    unfolding database.authorizing_def by blast+
  have c2: "structure_ok (fst s2) \<and> receipt_of (fst s2) = receipt_of (fst s1)"
    using c check_frame [OF _ s1] by (auto simp: database_gate_def split: prod.splits)
  have same: "\<forall>i \<in> set ids. \<exists>r. receipt_of (fst s2) i = Some (''Prepared'', r) \<and> ter_body_digest r = sha_hex (ge_sha g) body"
    using mine seals_body_digest c2 by metis
  show ?thesis
  proof (rule finish_exact [OF conjunct1 [OF c2] nonempty dist st same])
    fix d2
    assume "gate_finish (gt_finish clocks) (with_revocation (gt_revoked_finish clocks) cap) ids status (fst s2) = (d2, Inr ())"
      and look: "receipt_of d2 = (\<lambda>i. if i \<in> set ids
        then map_option (\<lambda>(_, r). (egress_status_text status, r)) (receipt_of (fst s2) i) else receipt_of (fst s2) i)"
    then have "d2 = d'" using f by (simp add: database_gate_def case_prod_beta)
    then have "receipt_of d i = None \<and> (\<exists>r. receipt_of d' i = Some (egress_status_text status, r)
        \<and> seals_body g cap trace req body r)" if i: "i \<in> set ids" for i
      using mine [OF i] i c2 look by auto
    then show ?thesis using auth dist by simp
  qed
qed

text \<open>
  C3: A body with tool results reaches the network only sealed: every result has its own new receipt that
  verifies against exactly the bytes sent, belongs to this turn and to a consent that is not revoked and
  names the provider, and is recorded as sent or as of unknown outcome.
\<close>

theorem sent_body_is_sealed:
  assumes "reachable d" and "request_has_tool_results req"
    and "infer_agent_round env w senv polls (Some (database_gate g owner clocks cap trace)) req (d, ids0) = ((d', ids'), Some rq, out)"
  shows "\<exists>body ids status. hr_body rq = RawBody body \<and> distinct ids \<and> ids \<noteq> []
    \<and> length ids = length (tool_results (ar_messages req)) \<and> status \<in> {Sent, OutcomeUnknown}
    \<and> (\<forall>i \<in> set ids. receipt_of d i = None
         \<and> (\<exists>r. receipt_of d' i = Some (egress_status_text status, r) \<and> seals_body g cap trace req body r))"
proof -
  have s: "structure_ok d" using reachable_ok [OF assms(1)] by blast
  obtain plan where plan: "round_plan_of env w req = Inr plan"
    using assms(3) by (cases "round_plan_of env w req") (simp_all add: infer_agent_round_def)
  obtain out1 where x: "exchange_round env polls plan (Some (database_gate g owner clocks cap trace)) req (d, ids0)
      = ((d', ids'), Some rq, out1)"
    using assms(3) plan by (auto simp: infer_agent_round_def split: prod.splits)
  show ?thesis
  proof (rule application.exchange_sent [OF x _ assms(2)])
    fix s1 s2 ids status
    assume "bg_authorize (database_gate g owner clocks cap trace) req (pl_identity plan) (pl_body plan) (d, ids0) = (s1, Inr ids)"
      and "bg_check (database_gate g owner clocks cap trace) s1 = (s2, Inr ())"
      and "bg_finish (database_gate g owner clocks cap trace) ids status s2 = ((d', ids'), Inr ())"
      and st: "status \<in> {Sent, OutcomeUnknown}" and rq: "pl_request plan = Inr rq"
    from gate_run_seals [OF s _ this(1-3)] st show ?thesis using plan_request [OF plan rq] by blast
  qed (use s in \<open>simp_all add: one_body_def\<close>)
qed

text \<open>Without a gate a request with tool results is never handed to the network.\<close>

theorem no_gate_no_tool_results:
  assumes "request_has_tool_results req"
    and "infer_agent_round env w senv polls (None :: 's body_gate option) req s = (s', sent, out)"
  shows "s' = s \<and> sent = None \<and> \<not> is_ok out"
proof (cases "round_plan_of env w req")
  case (Inr plan)
  then show ?thesis using assms by (auto simp: infer_agent_round_def exchange_round_def split: if_splits)
qed (use assms in \<open>auto simp: infer_agent_round_def\<close>)


section \<open>Witnesses\<close>

definition round_demo_request :: agent_request where
  "round_demo_request = demo_request\<lparr>ar_profile := (ar_profile demo_request)\<lparr>bp_api_key := Some ''k''\<rparr>\<rparr>"

definition round_demo_env :: http_env where
  "round_demo_env = \<lparr> hv_client = True, hv_header_ok = (\<lambda>_. True), hv_send = (\<lambda>_. SendError), hv_url = demo_parse,
     hv_json = (\<lambda>_. None), hv_elapsed = 0 \<rparr>"

definition round_demo_codec :: wire_codec where
  "round_demo_codec = \<lparr> wc_text = (\<lambda>_. Some ''body''), wc_result_text = (\<lambda>_. Some ''s''), wc_result_value = (\<lambda>_. Some JNull),
     wc_uuid = (\<lambda>_. ''u'') \<rparr>"

definition round_demo_rq :: http_request where
  "round_demo_rq = \<lparr> hr_post = True, hr_url = ''https://h/x/chat/completions'',
     hr_headers = [(''authorization'', ''Bearer k''), (''content-type'', ''application/json'')], hr_timeout = 30,
     hr_body = RawBody ''body'' \<rparr>"

lemma round_demo_plan: "round_plan_of round_demo_env round_demo_codec round_demo_request =
    Inr \<lparr> pl_identity = ''https://h/x/chat/completions'', pl_body = ''body'', pl_request = Inr round_demo_rq,
      pl_network_error = ''HTTP_SEND_ERROR'', pl_http_prefix = ''HTTP_'' \<rparr>"
  by code_simp

lemma api_key_stays_in_headers_witness:
  "(\<exists>base \<in> {base_of (ar_profile round_demo_request), endpoint_root (ar_profile round_demo_request)}.
      \<exists>path \<in> set (endpoint_paths (ar_profile round_demo_request)). hr_url round_demo_rq = base @ path)
    \<and> hr_timeout round_demo_rq \<le> 300"
proof -
  let ?f = "\<lambda>p. then_do (openai_round_plan round_demo_env round_demo_codec (round_demo_request\<lparr>ar_profile := p\<rparr>)) pl_request"
  have "?f (ar_profile round_demo_request) = Inr round_demo_rq" by code_simp
  moreover have "?f \<in> set (adapter_requests round_demo_env round_demo_codec chat round_demo_request)" for chat
    by (simp add: adapter_requests_def)
  ultimately show ?thesis using api_key_stays_in_headers by blast
qed

lemma round_demo_seal: "seal_result demo_gate demo_granted 1 round_demo_request demo_context demo_gate_binding ''body'' 0
    demo_tool_result = Inr demo_gate_receipt"
  by code_simp

lemma round_demo_binding:
  "binding_new (\<lambda>_. ''d'') demo_parse (\<lambda>_. ''u'') 1 ''OpenAi'' ''https://h/x/chat/completions'' ''m'' = Inr demo_gate_binding"
  by code_simp

lemma round_demo_authorized:
  obtains d1 where "authorize_exact_body demo_gate 40 13 demo_granted 1 round_demo_request ''https://h/x/chat/completions'' ''body''
    (demo_gate_db, []) = ((d1, [100]), Inr [100])"
proof -
  obtain d1 where p: "prepare_tool_egress_receipt 40 demo_gate_receipt demo_gate_db = Inr d1"
    using demo_gate_checks unfolding demo_gate_run by (auto simp: is_ok_iff)
  have ctx: "ar_repository_context round_demo_request = Some demo_context" "ar_messages round_demo_request = ar_messages demo_request"
    "bp_id (ar_profile round_demo_request) = 1" "bp_provider (ar_profile round_demo_request) = OpenAi"
    "bp_model (ar_profile round_demo_request) = ''m''"
    by (simp_all add: round_demo_request_def demo_request_def)
  have g: "ge_sha demo_gate = (\<lambda>_. ''d'')" "ge_parse demo_gate = demo_parse" "ge_uuid_text demo_gate = (\<lambda>_. ''u'')"
    by (simp_all add: demo_gate_def)
  have "ter_id demo_gate_receipt = 100" by (simp add: demo_gate_receipt_def)
  then have "authorize_exact_body demo_gate 40 13 demo_granted 1 round_demo_request ''https://h/x/chat/completions'' ''body''
    (demo_gate_db, []) = ((d1, [100]), Inr [100])"
    by (simp add: authorize_exact_body_def ctx g round_demo_binding demo_tool_results round_demo_seal p)
  then show thesis by (rule that)
qed

definition demo_clocks :: gate_times where
  "demo_clocks = \<lparr> gt_authorize = 13, gt_check = 14, gt_finish = 15, gt_revoked_check = False, gt_revoked_finish = True \<rparr>"

definition demo_polls :: round_polls where
  "demo_polls = \<lparr> rp_before_gate = False, rp_before_send = False, rp_wait = CancelledSent \<rparr>"

abbreviation demo_round :: "stream_env \<Rightarrow> (db \<times> uuid list) \<times> http_request option \<times> round_event list result" where
  "demo_round senv \<equiv> infer_agent_round round_demo_env round_demo_codec senv demo_polls
     (Some (database_gate demo_gate 40 demo_clocks demo_granted 1)) round_demo_request (demo_gate_db, [])"

lemma demo_round_runs:
  obtains d2 where "demo_round senv = ((d2, [100]), Some round_demo_rq, Inl ErrCancelled)"
proof -
  let ?gate = "database_gate demo_gate 40 demo_clocks demo_granted 1"
  obtain d1 where d1: "authorize_exact_body demo_gate 40 13 demo_granted 1 round_demo_request ''https://h/x/chat/completions'' ''body''
    (demo_gate_db, []) = ((d1, [100]), Inr [100])" by (rule round_demo_authorized)
  have good: "structure_ok demo_gate_db" using reachable_ok [OF demo_gate_reachable] by blast
  have a: "bg_authorize ?gate round_demo_request ''https://h/x/chat/completions'' ''body'' (demo_gate_db, []) = ((d1, [100]), Inr [100])"
    using d1 by (simp add: database_gate_def demo_clocks_def)
  have "check_authorized (with_revocation False demo_granted) = Inr ()"
    by (simp add: demo_granted_def capability_new_def with_revocation_def)
  then have c: "bg_check ?gate (d1, [100]) = ((d1, [100]), Inr ())"
    by (simp add: database_gate_def demo_clocks_def gate_check_authorized_def del: check_authorized_Inr)
  note ok = application.authorize_ok [OF _ a, simplified, OF good]
  obtain d2 ids2 where f: "bg_finish ?gate [100] OutcomeUnknown (d1, [100]) = ((d2, ids2), Inr ())"
    using application.finish_ok [of "(d1, [100])" "[100]" OutcomeUnknown demo_gate 40 demo_clocks demo_granted 1] ok by auto
  have "ids2 = [100]" using f by (auto simp: database_gate_def split: prod.splits)
  moreover have "request_has_tool_results round_demo_request" by code_simp
  ultimately have "demo_round senv = ((d2, [100]), Some round_demo_rq, Inl ErrCancelled)"
    using a c f by (simp add: infer_agent_round_def round_demo_plan exchange_round_def demo_polls_def authorized_round_def
        send_round_def settle_def pending_finish_def pending_drop_def)
  then show thesis by (rule that)
qed

lemma sent_body_is_sealed_witness:
  "reachable demo_gate_db \<and> (\<exists>d2 status i r. demo_round stream_demo_env = ((d2, [100]), Some round_demo_rq, Inl ErrCancelled)
     \<and> status \<in> {Sent, OutcomeUnknown} \<and> receipt_of d2 i = Some (egress_status_text status, r)
     \<and> seals_body demo_gate demo_granted 1 round_demo_request ''body'' r)"
proof (rule demo_round_runs [of stream_demo_env])
  fix d2 assume r: "demo_round stream_demo_env = ((d2, [100]), Some round_demo_rq, Inl ErrCancelled)"
  have t: "request_has_tool_results round_demo_request" by code_simp
  have b: "hr_body round_demo_rq = RawBody ''body''" by (simp add: round_demo_rq_def)
  from sent_body_is_sealed [OF demo_gate_reachable t r]
  obtain ids status where "ids \<noteq> []" "status \<in> {Sent, OutcomeUnknown}"
    "\<forall>i \<in> set ids. \<exists>r. receipt_of d2 i = Some (egress_status_text status, r)
      \<and> seals_body demo_gate demo_granted 1 round_demo_request ''body'' r"
    unfolding b by auto
  then show ?thesis using r demo_gate_reachable by (metis list.set_intros(1) neq_Nil_conv)
qed

lemma round_leaves_nothing_prepared_witness:
  "reachable demo_gate_db \<and> (\<exists>d2. demo_round stream_demo_env = ((d2, [100]), Some round_demo_rq, Inl ErrCancelled)
     \<and> (\<forall>r. receipt_of d2 100 = Some (''Prepared'', r) \<longrightarrow> (\<exists>r'. receipt_of demo_gate_db 100 = Some (''Prepared'', r'))))"
proof (rule demo_round_runs [of stream_demo_env])
  fix d2 assume r: "demo_round stream_demo_env = ((d2, [100]), Some round_demo_rq, Inl ErrCancelled)"
  then show ?thesis using round_leaves_nothing_prepared [OF demo_gate_reachable r] demo_gate_reachable by blast
qed

lemma no_gate_no_tool_results_witness:
  "request_has_tool_results round_demo_request
   \<and> fst (snd (infer_agent_round round_demo_env round_demo_codec stream_demo_env demo_polls
       (None :: unit body_gate option) round_demo_request ())) = None"
proof -
  have t: "request_has_tool_results round_demo_request" by code_simp
  obtain s' sent out where r: "infer_agent_round round_demo_env round_demo_codec stream_demo_env demo_polls
      (None :: unit body_gate option) round_demo_request () = (s', sent, out)" by (rule prod_cases3)
  show ?thesis using t no_gate_no_tool_results [OF t r] r by simp
qed

end
