(* ===== verification/Repository_Scan.thy ===== *)
theory Repository_Scan
  imports Path_Safety Digests Prompt_Composition "HOL-Library.Multiset"
begin

text \<open>
  \<open>crates/mentat-repository\<close>: classifying and inspecting a file (\<open>scanner.rs\<close>), opening a repository,
  scanning its tree under limits, the snapshot of a scan and reading a file (\<open>session.rs\<close>).

  The file system is that of \<open>Path_Safety\<close> with the length of an open handle and what its reads return.
  The walk over the tree, which applies the ignore rules, is a library: its entries are a list, and the
  cancellation token is polled once for each of them.
\<close>

section \<open>Classification\<close>

definition lower_name :: "string option \<Rightarrow> string" where
  "lower_name n = (case n of Some s \<Rightarrow> to_lowercase s | None \<Rightarrow> [])"

definition classify_file :: "string \<Rightarrow> file_kind" where
  "classify_file p =
     (let name = lower_name (file_name p); ext = lower_name (extension p) in
      if name \<in> {''cargo.toml'', ''package.json'', ''go.mod'', ''pom.xml'', ''requirements.txt'', ''gemfile''} then Manifest
      else if name = ''readme.md'' \<or> prefix ''spec'' name \<or> prefix ''design'' name
        \<or> ext \<in> {''md'', ''txt'', ''rst'', ''adoc''} then Documentation
      else if ext \<in> {''json'', ''yaml'', ''yml'', ''toml'', ''ini'', ''env''} then Configuration
      else if ext \<in> {''rs'', ''ts'', ''js'', ''py'', ''go'', ''cpp'', ''c'', ''h'', ''hpp'', ''java'', ''kt'', ''swift'', ''cs'', ''html'', ''css''}
        then SourceCode
      else if ext \<in> {''png'', ''jpg'', ''jpeg'', ''gif'', ''svg'', ''ico'', ''webp'', ''mp4'', ''mp3''} then Asset
      else if ext \<in> {''exe'', ''dll'', ''so'', ''dylib'', ''bin'', ''o'', ''a'', ''wasm''} then KindBinary
      else KindOther)"

definition is_text_buffer :: "string \<Rightarrow> bool" where
  "is_text_buffer buffer \<longleftrightarrow> buffer = [] \<or> CHR 0x00 \<notin> set (take 8192 buffer)"

section \<open>Inspecting a file\<close>

definition MAX_SCAN_FILES_LIMIT :: nat where "MAX_SCAN_FILES_LIMIT = 100000"
definition MAX_SCAN_TOTAL_BYTES_LIMIT :: nat where "MAX_SCAN_TOTAL_BYTES_LIMIT = 2147483648"
definition MAX_SINGLE_FILE_BYTES :: nat where "MAX_SINGLE_FILE_BYTES = 10485760"
definition MAX_SCAN_PREVIEW_BYTES :: nat where "MAX_SCAN_PREVIEW_BYTES = 8388608"

definition SAMPLE_BYTES :: nat where "SAMPLE_BYTES = 2097152"
definition PREVIEW_BYTES :: nat where "PREVIEW_BYTES = 16384"

text \<open>A read returns some bytes, none at the end of the file, or fails.\<close>

record 'h scan_system =
  ss_fs :: "'h file_system"
  ss_len :: "'h \<Rightarrow> nat option"
  ss_reads :: "'h \<Rightarrow> string option list"
  ss_sha :: "string \<Rightarrow> string"

fun read_loop_bytes :: "string option list \<Rightarrow> string \<Rightarrow> string \<Rightarrow> (string \<times> string) result" where
  "read_loop_bytes [] content sample = Inr (content, sample)"
| "read_loop_bytes (None # reads) content sample = Inl io_err"
| "read_loop_bytes (Some c # reads) content sample =
     (if c = [] then Inr (content, sample)
      else if length (content @ c) > MAX_SINGLE_FILE_BYTES then Inl (IndexingError ''limit exceeded while reading'')
      else read_loop_bytes reads (content @ c)
        (if length sample < SAMPLE_BYTES then sample @ take (min (length c) (SAMPLE_BYTES - length sample)) c else sample))"

definition count_byte :: "char \<Rightarrow> string \<Rightarrow> nat" where
  "count_byte b s = length (filter (\<lambda>c. c = b) s)"

text \<open>The number of lines, estimated from the sample when the file is longer than it.\<close>

definition scanned_line_count :: "bool \<Rightarrow> nat \<Rightarrow> string \<Rightarrow> nat option" where
  "scanned_line_count is_text amount sample =
     (let newlines = count_byte (CHR 0x0A) sample in
      if is_text \<and> amount = length sample
        then Some (newlines + (if suffix [CHR 0x0A] sample \<or> sample = [] then 0 else 1))
      else if is_text then Some (amount div max (length sample div max newlines 1) 1)
      else None)"

definition scanned_preview :: "bool \<Rightarrow> string \<Rightarrow> string option" where
  "scanned_preview is_text sample =
     (let head = take (min (length sample) PREVIEW_BYTES) sample in
      if is_text \<and> utf8_valid head then Some head else None)"

definition inspect_file :: "'h scan_system \<Rightarrow> string \<Rightarrow> string \<Rightarrow> file_record result" where
  "inspect_file ss repo rel =
     then_do (ok_or (fs_canonicalize (ss_fs ss) repo) (InvalidRepositoryPath repo)) (\<lambda>croot.
     then_do (ok_or (fs_canonicalize (ss_fs ss) (path_join repo rel)) io_err) (\<lambda>cpath.
       if \<not> path_starts_with cpath croot then Inl (ExternalPathBlocked cpath)
       else then_do (open_beneath (ss_fs ss) croot rel) (\<lambda>file.
         then_do (ok_or (ss_len ss file) io_err) (\<lambda>size.
           if size > MAX_SINGLE_FILE_BYTES then Inl (IndexingError ''file too large'')
           else then_do (read_loop_bytes (ss_reads ss file) [] []) (\<lambda>(content, sample).
             let is_text = is_text_buffer sample in
             Inr \<lparr> file_path = rel, file_kind = classify_file rel, file_size_bytes = size,
                   file_content_hash = sha_hex (ss_sha ss) content, file_is_text = is_text,
                   file_line_count = scanned_line_count is_text (length content) sample,
                   file_text_preview = scanned_preview is_text sample \<rparr>)))))"

section \<open>Scanning the tree\<close>

record scan_limits =
  sl_max_files :: nat
  sl_max_total_bytes :: nat
  sl_max_single_file_bytes :: nat

definition scan_limits_default :: scan_limits where
  "scan_limits_default = \<lparr> sl_max_files = MAX_SCAN_FILES_LIMIT, sl_max_total_bytes = MAX_SCAN_TOTAL_BYTES_LIMIT,
     sl_max_single_file_bytes = MAX_SINGLE_FILE_BYTES \<rparr>"

datatype scan_omit_reason =
  OmitWalkError | OmitMetadataError | OmitReadError | OmitFileCountLimit | OmitTotalBytesLimit | OmitFileTooLarge | OmitCancelled

record scan_omission =
  so_path :: string
  so_reason :: scan_omit_reason

record scan_outcome =
  sco_files :: "file_record list"
  sco_omissions :: "scan_omission list"
  sco_cancelled :: bool

definition is_complete :: "scan_outcome \<Rightarrow> bool" where
  "is_complete o' \<longleftrightarrow> \<not> sco_cancelled o' \<and> sco_omissions o' = []"

text \<open>
  An entry of the walk: an error, or a path with its metadata, if that could be read. The time of the last
  change is in nanoseconds, if it is known.
\<close>

record walk_meta =
  wm_is_file :: bool
  wm_len :: nat
  wm_mtime :: "int option"

datatype walk_entry = WalkFailed | WalkPath string "walk_meta option"

fun component_text :: "path_component \<Rightarrow> string" where
  "component_text (Normal n) = n"
| "component_text ParentDir = ''..''"
| "component_text CurDir = ''.''"
| "component_text RootDir = []"

definition path_strip_prefix :: "string \<Rightarrow> string \<Rightarrow> string option" where
  "path_strip_prefix p base =
     (if path_starts_with p base
      then Some (join ''/'' (map component_text (drop (length (components base)) (components p)))) else None)"

record scan_state =
  sct_files :: "file_record list"
  sct_omissions :: "scan_omission list"
  sct_bytes :: nat
  sct_preview :: nat

definition omit :: "string \<Rightarrow> scan_omit_reason \<Rightarrow> scan_state \<Rightarrow> scan_state" where
  "omit p r s = s\<lparr>sct_omissions := sct_omissions s @ [\<lparr> so_path = p, so_reason = r \<rparr>]\<rparr>"

definition in_git_dir :: "string \<Rightarrow> bool" where
  "in_git_dir p \<longleftrightarrow> Normal ''.git'' \<in> set (components p)"

text \<open>A record is kept without its preview when the previews would take too much together.\<close>

definition keep_record :: "file_record \<Rightarrow> scan_state \<Rightarrow> scan_state" where
  "keep_record r s =
     (let len = (case file_text_preview r of Some t \<Rightarrow> length t | None \<Rightarrow> 0);
          fits = file_text_preview r \<noteq> None \<and> sct_preview s + len \<le> MAX_SCAN_PREVIEW_BYTES in
      s\<lparr>sct_files := sct_files s @ [if fits then r else r\<lparr>file_text_preview := None\<rparr>],
        sct_bytes := sct_bytes s + file_size_bytes r,
        sct_preview := (if fits then sct_preview s + len else sct_preview s)\<rparr>)"

definition scan_file :: "'h scan_system \<Rightarrow> scan_limits \<Rightarrow> string \<Rightarrow> string \<Rightarrow> nat \<Rightarrow> scan_state \<Rightarrow> scan_state" where
  "scan_file ss limits repo rel len s =
     (if len > sl_max_single_file_bytes limits then omit rel OmitFileTooLarge s
      else if min (sct_bytes s + len) (2 ^ 64 - 1) > sl_max_total_bytes limits then omit rel OmitTotalBytesLimit s
      else if length (sct_files s) \<ge> sl_max_files limits then omit rel OmitFileCountLimit s
      else case inspect_file ss repo rel of
        Inr r \<Rightarrow> keep_record r s
      | Inl e \<Rightarrow> omit rel OmitReadError s)"

definition scan_entry :: "'h scan_system \<Rightarrow> scan_limits \<Rightarrow> string \<Rightarrow> walk_entry \<Rightarrow> scan_state \<Rightarrow> scan_state" where
  "scan_entry ss limits repo entry s =
     (case entry of
        WalkFailed \<Rightarrow> omit ''<walk>'' OmitWalkError s
      | WalkPath p meta \<Rightarrow>
          if in_git_dir p then s
          else case meta of
            None \<Rightarrow> omit (case path_strip_prefix p repo of Some rel \<Rightarrow> rel | None \<Rightarrow> p) OmitMetadataError s
          | Some m \<Rightarrow>
              if \<not> wm_is_file m then s
              else case path_strip_prefix p repo of None \<Rightarrow> s | Some rel \<Rightarrow> scan_file ss limits repo rel (wm_len m) s)"

fun scan_loop ::
  "'h scan_system \<Rightarrow> scan_limits \<Rightarrow> string \<Rightarrow> (nat \<Rightarrow> bool) \<Rightarrow> nat \<Rightarrow> walk_entry list \<Rightarrow> scan_state \<Rightarrow> scan_outcome" where
  "scan_loop ss limits repo cancelled k [] s =
     \<lparr> sco_files = sct_files s, sco_omissions = sct_omissions s, sco_cancelled = False \<rparr>"
| "scan_loop ss limits repo cancelled k (entry # entries) s =
     (if cancelled k
      then \<lparr> sco_files = sct_files s, sco_omissions = sct_omissions (omit ''<scan>'' OmitCancelled s), sco_cancelled = True \<rparr>
      else scan_loop ss limits repo cancelled (Suc k) entries (scan_entry ss limits repo entry s))"

definition scan_start :: scan_state where
  "scan_start = \<lparr> sct_files = [], sct_omissions = [], sct_bytes = 0, sct_preview = 0 \<rparr>"

definition scan_tree ::
  "'h scan_system \<Rightarrow> scan_limits \<Rightarrow> string \<Rightarrow> (nat \<Rightarrow> bool) \<Rightarrow> walk_entry list \<Rightarrow> scan_outcome" where
  "scan_tree ss limits repo cancelled entries = scan_loop ss limits repo cancelled 0 entries scan_start"

section \<open>The session\<close>

record session =
  se_root :: string
  se_profile :: repository_profile

record directory_system =
  ds_is_dir :: "string \<Rightarrow> bool"
  ds_exists :: "string \<Rightarrow> bool"

definition open_with_known_id ::
  "'h file_system \<Rightarrow> directory_system \<Rightarrow> uuid \<Rightarrow> string \<Rightarrow> uuid option \<Rightarrow> session result" where
  "open_with_known_id fs ds fresh p known =
     then_do (ok_or (fs_canonicalize fs p) (InvalidRepositoryPath p)) (\<lambda>repo.
       if \<not> ds_is_dir ds repo then Inl (InvalidRepositoryPath repo)
       else Inr \<lparr> se_root = repo,
         se_profile = \<lparr> repo_id = (case known of Some i \<Rightarrow> i | None \<Rightarrow> fresh),
           repo_display_name = (case file_name repo of Some n \<Rightarrow> n | None \<Rightarrow> ''repository''),
           repo_root_path = repo,
           repo_type = (if ds_exists ds (path_join repo ''.git'') then RepoGit else RepoDirectory),
           repo_consent_policy = False \<rparr> \<rparr>)"

definition sorted_files :: "file_record list \<Rightarrow> file_record list" where
  "sorted_files fs = sort_key (\<lambda>f. components (file_path f)) fs"

definition tree_digest :: "(string \<Rightarrow> string) \<Rightarrow> file_record list \<Rightarrow> string" where
  "tree_digest sha fs = sha_hex sha (concat (map (\<lambda>f. file_path f @ file_content_hash f) (sorted_files fs)))"

definition create_snapshot_from_files ::
  "(string \<Rightarrow> string) \<Rightarrow> uuid \<Rightarrow> datetime \<Rightarrow> session \<Rightarrow> file_record list \<Rightarrow> repository_snapshot" where
  "create_snapshot_from_files sha fresh now se fs =
     \<lparr> snap_id = fresh, snap_repo_id = repo_id (se_profile se), snap_created_at = now, snap_tree_digest = tree_digest sha fs,
       snap_status = SnapReady, snap_file_count = length fs, snap_total_bytes = sum_list (map file_size_bytes (sorted_files fs)) \<rparr>"

definition create_snapshot_from_outcome ::
  "(string \<Rightarrow> string) \<Rightarrow> uuid \<Rightarrow> datetime \<Rightarrow> session \<Rightarrow> scan_outcome \<Rightarrow> repository_snapshot" where
  "create_snapshot_from_outcome sha fresh now se out =
     (let snap = create_snapshot_from_files sha fresh now se (sco_files out) in
      if \<not> is_complete out then snap\<lparr>snap_status := SnapIncomplete\<rparr> else snap)"

text \<open>\<open>take(MAX + 1).read_to_end\<close>: the reads up to the end or the bound.\<close>

fun read_to_end :: "nat \<Rightarrow> string option list \<Rightarrow> string \<Rightarrow> string result" where
  "read_to_end bound [] body = Inr body"
| "read_to_end bound (None # reads) body = (if length body \<ge> bound then Inr body else Inl io_err)"
| "read_to_end bound (Some c # reads) body =
     (if c = [] \<or> length body \<ge> bound then Inr body else read_to_end bound reads (take bound (body @ c)))"

definition read_file_content :: "'h scan_system \<Rightarrow> session \<Rightarrow> string \<Rightarrow> string result" where
  "read_file_content ss se rel =
     then_do (open_beneath (ss_fs ss) (se_root se) rel) (\<lambda>file.
     then_do (ok_or (ss_len ss file) io_err) (\<lambda>len.
       if len > MAX_SINGLE_FILE_BYTES then Inl (IoError ''file too large'')
       else then_do (read_to_end (MAX_SINGLE_FILE_BYTES + 1) (ss_reads ss file) []) (\<lambda>bytes.
         if length bytes > MAX_SINGLE_FILE_BYTES then Inl (IoError ''limit exceeded'')
         else if utf8_valid bytes then Inr bytes else Inl (IoError ''not UTF-8''))))"

definition select_lines :: "string \<Rightarrow> nat \<Rightarrow> nat \<Rightarrow> string" where
  "select_lines content start_line end_line =
     (let ls = lines content in
      if start_line = 0 \<or> start_line > length ls then []
      else let i = start_line - 1; j = min end_line (length ls) in
        if i \<ge> j then [] else join [CHR 0x0A] (take (j - i) (drop i ls)))"

definition read_file_lines :: "'h scan_system \<Rightarrow> session \<Rightarrow> string \<Rightarrow> nat \<Rightarrow> nat \<Rightarrow> string result" where
  "read_file_lines ss se rel start_line end_line =
     then_do (read_file_content ss se rel) (\<lambda>content. Inr (select_lines content start_line end_line))"

section \<open>Lemmas\<close>

text \<open>What an inspected record says of the file: the handle it was read from, the bytes, the sample.\<close>

lemma read_loop_Inr:
  "read_loop_bytes reads content sample = Inr (content', sample')
     \<Longrightarrow> sample = take SAMPLE_BYTES content
     \<Longrightarrow> sample' = take SAMPLE_BYTES content' \<and> prefix content content'
       \<and> (length content' \<le> MAX_SINGLE_FILE_BYTES \<or> content' = content)"
proof (induction reads arbitrary: content sample)
  case (Cons r reads)
  show ?case
  proof (cases r)
    case (Some c)
    show ?thesis
    proof (cases "c = []")
      case False
      let ?more = "if length sample < SAMPLE_BYTES then sample @ take (min (length c) (SAMPLE_BYTES - length sample)) c
        else sample"
      have more: "?more = take SAMPLE_BYTES (content @ c)"
        using Cons.prems(2) by (auto simp: min_def not_less)
      have step: "read_loop_bytes reads (content @ c) ?more = Inr (content', sample')"
        and small: "length (content @ c) \<le> MAX_SINGLE_FILE_BYTES"
        using Cons.prems(1) Some False by (auto split: if_splits)
      show ?thesis using Cons.IH [OF step more] small by (auto dest: append_prefixD)
    qed (use Cons.prems Some in auto)
  qed (use Cons.prems in simp)
qed simp

definition file_bytes :: "'h scan_system \<Rightarrow> 'h \<Rightarrow> string \<Rightarrow> bool" where
  "file_bytes ss file bytes \<longleftrightarrow> (\<exists>sample. read_loop_bytes (ss_reads ss file) [] [] = Inr (bytes, sample))"

lemma file_bytes_small: "file_bytes ss file bytes \<Longrightarrow> length bytes \<le> MAX_SINGLE_FILE_BYTES"
  unfolding file_bytes_def by (auto dest: read_loop_Inr simp: MAX_SINGLE_FILE_BYTES_def)

lemma inspect_file_Inr:
  assumes "inspect_file ss repo rel = Inr r"
  obtains croot h bytes where "fs_canonicalize (ss_fs ss) repo = Some croot"
    and "open_beneath (ss_fs ss) croot rel = Inr h"
    and "ss_len ss h = Some (file_size_bytes r)" and "file_size_bytes r \<le> MAX_SINGLE_FILE_BYTES"
    and "file_bytes ss h bytes" and "file_path r = rel" and "file_content_hash r = sha_hex (ss_sha ss) bytes"
    and "file_is_text r = is_text_buffer (take SAMPLE_BYTES bytes)"
    and "file_line_count r = scanned_line_count (file_is_text r) (length bytes) (take SAMPLE_BYTES bytes)"
    and "file_text_preview r = scanned_preview (file_is_text r) (take SAMPLE_BYTES bytes)"
proof -
  obtain croot cpath h size bytes sample where
    root: "fs_canonicalize (ss_fs ss) repo = Some croot" "fs_canonicalize (ss_fs ss) (path_join repo rel) = Some cpath"
    and opened: "open_beneath (ss_fs ss) croot rel = Inr h"
    and size: "ss_len ss h = Some size" "size \<le> MAX_SINGLE_FILE_BYTES"
    and bytes: "read_loop_bytes (ss_reads ss h) [] [] = Inr (bytes, sample)"
    and r: "r = \<lparr> file_path = rel, file_kind = classify_file rel, file_size_bytes = size,
       file_content_hash = sha_hex (ss_sha ss) bytes, file_is_text = is_text_buffer sample,
       file_line_count = scanned_line_count (is_text_buffer sample) (length bytes) sample,
       file_text_preview = scanned_preview (is_text_buffer sample) sample \<rparr>"
    using assms by (auto simp: inspect_file_def not_less Let_def split: if_splits)
  have "sample = take SAMPLE_BYTES bytes" using read_loop_Inr [OF bytes] by simp
  then show thesis
    using root opened size r bytes by (intro that [of croot h bytes]) (auto simp: file_bytes_def)
qed

lemma scanned_preview_Some:
  assumes "scanned_preview t sample = Some p"
  shows "length p \<le> PREVIEW_BYTES \<and> prefix p sample \<and> utf8_valid p"
  using assms by (auto simp: scanned_preview_def Let_def take_is_prefix split: if_splits)

text \<open>The number of line feeds, and one for an unfinished last line, is the number of lines.\<close>

lemma count_lines:
  "length (lines s) = count_byte (CHR 0x0A) s + (if suffix [CHR 0x0A] s \<or> s = [] then 0 else 1)"
proof (induction "length s" arbitrary: s rule: less_induct)
  case less
  show ?case
  proof (cases s rule: newline_cases)
    case no_newline
    then have "filter (\<lambda>c. c = CHR 0x0A) s = []" by (auto simp: filter_empty_conv)
    then show ?thesis using no_newline
      by (cases "s = []") (auto simp: lines_no_newline count_byte_def suffix_def)
  next
    case (newline l rest)
    have "filter (\<lambda>c. c = CHR 0x0A) l = []" using newline(2) by (auto simp: filter_empty_conv)
    then have count: "count_byte (CHR 0x0A) s = Suc (count_byte (CHR 0x0A) rest)"
      using newline(1) by (simp add: count_byte_def)
    have "suffix [CHR 0x0A] s \<longleftrightarrow> rest = [] \<or> suffix [CHR 0x0A] rest"
      using newline(1) by (cases rest rule: rev_cases) (auto simp: suffix_def)
    then show ?thesis using less [of rest] newline count by (simp add: lines_Cons_line)
  qed
qed

section \<open>The scan\<close>

definition preview_length :: "file_record \<Rightarrow> nat" where
  "preview_length r = (case file_text_preview r of Some t \<Rightarrow> length t | None \<Rightarrow> 0)"

text \<open>A record is the inspected one, but for its preview.\<close>

definition scanned_from :: "'h scan_system \<Rightarrow> string \<Rightarrow> file_record \<Rightarrow> bool" where
  "scanned_from ss repo f \<longleftrightarrow>
     (\<exists>r. inspect_file ss repo (file_path f) = Inr r \<and> (f = r \<or> f = r\<lparr>file_text_preview := None\<rparr>))"

lemma inspected_path: "inspect_file ss repo rel = Inr r \<Longrightarrow> file_path r = rel"
  by (auto elim: inspect_file_Inr)

lemma inspected_size: "inspect_file ss repo rel = Inr r \<Longrightarrow> file_size_bytes r \<le> MAX_SINGLE_FILE_BYTES"
  by (auto elim: inspect_file_Inr)

definition scan_inv :: "'h scan_system \<Rightarrow> scan_limits \<Rightarrow> string \<Rightarrow> scan_state \<Rightarrow> bool" where
  "scan_inv ss limits repo s \<longleftrightarrow>
     length (sct_files s) \<le> sl_max_files limits
     \<and> sct_bytes s = sum_list (map file_size_bytes (sct_files s))
     \<and> sct_bytes s \<le> sl_max_total_bytes limits + MAX_SINGLE_FILE_BYTES
     \<and> sct_preview s = sum_list (map preview_length (sct_files s))
     \<and> sct_preview s \<le> MAX_SCAN_PREVIEW_BYTES
     \<and> list_all (scanned_from ss repo) (sct_files s)"

lemma omit_inv [simp]: "scan_inv ss limits repo (omit p r s) = scan_inv ss limits repo s"
  by (simp add: scan_inv_def omit_def)

lemma keep_record_inv:
  assumes inv: "scan_inv ss limits repo s" and good: "inspect_file ss repo rel = Inr r"
    and room: "sct_bytes s \<le> sl_max_total_bytes limits" and count: "length (sct_files s) < sl_max_files limits"
  shows "scan_inv ss limits repo (keep_record r s)"
proof -
  have kept: "scanned_from ss repo r" "scanned_from ss repo (r\<lparr>file_text_preview := None\<rparr>)"
    using good inspected_path [OF good] by (auto simp: scanned_from_def)
  show ?thesis
    using inv kept room count inspected_size [OF good]
    by (auto simp: scan_inv_def keep_record_def Let_def preview_length_def split: option.splits)
qed

lemma scan_file_inv:
  assumes "scan_inv ss limits repo s" and "sl_max_total_bytes limits < 2 ^ 64 - 1"
  shows "scan_inv ss limits repo (scan_file ss limits repo rel len s)"
  using assms
  by (auto simp: scan_file_def not_le not_less min_def split: sum.splits if_splits intro!: keep_record_inv)

lemma scan_entry_inv:
  assumes "scan_inv ss limits repo s" and "sl_max_total_bytes limits < 2 ^ 64 - 1"
  shows "scan_inv ss limits repo (scan_entry ss limits repo entry s)"
  using assms by (auto simp: scan_entry_def Let_def scan_file_inv split: walk_entry.splits option.splits)

lemma scan_loop_inv:
  assumes "scan_inv ss limits repo s" and "sl_max_total_bytes limits < 2 ^ 64 - 1"
  shows "\<exists>s'. scan_inv ss limits repo s' \<and> sco_files (scan_loop ss limits repo cancelled k entries s) = sct_files s'"
  using assms
proof (induction ss limits repo cancelled k entries s rule: scan_loop.induct)
  case (2 ss limits repo cancelled k entry entries s)
  then show ?case by (auto simp: scan_entry_inv)
qed auto


definition exact_inv :: "scan_limits \<Rightarrow> scan_state \<Rightarrow> bool" where
  "exact_inv limits s \<longleftrightarrow> sum_list (map file_size_bytes (sct_files s)) = sct_bytes s \<and> sct_bytes s \<le> sl_max_total_bytes limits
     \<and> (\<forall>f \<in> set (sct_files s). file_size_bytes f \<le> sl_max_single_file_bytes limits)"

lemma omit_exact [simp]: "exact_inv limits (omit p r s) = exact_inv limits s"
  by (simp add: exact_inv_def omit_def)





text \<open>The regular files of the walk, outside of \<open>.git\<close>, by their path below the root.\<close>

definition walked_file :: "string \<Rightarrow> walk_entry \<Rightarrow> string list" where
  "walked_file repo entry =
     (case entry of
        WalkPath p (Some m) \<Rightarrow>
          if in_git_dir p \<or> \<not> wm_is_file m then [] else (case path_strip_prefix p repo of Some rel \<Rightarrow> [rel] | None \<Rightarrow> [])
      | _ \<Rightarrow> [])"

definition walk_errors :: "walk_entry \<Rightarrow> nat" where
  "walk_errors entry =
     (case entry of WalkFailed \<Rightarrow> 1 | WalkPath p None \<Rightarrow> if in_git_dir p then 0 else 1 | _ \<Rightarrow> 0)"

text \<open>The paths a state accounts for: those kept and those left out for a reason of their own.\<close>

definition file_omission :: "scan_omission \<Rightarrow> bool" where
  "file_omission o' \<longleftrightarrow> so_reason o' \<in> {OmitReadError, OmitFileCountLimit, OmitTotalBytesLimit, OmitFileTooLarge}"

definition accounted :: "file_record list \<Rightarrow> scan_omission list \<Rightarrow> string multiset" where
  "accounted files omissions = mset (map file_path files) + mset (map so_path (filter file_omission omissions))"

lemma keep_record_path:
  "map file_path (sct_files (keep_record r s)) = map file_path (sct_files s) @ [file_path r]"
  by (simp add: keep_record_def Let_def)

lemma keep_record_omissions: "sct_omissions (keep_record r s) = sct_omissions s"
  by (simp add: keep_record_def Let_def)

abbreviation state_accounts :: "scan_state \<Rightarrow> string multiset" where
  "state_accounts s \<equiv> accounted (sct_files s) (sct_omissions s)"

lemma keep_record_accounts: "state_accounts (keep_record r s) = state_accounts s + {#file_path r#}"
  unfolding accounted_def keep_record_path keep_record_omissions by simp

lemma omit_accounts:
  "state_accounts (omit p r s) =
     state_accounts s + (if r \<in> {OmitReadError, OmitFileCountLimit, OmitTotalBytesLimit, OmitFileTooLarge} then {#p#} else {#})"
  by (simp add: accounted_def omit_def file_omission_def)

text \<open>A file of the walk is kept, or left out under its path for one of four reasons.\<close>

lemma scan_file_cases:
  obtains (kept) r where "scan_file ss limits repo rel len s = keep_record r s" and "file_path r = rel"
  | (left_out) reason where "scan_file ss limits repo rel len s = omit rel reason s"
    and "reason \<in> {OmitReadError, OmitFileCountLimit, OmitTotalBytesLimit, OmitFileTooLarge}"
proof -
  have "(\<exists>r. scan_file ss limits repo rel len s = keep_record r s \<and> file_path r = rel)
      \<or> (\<exists>reason \<in> {OmitReadError, OmitFileCountLimit, OmitTotalBytesLimit, OmitFileTooLarge}.
          scan_file ss limits repo rel len s = omit rel reason s)"
    by (auto simp: scan_file_def inspected_path split: sum.split)
  then show thesis using kept left_out by blast
qed

lemma scan_file_accounts: "state_accounts (scan_file ss limits repo rel len s) = state_accounts s + {#rel#}"
  by (rule scan_file_cases [of ss limits repo rel len s]) (simp_all add: keep_record_accounts omit_accounts)

text \<open>An entry of the walk is passed over, left out, or a file.\<close>

lemma scan_entry_cases:
  obtains (passed) "scan_entry ss limits repo entry s = s" and "walked_file repo entry = []" and "walk_errors entry = 0"
  | (failed) p reason where "scan_entry ss limits repo entry s = omit p reason s" and "walked_file repo entry = []"
    and "reason \<in> {OmitWalkError, OmitMetadataError}"
  | (walked) rel len where "scan_entry ss limits repo entry s = scan_file ss limits repo rel len s"
    and "walked_file repo entry = [rel]" and "walk_errors entry = 0"
proof (cases entry)
  case WalkFailed
  then show ?thesis by (intro failed) (auto simp: scan_entry_def walked_file_def)
next
  case (WalkPath p meta)
  show ?thesis
  proof (cases "in_git_dir p")
    case True
    then show ?thesis using WalkPath
      by (intro passed) (auto simp: scan_entry_def walked_file_def walk_errors_def split: option.splits)
  next
    case outside: False
    show ?thesis
    proof (cases meta)
      case None
      then show ?thesis using WalkPath outside by (intro failed) (auto simp: scan_entry_def walked_file_def)
    next
      case (Some m)
      show ?thesis
      proof (cases "wm_is_file m \<and> path_strip_prefix p repo \<noteq> None")
        case True
        then obtain rel where "path_strip_prefix p repo = Some rel" by auto
        then show ?thesis using WalkPath outside Some True
          by (intro walked [of rel "wm_len m"]) (auto simp: scan_entry_def walked_file_def walk_errors_def)
      next
        case False
        then show ?thesis using WalkPath outside Some
          by (intro passed) (auto simp: scan_entry_def walked_file_def walk_errors_def split: option.splits)
      qed
    qed
  qed
qed

lemma scan_entry_accounts:
  "state_accounts (scan_entry ss limits repo entry s) = state_accounts s + mset (walked_file repo entry)"
  by (rule scan_entry_cases [of ss limits repo entry s]) (auto simp: scan_file_accounts omit_accounts)

lemma scan_loop_accounts:
  assumes "\<not> sco_cancelled (scan_loop ss limits repo cancelled k entries s)"
  shows "accounted (sco_files (scan_loop ss limits repo cancelled k entries s))
      (sco_omissions (scan_loop ss limits repo cancelled k entries s))
    = accounted (sct_files s) (sct_omissions s) + mset (concat (map (walked_file repo) entries))"
  using assms
proof (induction ss limits repo cancelled k entries s rule: scan_loop.induct)
  case (2 ss limits repo cancelled k entry entries s)
  then show ?case by (auto simp: scan_entry_accounts split: if_splits)
qed simp

text \<open>A scan that leaves nothing out keeps the files in the order of the walk.\<close>

abbreviation omitted :: "scan_state \<Rightarrow> nat" where
  "omitted s \<equiv> length (sct_omissions s)"

lemma omit_omitted: "omitted (omit p r s) = Suc (omitted s)"
  by (simp add: omit_def)

lemma scan_file_order:
  "omitted s \<le> omitted (scan_file ss limits repo rel len s)
   \<and> (omitted (scan_file ss limits repo rel len s) = omitted s \<longrightarrow>
      map file_path (sct_files (scan_file ss limits repo rel len s)) = map file_path (sct_files s) @ [rel])"
  by (rule scan_file_cases [of ss limits repo rel len s])
     (simp_all add: keep_record_path keep_record_omissions omit_omitted)

lemma scan_entry_order:
  "omitted s \<le> omitted (scan_entry ss limits repo entry s)
   \<and> (omitted (scan_entry ss limits repo entry s) = omitted s \<longrightarrow>
      map file_path (sct_files (scan_entry ss limits repo entry s)) = map file_path (sct_files s) @ walked_file repo entry
      \<and> walk_errors entry = 0)"
  by (rule scan_entry_cases [of ss limits repo entry s]) (simp_all add: omit_omitted scan_file_order)

lemma scan_loop_order:
  "length (sct_omissions s) \<le> length (sco_omissions (scan_loop ss limits repo cancelled k entries s))
   \<and> (\<not> sco_cancelled (scan_loop ss limits repo cancelled k entries s)
      \<and> length (sco_omissions (scan_loop ss limits repo cancelled k entries s)) = length (sct_omissions s) \<longrightarrow>
      map file_path (sco_files (scan_loop ss limits repo cancelled k entries s))
        = map file_path (sct_files s) @ concat (map (walked_file repo) entries)
      \<and> sum_list (map walk_errors entries) = 0)"
proof (induction ss limits repo cancelled k entries s rule: scan_loop.induct)
  case (2 ss limits repo cancelled k entry entries s)
  show ?case
  proof (cases "cancelled k")
    case False
    then show ?thesis using 2 scan_entry_order [of s ss limits repo entry] by auto
  qed (simp add: omit_def)
qed simp

section \<open>Properties\<close>


text \<open>
  C15: A scan that is not cancelled accounts for every regular file of the walk outside of \<open>.git\<close>: it is kept, or
  left out under its path with a reason. A complete scan keeps exactly these files, in the order of the walk,
  and met no error.
\<close>

theorem scan_accounts_for_every_file:
  "(\<not> sco_cancelled (scan_tree ss limits repo cancelled entries) \<longrightarrow>
      accounted (sco_files (scan_tree ss limits repo cancelled entries))
          (sco_omissions (scan_tree ss limits repo cancelled entries))
        = mset (concat (map (walked_file repo) entries)))
   \<and> (is_complete (scan_tree ss limits repo cancelled entries) \<longrightarrow>
      map file_path (sco_files (scan_tree ss limits repo cancelled entries)) = concat (map (walked_file repo) entries)
      \<and> sum_list (map walk_errors entries) = 0)"
  using scan_loop_accounts [of ss limits repo cancelled 0 entries scan_start]
    scan_loop_order [of scan_start ss limits repo cancelled 0 entries]
  by (simp_all add: scan_tree_def scan_start_def is_complete_def accounted_def)

text \<open>
  C14: Every record of a scan was read through a handle that the system places beneath the canonical root; its hash
  is that of the bytes read, and its preview is a beginning of them of at most 16 KiB.
\<close>

theorem scanned_file_lies_in_repository:
  assumes "f \<in> set (sco_files (scan_tree ss limits repo cancelled entries))"
    and "sl_max_total_bytes limits < 2 ^ 64 - 1"
  shows "\<exists>croot h actual bytes. fs_canonicalize (ss_fs ss) repo = Some croot
      \<and> open_beneath (ss_fs ss) croot (file_path f) = Inr h
      \<and> fs_handle_path (ss_fs ss) h = Some actual
      \<and> (\<exists>base'. fs_canonicalize (ss_fs ss) croot = Some base' \<and> path_starts_with actual base')
      \<and> file_bytes ss h bytes \<and> length bytes \<le> MAX_SINGLE_FILE_BYTES
      \<and> file_content_hash f = sha_hex (ss_sha ss) bytes
      \<and> (\<forall>t. file_text_preview f = Some t \<longrightarrow> prefix t bytes \<and> length t \<le> PREVIEW_BYTES \<and> utf8_valid t)"
proof -
  have "scan_inv ss limits repo scan_start" by (simp add: scan_inv_def scan_start_def)
  from scan_loop_inv [OF this assms(2), of cancelled 0 entries] obtain s' where
    inv: "scan_inv ss limits repo s'" and files: "sco_files (scan_tree ss limits repo cancelled entries) = sct_files s'"
    unfolding scan_tree_def by blast
  obtain r where r: "inspect_file ss repo (file_path f) = Inr r" and f: "f = r \<or> f = r\<lparr>file_text_preview := None\<rparr>"
    using inv assms(1) unfolding files scan_inv_def list_all_iff scanned_from_def by blast
  from r obtain croot h bytes where root: "fs_canonicalize (ss_fs ss) repo = Some croot"
    and opened: "open_beneath (ss_fs ss) croot (file_path f) = Inr h" and bytes: "file_bytes ss h bytes"
    and sha: "file_content_hash r = sha_hex (ss_sha ss) bytes"
    and shown: "file_text_preview r = scanned_preview (file_is_text r) (take SAMPLE_BYTES bytes)"
    by (rule inspect_file_Inr)
  have hash: "file_content_hash f = sha_hex (ss_sha ss) bytes" using f sha by auto
  have view: "prefix t bytes \<and> length t \<le> PREVIEW_BYTES \<and> utf8_valid t" if "file_text_preview f = Some t" for t
  proof -
    have "file_text_preview r = Some t" using that f by auto
    with shown have "scanned_preview (file_is_text r) (take SAMPLE_BYTES bytes) = Some t" by simp
    from scanned_preview_Some [OF this] show ?thesis using prefix_order.trans take_is_prefix by blast
  qed
  obtain base' actual where "fs_canonicalize (ss_fs ss) croot = Some base'"
    and "fs_handle_path (ss_fs ss) h = Some actual" and "path_starts_with actual base'"
    using open_beneath_contained [OF opened] by blast
  then show ?thesis using root opened bytes hash file_bytes_small [OF bytes] view by blast
qed

text \<open>The line count of a text file that fits into the sample is the number of its lines.\<close>

theorem counted_lines_are_lines:
  assumes "inspect_file ss repo rel = Inr r" and "file_is_text r"
  shows "\<exists>croot h bytes. fs_canonicalize (ss_fs ss) repo = Some croot \<and> open_beneath (ss_fs ss) croot rel = Inr h
    \<and> file_bytes ss h bytes
    \<and> (length bytes \<le> SAMPLE_BYTES \<longrightarrow> file_line_count r = Some (length (lines bytes)))"
proof -
  from assms(1) obtain croot h bytes where "fs_canonicalize (ss_fs ss) repo = Some croot"
    and "open_beneath (ss_fs ss) croot rel = Inr h" and "file_bytes ss h bytes"
    and "file_line_count r = scanned_line_count (file_is_text r) (length bytes) (take SAMPLE_BYTES bytes)"
    by (rule inspect_file_Inr)
  then show ?thesis using assms(2)
    by (intro exI [of _ croot] exI [of _ h] exI [of _ bytes]) (simp add: scanned_line_count_def count_lines)
qed

text \<open>The digest of a snapshot depends on the files of the scan, not on the order they were found in.\<close>

theorem snapshot_ignores_scan_order:
  assumes "mset fs = mset gs" and "inj_on (\<lambda>f. components (file_path f)) (set fs)"
  shows "create_snapshot_from_files sha fresh now se fs = create_snapshot_from_files sha fresh now se gs"
proof -
  have "sorted_files fs = sorted_files gs"
    unfolding sorted_files_def
    by (rule sort_key_inj_key_eq) (use assms in simp_all)
  moreover have "length fs = length gs" using assms(1) by (rule mset_eq_length)
  ultimately show ?thesis by (simp add: create_snapshot_from_files_def tree_digest_def)
qed

text \<open>The digest of a snapshot runs paths and hashes together: two trees can share it under every hash function.\<close>

definition plain_record :: "string \<Rightarrow> string \<Rightarrow> file_record" where
  "plain_record p h = \<lparr> file_path = p, file_kind = KindOther, file_size_bytes = 0, file_content_hash = h,
     file_is_text = True, file_line_count = None, file_text_preview = None \<rparr>"

theorem tree_digest_is_not_framed:
  "tree_digest sha [plain_record ''a'' h1, plain_record ''b'' h2] = tree_digest sha [plain_record (''a'' @ h1 @ ''b'') h2]"
proof -
  have "components ''a'' \<le> components ''b''" by code_simp
  then show ?thesis by (simp add: tree_digest_def sorted_files_def plain_record_def)
qed

text \<open>A file with a character across the end of the preview has none, although it is text.\<close>

lemma utf8_valid_replicate: "is_ascii a \<Longrightarrow> utf8_valid (replicate n a @ s) = utf8_valid s"
  by (induction n) (simp_all add: utf8_valid_Cons_ascii)

definition split_preview :: string where
  "split_preview = replicate (PREVIEW_BYTES - 1) (CHR ''a'') @ utf8 [195, 169]"

theorem preview_lost_inside_character:
  "utf8_valid split_preview \<and> is_text_buffer split_preview \<and> scanned_preview True split_preview = None"
proof -
  obtain n where n: "PREVIEW_BYTES = Suc n" by (cases PREVIEW_BYTES) (simp_all add: PREVIEW_BYTES_def)
  have a: "is_ascii (CHR ''a'')" by code_simp
  have "utf8_valid (utf8 [195, 169])" and "\<not> utf8_valid (take 1 (utf8 [195, 169]))" by code_simp+
  moreover have "take (min (length split_preview) PREVIEW_BYTES) split_preview
      = replicate n (CHR ''a'') @ take 1 (utf8 [195, 169])"
    by (simp add: split_preview_def n utf8_def)
  moreover have "CHR 0x00 \<notin> set (utf8 [195, 169])" by code_simp
  then have "CHR 0x00 \<notin> set split_preview" by (auto simp: split_preview_def)
  ultimately show ?thesis
    using a by (auto simp: scanned_preview_def is_text_buffer_def split_preview_def n utf8_valid_replicate
        dest: in_set_takeD)
qed

section \<open>Witnesses\<close>

definition demo_scan :: "string scan_system" where
  "demo_scan =
     \<lparr> ss_fs = \<lparr> fs_canonicalize = Some, fs_open = Some, fs_handle_path = Some, fs_is_file = (\<lambda>_. Some True) \<rparr>,
       ss_len = (\<lambda>h. Some (if h = ''/r/a'' then 4 else 20000000)),
       ss_reads = (\<lambda>_. [Some ''x'', Some [CHR 0x0A, CHR ''y''], Some [CHR 0x0A]]),
       ss_sha = (\<lambda>s. s) \<rparr>"

definition demo_walk :: "walk_entry list" where
  "demo_walk = [WalkPath ''/r'' (Some \<lparr> wm_is_file = False, wm_len = 0, wm_mtime = None \<rparr>),
     WalkPath ''/r/.git/x'' (Some \<lparr> wm_is_file = True, wm_len = 1, wm_mtime = None \<rparr>),
     WalkPath ''/r/a'' (Some \<lparr> wm_is_file = True, wm_len = 4, wm_mtime = None \<rparr>),
     WalkPath ''/r/b'' (Some \<lparr> wm_is_file = True, wm_len = 20000000, wm_mtime = None \<rparr>), WalkFailed]"

definition demo_record :: file_record where
  "demo_record = \<lparr> file_path = ''a'', file_kind = KindOther, file_size_bytes = 4, file_content_hash = ''780a790a'',
     file_is_text = True, file_line_count = Some 2, file_text_preview = Some [CHR ''x'', CHR 0x0A, CHR ''y'', CHR 0x0A] \<rparr>"

lemma demo_inspected: "inspect_file demo_scan ''/r'' ''a'' = Inr demo_record"
  by code_simp

lemma demo_scanned:
  "scan_tree demo_scan scan_limits_default ''/r'' (\<lambda>_. False) demo_walk =
     \<lparr> sco_files = [demo_record],
       sco_omissions = [\<lparr> so_path = ''b'', so_reason = OmitFileTooLarge \<rparr>, \<lparr> so_path = ''<walk>'', so_reason = OmitWalkError \<rparr>],
       sco_cancelled = False \<rparr>"
  by code_simp



lemma demo_walked: "concat (map (walked_file ''/r'') demo_walk) = [''a'', ''b'']"
  by code_simp

lemma scan_accounts_for_every_file_witness:
  "accounted [demo_record] [\<lparr> so_path = ''b'', so_reason = OmitFileTooLarge \<rparr>, \<lparr> so_path = ''<walk>'', so_reason = OmitWalkError \<rparr>]
     = {#''a'', ''b''#}"
  using scan_accounts_for_every_file [of demo_scan scan_limits_default "''/r''" "\<lambda>_. False" demo_walk]
  unfolding demo_scanned demo_walked by simp

lemma scanned_file_lies_in_repository_witness:
  "\<exists>h bytes. file_bytes demo_scan h bytes \<and> demo_record \<in> set (sco_files (scan_tree demo_scan scan_limits_default ''/r'' (\<lambda>_. False) demo_walk))
     \<and> file_content_hash demo_record = sha_hex (\<lambda>s. s) bytes"
proof -
  have kept: "demo_record \<in> set (sco_files (scan_tree demo_scan scan_limits_default ''/r'' (\<lambda>_. False) demo_walk))"
    by (simp add: demo_scanned)
  have "sl_max_total_bytes scan_limits_default < 2 ^ 64 - 1" by code_simp
  from scanned_file_lies_in_repository [OF kept this] kept show ?thesis by (auto simp: demo_scan_def)
qed

lemma counted_lines_are_lines_witness:
  "\<exists>h bytes. file_bytes demo_scan h bytes
     \<and> (length bytes \<le> SAMPLE_BYTES \<longrightarrow> file_line_count demo_record = Some (length (lines bytes)))"
proof -
  have "file_is_text demo_record" by (simp add: demo_record_def)
  from counted_lines_are_lines [OF demo_inspected this] show ?thesis by blast
qed

definition demo_session :: session where
  "demo_session = \<lparr> se_root = ''/r'', se_profile = \<lparr> repo_id = 1, repo_display_name = ''r'', repo_root_path = ''/r'',
     repo_type = RepoGit, repo_consent_policy = False \<rparr> \<rparr>"

lemma snapshot_ignores_scan_order_witness:
  "create_snapshot_from_files (\<lambda>s. s) 2 3 demo_session [plain_record ''a'' ''1'', plain_record ''b'' ''2'']
     = create_snapshot_from_files (\<lambda>s. s) 2 3 demo_session [plain_record ''b'' ''2'', plain_record ''a'' ''1'']"
proof (rule snapshot_ignores_scan_order)
  have "components ''a'' \<noteq> components ''b''" by code_simp
  then show "inj_on (\<lambda>f. components (file_path f)) (set [plain_record ''a'' ''1'', plain_record ''b'' ''2''])"
    by (auto simp: inj_on_def plain_record_def)
qed simp

end
