(* ===== verification/Watcher.thy ===== *)
theory Watcher
  imports Repository_Scan
begin

text \<open>
  \<open>crates/mentat-repository/src/watcher.rs\<close>, with \<open>is_ignored_path\<close> of \<open>scanner.rs\<close>: the classification of
  file-system events, the worker that hashes changed paths and reports through a channel, the poll of the user
  interface, the throttled signature check and the content fingerprint.

  The event library, the ignore rules, the walk and the clock (in milliseconds) are parameters; what a path is
  and what reading it returns may be different at each step of the worker.
\<close>

section \<open>Ignore rules\<close>

datatype ignore_match = MatchNone | MatchIgnore | MatchWhitelist

record ignore_rules =
  ir_global :: "string \<Rightarrow> bool \<Rightarrow> ignore_match"
  ir_local :: "string \<Rightarrow> string \<Rightarrow> bool \<Rightarrow> ignore_match option"

fun push_each :: "string \<Rightarrow> path_component list \<Rightarrow> string list" where
  "push_each current [] = []"
| "push_each current (c # cs) = (let next' = path_join current (component_text c) in next' # push_each next' cs)"

definition ignore_directories :: "string \<Rightarrow> string \<Rightarrow> string list" where
  "ignore_directories repo p =
     repo # (case path_strip_prefix p repo of Some rel \<Rightarrow> push_each repo (butlast (components rel)) | None \<Rightarrow> [])"

fun apply_match :: "ignore_match option \<Rightarrow> bool \<Rightarrow> bool" where
  "apply_match (Some MatchIgnore) ignored = True"
| "apply_match (Some MatchWhitelist) ignored = False"
| "apply_match _ ignored = ignored"

definition is_ignored_path :: "ignore_rules \<Rightarrow> string \<Rightarrow> string \<Rightarrow> bool \<Rightarrow> bool" where
  "is_ignored_path rules repo p is_dir =
     (if \<not> path_starts_with p repo \<or> in_git_dir p then True
      else fold (\<lambda>d. apply_match (ir_local rules d p is_dir)) (ignore_directories repo p)
        (ir_global rules p is_dir = MatchIgnore))"

section \<open>Events\<close>

datatype event_kind = KindAny | KindAccess | KindChange | KindOtherEvent

record watch_event =
  we_kind :: event_kind
  we_paths :: "string list"
  we_need_rescan :: bool

datatype disposition = Ignore | ChangedPaths | Rescan

definition is_ignore_control_path :: "string \<Rightarrow> string \<Rightarrow> bool" where
  "is_ignore_control_path repo p =
     (case path_strip_prefix p repo of
        None \<Rightarrow> True
      | Some rel \<Rightarrow> file_name rel = Some ''.gitignore'' \<or> path_eq rel ''.git/info/exclude'')"

definition classify_event :: "string \<Rightarrow> watch_event \<Rightarrow> disposition" where
  "classify_event repo e =
     (if we_need_rescan e \<or> we_kind e \<in> {KindAny, KindOtherEvent} then Rescan
      else if we_kind e = KindAccess then Ignore
      else if we_paths e = [] \<or> list_ex (is_ignore_control_path repo) (we_paths e) then Rescan
      else ChangedPaths)"

section \<open>The worker\<close>

record 'h watch_world =
  ww_fs :: "'h file_system"
  ww_reads :: "'h \<Rightarrow> string option list"
  ww_is_dir :: "string \<Rightarrow> bool"
  ww_is_file :: "string \<Rightarrow> bool"
  ww_rules :: ignore_rules
  ww_sha :: "string \<Rightarrow> string"

fun read_all :: "string option list \<Rightarrow> string \<Rightarrow> string result" where
  "read_all [] body = Inr body"
| "read_all (None # reads) body = Inl io_err"
| "read_all (Some c # reads) body = (if c = [] then Inr body else read_all reads (body @ c))"

definition hash_file :: "'h watch_world \<Rightarrow> string \<Rightarrow> string \<Rightarrow> string result" where
  "hash_file w repo p =
     then_do (ok_or (path_strip_prefix p repo) (ExternalPathBlocked ''outside of the root'')) (\<lambda>rel.
     then_do (open_beneath (ww_fs w) repo rel) (\<lambda>h.
     then_do (read_all (ww_reads w h) []) (\<lambda>bytes. Inr (sha_hex (ww_sha w) bytes))))"

text \<open>The hashes seen so far, by path: two paths with the same components are one key.\<close>

type_synonym seen = "path_component list \<rightharpoonup> string"

fun visit_paths :: "'h watch_world \<Rightarrow> string \<Rightarrow> string list \<Rightarrow> seen \<Rightarrow> bool \<Rightarrow> seen \<times> bool" where
  "visit_paths w repo [] m changed = (m, changed)"
| "visit_paths w repo (p # ps) m changed =
     (if is_ignored_path (ww_rules w) repo p (ww_is_dir w p) then visit_paths w repo ps m changed
      else if ww_is_file w p then
        (case hash_file w repo p of
           Inr h \<Rightarrow> visit_paths w repo ps (m(components p \<mapsto> h)) (if m (components p) \<noteq> Some h then True else changed)
         | Inl e \<Rightarrow> visit_paths w repo ps m True)
      else visit_paths w repo ps (m(components p := None)) True)"

datatype received = Received watch_event | ReceivedError | ReceivedTimeout | ReceivedDisconnected

text \<open>The two ends of the channel, the stop flag and the worker.\<close>

record background =
  bg_queue :: "bool list"
  bg_receiver :: bool
  bg_stop :: bool
  bg_running :: bool
  bg_seen :: seen

definition notify :: "background \<Rightarrow> background" where
  "notify bg = (if bg_receiver bg then bg\<lparr>bg_queue := bg_queue bg @ [True]\<rparr> else bg\<lparr>bg_running := False\<rparr>)"

definition worker_event :: "'h watch_world \<Rightarrow> string \<Rightarrow> watch_event \<Rightarrow> background \<Rightarrow> background" where
  "worker_event w repo e bg =
     (case classify_event repo e of
        Ignore \<Rightarrow> bg
      | Rescan \<Rightarrow> notify bg
      | ChangedPaths \<Rightarrow>
          (let (m, changed) = visit_paths w repo (we_paths e) (bg_seen bg) False; bg' = bg\<lparr>bg_seen := m\<rparr> in
           if changed then notify bg' else bg'))"

fun worker_step :: "string \<Rightarrow> received \<times> 'h watch_world \<Rightarrow> background \<Rightarrow> background" where
  "worker_step repo (r, w) bg =
     (if \<not> bg_running bg then bg
      else if bg_stop bg then bg\<lparr>bg_running := False\<rparr>
      else case r of
        Received e \<Rightarrow> worker_event w repo e bg
      | ReceivedError \<Rightarrow> notify bg
      | ReceivedTimeout \<Rightarrow> bg
      | ReceivedDisconnected \<Rightarrow> bg\<lparr>bg_running := False\<rparr>)"

definition worker_run :: "string \<Rightarrow> (received \<times> 'h watch_world) list \<Rightarrow> background \<Rightarrow> background" where
  "worker_run repo steps bg = fold (worker_step repo) steps bg"

section \<open>Signatures and fingerprints\<close>

record tree_signature =
  ts_file_count :: nat
  ts_total_size :: nat
  ts_latest_mtime :: int
  ts_digest :: string

record signature_state =
  sg_latest :: int
  sg_total :: nat
  sg_count :: nat
  sg_errors :: nat
  sg_hashed :: string

definition mtime_bytes :: "int \<Rightarrow> string" where
  "mtime_bytes t =
     (if t < 0 then []
      else le_bytes 8 (nat (t div 1000000000)) @ le_bytes 4 (nat (t mod 1000000000)))"

definition signature_entry :: "walk_entry \<Rightarrow> signature_state \<Rightarrow> signature_state" where
  "signature_entry entry s =
     (case entry of
        WalkFailed \<Rightarrow> s\<lparr>sg_errors := sg_errors s + 1\<rparr>
      | WalkPath p meta \<Rightarrow>
          if in_git_dir p then s
          else case meta of
            None \<Rightarrow> s\<lparr>sg_errors := sg_errors s + 1\<rparr>
          | Some m \<Rightarrow>
              if \<not> wm_is_file m then s
              else let mtime = (case wm_mtime m of Some t \<Rightarrow> t | None \<Rightarrow> 0) in
                \<lparr> sg_latest = (if mtime > sg_latest s then mtime else sg_latest s), sg_total = sg_total s + wm_len m,
                  sg_count = sg_count s + 1, sg_errors = sg_errors s,
                  sg_hashed = sg_hashed s @ p @ le_bytes 8 (wm_len m) @ mtime_bytes mtime \<rparr>)"

definition compute_tree_signature :: "(string \<Rightarrow> string) \<Rightarrow> walk_entry list \<Rightarrow> tree_signature" where
  "compute_tree_signature sha entries =
     (let s = fold signature_entry entries \<lparr> sg_latest = 0, sg_total = 0, sg_count = 0, sg_errors = 0, sg_hashed = [] \<rparr> in
      \<lparr> ts_file_count = sg_count s, ts_total_size = sg_total s, ts_latest_mtime = sg_latest s,
        ts_digest = sha_hex sha (sg_hashed s @ le_bytes 8 (sg_errors s)) \<rparr>)"

definition fingerprint_entry :: "'h watch_world \<Rightarrow> string \<Rightarrow> walk_entry \<Rightarrow> string \<times> nat \<Rightarrow> string \<times> nat" where
  "fingerprint_entry w repo entry s =
     (case s of (hashed, errors) \<Rightarrow>
      case entry of
        WalkFailed \<Rightarrow> (hashed @ ''walk-err'', errors + 1)
      | WalkPath p meta \<Rightarrow>
          if in_git_dir p then (hashed, errors)
          else case meta of
            None \<Rightarrow> (hashed @ ''meta-err'', errors + 1)
          | Some m \<Rightarrow>
              if \<not> wm_is_file m then (hashed, errors)
              else case hash_file w repo p of
                Inr h \<Rightarrow> (hashed @ p @ le_bytes 8 (wm_len m) @ h, errors)
              | Inl e \<Rightarrow> (hashed @ p @ le_bytes 8 (wm_len m) @ ''content-err'', errors + 1))"

definition hashed_content :: "'h watch_world \<Rightarrow> string \<Rightarrow> walk_entry list \<Rightarrow> string" where
  "hashed_content w repo entries =
     (let s = fold (fingerprint_entry w repo) entries ([], 0) in fst s @ le_bytes 8 (snd s))"

definition compute_content_fingerprint :: "'h watch_world \<Rightarrow> string \<Rightarrow> walk_entry list \<Rightarrow> string" where
  "compute_content_fingerprint w repo entries = sha_hex (ww_sha w) (hashed_content w repo entries)"

section \<open>The watcher\<close>

record watcher =
  wt_root :: string
  wt_signature :: "tree_signature option"
  wt_content_fp :: "string option"
  wt_last_check :: nat
  wt_background :: "background option"

definition WATCHER_THROTTLE_INTERVAL :: nat where "WATCHER_THROTTLE_INTERVAL = 1000"

definition watcher_new :: "string \<Rightarrow> nat \<Rightarrow> watcher" where
  "watcher_new repo now = \<lparr> wt_root = repo, wt_signature = None, wt_content_fp = None, wt_last_check = now, wt_background = None \<rparr>"

text \<open>How starting the worker can go: no thread, no watcher or no watch, or a running worker.\<close>

datatype start = NoThread | NoWatcher | NoWatch | Started

definition stop_background :: "watcher \<Rightarrow> watcher" where
  "stop_background wt = wt\<lparr>wt_background := None\<rparr>"

definition started_background :: "start \<Rightarrow> background" where
  "started_background st =
     \<lparr> bg_queue = (if st \<in> {NoWatcher, NoWatch} then [True] else []), bg_receiver = True, bg_stop = False,
       bg_running = (st = Started), bg_seen = Map.empty \<rparr>"

definition spawn_background :: "start \<Rightarrow> watcher \<Rightarrow> watcher" where
  "spawn_background st wt = (stop_background wt)\<lparr>wt_background := Some (started_background st)\<rparr>"

definition force_content_check :: "'h watch_world \<Rightarrow> walk_entry list \<Rightarrow> watcher \<Rightarrow> bool \<times> watcher" where
  "force_content_check w entries wt =
     (let fp = compute_content_fingerprint w (wt_root wt) entries in
      case wt_content_fp wt of
        None \<Rightarrow> (False, wt\<lparr>wt_content_fp := Some fp\<rparr>)
      | Some prev \<Rightarrow> if prev \<noteq> fp then (True, wt\<lparr>wt_content_fp := Some fp\<rparr>) else (False, wt))"

definition check_for_changes :: "(string \<Rightarrow> string) \<Rightarrow> nat \<Rightarrow> walk_entry list \<Rightarrow> watcher \<Rightarrow> bool \<times> watcher" where
  "check_for_changes sha now entries wt =
     (if now - wt_last_check wt < WATCHER_THROTTLE_INTERVAL then (False, wt)
      else let wt' = wt\<lparr>wt_last_check := now\<rparr>; current = compute_tree_signature sha entries in
        case wt_signature wt' of
          None \<Rightarrow> (False, wt'\<lparr>wt_signature := Some current\<rparr>)
        | Some prev \<Rightarrow> if prev \<noteq> current then (True, wt'\<lparr>wt_signature := Some current\<rparr>) else (False, wt'))"

definition poll_changes :: "(string \<Rightarrow> string) \<Rightarrow> nat \<Rightarrow> walk_entry list \<Rightarrow> watcher \<Rightarrow> bool \<times> watcher" where
  "poll_changes sha now entries wt =
     (case wt_background wt of
        Some bg \<Rightarrow>
          (case bg_queue bg of
             b # q \<Rightarrow> (b, wt\<lparr>wt_background := Some (bg\<lparr>bg_queue := q\<rparr>)\<rparr>)
           | [] \<Rightarrow> (\<not> bg_running bg, wt))
      | None \<Rightarrow> check_for_changes sha now entries wt)"

section \<open>Lemmas\<close>

text \<open>A path that calls for a report: it is not ignored, and gone, unreadable or not as last seen.\<close>

definition path_changed :: "'h watch_world \<Rightarrow> string \<Rightarrow> seen \<Rightarrow> string \<Rightarrow> bool" where
  "path_changed w repo m p \<longleftrightarrow>
     \<not> is_ignored_path (ww_rules w) repo p (ww_is_dir w p)
     \<and> (ww_is_file w p \<longrightarrow> (\<forall>h. hash_file w repo p = Inr h \<longrightarrow> m (components p) \<noteq> Some h))"

lemma path_changed_cases:
  "path_changed w repo m p \<longleftrightarrow>
     \<not> is_ignored_path (ww_rules w) repo p (ww_is_dir w p)
     \<and> (if ww_is_file w p then (case hash_file w repo p of Inr h \<Rightarrow> m (components p) \<noteq> Some h | Inl _ \<Rightarrow> True) else True)"
  by (auto simp: path_changed_def split: sum.splits)

lemma visit_changed [simp]: "snd (visit_paths w repo ps m True)"
  by (induction ps arbitrary: m) (auto split: sum.splits)

text \<open>Visiting the paths reports a change exactly when one of them differs from what was seen before them all.\<close>

lemma visit_paths_exact:
  "snd (visit_paths w repo ps m changed) \<longleftrightarrow> changed \<or> (\<exists>p \<in> set ps. path_changed w repo m p)"
proof (induction ps arbitrary: m changed)
  case (Cons p ps)
  show ?case
  proof (cases "path_changed w repo m p")
    case True
    then show ?thesis by (auto simp: path_changed_cases split: sum.splits if_splits)
  next
    case False
    then have "visit_paths w repo (p # ps) m changed = visit_paths w repo ps m changed"
      by (auto simp: path_changed_cases fun_upd_idem split: sum.splits if_splits)
    then show ?thesis using Cons.IH False by auto
  qed
qed simp

text \<open>What a step of a running worker should report.\<close>

definition reportable :: "string \<Rightarrow> seen \<Rightarrow> received \<times> 'h watch_world \<Rightarrow> bool" where
  "reportable repo m step =
     (case step of (r, w) \<Rightarrow>
      case r of
        Received e \<Rightarrow>
          classify_event repo e = Rescan
          \<or> classify_event repo e = ChangedPaths \<and> (\<exists>p \<in> set (we_paths e). path_changed w repo m p)
      | ReceivedError \<Rightarrow> True
      | _ \<Rightarrow> False)"

definition live :: "background \<Rightarrow> bool" where
  "live bg \<longleftrightarrow> bg_receiver bg \<and> \<not> bg_stop bg"

lemma notify_live [simp]:
  "bg_receiver bg \<Longrightarrow> notify bg = bg\<lparr>bg_queue := bg_queue bg @ [True]\<rparr>"
  by (simp add: notify_def)

lemma worker_step_live:
  assumes "live bg"
  shows "live (worker_step repo step bg)
    \<and> bg_queue (worker_step repo step bg) =
        bg_queue bg @ (if bg_running bg \<and> reportable repo (bg_seen bg) step then [True] else [])"
proof -
  obtain r w where step: "step = (r, w)" by (cases step)
  have event: "live (worker_event w repo e bg) \<and> bg_queue (worker_event w repo e bg) =
      bg_queue bg @ (if reportable repo (bg_seen bg) (Received e, w) then [True] else [])" for e
    using assms visit_paths_exact [of w repo "we_paths e" "bg_seen bg" False]
    by (cases "visit_paths w repo (we_paths e) (bg_seen bg) False")
       (auto simp: worker_event_def reportable_def live_def split: disposition.splits)
  show ?thesis
  proof (cases r)
    case (Received e)
    then show ?thesis using event [of e] assms step by (auto simp: live_def)
  qed (use assms step in \<open>auto simp: live_def reportable_def\<close>)
qed

lemma worker_run_snoc: "worker_run repo (steps @ [step]) bg = worker_step repo step (worker_run repo steps bg)"
  by (simp add: worker_run_def)

lemma snoc_split:
  "(\<exists>xs s ys. l @ [x] = xs @ s # ys \<and> P xs s) \<longleftrightarrow> (\<exists>xs s ys. l = xs @ s # ys \<and> P xs s) \<or> P l x"
proof
  assume "\<exists>xs s ys. l @ [x] = xs @ s # ys \<and> P xs s"
  then obtain xs s ys where split: "l @ [x] = xs @ s # ys" and p: "P xs s" by blast
  show "(\<exists>xs s ys. l = xs @ s # ys \<and> P xs s) \<or> P l x"
    using split p by (cases ys rule: rev_cases) auto
next
  assume "(\<exists>xs s ys. l = xs @ s # ys \<and> P xs s) \<or> P l x"
  then show "\<exists>xs s ys. l @ [x] = xs @ s # ys \<and> P xs s"
    by (metis append_Cons append_assoc)
qed

text \<open>Some step found the worker running and called for a report.\<close>

definition reported :: "string \<Rightarrow> (received \<times> 'h watch_world) list \<Rightarrow> background \<Rightarrow> bool" where
  "reported repo steps bg \<longleftrightarrow>
     (\<exists>xs step ys. steps = xs @ step # ys \<and> bg_running (worker_run repo xs bg)
        \<and> reportable repo (bg_seen (worker_run repo xs bg)) step)"

lemma reported_snoc:
  "reported repo (steps @ [step]) bg \<longleftrightarrow>
     reported repo steps bg
     \<or> bg_running (worker_run repo steps bg) \<and> reportable repo (bg_seen (worker_run repo steps bg)) step"
  unfolding reported_def by (rule snoc_split)

lemma worker_run_live:
  assumes "live bg" and "bg_queue bg = []"
  shows "live (worker_run repo steps bg) \<and> set (bg_queue (worker_run repo steps bg)) \<subseteq> {True}
    \<and> (bg_queue (worker_run repo steps bg) \<noteq> [] \<longleftrightarrow> reported repo steps bg)"
proof (induction steps rule: rev_induct)
  case Nil
  then show ?case using assms by (simp add: worker_run_def reported_def)
next
  case (snoc step steps)
  show ?case
    using snoc worker_step_live [of "worker_run repo steps bg" repo step]
    unfolding worker_run_snoc reported_snoc by auto
qed

text \<open>What one entry adds to the text under the fingerprint; the same length for two readable contents.\<close>

definition entry_text :: "'h watch_world \<Rightarrow> string \<Rightarrow> walk_entry \<Rightarrow> string" where
  "entry_text w repo entry = fst (fingerprint_entry w repo entry ([], 0))"

definition entry_errors :: "'h watch_world \<Rightarrow> string \<Rightarrow> walk_entry \<Rightarrow> nat" where
  "entry_errors w repo entry = snd (fingerprint_entry w repo entry ([], 0))"

lemma fingerprint_entry_split:
  "fingerprint_entry w repo entry (t, n) = (t @ entry_text w repo entry, n + entry_errors w repo entry)"
  by (auto simp: fingerprint_entry_def entry_text_def entry_errors_def split: walk_entry.splits option.splits sum.splits)

lemma fingerprint_fold:
  "fold (fingerprint_entry w repo) entries (t, n)
     = (t @ concat (map (entry_text w repo) entries), n + sum_list (map (entry_errors w repo) entries))"
  by (induction entries arbitrary: t n) (simp_all add: fingerprint_entry_split)

lemma hashed_content_eq:
  "hashed_content w repo entries =
     concat (map (entry_text w repo) entries) @ le_bytes 8 (sum_list (map (entry_errors w repo) entries))"
  by (simp add: hashed_content_def fingerprint_fold)

lemma concat_same_lengths:
  "concat (map f xs) @ a = concat (map g xs) @ b \<Longrightarrow> \<forall>x \<in> set xs. length (f x) = length (g x)
     \<Longrightarrow> x \<in> set xs \<Longrightarrow> f x = g x"
  by (induction xs) auto

text \<open>A regular file of the walk outside of \<open>.git\<close> can be read; the other entries are not read at all.\<close>

definition readable :: "'h watch_world \<Rightarrow> string \<Rightarrow> walk_entry \<Rightarrow> bool" where
  "readable w repo entry =
     (case entry of WalkPath p (Some m) \<Rightarrow> wm_is_file m \<and> \<not> in_git_dir p \<longrightarrow> is_ok (hash_file w repo p) | _ \<Rightarrow> True)"

text \<open>The bytes under the hash of a file.\<close>

definition file_content :: "'h watch_world \<Rightarrow> string \<Rightarrow> string \<Rightarrow> string result" where
  "file_content w repo p =
     then_do (ok_or (path_strip_prefix p repo) (ExternalPathBlocked ''outside of the root'')) (\<lambda>rel.
     then_do (open_beneath (ww_fs w) repo rel) (\<lambda>h. read_all (ww_reads w h) []))"

lemma hash_of_content: "hash_file w repo p = then_do (file_content w repo p) (\<lambda>bytes. Inr (sha_hex (ww_sha w) bytes))"
  unfolding hash_file_def file_content_def
  by (cases "path_strip_prefix p repo"; simp) (cases "open_beneath (ww_fs w) repo (the (path_strip_prefix p repo))"; simp)

text \<open>Two walks that differ at most in the modification times they report.\<close>

definition unstamped :: "walk_entry \<Rightarrow> walk_entry" where
  "unstamped entry = (case entry of WalkPath p (Some m) \<Rightarrow> WalkPath p (Some (m\<lparr>wm_mtime := None\<rparr>)) | _ \<Rightarrow> entry)"

lemma unstamped_text:
  "entry_text w repo (unstamped entry) = entry_text w repo entry" "entry_errors w repo (unstamped entry) = entry_errors w repo entry"
  by (auto simp: entry_text_def entry_errors_def fingerprint_entry_def unstamped_def split: walk_entry.splits option.splits sum.splits)

lemma unstamped_content: "hashed_content w repo (map unstamped entries) = hashed_content w repo entries"
  by (simp add: hashed_content_eq comp_def unstamped_text)

lemma length_hex_of: "length (hex_of s) = 2 * length s"
  by (induction s) auto

lemma hash_file_length:
  assumes "hash_file w repo p = Inr h" and "\<And>s. length (ww_sha w s) = 32"
  shows "length h = 64"
  using assms by (auto simp: hash_file_def sha_hex_def length_hex_of)

lemma entry_text_file:
  assumes "\<not> in_git_dir p" and "wm_is_file m" and "hash_file w repo p = Inr h"
  shows "entry_text w repo (WalkPath p (Some m)) = p @ le_bytes 8 (wm_len m) @ h"
  using assms by (simp add: entry_text_def fingerprint_entry_def)

lemma entry_text_length:
  assumes "readable w repo entry" and "readable w' repo entry"
    and "\<And>s. length (ww_sha w s) = 32" and "\<And>s. length (ww_sha w' s) = 32"
  shows "length (entry_text w repo entry) = length (entry_text w' repo entry)"
  using assms
  by (auto simp: entry_text_def fingerprint_entry_def readable_def is_ok_iff hash_file_length
      split: walk_entry.splits option.splits sum.splits)

section \<open>Properties\<close>

text \<open>
  C16: A poll answers that something changed exactly when the worker ended or one of its steps called for a report:
  an event the watch cannot explain, a watch error, or a path that is gone, unreadable or not as last seen.
\<close>

theorem poll_reports_exactly_the_changes:
  assumes "live bg" and "bg_queue bg = []"
    and "wt_background wt = Some (worker_run (wt_root wt) steps bg)"
  shows "fst (poll_changes sha now entries wt)
    \<longleftrightarrow> \<not> bg_running (worker_run (wt_root wt) steps bg) \<or> reported (wt_root wt) steps bg"
proof -
  let ?bg = "worker_run (wt_root wt) steps bg"
  have queue: "set (bg_queue ?bg) \<subseteq> {True}" "bg_queue ?bg \<noteq> [] \<longleftrightarrow> reported (wt_root wt) steps bg"
    using worker_run_live [OF assms(1,2), of "wt_root wt" steps] by simp_all
  show ?thesis
  proof (cases "bg_queue ?bg")
    case Nil
    then show ?thesis using queue assms(3) by (simp add: poll_changes_def)
  next
    case (Cons b q)
    then have "b" and "reported (wt_root wt) steps bg" using queue by auto
    then show ?thesis using Cons assms(3) by (simp add: poll_changes_def)
  qed
qed

text \<open>
  C19: When the bytes of a regular file of the walk change, outside of \<open>.git\<close>, the content check reports
  a change, also when the walk shows the same lengths and whatever modification times it shows. This is so as
  long as the two walks list the same paths with the same lengths, every regular file
  outside of \<open>.git\<close> can be read at both checks, and neither the old and the new bytes of that file nor the two
  texts under the fingerprint collide.
\<close>

theorem content_edit_is_detected:
  assumes "wt_content_fp wt = Some (compute_content_fingerprint w (wt_root wt) entries)"
    and "map unstamped entries' = map unstamped entries"
    and "ww_sha w' = ww_sha w" and "\<And>s. length (ww_sha w s) = 32"
    and "list_all (readable w (wt_root wt)) entries" and "list_all (readable w' (wt_root wt)) entries"
    and "WalkPath p (Some m) \<in> set entries" and "wm_is_file m" and "\<not> in_git_dir p"
    and "file_content w (wt_root wt) p = Inr a" and "file_content w' (wt_root wt) p = Inr b" and "a \<noteq> b"
  shows "fst (force_content_check w' entries' wt)
    \<or> collision (ww_sha w) a b
    \<or> collision (ww_sha w) (hashed_content w (wt_root wt) entries) (hashed_content w' (wt_root wt) entries')"
proof (cases "sha_hex (ww_sha w) a = sha_hex (ww_sha w) b")
  case True
  then have "ww_sha w a = ww_sha w b \<or> collision (ww_sha w) a b" using sha_hex_eq by blast
  then show ?thesis using True assms(12) sha_hex_eq by blast
next
  case False
  have same: "hashed_content w' (wt_root wt) entries' = hashed_content w' (wt_root wt) entries"
    using arg_cong [OF assms(2), of "hashed_content w' (wt_root wt)"] by (simp add: unstamped_content)
  have h: "hash_file w (wt_root wt) p = Inr (sha_hex (ww_sha w) a)" "hash_file w' (wt_root wt) p = Inr (sha_hex (ww_sha w) b)"
    using assms(3,10,11) by (simp_all add: hash_of_content)
  have differ: "hashed_content w (wt_root wt) entries \<noteq> hashed_content w' (wt_root wt) entries"
  proof
    assume "hashed_content w (wt_root wt) entries = hashed_content w' (wt_root wt) entries"
    moreover have "\<forall>e \<in> set entries. length (entry_text w (wt_root wt) e) = length (entry_text w' (wt_root wt) e)"
      using assms(3-6) by (auto simp: list_all_iff intro!: entry_text_length)
    ultimately have "entry_text w (wt_root wt) (WalkPath p (Some m)) = entry_text w' (wt_root wt) (WalkPath p (Some m))"
      unfolding hashed_content_eq using assms(7) by (rule concat_same_lengths)
    then show False using assms(8,9) False h by (simp add: entry_text_file)
  qed
  then have "compute_content_fingerprint w (wt_root wt) entries \<noteq> compute_content_fingerprint w' (wt_root wt) entries'
      \<or> collision (ww_sha w) (hashed_content w (wt_root wt) entries) (hashed_content w' (wt_root wt) entries')"
    using sha_hex_eq unfolding compute_content_fingerprint_def assms(3) same by blast
  then show ?thesis using assms(1) by (auto simp: force_content_check_def)
qed

text \<open>A run of signature checks at the given times, each with what its walk would find.\<close>

fun check_run :: "(string \<Rightarrow> string) \<Rightarrow> (nat \<times> walk_entry list) list \<Rightarrow> watcher \<Rightarrow> bool list \<times> watcher" where
  "check_run sha [] wt = ([], wt)"
| "check_run sha ((now, entries) # rest) wt =
     (let (b, wt') = check_for_changes sha now entries wt; (bs, wt'') = check_run sha rest wt' in (b # bs, wt''))"

lemma check_step:
  assumes "check_for_changes sha now entries wt = (b, wt')"
  shows "wt_last_check wt' \<ge> wt_last_check wt \<and> (b \<longrightarrow> wt_last_check wt' \<ge> wt_last_check wt + 1000)
    \<and> wt_last_check wt' \<in> {wt_last_check wt, now}"
  using assms
  by (auto simp: check_for_changes_def WATCHER_THROTTLE_INTERVAL_def Let_def split: if_splits option.splits)

text \<open>Signature checks report at most one change a second, however often they are called.\<close>

theorem changes_are_throttled:
  assumes "check_run sha calls wt = (results, wt')"
  shows "1000 * length (filter id results) \<le> wt_last_check wt' - wt_last_check wt
    \<and> wt_last_check wt' \<in> insert (wt_last_check wt) (fst ` set calls)"
proof -
  have "wt_last_check wt + 1000 * length (filter id results) \<le> wt_last_check wt'
      \<and> wt_last_check wt' \<in> insert (wt_last_check wt) (fst ` set calls)"
    using assms
  proof (induction calls arbitrary: wt results)
    case (Cons call calls)
    obtain now entries where call: "call = (now, entries)" by (cases call)
    obtain b wt1 where first: "check_for_changes sha now entries wt = (b, wt1)" by fastforce
    obtain bs wt2 where rest: "check_run sha calls wt1 = (bs, wt2)" by fastforce
    have results: "results = b # bs" and "wt2 = wt'" using Cons.prems call first rest by simp_all
    with rest have "check_run sha calls wt1 = (bs, wt')" by simp
    from Cons.IH [OF this] show ?case using check_step [OF first] call results by auto
  qed simp
  then show ?thesis by auto
qed

text \<open>Of the ignore rules of the directories above a path, the nearest that match it decide.\<close>

definition decisive :: "ignore_rules \<Rightarrow> string \<Rightarrow> bool \<Rightarrow> string \<Rightarrow> bool" where
  "decisive rules p is_dir d \<longleftrightarrow> ir_local rules d p is_dir \<in> {Some MatchIgnore, Some MatchWhitelist}"

lemma apply_match_cases:
  "apply_match (ir_local rules d p is_dir) b =
     (if decisive rules p is_dir d then ir_local rules d p is_dir = Some MatchIgnore else b)"
  by (cases "(ir_local rules d p is_dir, b)" rule: apply_match.cases) (auto simp: decisive_def)

theorem nearest_rules_decide:
  assumes "path_starts_with p repo" and "\<not> in_git_dir p"
  shows "is_ignored_path rules repo p is_dir =
    (case find (decisive rules p is_dir) (rev (ignore_directories repo p)) of
       Some d \<Rightarrow> ir_local rules d p is_dir = Some MatchIgnore
     | None \<Rightarrow> ir_global rules p is_dir = MatchIgnore)"
proof -
  have "fold (\<lambda>d. apply_match (ir_local rules d p is_dir)) ds b =
      (case find (decisive rules p is_dir) (rev ds) of Some d \<Rightarrow> ir_local rules d p is_dir = Some MatchIgnore | None \<Rightarrow> b)"
    for ds b by (induction ds rule: rev_induct) (auto simp: apply_match_cases)
  then show ?thesis using assms by (simp add: is_ignored_path_def)
qed

section \<open>Witnesses\<close>

definition demo_world :: "string \<Rightarrow> string watch_world" where
  "demo_world content =
     \<lparr> ww_fs = ss_fs demo_scan, ww_reads = (\<lambda>_. [Some content]), ww_is_dir = (\<lambda>_. False), ww_is_file = (\<lambda>_. True),
       ww_rules = \<lparr> ir_global = (\<lambda>_ _. MatchNone), ir_local = (\<lambda>d p _. if d = ''/r'' \<and> p = ''/r/x'' then Some MatchIgnore else None) \<rparr>,
       ww_sha = (\<lambda>s. take 32 (s @ replicate 32 (CHR ''0''))) \<rparr>"

definition demo_event :: "string \<Rightarrow> watch_event" where
  "demo_event p = \<lparr> we_kind = KindChange, we_paths = [p], we_need_rescan = False \<rparr>"

definition demo_watcher :: watcher where
  "demo_watcher = spawn_background Started (watcher_new ''/r'' 0)"

definition demo_steps :: "(received \<times> string watch_world) list" where
  "demo_steps = [(Received (demo_event ''/r/x''), demo_world ''p''), (ReceivedTimeout, demo_world ''p''),
     (Received (demo_event ''/r/a''), demo_world ''p'')]"

lemma demo_worker:
  "bg_running (worker_run ''/r'' demo_steps (started_background Started))
    \<and> bg_queue (worker_run ''/r'' demo_steps (started_background Started)) = [True]"
  by code_simp

lemma poll_reports_exactly_the_changes_witness:
  "reported ''/r'' demo_steps (started_background Started)"
proof -
  let ?wt = "demo_watcher\<lparr>wt_background := Some (worker_run ''/r'' demo_steps (started_background Started))\<rparr>"
  have root: "wt_root ?wt = ''/r''" by (simp add: demo_watcher_def spawn_background_def stop_background_def watcher_new_def)
  have "live (started_background Started)" and "bg_queue (started_background Started) = []"
    by (simp_all add: live_def started_background_def)
  from poll_reports_exactly_the_changes [OF this, of ?wt demo_steps "\<lambda>s. s" 0 "[]"] show ?thesis
    using demo_worker by (simp add: root poll_changes_def)
qed

definition demo_entries :: "walk_entry list" where
  "demo_entries = [WalkPath ''/r/a'' (Some \<lparr> wm_is_file = True, wm_len = 1, wm_mtime = Some 5 \<rparr>)]"

definition demo_checked :: watcher where
  "demo_checked = snd (force_content_check (demo_world ''p'') demo_entries (watcher_new ''/r'' 0))"

lemma demo_readable:
  "list_all (readable (demo_world ''p'') ''/r'') demo_entries" "list_all (readable (demo_world ''q'') ''/r'') demo_entries"
  by code_simp+

definition demo_touched :: "walk_entry list" where
  "demo_touched = [WalkPath ''/r/a'' (Some \<lparr> wm_is_file = True, wm_len = 1, wm_mtime = Some 6 \<rparr>)]"

lemma demo_contents: "file_content (demo_world ''p'') ''/r'' ''/r/a'' = Inr ''p''" "file_content (demo_world ''q'') ''/r'' ''/r/a'' = Inr ''q''"
  by code_simp+

lemma demo_texts: "ww_sha (demo_world ''p'') (hashed_content (demo_world ''p'') ''/r'' demo_entries)
    \<noteq> ww_sha (demo_world ''p'') (hashed_content (demo_world ''q'') ''/r'' demo_touched)" "ww_sha (demo_world ''p'') ''p'' \<noteq> ww_sha (demo_world ''p'') ''q''"
  by code_simp+

lemma content_edit_is_detected_witness: "fst (force_content_check (demo_world ''q'') demo_touched demo_checked)"
proof -
  have root: "wt_root demo_checked = ''/r''"
    by (simp add: demo_checked_def force_content_check_def watcher_new_def)
  have "fst (force_content_check (demo_world ''q'') demo_touched demo_checked)
    \<or> collision (ww_sha (demo_world ''p'')) ''p'' ''q''
    \<or> collision (ww_sha (demo_world ''p'')) (hashed_content (demo_world ''p'') (wt_root demo_checked) demo_entries)
        (hashed_content (demo_world ''q'') (wt_root demo_checked) demo_touched)"
  proof (rule content_edit_is_detected)
    show "wt_content_fp demo_checked = Some (compute_content_fingerprint (demo_world ''p'') (wt_root demo_checked) demo_entries)"
      unfolding root by (simp add: demo_checked_def force_content_check_def watcher_new_def)
    show "WalkPath ''/r/a'' (Some \<lparr> wm_is_file = True, wm_len = 1, wm_mtime = Some 5 \<rparr>) \<in> set demo_entries"
      by (simp add: demo_entries_def)
    show "map unstamped demo_touched = map unstamped demo_entries"
      by (simp add: demo_touched_def demo_entries_def unstamped_def)
    show "\<not> in_git_dir ''/r/a''" by code_simp
  qed (simp_all add: root demo_readable demo_contents, simp_all add: demo_world_def)
  then show ?thesis using demo_texts by (simp add: root collision_def)
qed

lemma demo_checks_run:
  "fst (check_run (\<lambda>s. s) [(1000, []), (1500, demo_entries), (2000, demo_entries)] (watcher_new ''/r'' 0)) = [False, False, True]
   \<and> wt_last_check (snd (check_run (\<lambda>s. s) [(1000, []), (1500, demo_entries), (2000, demo_entries)] (watcher_new ''/r'' 0))) = 2000"
  by code_simp

lemma changes_are_throttled_witness:
  "1000 * length (filter id [False, False, True]) \<le> (2000 :: nat)"
  using changes_are_throttled [of "\<lambda>s. s" "[(1000, []), (1500, demo_entries), (2000, demo_entries)]" "watcher_new ''/r'' 0",
    OF surjective_pairing] demo_checks_run
  by (simp add: watcher_new_def)

lemma nearest_rules_decide_witness:
  "is_ignored_path (ww_rules (demo_world [])) ''/r'' ''/r/x'' False"
proof -
  have "path_starts_with ''/r/x'' ''/r''" and "\<not> in_git_dir ''/r/x''"
    and "find (decisive (ww_rules (demo_world [])) ''/r/x'' False) (rev (ignore_directories ''/r'' ''/r/x'')) = Some ''/r''"
    by code_simp+
  then show ?thesis by (simp add: nearest_rules_decide [of "''/r/x''" "''/r''"]) (simp add: demo_world_def)
qed

end
