(* ===== verification/Semantic_Kernel.thy ===== *)
theory Semantic_Kernel
  imports Egress Repository_Scan "HOL-Library.AList"
begin

text \<open>
  \<open>crates/mentat-analysis/src\<close>: sealing a line range into an evidence reference (\<open>evidence.rs\<close>), text and path
  search (\<open>search.rs\<close>), the kernel of a project, the local workflows and the comparison of documents with the
  scanned tree (\<open>semantic_kernel.rs\<close>).

  The reader port is a pair of functions with the contract of the locale \<open>repository_reader\<close>, which the session
  of \<open>Repository_Scan\<close> provides. Fresh ids are drawn in order from a sequence, and the order in which a hash map
  is listed is a parameter.
\<close>

section \<open>The reader port\<close>

record reader_port =
  rp_content :: "string \<Rightarrow> string result"
  rp_lines :: "string \<Rightarrow> nat \<Rightarrow> nat \<Rightarrow> string result"

definition session_reader :: "'h scan_system \<Rightarrow> session \<Rightarrow> reader_port" where
  "session_reader ss se = \<lparr> rp_content = read_file_content ss se, rp_lines = read_file_lines ss se \<rparr>"

section \<open>Evidence\<close>

record evidence_index =
  ix_snapshot_id :: uuid
  ix_entries :: "(uuid \<times> evidence_ref) list"

definition index_new :: "uuid \<Rightarrow> evidence_index" where
  "index_new snap = \<lparr> ix_snapshot_id = snap, ix_entries = [] \<rparr>"

definition add_evidence :: "evidence_ref \<Rightarrow> evidence_index \<Rightarrow> evidence_index" where
  "add_evidence e ix = ix\<lparr>ix_entries := AList.update (ev_id e) e (ix_entries ix)\<rparr>"

definition get_evidence :: "uuid \<Rightarrow> evidence_index \<Rightarrow> evidence_ref option" where
  "get_evidence i ix = map_of (ix_entries ix) i"

definition all_evidence :: "(evidence_ref list \<Rightarrow> evidence_ref list) \<Rightarrow> evidence_index \<Rightarrow> evidence_ref list" where
  "all_evidence iter ix = iter (map snd (ix_entries ix))"

definition find_by_file :: "(evidence_ref list \<Rightarrow> evidence_ref list) \<Rightarrow> string \<Rightarrow> evidence_index \<Rightarrow> evidence_ref list" where
  "find_by_file iter p ix = filter (\<lambda>e. path_eq (ev_path e) p) (all_evidence iter ix)"

record kernel_env =
  ke_reader :: reader_port
  ke_ids :: "nat \<Rightarrow> uuid"
  ke_sha :: "string \<Rightarrow> string"
  ke_iter :: "(string \<times> nat) list \<Rightarrow> (string \<times> nat) list"

definition evidence_hash :: "(string \<Rightarrow> string) \<Rightarrow> string \<Rightarrow> nat \<Rightarrow> nat \<Rightarrow> string \<Rightarrow> string" where
  "evidence_hash sha p a b excerpt = sha_hex sha (p @ le_bytes 8 a @ le_bytes 8 b @ excerpt)"

text \<open>The result, the index and the number of ids drawn so far.\<close>

definition create_evidence_ref ::
  "kernel_env \<Rightarrow> string \<Rightarrow> nat \<Rightarrow> nat \<Rightarrow> evidence_index \<times> nat \<Rightarrow> evidence_ref result \<times> evidence_index \<times> nat" where
  "create_evidence_ref env p a b s =
     (case s of (ix, n) \<Rightarrow>
      case rp_lines (ke_reader env) p a b of
        Inl e \<Rightarrow> (Inl e, ix, n)
      | Inr excerpt \<Rightarrow>
          let e = \<lparr> ev_id = ke_ids env n, ev_snapshot_id = ix_snapshot_id ix, ev_path = p, ev_line_start = a, ev_line_end = b,
            ev_content_hash = evidence_hash (ke_sha env) p a b excerpt, ev_excerpt = excerpt \<rparr> in
          (Inr e, add_evidence e ix, Suc n))"

section \<open>Search\<close>

record search_match =
  sm_path :: string
  sm_line_number :: nat
  sm_line_text :: string

definition text_matches :: "string \<Rightarrow> string \<Rightarrow> string \<Rightarrow> search_match list" where
  "text_matches query p content =
     map (\<lambda>(i, line). \<lparr> sm_path = p, sm_line_number = i + 1, sm_line_text = trim line \<rparr>)
       (filter (\<lambda>(i, line). contains (to_lowercase line) query) (enumerate 0 (lines content)))"

text \<open>A match is pushed before the limit is tested, so the search stops after a match, at the limit or past it.\<close>

fun push_matches :: "nat \<Rightarrow> search_match list \<Rightarrow> search_match list \<Rightarrow> search_match list \<times> bool" where
  "push_matches limit [] found = (found, False)"
| "push_matches limit (m # ms) found =
     (let found' = found @ [m] in if length found' \<ge> limit then (found', True) else push_matches limit ms found')"

fun search_loop ::
  "reader_port \<Rightarrow> string \<Rightarrow> nat \<Rightarrow> file_record list \<Rightarrow> search_match list \<Rightarrow> search_match list" where
  "search_loop rd query limit [] found = found"
| "search_loop rd query limit (f # fs) found =
     (if \<not> file_is_text f then search_loop rd query limit fs found
      else case rp_content rd (file_path f) of
        Inl e \<Rightarrow> search_loop rd query limit fs found
      | Inr content \<Rightarrow>
          (case push_matches limit (text_matches query (file_path f) content) found of
             (found', full) \<Rightarrow> if full then found' else search_loop rd query limit fs found'))"

definition search_text :: "reader_port \<Rightarrow> file_record list \<Rightarrow> string \<Rightarrow> nat \<Rightarrow> search_match list" where
  "search_text rd files query limit = search_loop rd (to_lowercase query) limit files []"

definition search_path :: "file_record list \<Rightarrow> string \<Rightarrow> string list" where
  "search_path files query =
     map file_path (filter (\<lambda>f. contains (to_lowercase (file_path f)) (to_lowercase query)) files)"

section \<open>The texts of the workflows\<close>

definition general_tech :: string where
  "general_tech =
     ''General Polyglot''"

definition based_project :: string where
  "based_project =
     utf8 [32, 234, 184, 176, 235, 176, 152, 32, 236, 134, 140, 237, 148, 132, 237, 138, 184, 236, 155,
     168, 236, 150, 180, 32, 237, 148, 132, 235, 161, 156, 236, 160, 157, 237, 138, 184]"

definition invariant_read_only :: string where
  "invariant_read_only =
     utf8 [236, 160, 128, 236, 158, 165, 236, 134, 140, 32, 237, 140, 140, 236, 157, 188, 32, 236, 136,
     152, 236, 160, 149, 32, 235, 182, 136, 234, 176, 128, 32, 40, 83, 116, 114, 105, 99, 116, 32, 82,
     101, 97, 100, 45, 79, 110, 108, 121, 32, 66, 111, 117, 110, 100, 97, 114, 121, 41]"

definition invariant_grounded :: string where
  "invariant_grounded =
     utf8 [235, 170, 168, 235, 147, 160, 32, 236, 161, 176, 236, 150, 184, 234, 179, 188, 32, 236, 163,
     188, 236, 158, 165, 236, 157, 128, 32, 234, 178, 128, 236, 166, 157, 32, 234, 176, 128, 235, 138,
     165, 237, 149, 156, 32, 237, 140, 140, 236, 157, 188, 32, 237, 150, 137, 32, 236, 166, 157, 234,
     177, 176, 40, 69, 118, 105, 100, 101, 110, 99, 101, 82, 101, 102, 41, 236, 151, 144, 32, 234, 184,
     176, 235, 176, 152, 237, 149, 168]"

definition invariant_cargo :: string where
  "invariant_cargo =
     utf8 [67, 97, 114, 103, 111, 32, 119, 111, 114, 107, 115, 112, 97, 99, 101, 32, 235, 170, 168, 235,
     147, 136, 32, 234, 178, 189, 234, 179, 132, 32, 235, 176, 143, 32, 236, 187, 180, 237, 140, 140,
     236, 157, 188, 32, 235, 172, 180, 234, 178, 176, 236, 132, 177, 32, 236, 164, 128, 236, 136, 152]"

definition uncertain_docs :: string where
  "uncertain_docs =
     utf8 [235, 170, 133, 236, 139, 156, 236, 160, 129, 32, 235, 172, 184, 236, 132, 156, 40, 82, 69, 65,
     68, 77, 69, 32, 47, 32, 115, 112, 101, 99, 46, 109, 100, 41, 234, 176, 128, 32, 236, 151, 134, 236,
     150, 180, 32, 236, 189, 148, 235, 147, 156, 32, 234, 181, 172, 236, 161, 176, 236, 151, 144, 236,
     132, 156, 235, 167, 140, 32, 236, 157, 152, 235, 143, 132, 235, 165, 188, 32, 236, 151, 173, 236,
     182, 148, 235, 161, 160, 237, 149, 168]"

definition uncertain_tests :: string where
  "uncertain_tests =
     utf8 [237, 133, 140, 236, 138, 164, 237, 138, 184, 32, 236, 189, 148, 235, 147, 156, 234, 176, 128,
     32, 234, 176, 144, 236, 167, 128, 235, 144, 152, 236, 167, 128, 32, 236, 149, 138, 236, 149, 132,
     32, 237, 154, 140, 234, 183, 128, 32, 234, 179, 132, 236, 149, 189, 32, 234, 178, 128, 236, 166,
     157, 236, 157, 180, 32, 236, 160, 156, 237, 149, 156, 235, 144, 168]"

definition tech_unknown :: string where
  "tech_unknown =
     utf8 [236, 149, 140, 32, 236, 136, 152, 32, 236, 151, 134, 236, 157, 140]"

definition onboard_a :: string where
  "onboard_a =
     utf8 [236, 157, 180, 32, 237, 148, 132, 235, 161, 156, 236, 160, 157, 237, 138, 184, 235, 138, 148,
     32, 42, 42]"

definition onboard_b :: string where
  "onboard_b =
     utf8 [42, 42, 32, 234, 184, 176, 235, 176, 152, 32, 237, 148, 132, 235, 161, 156, 236, 160, 157,
     237, 138, 184, 236, 158, 133, 235, 139, 136, 235, 139, 164, 46, 32, 236, 180, 157, 32]"

definition onboard_c :: string where
  "onboard_c =
     utf8 [234, 176, 156, 236, 157, 152, 32, 236, 134, 140, 236, 138, 164, 32, 237, 140, 140, 236, 157,
     188, 32, 40, 236, 149, 189, 32]"

definition onboard_d :: string where
  "onboard_d =
     utf8 [32, 235, 157, 188, 236, 157, 184, 41, 235, 161, 156, 32, 234, 181, 172, 236, 132, 177, 235,
     144, 152, 236, 150, 180, 32, 236, 158, 136, 236, 138, 181, 235, 139, 136, 235, 139, 164, 46]"

definition manifest_seen :: string where
  "manifest_seen =
     utf8 [237, 148, 132, 235, 161, 156, 236, 160, 157, 237, 138, 184, 32, 235, 167, 164, 235, 139, 136,
     237, 142, 152, 236, 138, 164, 237, 138, 184, 32, 237, 153, 149, 236, 157, 184, 235, 144, 168, 58,
     32]"

definition manifest_why :: string where
  "manifest_why =
     utf8 [235, 185, 140, 235, 147, 156, 32, 236, 139, 156, 236, 138, 164, 237, 133, 156, 32, 236, 160,
     149, 236, 157, 152, 32, 237, 140, 140, 236, 157, 188]"

definition entry_seen :: string where
  "entry_seen =
     utf8 [235, 169, 148, 236, 157, 184, 32, 236, 167, 132, 236, 158, 133, 236, 160, 144, 32, 237, 140,
     140, 236, 157, 188, 32, 235, 176, 156, 234, 178, 172, 58, 32]"

definition entry_why :: string where
  "entry_why =
     utf8 [236, 149, 160, 237, 148, 140, 235, 166, 172, 236, 188, 128, 236, 157, 180, 236, 133, 152, 32,
     236, 139, 156, 236, 158, 145, 32, 236, 167, 128, 236, 160, 144]"

definition onboard_impact :: string where
  "onboard_impact =
     utf8 [237, 148, 132, 235, 161, 156, 236, 160, 157, 237, 138, 184, 32, 235, 185, 160, 235, 165, 184,
     32, 237, 140, 140, 236, 149, 133]"

definition onboard_advice :: string where
  "onboard_advice =
     utf8 [236, 167, 132, 236, 158, 133, 236, 160, 144, 234, 179, 188, 32, 234, 182, 140, 236, 156, 132,
     32, 235, 172, 184, 236, 132, 156, 235, 165, 188, 32, 235, 168, 188, 236, 160, 128, 32, 234, 178,
     128, 237, 134, 160, 237, 149, 152, 235, 138, 148, 32, 234, 178, 131, 236, 157, 180, 32, 236, 162,
     139, 236, 138, 181, 235, 139, 136, 235, 139, 164, 46]"

definition structure_a :: string where
  "structure_a =
     utf8 [236, 150, 184, 236, 150, 180, 32, 235, 182, 132, 237, 143, 172, 58, 32]"

definition structure_b :: string where
  "structure_b =
     utf8 [10, 235, 167, 164, 235, 139, 136, 237, 142, 152, 236, 138, 164, 237, 138, 184, 58, 32]"

definition structure_c :: string where
  "structure_c =
     utf8 [234, 176, 156, 44, 32, 235, 172, 184, 236, 132, 156, 58, 32]"

definition structure_d :: string where
  "structure_d =
     utf8 [234, 176, 156, 44, 32, 237, 133, 140, 236, 138, 164, 237, 138, 184, 32, 237, 140, 140, 236,
     157, 188, 58, 32]"

definition structure_e :: string where
  "structure_e =
     utf8 [234, 176, 156]"

definition document_seen :: string where
  "document_seen =
     utf8 [235, 172, 184, 236, 132, 156, 32, 237, 140, 140, 236, 157, 188, 58, 32]"

definition document_why :: string where
  "document_why =
     utf8 [236, 132, 164, 234, 179, 132, 32, 235, 176, 143, 32, 236, 130, 172, 236, 150, 145, 32, 235,
     172, 184, 236, 132, 156]"

definition conflicts_answer :: string where
  "conflicts_answer =
     utf8 [237, 152, 132, 236, 158, 172, 32, 234, 176, 144, 236, 167, 128, 235, 144, 156, 32, 235, 172,
     184, 236, 132, 156, 45, 234, 181, 172, 237, 152, 132, 32, 234, 176, 132, 32, 236, 182, 169, 235,
     143, 140, 32, 236, 130, 172, 237, 149, 173, 32, 235, 182, 132, 236, 132, 157, 32, 234, 178, 176,
     234, 179, 188, 236, 158, 133, 235, 139, 136, 235, 139, 164, 46]"

definition no_spec_a :: string where
  "no_spec_a =
     utf8 [236, 130, 172, 236, 150, 145, 32, 235, 172, 184, 236, 132, 156, 32, 235, 182, 128, 236, 158,
     172]"

definition no_spec_b :: string where
  "no_spec_b =
     utf8 [236, 139, 164, 236, 160, 156, 32, 236, 134, 140, 236, 138, 164, 236, 189, 148, 235, 147, 156,
     32, 234, 181, 172, 237, 152, 132]"

definition no_spec_impact :: string where
  "no_spec_impact =
     utf8 [236, 132, 164, 234, 179, 132, 32, 236, 157, 152, 235, 143, 132, 235, 165, 188, 32, 236, 189,
     148, 235, 147, 156, 235, 161, 156, 235, 167, 140, 32, 236, 151, 173, 236, 182, 148, 235, 161, 160,
     237, 149, 180, 236, 149, 188, 32, 237, 149, 168]"

definition no_spec_question :: string where
  "no_spec_question =
     utf8 [234, 179, 181, 236, 139, 157, 32, 236, 130, 172, 236, 150, 145, 236, 132, 156, 40, 115, 112,
     101, 99, 46, 109, 100, 41, 32, 236, 158, 145, 236, 132, 177, 236, 157, 180, 32, 237, 149, 132, 236,
     154, 148, 237, 149, 169, 235, 139, 136, 234, 185, 140, 63]"

definition where_answer :: string where
  "where_answer =
     utf8 [236, 163, 188, 236, 154, 148, 32, 236, 167, 132, 236, 158, 133, 236, 160, 144, 32, 235, 176,
     143, 32, 235, 185, 140, 235, 147, 156, 32, 236, 132, 164, 236, 160, 149, 32, 237, 140, 140, 236,
     157, 188, 32, 236, 156, 132, 236, 185, 152, 236, 158, 133, 235, 139, 136, 235, 139, 164, 46]"

definition where_entry :: string where
  "where_entry =
     utf8 [236, 167, 132, 236, 158, 133, 236, 160, 144, 58, 32]"

definition where_entry_why :: string where
  "where_entry_why =
     utf8 [236, 149, 160, 237, 148, 140, 235, 166, 172, 236, 188, 128, 236, 157, 180, 236, 133, 152, 32,
     236, 167, 132, 236, 158, 133, 236, 160, 144]"

definition where_manifest :: string where
  "where_manifest =
     utf8 [235, 167, 164, 235, 139, 136, 237, 142, 152, 236, 138, 164, 237, 138, 184, 58, 32]"

definition where_manifest_why :: string where
  "where_manifest_why =
     utf8 [235, 185, 140, 235, 147, 156, 32, 235, 176, 143, 32, 236, 157, 152, 236, 161, 180, 236, 132,
     177, 32, 235, 167, 164, 235, 139, 136, 237, 142, 152, 236, 138, 164, 237, 138, 184]"

definition risks_answer :: string where
  "risks_answer =
     utf8 [237, 148, 132, 235, 161, 156, 236, 160, 157, 237, 138, 184, 236, 157, 152, 32, 236, 156, 132,
     237, 151, 152, 32, 236, 154, 148, 236, 134, 140, 32, 235, 176, 143, 32, 235, 175, 184, 237, 153,
     149, 236, 160, 149, 32, 234, 178, 176, 236, 160, 149, 32, 235, 182, 132, 236, 132, 157, 32, 234,
     178, 176, 234, 179, 188, 236, 158, 133, 235, 139, 136, 235, 139, 164, 46]"

definition no_tests :: string where
  "no_tests =
     utf8 [236, 158, 144, 235, 143, 153, 237, 153, 148, 32, 237, 154, 140, 234, 183, 128, 32, 237, 133,
     140, 236, 138, 164, 237, 138, 184, 32, 236, 138, 164, 236, 156, 132, 237, 138, 184, 32, 235, 182,
     128, 236, 158, 172]"

definition no_tests_why :: string where
  "no_tests_why =
     utf8 [236, 134, 140, 236, 138, 164, 32, 237, 140, 140, 236, 157, 188, 32, 235, 140, 128, 235, 185,
     132, 32, 237, 133, 140, 236, 138, 164, 237, 138, 184, 32, 237, 140, 140, 236, 157, 188, 32, 48, 234,
     177, 180, 32, 234, 176, 144, 236, 167, 128]"

definition no_tests_impact :: string where
  "no_tests_impact =
     utf8 [237, 146, 136, 236, 167, 136, 32, 234, 178, 140, 236, 157, 180, 237, 138, 184, 32, 235, 176,
     143, 32, 235, 166, 172, 237, 140, 169, 237, 132, 176, 235, 167, 129, 32, 236, 149, 136, 236, 160,
     149, 236, 132, 177, 32, 237, 153, 149, 235, 179, 180]"

definition no_tests_advice :: string where
  "no_tests_advice =
     utf8 [235, 139, 168, 236, 156, 132, 32, 237, 133, 140, 236, 138, 164, 237, 138, 184, 32, 235, 152,
     144, 235, 138, 148, 32, 237, 134, 181, 237, 149, 169, 32, 237, 133, 140, 236, 138, 164, 237, 138,
     184, 32, 237, 148, 189, 236, 138, 164, 236, 178, 152, 32, 236, 182, 148, 234, 176, 128, 234, 176,
     128, 32, 234, 182, 140, 236, 158, 165, 235, 144, 169, 235, 139, 136, 235, 139, 164, 46]"

definition test_seen :: string where
  "test_seen =
     utf8 [237, 133, 140, 236, 138, 164, 237, 138, 184, 32, 237, 140, 140, 236, 157, 188, 32, 234, 178,
     128, 236, 166, 157, 235, 144, 168, 58, 32]"

definition test_why :: string where
  "test_why =
     utf8 [237, 154, 140, 234, 183, 128, 32, 237, 133, 140, 236, 138, 164, 237, 138, 184, 32, 236, 138,
     164, 236, 156, 132, 237, 138, 184]"

definition question_a :: string where
  "question_a =
     utf8 [236, 167, 136, 235, 172, 184, 32, 39]"

definition question_b :: string where
  "question_b =
     utf8 [39, 236, 151, 144, 32, 235, 140, 128, 237, 149, 156, 32, 236, 160, 128, 236, 158, 165, 236,
     134, 140, 32, 234, 181, 172, 236, 161, 176, 32, 235, 176, 143, 32, 237, 130, 164, 236, 155, 140,
     235, 147, 156, 32, 235, 182, 132, 236, 132, 157, 32, 234, 178, 176, 234, 179, 188, 236, 158, 133,
     235, 139, 136, 235, 139, 164, 46]"

definition metadata_claim :: string where
  "metadata_claim =
     utf8 [236, 160, 128, 236, 158, 165, 236, 134, 140, 32, 235, 169, 148, 237, 131, 128, 235, 141, 176,
     236, 157, 180, 237, 132, 176, 32, 235, 176, 143, 32, 234, 181, 172, 236, 161, 176, 32, 234, 184,
     176, 235, 176, 152, 32, 235, 182, 132, 236, 132, 157, 32, 236, 153, 132, 235, 163, 140]"

definition doc_side_a :: string where
  "doc_side_a =
     utf8 [235, 172, 184, 236, 132, 156, 40]"

definition doc_side_b :: string where
  "doc_side_b =
     utf8 [41, 234, 176, 128, 32]"

definition doc_side_c :: string where
  "doc_side_c =
     utf8 [235, 165, 188, 32, 236, 163, 188, 236, 158, 165]"

definition scanned_language :: string where
  "scanned_language =
     utf8 [236, 138, 164, 236, 186, 148, 235, 144, 156, 32, 236, 163, 188, 32, 236, 150, 184, 236, 150,
     180, 235, 138, 148, 32]"

definition language_impact :: string where
  "language_impact =
     utf8 [236, 152, 168, 235, 179, 180, 235, 148, 169, 234, 179, 188, 32, 235, 143, 132, 234, 181, 172,
     32, 236, 132, 160, 237, 131, 157, 236, 157, 180, 32, 236, 150, 180, 234, 184, 139, 235, 130, 160,
     32, 236, 136, 152, 32, 236, 158, 136, 236, 157, 140]"

definition language_question :: string where
  "language_question =
     utf8 [235, 172, 184, 236, 132, 156, 236, 153, 128, 32, 234, 181, 172, 237, 152, 132, 32, 236, 164,
     145, 32, 236, 150, 180, 235, 138, 144, 32, 236, 170, 189, 236, 157, 180, 32, 237, 152, 132, 236,
     158, 172, 32, 236, 167, 132, 236, 139, 164, 236, 157, 184, 234, 176, 128, 63]"

definition language_claim_a :: string where
  "language_claim_a =
     utf8 [235, 172, 184, 236, 132, 156, 234, 176, 128, 32]"

definition language_claim_b :: string where
  "language_claim_b =
     utf8 [235, 165, 188, 32, 236, 163, 188, 236, 158, 165, 237, 149, 152, 236, 167, 128, 235, 167, 140,
     32, 236, 160, 128, 236, 158, 165, 236, 134, 140, 235, 138, 148, 32]"

definition language_claim_c :: string where
  "language_claim_c =
     utf8 [235, 161, 156, 32, 234, 176, 144, 236, 167, 128, 235, 144, 168]"

definition language_why :: string where
  "language_why =
     utf8 [235, 172, 184, 236, 132, 156, 32, 235, 179, 184, 235, 172, 184, 234, 179, 188, 32, 80, 114,
     111, 106, 101, 99, 116, 68, 101, 116, 101, 99, 116, 111, 114, 32, 236, 150, 184, 236, 150, 180, 32,
     235, 182, 132, 237, 143, 172, 32, 235, 185, 132, 234, 181, 144]"

definition missing_a :: string where
  "missing_a =
     utf8 [235, 172, 184, 236, 132, 156, 234, 176, 128, 32]"

definition missing_b :: string where
  "missing_b =
     utf8 [235, 165, 188, 32, 236, 176, 184, 236, 161, 176]"

definition missing_side :: string where
  "missing_side =
     utf8 [236, 138, 164, 236, 186, 148, 235, 144, 156, 32, 237, 140, 140, 236, 157, 188, 32, 235, 170,
     169, 235, 161, 157, 236, 151, 144, 32, 237, 149, 180, 235, 139, 185, 32, 234, 178, 189, 235, 161,
     156, 32, 236, 151, 134, 236, 157, 140]"

definition missing_impact :: string where
  "missing_impact =
     utf8 [235, 172, 184, 236, 132, 156, 236, 157, 152, 32, 236, 158, 145, 236, 151, 133, 32, 236, 156,
     132, 236, 185, 152, 234, 176, 128, 32, 237, 152, 132, 236, 158, 172, 32, 237, 138, 184, 235, 166,
     172, 236, 153, 128, 32, 235, 182, 136, 236, 157, 188, 236, 185, 152]"

definition missing_question :: string where
  "missing_question =
     utf8 [234, 176, 128, 32, 236, 157, 180, 235, 143, 153, 194, 183, 236, 130, 173, 236, 160, 156, 235,
     144, 152, 236, 151, 136, 236, 138, 181, 235, 139, 136, 234, 185, 140, 63]"

definition no_conflict :: string where
  "no_conflict =
     utf8 [234, 177, 180, 236, 157, 152, 32, 235, 172, 184, 236, 132, 156, 236, 153, 128, 32, 236, 134,
     140, 236, 138, 164, 236, 189, 148, 235, 147, 156, 236, 151, 144, 236, 132, 156, 32, 236, 150, 184,
     236, 150, 180, 47, 234, 178, 189, 235, 161, 156, 32, 236, 182, 169, 235, 143, 140, 236, 157, 180,
     32, 234, 176, 144, 236, 167, 128, 235, 144, 152, 236, 167, 128, 32, 236, 149, 138, 236, 149, 152,
     236, 138, 181, 235, 139, 136, 235, 139, 164, 46]"

definition no_conflict_why :: string where
  "no_conflict_why =
     utf8 [235, 172, 184, 236, 132, 156, 32, 235, 179, 184, 235, 172, 184, 234, 179, 188, 32, 236, 138,
     164, 236, 186, 148, 32, 237, 138, 184, 235, 166, 172, 32, 235, 140, 128, 236, 161, 176]"

section \<open>The kernel\<close>

record semantic_kernel =
  sk_purpose :: string
  sk_primary_tech :: string
  sk_invariants :: "string list"
  sk_components :: "string list"
  sk_uncertainties :: "string list"

definition build_kernel :: "project_summary \<Rightarrow> semantic_kernel" where
  "build_kernel summary =
     (let tech = (case ps_primary_language summary of Some l \<Rightarrow> l | None \<Rightarrow> general_tech) in
      \<lparr> sk_purpose = tech @ based_project, sk_primary_tech = tech,
        sk_invariants = [invariant_read_only, invariant_grounded]
          @ (if ps_primary_language summary = Some ''Rust'' then [invariant_cargo] else []),
        sk_components = map (\<lambda>p. ''Entry Point: '' @ p) (ps_entry_points summary)
          @ map (\<lambda>p. ''Manifest: '' @ p) (ps_manifests summary),
        sk_uncertainties = (if ps_documents summary = [] then [uncertain_docs] else [])
          @ (if ps_test_files summary = [] then [uncertain_tests] else []) \<rparr>)"

section \<open>The steps of a workflow\<close>

record workflow_state =
  wf_claims :: "claim list"
  wf_recommendations :: "recommendation list"
  wf_conflicts :: "conflict_item list"
  wf_evidence :: "evidence_ref list"
  wf_index :: evidence_index
  wf_next :: nat

definition workflow_start :: "uuid \<Rightarrow> workflow_state" where
  "workflow_start snap = \<lparr> wf_claims = [], wf_recommendations = [], wf_conflicts = [], wf_evidence = [],
     wf_index = index_new snap, wf_next = 0 \<rparr>"

definition push_claim ::
  "kernel_env \<Rightarrow> claim_classification \<Rightarrow> string \<Rightarrow> f32 \<Rightarrow> uuid list \<Rightarrow> string option \<Rightarrow> workflow_state \<Rightarrow> workflow_state" where
  "push_claim env cls statement conf ids why s =
     s\<lparr>wf_claims := wf_claims s @ [\<lparr> claim_id = ke_ids env (wf_next s), claim_classification = cls,
         claim_statement = statement, claim_confidence = conf, claim_evidence_ids = ids, claim_rationale = why \<rparr>],
       wf_next := Suc (wf_next s)\<rparr>"

definition push_recommendation ::
  "kernel_env \<Rightarrow> recommendation_basis \<Rightarrow> string \<Rightarrow> string \<Rightarrow> uuid list \<Rightarrow> bool \<Rightarrow> workflow_state \<Rightarrow> workflow_state" where
  "push_recommendation env basis impact why ids decision s =
     s\<lparr>wf_recommendations := wf_recommendations s @ [\<lparr> rec_id = ke_ids env (wf_next s), rec_basis = basis,
         rec_impact = impact, rec_rationale = why, rec_evidence_ids = ids, rec_decision_required = decision \<rparr>],
       wf_next := Suc (wf_next s)\<rparr>"

definition push_conflict ::
  "kernel_env \<Rightarrow> string \<Rightarrow> string \<Rightarrow> uuid list \<Rightarrow> string \<Rightarrow> string \<Rightarrow> workflow_state \<Rightarrow> workflow_state" where
  "push_conflict env a b ids impact question s =
     s\<lparr>wf_conflicts := wf_conflicts s @ [\<lparr> cf_id = ke_ids env (wf_next s), cf_side_a = a, cf_side_b = b,
         cf_evidence_ids = ids, cf_impact = impact, cf_unresolved_question = question \<rparr>],
       wf_next := Suc (wf_next s)\<rparr>"

text \<open>\<open>if let Ok(ev) = create_evidence_ref ..\<close>: the id of the new evidence, or none when the file cannot be read.\<close>

definition note_evidence :: "kernel_env \<Rightarrow> string \<Rightarrow> nat \<Rightarrow> nat \<Rightarrow> workflow_state \<Rightarrow> uuid list \<times> workflow_state" where
  "note_evidence env p a b s =
     (case create_evidence_ref env p a b (wf_index s, wf_next s) of
        (Inr e, ix, n) \<Rightarrow> ([ev_id e], s\<lparr>wf_evidence := wf_evidence s @ [e], wf_index := ix, wf_next := n\<rparr>)
      | (Inl e, ix, n) \<Rightarrow> ([], s\<lparr>wf_index := ix, wf_next := n\<rparr>))"

text \<open>The onboarding claims only what it could read; the other workflows claim in any case.\<close>

definition observe_if_read ::
  "kernel_env \<Rightarrow> nat \<Rightarrow> string \<Rightarrow> f32 \<Rightarrow> string \<Rightarrow> string \<Rightarrow> workflow_state \<Rightarrow> workflow_state" where
  "observe_if_read env b what conf why p s =
     (case note_evidence env p 1 b s of (ids, s') \<Rightarrow>
        if ids = [] then s' else push_claim env Observed (what @ p) conf ids (Some why) s')"

definition observe :: "kernel_env \<Rightarrow> nat \<Rightarrow> string \<Rightarrow> string \<Rightarrow> string \<Rightarrow> workflow_state \<Rightarrow> workflow_state" where
  "observe env b what why p s =
     (case note_evidence env p 1 b s of (ids, s') \<Rightarrow> push_claim env Observed (what @ p) (F32 1) ids (Some why) s')"

section \<open>Documents against the tree\<close>

definition language_claimed_in_text :: "string \<Rightarrow> string option" where
  "language_claimed_in_text t =
     (let l = to_lowercase t in
      if contains l ''python'' \<or> contains l ''django'' \<or> contains l ''pypi'' then Some ''Python''
      else if contains l ''typescript'' then Some ''TypeScript''
      else if contains l ''javascript'' \<or> contains l ''node.js'' \<or> contains l ''npm '' then Some ''JavaScript''
      else if contains l ''golang'' \<or> contains l '' go '' then Some ''Go''
      else if contains l ''rust'' \<or> contains l ''cargo workspace'' \<or> contains l ''crate'' then Some ''Rust''
      else None)"

definition trim_marks :: "string \<Rightarrow> string" where
  "trim_marks t =
     (let mark = (\<lambda>c. c \<in> {CHR 0x60, CHR '','', CHR ''.'', CHR 0x22}) in rev (dropWhile mark (rev (dropWhile mark t))))"

definition looks_like_path :: "string \<Rightarrow> bool" where
  "looks_like_path t \<longleftrightarrow>
     CHR ''/'' \<in> set t \<or> CHR 0x5C \<in> set t
     \<or> list_ex (\<lambda>e. suffix e t) [''.py'', ''.rs'', ''.js'', ''.ts'', ''.go'']"

definition path_scanned :: "file_record list \<Rightarrow> string \<Rightarrow> bool" where
  "path_scanned files t \<longleftrightarrow>
     list_ex (\<lambda>f. file_path f = t \<or> suffix (to_slashes t) (to_slashes (file_path f))) files"

definition note_missing :: "file_record list \<Rightarrow> string \<Rightarrow> string list \<Rightarrow> string list" where
  "note_missing files token missing =
     (let t = trim_marks token in
      if looks_like_path t \<and> \<not> path_scanned files t \<and> t \<notin> set missing then missing @ [t] else missing)"

definition referenced_missing_paths :: "string \<Rightarrow> file_record list \<Rightarrow> string list" where
  "referenced_missing_paths t files = fold (note_missing files) (split_whitespace t) []"

definition eq_ignore_ascii_case :: "string \<Rightarrow> string \<Rightarrow> bool" where
  "eq_ignore_ascii_case a b \<longleftrightarrow> map ascii_lower a = map ascii_lower b"

definition note_language :: "kernel_env \<Rightarrow> string \<Rightarrow> string \<Rightarrow> string \<Rightarrow> uuid list \<Rightarrow> workflow_state \<Rightarrow> workflow_state" where
  "note_language env doc claimed detected ids s =
     (if eq_ignore_ascii_case claimed detected then s
      else push_claim env Conflict (language_claim_a @ claimed @ language_claim_b @ detected @ language_claim_c) (F32 (7549747 / 8388608)) ids
             (Some language_why)
        (push_conflict env (doc_side_a @ doc @ doc_side_b @ claimed @ doc_side_c) (scanned_language @ detected) ids
           language_impact language_question s))"

definition note_missing_path :: "kernel_env \<Rightarrow> uuid list \<Rightarrow> string \<Rightarrow> workflow_state \<Rightarrow> workflow_state" where
  "note_missing_path env ids p s =
     push_conflict env (missing_a @ p @ missing_b) missing_side ids missing_impact (p @ missing_question) s"

definition compare_document ::
  "kernel_env \<Rightarrow> file_record list \<Rightarrow> string \<Rightarrow> string \<Rightarrow> workflow_state \<Rightarrow> workflow_state" where
  "compare_document env files detected doc s =
     (case rp_content (ke_reader env) doc of
        Inl e \<Rightarrow> s
      | Inr t \<Rightarrow>
          (case note_evidence env doc 1 8 s of (ids, s1) \<Rightarrow>
             let s2 = (case language_claimed_in_text t of Some l \<Rightarrow> note_language env doc l detected ids s1 | None \<Rightarrow> s1) in
             fold (note_missing_path env ids) (referenced_missing_paths t files) s2))"

definition detect_doc_code_conflicts ::
  "kernel_env \<Rightarrow> file_record list \<Rightarrow> project_summary \<Rightarrow> workflow_state \<Rightarrow> workflow_state" where
  "detect_doc_code_conflicts env files summary s =
     (let detected = (case ps_primary_language summary of Some l \<Rightarrow> l | None \<Rightarrow> ''Unknown'');
          s' = fold (compare_document env files detected) (ps_documents summary) s in
      if wf_conflicts s' = []
      then push_claim env Observed (show_nat (length (ps_documents summary)) @ no_conflict) (F32 (11744051 / 16777216))
             (map ev_id (wf_evidence s')) (Some no_conflict_why) s'
      else s')"

section \<open>The workflows\<close>

definition head_list :: "'a list \<Rightarrow> 'a list" where
  "head_list xs = take 1 xs"

definition onboard_workflow :: "kernel_env \<Rightarrow> project_summary \<Rightarrow> workflow_state \<Rightarrow> string \<times> workflow_state" where
  "onboard_workflow env summary s =
     (let tech = (case ps_primary_language summary of Some l \<Rightarrow> l | None \<Rightarrow> tech_unknown);
          s1 = fold (observe_if_read env 10 manifest_seen (F32 1) manifest_why) (head_list (ps_manifests summary)) s;
          s2 = fold (observe_if_read env 15 entry_seen (F32 (15938355 / 16777216)) entry_why) (head_list (ps_entry_points summary)) s1 in
      (onboard_a @ tech @ onboard_b @ show_nat (ps_total_source_files summary) @ onboard_c
         @ show_nat (ps_total_lines_of_code summary) @ onboard_d,
       push_recommendation env ProjectIntentAligned onboard_impact onboard_advice (map ev_id (wf_evidence s2)) False s2))"

text \<open>\<open>{:?}\<close> of the language counts; the names need no escape.\<close>

definition show_languages :: "(string \<times> nat) list \<Rightarrow> string" where
  "show_languages ls =
     ''{'' @ join '', '' (map (\<lambda>(l, n). [CHR 0x22] @ l @ [CHR 0x22] @ '': '' @ show_nat n) ls) @ ''}''"

definition structure_workflow :: "kernel_env \<Rightarrow> project_summary \<Rightarrow> workflow_state \<Rightarrow> string \<times> workflow_state" where
  "structure_workflow env summary s =
     (structure_a @ show_languages (ke_iter env (ps_languages summary)) @ structure_b @ show_nat (length (ps_manifests summary))
        @ structure_c @ show_nat (length (ps_documents summary)) @ structure_d @ show_nat (length (ps_test_files summary)) @ structure_e,
      fold (observe env 5 document_seen document_why) (ps_documents summary) s)"

definition conflicts_workflow ::
  "kernel_env \<Rightarrow> file_record list \<Rightarrow> project_summary \<Rightarrow> workflow_state \<Rightarrow> string \<times> workflow_state" where
  "conflicts_workflow env files summary s =
     (conflicts_answer,
      if ps_documents summary = [] then push_conflict env no_spec_a no_spec_b [] no_spec_impact no_spec_question s
      else detect_doc_code_conflicts env files summary s)"

definition where_workflow :: "kernel_env \<Rightarrow> project_summary \<Rightarrow> workflow_state \<Rightarrow> string \<times> workflow_state" where
  "where_workflow env summary s =
     (where_answer,
      fold (observe env 10 where_manifest where_manifest_why) (ps_manifests summary)
        (fold (observe env 10 where_entry where_entry_why) (ps_entry_points summary) s))"

definition risks_workflow :: "kernel_env \<Rightarrow> project_summary \<Rightarrow> workflow_state \<Rightarrow> string \<times> workflow_state" where
  "risks_workflow env summary s =
     (risks_answer,
      if ps_test_files summary = []
      then push_recommendation env NeedsUserDecision no_tests_impact no_tests_advice [] True
        (push_claim env Conflict no_tests (F32 (15938355 / 16777216)) [] (Some no_tests_why) s)
      else fold (observe env 10 test_seen test_why) (take 3 (ps_test_files summary)) s)"

definition question_workflow :: "kernel_env \<Rightarrow> string \<Rightarrow> workflow_state \<Rightarrow> string \<times> workflow_state" where
  "question_workflow env workflow s =
     (question_a @ workflow @ question_b, push_claim env Inferred metadata_claim (F32 (7381975 / 8388608)) [] None s)"

definition run_workflow ::
  "kernel_env \<Rightarrow> string \<Rightarrow> file_record list \<Rightarrow> project_summary \<Rightarrow> workflow_state \<Rightarrow> string \<times> workflow_state" where
  "run_workflow env workflow files summary s =
     (if workflow \<in> {''/onboard'', ''onboard''} then onboard_workflow env summary s
      else if workflow \<in> {''/structure'', ''structure''} then structure_workflow env summary s
      else if workflow \<in> {''/conflicts'', ''conflicts''} then conflicts_workflow env files summary s
      else if workflow \<in> {''/where'', ''where''} then where_workflow env summary s
      else if workflow \<in> {''/risks'', ''risks''} then risks_workflow env summary s
      else question_workflow env workflow s)"

definition run_local_workflow ::
  "kernel_env \<Rightarrow> string \<Rightarrow> file_record list \<Rightarrow> project_summary \<Rightarrow> uuid \<Rightarrow> answer_bundle" where
  "run_local_workflow env workflow files summary snap =
     (let (answer, s) = run_workflow env workflow files summary (workflow_start snap) in
      \<lparr> ab_request_id = ke_ids env (wf_next s), ab_snapshot_id = snap, ab_direct_answer = answer, ab_claims = wf_claims s,
        ab_evidence_map = wf_evidence s, ab_recommendations = wf_recommendations s, ab_conflicts = wf_conflicts s,
        ab_raw_model_response = None \<rparr>)"

section \<open>The contract of the reader\<close>

text \<open>A reader that reads lines reads them from the content it returns.\<close>

locale repository_reader =
  fixes content :: "string \<Rightarrow> string result"
    and read_lines :: "string \<Rightarrow> nat \<Rightarrow> nat \<Rightarrow> string result"
  assumes lines_of_content: "read_lines p a b = then_do (content p) (\<lambda>c. Inr (select_lines c a b))"
begin

lemma excerpt_of_content: "read_lines p a b = Inr t \<Longrightarrow> \<exists>c. content p = Inr c \<and> t = select_lines c a b"
  by (auto simp: lines_of_content)

lemma readable_lines: "(\<exists>t. read_lines p a b = Inr t) \<longleftrightarrow> (\<exists>c. content p = Inr c)"
  by (simp add: lines_of_content)

end

interpretation session_port: repository_reader "rp_content (session_reader ss se)" "rp_lines (session_reader ss se)"
  for ss se
  by unfold_locales (simp add: session_reader_def read_file_lines_def)

section \<open>Grounded workflow states\<close>

definition wf_refs :: "workflow_state \<Rightarrow> uuid set" where
  "wf_refs s = (\<Union>c \<in> set (wf_claims s). set (claim_evidence_ids c))
     \<union> (\<Union>r \<in> set (wf_recommendations s). set (rec_evidence_ids r))
     \<union> (\<Union>c \<in> set (wf_conflicts s). set (cf_evidence_ids c))"

abbreviation wf_known :: "workflow_state \<Rightarrow> uuid set" where
  "wf_known s \<equiv> ev_id ` set (wf_evidence s)"

definition sealed_by :: "kernel_env \<Rightarrow> uuid \<Rightarrow> evidence_ref \<Rightarrow> bool" where
  "sealed_by env snap e \<longleftrightarrow>
     ev_snapshot_id e = snap
     \<and> rp_lines (ke_reader env) (ev_path e) (ev_line_start e) (ev_line_end e) = Inr (ev_excerpt e)
     \<and> ev_content_hash e = evidence_hash (ke_sha env) (ev_path e) (ev_line_start e) (ev_line_end e) (ev_excerpt e)"

text \<open>Every reference resolves, every evidence was read, and the ids drawn so far name one evidence each.\<close>

definition workflow_ok :: "kernel_env \<Rightarrow> uuid \<Rightarrow> workflow_state \<Rightarrow> bool" where
  "workflow_ok env snap s \<longleftrightarrow>
     wf_refs s \<subseteq> wf_known s
     \<and> (\<forall>e \<in> set (wf_evidence s). sealed_by env snap e)
     \<and> ix_snapshot_id (wf_index s) = snap
     \<and> wf_known s \<subseteq> ke_ids env ` {..<wf_next s}
     \<and> distinct (map ev_id (wf_evidence s))
     \<and> (\<forall>e \<in> set (wf_evidence s). get_evidence (ev_id e) (wf_index s) = Some e)"

lemma workflow_start_ok: "workflow_ok env snap (workflow_start snap)"
  by (simp add: workflow_ok_def workflow_start_def wf_refs_def index_new_def)

text \<open>
  A step keeps a state grounded as long as the ids drawn are different, forgets no evidence and returns no id.
\<close>

definition keeps_grounded :: "kernel_env \<Rightarrow> uuid \<Rightarrow> workflow_state \<Rightarrow> workflow_state \<Rightarrow> bool" where
  "keeps_grounded env snap s s' \<longleftrightarrow>
     (workflow_ok env snap s \<longrightarrow> inj_on (ke_ids env) {..<wf_next s'} \<longrightarrow> workflow_ok env snap s')
     \<and> wf_known s \<subseteq> wf_known s' \<and> wf_next s \<le> wf_next s'"

lemma keeps_refl [simp]: "keeps_grounded env snap s s"
  by (simp add: keeps_grounded_def)

lemma keeps_trans: "keeps_grounded env snap a b \<Longrightarrow> keeps_grounded env snap b c \<Longrightarrow> keeps_grounded env snap a c"
  unfolding keeps_grounded_def by (meson inj_on_subset lessThan_subset_iff order_trans)

lemma keeps_fold:
  assumes "\<And>x s. x \<in> set xs \<Longrightarrow> keeps_grounded env snap s (f x s)"
  shows "keeps_grounded env snap s (fold f xs s)"
  using assms by (induction xs arbitrary: s) (auto intro: keeps_trans)

lemma lessThan_Suc_mono: "A \<subseteq> g ` {..<n} \<Longrightarrow> A \<subseteq> g ` {..<Suc n}"
  by (auto simp: lessThan_Suc)

lemma push_claim_keeps: "set ids \<subseteq> wf_known s \<Longrightarrow> keeps_grounded env snap s (push_claim env cls t conf ids why s)"
  by (auto simp: keeps_grounded_def workflow_ok_def wf_refs_def push_claim_def lessThan_Suc)

lemma push_recommendation_keeps:
  "set ids \<subseteq> wf_known s \<Longrightarrow> keeps_grounded env snap s (push_recommendation env basis impact why ids d s)"
  by (auto simp: keeps_grounded_def workflow_ok_def wf_refs_def push_recommendation_def lessThan_Suc)

lemma push_conflict_keeps: "set ids \<subseteq> wf_known s \<Longrightarrow> keeps_grounded env snap s (push_conflict env a b ids i q s)"
  by (auto simp: keeps_grounded_def workflow_ok_def wf_refs_def push_conflict_def lessThan_Suc)

lemma push_known [simp]:
  "wf_known (push_claim env cls t conf ids why s) = wf_known s"
  "wf_known (push_recommendation env basis impact why' ids d s) = wf_known s"
  "wf_known (push_conflict env a b ids i q s) = wf_known s"
  by (simp_all add: push_claim_def push_recommendation_def push_conflict_def)

lemma note_evidence_cases:
  obtains (unread) e where "rp_lines (ke_reader env) p a b = Inl e" and "note_evidence env p a b s = ([], s)"
  | (read) t e where "rp_lines (ke_reader env) p a b = Inr t"
    and "e = \<lparr> ev_id = ke_ids env (wf_next s), ev_snapshot_id = ix_snapshot_id (wf_index s), ev_path = p, ev_line_start = a,
        ev_line_end = b, ev_content_hash = evidence_hash (ke_sha env) p a b t, ev_excerpt = t \<rparr>"
    and "note_evidence env p a b s = ([ev_id e],
        s\<lparr>wf_evidence := wf_evidence s @ [e], wf_index := add_evidence e (wf_index s), wf_next := Suc (wf_next s)\<rparr>)"
  by (cases "rp_lines (ke_reader env) p a b") (auto simp: note_evidence_def create_evidence_ref_def Let_def)

lemma note_evidence_keeps:
  assumes "note_evidence env p a b s = (ids, s')"
  shows "keeps_grounded env snap s s' \<and> set ids \<subseteq> wf_known s'"
proof (rule note_evidence_cases [of env p a b s])
  fix t e
  assume read: "rp_lines (ke_reader env) p a b = Inr t"
    and e: "e = \<lparr> ev_id = ke_ids env (wf_next s), ev_snapshot_id = ix_snapshot_id (wf_index s), ev_path = p, ev_line_start = a,
        ev_line_end = b, ev_content_hash = evidence_hash (ke_sha env) p a b t, ev_excerpt = t \<rparr>"
    and noted: "note_evidence env p a b s = ([ev_id e],
        s\<lparr>wf_evidence := wf_evidence s @ [e], wf_index := add_evidence e (wf_index s), wf_next := Suc (wf_next s)\<rparr>)"
  have s': "s' = s\<lparr>wf_evidence := wf_evidence s @ [e], wf_index := add_evidence e (wf_index s), wf_next := Suc (wf_next s)\<rparr>"
    and ids: "ids = [ev_id e]" using noted assms by simp_all
  have "workflow_ok env snap s'" if ok: "workflow_ok env snap s" and ids: "inj_on (ke_ids env) {..<wf_next s'}"
  proof -
    have new: "ev_id e \<notin> ke_ids env ` {..<wf_next s}" using inj_onD [OF ids, of "wf_next s"] by (force simp: e s')
    have fresh: "ev_id e \<notin> wf_known s" using new ok unfolding workflow_ok_def by blast
    then have other: "\<forall>x \<in> set (wf_evidence s). ev_id x \<noteq> ev_id e" by (metis imageI)
    have refs: "wf_refs s' = wf_refs s" and known: "wf_known s' = insert (ev_id e) (wf_known s)"
      by (simp_all add: s' wf_refs_def)
    have "sealed_by env snap e" using read ok by (simp add: sealed_by_def e workflow_ok_def)
    moreover have "\<forall>x \<in> set (wf_evidence s'). get_evidence (ev_id x) (wf_index s') = Some x"
      using ok other by (auto simp: s' workflow_ok_def get_evidence_def add_evidence_def update_conv')
    moreover have "wf_known s' \<subseteq> ke_ids env ` {..<wf_next s'}"
      using ok by (auto simp: workflow_ok_def known s' e lessThan_Suc)
    ultimately show ?thesis using ok fresh refs known by (auto simp: workflow_ok_def s' add_evidence_def)
  qed
  then show "keeps_grounded env snap s s' \<and> set ids \<subseteq> wf_known s'"
    by (auto simp: keeps_grounded_def s' ids)
qed (use assms in simp)

lemma observe_keeps:
  "keeps_grounded env snap s (observe env b what why p s)"
proof -
  obtain ids s' where noted: "note_evidence env p 1 b s = (ids, s')" by fastforce
  from note_evidence_keeps [OF noted] show ?thesis
    unfolding observe_def noted prod.case by (blast intro: keeps_trans push_claim_keeps)
qed

lemma observe_if_read_keeps:
  "keeps_grounded env snap s (observe_if_read env b what conf why p s)"
proof -
  obtain ids s' where noted: "note_evidence env p 1 b s = (ids, s')" by fastforce
  from note_evidence_keeps [OF noted] show ?thesis
    unfolding observe_if_read_def noted prod.case by (auto intro: keeps_trans [OF _ push_claim_keeps])
qed

lemma note_language_keeps:
  "set ids \<subseteq> wf_known s \<Longrightarrow> keeps_grounded env snap s (note_language env doc l detected ids s)
     \<and> wf_known (note_language env doc l detected ids s) = wf_known s"
  unfolding note_language_def by (auto intro!: keeps_trans [OF push_conflict_keeps push_claim_keeps])

lemma note_missing_path_keeps:
  "set ids \<subseteq> wf_known s \<Longrightarrow> keeps_grounded env snap s (fold (note_missing_path env ids) ps s)"
proof (induction ps arbitrary: s)
  case (Cons p ps)
  have "keeps_grounded env snap s (note_missing_path env ids p s)"
    and "set ids \<subseteq> wf_known (note_missing_path env ids p s)"
    using Cons.prems by (simp_all add: note_missing_path_def push_conflict_keeps)
  then show ?case using Cons.IH by (auto intro: keeps_trans)
qed simp

lemma compare_document_keeps:
  "keeps_grounded env snap s (compare_document env files detected doc s)"
proof (cases "rp_content (ke_reader env) doc")
  case (Inr t)
  obtain ids s1 where noted: "note_evidence env doc 1 8 s = (ids, s1)" by fastforce
  let ?s2 = "case language_claimed_in_text t of Some l \<Rightarrow> note_language env doc l detected ids s1 | None \<Rightarrow> s1"
  have s1: "keeps_grounded env snap s s1" "set ids \<subseteq> wf_known s1"
    using note_evidence_keeps [OF noted, of snap] by simp_all
  have s2: "keeps_grounded env snap s1 ?s2" "wf_known ?s2 = wf_known s1"
    using note_language_keeps [OF s1(2), of env snap doc _ detected] by (auto split: option.splits)
  have "keeps_grounded env snap ?s2 (fold (note_missing_path env ids) (referenced_missing_paths t files) ?s2)"
    using s1(2) s2(2) by (intro note_missing_path_keeps) simp
  then show ?thesis using s1 s2 Inr noted by (auto simp: compare_document_def Let_def intro: keeps_trans)
qed (simp add: compare_document_def)

lemma detect_keeps:
  "keeps_grounded env snap s (detect_doc_code_conflicts env files summary s)"
proof -
  have "keeps_grounded env snap s (fold (compare_document env files d) (ps_documents summary) s)" for d
    by (intro keeps_fold compare_document_keeps)
  then show ?thesis
    unfolding detect_doc_code_conflicts_def Let_def by (auto intro: keeps_trans [OF _ push_claim_keeps])
qed

lemma run_workflow_keeps:
  assumes run: "run_workflow env workflow files summary s = (answer, s')"
  shows "keeps_grounded env snap s s'"
proof -
  note steps = keeps_fold observe_keeps observe_if_read_keeps detect_keeps
    push_claim_keeps push_recommendation_keeps push_conflict_keeps
  have onboard: "keeps_grounded env snap s (snd (onboard_workflow env summary s))"
    unfolding onboard_workflow_def Let_def snd_conv
    by (rule keeps_trans [OF keeps_trans [OF keeps_fold keeps_fold] push_recommendation_keeps])
      (simp_all add: observe_if_read_keeps)
  have outline: "keeps_grounded env snap s (snd (structure_workflow env summary s))"
    unfolding structure_workflow_def by (auto intro!: steps)
  have conflicts: "keeps_grounded env snap s (snd (conflicts_workflow env files summary s))"
    unfolding conflicts_workflow_def by (auto intro!: steps)
  have where_files: "keeps_grounded env snap s (snd (where_workflow env summary s))"
    unfolding where_workflow_def snd_conv
    by (rule keeps_trans [OF keeps_fold keeps_fold]) (simp_all add: observe_keeps)
  have risks: "keeps_grounded env snap s (snd (risks_workflow env summary s))"
    unfolding risks_workflow_def by (auto intro!: steps keeps_trans [OF push_claim_keeps push_recommendation_keeps])
  have question: "keeps_grounded env snap s (snd (question_workflow env workflow s))"
    unfolding question_workflow_def by (auto intro!: steps)
  show ?thesis
    using run onboard outline conflicts where_files risks question
    unfolding run_workflow_def by (metis snd_conv)
qed

section \<open>Search\<close>

lemma push_matches_exact:
  "push_matches limit ms found =
     (if length found + length ms < max (Suc (length found)) limit then (found @ ms, False)
      else (found @ take (max (Suc (length found)) limit - length found) ms, True))"
proof (induction limit ms found rule: push_matches.induct)
  case (2 limit m ms found)
  show ?case
  proof (cases "length (found @ [m]) \<ge> limit")
    case True
    then show ?thesis by (auto simp: max_def)
  next
    case False
    have "max (Suc (length (found @ [m]))) limit = max (Suc (length found)) limit" using False by simp
    then show ?thesis using 2 False by (auto simp: Let_def max_def take_Cons' not_le)
  qed
qed simp

definition file_matches :: "reader_port \<Rightarrow> string \<Rightarrow> file_record \<Rightarrow> search_match list" where
  "file_matches rd query f =
     (if file_is_text f then
        (case rp_content rd (file_path f) of Inr c \<Rightarrow> text_matches query (file_path f) c | Inl e \<Rightarrow> [])
      else [])"

lemma search_loop_exact:
  "length found < limit \<or> found = [] \<Longrightarrow>
     search_loop rd query limit fs found = take (max 1 limit) (found @ concat (map (file_matches rd query) fs))"
proof (induction rd query limit fs found rule: search_loop.induct)
  case (2 rd query limit f fs found)
  have start: "max (Suc (length found)) limit = max 1 limit" using "2.prems" by auto
  show ?case
  proof (cases "file_is_text f \<and> (\<exists>c. rp_content rd (file_path f) = Inr c)")
    case False
    then have "file_matches rd query f = []" by (auto simp: file_matches_def split: sum.splits)
    then show ?thesis using 2 False by (cases "rp_content rd (file_path f)") auto
  next
    case True
    then obtain c where c: "file_is_text f" "rp_content rd (file_path f) = Inr c" by blast
    then have ms: "file_matches rd query f = text_matches query (file_path f) c" by (simp add: file_matches_def)
    show ?thesis
    proof (cases "length found + length (text_matches query (file_path f) c) < max 1 limit")
      case True
      then have "length (found @ text_matches query (file_path f) c) < limit \<or> found @ text_matches query (file_path f) c = []"
        by (auto simp: max_def split: if_splits)
      then show ?thesis using 2(3) [OF _ c(2), of "found @ text_matches query (file_path f) c" False] True c ms
        by (simp add: push_matches_exact start)
    next
      case False
      then show ?thesis using c ms "2.prems" by (auto simp: push_matches_exact start max_def)
    qed
  qed
qed (auto simp: max_def)

section \<open>Properties\<close>

text \<open>How many ids a run draws, but for that of the request.\<close>

definition ids_drawn :: "kernel_env \<Rightarrow> string \<Rightarrow> file_record list \<Rightarrow> project_summary \<Rightarrow> uuid \<Rightarrow> nat" where
  "ids_drawn env workflow files summary snap = wf_next (snd (run_workflow env workflow files summary (workflow_start snap)))"

text \<open>
  C17: Every evidence id in the claims, recommendations and conflicts of a local workflow names exactly one evidence
  of the bundle, and each evidence carries the snapshot, the lines the reader returned for its range, and the
  digest over path, range and excerpt.
\<close>

theorem local_workflow_is_grounded:
  assumes "inj_on (ke_ids env) {..<ids_drawn env workflow files summary snap}" and "b = run_local_workflow env workflow files summary snap"
  shows "(\<Union>c \<in> set (ab_claims b). set (claim_evidence_ids c)) \<union> (\<Union>r \<in> set (ab_recommendations b). set (rec_evidence_ids r))
      \<union> (\<Union>c \<in> set (ab_conflicts b). set (cf_evidence_ids c)) \<subseteq> ev_id ` set (ab_evidence_map b)
    \<and> distinct (map ev_id (ab_evidence_map b))
    \<and> list_all (sealed_by env snap) (ab_evidence_map b)"
proof -
  obtain answer s where run: "run_workflow env workflow files summary (workflow_start snap) = (answer, s)" by fastforce
  have "workflow_ok env snap s"
    using run_workflow_keeps [OF run] workflow_start_ok assms(1) run by (simp add: keeps_grounded_def ids_drawn_def)
  then show ?thesis
    using assms(2) run by (simp add: run_local_workflow_def workflow_ok_def wf_refs_def list_all_iff)
qed

text \<open>Over a session, the excerpt of every evidence is the range of lines of the content read from its file.\<close>

theorem workflow_evidence_quotes_files:
  assumes "inj_on (ke_ids env) {..<ids_drawn env workflow files summary snap}" and "ke_reader env = session_reader ss se"
    and "e \<in> set (ab_evidence_map (run_local_workflow env workflow files summary snap))"
  shows "\<exists>c. read_file_content ss se (ev_path e) = Inr c \<and> ev_excerpt e = select_lines c (ev_line_start e) (ev_line_end e)"
proof -
  obtain answer s where run: "run_workflow env workflow files summary (workflow_start snap) = (answer, s)" by fastforce
  have "workflow_ok env snap s"
    using run_workflow_keeps [OF run] workflow_start_ok assms(1) run by (simp add: keeps_grounded_def ids_drawn_def)
  then have "sealed_by env snap e"
    using assms(3) run by (simp add: run_local_workflow_def workflow_ok_def)
  then have "rp_lines (session_reader ss se) (ev_path e) (ev_line_start e) (ev_line_end e) = Inr (ev_excerpt e)"
    using assms(2) by (simp add: sealed_by_def)
  from session_port.excerpt_of_content [OF this] show ?thesis by (simp add: session_reader_def)
qed

text \<open>
  C20: A search returns the first matches of the readable text files, file by file and line by line: as many as the
  limit, or all of them; but one match even for the limit 0. A line matches when its Unicode lower case
  contains that of the query.
\<close>

theorem search_returns_first_matches:
  "search_text rd files query limit =
     take (max 1 limit) (concat (map (file_matches rd (to_lowercase query)) files))"
  by (simp add: search_text_def search_loop_exact)

text \<open>A document on a Go project that only says it is trusted, or gives a link, is reported as contradicting the tree.\<close>

definition demo_kernel :: "string \<Rightarrow> kernel_env" where
  "demo_kernel content =
     \<lparr> ke_reader = \<lparr> rp_content = (\<lambda>p. if p = ''gone.md'' then Inl io_err else Inr content),
         rp_lines = (\<lambda>p a b. if p = ''gone.md'' then Inl io_err else Inr (select_lines content a b)) \<rparr>,
       ke_ids = of_nat, ke_sha = (\<lambda>s. s), ke_iter = (\<lambda>l. l) \<rparr>"

definition demo_project :: "string list \<Rightarrow> project_summary" where
  "demo_project docs = empty_summary\<lparr>ps_primary_language := Some ''Go'', ps_documents := docs\<rparr>"

definition demo_where :: project_summary where
  "demo_where = empty_summary\<lparr>ps_entry_points := [''a''], ps_manifests := [''b'']\<rparr>"

theorem trusted_means_rust:
  "map claim_classification (ab_claims (run_local_workflow (demo_kernel ''A trusted gateway.'') ''conflicts'' []
     (demo_project [''README.md'']) 1)) = [Conflict]"
  by code_simp

theorem link_is_missing_path:
  "map cf_side_a (ab_conflicts (run_local_workflow (demo_kernel ''See https://go.dev.'') ''conflicts'' []
     (demo_project [''README.md'']) 1)) = [missing_a @ ''https://go.dev'' @ missing_b]"
  by code_simp

text \<open>A workflow claims an observation of a file that could not be read, without evidence.\<close>

theorem observation_without_evidence:
  "map (\<lambda>c. (claim_classification c, claim_evidence_ids c))
     (ab_claims (run_local_workflow (demo_kernel []) ''structure'' [] (demo_project [''gone.md'']) 1)) = [(Observed, [])]"
  by code_simp

section \<open>Witnesses\<close>

lemma distinct_ids: "n \<le> 2 ^ 128 \<Longrightarrow> inj_on (of_nat :: nat \<Rightarrow> uuid) {..<n}"
proof (rule inj_onI)
  fix x y :: nat assume n: "n \<le> 2 ^ 128" and x: "x \<in> {..<n}" and y: "y \<in> {..<n}" and same: "(of_nat x :: uuid) = of_nat y"
  have "unat (of_nat x :: uuid) = unat (of_nat y :: uuid)" using same by simp
  then have "x mod 2 ^ 128 = y mod 2 ^ 128" by (simp add: unat_of_nat)
  moreover have "x < 2 ^ 128" and "y < 2 ^ 128" using n x y by (simp_all only: lessThan_iff order_less_le_trans)
  ultimately show "x = y" by (simp only: mod_less)
qed

lemma demo_ids: "inj_on (ke_ids (demo_kernel content)) {..<ids_drawn (demo_kernel ''one two'') ''where'' [] demo_where 1}"
proof -
  have "ids_drawn (demo_kernel ''one two'') ''where'' [] demo_where 1 = 4" by code_simp
  then show ?thesis using distinct_ids [of 4] by (simp add: demo_kernel_def)
qed

lemma demo_where_evidence:
  "map ev_excerpt (ab_evidence_map (run_local_workflow (demo_kernel ''one two'') ''where'' [] demo_where 1)) = [''one two'', ''one two'']"
  by code_simp

lemma local_workflow_is_grounded_witness:
  "distinct (map ev_id (ab_evidence_map (run_local_workflow (demo_kernel ''one two'') ''where'' [] demo_where 1)))"
  using local_workflow_is_grounded [OF demo_ids refl] by blast

definition demo_port :: kernel_env where
  "demo_port = demo_kernel []\<lparr>ke_reader := session_reader demo_scan demo_session\<rparr>"

lemma demo_port_evidence:
  "map ev_path (ab_evidence_map (run_local_workflow demo_port ''where'' [] demo_where 1)) = [''a'']"
  by code_simp

lemma demo_port_ids: "inj_on (ke_ids demo_port) {..<ids_drawn demo_port ''where'' [] demo_where 1}"
proof -
  have "ids_drawn demo_port ''where'' [] demo_where 1 = 3" by code_simp
  then show ?thesis using distinct_ids [of 3] by (simp add: demo_port_def demo_kernel_def)
qed

lemma workflow_evidence_quotes_files_witness:
  "\<exists>(e :: evidence_ref) c. read_file_content demo_scan demo_session ''a'' = Inr c \<and> ev_excerpt e = select_lines c (ev_line_start e) (ev_line_end e)"
proof -
  have "''a'' \<in> set (map ev_path (ab_evidence_map (run_local_workflow demo_port ''where'' [] demo_where 1)))"
    unfolding demo_port_evidence by simp
  then obtain e where e: "e \<in> set (ab_evidence_map (run_local_workflow demo_port ''where'' [] demo_where 1))" "ev_path e = ''a''"
    by auto
  have "ke_reader demo_port = session_reader demo_scan demo_session" by (simp add: demo_port_def)
  from workflow_evidence_quotes_files [OF demo_port_ids this e(1)] show ?thesis
    unfolding e(2) by (rule exI [where x = e])
qed

end
