(* ===== verification/Chat_State.thy ===== *)
theory Chat_State
  imports Agent_Round Prompt_Store Profile_Store Provider_Setup Watcher
begin

text \<open>
  \<open>crates/mentat-app/src/chat_app.rs\<close>, the state of the chat application and its smaller operations: the
  conversation and its active turn, the repository binding, the prompt drafts, the provider setup, starting a
  scan or another conversation, deleting one, and closing the window.

  The storage of \<open>SqliteStorage\<close> is the databases of the storage theories, held when it could be opened. A failed
  call leaves them as they are. Background tasks are spawned in order; what they send back is handled in
  \<open>Chat_Turn\<close>. Status lines and other texts that are only shown are left out, and each operation reads the clock
  and draws its fresh ids from its arguments.
\<close>

section \<open>The state\<close>

datatype conversation_mode = ModeAdvisor | ModeAudit

datatype dirty_action = CloseApp | NewConversation | CloseSettings

record active_turn =
  at_turn_id :: uuid
  at_message_id :: uuid
  at_accumulated :: string
  at_contract :: response_contract
  at_pending :: "(completed_payload \<times> uuid option) option"

record repository_binding =
  rb_watcher :: watcher
  rb_session :: session
  rb_snapshot :: repository_snapshot
  rb_gateway :: gateway

record app_storage =
  as_db :: db
  as_prompts :: prompt_db
  as_settings :: settings_db
  as_ui :: "ui_preferences option"

text \<open>What \<open>submit_chat\<close> hands to the task of a turn.\<close>

record agent_start =
  ag_request :: agent_request
  ag_message_id :: uuid
  ag_trace :: "uuid option"
  ag_gate :: "consent_capability option"
  ag_gateway :: "gateway option"

datatype app_task =
    TaskDiscover backend_profile
  | TaskVerify backend_profile
  | TaskPickFolder uuid uuid
  | TaskScan uuid uuid session
  | TaskAgent agent_start
  | TaskClose

text \<open>A cancellation token that is held: whether it was cancelled.\<close>

type_synonym token = "bool option"

record chat_app =
  ca_storage :: "app_storage option"
  ca_profile_id :: uuid
  ca_conversation :: conversation
  ca_setup :: setup_state
  ca_provider_busy :: bool
  ca_auto_connect :: "backend_profile option"
  ca_remember :: bool
  ca_persona :: persona_kind
  ca_persona_custom :: bool
  ca_base_preset :: system_preset
  ca_system_draft :: string
  ca_persona_draft :: string
  ca_prompt_dirty :: bool
  ca_delete_open :: bool
  ca_repository :: "repository_binding option"
  ca_repository_busy :: bool
  ca_repository_cancel :: token
  ca_scan_generation :: uuid
  ca_settings_open :: bool
  ca_composer :: string
  ca_submit_mode :: composer_submit_mode
  ca_pinned :: bool
  ca_active :: "active_turn option"
  ca_stream_cancel :: token
  ca_window :: "f32 \<times> f32"
  ca_size_changed :: "nat option"
  ca_dirty_action :: "dirty_action option"
  ca_mode :: conversation_mode
  ca_egress_approved :: bool
  ca_consent_scope :: "uuid option"
  ca_grounding :: "uuid \<rightharpoonup> grounding_trace"
  ca_audit :: "uuid \<rightharpoonup> answer_bundle"
  ca_selected_message :: "uuid option"
  ca_selected_source :: "source_ref option"
  ca_tasks :: "app_task list"

definition spawn_task :: "app_task \<Rightarrow> chat_app \<Rightarrow> chat_app" where
  "spawn_task t s = s\<lparr>ca_tasks := ca_tasks s @ [t]\<rparr>"

definition cancel_stream :: "chat_app \<Rightarrow> chat_app" where
  "cancel_stream s = s\<lparr>ca_stream_cancel := map_option (\<lambda>_. True) (ca_stream_cancel s)\<rparr>"

definition cancel_scan :: "chat_app \<Rightarrow> chat_app" where
  "cancel_scan s = s\<lparr>ca_repository_cancel := map_option (\<lambda>_. True) (ca_repository_cancel s)\<rparr>"

text \<open>A call of the storage: without one it is skipped, and a failed one changes nothing.\<close>

definition store_op :: "db_op \<Rightarrow> chat_app \<Rightarrow> chat_app \<times> unit result" where
  "store_op op s =
     (case ca_storage s of
        None \<Rightarrow> (s, Inr ())
      | Some st \<Rightarrow>
          (case exec_op op (as_db st) of
             Inr d \<Rightarrow> (s\<lparr>ca_storage := Some (st\<lparr>as_db := d\<rparr>)\<rparr>, Inr ())
           | Inl e \<Rightarrow> (s, Inl e)))"

text \<open>\<open>iter_mut().find\<close> of the message with the id.\<close>

fun update_first :: "('r \<Rightarrow> bool) \<Rightarrow> ('r \<Rightarrow> 'r) \<Rightarrow> 'r list \<Rightarrow> 'r list" where
  "update_first p f [] = []"
| "update_first p f (x # xs) = (if p x then f x # xs else x # update_first p f xs)"

definition update_message :: "uuid \<Rightarrow> (chat_message \<Rightarrow> chat_message) \<Rightarrow> chat_app \<Rightarrow> chat_app" where
  "update_message i f s =
     s\<lparr>ca_conversation := (ca_conversation s)\<lparr>conv_messages :=
         update_first (\<lambda>m. msg_id m = i) f (conv_messages (ca_conversation s))\<rparr>\<rparr>"

section \<open>Window and composer\<close>

definition DEFAULT_WINDOW_SIZE :: "rat \<times> rat" where "DEFAULT_WINDOW_SIZE = (560, 760)"
definition MIN_WINDOW_SIZE :: "rat \<times> rat" where "MIN_WINDOW_SIZE = (360, 480)"

definition usable_size :: "f32 \<Rightarrow> rat \<Rightarrow> rat" where
  "usable_size x default' = (case x of F32 r \<Rightarrow> if 0 < r then r else default' | _ \<Rightarrow> default')"

definition clamp_window_size :: "f32 \<times> f32 \<Rightarrow> f32 \<times> f32" where
  "clamp_window_size sz =
     (F32 (clamp (usable_size (fst sz) (fst DEFAULT_WINDOW_SIZE)) (fst MIN_WINDOW_SIZE) 8192),
      F32 (clamp (usable_size (snd sz) (snd DEFAULT_WINDOW_SIZE)) (snd MIN_WINDOW_SIZE) 8192))"

definition persist_window_preferences :: "datetime \<Rightarrow> chat_app \<Rightarrow> chat_app \<times> unit result" where
  "persist_window_preferences now s =
     (case ca_storage s of
        None \<Rightarrow> (s, Inr ())
      | Some st \<Rightarrow>
          (case save_ui_preferences \<lparr> ui_width_points = fst (ca_window s), ui_height_points = snd (ca_window s),
             ui_submit_mode = ca_submit_mode s, ui_always_on_top = ca_pinned s, ui_layout_revision = 2,
             ui_updated_at = now \<rparr> (as_ui st) of
             Inr ui \<Rightarrow> (s\<lparr>ca_storage := Some (st\<lparr>as_ui := ui\<rparr>)\<rparr>, Inr ())
           | Inl e \<Rightarrow> (s, Inl e)))"

definition composer_should_submit :: "composer_submit_mode \<Rightarrow> bool \<Rightarrow> bool \<Rightarrow> bool \<Rightarrow> bool \<Rightarrow> bool" where
  "composer_should_submit mode enter shift ctrl ime =
     (if \<not> enter \<or> shift \<or> ime then False
      else case mode of EnterSend \<Rightarrow> \<not> ctrl | CtrlEnterSend \<Rightarrow> ctrl)"

text \<open>The input events that matter to the composer: a press of the enter key with its modifiers, or the input method.\<close>

datatype key_event = EnterPressed bool bool | ImeEvent | OtherEvent

definition composer_key_events_should_submit :: "composer_submit_mode \<Rightarrow> key_event list \<Rightarrow> bool" where
  "composer_key_events_should_submit mode events =
     (let ime = ImeEvent \<in> set events in
      list_ex (\<lambda>e. case e of EnterPressed shift ctrl \<Rightarrow> composer_should_submit mode True shift ctrl ime | _ \<Rightarrow> False) events)"

section \<open>Prompt settings\<close>

definition persona_selection_from_source :: "prompt_content_source \<Rightarrow> persona_kind \<times> bool" where
  "persona_selection_from_source src =
     (case src of
        FactoryRef key v c \<Rightarrow>
          (case List.find (\<lambda>k. persona_key k = key) all_personas of Some k \<Rightarrow> (k, False) | None \<Rightarrow> (DefaultAnalyst, True))
      | _ \<Rightarrow> (DefaultAnalyst, True))"

definition DEFAULT_PROFILE_ID :: uuid where "DEFAULT_PROFILE_ID = 0x434f44454d454e544154000000000001"

definition factory_seed_of :: "(string \<Rightarrow> string) \<Rightarrow> prompt_assets \<Rightarrow> factory_seed" where
  "factory_seed_of sha a =
     \<lparr> fs_profile_id = DEFAULT_PROFILE_ID, fs_profile_name = utf8 [234, 184, 176, 235, 179, 184, 32, 235, 169, 152, 237, 134, 160],
       fs_experience_preset = ExpIntermediate, fs_base_system_preset = SysIntermediate,
       fs_system_key = resource_key SysIntermediate, fs_system_version = FACTORY_BUNDLE_VERSION,
       fs_system_checksum = sha_hex sha (catalog_system a SysIntermediate),
       fs_persona_key = persona_key DefaultAnalyst, fs_persona_version = FACTORY_BUNDLE_VERSION,
       fs_persona_checksum = sha_hex sha (catalog_persona a DefaultAnalyst) \<rparr>"

fun factory_experience :: "system_preset \<Rightarrow> experience_preset" where
  "factory_experience SysBeginner = ExpBeginner"
| "factory_experience SysIntermediate = ExpIntermediate"
| "factory_experience SysProfessional = ExpProfessional"
| "factory_experience SysSenior = ExpSenior"

definition draft_profile_name :: string where
  "draft_profile_name = utf8 [236, 130, 172, 236, 154, 169, 236, 158, 144, 32, 235, 169, 152, 237, 134, 160]"

text \<open>The draft of the two editors: a text that is the factory text again is a reset to it.\<close>

definition prompt_draft_of :: "(string \<Rightarrow> string) \<Rightarrow> prompt_assets \<Rightarrow> chat_app \<Rightarrow> prompt_draft" where
  "prompt_draft_of sha a s =
     (let factory = catalog_system a (ca_base_preset s); unchanged = ca_system_draft s = factory in
      \<lparr> pd_profile_id = ca_profile_id s, pd_name = draft_profile_name,
        pd_experience_preset = (if unchanged then factory_experience (ca_base_preset s) else ExpCustom),
        pd_base_system_preset = ca_base_preset s,
        pd_system = (if unchanged
          then ResetToFactory (resource_key (ca_base_preset s)) FACTORY_BUNDLE_VERSION (sha_hex sha factory)
          else DraftUserText (ca_system_draft s)),
        pd_persona = (case List.find (\<lambda>k. ca_persona_draft s = catalog_persona a k) all_personas of
            Some k \<Rightarrow> ResetToFactory (persona_key k) FACTORY_BUNDLE_VERSION (sha_hex sha (catalog_persona a k))
          | None \<Rightarrow> DraftUserText (ca_persona_draft s)) \<rparr>)"

definition note_persona :: "prompt_assets \<Rightarrow> chat_app \<Rightarrow> chat_app" where
  "note_persona a s =
     (case List.find (\<lambda>k. ca_persona_draft s = catalog_persona a k) all_personas of
        Some k \<Rightarrow> s\<lparr>ca_persona := k, ca_persona_custom := False\<rparr>
      | None \<Rightarrow> s\<lparr>ca_persona_custom := True\<rparr>)"

definition apply_prompt_settings ::
  "(string \<Rightarrow> string) \<Rightarrow> prompt_assets \<Rightarrow> fresh_ids \<Rightarrow> datetime \<Rightarrow> chat_app \<Rightarrow> chat_app" where
  "apply_prompt_settings sha a ids now s =
     (case ca_storage s of
        None \<Rightarrow> s
      | Some st \<Rightarrow>
          (case catalog_load a of
             Inl e \<Rightarrow> s
           | Inr _ \<Rightarrow>
               (case load_active_prompt_profile (ca_profile_id s) (as_prompts st) of
                  Inr (Some stored) \<Rightarrow>
                    (let s' = note_persona a s in
                     case apply_prompt_draft sha ids now (pr_id (sp_revision stored)) (prompt_draft_of sha a s) (as_prompts st) of
                       Inr (d, revision) \<Rightarrow> s'\<lparr>ca_storage := Some (st\<lparr>as_prompts := d\<rparr>), ca_prompt_dirty := False\<rparr>
                     | Inl e \<Rightarrow> s')
                | _ \<Rightarrow> s)))"

definition reload_prompt_settings :: "(string \<Rightarrow> string) \<Rightarrow> prompt_assets \<Rightarrow> chat_app \<Rightarrow> chat_app" where
  "reload_prompt_settings sha a s =
     (case ca_storage s of
        None \<Rightarrow> s
      | Some st \<Rightarrow>
          (case load_active_prompt_profile (ca_profile_id s) (as_prompts st) of
             Inr (Some stored) \<Rightarrow>
               (case (catalog_load a, resolve_source sha a (sp_system_source stored), resolve_source sha a (sp_persona_source stored)) of
                  (Inr _, Inr system, Inr persona) \<Rightarrow>
                    (let (k, custom) = persona_selection_from_source (sp_persona_source stored) in
                     s\<lparr>ca_base_preset := pp_base_system_preset (sp_profile stored), ca_system_draft := system,
                       ca_persona_draft := persona, ca_persona := k, ca_persona_custom := custom, ca_prompt_dirty := False\<rparr>)
                | _ \<Rightarrow> s)
           | _ \<Rightarrow> s))"

section \<open>Conversations\<close>

definition ensure_durable_conversation :: "uuid \<Rightarrow> datetime \<Rightarrow> chat_app \<Rightarrow> chat_app" where
  "ensure_durable_conversation i now s =
     (case ca_storage s of
        None \<Rightarrow> s
      | Some st \<Rightarrow>
          (case create_conversation i now \<lparr> nc_repository_id = None, nc_active_snapshot_id = None,
               nc_prompt_profile_id = ca_profile_id s, nc_persistence = Durable \<rparr> (as_db st) of
             Inr (d, c) \<Rightarrow> s\<lparr>ca_storage := Some (st\<lparr>as_db := d\<rparr>), ca_conversation := c\<rparr>
           | Inl e \<Rightarrow> s\<lparr>ca_storage := None\<rparr>))"

definition conversation_replaced :: string where
  "conversation_replaced = utf8 [236, 131, 136, 32, 235, 140, 128, 237, 153, 148, 235, 161, 156, 32, 236, 160, 132, 237, 153,
     152, 237, 149, 152, 236, 151, 172, 32, 236, 157, 180, 236, 160, 132, 32, 236, 154, 148, 236, 178,
     173, 236, 157, 180, 32, 236, 164, 145, 235, 139, 168, 235, 144, 152, 236, 151, 136, 236, 138, 181,
     235, 139, 136, 235, 139, 164, 46]"

text \<open>The fresh ids: the stored result id of a terminal, a scan generation and two conversations.\<close>

record switch_ids =
  wi_result :: uuid
  wi_generation :: uuid
  wi_session_conversation :: uuid
  wi_conversation :: uuid

definition revoke_active_scope :: "datetime \<Rightarrow> chat_app \<Rightarrow> chat_app \<times> unit result" where
  "revoke_active_scope now s =
     (case ca_consent_scope s of
        None \<Rightarrow> (s, Inr ())
      | Some scope \<Rightarrow> store_op (OpRevoke now scope) (s\<lparr>ca_consent_scope := None\<rparr>))"

definition fail_replaced_turn :: "uuid \<Rightarrow> datetime \<Rightarrow> chat_app \<Rightarrow> chat_app \<times> unit result" where
  "fail_replaced_turn result_id now s =
     (case ca_active s of
        None \<Rightarrow> (s, Inr ())
      | Some a \<Rightarrow>
          store_op (OpFinish result_id (TurnFailed (at_turn_id a) (at_message_id a) ''CONVERSATION_REPLACED'' conversation_replaced now))
            (s\<lparr>ca_active := None\<rparr>))"

definition fresh_conversation :: "switch_ids \<Rightarrow> datetime \<Rightarrow> chat_app \<Rightarrow> chat_app" where
  "fresh_conversation ids now s =
     ensure_durable_conversation (wi_conversation ids) now
       (s\<lparr>ca_repository_cancel := None, ca_scan_generation := wi_generation ids, ca_repository_busy := False,
          ca_repository := None, ca_stream_cancel := None, ca_mode := ModeAdvisor, ca_egress_approved := False,
          ca_grounding := Map.empty, ca_audit := Map.empty, ca_selected_message := None, ca_selected_source := None,
          ca_conversation := conversation_new (wi_session_conversation ids) now (ca_profile_id s) None None\<rparr>)"

definition start_new_conversation :: "switch_ids \<Rightarrow> datetime \<Rightarrow> chat_app \<Rightarrow> chat_app" where
  "start_new_conversation ids now s =
     (case revoke_active_scope now s of
        (s1, Inl e) \<Rightarrow> s1
      | (s1, Inr _) \<Rightarrow>
          (case fail_replaced_turn (wi_result ids) now (cancel_stream s1) of
             (s2, Inl e) \<Rightarrow> s2
           | (s2, Inr _) \<Rightarrow> fresh_conversation ids now s2))"

definition delete_current_conversation ::
  "string list result \<Rightarrow> uuid \<Rightarrow> switch_ids \<Rightarrow> datetime \<Rightarrow> chat_app \<Rightarrow> chat_app" where
  "delete_current_conversation removed operation ids now s =
     (let s1 = cancel_scan (cancel_stream s) in
      if ca_active s1 \<noteq> None \<or> ca_repository_busy s1 then s1
      else case store_op (OpDelete removed operation now (conv_id (ca_conversation s1))) s1 of
        (s2, Inl e) \<Rightarrow> s2
      | (s2, Inr _) \<Rightarrow> start_new_conversation ids now (s2\<lparr>ca_repository := None, ca_delete_open := False\<rparr>))"

section \<open>Closing with unapplied edits\<close>

definition execute_dirty_action :: "switch_ids \<Rightarrow> datetime \<Rightarrow> dirty_action \<Rightarrow> chat_app \<Rightarrow> chat_app" where
  "execute_dirty_action ids now action s =
     (case action of
        CloseApp \<Rightarrow>
          (case persist_window_preferences now (cancel_scan (cancel_stream s)) of
             (s', Inr _) \<Rightarrow> spawn_task TaskClose s'
           | (s', Inl e) \<Rightarrow> s')
      | NewConversation \<Rightarrow> start_new_conversation ids now s
      | CloseSettings \<Rightarrow> s\<lparr>ca_settings_open := False\<rparr>)"

definition request_dirty_action :: "switch_ids \<Rightarrow> datetime \<Rightarrow> dirty_action \<Rightarrow> chat_app \<Rightarrow> chat_app" where
  "request_dirty_action ids now action s =
     (if ca_prompt_dirty s then s\<lparr>ca_dirty_action := Some action\<rparr> else execute_dirty_action ids now action s)"

text \<open>The confirmation: keep editing, discard the edits, or nothing yet.\<close>

datatype dirty_answer = KeepEditing | Discard | NoAnswer

definition answer_dirty_prompt ::
  "(string \<Rightarrow> string) \<Rightarrow> prompt_assets \<Rightarrow> switch_ids \<Rightarrow> datetime \<Rightarrow> dirty_answer \<Rightarrow> chat_app \<Rightarrow> chat_app" where
  "answer_dirty_prompt sha a ids now answer s =
     (case ca_dirty_action s of
        None \<Rightarrow> s
      | Some action \<Rightarrow>
          (case answer of
             KeepEditing \<Rightarrow> s\<lparr>ca_dirty_action := None\<rparr>
           | Discard \<Rightarrow>
               execute_dirty_action ids now action
                 ((reload_prompt_settings sha a s)\<lparr>ca_prompt_dirty := False, ca_dirty_action := None\<rparr>)
           | NoAnswer \<Rightarrow> s))"

text \<open>A close of the window, by its button or by \<open>Ctrl+Q\<close>; the second component says whether the close is held back.\<close>

definition handle_close_requests :: "switch_ids \<Rightarrow> datetime \<Rightarrow> bool \<Rightarrow> bool \<Rightarrow> chat_app \<Rightarrow> chat_app \<times> bool" where
  "handle_close_requests ids now native shortcut s =
     (if shortcut \<or> native then request_dirty_action ids now CloseApp s else s, native \<and> ca_prompt_dirty s)"

section \<open>Provider and repository tasks\<close>

definition begin_model_discovery :: "chat_app \<Rightarrow> chat_app" where
  "begin_model_discovery s =
     (let (setup, requested) = begin_discovery (ca_setup s) in
      spawn_task (TaskDiscover requested) (s\<lparr>ca_setup := setup, ca_provider_busy := True\<rparr>))"

definition begin_model_verification :: "chat_app \<Rightarrow> chat_app" where
  "begin_model_verification s =
     (case verification_request (ca_setup s) of
        Inl e \<Rightarrow> s
      | Inr requested \<Rightarrow> spawn_task (TaskVerify requested) (s\<lparr>ca_provider_busy := True\<rparr>))"

definition begin_repository_scan :: "uuid \<Rightarrow> chat_app \<Rightarrow> chat_app" where
  "begin_repository_scan generation s =
     (if ca_repository_busy s then s
      else spawn_task (TaskPickFolder (conv_id (ca_conversation s)) generation)
        (s\<lparr>ca_repository_busy := True, ca_scan_generation := generation\<rparr>))"

record platform =
  pl_app_data :: "string result"
  pl_fs :: "string file_system"
  pl_dirs :: directory_system

record scan_ids =
  ci_session_id :: uuid
  ci_conversation_id :: uuid
  ci_generation_id :: uuid

definition scan_repository_path :: "platform \<Rightarrow> scan_ids \<Rightarrow> datetime \<Rightarrow> string \<Rightarrow> chat_app \<Rightarrow> chat_app" where
  "scan_repository_path pl ids now path s =
     (if (case pl_app_data pl of Inr app_data \<Rightarrow> \<not> is_ok (validate_storage_isolation (pl_fs pl) app_data path) | Inl e \<Rightarrow> False)
      then s
      else let known = (case ca_storage s of
             None \<Rightarrow> None
           | Some st \<Rightarrow> (case find_repo_by_root (fs_canonicalize (pl_fs pl)) path (as_settings st) of
               Inr (Some p) \<Rightarrow> Some (repo_id p) | _ \<Rightarrow> None)) in
        case open_with_known_id (pl_fs pl) (pl_dirs pl) (ci_session_id ids) path known of
          Inl e \<Rightarrow> s
        | Inr se \<Rightarrow>
            (let s1 = (if conv_messages (ca_conversation s) = [] \<and> ca_storage s \<noteq> None
                       then ensure_durable_conversation (ci_conversation_id ids) now s else s) in
             spawn_task (TaskScan (conv_id (ca_conversation s1)) (ci_generation_id ids) se)
               (s1\<lparr>ca_repository_busy := True, ca_repository_cancel := Some False,
                   ca_scan_generation := ci_generation_id ids\<rparr>)))"

end
