(* ===== verification/Chat_Turn.thy ===== *)
theory Chat_Turn
  imports Chat_State
begin

text \<open>
  \<open>crates/mentat-app/src/chat_app.rs\<close>, a turn of the chat: \<open>submit_chat\<close>, which stores the turn, the empty grounding
  trace and the consent scope before it spawns the agent; the events of the agent; the outcome, which stores the
  answer with its grounding or fails the turn; and \<open>poll_async\<close>, which handles the results of all background tasks.
\<close>

section \<open>Submitting a question\<close>

record chat_env =
  ce_sha :: "string \<Rightarrow> string"
  ce_uuid_text :: "uuid \<Rightarrow> string"
  ce_parse :: url_parser
  ce_assets :: prompt_assets

definition repository_advisor :: "chat_app \<Rightarrow> bool" where
  "repository_advisor s = (case st_active_caps (ca_setup s) of Some c \<Rightarrow> ac_repository_advisor c | None \<Rightarrow> False)"

definition repository_capable :: "chat_app \<Rightarrow> bool" where
  "repository_capable s \<longleftrightarrow>
     repository_advisor s \<and> (case ca_repository s of Some b \<Rightarrow> snap_status (rb_snapshot b) = SnapReady | None \<Rightarrow> False)"

definition repository_prompt :: "chat_app \<Rightarrow> repository_prompt_state" where
  "repository_prompt s =
     (case ca_repository s of
        None \<Rightarrow> no_repository
      | Some b \<Rightarrow>
          (let snap = gw_snapshot (rb_gateway b) in
           \<lparr> rps_repository_id = Some (snap_repo_id snap), rps_snapshot_id = Some (snap_id snap),
             rps_status = Some (snap_status snap),
             rps_tools_available = (snap_status snap = SnapReady \<and> repository_advisor s) \<rparr>))"

text \<open>The revision and the two editable texts: from the storage, or the factory ones.\<close>

definition prompt_texts :: "chat_env \<Rightarrow> chat_app \<Rightarrow> (uuid \<times> string \<times> string) result" where
  "prompt_texts env s =
     (case ca_storage s of
        Some st \<Rightarrow>
          then_do (load_active_prompt_profile (ca_profile_id s) (as_prompts st)) (\<lambda>loaded.
          then_do (ok_or loaded (prompt_error ''PROMPT_PROFILE_NOT_FOUND'')) (\<lambda>stored.
          then_do (resolve_source (ce_sha env) (ce_assets env) (sp_system_source stored)) (\<lambda>system.
          then_do (resolve_source (ce_sha env) (ce_assets env) (sp_persona_source stored)) (\<lambda>persona.
            Inr (pr_id (sp_revision stored), system, persona)))))
      | None \<Rightarrow> Inr (0, catalog_system (ce_assets env) SysIntermediate, catalog_persona (ce_assets env) DefaultAnalyst))"

definition app_compose_prompt :: "chat_env \<Rightarrow> chat_app \<Rightarrow> prompt_composition result" where
  "app_compose_prompt env s =
     then_do (catalog_load (ce_assets env)) (\<lambda>_.
     then_do (prompt_texts env s) (\<lambda>(revision, system, persona).
       compose_prompt (ce_sha env) (ce_uuid_text env) (ce_assets env)
         \<lparr> ci_revision_id = revision, ci_system = system, ci_persona = persona, ci_repository = repository_prompt s \<rparr>))"

definition chat_to_agent_message :: "chat_message \<Rightarrow> agent_message option" where
  "chat_to_agent_message m =
     (if msg_status m \<notin> {MsgCompleted, MsgCancelled} then None
      else Some (case msg_role m of
          RoleUser \<Rightarrow> user_message (msg_markdown m) | RoleAssistant \<Rightarrow> assistant_message (msg_markdown m)))"

definition build_agent_request ::
  "uuid \<Rightarrow> uuid \<Rightarrow> uuid \<Rightarrow> backend_profile \<Rightarrow> string \<Rightarrow> agent_message list \<Rightarrow> (repository_snapshot \<times> string) option
   \<Rightarrow> response_contract \<Rightarrow> agent_request" where
  "build_agent_request request conv turn profile system messages repository contract =
     (let context = map_option (\<lambda>(snap, name).
          \<lparr> rc_repository_id = snap_repo_id snap, rc_snapshot_id = snap_id snap, rc_snapshot_status = snap_status snap,
            rc_tools_available = (snap_status snap = SnapReady), rc_display_name = name \<rparr>) repository in
      \<lparr> ar_request_id = request, ar_conversation_id = conv, ar_turn_id = turn, ar_profile = profile,
        ar_system_prompt = system, ar_messages = messages,
        ar_tools = (case context of
            Some c \<Rightarrow> if rc_tools_available c then repository_tool_definitions
              else filter (\<lambda>d. td_name d = ''repo_status'') repository_tool_definitions
          | None \<Rightarrow> []),
        ar_repository_context = context, ar_response_contract = contract, ar_limits = agent_limits_default \<rparr>)"

definition request_not_prepared :: string where
  "request_not_prepared = utf8 [236, 154, 148, 236, 178, 173, 32, 236, 164, 128, 235, 185, 132, 32, 235, 139, 168, 234, 179,
     132, 234, 176, 128, 32, 236, 139, 164, 237, 140, 168, 237, 150, 136, 236, 138, 181, 235, 139, 136,
     235, 139, 164, 46]"

definition trace_not_prepared :: string where
  "trace_not_prepared = utf8 [71, 114, 111, 117, 110, 100, 105, 110, 103, 32, 116, 114, 97, 99, 101, 235, 165, 188, 32, 236,
     164, 128, 235, 185, 132, 237, 149, 152, 236, 167, 128, 32, 235, 170, 187, 237, 150, 136, 236, 138,
     181, 235, 139, 136, 235, 139, 164, 46]"

text \<open>The fresh ids of a submission.\<close>

record submit_ids =
  sb_conversation :: uuid
  sb_turn :: uuid
  sb_user :: uuid
  sb_assistant :: uuid
  sb_request :: uuid
  sb_trace :: uuid
  sb_scope :: uuid
  sb_result :: uuid
  sb_seeds :: "uuid \<times> uuid"

definition fail_started_turn :: "submit_ids \<Rightarrow> datetime \<Rightarrow> string \<Rightarrow> string \<Rightarrow> chat_app \<Rightarrow> chat_app" where
  "fail_started_turn ids now code safe s =
     fst (store_op (OpFinish (sb_result ids) (TurnFailed (sb_turn ids) (sb_assistant ids) code safe now)) s)"

definition contract_of_mode :: "conversation_mode \<Rightarrow> response_contract" where
  "contract_of_mode m = (case m of ModeAdvisor \<Rightarrow> ContractAdvisor | ModeAudit \<Rightarrow> ContractAudit ''answer_bundle.v1'')"

text \<open>What a submission has decided when it stores the turn.\<close>

record draft_turn =
  dt_profile :: backend_profile
  dt_repository :: "repository_binding option"
  dt_turn :: conversation_turn
  dt_user :: chat_message
  dt_assistant :: chat_message
  dt_system :: string

definition draft_turn_of ::
  "chat_env \<Rightarrow> submit_ids \<Rightarrow> datetime \<Rightarrow> backend_profile \<Rightarrow> string \<Rightarrow> prompt_composition \<Rightarrow> chat_app \<Rightarrow> draft_turn" where
  "draft_turn_of env ids now profile question composition s =
     (let conv = conv_id (ca_conversation s); repository = (if repository_capable s then ca_repository s else None);
          ordinal = length (conv_messages (ca_conversation s));
          revision = (case ca_storage s of
              Some st \<Rightarrow> (case load_active_prompt_profile (ca_profile_id s) (as_prompts st) of
                  Inr (Some stored) \<Rightarrow> pr_id (sp_revision stored) | _ \<Rightarrow> 0)
            | None \<Rightarrow> 0) in
      \<lparr> dt_profile = profile, dt_repository = repository,
        dt_turn = \<lparr> turn_id = sb_turn ids, turn_conversation_id = conv, turn_sequence = ordinal div 2 + 1,
          turn_prompt_profile_id = ca_profile_id s, turn_prompt_revision_id = revision, turn_kernel_version = KERNEL_VERSION,
          turn_kernel_digest = pc_kernel_digest composition,
          turn_snapshot_id = map_option (\<lambda>b. snap_id (rb_snapshot b)) repository,
          turn_response_contract = contract_of_mode (ca_mode s), turn_audit_result_id = None, turn_started_at = now,
          turn_completed_at = None \<rparr>,
        dt_user = chat_message_new (sb_user ids) now conv (sb_turn ids) RoleUser ordinal question MsgCompleted,
        dt_assistant = chat_message_new (sb_assistant ids) now conv (sb_turn ids) RoleAssistant (ordinal + 1) [] MsgPending,
        dt_system = (case (ca_mode s, repository) of
            (ModeAudit, Some b) \<Rightarrow> pc_effective composition @ [CHR 0x0A, CHR 0x0A]
              @ system_contract (ce_uuid_text env (snap_id (rb_snapshot b)))
          | _ \<Rightarrow> pc_effective composition) \<rparr>)"

definition empty_trace :: "submit_ids \<Rightarrow> repository_binding \<Rightarrow> conversation_turn \<Rightarrow> grounding_trace" where
  "empty_trace ids b t =
     \<lparr> gt_id = sb_trace ids, gt_conversation_id = turn_conversation_id t, gt_turn_id = turn_id t,
       gt_snapshot_id = Some (snap_id (rb_snapshot b)), gt_tool_calls = [], gt_source_refs = [],
       gt_egress_receipt_ids = [], gt_freshness = FreshAtSend \<rparr>"

text \<open>The trace of a turn with a repository; \<open>None\<close> when the submission ends here.\<close>

definition prepare_trace :: "submit_ids \<Rightarrow> datetime \<Rightarrow> draft_turn \<Rightarrow> chat_app \<Rightarrow> chat_app \<times> uuid option option" where
  "prepare_trace ids now dt s =
     (case dt_repository dt of
        None \<Rightarrow> (s, Some None)
      | Some b \<Rightarrow>
          (case store_op (OpPrepareTrace now (empty_trace ids b (dt_turn dt))) s of
             (s', Inr _) \<Rightarrow> (s', Some (Some (sb_trace ids)))
           | (s', Inl e) \<Rightarrow> (fail_started_turn ids now ''TOOL_EGRESS_RECEIPT_FAILED'' trace_not_prepared s', None)))"

definition consent_scope_of ::
  "submit_ids \<Rightarrow> datetime \<Rightarrow> uuid \<Rightarrow> repository_binding \<Rightarrow> provider_binding \<Rightarrow> repository_consent_scope" where
  "consent_scope_of ids now conv b binding =
     \<lparr> cs_id = sb_scope ids, cs_conversation_id = conv, cs_repository_id = snap_repo_id (rb_snapshot b),
       cs_snapshot_id = snap_id (rb_snapshot b), cs_provider_binding = binding, cs_kind = RepositorySession,
       cs_granted_at = now, cs_revoked_at = None \<rparr>"

text \<open>The gate of a turn whose provider needs a key and that has a repository; \<open>None\<close> when the submission ends here.\<close>

definition open_gate ::
  "chat_env \<Rightarrow> submit_ids \<Rightarrow> datetime \<Rightarrow> draft_turn \<Rightarrow> chat_app \<Rightarrow> chat_app \<times> consent_capability option option" where
  "open_gate env ids now dt s =
     (let p = dt_profile dt in
      if \<not> requires_api_key (bp_provider p) then (s, Some None)
      else case dt_repository dt of
        None \<Rightarrow> (s, Some None)
      | Some b \<Rightarrow>
          if ca_storage s = None then (s, None)
          else (case binding_new (ce_sha env) (ce_parse env) (ce_uuid_text env) (bp_id p) (provider_name (bp_provider p))
                 (agent_endpoint p) (bp_model p) of
            Inl e \<Rightarrow> (fail_started_turn ids now ''TOOL_EGRESS_BINDING_INVALID'' request_not_prepared s, None)
          | Inr binding \<Rightarrow>
              (let scope = consent_scope_of ids now (conv_id (ca_conversation s)) b binding in
               case store_op (OpSaveConsent scope) s of
                 (s', Inl e) \<Rightarrow> (fail_started_turn ids now ''TOOL_EGRESS_RECEIPT_FAILED'' request_not_prepared s', None)
               | (s', Inr _) \<Rightarrow> (s'\<lparr>ca_consent_scope := Some (sb_scope ids)\<rparr>,
                   Some (Some (with_revocation False
                     (capability_new (ce_sha env) (fst (sb_seeds ids)) (snd (sb_seeds ids)) scope)))))))"

definition agent_start_of ::
  "submit_ids \<Rightarrow> draft_turn \<Rightarrow> uuid option \<Rightarrow> consent_capability option \<Rightarrow> chat_app \<Rightarrow> agent_start" where
  "agent_start_of ids dt trace gate s =
     \<lparr> ag_request = build_agent_request (sb_request ids) (conv_id (ca_conversation s)) (sb_turn ids) (dt_profile dt) (dt_system dt)
         (List.map_filter chat_to_agent_message (conv_messages (ca_conversation s)) @ [user_message (msg_markdown (dt_user dt))])
         (map_option (\<lambda>b. (rb_snapshot b, repo_display_name (se_profile (rb_session b)))) (dt_repository dt))
         (turn_response_contract (dt_turn dt)),
       ag_message_id = sb_assistant ids, ag_trace = trace, ag_gate = gate,
       ag_gateway = map_option rb_gateway (dt_repository dt) \<rparr>"

definition start_turn ::
  "submit_ids \<Rightarrow> draft_turn \<Rightarrow> uuid option \<Rightarrow> consent_capability option \<Rightarrow> chat_app \<Rightarrow> chat_app" where
  "start_turn ids dt trace gate s =
     spawn_task (TaskAgent (agent_start_of ids dt trace gate s))
       (s\<lparr>ca_conversation := (ca_conversation s)\<lparr>conv_messages :=
            conv_messages (ca_conversation s) @ [dt_user dt, dt_assistant dt]\<rparr>,
          ca_composer := [], ca_stream_cancel := Some False,
          ca_active := Some \<lparr> at_turn_id = sb_turn ids, at_message_id = sb_assistant ids, at_accumulated = [],
            at_contract = turn_response_contract (dt_turn dt), at_pending = None \<rparr>\<rparr>)"

definition submit_turn :: "chat_env \<Rightarrow> submit_ids \<Rightarrow> datetime \<Rightarrow> draft_turn \<Rightarrow> chat_app \<Rightarrow> chat_app" where
  "submit_turn env ids now dt s =
     (case store_op (OpBegin \<lparr> ts_turn = dt_turn dt, ts_user_message = dt_user dt,
             ts_assistant_placeholder = dt_assistant dt \<rparr>) s of
        (s1, Inl e) \<Rightarrow> s1
      | (s1, Inr _) \<Rightarrow>
          (case prepare_trace ids now dt s1 of
             (s2, None) \<Rightarrow> s2
           | (s2, Some trace) \<Rightarrow>
               (case open_gate env ids now dt s2 of
                  (s3, None) \<Rightarrow> s3
                | (s3, Some gate) \<Rightarrow> start_turn ids dt trace gate s3)))"

definition may_submit :: "backend_profile \<Rightarrow> chat_app \<Rightarrow> bool" where
  "may_submit profile s \<longleftrightarrow>
     \<not> (ca_mode s = ModeAudit \<and> \<not> repository_capable s)
     \<and> \<not> (repository_capable s \<and> requires_api_key (bp_provider profile) \<and> \<not> ca_egress_approved s)
     \<and> \<not> (repository_capable s \<and> requires_api_key (bp_provider profile) \<and> ca_storage s = None)"

definition submit_chat :: "chat_env \<Rightarrow> submit_ids \<Rightarrow> datetime \<Rightarrow> chat_app \<Rightarrow> chat_app" where
  "submit_chat env ids now s =
     (if ca_active s \<noteq> None \<or> ca_repository_busy s then s
      else case st_active (ca_setup s) of
        None \<Rightarrow> s\<lparr>ca_settings_open := True\<rparr>
      | Some profile \<Rightarrow>
          (let question = trim (ca_composer s) in
           if question = [] \<or> \<not> may_submit profile s then s
           else let s1 = (if conv_messages (ca_conversation s) = [] \<and> ca_storage s \<noteq> None
                          then ensure_durable_conversation (sb_conversation ids) now s else s) in
             case app_compose_prompt env s1 of
               Inl e \<Rightarrow> s1
             | Inr composition \<Rightarrow> submit_turn env ids now (draft_turn_of env ids now profile question composition s1) s1))"

section \<open>Events of the agent\<close>

definition close_active :: "uuid \<Rightarrow> turn_terminal_update \<Rightarrow> (chat_message \<Rightarrow> chat_message) \<Rightarrow> active_turn \<Rightarrow> chat_app \<Rightarrow> chat_app" where
  "close_active result_id update f a s =
     (fst (store_op (OpFinish result_id update) (update_message (at_message_id a) f s)))
       \<lparr>ca_active := None, ca_stream_cancel := None\<rparr>"

fun cancelled_update :: "datetime \<Rightarrow> active_turn \<Rightarrow> cancelled_payload \<Rightarrow> turn_terminal_update" where
  "cancelled_update now a (AdvisorPartialMarkdown t) = AdvisorCancelled (at_turn_id a) (at_message_id a) t now"
| "cancelled_update now a AuditNoContent = AuditCancelled (at_turn_id a) (at_message_id a) now"

fun cancelled_text :: "cancelled_payload \<Rightarrow> string" where
  "cancelled_text (AdvisorPartialMarkdown t) = t"
| "cancelled_text AuditNoContent = []"

definition failed_update :: "datetime \<Rightarrow> active_turn \<Rightarrow> string \<Rightarrow> string \<Rightarrow> turn_terminal_update" where
  "failed_update now a code safe =
     (if code = ''CANCELLED'' then
        (if at_contract a = ContractAdvisor then AdvisorCancelled (at_turn_id a) (at_message_id a) (at_accumulated a) now
         else AuditCancelled (at_turn_id a) (at_message_id a) now)
      else TurnFailed (at_turn_id a) (at_message_id a) code safe now)"

definition failed_message :: "string \<Rightarrow> string \<Rightarrow> chat_message \<Rightarrow> chat_message" where
  "failed_message code safe m =
     (if code = ''CANCELLED'' then m\<lparr>msg_status := MsgCancelled\<rparr>
      else m\<lparr>msg_markdown := safe, msg_status := MsgFailed code\<rparr>)"

definition apply_agent_event :: "uuid \<Rightarrow> datetime \<Rightarrow> agent_event \<Rightarrow> chat_app \<Rightarrow> chat_app" where
  "apply_agent_event result_id now event s =
     (case ca_active s of
        None \<Rightarrow> s
      | Some a \<Rightarrow>
          (case event of
             EvTextDelta d \<Rightarrow>
               update_message (at_message_id a) (\<lambda>m. m\<lparr>msg_markdown := msg_markdown m @ d, msg_status := MsgStreaming\<rparr>)
                 (s\<lparr>ca_active := Some (a\<lparr>at_accumulated := at_accumulated a @ d\<rparr>)\<rparr>)
           | EvCompleted payload trace \<Rightarrow> s\<lparr>ca_active := Some (a\<lparr>at_pending := Some (payload, trace)\<rparr>)\<rparr>
           | EvCancelled payload \<Rightarrow>
               close_active result_id (cancelled_update now a payload)
                 (\<lambda>m. m\<lparr>msg_markdown := cancelled_text payload, msg_status := MsgCancelled\<rparr>) a s
           | EvFailed code safe \<Rightarrow>
               close_active result_id (failed_update now a code safe) (failed_message code safe) a s
           | _ \<Rightarrow> s))"

section \<open>The outcome of the agent\<close>

definition completion_not_stored :: string where
  "completion_not_stored = utf8 [236, 157, 145, 235, 139, 181, 234, 179, 188, 32, 234, 183, 188, 234, 177, 176, 235, 165, 188,
     32, 237, 149, 168, 234, 187, 152, 32, 236, 160, 128, 236, 158, 165, 237, 149, 152, 236, 167, 128,
     32, 235, 170, 187, 237, 149, 180, 32, 236, 153, 132, 235, 163, 140, 32, 236, 178, 152, 235, 166,
     172, 235, 165, 188, 32, 236, 183, 168, 236, 134, 140, 237, 150, 136, 236, 138, 181, 235, 139, 136,
     235, 139, 164, 46]"

definition fail_atomic_completion :: "uuid \<Rightarrow> datetime \<Rightarrow> active_turn \<Rightarrow> string \<Rightarrow> chat_app \<Rightarrow> chat_app" where
  "fail_atomic_completion result_id now a code s =
     update_message (at_message_id a) (\<lambda>m. m\<lparr>msg_markdown := completion_not_stored, msg_status := MsgFailed code\<rparr>)
       (fst (store_op (OpFinish result_id (TurnFailed (at_turn_id a) (at_message_id a) code completion_not_stored now)) s))"

fun completion_update ::
  "datetime \<Rightarrow> active_turn \<Rightarrow> uuid option \<Rightarrow> grounding_trace option \<Rightarrow> completed_payload \<Rightarrow> turn_terminal_update option" where
  "completion_update now a event_trace trace (AdvisorMarkdown md) =
     Some (AdvisorCompleted (at_turn_id a) (at_message_id a) md event_trace (map_option gt_freshness trace) now)"
| "completion_update now a event_trace (Some t) (ValidatedAuditBundle b) =
     Some (AuditCompleted (at_turn_id a) (at_message_id a) b (gt_id t) (gt_freshness t) now)"
| "completion_update now a event_trace None (ValidatedAuditBundle b) = None"

definition completed_message :: "completed_payload \<Rightarrow> uuid option \<Rightarrow> grounding_trace option \<Rightarrow> chat_message \<Rightarrow> chat_message" where
  "completed_message payload event_trace trace m =
     m\<lparr>msg_markdown := (case payload of AdvisorMarkdown md \<Rightarrow> md | ValidatedAuditBundle b \<Rightarrow> []),
       msg_status := MsgCompleted, msg_grounding_trace_id := event_trace,
       msg_grounding_freshness := map_option gt_freshness trace\<rparr>"

definition show_completion ::
  "active_turn \<Rightarrow> completed_payload \<Rightarrow> uuid option \<Rightarrow> grounding_trace option \<Rightarrow> chat_app \<Rightarrow> chat_app" where
  "show_completion a payload event_trace trace s =
     (let shown = list_ex (\<lambda>m. msg_id m = at_message_id a) (conv_messages (ca_conversation s));
          s1 = update_message (at_message_id a) (completed_message payload event_trace trace) s in
      s1\<lparr>ca_audit := (case payload of
             ValidatedAuditBundle b \<Rightarrow> if shown then (ca_audit s1)(at_message_id a \<mapsto> b) else ca_audit s1
           | AdvisorMarkdown md \<Rightarrow> ca_audit s1),
         ca_grounding := (case trace of Some t \<Rightarrow> (ca_grounding s1)(at_message_id a \<mapsto> t) | None \<Rightarrow> ca_grounding s1),
         ca_stream_cancel := None\<rparr>)"

definition note_staleness :: "datetime \<Rightarrow> chat_app \<Rightarrow> grounding_trace option \<Rightarrow> grounding_trace option" where
  "note_staleness now s trace =
     (case ca_repository s of
        Some b \<Rightarrow> if gw_stale (rb_gateway b) then map_option (\<lambda>t. t\<lparr>gt_freshness := ChangedAfterSend now\<rparr>) trace else trace
      | None \<Rightarrow> trace)"

definition complete_turn ::
  "uuid \<Rightarrow> datetime \<Rightarrow> active_turn \<Rightarrow> completed_payload \<Rightarrow> uuid option \<Rightarrow> grounding_trace option \<Rightarrow> chat_app \<Rightarrow> chat_app" where
  "complete_turn result_id now a payload event_trace trace s =
     (case completion_update now a event_trace trace payload of
        None \<Rightarrow> (fail_atomic_completion result_id now a ''TURN_GROUNDING_BINDING_INVALID'' s)\<lparr>ca_stream_cancel := None\<rparr>
      | Some update \<Rightarrow>
          (case store_op (case trace of Some t \<Rightarrow> OpFinishGrounded now result_id t update
                          | None \<Rightarrow> OpFinish result_id update) s of
             (s', Inl e) \<Rightarrow>
               (fail_atomic_completion result_id now a ''TURN_GROUNDING_COMMIT_FAILED'' s')\<lparr>ca_stream_cancel := None\<rparr>
           | (s', Inr _) \<Rightarrow> show_completion a payload event_trace trace s'))"

definition finish_agent_outcome ::
  "uuid \<Rightarrow> datetime \<Rightarrow> uuid \<Rightarrow> grounding_trace option result \<Rightarrow> chat_app \<Rightarrow> chat_app" where
  "finish_agent_outcome result_id now message outcome s =
     (case ca_active s of
        None \<Rightarrow> s
      | Some a \<Rightarrow>
          if at_message_id a \<noteq> message then s
          else let s0 = s\<lparr>ca_active := None\<rparr> in
            (case outcome of
              Inl e \<Rightarrow> (fail_atomic_completion result_id now a ''AGENT_LOOP_FAILED'' s0)\<lparr>ca_stream_cancel := None\<rparr>
            | Inr raw \<Rightarrow>
                (let trace = note_staleness now s0 raw in
                 case at_pending a of
                   None \<Rightarrow> (fail_atomic_completion result_id now a ''AGENT_TERMINAL_MISSING'' s0)\<lparr>ca_stream_cancel := None\<rparr>
                 | Some (payload, event_trace) \<Rightarrow>
                     if event_trace \<noteq> map_option gt_id trace
                     then (fail_atomic_completion result_id now a ''TURN_GROUNDING_BINDING_INVALID'' s0)
                       \<lparr>ca_stream_cancel := None\<rparr>
                     else complete_turn result_id now a payload event_trace trace s0)))"

section \<open>Results of the background tasks\<close>

datatype async_result =
    FolderSelected uuid uuid "string option"
  | CatalogFetched backend_profile "model_catalog result"
  | VerificationDone backend_profile "(model_verification \<times> agent_capabilities) result"
  | RepositoryScanned uuid uuid session "(repository_snapshot \<times> file_record list) result" start
  | AgentEventSent uuid uuid agent_event
  | AgentFinished uuid "grounding_trace option result"

definition handle_catalog :: "backend_profile \<Rightarrow> model_catalog result \<Rightarrow> chat_app \<Rightarrow> chat_app" where
  "handle_catalog requested fetched s =
     (let s0 = s\<lparr>ca_provider_busy := False\<rparr> in
      case fetched of
        Inl e \<Rightarrow> s0
      | Inr catalog \<Rightarrow>
          (case accept_catalog requested catalog (ca_setup s0) of
             (setup, Inl e) \<Rightarrow> s0\<lparr>ca_setup := setup\<rparr>
           | (setup, Inr _) \<Rightarrow>
               (let s1 = s0\<lparr>ca_setup := setup\<rparr> in
                if ca_auto_connect s1 \<noteq> Some requested then s1
                else if bp_model (st_draft setup) = [] then s1\<lparr>ca_auto_connect := None\<rparr>
                else begin_model_verification s1)))"

definition handle_verification ::
  "backend_profile \<Rightarrow> (model_verification \<times> agent_capabilities) result \<Rightarrow> chat_app \<Rightarrow> chat_app" where
  "handle_verification requested verified s =
     (let s0 = s\<lparr>ca_provider_busy := False\<rparr> in
      case verified of
        Inl e \<Rightarrow> s0
      | Inr (v, caps) \<Rightarrow>
          (case accept_capability_verification requested v caps (ca_setup s0) of
             (setup, Inl e) \<Rightarrow> s0\<lparr>ca_setup := setup\<rparr>
           | (setup, Inr _) \<Rightarrow>
               (let s1 = s0\<lparr>ca_setup := setup\<rparr> in
                if ca_auto_connect s1 \<noteq> Some requested then s1
                else s1\<lparr>ca_auto_connect := None, ca_setup := fst (activate setup)\<rparr>)))"

text \<open>Three calls of the storage in order, the rest skipped when one fails; what succeeded stays.\<close>

definition persist_scan ::
  "(string \<Rightarrow> string option) \<Rightarrow> datetime \<Rightarrow> uuid \<Rightarrow> session \<Rightarrow> repository_snapshot \<Rightarrow> app_storage \<Rightarrow> app_storage \<times> unit result" where
  "persist_scan canon now conv se snap st =
     (case save_recent_repo canon now (se_profile se) (as_settings st) of
        Inl e \<Rightarrow> (st, Inl e)
      | Inr d1 \<Rightarrow>
          (case save_snapshot_meta snap d1 of
             Inl e \<Rightarrow> (st\<lparr>as_settings := d1\<rparr>, Inl e)
           | Inr d2 \<Rightarrow>
               (case exec_op (OpBind now conv (snap_repo_id snap) (snap_id snap)) (as_db st) of
                  Inl e \<Rightarrow> (st\<lparr>as_settings := d2\<rparr>, Inl e)
                | Inr d \<Rightarrow> (st\<lparr>as_settings := d2, as_db := d\<rparr>, Inr ()))))"

definition bind_repository ::
  "session \<Rightarrow> repository_snapshot \<Rightarrow> file_record list \<Rightarrow> start \<Rightarrow> datetime \<Rightarrow> chat_app \<Rightarrow> chat_app" where
  "bind_repository se snap files st now s =
     s\<lparr>ca_conversation := (ca_conversation s)\<lparr>conv_repository_id := Some (snap_repo_id snap),
         conv_active_snapshot_id := Some (snap_id snap)\<rparr>,
       ca_egress_approved := False, ca_mode := ModeAdvisor,
       ca_repository := Some \<lparr> rb_watcher = spawn_background st (watcher_new (se_root se) now), rb_session = se,
         rb_snapshot = snap, rb_gateway = gateway_new snap files \<rparr>\<rparr>"

definition handle_scan ::
  "(string \<Rightarrow> string option) \<Rightarrow> datetime \<Rightarrow> uuid \<Rightarrow> uuid \<Rightarrow> session \<Rightarrow> (repository_snapshot \<times> file_record list) result
   \<Rightarrow> start \<Rightarrow> chat_app \<Rightarrow> chat_app" where
  "handle_scan canon now conv generation se scanned st s =
     (if conv \<noteq> conv_id (ca_conversation s) \<or> generation \<noteq> ca_scan_generation s then s
      else let s0 = s\<lparr>ca_repository_busy := False, ca_repository_cancel := None\<rparr> in
        case scanned of
          Inl e \<Rightarrow> s0
        | Inr (snap, files) \<Rightarrow>
            (case ca_storage s0 of
               None \<Rightarrow> bind_repository se snap files st now s0
             | Some store \<Rightarrow>
                 (case persist_scan canon now (conv_id (ca_conversation s0)) se snap store of
                    (store', Inl e) \<Rightarrow> s0\<lparr>ca_storage := Some store'\<rparr>
                  | (store', Inr _) \<Rightarrow> bind_repository se snap files st now (s0\<lparr>ca_storage := Some store'\<rparr>))))"

record poll_ids =
  pi_scan :: scan_ids
  pi_result :: uuid

definition handle_result :: "platform \<Rightarrow> datetime \<Rightarrow> async_result \<times> poll_ids \<Rightarrow> chat_app \<Rightarrow> chat_app" where
  "handle_result pl now r s =
     (case fst r of
        FolderSelected conv generation path \<Rightarrow>
          if conv \<noteq> conv_id (ca_conversation s) \<or> generation \<noteq> ca_scan_generation s then s
          else (let s0 = s\<lparr>ca_repository_busy := False\<rparr> in
            case path of None \<Rightarrow> s0 | Some p \<Rightarrow> scan_repository_path pl (pi_scan (snd r)) now p s0)
      | CatalogFetched requested fetched \<Rightarrow> handle_catalog requested fetched s
      | VerificationDone requested verified \<Rightarrow> handle_verification requested verified s
      | RepositoryScanned conv generation se scanned st \<Rightarrow>
          handle_scan (fs_canonicalize (pl_fs pl)) now conv generation se scanned st s
      | AgentEventSent conv turn event \<Rightarrow>
          if conv = conv_id (ca_conversation s) \<and> (case ca_active s of Some a \<Rightarrow> at_turn_id a = turn | None \<Rightarrow> False)
          then apply_agent_event (pi_result (snd r)) now event s else s
      | AgentFinished message outcome \<Rightarrow>
          if (case ca_active s of Some a \<Rightarrow> at_message_id a = message | None \<Rightarrow> False)
          then finish_agent_outcome (pi_result (snd r)) now message outcome s else s)"

section \<open>Polling\<close>

definition poll_consent :: "datetime \<Rightarrow> chat_app \<Rightarrow> chat_app" where
  "poll_consent now s = (if ca_stream_cancel s = Some True then fst (revoke_active_scope now s) else s)"

definition mark_repository_stale :: "datetime \<Rightarrow> repository_binding \<Rightarrow> chat_app \<Rightarrow> chat_app" where
  "mark_repository_stale now b s =
     (let snap = snap_id (rb_snapshot b);
          s1 = s\<lparr>ca_repository := Some (b\<lparr>rb_gateway := mark_stale (rb_gateway b),
                   rb_snapshot := (rb_snapshot b)\<lparr>snap_status := SnapStale\<rparr>\<rparr>),
                 ca_grounding := (\<lambda>i. map_option (\<lambda>t. if gt_snapshot_id t = Some snap
                   then t\<lparr>gt_freshness := ChangedAfterSend now\<rparr> else t) (ca_grounding s i))\<rparr> in
      cancel_stream ((fst (store_op (OpMarkChanged now snap) s1))\<lparr>ca_egress_approved := False\<rparr>))"

definition poll_repository :: "(string \<Rightarrow> string) \<Rightarrow> datetime \<Rightarrow> nat \<Rightarrow> walk_entry list \<Rightarrow> chat_app \<Rightarrow> chat_app" where
  "poll_repository sha now ms entries s =
     (case ca_repository s of
        None \<Rightarrow> s
      | Some b \<Rightarrow>
          (case poll_changes sha ms entries (rb_watcher b) of
             (changed, w) \<Rightarrow>
               (let b' = b\<lparr>rb_watcher := w\<rparr>; s1 = s\<lparr>ca_repository := Some b'\<rparr> in
                if changed \<and> snap_status (rb_snapshot b) \<noteq> SnapStale then mark_repository_stale now b' s1 else s1)))"

definition poll_async ::
  "chat_env \<Rightarrow> platform \<Rightarrow> datetime \<Rightarrow> nat \<Rightarrow> walk_entry list \<Rightarrow> (async_result \<times> poll_ids) list \<Rightarrow> chat_app \<Rightarrow> chat_app" where
  "poll_async env pl now ms entries results s =
     fold (handle_result pl now) results (poll_repository (ce_sha env) now ms entries (poll_consent now s))"

end
