(* ===== verification/Chat_Frame.thy ===== *)
theory Chat_Frame
  imports Chat_Turn Credentials
begin

text \<open>
  \<open>crates/mentat-app/src/chat_app.rs\<close>, the rest of the application: starting it from the databases, a frame of the
  window, and what the panels do with the input of the user. A panel is the record of what the user did in it;
  drawing is left out. The native secret store is a parameter with a state of its own.
\<close>

section \<open>Starting\<close>

definition restore_one ::
  "db \<Rightarrow> chat_message \<Rightarrow> (uuid \<rightharpoonup> grounding_trace) \<times> (uuid \<rightharpoonup> answer_bundle)
   \<Rightarrow> (uuid \<rightharpoonup> grounding_trace) \<times> (uuid \<rightharpoonup> answer_bundle)" where
  "restore_one d m acc =
     (case acc of (g, a) \<Rightarrow>
       (case msg_grounding_trace_id m of
          Some i \<Rightarrow> (case load_grounding_trace i d of Inr (Some t) \<Rightarrow> g(msg_id m \<mapsto> t) | _ \<Rightarrow> g)
        | None \<Rightarrow> g,
        case load_audit_result_for_turn (msg_turn_id m) d of Inr (Some b) \<Rightarrow> a(msg_id m \<mapsto> b) | _ \<Rightarrow> a))"

definition restore_message_projections ::
  "db \<Rightarrow> conversation \<Rightarrow> (uuid \<rightharpoonup> grounding_trace) \<times> (uuid \<rightharpoonup> answer_bundle)" where
  "restore_message_projections d c =
     fold (restore_one d) (filter (\<lambda>m. msg_role m = RoleAssistant) (conv_messages c)) (Map.empty, Map.empty)"

record start_ids =
  si_seed :: fresh_ids
  si_conversation :: uuid
  si_profile :: uuid
  si_generation :: uuid

text \<open>
  The storage after seeding; it is given up when that fails. The table of prompt profiles is the one the database of
  conversations refers to.
\<close>

definition share_profile :: "uuid \<Rightarrow> db \<Rightarrow> db" where
  "share_profile i d = (if i \<in> set (db_profile_ids d) then d else d\<lparr>db_profile_ids := db_profile_ids d @ [i]\<rparr>)"

definition seeded_storage :: "chat_env \<Rightarrow> start_ids \<Rightarrow> datetime \<Rightarrow> app_storage option \<Rightarrow> app_storage option" where
  "seeded_storage env ids now opened =
     (case opened of
        None \<Rightarrow> None
      | Some st \<Rightarrow>
          (case seed_factory_prompt_profile (si_seed ids) now (factory_seed_of (ce_sha env) (ce_assets env)) (as_prompts st) of
             (d, Inr p) \<Rightarrow> Some (st\<lparr>as_prompts := d, as_db := share_profile DEFAULT_PROFILE_ID (as_db st)\<rparr>) | (d, Inl e) \<Rightarrow> None))"

definition restored_conversation :: "start_ids \<Rightarrow> datetime \<Rightarrow> app_storage option \<Rightarrow> conversation" where
  "restored_conversation ids now storage =
     (case map_option (\<lambda>st. load_most_recent_conversation (as_db st)) storage of
        Some (Inr (Some c)) \<Rightarrow> c
      | _ \<Rightarrow> conversation_new (si_conversation ids) now DEFAULT_PROFILE_ID None None)"

text \<open>The active prompts must load and resolve, or the session goes on without the storage.\<close>

definition active_prompts :: "chat_env \<Rightarrow> app_storage \<Rightarrow> (stored_prompt_profile \<times> string \<times> string) result" where
  "active_prompts env st =
     then_do (load_active_prompt_profile DEFAULT_PROFILE_ID (as_prompts st)) (\<lambda>loaded.
     then_do (ok_or loaded (IoError ''active prompt'')) (\<lambda>stored.
     then_do (resolve_source (ce_sha env) (ce_assets env) (sp_system_source stored)) (\<lambda>system.
     then_do (resolve_source (ce_sha env) (ce_assets env) (sp_persona_source stored)) (\<lambda>persona.
       Inr (stored, system, persona)))))"

definition usable_storage :: "chat_env \<Rightarrow> app_storage option \<Rightarrow> app_storage option" where
  "usable_storage env storage =
     (case storage of None \<Rightarrow> None | Some st \<Rightarrow> if is_ok (active_prompts env st) then Some st else None)"

definition saved_backend :: "start_ids \<Rightarrow> app_storage option \<Rightarrow> backend_profile" where
  "saved_backend ids storage =
     (case map_option (\<lambda>st. load_backend_profile (as_settings st)) storage of
        Some (Inr (Some p)) \<Rightarrow> p | _ \<Rightarrow> backend_profile_default (si_profile ids))"

text \<open>The saved profile with its key from the native store or the key file, and whether keys are remembered.\<close>

definition restored_backend ::
  "'k secret_store \<Rightarrow> (uuid \<Rightarrow> string) \<Rightarrow> string option result \<Rightarrow> 'k \<Rightarrow> start_ids \<Rightarrow> app_storage option \<Rightarrow> backend_profile \<times> bool" where
  "restored_backend ss uuid_text key_file k ids storage =
     (let p = saved_backend ids storage;
          remember = (case map_option (\<lambda>st. load_provider_secret_preference uuid_text (bp_id p) (as_settings st)) storage of
            Some (Inr (Some pref)) \<Rightarrow> pref_remember_api_key pref | _ \<Rightarrow> False);
          (p1, remember1) = (case storage of
            None \<Rightarrow> (p, remember)
          | Some st \<Rightarrow> (case restore_credential ss uuid_text (k, as_settings st) p of
              (p', Inr r) \<Rightarrow> (p', rs_remember_api_key r) | (p', Inl e) \<Rightarrow> (p'\<lparr>bp_api_key := None\<rparr>, remember)));
          p2 = (if bp_provider p1 = GoogleGemini \<and> bp_api_key p1 = None
                then (case key_file of Inr (Some key) \<Rightarrow> p1\<lparr>bp_api_key := Some key\<rparr> | _ \<Rightarrow> p1) else p1) in
      (p2, remember1))"

definition restored_prompts :: "chat_env \<Rightarrow> app_storage option \<Rightarrow> system_preset \<times> string \<times> string \<times> persona_kind \<times> bool" where
  "restored_prompts env storage =
     (case map_option (active_prompts env) storage of
        Some (Inr (stored, system, persona)) \<Rightarrow>
          (pp_base_system_preset (sp_profile stored), system, persona, persona_selection_from_source (sp_persona_source stored))
      | _ \<Rightarrow> (SysIntermediate, catalog_system (ce_assets env) SysIntermediate,
               catalog_persona (ce_assets env) DefaultAnalyst, DefaultAnalyst, False))"

definition restored_preferences :: "datetime \<Rightarrow> app_storage option \<Rightarrow> ui_preferences" where
  "restored_preferences now storage =
     (case map_option (\<lambda>st. load_ui_preferences now (as_ui st)) storage of
        Some (Inr u) \<Rightarrow> u | _ \<Rightarrow> ui_preferences_default now)"

definition auto_connects :: "backend_profile \<Rightarrow> bool" where
  "auto_connects p \<longleftrightarrow> bp_model p \<noteq> [] \<and> (\<not> requires_api_key (bp_provider p) \<or> bp_api_key p \<noteq> None)"

definition app_at_start ::
  "chat_env \<Rightarrow> start_ids \<Rightarrow> datetime \<Rightarrow> app_storage option \<Rightarrow> conversation \<Rightarrow> backend_profile \<times> bool \<Rightarrow> chat_app" where
  "app_at_start env ids now storage c backend =
     (let (p, remember) = backend; (preset, system, persona, kind, custom) = restored_prompts env storage;
          u = restored_preferences now storage;
          (grounding, audit) = (case storage of None \<Rightarrow> (Map.empty, Map.empty) | Some st \<Rightarrow> restore_message_projections (as_db st) c) in
      \<lparr> ca_storage = storage, ca_profile_id = DEFAULT_PROFILE_ID, ca_conversation = c, ca_setup = setup_new p,
        ca_provider_busy = False, ca_auto_connect = (if auto_connects p then Some p else None), ca_remember = remember,
        ca_persona = kind, ca_persona_custom = custom, ca_base_preset = preset, ca_system_draft = system,
        ca_persona_draft = persona, ca_prompt_dirty = False, ca_delete_open = False, ca_repository = None,
        ca_repository_busy = False, ca_repository_cancel = None, ca_scan_generation = si_generation ids,
        ca_settings_open = False, ca_composer = [], ca_submit_mode = ui_submit_mode u, ca_pinned = ui_always_on_top u,
        ca_active = None, ca_stream_cancel = None, ca_window = (ui_width_points u, ui_height_points u),
        ca_size_changed = None, ca_dirty_action = None, ca_mode = ModeAdvisor, ca_egress_approved = False,
        ca_consent_scope = None, ca_grounding = grounding, ca_audit = audit, ca_selected_message = None,
        ca_selected_source = None, ca_tasks = [] \<rparr>)"

text \<open>\<open>MentatChatApp::new\<close>; \<open>None\<close> is the panic on damaged prompt assets.\<close>

definition app_start ::
  "chat_env \<Rightarrow> 'k secret_store \<Rightarrow> string option result \<Rightarrow> 'k \<Rightarrow> start_ids \<Rightarrow> datetime \<Rightarrow> app_storage option \<Rightarrow> chat_app option" where
  "app_start env ss key_file k ids now opened =
     (case catalog_load (ce_assets env) of
        Inl e \<Rightarrow> None
      | Inr _ \<Rightarrow>
          (let seeded = seeded_storage env ids now opened; c = restored_conversation ids now seeded;
               storage = usable_storage env seeded;
               s = app_at_start env ids now storage c (restored_backend ss (ce_uuid_text env) key_file k ids storage) in
           Some (if ca_auto_connect s \<noteq> None then begin_model_discovery s else s)))"

section \<open>A frame\<close>

fun f32_far :: "f32 \<Rightarrow> f32 \<Rightarrow> bool" where
  "f32_far (F32 x) (F32 y) \<longleftrightarrow> \<bar>x - y\<bar> \<ge> 1"
| "f32_far F32NaN y \<longleftrightarrow> False"
| "f32_far x F32NaN \<longleftrightarrow> False"
| "f32_far (F32Inf a) (F32Inf b) \<longleftrightarrow> a \<noteq> b"
| "f32_far (F32Inf a) (F32 y) \<longleftrightarrow> True"
| "f32_far (F32 x) (F32Inf b) \<longleftrightarrow> True"

definition size_changed :: "f32 \<times> f32 \<Rightarrow> f32 \<times> f32 \<Rightarrow> bool" where
  "size_changed previous current \<longleftrightarrow> f32_far (fst previous) (fst current) \<or> f32_far (snd previous) (snd current)"

definition update_window_preferences :: "nat \<Rightarrow> datetime \<Rightarrow> (f32 \<times> f32) option \<Rightarrow> chat_app \<Rightarrow> chat_app" where
  "update_window_preferences ms now current s =
     (case current of
        None \<Rightarrow> s
      | Some sz \<Rightarrow>
          (let clamped = clamp_window_size sz;
               s1 = (if size_changed (ca_window s) clamped then s\<lparr>ca_window := clamped, ca_size_changed := Some ms\<rparr> else s) in
           case ca_size_changed s1 of
             Some t \<Rightarrow> if ms - t \<ge> 500 then (fst (persist_window_preferences now s1))\<lparr>ca_size_changed := None\<rparr> else s1
           | None \<Rightarrow> s1))"

definition escape_pressed :: "chat_app \<Rightarrow> chat_app" where
  "escape_pressed s =
     (let s1 = s\<lparr>ca_selected_message := None, ca_selected_source := None\<rparr> in
      if ca_stream_cancel s1 \<noteq> None then cancel_stream s1 else s1\<lparr>ca_settings_open := False\<rparr>)"

record frame_input =
  fi_ms :: nat
  fi_now :: datetime
  fi_walk :: "walk_entry list"
  fi_results :: "(async_result \<times> poll_ids) list"
  fi_size :: "(f32 \<times> f32) option"
  fi_close :: bool
  fi_shortcut :: bool
  fi_escape :: bool
  fi_ids :: switch_ids

text \<open>The start of \<open>update\<close>, before the panels are shown.\<close>

definition begin_frame :: "chat_env \<Rightarrow> platform \<Rightarrow> frame_input \<Rightarrow> chat_app \<Rightarrow> chat_app" where
  "begin_frame env pl fi s =
     (let s1 = poll_async env pl (fi_now fi) (fi_ms fi) (fi_walk fi) (fi_results fi) s;
          s2 = update_window_preferences (fi_ms fi) (fi_now fi) (fi_size fi) s1;
          s3 = fst (handle_close_requests (fi_ids fi) (fi_now fi) (fi_close fi) (fi_shortcut fi) s2) in
      if fi_escape fi then escape_pressed s3 else s3)"

definition drop_app :: "datetime \<Rightarrow> chat_app \<Rightarrow> chat_app" where
  "drop_app now s = fst (persist_window_preferences now (cancel_scan (cancel_stream s)))"

section \<open>Header, chat and repository bar\<close>

definition toggle_settings :: "switch_ids \<Rightarrow> datetime \<Rightarrow> chat_app \<Rightarrow> chat_app" where
  "toggle_settings ids now s =
     (if ca_settings_open s then request_dirty_action ids now CloseSettings s else s\<lparr>ca_settings_open := True\<rparr>)"

definition toggle_pin :: "datetime \<Rightarrow> chat_app \<Rightarrow> chat_app" where
  "toggle_pin now s = fst (persist_window_preferences now (s\<lparr>ca_pinned := \<not> ca_pinned s\<rparr>))"

text \<open>The composer: the text after the frame, the key events while it has the focus, and the button.\<close>

definition composer_frame ::
  "chat_env \<Rightarrow> submit_ids \<Rightarrow> datetime \<Rightarrow> string \<Rightarrow> key_event list \<Rightarrow> bool \<Rightarrow> bool \<Rightarrow> chat_app \<Rightarrow> chat_app" where
  "composer_frame env ids now input events focus clicked s =
     (let s1 = s\<lparr>ca_composer := input\<rparr>;
          keyboard = (focus \<and> composer_key_events_should_submit (ca_submit_mode s1) events);
          send = (clicked \<and> ca_active s1 = None \<and> \<not> ca_repository_busy s1 \<and> trim (ca_composer s1) \<noteq> []) in
      if send \<or> keyboard then submit_chat env ids now s1 else s1)"

definition stop_answer :: "chat_app \<Rightarrow> chat_app" where
  "stop_answer s = (if ca_active s \<noteq> None then cancel_stream s else s)"

definition stop_scan :: "chat_app \<Rightarrow> chat_app" where
  "stop_scan s = (if ca_repository_busy s then cancel_scan s else s)"

definition connect_repository :: "uuid \<Rightarrow> chat_app \<Rightarrow> chat_app" where
  "connect_repository generation s = (if ca_active s = None then begin_repository_scan generation s else s)"

text \<open>The box that allows sending excerpts, shown for a capable model whose provider needs a key.\<close>

definition approve_egress :: "bool \<Rightarrow> chat_app \<Rightarrow> chat_app" where
  "approve_egress v s =
     (if ca_repository s \<noteq> None \<and> repository_advisor s
         \<and> (case st_active (ca_setup s) of Some p \<Rightarrow> requires_api_key (bp_provider p) | None \<Rightarrow> False)
      then (let s1 = s\<lparr>ca_egress_approved := v\<rparr> in if v then s1 else cancel_stream s1) else s)"

definition select_grounding :: "uuid \<Rightarrow> chat_app \<Rightarrow> chat_app" where
  "select_grounding i s = (if ca_grounding s i \<noteq> None then s\<lparr>ca_selected_message := Some i\<rparr> else s)"

text \<open>The drawer with the sources of an answer: what was clicked in it, and whether it was closed.\<close>

definition grounding_drawer :: "source_ref option \<Rightarrow> bool \<Rightarrow> chat_app \<Rightarrow> chat_app" where
  "grounding_drawer clicked shut s =
     (case ca_selected_message s of
        None \<Rightarrow> s
      | Some i \<Rightarrow>
          (case ca_grounding s i of
             None \<Rightarrow> s\<lparr>ca_selected_message := None\<rparr>
           | Some t \<Rightarrow>
               (let s1 = (case clicked of Some r \<Rightarrow> if r \<in> set (gt_source_refs t) then s\<lparr>ca_selected_source := Some r\<rparr> else s
                          | None \<Rightarrow> s) in
                if shut then s1\<lparr>ca_selected_message := None, ca_selected_source := None\<rparr> else s1)))"

section \<open>The provider settings\<close>

record settings_panel =
  pn_profile :: backend_profile
  pn_persona :: persona_kind
  pn_remember :: bool
  pn_selected :: "string option"
  pn_discover :: bool
  pn_verify :: bool
  pn_activate :: bool
  pn_close :: bool

definition update_settings :: "'k \<times> settings_db \<Rightarrow> app_storage \<Rightarrow> chat_app \<Rightarrow> 'k \<times> chat_app" where
  "update_settings kd st s = (fst kd, s\<lparr>ca_storage := Some (st\<lparr>as_settings := snd kd\<rparr>)\<rparr>)"

text \<open>A change of the provider or its address drops the key, the consent and the running answer.\<close>

definition target_edited ::
  "'k secret_store \<Rightarrow> (uuid \<Rightarrow> string) \<Rightarrow> backend_profile \<Rightarrow> 'k \<times> chat_app \<Rightarrow> 'k \<times> chat_app" where
  "target_edited ss uuid_text previous ks =
     (case ks of (k, s) \<Rightarrow>
      let draft = st_draft (ca_setup s) in
      if bp_provider previous = bp_provider draft \<and> bp_base_url previous = bp_base_url draft then (k, s)
      else let s1 = (cancel_stream s)\<lparr>ca_egress_approved := False, ca_mode := ModeAdvisor,
                ca_setup := (ca_setup s)\<lparr>st_draft := draft\<lparr>bp_api_key := None\<rparr>\<rparr>, ca_remember := False\<rparr> in
        (case ca_storage s1 of
          None \<Rightarrow> (k, s1)
        | Some st \<Rightarrow> update_settings (fst (delete_profile_credential ss uuid_text (bp_id previous) (k, as_settings st))) st s1))"

definition draft_reconciled :: "backend_profile \<Rightarrow> chat_app \<Rightarrow> chat_app" where
  "draft_reconciled previous s =
     (let s1 = s\<lparr>ca_setup := reconcile_edit previous (ca_setup s)\<rparr> in
      if previous \<noteq> st_draft (ca_setup s1) then s1\<lparr>ca_auto_connect := None\<rparr> else s1)"

definition persona_chosen :: "prompt_assets \<Rightarrow> persona_kind \<Rightarrow> chat_app \<Rightarrow> chat_app" where
  "persona_chosen a previous s =
     (if ca_persona s \<noteq> previous \<and> is_ok (catalog_load a)
      then s\<lparr>ca_persona_draft := catalog_persona a (ca_persona s), ca_persona_custom := False, ca_prompt_dirty := True\<rparr> else s)"

definition model_chosen :: "string option \<Rightarrow> chat_app \<Rightarrow> chat_app" where
  "model_chosen selected s =
     (case selected of
        None \<Rightarrow> s
      | Some m \<Rightarrow>
          (case select_model m (ca_setup s) of
             (setup, Inl e) \<Rightarrow> s\<lparr>ca_setup := setup\<rparr>
           | (setup, Inr _) \<Rightarrow> (cancel_stream (s\<lparr>ca_setup := setup, ca_egress_approved := False\<rparr>))\<lparr>ca_mode := ModeAdvisor\<rparr>))"

text \<open>Activation stores the key and the profile first; a profile that is not stored takes its key with it.\<close>

definition persist_activation ::
  "'k secret_store \<Rightarrow> (uuid \<Rightarrow> string) \<Rightarrow> datetime \<Rightarrow> 'k \<times> chat_app \<Rightarrow> ('k \<times> chat_app) \<times> bool" where
  "persist_activation ss uuid_text now ks =
     (case ks of (k, s) \<Rightarrow>
      let draft = st_draft (ca_setup s) in
      (case ca_storage s of
        None \<Rightarrow> (ks, \<not> ca_remember s)
      | Some st \<Rightarrow>
          (case persist_credential ss uuid_text now draft (ca_remember s) (k, as_settings st) of
             (kd, Inl e) \<Rightarrow> (update_settings kd st s, False)
           | ((k1, d1), Inr _) \<Rightarrow>
               (case save_backend_profile now draft d1 of
                  Inl e \<Rightarrow> (update_settings (fst (delete_profile_credential ss uuid_text (bp_id draft) (k1, d1))) st s, False)
                | Inr d2 \<Rightarrow> (update_settings (k1, d2) st s, True)))))"

definition activate_clicked :: "'k secret_store \<Rightarrow> (uuid \<Rightarrow> string) \<Rightarrow> datetime \<Rightarrow> 'k \<times> chat_app \<Rightarrow> 'k \<times> chat_app" where
  "activate_clicked ss uuid_text now ks =
     (case persist_activation ss uuid_text now ks of
        (ks', False) \<Rightarrow> ks'
      | ((k, s), True) \<Rightarrow> (k, s\<lparr>ca_setup := fst (activate (ca_setup s))\<rparr>))"

definition settings_frame ::
  "chat_env \<Rightarrow> 'k secret_store \<Rightarrow> switch_ids \<Rightarrow> datetime \<Rightarrow> settings_panel \<Rightarrow> 'k \<times> chat_app \<Rightarrow> 'k \<times> chat_app" where
  "settings_frame env ss ids now pn ks =
     (case ks of (k, s) \<Rightarrow>
      let previous = st_draft (ca_setup s); previous_persona = ca_persona s;
          s1 = s\<lparr>ca_setup := (ca_setup s)\<lparr>st_draft := pn_profile pn\<rparr>, ca_persona := pn_persona pn, ca_remember := pn_remember pn\<rparr>;
          (k2, s2) = target_edited ss (ce_uuid_text env) previous (k, s1);
          s3 = model_chosen (pn_selected pn)
                 (persona_chosen (ce_assets env) previous_persona (draft_reconciled previous s2));
          s4 = (if pn_discover pn then begin_model_discovery s3 else s3);
          s5 = (if pn_verify pn then begin_model_verification s4 else s4);
          (k6, s6) = (if pn_activate pn then activate_clicked ss (ce_uuid_text env) now (k2, s5) else (k2, s5)) in
      (k6, if pn_close pn then request_dirty_action ids now CloseSettings s6 else s6))"

section \<open>The prompt settings\<close>

definition choose_submit_mode :: "datetime \<Rightarrow> composer_submit_mode \<Rightarrow> chat_app \<Rightarrow> chat_app" where
  "choose_submit_mode now m s =
     (if m \<noteq> ca_submit_mode s then fst (persist_window_preferences now (s\<lparr>ca_submit_mode := m\<rparr>)) else s)"

definition choose_preset :: "prompt_assets \<Rightarrow> system_preset \<Rightarrow> chat_app \<Rightarrow> chat_app" where
  "choose_preset a p s =
     (let s1 = s\<lparr>ca_base_preset := p\<rparr> in
      if p \<noteq> ca_base_preset s \<and> is_ok (catalog_load a)
      then s1\<lparr>ca_system_draft := catalog_system a p, ca_prompt_dirty := True\<rparr> else s1)"

datatype prompt_edit =
    EditSystem string
  | EditPersona string
  | LoadSystem prompt_content_version
  | LoadPersona prompt_content_version
  | FactoryReset
  | SystemDefault
  | PersonaDefault

fun edit_prompt :: "(string \<Rightarrow> string) \<Rightarrow> prompt_assets \<Rightarrow> prompt_edit \<Rightarrow> chat_app \<Rightarrow> chat_app" where
  "edit_prompt sha a (EditSystem t) s = s\<lparr>ca_system_draft := t, ca_prompt_dirty := True\<rparr>"
| "edit_prompt sha a (EditPersona t) s = s\<lparr>ca_persona_draft := t, ca_persona_custom := True, ca_prompt_dirty := True\<rparr>"
| "edit_prompt sha a (LoadSystem v) s =
     (case then_do (catalog_load a) (\<lambda>_. resolve_source sha a (pv_source v)) of
        Inr t \<Rightarrow> s\<lparr>ca_system_draft := t, ca_prompt_dirty := True\<rparr> | Inl e \<Rightarrow> s)"
| "edit_prompt sha a (LoadPersona v) s =
     (case then_do (catalog_load a) (\<lambda>_. resolve_source sha a (pv_source v)) of
        Inr t \<Rightarrow> (let (k, custom) = persona_selection_from_source (pv_source v) in
          s\<lparr>ca_persona := k, ca_persona_custom := custom, ca_persona_draft := t, ca_prompt_dirty := True\<rparr>)
      | Inl e \<Rightarrow> s)"
| "edit_prompt sha a FactoryReset s =
     (if is_ok (catalog_load a)
      then s\<lparr>ca_system_draft := catalog_system a (ca_base_preset s), ca_persona_draft := catalog_persona a (ca_persona s),
             ca_persona_custom := False, ca_prompt_dirty := True\<rparr> else s)"
| "edit_prompt sha a SystemDefault s =
     (if is_ok (catalog_load a) then s\<lparr>ca_system_draft := catalog_system a (ca_base_preset s), ca_prompt_dirty := True\<rparr> else s)"
| "edit_prompt sha a PersonaDefault s =
     (if is_ok (catalog_load a)
      then s\<lparr>ca_persona_draft := catalog_persona a (ca_persona s), ca_persona_custom := False, ca_prompt_dirty := True\<rparr> else s)"

definition apply_clicked ::
  "(string \<Rightarrow> string) \<Rightarrow> prompt_assets \<Rightarrow> fresh_ids \<Rightarrow> datetime \<Rightarrow> chat_app \<Rightarrow> chat_app" where
  "apply_clicked sha a ids now s =
     (if ca_prompt_dirty s \<and> ca_storage s \<noteq> None then apply_prompt_settings sha a ids now s else s)"

definition cancel_edits :: "(string \<Rightarrow> string) \<Rightarrow> prompt_assets \<Rightarrow> chat_app \<Rightarrow> chat_app" where
  "cancel_edits sha a s = (if ca_prompt_dirty s then reload_prompt_settings sha a s else s)"

text \<open>The two steps of deleting the conversation.\<close>

datatype delete_step = AskDelete | CancelDelete | ConfirmDelete "string list result" uuid switch_ids datetime

fun delete_clicked :: "delete_step \<Rightarrow> chat_app \<Rightarrow> chat_app" where
  "delete_clicked AskDelete s = s\<lparr>ca_delete_open := True\<rparr>"
| "delete_clicked CancelDelete s = s\<lparr>ca_delete_open := False\<rparr>"
| "delete_clicked (ConfirmDelete removed operation ids now) s =
     (if ca_delete_open s then delete_current_conversation removed operation ids now s else s)"

end
