(* ===== verification/Chat_Invariant.thy ===== *)
theory Chat_Invariant
  imports Chat_Frame Storage_Contract Grounding_Contract
begin

text \<open>
  The runs of the chat application: the actions of the user and the frames of the window, interleaved with the
  database operations of the background tasks, and the invariant they keep: the database stays reachable, and a
  turn that is active can be cancelled, shows its text in an open message and is open in the database.
\<close>

section \<open>An open turn in the database\<close>

definition turn_open :: "db \<Rightarrow> active_turn \<Rightarrow> bool" where
  "turn_open d a \<longleftrightarrow> (\<exists>t \<in> set (db_turns d). turn_id t = at_turn_id a \<and> turn_completed_at t = None)
     \<and> (\<exists>m. answers_of d (at_turn_id a) = [m] \<and> mr_id m = at_message_id a)"

text \<open>The operations that close or remove no turn.\<close>

fun quiet :: "db_op \<Rightarrow> bool" where
  "quiet (OpDelete removed operation now i) \<longleftrightarrow> False"
| "quiet (OpFinish rid u) \<longleftrightarrow> False"
| "quiet (OpFinishGrounded now rid t u) \<longleftrightarrow> False"
| "quiet (OpStart owner pid now) \<longleftrightarrow> False"
| "quiet _ \<longleftrightarrow> True"

text \<open>Those of the tasks that run beside the window: the writer of deltas and the egress gate.\<close>

fun task_op :: "db_op \<Rightarrow> bool" where
  "task_op (OpDelta now i delta) \<longleftrightarrow> True"
| "task_op (OpPrepareReceipt owner r) \<longleftrightarrow> True"
| "task_op (OpCas now ids expected nxt) \<longleftrightarrow> True"
| "task_op _ \<longleftrightarrow> False"

lemma task_op_quiet: "task_op op \<Longrightarrow> quiet op"
  by (cases op) simp_all

lemma turn_open_frame:
  assumes "db_turns d' = db_turns d" and "db_messages d' = db_messages d" and "turn_open d a"
  shows "turn_open d' a"
  using assms by (simp add: turn_open_def answers_of_def)

lemma turn_open_update:
  assumes "db_turns d' = db_turns d" and "db_messages d' = update_where p f (db_messages d)" and "keeps_message f"
    and "turn_open d a"
  shows "turn_open d' a"
proof -
  have "answers_of d' i = update_where p f (answers_of d i)" for i
    using assms(2,3) by (simp add: answers_of_def filter_update_where)
  moreover obtain m where "answers_of d (at_turn_id a) = [m]" "mr_id m = at_message_id a"
    using assms(4) by (auto simp: turn_open_def)
  ultimately have "answers_of d' (at_turn_id a) = [if p m then f m else m] \<and> mr_id (if p m then f m else m) = at_message_id a"
    using assms(3) by (simp add: update_where_single)
  then show ?thesis using assms(1,4) unfolding turn_open_def by metis
qed

lemma turn_open_begins:
  assumes "begin_turn s d = Inr d'" and "structure_ok d"
  shows "turn_open d a \<Longrightarrow> turn_open d' a"
    and "at_turn_id b = turn_id (ts_turn s) \<Longrightarrow> at_message_id b = msg_id (ts_assistant_placeholder s) \<Longrightarrow> turn_open d' b"
  using begin_turn_exact(3) [OF assms(1)] begin_turn_answers [OF assms]
  by (auto simp: turn_open_def message_row_of_def)

lemma quiet_turn_open:
  assumes "exec_op op d = Inr d'" and "quiet op" and "structure_ok d" and "turn_open d a"
  shows "turn_open d' a"
proof (cases op)
  case (OpAddProfile i)
  show ?thesis by (rule turn_open_frame [OF _ _ assms(4)]) (use assms(1) in \<open>auto simp: OpAddProfile\<close>)
next
  case (OpCreate i now draft)
  then obtain c where "create_conversation i now draft d = Inr (d', c)"
    using assms(1) by (auto simp only: exec_op.simps then_do_Inr sum.inject fst_conv)
  then show ?thesis
    using create_conversation_Ephemeral [of draft i now d d' c] create_conversation_Inr [of draft i now d d' c]
    by (intro turn_open_frame [OF _ _ assms(4)]; cases "nc_persistence draft = Ephemeral") simp_all
next
  case (OpBind now conv repo snap)
  show ?thesis by (rule turn_open_frame [OF _ _ assms(4)]) (use assms(1) in \<open>simp_all add: OpBind bind_Inr\<close>)
next
  case (OpBegin s)
  then show ?thesis using turn_open_begins(1) assms by (simp only: exec_op.simps)
next
  case (OpDelta now i delta)
  then have "append_assistant_delta now i delta d = Inr d'" using assms(1) by (simp only: exec_op.simps)
  then show ?thesis unfolding delta_Inr
    by (intro turn_open_update [OF _ _ keeps_delta assms(4)]) (elim conjE, simp)+
next
  case (OpPrepareTrace now t)
  then have w: "write_grounding_trace now t d = Inr d'"
    using assms(1) by (simp only: exec_op.simps prepare_grounding_trace_def)
  show ?thesis by (rule turn_open_frame [OF write_trace_frame(1,2) [OF w] assms(4)])
next
  case (OpMarkChanged now snap)
  then have m: "mark_snapshot_changed now snap d = Inr d'" using assms(1) by (simp only: exec_op.simps)
  obtain ts p f where d': "d' = d\<lparr>db_traces := ts, db_messages := update_where p (\<lambda>m. m\<lparr>mr_freshness := f\<rparr>) (db_messages d)\<rparr>"
    by (rule that [OF m [unfolded mark_snapshot_changed_def Let_def sum.inject, symmetric]])
  show ?thesis by (rule turn_open_update [OF _ _ keeps_freshness assms(4)]) (simp_all add: d')
next
  case (OpSaveConsent s)
  show ?thesis by (rule turn_open_frame [OF _ _ assms(4)]) (use assms(1) in \<open>simp_all add: OpSaveConsent save_consent_Inr\<close>)
next
  case (OpRevoke now i)
  show ?thesis by (rule turn_open_frame [OF _ _ assms(4)]) (use assms(1) in \<open>auto simp: OpRevoke revoke_repository_consent_def\<close>)
next
  case (OpPrepareReceipt owner r)
  show ?thesis by (rule turn_open_frame [OF _ _ assms(4)]) (use assms(1) in \<open>simp_all add: OpPrepareReceipt prepare_receipt_row_Inr\<close>)
next
  case (OpCas now ids expected nxt)
  then obtain rows where "d' = d\<lparr>db_receipts := rows\<rparr>" using assms(1) by (auto simp only: exec_op.simps cas_Inr)
  then show ?thesis by (intro turn_open_frame [OF _ _ assms(4)]) simp_all
next
  case (OpStop owner)
  show ?thesis by (rule turn_open_frame [OF _ _ assms(4)]) (use assms(1) in \<open>auto simp: OpStop release_runtime_ownership_def\<close>)
qed (use assms(2) in simp_all)

text \<open>A terminal that is not an audit result closes an open turn; every terminal leaves its values in the answer.\<close>

lemma turn_open_finishes:
  assumes "turn_open d a" and "structure_ok d" "content_ok d"
    and "tu_turn_id u = at_turn_id a" "tu_message_id u = at_message_id a" "\<not> is_AuditCompleted u"
  shows "is_ok (finish_turn rid u d)"
proof -
  obtain t m where t: "t \<in> set (db_turns d)" "turn_completed_at t = None" "turn_id t = at_turn_id a"
    and ans: "answers_of d (at_turn_id a) = [m]" "mr_id m = at_message_id a"
    using assms(1) by (auto simp: turn_open_def)
  obtain m' where m': "m' \<in> set (db_messages d)" "mr_turn m' = turn_id t" "mr_role m' = ''Assistant''"
    and close: "\<And>f g. is_ok (close_turn (turn_id t) (mr_id m') f g d)"
    by (rule open_turn_closes [OF assms(2,3) t(1,2)]) (rule that)
  have "m' \<in> set (answers_of d (at_turn_id a))" using m' t(3) by (simp add: answers_of_def)
  then have "mr_id m' = at_message_id a" using ans by simp
  then show ?thesis
    using close assms(4-6) t(3) by (cases rule: apply_terminal_cases [of u]) (simp_all add: finish_turn_def)
qed

lemma closed_by_values:
  assumes "close_turn turn message (set_terminal v ts) g d = Inr d'" and "structure_ok d" "content_ok d"
    and "fst (snd v) \<noteq> ''Pending''" "fst (snd v) \<noteq> ''Streaming''"
  shows "answer_of d' turn = Some (Storage_Contract.Answered (fst (snd v)) (fst (snd (snd v))) (fst v))"
proof -
  have turns: "\<forall>t \<in> set (db_turns d). turn_ok d t" using assms(3) by (simp add: content_ok_def)
  obtain m where "answers_of d' turn = [set_terminal v ts m]"
    by (rule close_turn_exact [OF assms(1,2) turns keeps_set_terminal]) (rule that)
  then show ?thesis using assms(4,5) by (simp add: answer_of_def answer_row_def set_terminal_def open_status_def split: prod.splits)
qed

lemma finished_answer:
  assumes "apply_terminal_update rid u d = Inr d'" and "structure_ok d" "content_ok d"
  shows "answer_of d' (tu_turn_id u)
    = Some (Storage_Contract.Answered (fst (snd (terminal_values u))) (fst (snd (snd (terminal_values u)))) (fst (terminal_values u)))"
proof (cases u)
  case (AuditCompleted turn message b trace fr ts)
  let ?d = "d\<lparr>db_audits := db_audits d @ [\<lparr> au_id = rid, au_turn = turn, au_schema_version = ''answer_bundle.v1'',
          au_bundle = b, au_created_at = ts \<rparr>]\<rparr>"
  obtain t where t: "List.find (\<lambda>t. turn_id t = turn) (db_turns d) = Some t"
    and new: "rid \<notin> au_id ` set (db_audits d)" "turn \<notin> au_turn ` set (db_audits d)"
    and close: "close_turn turn message (set_terminal ([], ''Completed'', None, Some trace, Some fr) ts)
        (\<lambda>x. x\<lparr>turn_audit_result_id := Some rid, turn_completed_at := Some ts\<rparr>) ?d = Inr d'"
    using assms(1) unfolding AuditCompleted apply_terminal_update.simps apply_audit_Inr by blast
  have s: "structure_ok ?d" by (rule audit_insert_structure) (use assms(2) new find_Some_set [OF t] in auto)
  have turns: "\<forall>t \<in> set (db_turns ?d). turn_ok ?d t"
    using content_okD(1) [OF assms(3)] by (simp add: turn_ok_def answers_of_def)
  obtain m where "answers_of d' turn = [set_terminal ([], ''Completed'', None, Some trace, Some fr) ts m]"
    by (rule close_turn_exact [OF close s turns keeps_set_terminal]) (rule that)
  then show ?thesis by (simp add: AuditCompleted answer_of_def answer_row_def set_terminal_def open_status_def)
qed (use assms in \<open>auto dest!: closed_by_values\<close>)

section \<open>The invariant\<close>

definition shows_open :: "chat_message list \<Rightarrow> active_turn \<Rightarrow> bool" where
  "shows_open ms a \<longleftrightarrow> (\<exists>m. List.find (\<lambda>m. msg_id m = at_message_id a) ms = Some m
     \<and> msg_markdown m = at_accumulated a \<and> msg_status m \<in> {MsgPending, MsgStreaming})"

text \<open>
  An agent that may send excerpts of a repository to a provider with a key holds a gate whose consent is for the
  conversation, the repository and the snapshot of its request, and a trace to record under.
\<close>

definition gated :: "agent_start \<Rightarrow> bool" where
  "gated ag \<longleftrightarrow> (requires_api_key (bp_provider (ar_profile (ag_request ag))) \<and> ag_gateway ag \<noteq> None \<longrightarrow>
     ag_trace ag \<noteq> None \<and> (\<exists>cap ctx. ag_gate ag = Some cap \<and> ar_repository_context (ag_request ag) = Some ctx
       \<and> cs_conversation_id (cap_scope cap) = ar_conversation_id (ag_request ag)
       \<and> cs_repository_id (cap_scope cap) = rc_repository_id ctx \<and> cs_snapshot_id (cap_scope cap) = rc_snapshot_id ctx
       \<and> cs_revoked_at (cap_scope cap) = None))"

fun agent_of :: "app_task \<Rightarrow> agent_start option" where
  "agent_of (TaskAgent ag) = Some ag"
| "agent_of _ = None"

text \<open>What the invariant is about: database, active turn, token, messages, mode and the agents spawned.\<close>

record app_view =
  av_db :: "db option"
  av_active :: "active_turn option"
  av_token :: bool
  av_messages :: "chat_message list"
  av_mode :: conversation_mode
  av_agents :: "agent_start list"

definition view :: "chat_app \<Rightarrow> app_view" where
  "view s = \<lparr> av_db = map_option as_db (ca_storage s), av_active = ca_active s, av_token = (ca_stream_cancel s \<noteq> None),
     av_messages = conv_messages (ca_conversation s), av_mode = ca_mode s,
     av_agents = List.map_filter agent_of (ca_tasks s) \<rparr>"

definition active_ok :: "app_view \<Rightarrow> active_turn \<Rightarrow> bool" where
  "active_ok v a \<longleftrightarrow> av_token v \<and> at_contract a = ContractAdvisor \<and> shows_open (av_messages v) a
     \<and> (\<forall>d. av_db v = Some d \<longrightarrow> turn_open d a)"

definition view_ok :: "app_view \<Rightarrow> bool" where
  "view_ok v \<longleftrightarrow> (\<forall>d. av_db v = Some d \<longrightarrow> reachable d) \<and> av_mode v = ModeAdvisor
     \<and> (\<forall>a. av_active v = Some a \<longrightarrow> active_ok v a) \<and> (\<forall>ag \<in> set (av_agents v). gated ag)"

abbreviation app_ok :: "chat_app \<Rightarrow> bool" where
  "app_ok s \<equiv> view_ok (view s)"

lemma view_okI:
  assumes "\<And>d. av_db v = Some d \<Longrightarrow> reachable d" and "av_mode v = ModeAdvisor" and "\<And>a. av_active v = Some a \<Longrightarrow> active_ok v a"
    and "\<And>ag. ag \<in> set (av_agents v) \<Longrightarrow> gated ag"
  shows "view_ok v"
  using assms by (simp add: view_ok_def)

lemma view_sel:
  "av_db (view s) = map_option as_db (ca_storage s)" "av_active (view s) = ca_active s"
  "av_token (view s) = (ca_stream_cancel s \<noteq> None)" "av_messages (view s) = conv_messages (ca_conversation s)"
  "av_mode (view s) = ca_mode s" "av_agents (view s) = List.map_filter agent_of (ca_tasks s)"
  by (simp_all add: view_def)

lemma app_okD:
  assumes "app_ok s"
  shows "ca_storage s = Some st \<Longrightarrow> reachable (as_db st)" and "ca_mode s = ModeAdvisor"
    and "ca_active s = Some a \<Longrightarrow> active_ok (view s) a" and "ag \<in> set (List.map_filter agent_of (ca_tasks s)) \<Longrightarrow> gated ag"
  using assms by (simp_all add: view_ok_def view_sel)

lemma active_ok_view: "active_ok (view s) a \<longleftrightarrow> ca_stream_cancel s \<noteq> None \<and> at_contract a = ContractAdvisor
    \<and> shows_open (conv_messages (ca_conversation s)) a \<and> (\<forall>st. ca_storage s = Some st \<longrightarrow> turn_open (as_db st) a)"
  by (auto simp: active_ok_def view_def)

text \<open>Without an active turn only the database and the mode count.\<close>

lemma view_ok_idle:
  assumes "view_ok v" and "av_active w = None" and "av_mode w = ModeAdvisor" and "av_agents w = av_agents v"
    and "\<And>d'. av_db w = Some d' \<Longrightarrow> reachable d'"
  shows "view_ok w"
  using assms by (simp add: view_ok_def)

lemma view_spawn [simp]: "agent_of t = None \<Longrightarrow> view (spawn_task t s) = view s"
  by (simp add: view_def spawn_task_def map_filter_def)

lemma view_cancel [simp]: "view (cancel_stream s) = view s" "view (cancel_scan s) = view s"
  by (simp_all add: view_def cancel_stream_def cancel_scan_def)

lemma view_window [simp]: "view (fst (persist_window_preferences now s)) = view s"
  by (simp add: view_def persist_window_preferences_def split: option.split sum.split)

lemma view_reload [simp]: "view (reload_prompt_settings sha a s) = view s"
  by (simp add: view_def reload_prompt_settings_def Let_def split: option.split sum.split prod.split)

lemma view_note_persona [simp]: "view (note_persona a s) = view s"
  by (simp add: view_def note_persona_def split: option.split)

lemma storage_note_persona [simp]: "ca_storage (note_persona a s) = ca_storage s"
  by (simp add: note_persona_def split: option.split)

lemma view_apply [simp]: "view (apply_prompt_settings sha a ids now s) = view s"
proof -
  have "view (s'\<lparr>ca_storage := Some (st\<lparr>as_prompts := d\<rparr>), ca_prompt_dirty := False\<rparr>) = view s'" if "ca_storage s' = Some st" for s' st d
    using that by (simp add: view_def)
  then show ?thesis by (simp add: apply_prompt_settings_def Let_def split: option.split sum.split prod.split)
qed

lemma view_discovery [simp]: "view (begin_model_discovery s) = view s"
  by (simp add: begin_model_discovery_def split: prod.split) (simp add: view_def)

lemma view_verification [simp]: "view (begin_model_verification s) = view s"
  by (simp add: begin_model_verification_def split: sum.split) (simp add: view_def)

lemma view_pick [simp]: "view (begin_repository_scan g s) = view s"
  by (simp add: begin_repository_scan_def) (simp add: view_def)

lemma view_setup [simp]: "view (s\<lparr>ca_setup := x\<rparr>) = view s" "view (s\<lparr>ca_provider_busy := b\<rparr>) = view s"
  "view (s\<lparr>ca_auto_connect := p\<rparr>) = view s" "view (s\<lparr>ca_composer := t\<rparr>) = view s"
  "view (s\<lparr>ca_settings_open := b\<rparr>) = view s" "view (s\<lparr>ca_consent_scope := c\<rparr>) = view s"
  "view (s\<lparr>ca_repository := r\<rparr>) = view s" "view (s\<lparr>ca_repository_busy := b\<rparr>) = view s"
  "view (s\<lparr>ca_egress_approved := b\<rparr>) = view s" "view (s\<lparr>ca_grounding := g\<rparr>) = view s"
  "view (s\<lparr>ca_dirty_action := da\<rparr>) = view s" "view (s\<lparr>ca_prompt_dirty := b\<rparr>) = view s"
  "view (s\<lparr>ca_delete_open := b\<rparr>) = view s" "view (s\<lparr>ca_audit := h\<rparr>) = view s"
  "view (s\<lparr>ca_repository_cancel := k\<rparr>) = view s" "view (s\<lparr>ca_scan_generation := i\<rparr>) = view s"
  "view (s\<lparr>ca_selected_message := sm\<rparr>) = view s" "view (s\<lparr>ca_selected_source := sr\<rparr>) = view s"
  by (simp_all add: view_def)

section \<open>Storage operations\<close>

lemma store_op_cases:
  obtains (skipped) "ca_storage s = None" "store_op op s = (s, Inr ())"
  | (failed) st e where "ca_storage s = Some st" "exec_op op (as_db st) = Inl e" "store_op op s = (s, Inl e)"
  | (stored) st d where "ca_storage s = Some st" "exec_op op (as_db st) = Inr d"
      "store_op op s = (s\<lparr>ca_storage := Some (st\<lparr>as_db := d\<rparr>)\<rparr>, Inr ())"
  by (cases "ca_storage s"; cases "exec_op op (as_db (the (ca_storage s)))")
    (auto simp: store_op_def)

lemma store_op_fields [simp]:
  "ca_active (fst (store_op op s)) = ca_active s" "ca_mode (fst (store_op op s)) = ca_mode s"
  "ca_conversation (fst (store_op op s)) = ca_conversation s" "ca_stream_cancel (fst (store_op op s)) = ca_stream_cancel s"
  "ca_tasks (fst (store_op op s)) = ca_tasks s"
  by (cases rule: store_op_cases [of s op]; simp)+

lemma store_op_view:
  "view (fst (store_op op s)) = (view s)\<lparr>av_db := map_option as_db (ca_storage (fst (store_op op s)))\<rparr>"
  by (cases rule: store_op_cases [of s op]) (simp_all add: view_def)

lemma store_op_reachable:
  assumes "app_ok s" and "ca_storage (fst (store_op op s)) = Some st"
  shows "reachable (as_db st)"
  using assms by (cases rule: store_op_cases [of s op]) (auto simp: view_ok_def view_def intro: reachable_step)

lemma store_quiet_ok:
  assumes "app_ok s" and "quiet op"
  shows "app_ok (fst (store_op op s))"
proof (rule view_okI)
  fix a assume a: "av_active (view (fst (store_op op s))) = Some a"
  then have ok: "active_ok (view s) a" using assms(1) by (simp add: store_op_view) (simp add: view_ok_def)
  show "active_ok (view (fst (store_op op s))) a"
  proof (cases rule: store_op_cases [of s op])
    case (stored st d)
    have "reachable (as_db st)" "turn_open (as_db st) a"
      using assms(1) ok stored(1) by (simp_all add: view_ok_def active_ok_def view_def)
    then have "turn_open d a" using quiet_turn_open [OF stored(2) assms(2)] reachable_ok by blast
    then show ?thesis using ok stored(3) by (simp add: active_ok_def view_def)
  qed (use ok in simp_all)
qed (use assms(1) store_op_reachable [OF assms(1)] in \<open>auto simp: store_op_view view_ok_def\<close>)

lemma store_idle_ok:
  assumes "app_ok s" and "ca_active s = None"
  shows "app_ok (fst (store_op op s))"
  by (rule view_ok_idle [OF assms(1)])
    (use assms store_op_reachable [OF assms(1)] in \<open>auto simp: view_def view_ok_def\<close>)

lemma revoke_ok: "app_ok s \<Longrightarrow> app_ok (fst (revoke_active_scope now s))"
  by (cases "ca_consent_scope s") (simp_all add: revoke_active_scope_def store_quiet_ok)

lemma fail_replaced_ok:
  assumes "app_ok s"
  shows "app_ok (fst (fail_replaced_turn i now s))" and "ca_active (fst (fail_replaced_turn i now s)) = None"
proof -
  have "app_ok (s\<lparr>ca_active := None\<rparr>)" by (rule view_ok_idle [OF assms]) (use assms in \<open>simp_all add: view_def view_ok_def\<close>)
  then show "app_ok (fst (fail_replaced_turn i now s))" "ca_active (fst (fail_replaced_turn i now s)) = None"
    using assms store_idle_ok by (simp_all add: fail_replaced_turn_def split: option.split)
qed

lemma ensure_ok:
  assumes "app_ok s" and "ca_active s = None"
  shows "app_ok (ensure_durable_conversation i now s)" and "ca_active (ensure_durable_conversation i now s) = None"
proof -
  let ?draft = "\<lparr> nc_repository_id = None, nc_active_snapshot_id = None, nc_prompt_profile_id = ca_profile_id s, nc_persistence = Durable \<rparr>"
  have step: "reachable d" if "ca_storage s = Some st" "create_conversation i now ?draft (as_db st) = Inr (d, c)" for st d c
  proof -
    have "reachable (as_db st)" using assms(1) that(1) by (simp add: view_ok_def view_def)
    then show ?thesis using reachable_step [of "as_db st" "OpCreate i now ?draft"] that(2) by simp
  qed
  show "ca_active (ensure_durable_conversation i now s) = None"
    using assms(2) by (simp add: ensure_durable_conversation_def split: option.split sum.split prod.split)
  then show "app_ok (ensure_durable_conversation i now s)"
    by (intro view_ok_idle [OF assms(1)])
      (use assms step in \<open>auto simp: view_def view_ok_def ensure_durable_conversation_def split: option.splits sum.splits prod.splits\<close>)
qed

section \<open>Conversations and closing\<close>

lemma fresh_ok:
  assumes "app_ok s" and "ca_active s = None"
  shows "app_ok (fresh_conversation ids now s)"
  unfolding fresh_conversation_def
  by (rule ensure_ok(1)) (use assms in \<open>auto simp: view_def view_ok_def\<close>)

lemma start_new_ok:
  assumes "app_ok s"
  shows "app_ok (start_new_conversation ids now s)"
proof -
  obtain s1 r1 where r1: "revoke_active_scope now s = (s1, r1)" by fastforce
  obtain s2 r2 where r2: "fail_replaced_turn (wi_result ids) now (cancel_stream s1) = (s2, r2)" by fastforce
  have s1: "app_ok s1" using revoke_ok [OF assms, of now] r1 by simp
  then have "app_ok s2" "ca_active s2 = None"
    using fail_replaced_ok [of "cancel_stream s1" "wi_result ids" now] r2 by simp_all
  then show ?thesis using s1 fresh_ok by (simp add: start_new_conversation_def r1 r2 split: sum.split)
qed

lemma delete_ok:
  assumes "app_ok s"
  shows "app_ok (delete_current_conversation removed operation ids now s)"
proof -
  let ?s = "cancel_scan (cancel_stream s)"
  obtain s2 r2 where r2: "store_op (OpDelete removed operation now (conv_id (ca_conversation ?s))) ?s = (s2, r2)" by fastforce
  have "app_ok s2" if "ca_active ?s = None" using store_idle_ok [OF _ that] assms r2 by (metis fst_conv view_cancel)
  then show ?thesis using assms start_new_ok
    by (simp add: delete_current_conversation_def Let_def r2 split: sum.split)
qed

lemma execute_ok:
  assumes "app_ok s"
  shows "app_ok (execute_dirty_action ids now action s)"
proof (cases action)
  case CloseApp
  obtain s1 r1 where r1: "persist_window_preferences now (cancel_scan (cancel_stream s)) = (s1, r1)" by fastforce
  then have "view s1 = view s" using view_window [of now "cancel_scan (cancel_stream s)"] by simp
  then show ?thesis using assms by (simp add: execute_dirty_action_def CloseApp r1 split: sum.split)
qed (use assms start_new_ok in \<open>simp_all add: execute_dirty_action_def\<close>)

lemma request_ok: "app_ok s \<Longrightarrow> app_ok (request_dirty_action ids now action s)"
  by (simp add: request_dirty_action_def execute_ok)

lemma answer_dirty_ok: "app_ok s \<Longrightarrow> app_ok (answer_dirty_prompt sha a ids now answer s)"
  by (simp add: answer_dirty_prompt_def execute_ok split: option.split dirty_answer.split)

lemma close_requests_ok: "app_ok s \<Longrightarrow> app_ok (fst (handle_close_requests ids now native shortcut s))"
  by (simp add: handle_close_requests_def request_ok)

section \<open>Scans and provider results\<close>

lemma no_messages_idle: "app_ok s \<Longrightarrow> conv_messages (ca_conversation s) = [] \<Longrightarrow> ca_active s = None"
  by (cases "ca_active s") (simp_all add: view_ok_def active_ok_def shows_open_def view_def)

lemma ensure_empty_ok:
  "app_ok s \<Longrightarrow> conv_messages (ca_conversation s) = [] \<Longrightarrow> app_ok (ensure_durable_conversation i now s)"
  using ensure_ok(1) no_messages_idle by blast

lemma scan_path_ok:
  assumes "app_ok s"
  shows "app_ok (scan_repository_path pl ids now path s)"
  using assms by (simp add: scan_repository_path_def Let_def ensure_empty_ok split: sum.split)

lemma catalog_ok: "app_ok s \<Longrightarrow> app_ok (handle_catalog requested fetched s)"
  by (simp add: handle_catalog_def Let_def split: sum.split prod.split)

lemma verification_ok: "app_ok s \<Longrightarrow> app_ok (handle_verification requested verified s)"
  by (simp add: handle_verification_def Let_def split: sum.split prod.split)

lemma quiet_db_ok:
  assumes "view_ok v" and "av_db v = Some d" and "exec_op op d = Inr d'" and "quiet op"
  shows "view_ok (v\<lparr>av_db := Some d'\<rparr>)"
proof -
  have r: "reachable d" using assms(1,2) by (simp add: view_ok_def)
  have "turn_open d' a" if "turn_open d a" for a
    using quiet_turn_open [OF assms(3,4) _ that] reachable_ok [OF r] by blast
  then show ?thesis using assms(1,2) reachable_step [OF r assms(3)] by (simp add: view_ok_def active_ok_def)
qed

lemma persist_scan_view:
  assumes "persist_scan canon now conv se snap st = (st', r)"
  obtains "as_db st' = as_db st" | "exec_op (OpBind now conv (snap_repo_id snap) (snap_id snap)) (as_db st) = Inr (as_db st')"
  using assms by (auto simp: persist_scan_def split: sum.splits)

lemma view_bind: "view (bind_repository se snap files st now s) = (view s)\<lparr>av_mode := ModeAdvisor\<rparr>"
  by (simp add: bind_repository_def view_def)

lemma scan_result_ok:
  assumes "app_ok s"
  shows "app_ok (handle_scan canon now conv generation se scanned start s)"
proof -
  have bound: "app_ok (bind_repository se snap files start now t)" if "app_ok t" for snap files t
    using that by (simp add: view_bind view_ok_def active_ok_def)
  have stored: "app_ok (t\<lparr>ca_storage := Some st'\<rparr>)"
    if t: "app_ok t" "ca_storage t = Some st" "persist_scan canon now c se snap st = (st', r)" for t st st' snap r c
    using t(3)
  proof (cases rule: persist_scan_view)
    case 1
    then have "view (t\<lparr>ca_storage := Some st'\<rparr>) = view t" using t(2) by (simp add: view_def)
    then show ?thesis using t(1) by simp
  next
    case 2
    have "view (t\<lparr>ca_storage := Some st'\<rparr>) = (view t)\<lparr>av_db := Some (as_db st')\<rparr>" by (simp add: view_def)
    then show ?thesis using quiet_db_ok [OF t(1) _ 2] t(2) by (simp add: view_def)
  qed
  show ?thesis
    using assms bound stored by (simp add: handle_scan_def Let_def split: sum.split prod.split option.split)
qed

section \<open>Submitting\<close>

definition opened :: "active_turn \<Rightarrow> conversation \<Rightarrow> chat_app \<Rightarrow> bool" where
  "opened a c s \<longleftrightarrow> app_ok s \<and> ca_active s = None \<and> ca_conversation s = c
     \<and> (\<forall>st. ca_storage s = Some st \<longrightarrow> turn_open (as_db st) a)"

lemma opened_quiet:
  assumes "opened a c s" and "quiet op"
  shows "opened a c (fst (store_op op s))"
proof (cases rule: store_op_cases [of s op])
  case (stored st d)
  then have "reachable (as_db st)" "turn_open (as_db st) a" using assms(1) by (simp_all add: opened_def view_ok_def view_def)
  then have "turn_open d a" using quiet_turn_open [OF stored(2) assms(2)] reachable_ok by blast
  then show ?thesis
    using stored assms store_quiet_ok [of s op] by (simp add: opened_def)
qed (use assms in simp_all)

lemma opened_begin:
  assumes "app_ok s" and "ca_active s = None" and "store_op (OpBegin ts) s = (s', Inr ())"
    and "at_turn_id a = turn_id (ts_turn ts)" "at_message_id a = msg_id (ts_assistant_placeholder ts)"
  shows "opened a (ca_conversation s) s'"
proof (cases rule: store_op_cases [of s "OpBegin ts"])
  case (stored st d)
  have "reachable (as_db st)" using assms(1) stored(1) by (simp add: view_ok_def view_def)
  then have "turn_open d a"
    using turn_open_begins(2) [of ts "as_db st" d a] stored(2) assms(4,5) reachable_ok by simp
  then show ?thesis
    using stored assms store_idle_ok [OF assms(1,2), of "OpBegin ts"] by (auto simp: opened_def)
qed (use assms in \<open>auto simp: opened_def\<close>)

lemma fail_started_ok: "app_ok s \<Longrightarrow> ca_active s = None \<Longrightarrow> app_ok (fail_started_turn ids now code safe s)"
  by (simp add: fail_started_turn_def store_idle_ok)

lemma prepare_trace_ok:
  assumes "opened a c s" and "prepare_trace ids now dt s = (s', r)"
  shows "app_ok s'" and "r \<noteq> None \<Longrightarrow> opened a c s'" and "r = Some trace \<Longrightarrow> dt_repository dt \<noteq> None \<Longrightarrow> trace \<noteq> None"
proof -
  show "r = Some trace \<Longrightarrow> dt_repository dt \<noteq> None \<Longrightarrow> trace \<noteq> None"
    using assms(2) by (auto simp: prepare_trace_def split: sum.splits prod.splits)
  have q: "opened a c (fst (store_op (OpPrepareTrace now t) s))" for t by (rule opened_quiet [OF assms(1)]) simp
  then have q': "opened a c t" if "store_op (OpPrepareTrace now tr) s = (t, x)" for t tr x using that by (metis fst_conv)
  have k: "app_ok t" "ca_active t = None" if "opened a c t" for t using that by (simp_all add: opened_def)
  have "app_ok s' \<and> (r \<noteq> None \<longrightarrow> opened a c s')"
  proof (cases "dt_repository dt")
    case None
    then have "s' = s" using assms(2) by (simp add: prepare_trace_def)
    then show ?thesis using assms(1) k by simp
  next
    case (Some b)
    obtain t x where op: "store_op (OpPrepareTrace now (empty_trace ids b (dt_turn dt))) s = (t, x)" by fastforce
    note t = q' [OF op]
    show ?thesis
    proof (cases x)
      case (Inl e)
      then have "r = None" "s' = fail_started_turn ids now ''TOOL_EGRESS_RECEIPT_FAILED'' trace_not_prepared t"
        using assms(2) Some op by (simp_all add: prepare_trace_def)
      then show ?thesis using fail_started_ok k [OF t] by simp
    next
      case (Inr u)
      then have "s' = t" using assms(2) Some op by (simp add: prepare_trace_def)
      then show ?thesis using t k by simp
    qed
  qed
  then show "app_ok s'" "r \<noteq> None \<Longrightarrow> opened a c s'" by blast+
qed

lemma opened_scope: "opened a c s \<Longrightarrow> opened a c (s\<lparr>ca_consent_scope := cs\<rparr>)"
  by (simp add: opened_def)

text \<open>What \<open>open_gate\<close> can do: nothing, fail the turn, or store the scope and open the gate for it.\<close>

lemma open_gate_cases:
  assumes "open_gate env ids now dt s = (s', r)"
  obtains (free) "s' = s" "r = Some None" "requires_api_key (bp_provider (dt_profile dt)) \<Longrightarrow> dt_repository dt = None"
  | (no_storage) "s' = s" "r = None"
  | (failed) t code where "t = s \<or> (\<exists>scope e. store_op (OpSaveConsent scope) s = (t, Inl e))"
      "s' = fail_started_turn ids now code request_not_prepared t" "r = None"
  | (gated) b binding scope t where "dt_repository dt = Some b" "ca_storage s \<noteq> None"
      "scope = consent_scope_of ids now (conv_id (ca_conversation s)) b binding"
      "store_op (OpSaveConsent scope) s = (t, Inr ())" "s' = t\<lparr>ca_consent_scope := Some (sb_scope ids)\<rparr>"
      "r = Some (Some (with_revocation False (capability_new (ce_sha env) (fst (sb_seeds ids)) (snd (sb_seeds ids)) scope)))"
proof (cases "requires_api_key (bp_provider (dt_profile dt))")
  case False
  then show thesis using assms free by (simp add: open_gate_def)
next
  case key: True
  show thesis
  proof (cases "dt_repository dt")
    case None
    then show thesis using assms free key by (simp add: open_gate_def)
  next
    case (Some b)
    show thesis
    proof (cases "ca_storage s")
      case None
      then show thesis using assms no_storage key Some by (simp add: open_gate_def)
    next
      case storage: (Some st)
      let ?b = "binding_new (ce_sha env) (ce_parse env) (ce_uuid_text env) (bp_id (dt_profile dt))
        (provider_name (bp_provider (dt_profile dt))) (agent_endpoint (dt_profile dt)) (bp_model (dt_profile dt))"
      show thesis
      proof (cases ?b)
        case (Inl e)
        then show thesis using assms failed [of s] key Some storage by (auto simp: open_gate_def)
      next
        case (Inr binding)
        let ?scope = "consent_scope_of ids now (conv_id (ca_conversation s)) b binding"
        obtain t x where op: "store_op (OpSaveConsent ?scope) s = (t, x)" by fastforce
        show thesis
        proof (cases x)
          case (Inl e)
          then show thesis using assms failed [of t] key Some storage Inr op by (auto simp: open_gate_def)
        next
          case ok: (Inr u)
          show thesis by (rule gated [OF Some _ refl]) (use assms key Some storage Inr op ok in \<open>auto simp: open_gate_def\<close>)
        qed
      qed
    qed
  qed
qed

lemma open_gate_ok:
  assumes "opened a c s" and "open_gate env ids now dt s = (s', r)"
  shows "app_ok s'" and "r \<noteq> None \<Longrightarrow> opened a c s'"
proof -
  have "opened a c (fst (store_op (OpSaveConsent t) s))" for t by (rule opened_quiet [OF assms(1)]) simp
  then have q: "opened a c t" if "store_op (OpSaveConsent tr) s = (t, x)" for t tr x using that by (metis fst_conv)
  have k: "app_ok t" "ca_active t = None" if "opened a c t" for t using that by (simp_all add: opened_def)
  have "app_ok s' \<and> (r \<noteq> None \<longrightarrow> opened a c s')"
    using assms(2)
  proof (cases rule: open_gate_cases)
    case (failed t code)
    then have "opened a c t" using q assms(1) by blast
    then show ?thesis using failed(2,3) fail_started_ok k by simp
  next
    case (gated b binding scope t)
    then show ?thesis using q [OF gated(4)] k opened_scope by simp
  qed (use assms(1) k in simp_all)
  then show "app_ok s'" "r \<noteq> None \<Longrightarrow> opened a c s'" by blast+
qed

lemma shows_open_new:
  assumes "at_message_id a \<notin> msg_id ` set ms" and "msg_id u \<noteq> at_message_id a" and "msg_id m = at_message_id a"
    and "msg_markdown m = at_accumulated a" "msg_status m = MsgPending"
  shows "shows_open (ms @ [u, m]) a"
proof -
  have "List.find (\<lambda>m. msg_id m = at_message_id a) (ms @ [u, m]) = Some m"
    using assms(1-3) by (induction ms) auto
  then show ?thesis using assms(4,5) by (simp add: shows_open_def)
qed

lemma started_gated:
  assumes "dt_repository dt \<noteq> None \<Longrightarrow> trace \<noteq> None"
    and "\<And>b. requires_api_key (bp_provider (dt_profile dt)) \<Longrightarrow> dt_repository dt = Some b
      \<Longrightarrow> \<exists>binding cap. gate = Some cap \<and> cap_scope cap = consent_scope_of ids now (conv_id (ca_conversation s)) b binding"
  shows "gated (agent_start_of ids dt trace gate s)"
proof (cases "dt_repository dt")
  case (Some b)
  then show ?thesis
    using assms(1) assms(2) [OF _ Some] by (auto simp: gated_def agent_start_of_def build_agent_request_def consent_scope_of_def)
qed (simp add: gated_def agent_start_of_def)

lemma start_turn_view: "view (start_turn ids dt trace gate s) = (view s)\<lparr>
    av_active := Some \<lparr> at_turn_id = sb_turn ids, at_message_id = sb_assistant ids, at_accumulated = [],
      at_contract = turn_response_contract (dt_turn dt), at_pending = None \<rparr>,
    av_token := True, av_messages := conv_messages (ca_conversation s) @ [dt_user dt, dt_assistant dt],
    av_agents := av_agents (view s) @ [agent_start_of ids dt trace gate s]\<rparr>"
  by (simp add: start_turn_def spawn_task_def view_def map_filter_def)

lemma start_turn_ok:
  assumes "opened a (ca_conversation s) s" and "turn_response_contract (dt_turn dt) = ContractAdvisor"
    and "at_turn_id a = sb_turn ids" "at_message_id a = sb_assistant ids"
    and "msg_id (dt_assistant dt) = sb_assistant ids" "msg_markdown (dt_assistant dt) = []" "msg_status (dt_assistant dt) = MsgPending"
    and "msg_id (dt_user dt) \<noteq> sb_assistant ids" "sb_assistant ids \<notin> msg_id ` set (conv_messages (ca_conversation s))"
    and "gated (agent_start_of ids dt trace gate s)"
  shows "app_ok (start_turn ids dt trace gate s)"
proof (rule view_okI)
  let ?a = "\<lparr> at_turn_id = sb_turn ids, at_message_id = sb_assistant ids, at_accumulated = [],
      at_contract = turn_response_contract (dt_turn dt), at_pending = None \<rparr>"
  fix x assume "av_active (view (start_turn ids dt trace gate s)) = Some x"
  then have x: "x = ?a" by (simp add: start_turn_view)
  have "turn_open d x = turn_open d a" for d using assms(3,4) by (simp add: turn_open_def x)
  moreover have "shows_open (conv_messages (ca_conversation s) @ [dt_user dt, dt_assistant dt]) x"
    by (rule shows_open_new) (use assms(5-9) in \<open>simp_all add: x\<close>)
  ultimately show "active_ok (view (start_turn ids dt trace gate s)) x"
    using assms(1,2) by (auto simp: start_turn_view active_ok_def opened_def x view_sel)
next
  fix ag assume "ag \<in> set (av_agents (view (start_turn ids dt trace gate s)))"
  then show "gated ag" using assms(1,10) app_okD(4) [of s ag] by (auto simp: start_turn_view opened_def view_sel)
qed (use assms(1) app_okD(1,2) [of s] in \<open>auto simp: start_turn_view opened_def view_sel\<close>)

definition fresh_for :: "submit_ids \<Rightarrow> chat_app \<Rightarrow> bool" where
  "fresh_for ids s \<longleftrightarrow> sb_user ids \<noteq> sb_assistant ids
     \<and> sb_assistant ids \<notin> msg_id ` set (conv_messages (ca_conversation s))"

lemma submit_turn_ok:
  assumes "app_ok s" and "ca_active s = None" and "fresh_for ids s" and "turn_response_contract (dt_turn dt) = ContractAdvisor"
    and "turn_id (dt_turn dt) = sb_turn ids" "msg_id (dt_assistant dt) = sb_assistant ids" "msg_markdown (dt_assistant dt) = []"
    "msg_status (dt_assistant dt) = MsgPending" "msg_id (dt_user dt) = sb_user ids"
  shows "app_ok (submit_turn env ids now dt s)"
proof -
  let ?op = "OpBegin \<lparr> ts_turn = dt_turn dt, ts_user_message = dt_user dt, ts_assistant_placeholder = dt_assistant dt \<rparr>"
  let ?a = "\<lparr> at_turn_id = sb_turn ids, at_message_id = sb_assistant ids, at_accumulated = [],
      at_contract = ContractAdvisor, at_pending = None \<rparr>" and ?ms = "ca_conversation s"
  obtain s1 r1 where r1: "store_op ?op s = (s1, r1)" by fastforce
  obtain s2 r2 where r2: "prepare_trace ids now dt s1 = (s2, r2)" by fastforce
  obtain s3 r3 where r3: "open_gate env ids now dt s2 = (s3, r3)" by fastforce
  have s1: "app_ok s1" using store_idle_ok [OF assms(1,2), of ?op] r1 by simp
  have o1: "opened ?a ?ms s1" if "r1 = Inr ()"
    by (rule opened_begin [OF assms(1,2) r1 [unfolded that]]) (simp_all add: assms(5,6))
  note o2 = prepare_trace_ok [OF o1 r2] and o3 = open_gate_ok [OF prepare_trace_ok(2) [OF o1 r2] r3]
  have started: "app_ok (start_turn ids dt t g s3)" if "r1 = Inr ()" "r2 = Some t" "r3 = Some g" for t g
  proof (rule start_turn_ok [of ?a])
    have "opened ?a ?ms s2" by (rule o2(2)) (simp_all add: that)
    have "opened ?a ?ms s3" by (rule o3(2)) (simp_all add: that)
    moreover from this have c3: "ca_conversation s3 = ?ms" by (simp add: opened_def)
    ultimately show "opened ?a (ca_conversation s3) s3"
      "sb_assistant ids \<notin> msg_id ` set (conv_messages (ca_conversation s3))"
      using assms(3) by (simp_all add: fresh_for_def)
    have c2: "ca_conversation s2 = ?ms" using \<open>opened ?a ?ms s2\<close> by (simp add: opened_def)
    show "gated (agent_start_of ids dt t g s3)"
    proof (rule started_gated)
      show "dt_repository dt \<noteq> None \<Longrightarrow> t \<noteq> None" using o2(3) [OF that(1,2)] by blast
      fix b assume "requires_api_key (bp_provider (dt_profile dt))" "dt_repository dt = Some b"
      with r3 show "\<exists>binding cap. g = Some cap \<and> cap_scope cap = consent_scope_of ids now (conv_id (ca_conversation s3)) b binding"
        by (cases rule: open_gate_cases) (use that(3) c2 c3 in \<open>auto simp: with_revocation_def capability_new_def\<close>)
    qed
  qed (use assms in \<open>simp_all add: fresh_for_def\<close>)
  show ?thesis
    using s1 o2(1) o3(1) started by (simp add: submit_turn_def r1 r2 r3 split: sum.split option.split)
qed

lemma submit_chat_ok:
  assumes "app_ok s" and "fresh_for ids s"
  shows "app_ok (submit_chat env ids now s)"
proof -
  let ?s = "if conv_messages (ca_conversation s) = [] \<and> ca_storage s \<noteq> None
    then ensure_durable_conversation (sb_conversation ids) now s else s"
  have mode: "ca_mode s = ModeAdvisor" using assms(1) by (simp add: view_ok_def view_def)
  have idle: "app_ok ?s \<and> ca_active ?s = None \<and> ca_mode ?s = ModeAdvisor \<and> fresh_for ids ?s" if a: "ca_active s = None"
  proof (cases "conv_messages (ca_conversation s) = [] \<and> ca_storage s \<noteq> None")
    case True
    have "conv_messages (ca_conversation ?s) = []"
      using True by (auto simp: ensure_durable_conversation_def create_conversation_def conversation_new_def Let_def then_do_Inr
          split: option.split sum.split prod.split if_splits)
    moreover have "app_ok ?s" "ca_active ?s = None" using ensure_ok [OF assms(1) a] True by simp_all
    ultimately show ?thesis using assms(2) by (auto simp: fresh_for_def view_ok_def view_def)
  next
    case False
    then have "?s = s" by (simp only: if_False)
    then show ?thesis using assms a mode by simp
  qed
  define s1 where "s1 = ?s"
  note idle' = idle [folded s1_def]
  have sent: "app_ok (submit_turn env ids now (draft_turn_of env ids now profile question c s1) s1)"
    if "ca_active s = None" for profile question c
    by (rule submit_turn_ok)
      (use idle' [OF that] in \<open>simp_all add: draft_turn_of_def Let_def chat_message_new_def contract_of_mode_def\<close>)
  show ?thesis
    unfolding submit_chat_def Let_def s1_def [symmetric] using assms(1) sent idle'
    by (auto split: option.split sum.split)
qed

end
