(* ===== verification/Chat_Contract.thy ===== *)
theory Chat_Contract
  imports Chat_Invariant
begin

text \<open>
  Towards what the chat application promises: the answer it shows at the end of a turn is the one in the
  database, excerpts of a repository are only handed to a cloud provider behind a stored consent, and the
  invariant of \<open>Chat_Invariant\<close> holds in every state.
\<close>

section \<open>The end of a turn\<close>

text \<open>The message of the turn is finished, and the database holds the same text and state.\<close>

definition shown_as_stored :: "chat_app \<Rightarrow> active_turn \<Rightarrow> bool" where
  "shown_as_stored s a \<longleftrightarrow>
     (\<exists>m. List.find (\<lambda>m. msg_id m = at_message_id a) (conv_messages (ca_conversation s)) = Some m
        \<and> msg_status m \<notin> {MsgPending, MsgStreaming}
        \<and> (\<forall>st. ca_storage s = Some st \<longrightarrow> answer_of (as_db st) (at_turn_id a)
             = Some (Storage_Contract.Answered (fst (encode_message_status (msg_status m)))
                 (snd (encode_message_status (msg_status m))) (msg_markdown m))))"

lemma find_update_first: "(\<And>x. p (f x) = p x) \<Longrightarrow> List.find p (update_first p f xs) = map_option f (List.find p xs)"
  by (induction xs) simp_all

lemma update_message_view: "view (update_message i f s)
    = (view s)\<lparr>av_messages := update_first (\<lambda>m. msg_id m = i) f (conv_messages (ca_conversation s))\<rparr>"
  by (simp add: view_def update_message_def)

lemma update_message_fields [simp]:
  "ca_storage (update_message i f s) = ca_storage s" "ca_active (update_message i f s) = ca_active s"
  "ca_mode (update_message i f s) = ca_mode s" "ca_tasks (update_message i f s) = ca_tasks s"
  "conv_messages (ca_conversation (update_message i f s))
     = update_first (\<lambda>m. msg_id m = i) f (conv_messages (ca_conversation s))"
  by (simp_all add: update_message_def)

definition values_of :: "turn_terminal_update \<Rightarrow> message_status \<times> string" where
  "values_of u = (case u of
       AdvisorCompleted t m md tr fr ts \<Rightarrow> (MsgCompleted, md) | AuditCompleted t m b tr fr ts \<Rightarrow> (MsgCompleted, [])
     | AdvisorCancelled t m partial ts \<Rightarrow> (MsgCancelled, partial) | AuditCancelled t m ts \<Rightarrow> (MsgCancelled, [])
     | TurnFailed t m code safe ts \<Rightarrow> (MsgFailed code, safe))"

lemma terminal_values_of:
  "fst (snd (terminal_values u)) = fst (encode_message_status (fst (values_of u)))"
  "fst (snd (snd (terminal_values u))) = snd (encode_message_status (fst (values_of u)))"
  "fst (terminal_values u) = snd (values_of u)" "fst (values_of u) \<notin> {MsgPending, MsgStreaming}"
  by (cases u; simp add: values_of_def)+

text \<open>A terminal that went into the database is what the answer of the turn is from then on.\<close>

lemma stored_terminal:
  assumes "store_op op s = (s', Inr ())" and "op = OpFinish rid u \<or> op = OpFinishGrounded now rid t u"
    and "app_ok s" and "ca_storage s' = Some st"
  shows "answer_of (as_db st) (tu_turn_id u) = Some (Storage_Contract.Answered (fst (encode_message_status (fst (values_of u))))
    (snd (encode_message_status (fst (values_of u)))) (snd (values_of u)))"
proof (cases rule: store_op_cases [of s op])
  case (stored st0 d)
  have ok: "structure_ok (as_db st0)" "content_ok (as_db st0)"
    using assms(3) stored(1) reachable_ok by (simp_all add: view_ok_def view_def)
  have st: "as_db st = d" using assms(1,4) stored(3) by auto
  from assms(2) obtain d1 where "structure_ok d1" "content_ok d1" "apply_terminal_update rid u d1 = Inr d"
  proof
    assume "op = OpFinish rid u"
    then show thesis using stored(2) that [OF ok] by (simp add: finish_turn_def)
  next
    assume "op = OpFinishGrounded now rid t u"
    then obtain d1 where w: "write_grounding_trace now t (as_db st0) = Inr d1" and a: "apply_terminal_update rid u d1 = Inr d"
      using stored(2) by (auto simp only: exec_op.simps finish_grounded_Inr)
    show thesis
      by (rule that [OF write_trace_structure [OF w ok(1)] content_frame [OF write_trace_frame(1-3) [OF w] ok(2)] a])
  qed
  then show ?thesis using finished_answer terminal_values_of st by metis
qed (use assms(1,4) in auto)

lemma shown_terminal:
  assumes "shows_open (conv_messages (ca_conversation s)) a" and "\<And>m. msg_id (f m) = msg_id m"
    and "\<And>m. msg_markdown m = at_accumulated a \<Longrightarrow> (msg_status (f m), msg_markdown (f m)) = values_of u"
    and "conv_messages (ca_conversation s')
      = update_first (\<lambda>m. msg_id m = at_message_id a) f (conv_messages (ca_conversation s))"
    and "\<And>st. ca_storage s' = Some st \<Longrightarrow> answer_of (as_db st) (at_turn_id a)
      = Some (Storage_Contract.Answered (fst (encode_message_status (fst (values_of u))))
          (snd (encode_message_status (fst (values_of u)))) (snd (values_of u)))"
  shows "shown_as_stored s' a"
proof -
  obtain m where m: "List.find (\<lambda>m. msg_id m = at_message_id a) (conv_messages (ca_conversation s)) = Some m"
    "msg_markdown m = at_accumulated a"
    using assms(1) by (auto simp: shows_open_def)
  have "List.find (\<lambda>m. msg_id m = at_message_id a) (conv_messages (ca_conversation s')) = Some (f m)"
    using m assms(2) by (simp add: assms(4) find_update_first)
  moreover have "values_of u = (msg_status (f m), msg_markdown (f m))" using assms(3) [OF m(2)] by simp
  ultimately show ?thesis using assms(5) terminal_values_of(4) [of u] by (auto simp: shown_as_stored_def)
qed

text \<open>An open turn takes any terminal that is not an audit result.\<close>

lemma open_turn_stores:
  assumes "app_ok s" and "active_ok (view s) a" and "tu_turn_id u = at_turn_id a" "tu_message_id u = at_message_id a"
    and "\<not> is_AuditCompleted u"
  shows "snd (store_op (OpFinish rid u) s) = Inr ()"
proof (cases rule: store_op_cases [of s "OpFinish rid u"])
  case (failed st e)
  have "reachable (as_db st)" "turn_open (as_db st) a"
    using assms(1,2) failed(1) by (simp_all add: view_ok_def active_ok_def view_def)
  then have "is_ok (finish_turn rid u (as_db st))" using turn_open_finishes [OF _ _ _ assms(3-5)] reachable_ok by blast
  then show ?thesis using failed(2) by simp
qed simp_all

lemma finish_message:
  assumes "app_ok s" and "active_ok (view s) a" and "tu_turn_id u = at_turn_id a" "tu_message_id u = at_message_id a"
    and "\<not> is_AuditCompleted u" and "\<And>m. msg_id (f m) = msg_id m"
    and "\<And>m. msg_markdown m = at_accumulated a \<Longrightarrow> (msg_status (f m), msg_markdown (f m)) = values_of u"
    and "ca_storage s' = ca_storage (fst (store_op (OpFinish rid u) s))"
    and "conv_messages (ca_conversation s')
      = update_first (\<lambda>m. msg_id m = at_message_id a) f (conv_messages (ca_conversation s))"
  shows "shown_as_stored s' a"
proof (rule shown_terminal [OF _ assms(6,7,9)])
  show "shows_open (conv_messages (ca_conversation s)) a" using assms(2) by (simp add: active_ok_def view_def)
  obtain t where t: "store_op (OpFinish rid u) s = (t, Inr ())"
    using open_turn_stores [OF assms(1-5), of rid] by (metis prod.collapse)
  fix st assume "ca_storage s' = Some st"
  then have "ca_storage t = Some st" using assms(8) t by simp
  then show "answer_of (as_db st) (at_turn_id a) = Some (Storage_Contract.Answered (fst (encode_message_status (fst (values_of u))))
      (snd (encode_message_status (fst (values_of u)))) (snd (values_of u)))"
    using stored_terminal [OF t _ assms(1)] assms(3) by metis
qed

section \<open>Events and outcomes keep the invariant\<close>

lemma idle_ok:
  assumes "app_ok s" and "ca_active s' = None" and "ca_mode s' = ca_mode s" and "ca_tasks s' = ca_tasks s"
    and "ca_storage s' = ca_storage s \<or> (\<exists>op t. app_ok t \<and> ca_storage s' = ca_storage (fst (store_op op t)))"
  shows "app_ok s'"
proof (rule view_okI)
  fix d assume "av_db (view s') = Some d"
  then obtain st where st: "ca_storage s' = Some st" "d = as_db st" by (auto simp: view_def)
  from assms(5) show "reachable d"
  proof
    assume "ca_storage s' = ca_storage s"
    then show ?thesis using app_okD(1) [OF assms(1)] st by simp
  next
    assume "\<exists>op t. app_ok t \<and> ca_storage s' = ca_storage (fst (store_op op t))"
    then show ?thesis using store_op_reachable st by metis
  qed
qed (use assms app_okD(2,4) [OF assms(1)] in \<open>simp_all add: view_def\<close>)

lemma update_message_ok:
  assumes "app_ok s" and "\<And>m. msg_id (f m) = msg_id m"
    and "\<And>m. msg_markdown (f m) = msg_markdown m @ d \<and> msg_status (f m) = MsgStreaming"
    and "ca_active s = Some a"
  shows "app_ok (update_message (at_message_id a) f (s\<lparr>ca_active := Some (a\<lparr>at_accumulated := at_accumulated a @ d\<rparr>)\<rparr>))"
    (is "app_ok ?s")
proof (rule view_okI)
  have ok: "active_ok (view s) a" by (rule app_okD(3) [OF assms(1,4)])
  then obtain m where "List.find (\<lambda>m. msg_id m = at_message_id a) (conv_messages (ca_conversation s)) = Some m"
    "msg_markdown m = at_accumulated a"
    by (auto simp: active_ok_view shows_open_def)
  then have "shows_open (conv_messages (ca_conversation ?s)) (a\<lparr>at_accumulated := at_accumulated a @ d\<rparr>)"
    using assms(2,3) by (simp add: shows_open_def find_update_first)
  moreover fix x assume "av_active (view ?s) = Some x"
  then have "x = a\<lparr>at_accumulated := at_accumulated a @ d\<rparr>" by (simp add: view_def update_message_def)
  ultimately show "active_ok (view ?s) x"
    using ok unfolding active_ok_view by (simp add: turn_open_def) (simp add: update_message_def)
qed (use app_okD(1,2,4) [OF assms(1)] in \<open>auto simp: view_def update_message_def\<close>)

lemma failed_update_ids:
  "tu_turn_id (failed_update now a code safe) = at_turn_id a" "tu_message_id (failed_update now a code safe) = at_message_id a"
  "\<not> is_AuditCompleted (failed_update now a code safe)"
  "tu_turn_id (cancelled_update now a p) = at_turn_id a" "tu_message_id (cancelled_update now a p) = at_message_id a"
  "\<not> is_AuditCompleted (cancelled_update now a p)"
  by (simp_all add: failed_update_def) (cases p; simp)+

lemma close_active_ok:
  assumes "app_ok s"
  shows "app_ok (close_active rid u f a s)"
proof -
  let ?t = "s\<lparr>ca_active := None\<rparr>"
  have "app_ok ?t" by (rule idle_ok [OF assms]) simp_all
  moreover have "ca_storage (fst (store_op op (update_message i f s))) = ca_storage (fst (store_op op ?t))" for op i
    by (simp add: store_op_def split: option.split sum.split)
  ultimately show ?thesis unfolding close_active_def by (intro idle_ok [OF assms]) (auto simp: update_message_def)
qed

lemma event_ok:
  assumes "app_ok s"
  shows "app_ok (apply_agent_event rid now event s)"
proof (cases "ca_active s")
  case (Some a)
  have delta: "app_ok (update_message (at_message_id a) (\<lambda>m. m\<lparr>msg_markdown := msg_markdown m @ d, msg_status := MsgStreaming\<rparr>)
      (s\<lparr>ca_active := Some (a\<lparr>at_accumulated := at_accumulated a @ d\<rparr>)\<rparr>))" for d
    by (rule update_message_ok [OF assms _ _ Some]) simp_all
  have "app_ok (s\<lparr>ca_active := Some (a\<lparr>at_pending := p\<rparr>)\<rparr>)" (is "app_ok ?s") for p
  proof (rule view_okI)
    fix x assume "av_active (view ?s) = Some x"
    then have "x = a\<lparr>at_pending := p\<rparr>" by (simp add: view_def)
    then show "active_ok (view ?s) x"
      using app_okD(3) [OF assms Some] unfolding active_ok_view by (simp add: turn_open_def shows_open_def)
  qed (use app_okD(1,2,4) [OF assms] in \<open>auto simp: view_def\<close>)
  then show ?thesis using assms Some delta close_active_ok by (simp add: apply_agent_event_def split: agent_event.split)
qed (simp add: apply_agent_event_def assms)

lemma fail_completion_fields:
  "ca_active (fail_atomic_completion rid now a code s) = ca_active s" "ca_mode (fail_atomic_completion rid now a code s) = ca_mode s"
  "ca_tasks (fail_atomic_completion rid now a code s) = ca_tasks s"
  "ca_storage (fail_atomic_completion rid now a code s) = ca_storage (fst (store_op
     (OpFinish rid (TurnFailed (at_turn_id a) (at_message_id a) code completion_not_stored now)) s))"
  by (simp_all add: fail_atomic_completion_def)

lemma fail_completion_ok:
  assumes "app_ok s" and "ca_active s = None"
  shows "app_ok ((fail_atomic_completion rid now a code s)\<lparr>ca_stream_cancel := None\<rparr>)"
  by (rule idle_ok [OF assms(1)]) (use assms fail_completion_fields in auto)

lemma show_completion_fields:
  "ca_active (show_completion a p et t s) = ca_active s" "ca_mode (show_completion a p et t s) = ca_mode s"
  "ca_storage (show_completion a p et t s) = ca_storage s" "ca_tasks (show_completion a p et t s) = ca_tasks s"
  "conv_messages (ca_conversation (show_completion a p et t s))
     = update_first (\<lambda>m. msg_id m = at_message_id a) (completed_message p et t) (conv_messages (ca_conversation s))"
  by (simp_all add: show_completion_def Let_def)

text \<open>Every way an outcome ends the active turn; \<open>s0\<close> is the state without it.\<close>

lemma outcome_cases:
  assumes "ca_active s = Some a" and "at_message_id a = message" and "s0 = s\<lparr>ca_active := None\<rparr>"
  obtains (failed) code where "finish_agent_outcome rid now message outcome s
      = (fail_atomic_completion rid now a code s0)\<lparr>ca_stream_cancel := None\<rparr>"
  | (refused) op e code where "store_op op s0 = (s0, Inl e)" "finish_agent_outcome rid now message outcome s
      = (fail_atomic_completion rid now a code s0)\<lparr>ca_stream_cancel := None\<rparr>"
  | (completed) op u p et t t' s1 where "store_op op s0 = (s1, Inr ())" "op = OpFinish rid u \<or> op = OpFinishGrounded now rid t' u"
      "tu_turn_id u = at_turn_id a" "\<And>m. (msg_status (completed_message p et t m), msg_markdown (completed_message p et t m)) = values_of u"
      "finish_agent_outcome rid now message outcome s = show_completion a p et t s1"
proof (cases outcome)
  case (Inl e)
  then show thesis using assms failed by (simp add: finish_agent_outcome_def Let_def)
next
  case (Inr raw)
  let ?t = "note_staleness now s0 raw"
  show thesis
  proof (cases "at_pending a")
    case None
    then show thesis using assms Inr failed by (simp add: finish_agent_outcome_def Let_def)
  next
    case (Some pe)
    obtain p et where pe: "pe = (p, et)" by fastforce
    show thesis
    proof (cases "et = map_option gt_id ?t")
      case False
      then show thesis using assms Inr Some pe failed by (simp add: finish_agent_outcome_def Let_def)
    next
      case True
      have out: "finish_agent_outcome rid now message outcome s = complete_turn rid now a p et ?t s0"
        using assms Inr Some pe True by (simp add: finish_agent_outcome_def Let_def)
      show thesis
      proof (cases "completion_update now a et ?t p")
        case None
        then show thesis using out failed by (simp add: complete_turn_def)
      next
        case u: (Some u)
        let ?op = "case ?t of Some t \<Rightarrow> OpFinishGrounded now rid t u | None \<Rightarrow> OpFinish rid u"
        have ids: "tu_turn_id u = at_turn_id a"
          "\<And>m. (msg_status (completed_message p et ?t m), msg_markdown (completed_message p et ?t m)) = values_of u"
          using u by (cases p; cases ?t; auto simp: completed_message_def values_of_def)+
        obtain s1 r where op: "store_op ?op s0 = (s1, r)" by fastforce
        show thesis
        proof (cases r)
          case (Inl e)
          then have "s1 = s0" using op by (cases rule: store_op_cases [of s0 ?op]) auto
          then show thesis using out u op Inl refused [of ?op e] by (simp add: complete_turn_def)
        next
          case (Inr x)
          have "?op = OpFinish rid u \<or> ?op = OpFinishGrounded now rid (the ?t) u" by (cases ?t) simp_all
          then show thesis using completed [OF _ _ ids] op Inr out u by (simp add: complete_turn_def)
        qed
      qed
    qed
  qed
qed

lemma outcome_ok:
  assumes "app_ok s"
  shows "app_ok (finish_agent_outcome rid now message outcome s)"
proof (cases "\<exists>a. ca_active s = Some a \<and> at_message_id a = message")
  case True
  then obtain a where a: "ca_active s = Some a" "at_message_id a = message" by blast
  let ?s = "s\<lparr>ca_active := None\<rparr>"
  have s0: "app_ok ?s" by (rule idle_ok [OF assms]) simp_all
  show ?thesis
  proof (cases rule: outcome_cases [OF a refl, of rid now outcome])
    case (3 op u p et t t' s1)
    have "s1 = fst (store_op op ?s)" using 3(1) by simp
    then show ?thesis
      using idle_ok [OF s0, of "show_completion a p et t s1"] 3(5) s0 show_completion_fields by auto
  qed (use fail_completion_ok [OF s0] in simp_all)
qed (use assms in \<open>auto simp: finish_agent_outcome_def split: option.split\<close>)

lemma result_ok:
  assumes "app_ok s"
  shows "app_ok (handle_result pl now r s)"
  using assms catalog_ok verification_ok scan_result_ok event_ok outcome_ok scan_path_ok
  by (simp add: handle_result_def Let_def split: async_result.split option.split)

lemma results_ok: "app_ok s \<Longrightarrow> app_ok (fold (handle_result pl now) rs s)"
  by (induction rs arbitrary: s) (simp_all add: result_ok)

lemma stale_ok: "app_ok s \<Longrightarrow> app_ok (mark_repository_stale now b s)"
  using store_quiet_ok [of _ "OpMarkChanged now (snap_id (rb_snapshot b))"] by (simp add: mark_repository_stale_def Let_def)

lemma poll_ok: "app_ok s \<Longrightarrow> app_ok (poll_async env pl now ms entries results s)"
  unfolding poll_async_def poll_repository_def poll_consent_def
  by (intro results_ok) (simp add: revoke_ok stale_ok Let_def split: option.split prod.split)

lemma window_ok: "app_ok s \<Longrightarrow> app_ok (update_window_preferences ms now sz s)"
proof -
  have "view (x\<lparr>ca_window := w, ca_size_changed := c\<rparr>) = view x" "view (x\<lparr>ca_size_changed := c\<rparr>) = view x" for x w c
    by (simp_all add: view_def)
  then show "app_ok s \<Longrightarrow> app_ok (update_window_preferences ms now sz s)"
    by (simp add: update_window_preferences_def Let_def split: option.split)
qed

lemma frame_ok: "app_ok s \<Longrightarrow> app_ok (begin_frame env pl fi s)"
  by (simp add: begin_frame_def Let_def escape_pressed_def close_requests_ok window_ok poll_ok)

section \<open>Runs\<close>

datatype app_action =
    Frame frame_input
  | Settings switch_ids datetime settings_panel
  | Composer submit_ids datetime string "key_event list" bool bool
  | Dirty switch_ids datetime dirty_action
  | AnswerDirty switch_ids datetime dirty_answer
  | ToggleSettings switch_ids datetime
  | TogglePin datetime
  | StopAnswer
  | StopScan
  | Connect uuid
  | Approve bool
  | SelectGrounding uuid
  | Drawer "source_ref option" bool
  | SubmitMode datetime composer_submit_mode
  | Preset system_preset
  | EditPrompts prompt_edit
  | ApplyPrompts fresh_ids datetime
  | CancelEdits
  | DeleteChat delete_step

fun run_action ::
  "chat_env \<Rightarrow> platform \<Rightarrow> 'k secret_store \<Rightarrow> app_action \<Rightarrow> 'k \<times> chat_app \<Rightarrow> 'k \<times> chat_app" where
  "run_action env pl ss (Frame fi) (k, s) = (k, begin_frame env pl fi s)"
| "run_action env pl ss (Settings ids now pn) (k, s) = settings_frame env ss ids now pn (k, s)"
| "run_action env pl ss (Composer ids now input events focus clicked) (k, s)
     = (k, composer_frame env ids now input events focus clicked s)"
| "run_action env pl ss (Dirty ids now action) (k, s) = (k, request_dirty_action ids now action s)"
| "run_action env pl ss (AnswerDirty ids now answer) (k, s)
     = (k, answer_dirty_prompt (ce_sha env) (ce_assets env) ids now answer s)"
| "run_action env pl ss (ToggleSettings ids now) (k, s) = (k, toggle_settings ids now s)"
| "run_action env pl ss (TogglePin now) (k, s) = (k, toggle_pin now s)"
| "run_action env pl ss StopAnswer (k, s) = (k, stop_answer s)"
| "run_action env pl ss StopScan (k, s) = (k, stop_scan s)"
| "run_action env pl ss (Connect generation) (k, s) = (k, connect_repository generation s)"
| "run_action env pl ss (Approve v) (k, s) = (k, approve_egress v s)"
| "run_action env pl ss (SelectGrounding i) (k, s) = (k, select_grounding i s)"
| "run_action env pl ss (Drawer clicked shut) (k, s) = (k, grounding_drawer clicked shut s)"
| "run_action env pl ss (SubmitMode now m) (k, s) = (k, choose_submit_mode now m s)"
| "run_action env pl ss (Preset p) (k, s) = (k, choose_preset (ce_assets env) p s)"
| "run_action env pl ss (EditPrompts e) (k, s) = (k, edit_prompt (ce_sha env) (ce_assets env) e s)"
| "run_action env pl ss (ApplyPrompts ids now) (k, s) = (k, apply_clicked (ce_sha env) (ce_assets env) ids now s)"
| "run_action env pl ss CancelEdits (k, s) = (k, cancel_edits (ce_sha env) (ce_assets env) s)"
| "run_action env pl ss (DeleteChat st) (k, s) = (k, delete_clicked st s)"

text \<open>Fresh ids: \<open>Uuid::new_v4\<close> never repeats the id of a message on the screen.\<close>

fun draws_fresh :: "app_action \<Rightarrow> chat_app \<Rightarrow> bool" where
  "draws_fresh (Composer ids now input events focus clicked) s \<longleftrightarrow> fresh_for ids s"
| "draws_fresh _ s \<longleftrightarrow> True"

inductive app_reachable :: "chat_env \<Rightarrow> platform \<Rightarrow> 'k secret_store \<Rightarrow> 'k \<times> chat_app \<Rightarrow> bool" for env pl ss where
  started: "app_start env ss key_file k ids now storage = Some s \<Longrightarrow> \<forall>st. storage = Some st \<longrightarrow> reachable (as_db st)
    \<Longrightarrow> app_reachable env pl ss (k, s)"
| acted: "app_reachable env pl ss ks \<Longrightarrow> draws_fresh a (snd ks) \<Longrightarrow> app_reachable env pl ss (run_action env pl ss a ks)"
| ran_task: "app_reachable env pl ss (k, s) \<Longrightarrow> task_op op \<Longrightarrow> app_reachable env pl ss (k, fst (store_op op s))"

lemma settings_view [simp]: "ca_storage s = Some st \<Longrightarrow> view (snd (update_settings kd st s)) = view s"
  by (simp add: update_settings_def view_def)

lemma target_ok: "app_ok s \<Longrightarrow> app_ok (snd (target_edited ss uuid_text previous (k, s)))"
proof -
  let ?s = "(cancel_stream s)\<lparr>ca_egress_approved := False, ca_mode := ModeAdvisor,
      ca_setup := (ca_setup s)\<lparr>st_draft := (st_draft (ca_setup s))\<lparr>bp_api_key := None\<rparr>\<rparr>, ca_remember := False\<rparr>"
  assume "app_ok s"
  then have "app_ok ?s"
    using view_cancel(1) [of s] by (simp add: view_ok_def active_ok_def view_def)
  then show ?thesis
    using \<open>app_ok s\<close> settings_view [of ?s] by (simp add: target_edited_def Let_def split: option.split)
qed

lemma model_ok: "app_ok s \<Longrightarrow> app_ok (model_chosen selected s)"
proof -
  have "app_ok (s'\<lparr>ca_mode := ModeAdvisor\<rparr>)" if "app_ok s'" for s'
    using that by (simp add: view_ok_def active_ok_def view_def)
  then show "app_ok s \<Longrightarrow> app_ok (model_chosen selected s)"
    by (simp add: model_chosen_def split: option.split sum.split prod.split)
qed

lemma persona_view [simp]: "view (persona_chosen a previous s) = view s"
  by (simp add: persona_chosen_def view_def)

lemma reconciled_view [simp]: "view (draft_reconciled previous s) = view s"
  by (simp add: draft_reconciled_def Let_def)

lemma activation_view: "view (snd (fst (persist_activation ss uuid_text now (k, s)))) = view s"
  by (simp add: persist_activation_def Let_def split: option.split sum.split prod.split)

lemma activated_view [simp]: "view (snd (activate_clicked ss uuid_text now (k, s))) = view s"
proof -
  obtain k' s' b where "persist_activation ss uuid_text now (k, s) = ((k', s'), b)" by (metis prod.exhaust_sel)
  then show ?thesis using activation_view [of ss uuid_text now k s] by (cases b) (simp_all add: activate_clicked_def)
qed

lemma settings_frame_ok:
  assumes "app_ok s"
  shows "app_ok (snd (settings_frame env ss ids now pn (k, s)))"
proof -
  let ?s1 = "s\<lparr>ca_setup := (ca_setup s)\<lparr>st_draft := pn_profile pn\<rparr>, ca_persona := pn_persona pn, ca_remember := pn_remember pn\<rparr>"
  have "view ?s1 = view s" by (simp add: view_def)
  obtain k2 s2 where t: "target_edited ss (ce_uuid_text env) (st_draft (ca_setup s)) (k, ?s1) = (k2, s2)" by fastforce
  then have "app_ok s2"
    using target_ok [of ?s1 ss "ce_uuid_text env" "st_draft (ca_setup s)" k] assms \<open>view ?s1 = view s\<close> by simp
  let ?s3 = "model_chosen (pn_selected pn) (persona_chosen (ce_assets env) (ca_persona s) (draft_reconciled (st_draft (ca_setup s)) s2))"
  have s3: "app_ok ?s3" using model_ok \<open>app_ok s2\<close> by simp
  let ?s5 = "let s4 = if pn_discover pn then begin_model_discovery ?s3 else ?s3 in if pn_verify pn then begin_model_verification s4 else s4"
  have s5: "app_ok ?s5" using s3 by (simp add: Let_def)
  let ?ks = "if pn_activate pn then activate_clicked ss (ce_uuid_text env) now (k2, ?s5) else (k2, ?s5)"
  have "app_ok (snd ?ks)" using s5 by simp
  moreover have "snd (settings_frame env ss ids now pn (k, s))
      = (if pn_close pn then request_dirty_action ids now CloseSettings (snd ?ks) else snd ?ks)"
    by (simp add: settings_frame_def Let_def t split: prod.split)
  ultimately show ?thesis using request_ok by simp
qed

lemma composer_ok:
  assumes "app_ok s" and "fresh_for ids s"
  shows "app_ok (composer_frame env ids now input events focus clicked s)"
proof -
  have "fresh_for ids (s\<lparr>ca_composer := input\<rparr>)" using assms(2) by (simp add: fresh_for_def)
  then show ?thesis using assms(1) submit_chat_ok by (simp add: composer_frame_def Let_def)
qed

lemma prompt_edit_view [simp]: "view (edit_prompt sha a e s) = view s"
  by (cases e) (auto simp: view_def split: sum.split prod.split)

lemma panel_views [simp]:
  "view (toggle_pin now s) = view s" "view (stop_answer s) = view s" "view (stop_scan s) = view s"
  "view (connect_repository g s) = view s" "view (approve_egress v s) = view s" "view (select_grounding i s) = view s"
  "view (grounding_drawer clicked shut s) = view s" "view (choose_submit_mode now m s) = view s"
  "view (choose_preset a p s) = view s" "view (apply_clicked sha a ids now s) = view s" "view (cancel_edits sha a s) = view s"
proof -
  have p: "view (s\<lparr>ca_pinned := b\<rparr>) = view s" "view (s\<lparr>ca_submit_mode := m\<rparr>) = view s"
    "view (s\<lparr>ca_base_preset := q\<rparr>) = view s" "view (s\<lparr>ca_base_preset := q, ca_system_draft := t\<rparr>) = view s"
    for b m q t by (simp_all add: view_def)
  show "view (toggle_pin now s) = view s" "view (stop_answer s) = view s" "view (stop_scan s) = view s"
    "view (connect_repository g s) = view s" "view (approve_egress v s) = view s" "view (select_grounding i s) = view s"
    "view (choose_submit_mode now m s) = view s" "view (choose_preset a p s) = view s"
    "view (apply_clicked sha a ids now s) = view s" "view (cancel_edits sha a s) = view s"
    by (simp_all add: toggle_pin_def stop_answer_def stop_scan_def connect_repository_def approve_egress_def select_grounding_def
        choose_submit_mode_def choose_preset_def apply_clicked_def cancel_edits_def Let_def p)
  show "view (grounding_drawer clicked shut s) = view s"
    by (simp add: grounding_drawer_def Let_def split: option.split)
qed

lemma action_ok:
  assumes "app_ok s" and "draws_fresh a s"
  shows "app_ok (snd (run_action env pl ss a (k, s)))"
proof (cases a)
  case (DeleteChat step)
  then show ?thesis using assms delete_ok by (cases step) simp_all
qed (use assms in \<open>simp_all add: frame_ok settings_frame_ok composer_ok request_ok answer_dirty_ok toggle_settings_def\<close>)

lemma start_fields [simp]:
  "ca_storage (app_at_start env ids now storage c backend) = storage"
  "ca_active (app_at_start env ids now storage c backend) = None"
  "ca_mode (app_at_start env ids now storage c backend) = ModeAdvisor"
  "ca_tasks (app_at_start env ids now storage c backend) = []"
  by (simp_all add: app_at_start_def Let_def split: prod.split)

lemma start_ok:
  assumes "app_start env ss key_file k ids now storage = Some s" and "\<forall>st. storage = Some st \<longrightarrow> reachable (as_db st)"
  shows "app_ok s"
proof -
  let ?seeded = "seeded_storage env ids now storage"
  let ?s = "app_at_start env ids now (usable_storage env ?seeded) (restored_conversation ids now ?seeded)
    (restored_backend ss (ce_uuid_text env) key_file k ids (usable_storage env ?seeded))"
  have share: "reachable (share_profile i d)" if "reachable d" for i d
    using that reachable_step [OF that, of "OpAddProfile i"] by (simp add: share_profile_def)
  have "reachable (as_db st)" if "usable_storage env ?seeded = Some st" for st
    using that assms(2) share
    by (auto simp: usable_storage_def seeded_storage_def split: option.splits sum.splits prod.splits if_splits)
  then have "app_ok ?s"
    by (intro view_okI) (auto simp: view_def map_filter_def)
  then show ?thesis using assms(1) by (auto simp: app_start_def Let_def split: sum.splits)
qed

lemma reachable_app_ok: "app_reachable env pl ss ks \<Longrightarrow> app_ok (snd ks)"
proof (induction rule: app_reachable.induct)
  case (started key_file k ids now storage s)
  then show ?case using start_ok by simp
next
  case (acted ks a)
  then show ?case using action_ok by (metis prod.collapse)
next
  case (ran_task k s op)
  then show ?case using store_quiet_ok task_op_quiet by simp
qed

text \<open>The results that end the active turn: its cancellation, its failure and its outcome.\<close>

definition ends_turn :: "chat_app \<Rightarrow> active_turn \<Rightarrow> async_result \<Rightarrow> bool" where
  "ends_turn s a r \<longleftrightarrow>
     (case r of
        AgentEventSent conv turn event \<Rightarrow> conv = conv_id (ca_conversation s) \<and> turn = at_turn_id a
          \<and> (case event of EvCancelled p \<Rightarrow> True | EvFailed code safe \<Rightarrow> True | _ \<Rightarrow> False)
      | AgentFinished message outcome \<Rightarrow> message = at_message_id a
      | _ \<Rightarrow> False)"

lemma store_op_storage: "ca_storage t = ca_storage s \<Longrightarrow> ca_storage (fst (store_op op t)) = ca_storage (fst (store_op op s))"
proof -
  have "ca_storage (fst (store_op op x))
      = map_option (\<lambda>st. st\<lparr>as_db := (case exec_op op (as_db st) of Inr d \<Rightarrow> d | Inl e \<Rightarrow> as_db st)\<rparr>) (ca_storage x)" for x
    by (cases rule: store_op_cases [of x op]) simp_all
  then show "ca_storage t = ca_storage s \<Longrightarrow> ca_storage (fst (store_op op t)) = ca_storage (fst (store_op op s))" by simp
qed

lemma closed_shown:
  assumes "app_ok s" and "active_ok (view s) a" and "tu_turn_id u = at_turn_id a" "tu_message_id u = at_message_id a"
    and "\<not> is_AuditCompleted u" and "\<And>m. msg_id (f m) = msg_id m"
    and "\<And>m. msg_markdown m = at_accumulated a \<Longrightarrow> (msg_status (f m), msg_markdown (f m)) = values_of u"
  shows "shown_as_stored (close_active rid u f a s) a"
  by (rule finish_message [OF assms, of _ rid]) (simp_all add: close_active_def, rule store_op_storage, simp)

lemma failed_shown:
  assumes "app_ok s" and "active_ok (view s) a"
  shows "shown_as_stored ((fail_atomic_completion rid now a code s)\<lparr>ca_stream_cancel := None\<rparr>) a"
  by (rule finish_message [OF assms, where u = "TurnFailed (at_turn_id a) (at_message_id a) code completion_not_stored now"
        and rid = rid and f = "\<lambda>m. m\<lparr>msg_markdown := completion_not_stored, msg_status := MsgFailed code\<rparr>"])
    (simp_all add: values_of_def fail_atomic_completion_def)

lemma event_shown:
  assumes "app_ok s" and "ca_active s = Some a" and "case event of EvCancelled p \<Rightarrow> True | EvFailed code safe \<Rightarrow> True | _ \<Rightarrow> False"
  shows "ca_active (apply_agent_event rid now event s) = None \<and> shown_as_stored (apply_agent_event rid now event s) a"
proof (cases event)
  case (EvCancelled p)
  have "shown_as_stored (close_active rid (cancelled_update now a p)
      (\<lambda>m. m\<lparr>msg_markdown := cancelled_text p, msg_status := MsgCancelled\<rparr>) a s) a"
    by (rule closed_shown [OF assms(1) app_okD(3) [OF assms(1,2)]])
      (simp_all add: failed_update_ids, cases p, simp_all add: values_of_def)
  then show ?thesis using assms(2) EvCancelled by (simp add: apply_agent_event_def) (simp add: close_active_def)
next
  case (EvFailed code safe)
  have "at_contract a = ContractAdvisor" using app_okD(3) [OF assms(1,2)] by (simp add: active_ok_view)
  then have "shown_as_stored (close_active rid (failed_update now a code safe) (failed_message code safe) a s) a"
    by (intro closed_shown [OF assms(1) app_okD(3) [OF assms(1,2)]])
      (simp_all add: failed_update_ids failed_message_def, simp_all add: failed_update_def values_of_def)
  then show ?thesis using assms(2) EvFailed by (simp add: apply_agent_event_def) (simp add: close_active_def)
qed (use assms(3) in simp_all)

lemma outcome_shown:
  assumes "app_ok s" and "ca_active s = Some a"
  shows "ca_active (finish_agent_outcome rid now (at_message_id a) outcome s) = None
    \<and> shown_as_stored (finish_agent_outcome rid now (at_message_id a) outcome s) a"
proof -
  let ?s = "s\<lparr>ca_active := None\<rparr>"
  have s0: "app_ok ?s" by (rule idle_ok [OF assms(1)]) simp_all
  have act: "active_ok (view ?s) a" using app_okD(3) [OF assms] by (simp add: active_ok_view)
  show ?thesis
  proof (cases rule: outcome_cases [OF assms(2) refl refl, of rid now outcome])
    case (3 op u p et t t' s1)
    have s1: "s1 = fst (store_op op ?s)" using 3(1) by simp
    have "shown_as_stored (show_completion a p et t s1) a"
    proof (rule shown_terminal [of s1 a "completed_message p et t" u])
      show "shows_open (conv_messages (ca_conversation s1)) a" using act s1 by (simp add: active_ok_view)
      show "msg_id (completed_message p et t m) = msg_id m" for m by (simp add: completed_message_def)
      fix st assume "ca_storage (show_completion a p et t s1) = Some st"
      then show "answer_of (as_db st) (at_turn_id a) = Some (Storage_Contract.Answered (fst (encode_message_status (fst (values_of u))))
          (snd (encode_message_status (fst (values_of u)))) (snd (values_of u)))"
        using stored_terminal [OF 3(1,2) s0] 3(3) by (simp add: show_completion_fields)
    qed (use 3(4) in \<open>simp_all add: show_completion_fields\<close>)
    then show ?thesis using 3(5) s1 by (simp add: show_completion_fields)
  qed (use failed_shown [OF s0 act] in \<open>simp_all add: fail_completion_fields\<close>)
qed

end
