(* ===== verification/Chat_Promises.thy ===== *)
theory Chat_Promises
  imports Chat_Contract Agent_Round Repository_Scan Prompt_History
begin

text \<open>
  What the chat application promises in every state it can reach, and a run of it from an empty database to an
  active turn of a cloud model with a repository, at which the promises are witnessed.
\<close>

section \<open>A run\<close>

definition chat_demo_env :: chat_env where
  "chat_demo_env = \<lparr> ce_sha = (\<lambda>_. ''d''), ce_uuid_text = (\<lambda>_. ''u''), ce_parse = demo_parse, ce_assets = demo_assets \<rparr>"

definition chat_demo_platform :: platform where
  "chat_demo_platform = \<lparr> pl_app_data = Inr ''/app'',
     pl_fs = \<lparr> fs_canonicalize = Some, fs_open = Some, fs_handle_path = Some, fs_is_file = (\<lambda>_. Some True) \<rparr>,
     pl_dirs = \<lparr> ds_is_dir = (\<lambda>_. True), ds_exists = (\<lambda>_. True) \<rparr> \<rparr>"

definition chat_demo_profile :: backend_profile where
  "chat_demo_profile = \<lparr> bp_id = 1, bp_name = ''p'', bp_provider = OpenAi, bp_base_url = ''https://h/x'', bp_model = ''m'',
     bp_api_key = None, bp_timeout_secs = 60 \<rparr>"

definition chat_demo_storage :: app_storage where
  "chat_demo_storage = \<lparr> as_db = empty_db [], as_prompts = empty_prompt_db,
     as_settings = demo_settings\<lparr>sd_profiles := [\<lparr> sv_id = 1, sv_name = ''p'', sv_provider = ''OpenAi'',
       sv_base_url = ''https://h/x'', sv_model = ''m'', sv_timeout_secs = 60, sv_updated_at = 2 \<rparr>]\<rparr>, as_ui = None \<rparr>"

definition chat_demo_start :: start_ids where
  "chat_demo_start = \<lparr> si_seed = \<lparr> fi_system = 1, fi_persona = 2, fi_revision = 3 \<rparr>, si_conversation = 4, si_profile = 5, si_generation = 6 \<rparr>"

definition chat_demo_switch :: switch_ids where
  "chat_demo_switch = \<lparr> wi_result = 10, wi_generation = 11, wi_session_conversation = 12, wi_conversation = 13 \<rparr>"

definition chat_demo_poll :: poll_ids where
  "chat_demo_poll = \<lparr> pi_scan = \<lparr> ci_session_id = 20, ci_conversation_id = 21, ci_generation_id = 22 \<rparr>, pi_result = 23 \<rparr>"

definition chat_demo_snapshot :: repository_snapshot where
  "chat_demo_snapshot = \<lparr> snap_id = 30, snap_repo_id = 1, snap_created_at = 2, snap_tree_digest = ''t'',
     snap_status = SnapReady, snap_file_count = 0, snap_total_bytes = 0 \<rparr>"

definition chat_demo_frame :: frame_input where
  "chat_demo_frame = \<lparr> fi_ms = 1, fi_now = 2, fi_walk = [],
     fi_results = map (\<lambda>r. (r, chat_demo_poll))
       [CatalogFetched chat_demo_profile (Inr \<lparr> mc_models = [\<lparr> am_id = ''m'', am_display_name = ''m'' \<rparr>], mc_latency_ms = None \<rparr>),
        VerificationDone chat_demo_profile (Inr (\<lparr> mv_compatible = True, mv_message = [], mv_latency_ms = None \<rparr>,
          \<lparr> ac_chat = True, ac_native_tool = True, ac_emulated_tool = False, ac_repository_advisor = True \<rparr>)),
        RepositoryScanned 13 11 demo_session (Inr (chat_demo_snapshot, [])) Started],
     fi_size = None, fi_close = False, fi_shortcut = False, fi_escape = False, fi_ids = chat_demo_switch \<rparr>"

definition chat_demo_panel :: settings_panel where
  "chat_demo_panel = \<lparr> pn_profile = chat_demo_profile, pn_persona = DefaultAnalyst, pn_remember = False, pn_selected = None,
     pn_discover = False, pn_verify = False, pn_activate = True, pn_close = False \<rparr>"

definition chat_demo_ids :: submit_ids where
  "chat_demo_ids = \<lparr> sb_conversation = 40, sb_turn = 41, sb_user = 42, sb_assistant = 43, sb_request = 44, sb_trace = 45,
     sb_scope = 46, sb_result = 47, sb_seeds = (48, 49) \<rparr>"

definition chat_demo_native :: "(string \<rightharpoonup> string) secret_store" where
  "chat_demo_native = native_store (\<lambda>_. True) demo_keyring"

text \<open>The prompt rows that seeding leaves, and the profile they load as.\<close>

definition chat_demo_sums :: "string \<times> string" where
  "chat_demo_sums = (sha_hex (\<lambda>_. ''d'') (catalog_system demo_assets SysIntermediate),
     sha_hex (\<lambda>_. ''d'') (catalog_persona demo_assets DefaultAnalyst))"

definition chat_demo_sources :: "prompt_content_source \<times> prompt_content_source" where
  "chat_demo_sources = (FactoryRef (resource_key SysIntermediate) FACTORY_BUNDLE_VERSION (fst chat_demo_sums),
     FactoryRef (persona_key DefaultAnalyst) FACTORY_BUNDLE_VERSION (snd chat_demo_sums))"

definition chat_demo_prompts :: prompt_db where
  "chat_demo_prompts = \<lparr>
     pt_profiles = [\<lparr> pf_id = DEFAULT_PROFILE_ID, pf_name = fs_profile_name (factory_seed_of (\<lambda>_. ''d'') demo_assets),
       pf_experience = ''Intermediate'', pf_base = ''Intermediate'', pf_active = 3, pf_system_version = FACTORY_BUNDLE_VERSION,
       pf_persona_version = FACTORY_BUNDLE_VERSION, pf_created_at = 2, pf_updated_at = 2 \<rparr>],
     pt_contents = [content_row_of 1 DEFAULT_PROFILE_ID LayerSystem 1 (fst chat_demo_sources) None 2,
       content_row_of 2 DEFAULT_PROFILE_ID LayerPersona 1 (snd chat_demo_sources) None 2],
     pt_revisions = [\<lparr> rv_id = 3, rv_profile = DEFAULT_PROFILE_ID, rv_revision = 1, rv_system = Some 1, rv_persona = Some 2,
       rv_system_checksum = fst chat_demo_sums, rv_persona_checksum = snd chat_demo_sums, rv_deleted = 0,
       rv_previous = None, rv_created_at = 2 \<rparr>] \<rparr>"

lemma chat_demo_seed_rows: "seed_rows (si_seed chat_demo_start) 2 (factory_seed_of (\<lambda>_. ''d'') demo_assets) empty_prompt_db = Inr chat_demo_prompts"
  by (simp add: seed_rows_def chat_demo_start_def chat_demo_prompts_def chat_demo_sources_def chat_demo_sums_def factory_seed_of_def
    empty_prompt_db_def insert_row_def insert_profile_row_def insert_content_row_def insert_revision_row_def refers_to_content_def)

definition chat_demo_loaded :: stored_prompt_profile where
  "chat_demo_loaded = \<lparr>
     sp_profile = \<lparr> pp_id = DEFAULT_PROFILE_ID, pp_name = fs_profile_name (factory_seed_of (\<lambda>_. ''d'') demo_assets),
       pp_experience_preset = ExpIntermediate, pp_base_system_preset = SysIntermediate, pp_active_revision_id = 3,
       pp_factory_system_version = FACTORY_BUNDLE_VERSION, pp_factory_persona_version = FACTORY_BUNDLE_VERSION,
       pp_created_at = 2, pp_updated_at = 2 \<rparr>,
     sp_revision = \<lparr> pr_id = 3, pr_profile_id = DEFAULT_PROFILE_ID, pr_revision = 1, pr_system_version_id = Some 1,
       pr_persona_version_id = Some 2, pr_system_checksum = fst chat_demo_sums, pr_persona_checksum = snd chat_demo_sums,
       pr_content_deleted = False, pr_expected_previous = None, pr_created_at = 2 \<rparr>,
     sp_system_source = fst chat_demo_sources, sp_persona_source = snd chat_demo_sources \<rparr>"

lemma chat_demo_loads: "load_active_prompt_profile DEFAULT_PROFILE_ID chat_demo_prompts = Inr (Some chat_demo_loaded)"
  by (simp add: load_active_prompt_profile_def chat_demo_prompts_def chat_demo_sources_def chat_demo_loaded_def into_profile_def
    into_revision_def load_content_source_def load_content_version_def content_row_of_def source_columns_def into_source_def into_version_def
    parse_experience_preset_def parse_system_preset_def parse_prompt_layer_def)

lemma chat_demo_resolve:
  "resolve_source (\<lambda>_. ''d'') demo_assets (fst chat_demo_sources) = Inr (catalog_system demo_assets SysIntermediate)"
  "resolve_source (\<lambda>_. ''d'') demo_assets (snd chat_demo_sources) = Inr (catalog_persona demo_assets DefaultAnalyst)"
  by (simp_all add: chat_demo_sources_def chat_demo_sums_def resolve_source_def factory_by_key_def
    all_presets_def all_personas_def)

lemma chat_demo_catalog: "catalog_load demo_assets = Inr ()"
  by (simp add: catalog_load_def demo_assets_def catalog_kernel_def catalog_system_def catalog_persona_def canonical_asset_def
    all_presets_def all_personas_def)

lemma chat_demo_composes:
  assumes "ca_storage s = Some st" "as_prompts st = chat_demo_prompts" "ca_profile_id s = DEFAULT_PROFILE_ID"
  obtains c where "app_compose_prompt chat_demo_env s = Inr c"
proof -
  have "length (catalog_system demo_assets SysIntermediate) < 100" "length (catalog_persona demo_assets DefaultAnalyst) < 100"
    by (simp_all add: demo_assets_def catalog_system_def catalog_persona_def canonical_asset_def suffix_def)
  then have "\<exists>c. app_compose_prompt chat_demo_env s = Inr c"
    using assms by (simp add: app_compose_prompt_def prompt_texts_def chat_demo_env_def chat_demo_catalog chat_demo_loads
      chat_demo_loaded_def chat_demo_resolve compose_prompt_def validate_editable_def MAX_EDITABLE_PROMPT_BYTES_def Let_def)
  then show thesis using that by blast
qed

text \<open>The application after the start.\<close>

definition chat_demo_stored :: app_storage where
  "chat_demo_stored = chat_demo_storage\<lparr>as_prompts := chat_demo_prompts, as_db := empty_db [DEFAULT_PROFILE_ID]\<rparr>"

definition chat_demo_app :: chat_app where
  "chat_demo_app = app_at_start chat_demo_env chat_demo_start 2 (Some chat_demo_stored)
     (conversation_new 4 2 DEFAULT_PROFILE_ID None None) (chat_demo_profile, False)"

lemma chat_demo_backend:
  "restored_backend chat_demo_native uuid_text (Inr None) k chat_demo_start (Some chat_demo_stored) = (chat_demo_profile, False)"
  by (simp add: restored_backend_def saved_backend_def chat_demo_stored_def chat_demo_storage_def demo_settings_def
    load_backend_profile_def newest_first_def backend_profile_of_row_def chat_demo_profile_def restore_credential_def
    load_provider_secret_preference_def parse_provider_def)

lemma chat_demo_starts:
  "app_start chat_demo_env chat_demo_native (Inr None) Map.empty chat_demo_start 2 (Some chat_demo_storage) = Some chat_demo_app"
proof -
  have env: "ce_sha chat_demo_env = (\<lambda>_. ''d'')" "ce_assets chat_demo_env = demo_assets" by (simp_all add: chat_demo_env_def)
  have "fs_profile_id (factory_seed_of (\<lambda>_. ''d'') demo_assets) = DEFAULT_PROFILE_ID" by (simp add: factory_seed_of_def)
  moreover have "load_active_prompt_profile DEFAULT_PROFILE_ID empty_prompt_db = Inr None"
    by (simp add: load_active_prompt_profile_def empty_prompt_db_def)
  ultimately have "seeded_storage chat_demo_env chat_demo_start 2 (Some chat_demo_storage) = Some chat_demo_stored"
    by (simp add: seeded_storage_def env seed_factory_prompt_profile_def chat_demo_seed_rows chat_demo_loads
        chat_demo_stored_def chat_demo_storage_def share_profile_def empty_db_def)
  moreover have "usable_storage chat_demo_env (Some chat_demo_stored) = Some chat_demo_stored"
    by (simp add: usable_storage_def active_prompts_def env chat_demo_stored_def chat_demo_loads chat_demo_loaded_def
        chat_demo_resolve)
  moreover have "restored_conversation chat_demo_start 2 (Some chat_demo_stored) = conversation_new 4 2 DEFAULT_PROFILE_ID None None"
    by (simp add: restored_conversation_def chat_demo_start_def chat_demo_stored_def load_most_recent_conversation_def empty_db_def)
  moreover have "ca_auto_connect chat_demo_app = None"
    by (simp add: chat_demo_app_def app_at_start_def auto_connects_def chat_demo_profile_def requires_api_key_def Let_def split: prod.split)
  ultimately show ?thesis
    by (simp add: app_start_def env chat_demo_catalog chat_demo_backend chat_demo_app_def)
qed

text \<open>The run: a new conversation, the results of the tasks, activation, consent, and a question.\<close>

definition chat_demo_db :: db where
  "chat_demo_db = (empty_db [DEFAULT_PROFILE_ID])\<lparr>db_conversations := [\<lparr> cvr_id = 13, cvr_repository = None, cvr_snapshot = None,
     cvr_profile = DEFAULT_PROFILE_ID, cvr_summary = None, cvr_persistence = ''Durable'', cvr_created_at = 2, cvr_updated_at = 2 \<rparr>]\<rparr>"

definition demo_phase :: "chat_app \<Rightarrow> app_storage \<Rightarrow> conversation \<Rightarrow> bool" where
  "demo_phase s st c \<longleftrightarrow> ca_storage s = Some st \<and> as_prompts st = chat_demo_prompts \<and> ca_profile_id s = DEFAULT_PROFILE_ID
     \<and> ca_conversation s = c \<and> conv_messages c = [] \<and> ca_active s = None \<and> ca_consent_scope s = None
     \<and> ca_stream_cancel s = None \<and> ca_mode s = ModeAdvisor \<and> ca_auto_connect s = None \<and> \<not> ca_prompt_dirty s
     \<and> ca_tasks s = [] \<and> \<not> ca_remember s"

lemma demo_at_start: "demo_phase chat_demo_app chat_demo_stored (conversation_new 4 2 DEFAULT_PROFILE_ID None None)"
  "ca_setup chat_demo_app = setup_new chat_demo_profile" "ca_repository chat_demo_app = None"
  by (simp_all add: demo_phase_def chat_demo_app_def app_at_start_def auto_connects_def chat_demo_profile_def requires_api_key_def
    chat_demo_stored_def conversation_new_def Let_def split: prod.split)

lemma demo_new_chat:
  assumes "demo_phase s st c" and "as_db st = empty_db [DEFAULT_PROFILE_ID]"
  shows "demo_phase (request_dirty_action chat_demo_switch 2 NewConversation s) (st\<lparr>as_db := chat_demo_db\<rparr>)
      (conversation_new 13 2 DEFAULT_PROFILE_ID None None)"
    "ca_setup (request_dirty_action chat_demo_switch 2 NewConversation s) = ca_setup s"
    "ca_repository (request_dirty_action chat_demo_switch 2 NewConversation s) = None"
    "ca_scan_generation (request_dirty_action chat_demo_switch 2 NewConversation s) = 11"
  using assms
  by (simp_all add: demo_phase_def request_dirty_action_def execute_dirty_action_def start_new_conversation_def revoke_active_scope_def
    fail_replaced_turn_def fresh_conversation_def ensure_durable_conversation_def create_conversation_def conversation_new_def
    cancel_stream_def chat_demo_switch_def chat_demo_db_def insert_row_def Let_def empty_db_def)

definition chat_demo_bound :: db where
  "chat_demo_bound = chat_demo_db\<lparr>db_conversations := map (\<lambda>c. c\<lparr>cvr_repository := Some 1, cvr_snapshot := Some 30, cvr_updated_at := 2\<rparr>)
      (db_conversations chat_demo_db)\<rparr>"

lemma demo_scan_persisted:
  assumes "as_db st = chat_demo_db" and "as_settings st = as_settings chat_demo_storage"
  obtains settings where "persist_scan Some 2 13 demo_session chat_demo_snapshot st
      = (st\<lparr>as_settings := settings, as_db := chat_demo_bound\<rparr>, Inr ())"
proof -
  obtain d1 where d1: "save_recent_repo Some 2 (se_profile demo_session) (as_settings st) = Inr d1"
    using assms(2) by (simp add: save_recent_repo_def chat_demo_storage_def demo_settings_def Let_def)
  obtain d2 where d2: "save_snapshot_meta chat_demo_snapshot d1 = Inr d2"
    by (simp add: save_snapshot_meta_def chat_demo_snapshot_def as_i64_def Let_def)
  have "exec_op (OpBind 2 13 1 30) (as_db st) = Inr chat_demo_bound"
    using assms(1) by (simp add: bind_conversation_repository_def chat_demo_bound_def chat_demo_db_def count_where_def update_where_def Let_def)
  moreover have "snap_repo_id chat_demo_snapshot = 1" "snap_id chat_demo_snapshot = 30" by (simp_all add: chat_demo_snapshot_def)
  ultimately have "persist_scan Some 2 13 demo_session chat_demo_snapshot st = (st\<lparr>as_settings := d2, as_db := chat_demo_bound\<rparr>, Inr ())"
    using d1 d2 by (simp add: persist_scan_def)
  then show thesis by (rule that)
qed

definition chat_demo_setup :: setup_state where
  "chat_demo_setup = (setup_new chat_demo_profile)\<lparr>st_catalog := \<lparr> mc_models = [\<lparr> am_id = ''m'', am_display_name = ''m'' \<rparr>], mc_latency_ms = None \<rparr>,
     st_verified := Some chat_demo_profile, st_verified_caps := Some \<lparr> ac_chat = True, ac_native_tool = True, ac_emulated_tool = False, ac_repository_advisor = True \<rparr>\<rparr>"

lemma demo_frame:
  assumes "demo_phase s st (conversation_new 13 2 DEFAULT_PROFILE_ID None None)" and "as_db st = chat_demo_db"
    and "as_settings st = as_settings chat_demo_storage" and "ca_setup s = setup_new chat_demo_profile"
    and "ca_repository s = None" and "ca_scan_generation s = 11"
  obtains settings b where
    "demo_phase (begin_frame chat_demo_env chat_demo_platform chat_demo_frame s) (st\<lparr>as_settings := settings, as_db := chat_demo_bound\<rparr>)
      (conversation_new 13 2 DEFAULT_PROFILE_ID (Some 1) (Some 30))"
    "ca_setup (begin_frame chat_demo_env chat_demo_platform chat_demo_frame s) = chat_demo_setup"
    "ca_repository (begin_frame chat_demo_env chat_demo_platform chat_demo_frame s) = Some b"
    "rb_snapshot b = chat_demo_snapshot" "\<not> ca_repository_busy (begin_frame chat_demo_env chat_demo_platform chat_demo_frame s)"
proof -
  obtain settings where p: "persist_scan Some 2 13 demo_session chat_demo_snapshot st
      = (st\<lparr>as_settings := settings, as_db := chat_demo_bound\<rparr>, Inr ())"
    using demo_scan_persisted assms(2,3) by metis
  let ?s = "s\<lparr>ca_provider_busy := False, ca_setup := chat_demo_setup, ca_repository_busy := False, ca_repository_cancel := None,
      ca_storage := Some (st\<lparr>as_settings := settings, as_db := chat_demo_bound\<rparr>)\<rparr>"
  have "begin_frame chat_demo_env chat_demo_platform chat_demo_frame s = bind_repository demo_session chat_demo_snapshot [] Started 2 ?s"
    using assms p by (simp add: begin_frame_def chat_demo_frame_def poll_async_def poll_consent_def poll_repository_def demo_phase_def
      handle_result_def handle_catalog_def handle_verification_def accept_catalog_def accept_capability_verification_def
      accept_verification_def in_catalog_def setup_new_def chat_demo_setup_def chat_demo_profile_def handle_scan_def
      update_window_preferences_def handle_close_requests_def conversation_new_def chat_demo_platform_def Let_def)
  then show thesis
    using assms by (intro that [of settings "\<lparr> rb_watcher = spawn_background Started (watcher_new (se_root demo_session) 2), rb_session = demo_session,
         rb_snapshot = chat_demo_snapshot, rb_gateway = gateway_new chat_demo_snapshot [] \<rparr>"])
      (simp_all add: bind_repository_def demo_phase_def conversation_new_def chat_demo_snapshot_def)
qed

lemma demo_activates:
  assumes "demo_phase s st c" and "ca_setup s = chat_demo_setup"
  obtains k settings where
    "settings_frame chat_demo_env chat_demo_native chat_demo_switch 3 (chat_demo_panel\<lparr>pn_persona := ca_persona s\<rparr>) (Map.empty, s)
      = (k, s\<lparr>ca_remember := False, ca_storage := Some (st\<lparr>as_settings := settings\<rparr>), ca_setup := fst (activate chat_demo_setup)\<rparr>)"
proof -
  have d: "st_draft chat_demo_setup = chat_demo_profile" "st_draft (fst (activate chat_demo_setup)) = chat_demo_profile"
    by (simp_all add: chat_demo_setup_def setup_new_def activate_def)
  obtain k d1 where c: "persist_credential chat_demo_native (ce_uuid_text chat_demo_env) 3 chat_demo_profile False (Map.empty, as_settings st)
      = ((k, d1), Inr ())"
    by (simp add: persist_credential_def chat_demo_native_def native_store_def native_delete_def native_entry_def validate_credential_ref_def demo_keyring_def
        delete_provider_secret_preference_def chat_demo_env_def credential_ref_def Let_def)
  obtain d2 where p: "save_backend_profile 3 chat_demo_profile d1 = Inr d2"
    by (simp add: save_backend_profile_def chat_demo_profile_def fits_i64_def)
  let ?s = "s\<lparr>ca_remember := False\<rparr>"
  have e: "chat_demo_setup\<lparr>st_draft := chat_demo_profile\<rparr> = chat_demo_setup" by (simp add: chat_demo_setup_def setup_new_def)
  have "settings_frame chat_demo_env chat_demo_native chat_demo_switch 3 (chat_demo_panel\<lparr>pn_persona := ca_persona s\<rparr>) (Map.empty, s)
      = (k, s\<lparr>ca_remember := False, ca_storage := Some (st\<lparr>as_settings := d2\<rparr>), ca_setup := fst (activate chat_demo_setup)\<rparr>)"
    using assms c p d
    by (simp add: e settings_frame_def chat_demo_panel_def target_edited_def draft_reconciled_def reconcile_edit_def connection_changed_def
        persona_chosen_def model_chosen_def activate_clicked_def persist_activation_def update_settings_def demo_phase_def Let_def)
  then show thesis by (rule that)
qed

text \<open>Consent is given and a question is asked; the empty conversation makes room for a new one.\<close>

lemma store_op_stores:
  "ca_storage s = Some st \<Longrightarrow> exec_op op (as_db st) = Inr d \<Longrightarrow> store_op op s = (s\<lparr>ca_storage := Some (st\<lparr>as_db := d\<rparr>)\<rparr>, Inr ())"
  by (simp add: store_op_def)

definition chat_demo_asked :: db where
  "chat_demo_asked = chat_demo_bound\<lparr>db_conversations := db_conversations chat_demo_bound @ [\<lparr> cvr_id = 40, cvr_repository = None,
     cvr_snapshot = None, cvr_profile = DEFAULT_PROFILE_ID, cvr_summary = None, cvr_persistence = ''Durable'', cvr_created_at = 4,
     cvr_updated_at = 4 \<rparr>]\<rparr>"

lemma demo_begins:
  assumes "dt = draft_turn_of chat_demo_env chat_demo_ids 4 chat_demo_profile q composition s"
    and "ca_conversation s = conversation_new 40 4 DEFAULT_PROFILE_ID None None" "ca_mode s = ModeAdvisor"
  obtains d where "exec_op (OpBegin \<lparr> ts_turn = dt_turn dt, ts_user_message = dt_user dt, ts_assistant_placeholder = dt_assistant dt \<rparr>)
      chat_demo_asked = Inr d" "turn_id ` set (db_turns d) = {41}" "db_conversations d = db_conversations chat_demo_asked"
    "db_consents d = []"
proof -
  have "conv_id (ca_conversation s) = 40" "conv_messages (ca_conversation s) = []" using assms(2) by (simp_all add: conversation_new_def)
  then have "\<exists>d. begin_turn \<lparr> ts_turn = dt_turn dt, ts_user_message = dt_user dt, ts_assistant_placeholder = dt_assistant dt \<rparr>
      chat_demo_asked = Inr d \<and> turn_id ` set (db_turns d) = {41} \<and> db_conversations d = db_conversations chat_demo_asked \<and> db_consents d = []"
    by (simp add: begin_turn_def turn_start_valid_def insert_turn_def insert_message_def insert_row_def assms(1) draft_turn_of_def
        chat_message_new_def message_row_of_def chat_demo_ids_def chat_demo_asked_def chat_demo_bound_def chat_demo_db_def empty_db_def
        fits_i64_def Let_def)
  then show thesis using that by auto
qed

lemma demo_gated:
  assumes "ca_storage s = Some st" and "turn_id ` set (db_turns (as_db st)) = {41}" "40 \<in> cvr_id ` set (db_conversations (as_db st))"
    "db_consents (as_db st) = []" and "conv_id (ca_conversation s) = 40" and "dt_profile dt = chat_demo_profile" "dt_repository dt = Some b"
    "turn_conversation_id (dt_turn dt) = 40" "turn_id (dt_turn dt) = 41"
  obtains s2 s3 cap where "prepare_trace chat_demo_ids 4 dt s = (s2, Some (Some 45))"
    "open_gate chat_demo_env chat_demo_ids 4 dt s2 = (s3, Some (Some cap))" "ca_conversation s3 = ca_conversation s"
    "ca_repository s3 = ca_repository s"
proof -
  let ?t = "empty_trace chat_demo_ids b (dt_turn dt)"
  obtain d where d: "exec_op (OpPrepareTrace 4 ?t) (as_db st) = Inr d" "db_conversations d = db_conversations (as_db st)" "db_consents d = []"
    using assms(2-4,8,9) by (simp add: prepare_grounding_trace_def write_grounding_trace_def empty_trace_def)
  let ?s2 = "s\<lparr>ca_storage := Some (st\<lparr>as_db := d\<rparr>)\<rparr>"
  have p: "prepare_trace chat_demo_ids 4 dt s = (?s2, Some (Some 45))"
    using store_op_stores [OF assms(1) d(1)] assms(7) by (simp add: prepare_trace_def chat_demo_ids_def)
  have ep: "agent_endpoint chat_demo_profile = ''https://h/x/chat/completions''" "bp_id chat_demo_profile = 1"
    "provider_name (bp_provider chat_demo_profile) = ''OpenAi''" "bp_model chat_demo_profile = ''m''" "requires_api_key (bp_provider chat_demo_profile)"
    by code_simp+
  let ?scope = "consent_scope_of chat_demo_ids 4 40 b demo_gate_binding"
  obtain d2 where d2: "exec_op (OpSaveConsent ?scope) d = Inr d2"
    using d assms(3) by (simp add: save_repository_consent_scope_def insert_row_def consent_scope_of_def)
  have "store_op (OpSaveConsent ?scope) ?s2 = (?s2\<lparr>ca_storage := Some (st\<lparr>as_db := d2\<rparr>)\<rparr>, Inr ())"
    using store_op_stores [of ?s2 "st\<lparr>as_db := d\<rparr>" _ d2] d2 by simp
  moreover have "binding_new (ce_sha chat_demo_env) (ce_parse chat_demo_env) (ce_uuid_text chat_demo_env) 1 ''OpenAi''
      ''https://h/x/chat/completions'' ''m'' = Inr demo_gate_binding"
    using round_demo_binding by (simp add: chat_demo_env_def)
  ultimately have "open_gate chat_demo_env chat_demo_ids 4 dt ?s2
      = ((?s2\<lparr>ca_storage := Some (st\<lparr>as_db := d2\<rparr>)\<rparr>)\<lparr>ca_consent_scope := Some (sb_scope chat_demo_ids)\<rparr>,
        Some (Some (with_revocation False (capability_new (ce_sha chat_demo_env) (fst (sb_seeds chat_demo_ids)) (snd (sb_seeds chat_demo_ids)) ?scope))))"
    using assms(5-7) by (simp add: open_gate_def ep)
  from that [OF p this] show thesis by simp
qed

lemma demo_asks:
  assumes "demo_phase s st c" and "as_db st = chat_demo_bound" and "ca_setup s = fst (activate chat_demo_setup)"
    and "ca_repository s = Some b" "rb_snapshot b = chat_demo_snapshot" and "\<not> ca_repository_busy s" and "ca_egress_approved s"
  obtains ag a where "TaskAgent ag \<in> set (ca_tasks (composer_frame chat_demo_env chat_demo_ids 4 ''hi'' [] False True s))"
    "requires_api_key (bp_provider (ar_profile (ag_request ag)))" "ag_gateway ag \<noteq> None"
    "ca_active (composer_frame chat_demo_env chat_demo_ids 4 ''hi'' [] False True s) = Some a" "at_turn_id a = 41"
    "conv_id (ca_conversation (composer_frame chat_demo_env chat_demo_ids 4 ''hi'' [] False True s)) = 40"
    "conv_repository_id (ca_conversation (composer_frame chat_demo_env chat_demo_ids 4 ''hi'' [] False True s)) = None"
    "ca_repository (composer_frame chat_demo_env chat_demo_ids 4 ''hi'' [] False True s) \<noteq> None"
    "composer_frame chat_demo_env chat_demo_ids 4 ''hi'' [] False True s
      = submit_chat chat_demo_env chat_demo_ids 4 (s\<lparr>ca_composer := ''hi''\<rparr>)" "ca_tasks s = []"
proof -
  have set: "st_active (ca_setup s) = Some chat_demo_profile"
    "st_active_caps (ca_setup s) = Some \<lparr> ac_chat = True, ac_native_tool = True, ac_emulated_tool = False, ac_repository_advisor = True \<rparr>"
    using assms(3) by (simp_all add: activate_def chat_demo_setup_def setup_new_def)
  let ?s0 = "s\<lparr>ca_composer := ''hi''\<rparr>" and ?st = "st\<lparr>as_db := chat_demo_asked\<rparr>"
  let ?s1 = "?s0\<lparr>ca_storage := Some ?st, ca_conversation := conversation_new 40 4 DEFAULT_PROFILE_ID None None\<rparr>"
  have ph: "ca_storage s = Some st" "as_prompts st = chat_demo_prompts" "ca_profile_id s = DEFAULT_PROFILE_ID"
    "conv_messages (ca_conversation s) = []" "ca_active s = None" "ca_mode s = ModeAdvisor"
    using assms(1) by (simp_all add: demo_phase_def)
  have cap: "repository_capable ?s1" "repository_capable ?s0"
    using set assms(4,5) by (simp_all add: repository_capable_def repository_advisor_def chat_demo_snapshot_def)
  have ensured: "ensure_durable_conversation (sb_conversation chat_demo_ids) 4 ?s0 = ?s1"
    using ph assms(2) by (simp add: ensure_durable_conversation_def create_conversation_def conversation_new_def insert_row_def
        chat_demo_ids_def chat_demo_asked_def chat_demo_bound_def chat_demo_db_def empty_db_def Let_def)
  obtain c where c: "app_compose_prompt chat_demo_env ?s1 = Inr c"
    using chat_demo_composes [of ?s1 ?st] ph by auto
  have t: "trim ''hi'' = ''hi''" by code_simp
  let ?dt = "draft_turn_of chat_demo_env chat_demo_ids 4 chat_demo_profile ''hi'' c ?s1"
  have submit: "composer_frame chat_demo_env chat_demo_ids 4 ''hi'' [] False True s = submit_turn chat_demo_env chat_demo_ids 4 ?dt ?s1"
    using ph cap set assms(6,7) ensured c t by (simp add: composer_frame_def submit_chat_def may_submit_def Let_def)
  obtain d where d: "exec_op (OpBegin \<lparr> ts_turn = dt_turn ?dt, ts_user_message = dt_user ?dt, ts_assistant_placeholder = dt_assistant ?dt \<rparr>)
      chat_demo_asked = Inr d" "turn_id ` set (db_turns d) = {41}" "db_conversations d = db_conversations chat_demo_asked" "db_consents d = []"
    by (rule demo_begins [OF refl, of ?s1]) (use ph in simp_all)
  let ?s2 = "?s1\<lparr>ca_storage := Some (st\<lparr>as_db := d\<rparr>)\<rparr>"
  have begun: "store_op (OpBegin \<lparr> ts_turn = dt_turn ?dt, ts_user_message = dt_user ?dt, ts_assistant_placeholder = dt_assistant ?dt \<rparr>) ?s1
      = (?s2, Inr ())"
    using store_op_stores [of ?s1 ?st _ d] d(1) by simp
  have dt: "dt_profile ?dt = chat_demo_profile" "dt_repository ?dt = Some b" "turn_conversation_id (dt_turn ?dt) = 40"
    "turn_id (dt_turn ?dt) = 41"
    using cap assms(4) by (simp_all add: draft_turn_of_def conversation_new_def chat_demo_ids_def Let_def)
  obtain s3 s4 gate where "prepare_trace chat_demo_ids 4 ?dt ?s2 = (s3, Some (Some 45))"
    "open_gate chat_demo_env chat_demo_ids 4 ?dt s3 = (s4, Some (Some gate))" "ca_conversation s4 = ca_conversation ?s2"
    "ca_repository s4 = ca_repository ?s2"
    by (rule demo_gated [of ?s2 "st\<lparr>as_db := d\<rparr>" ?dt b]) (use d(2-4) dt in \<open>simp_all add: chat_demo_asked_def conversation_new_def\<close>)
  then have "submit_turn chat_demo_env chat_demo_ids 4 ?dt ?s1 = start_turn chat_demo_ids ?dt (Some 45) (Some gate) s4"
    "conv_id (ca_conversation s4) = 40" "conv_repository_id (ca_conversation s4) = None" "ca_repository s4 \<noteq> None"
    using begun assms(4) by (simp_all add: submit_turn_def conversation_new_def)
  then have r: "composer_frame chat_demo_env chat_demo_ids 4 ''hi'' [] False True s = start_turn chat_demo_ids ?dt (Some 45) (Some gate) s4"
    "conv_id (ca_conversation s4) = 40" "conv_repository_id (ca_conversation s4) = None" "ca_repository s4 \<noteq> None"
    using submit by simp_all
  have key: "requires_api_key (bp_provider chat_demo_profile)" "sb_turn chat_demo_ids = 41"
    by (simp_all add: chat_demo_profile_def requires_api_key_def chat_demo_ids_def)
  have shown: "composer_frame chat_demo_env chat_demo_ids 4 ''hi'' [] False True s = submit_chat chat_demo_env chat_demo_ids 4 ?s0"
    "ca_tasks s = []"
    using assms(1,6) t by (simp_all add: composer_frame_def demo_phase_def)
  show thesis
    by (rule that [of "agent_start_of chat_demo_ids ?dt (Some 45) (Some gate) s4", OF _ _ _ _ _ _ _ _ shown], unfold r(1))
      (simp add: start_turn_def spawn_task_def agent_start_of_def build_agent_request_def r(2-4) key dt)+
qed

text \<open>The run as a whole: a task of a cloud agent with a repository is spawned, and its turn is the active one.\<close>

lemma chat_run:
  obtains k s ag a where "app_reachable chat_demo_env chat_demo_platform chat_demo_native (k, s)" "TaskAgent ag \<in> set (ca_tasks s)"
    "requires_api_key (bp_provider (ar_profile (ag_request ag)))" "ag_gateway ag \<noteq> None"
    "ca_active s = Some a" "at_turn_id a = 41" "conv_id (ca_conversation s) = 40"
    "conv_repository_id (ca_conversation s) = None" "ca_repository s \<noteq> None"
    "\<exists>s'. s = submit_chat chat_demo_env chat_demo_ids 4 s' \<and> ca_tasks s' = []"
proof -
  let ?run = "run_action chat_demo_env chat_demo_platform chat_demo_native"
  let ?R = "app_reachable chat_demo_env chat_demo_platform chat_demo_native"
  have "reachable (as_db chat_demo_storage)" by (simp add: chat_demo_storage_def reachable.intros)
  then have r0: "?R (Map.empty, chat_demo_app)" by (intro app_reachable.started [OF chat_demo_starts]) simp
  let ?s1 = "request_dirty_action chat_demo_switch 2 NewConversation chat_demo_app"
  have r1: "?R (Map.empty, ?s1)" using app_reachable.acted [OF r0, of "Dirty chat_demo_switch 2 NewConversation"] by simp
  have "as_db chat_demo_stored = empty_db [DEFAULT_PROFILE_ID]" "as_settings chat_demo_stored = as_settings chat_demo_storage"
    by (simp_all add: chat_demo_stored_def)
  note new = demo_new_chat [OF demo_at_start(1) this(1)] and this(2)
  let ?s2 = "begin_frame chat_demo_env chat_demo_platform chat_demo_frame ?s1"
  have r2: "?R (Map.empty, ?s2)" using app_reachable.acted [OF r1, of "Frame chat_demo_frame"] by simp
  obtain settings b where s2: "demo_phase ?s2 (chat_demo_stored\<lparr>as_settings := settings, as_db := chat_demo_bound\<rparr>)
      (conversation_new 13 2 DEFAULT_PROFILE_ID (Some 1) (Some 30))"
    "ca_setup ?s2 = chat_demo_setup" "ca_repository ?s2 = Some b" "rb_snapshot b = chat_demo_snapshot" "\<not> ca_repository_busy ?s2"
    by (rule demo_frame [OF new(1) _ _ _ new(3,4)]) (use new(2) demo_at_start(2) in \<open>simp_all add: chat_demo_stored_def\<close>)
  let ?panel = "chat_demo_panel\<lparr>pn_persona := ca_persona ?s2\<rparr>"
  obtain k settings' where s3: "settings_frame chat_demo_env chat_demo_native chat_demo_switch 3 ?panel (Map.empty, ?s2)
      = (k, ?s2\<lparr>ca_remember := False, ca_storage := Some (chat_demo_stored\<lparr>as_db := chat_demo_bound, as_settings := settings'\<rparr>),
          ca_setup := fst (activate chat_demo_setup)\<rparr>)" (is "_ = (k, ?s3)")
    by (rule demo_activates [OF s2(1,2)]) simp
  have r3: "?R (k, ?s3)" using app_reachable.acted [OF r2, of "Settings chat_demo_switch 3 ?panel"] s3 by simp
  let ?s4 = "?s3\<lparr>ca_egress_approved := True\<rparr>"
  have "approve_egress True ?s3 = ?s4"
    using s2(3) by (simp add: approve_egress_def repository_advisor_def activate_def chat_demo_setup_def setup_new_def
        chat_demo_profile_def requires_api_key_def)
  then have r4: "?R (k, ?s4)" using app_reachable.acted [OF r3, of "Approve True"] by simp
  let ?s5 = "composer_frame chat_demo_env chat_demo_ids 4 ''hi'' [] False True ?s4"
  have "fresh_for chat_demo_ids ?s4" using s2(1) by (simp add: fresh_for_def chat_demo_ids_def demo_phase_def)
  then have r5: "?R (k, ?s5)"
    using app_reachable.acted [OF r4, of "Composer chat_demo_ids 4 ''hi'' [] False True"] by simp
  have p4: "demo_phase ?s4 (chat_demo_stored\<lparr>as_db := chat_demo_bound, as_settings := settings'\<rparr>)
      (conversation_new 13 2 DEFAULT_PROFILE_ID (Some 1) (Some 30))"
    using s2(1) by (simp add: demo_phase_def chat_demo_stored_def)
  show thesis
  proof (rule demo_asks [OF p4, of b])
    fix ag a
    assume asked: "TaskAgent ag \<in> set (ca_tasks ?s5)" "requires_api_key (bp_provider (ar_profile (ag_request ag)))" "ag_gateway ag \<noteq> None"
      "ca_active ?s5 = Some a" "at_turn_id a = 41" "conv_id (ca_conversation ?s5) = 40"
      "conv_repository_id (ca_conversation ?s5) = None" "ca_repository ?s5 \<noteq> None"
      and "?s5 = submit_chat chat_demo_env chat_demo_ids 4 (?s4\<lparr>ca_composer := ''hi''\<rparr>)" "ca_tasks ?s4 = []"
    then have "\<exists>s'. ?s5 = submit_chat chat_demo_env chat_demo_ids 4 s' \<and> ca_tasks s' = []"
      by (intro exI [of _ "?s4\<lparr>ca_composer := ''hi''\<rparr>"]) simp
    with that [OF r5] asked show thesis by blast
  qed (use s2(3-5) in simp_all)
qed

section \<open>What a question spawns\<close>

lemma prepare_trace_frame:
  assumes "prepare_trace ids now dt s = (s', r)"
  shows "ca_tasks s' = ca_tasks s"
proof (cases "dt_repository dt")
  case None
  then show ?thesis using assms by (simp add: prepare_trace_def)
next
  case (Some b)
  obtain t q where "store_op (OpPrepareTrace now (empty_trace ids b (dt_turn dt))) s = (t, q)" by fastforce
  moreover from this have "ca_tasks t = ca_tasks s" using store_op_fields(5) by (metis fst_conv)
  ultimately show ?thesis using assms Some by (cases q) (auto simp: prepare_trace_def fail_started_turn_def)
qed

lemma open_gate_frame:
  assumes "open_gate env ids now dt s = (s', r)"
  shows "ca_tasks s' = ca_tasks s"
proof -
  have "ca_tasks t = ca_tasks s" if "store_op op s = (t, q)" for op t q
    using that store_op_fields(5) by (metis fst_conv)
  with assms show ?thesis by (cases rule: open_gate_cases) (auto simp: fail_started_turn_def)
qed

lemma submit_turn_spawns:
  assumes "TaskAgent ag \<in> set (ca_tasks (submit_turn env ids now dt s))" and "TaskAgent ag \<notin> set (ca_tasks s)"
  obtains s2 s3 trace gate where "open_gate env ids now dt s2 = (s3, Some gate)" "ag = agent_start_of ids dt trace gate s3"
    "submit_turn env ids now dt s = start_turn ids dt trace gate s3"
proof -
  obtain s1 r1 where r1: "store_op (OpBegin \<lparr> ts_turn = dt_turn dt, ts_user_message = dt_user dt,
      ts_assistant_placeholder = dt_assistant dt \<rparr>) s = (s1, r1)" by fastforce
  then have t1: "ca_tasks s1 = ca_tasks s" using store_op_fields(5) by (metis fst_conv)
  obtain s2 r2 where r2: "prepare_trace ids now dt s1 = (s2, r2)" by fastforce
  obtain s3 r3 where r3: "open_gate env ids now dt s2 = (s3, r3)" by fastforce
  note ts = prepare_trace_frame [OF r2] open_gate_frame [OF r3] t1
  show thesis
  proof (cases "r1 = Inr () \<and> r2 \<noteq> None \<and> r3 \<noteq> None")
    case True
    then obtain trace gate where "r2 = Some trace" "r3 = Some gate" by blast
    then have u: "submit_turn env ids now dt s = start_turn ids dt trace gate s3"
      using True r1 r2 r3 by (simp add: submit_turn_def)
    then have "ag = agent_start_of ids dt trace gate s3" using assms ts by (simp add: start_turn_def spawn_task_def)
    with u show thesis using that r3 \<open>r3 = Some gate\<close> by simp
  next
    case False
    then have "ca_tasks (submit_turn env ids now dt s) = ca_tasks s"
      using r1 r2 r3 ts by (auto simp: submit_turn_def split: sum.split option.split)
    then show thesis using assms by simp
  qed
qed

definition consented :: "uuid \<Rightarrow> uuid \<Rightarrow> uuid \<Rightarrow> chat_app \<Rightarrow> bool" where
  "consented scope conv snap s \<longleftrightarrow> (case ca_storage s of None \<Rightarrow> False | Some st \<Rightarrow> list_ex
     (\<lambda>r. cr_id r = scope \<and> cr_conversation r = conv \<and> cr_snapshot r = snap \<and> cr_revoked_at r = None) (db_consents (as_db st)))"

lemma spawned_consent:
  assumes "open_gate env ids now dt s2 = (s3, Some gate)" and "requires_api_key (bp_provider (dt_profile dt))" "dt_repository dt = Some b"
  shows "consented (sb_scope ids) (conv_id (ca_conversation s3)) (snap_id (rb_snapshot b)) (start_turn ids dt trace gate s3)"
  using assms(1)
proof (cases rule: open_gate_cases)
  case (gated b' binding scope t)
  then have b: "b' = b" using assms(3) by simp
  from gated(4) obtain st d where "ca_storage t = Some st" "save_repository_consent_scope scope d = Inr (as_db st)"
    "ca_conversation t = ca_conversation s2"
    using gated(2) by (cases rule: store_op_cases [of s2 "OpSaveConsent scope"]) auto
  then show ?thesis
    using gated(3,5) b by (simp add: consented_def start_turn_def spawn_task_def save_consent_Inr consent_scope_of_def)
qed (use assms(2,3) in simp_all)

lemma submit_chat_spawns:
  assumes "TaskAgent ag \<in> set (ca_tasks (submit_chat env ids now s))" and "TaskAgent ag \<notin> set (ca_tasks s)"
  obtains profile question c s1 where "may_submit profile s"
    "submit_chat env ids now s = submit_turn env ids now (draft_turn_of env ids now profile question c s1) s1"
    "ca_tasks s1 = ca_tasks s" "repository_capable s1 = repository_capable s" "ca_repository s1 = ca_repository s"
proof -
  define s1 where "s1 = (if conv_messages (ca_conversation s) = [] \<and> ca_storage s \<noteq> None
    then ensure_durable_conversation (sb_conversation ids) now s else s)"
  have s1: "ca_tasks s1 = ca_tasks s" "repository_capable s1 = repository_capable s" "ca_repository s1 = ca_repository s"
    by (simp_all add: s1_def ensure_durable_conversation_def repository_capable_def repository_advisor_def
        split: option.split sum.split prod.split)
  show thesis
    using assms that s1 unfolding submit_chat_def Let_def s1_def [symmetric]
    by (auto split: if_splits option.splits sum.splits)
qed

section \<open>Properties\<close>

text \<open>
  C9: Started on any reachable database or on none, after any sequence of what the user can do, of frames with any
  results of the background tasks, and of database operations of these tasks, as long as no fresh id repeats that of
  a message on the screen: the database, when there is one, is reachable by the operations of the store and satisfies
  its invariant; and while a turn is active it can be cancelled, the window shows its text so far in a message that is
  still open, and its turn and answer are open in the database.
\<close>

theorem active_turn_is_open_everywhere:
  assumes "app_reachable env pl ss (k, s)"
  shows "(\<forall>st. ca_storage s = Some st \<longrightarrow> reachable (as_db st) \<and> db_inv (as_db st))
    \<and> (\<forall>a. ca_active s = Some a \<longrightarrow> ca_stream_cancel s \<noteq> None \<and> shows_open (conv_messages (ca_conversation s)) a
         \<and> (\<forall>st. ca_storage s = Some st \<longrightarrow> turn_open (as_db st) a))"
proof -
  have ok: "app_ok s" using reachable_app_ok [OF assms] by simp
  have "reachable d \<Longrightarrow> db_inv d" for d using reachable_ok by (simp add: db_inv_split)
  then show ?thesis using app_okD(1,3) [OF ok] by (simp add: active_ok_view)
qed

theorem active_turn_is_open_everywhere_witness:
  "\<exists>k s a. app_reachable chat_demo_env chat_demo_platform chat_demo_native (k, s) \<and> ca_active s = Some a
    \<and> ca_stream_cancel s \<noteq> None \<and> shows_open (conv_messages (ca_conversation s)) a"
proof -
  obtain k s a where r: "app_reachable chat_demo_env chat_demo_platform chat_demo_native (k, s)" "ca_active s = Some a"
    by (rule chat_run)
  then have "ca_stream_cancel s \<noteq> None" "shows_open (conv_messages (ca_conversation s)) a"
    using active_turn_is_open_everywhere [OF r(1)] by simp_all
  with r show ?thesis by blast
qed

text \<open>
  C10: In a state so reached, when the result of the active turn comes in, be it the event that it was cancelled or has
  failed or the outcome of its agent, no turn is active afterwards, its message on the screen is finished, and when
  there is a database it holds for this turn the text on the screen and its state with the error code. This is so for every
  outcome, also when the answer and its grounding cannot be stored together.
\<close>

theorem ended_turn_is_shown_as_stored:
  assumes "app_reachable env pl ss (k, s)" and "ca_active s = Some a" and "ends_turn s a r"
  shows "ca_active (handle_result pl now (r, ids) s) = None \<and> shown_as_stored (handle_result pl now (r, ids) s) a"
proof -
  have ok: "app_ok s" using reachable_app_ok [OF assms(1)] by simp
  show ?thesis
  proof (cases r)
    case (AgentEventSent conv turn event)
    then show ?thesis using event_shown [OF ok assms(2)] assms(2,3) by (simp add: handle_result_def ends_turn_def)
  next
    case (AgentFinished message outcome)
    then show ?thesis using outcome_shown [OF ok assms(2)] assms(2,3) by (simp add: handle_result_def ends_turn_def)
  qed (use assms(3) in \<open>simp_all add: ends_turn_def\<close>)
qed

theorem ended_turn_is_shown_as_stored_witness:
  "\<exists>k s a. app_reachable chat_demo_env chat_demo_platform chat_demo_native (k, s) \<and> ca_active s = Some a
    \<and> ends_turn s a (AgentEventSent 40 41 (EvCancelled (AdvisorPartialMarkdown ''par'')))
    \<and> shown_as_stored (handle_result chat_demo_platform 5
        (AgentEventSent 40 41 (EvCancelled (AdvisorPartialMarkdown ''par'')), chat_demo_poll) s) a"
proof -
  obtain k s a where r: "app_reachable chat_demo_env chat_demo_platform chat_demo_native (k, s)" "ca_active s = Some a"
    "at_turn_id a = 41" "conv_id (ca_conversation s) = 40"
    by (rule chat_run)
  have e: "ends_turn s a (AgentEventSent 40 41 (EvCancelled (AdvisorPartialMarkdown ''par'')))"
    using r(3,4) by (simp add: ends_turn_def)
  from ended_turn_is_shown_as_stored [OF r(1,2) e, where now = 5 and ids = chat_demo_poll] r e show ?thesis by blast
qed

text \<open>
  C11: Every agent that the application spawned on the way to such a state, for a provider with a key and with access to a
  repository, carries a trace to record under and a gate whose consent names the conversation, the repository
  and the snapshot of its request and was given without a time of revocation.
\<close>

theorem spawned_agents_are_gated:
  assumes "app_reachable env pl ss (k, s)" and "TaskAgent ag \<in> set (ca_tasks s)"
    and "requires_api_key (bp_provider (ar_profile (ag_request ag)))" and "ag_gateway ag \<noteq> None"
  shows "ag_trace ag \<noteq> None \<and> (\<exists>cap ctx. ag_gate ag = Some cap \<and> ar_repository_context (ag_request ag) = Some ctx
    \<and> cs_conversation_id (cap_scope cap) = ar_conversation_id (ag_request ag)
    \<and> cs_repository_id (cap_scope cap) = rc_repository_id ctx \<and> cs_snapshot_id (cap_scope cap) = rc_snapshot_id ctx
    \<and> cs_revoked_at (cap_scope cap) = None)"
proof -
  have ok: "app_ok s" using reachable_app_ok [OF assms(1)] by simp
  have "ag \<in> set (List.map_filter agent_of (ca_tasks s))" using assms(2) by (force simp: map_filter_def)
  then show ?thesis using app_okD(4) [OF ok] assms(3,4) unfolding gated_def by blast
qed

theorem spawned_agents_are_gated_witness:
  "\<exists>k s ag. app_reachable chat_demo_env chat_demo_platform chat_demo_native (k, s) \<and> TaskAgent ag \<in> set (ca_tasks s)
    \<and> ag_gateway ag \<noteq> None \<and> ag_trace ag \<noteq> None \<and> ag_gate ag \<noteq> None"
proof -
  obtain k s ag where r: "app_reachable chat_demo_env chat_demo_platform chat_demo_native (k, s)" "TaskAgent ag \<in> set (ca_tasks s)"
    "requires_api_key (bp_provider (ar_profile (ag_request ag)))" "ag_gateway ag \<noteq> None"
    by (rule chat_run)
  then show ?thesis using spawned_agents_are_gated [OF r] by blast
qed

text \<open>
  C12: When asking a question starts an agent for a provider with a key and with access to a repository, the user has
  allowed to send excerpts, the repository is the connected one, and the database then holds the consent for the
  conversation of the agent and the snapshot of this repository, not revoked.
\<close>

theorem cloud_questions_are_consented:
  assumes "TaskAgent ag \<in> set (ca_tasks (submit_chat env ids now s))" and "TaskAgent ag \<notin> set (ca_tasks s)"
    and "requires_api_key (bp_provider (ar_profile (ag_request ag)))" and "ag_gateway ag \<noteq> None"
  shows "ca_egress_approved s \<and> (\<exists>b. ca_repository s = Some b \<and> ag_gateway ag = Some (rb_gateway b)
    \<and> consented (sb_scope ids) (ar_conversation_id (ag_request ag)) (snap_id (rb_snapshot b)) (submit_chat env ids now s))"
proof -
  obtain profile question c s1 where s1: "may_submit profile s"
    "submit_chat env ids now s = submit_turn env ids now (draft_turn_of env ids now profile question c s1) s1"
    "ca_tasks s1 = ca_tasks s" "repository_capable s1 = repository_capable s" "ca_repository s1 = ca_repository s"
    by (rule submit_chat_spawns [OF assms(1,2)])
  let ?dt = "draft_turn_of env ids now profile question c s1"
  obtain s2 s3 trace gate where g: "open_gate env ids now ?dt s2 = (s3, Some gate)" "ag = agent_start_of ids ?dt trace gate s3"
    "submit_turn env ids now ?dt s1 = start_turn ids ?dt trace gate s3"
    by (rule submit_turn_spawns [OF assms(1,2) [folded s1(3), unfolded s1(2)]])
  have ag: "ar_profile (ag_request ag) = profile" "ag_gateway ag = map_option rb_gateway (dt_repository ?dt)"
    "ar_conversation_id (ag_request ag) = conv_id (ca_conversation s3)"
    by (simp_all add: g(2) agent_start_of_def build_agent_request_def draft_turn_of_def Let_def)
  then obtain b where b: "dt_repository ?dt = Some b" using assms(4) by auto
  then have cap: "repository_capable s" "ca_repository s = Some b"
    using s1(4,5) by (simp_all add: draft_turn_of_def Let_def split: if_splits)
  have key: "requires_api_key (bp_provider (dt_profile ?dt))" using assms(3) ag(1) by (simp add: draft_turn_of_def Let_def)
  from spawned_consent [OF g(1) key b, of trace] show ?thesis
    using s1(1,2) g(3) ag b cap assms(3) by (simp add: may_submit_def)
qed

theorem cloud_questions_are_consented_witness:
  "\<exists>s ag. TaskAgent ag \<in> set (ca_tasks (submit_chat chat_demo_env chat_demo_ids 4 s)) \<and> ag_gateway ag \<noteq> None
    \<and> ca_egress_approved s \<and> (\<exists>snap. consented 46 (ar_conversation_id (ag_request ag)) snap (submit_chat chat_demo_env chat_demo_ids 4 s))"
proof -
  obtain t s ag where "TaskAgent ag \<in> set (ca_tasks t)" "t = submit_chat chat_demo_env chat_demo_ids 4 s" "ca_tasks s = []"
    "requires_api_key (bp_provider (ar_profile (ag_request ag)))" "ag_gateway ag \<noteq> None"
    by (rule chat_run) blast
  then have r: "TaskAgent ag \<in> set (ca_tasks (submit_chat chat_demo_env chat_demo_ids 4 s))" "TaskAgent ag \<notin> set (ca_tasks s)"
    "requires_api_key (bp_provider (ar_profile (ag_request ag)))" "ag_gateway ag \<noteq> None"
    by simp_all
  have "sb_scope chat_demo_ids = 46" by (simp add: chat_demo_ids_def)
  then show ?thesis using cloud_questions_are_consented [OF r] r(1,4) by metis
qed

section \<open>Findings\<close>

text \<open>Nothing that a user can do selects an audit: the mode of a conversation is always the advisor.\<close>

lemma audit_is_never_chosen:
  assumes "app_reachable env pl ss (k, s)"
  shows "ca_mode s = ModeAdvisor"
  using reachable_app_ok [OF assms] app_okD(2) by simp

text \<open>The first question after connecting a repository is asked in a new conversation that is bound to no repository,
  while the repository is still connected.\<close>

lemma first_question_unbinds:
  "\<exists>k s. app_reachable chat_demo_env chat_demo_platform chat_demo_native (k, s) \<and> ca_active s \<noteq> None \<and> ca_repository s \<noteq> None
    \<and> conv_repository_id (ca_conversation s) = None"
proof -
  obtain k s a where "app_reachable chat_demo_env chat_demo_platform chat_demo_native (k, s)" "ca_active s = Some a"
    "conv_repository_id (ca_conversation s) = None" "ca_repository s \<noteq> None"
    by (rule chat_run)
  then show ?thesis by blast
qed

text \<open>The consent to send excerpts, given for one model, stays when another one is activated.\<close>

lemma activation_keeps_approval:
  "ca_egress_approved (snd (activate_clicked ss uuid_text now (k, s))) = ca_egress_approved s"
proof -
  obtain k' s' b where p: "persist_activation ss uuid_text now (k, s) = ((k', s'), b)" by (metis prod.exhaust_sel)
  have "ca_egress_approved (snd (fst (persist_activation ss uuid_text now (k, s)))) = ca_egress_approved s"
    by (simp add: persist_activation_def update_settings_def Let_def split: option.split sum.split prod.split)
  then show ?thesis using p by (cases b) (simp_all add: activate_clicked_def)
qed

end
