(* ===== verification/Spec2Isabelle.thy ===== *)
theory Spec2Isabelle
  imports Mentat_Prelude Unicode_Case Rust_Strings Core_Models Rust_Paths Path_Safety Redaction Digests
    Project_Detector Inference_Types Answer_Bundle Egress Consent Repository_Tools Agent_Loop
    Tool_Egress Tool_Egress_Gate Prompt_Composition Storage_Schema Grounding_Store Conversation_Store
    Storage_Runtime Storage_Invariant Turn_Life Storage_Contract Grounding_Contract
    Prompt_Store Prompt_History Profile_Store Credentials Provider_Setup Stream_Store
    Agent_Wire Provider_Stream Stream_Protocol Provider_Adapters Agent_Round
    Repository_Scan Watcher Semantic_Kernel
    Chat_State Chat_Turn Chat_Frame Chat_Invariant Chat_Contract Chat_Promises
begin

text \<open>
  Code Mentat is a desktop mentor for source repositories. It scans a repository on the user's
  machine, lets a language model ask questions about it through six read-only tools, and shows
  answers whose claims cite lines of the scanned files. Two promises carry the program: nothing
  leaves the machine that the user did not see and approve, and no statement is shown as verified
  whose evidence is not in the scanned text. This development models the code behind them.

  Parts and theories (source files are below \<open>src/crates/\<close>):

  \<^item> \<open>Core_Models\<close>: the records and enumerations of \<open>mentat-core\<close> (\<open>models.rs\<close>, \<open>error.rs\<close>).
  \<^item> \<open>Rust_Strings\<close>, \<open>Rust_Paths\<close>: what the code uses of Rust's strings and paths. A string
    is the list of its UTF-8 bytes; paths are Unix paths compared by components. \<open>Unicode_Case\<close> holds
    the tables of \<open>str::to_lowercase\<close>: the mapping and the two properties the final sigma rule needs, as of
    Unicode 16.0, which the standard library of Rust 1.88 (the version the README asks for) implements.
  \<^item> \<open>Path_Safety\<close>: \<open>open_beneath\<close> (\<open>mentat-repository/src/safe_file.rs\<close>) and the storage
    isolation of \<open>mentat-platform/src/lib.rs\<close>, over a file-system parameter.
  \<^item> \<open>Redaction\<close>: the secret filter of \<open>mentat-analysis/src/egress.rs\<close>: sensitive names, key
    patterns, assignments, private-key blocks and the entropy test.
  \<^item> \<open>Digests\<close>: length-framed fields and the hash parameter; \<open>Egress\<close>: assembly of the packet
    that is shown to the user, its canonical digest, the receipt and the approved request.
  \<^item> \<open>Consent\<close>: the generation counter that decides which assembled packet may be approved.
  \<^item> \<open>Answer_Bundle\<close>: extraction and validation of the structured answer of a model.
  \<^item> \<open>Project_Detector\<close>: languages, entry points and tests of a repository.
  \<^item> \<open>Inference_Types\<close>: backend profiles, catalogue, events and the default round of a backend.
  \<^item> \<open>Repository_Tools\<close>: the gateway that answers the model's tool calls from the snapshot.
  \<^item> \<open>Agent_Loop\<close>: the bounded loop of provider rounds and tool calls, and the audit check.
  \<^item> \<open>Tool_Egress\<close> (\<open>mentat-analysis/src/tool_egress.rs\<close>): provider bindings, the runtime consent
    and the sealing of tool results; \<open>Tool_Egress_Gate\<close> (\<open>mentat-app/src/tool_egress_gate.rs\<close>):
    one receipt per tool result is stored before a provider body may be sent.
  \<^item> \<open>Prompt_Composition\<close> (\<open>mentat-persona\<close>): personas, the factory catalogue, composition and
    parsing of the system prompt.
  \<^item> \<open>Storage_Schema\<close> (the tables and SQL statements of \<open>mentat-storage/src/db.rs\<close>),
    \<open>Grounding_Store\<close>, \<open>Conversation_Store\<close> (\<open>grounding_store.rs\<close>, \<open>conversation.rs\<close>) and
    \<open>Storage_Runtime\<close> (ownership and recovery at start, the operations as one datatype, the
    reachable databases). \<open>Storage_Invariant\<close> and \<open>Turn_Life\<close> prove the invariant operation by
    operation; \<open>Storage_Contract\<close> states what the store promises, with the abstract machine of
    turns it refines; \<open>Grounding_Contract\<close> is the round trip of a grounding trace.
  \<^item> \<open>Prompt_Store\<close> (\<open>mentat-storage/src/prompt_store.rs\<close>): prompt profiles with immutable
    content versions and revisions; \<open>Prompt_History\<close>: a profile refines the list of its sources, which
    only grows at the end.
  \<^item> \<open>Profile_Store\<close> (\<open>db.rs\<close>, \<open>secret_preferences.rs\<close>): recent repositories, backend profiles,
    snapshots and secret preferences; \<open>Credentials\<close>: API keys in the secret store of the operating
    system (\<open>mentat-platform\<close>, \<open>credential_state.rs\<close>, \<open>local_credentials.rs\<close> of \<open>mentat-app\<close>).
  \<^item> \<open>Provider_Setup\<close> (\<open>provider_setup.rs\<close>): from a draft profile to a verified and active one;
    \<open>Stream_Store\<close> (\<open>stream_store.rs\<close>): streamed answers are written to the database in batches.

  \<^item> \<open>Agent_Wire\<close>, \<open>Provider_Stream\<close>, \<open>Provider_Adapters\<close> (\<open>mentat-inference-openai\<close>): the JSON
    bodies and tool calls of the two protocols, the decoding of event streams, the HTTP requests and
    replies; \<open>Stream_Protocol\<close>: what the streams promise; \<open>Agent_Round\<close>: a provider round from its body
    over the egress gate to its events, on the database of receipts.
  \<^item> \<open>Repository_Scan\<close> (\<open>mentat-repository/src/scanner.rs\<close>, \<open>session.rs\<close>): the scan with its limits,
    sessions and reading lines; \<open>Watcher\<close> (\<open>watcher.rs\<close>): fingerprints, polling and the worker, step by
    step; \<open>Semantic_Kernel\<close> (\<open>semantic_kernel.rs\<close>, \<open>search.rs\<close>, \<open>evidence.rs\<close> of \<open>mentat-analysis\<close>): the local
    workflows over a \<open>RepositoryReadPort\<close>, and text search.
  \<^item> The chat application (\<open>mentat-app/src/chat_app.rs\<close>), which brings the other parts together. \<open>Chat_State\<close>:
    its state and smaller operations; \<open>Chat_Turn\<close>: \<open>submit_chat\<close>, the agent events, the outcome and
    \<open>poll_async\<close>; \<open>Chat_Frame\<close>: the start, a frame of the window and the panels, a panel being the record of
    what the user did in it. \<open>Chat_Invariant\<close> proves one invariant over the window and the database operation by
    operation. \<open>Chat_Contract\<close> defines the runs, \<open>app_reachable\<close>: a start on any reachable database, then
    user actions and frames in any order, interleaved with the database operations of background tasks.
    \<open>Chat_Promises\<close> states what holds in them, with one run from an empty database as the witness.

  Each state is a record with the source's fields and each method one definition that returns the
  updated state; an error is \<open>Inl\<close> of the error and success \<open>Inr\<close>. Interfaces are locales: the
  loop sees the tools through \<open>grounded_executor\<close>, the clients of the gateway through
  \<open>tool_executor\<close>, both interpreted on the gateway's own model, the egress gate sees the database
  through \<open>receipt_store\<close> and the stream worker through \<open>delta_sink\<close>, both interpreted on the
  tables. A stream reader has the laws \<open>sse_events\<close>, \<open>sse_text\<close> and \<open>sse_protocol\<close>, interpreted on the
  readers of the adapters, and a provider round sees the gate through \<open>egress_gate\<close>. The semantic kernel
  reads through \<open>repository_reader\<close>, interpreted on the port of a session.

  Parameters. SHA-256, JSON text and parsing, URL parsing, the text of UUIDs, fresh identifiers,
  clocks, file reads, cancellation polls, provider streams, two-decimal float output and the order
  of a hash map are arguments of the definitions that use them. Statements about digests say
  \<open>collision sha x y\<close> where the code relies on collision resistance.

  Storage. A table is a list of rows in insertion order; a failed transaction leaves the database
  unchanged; UUID, date and JSON columns hold their values and the columns the code encodes itself
  hold text. Disk and engine failures are not branches of their own, and test-only crash points are
  left out.

  Conventions. \<open>usize\<close> is \<open>nat\<close>; integers whose wrap-around or saturation can matter are words.
  Display texts of errors are omitted and their codes kept. Entropy is the real number the \<open>f64\<close>
  computation approximates. Lower-casing is that of Unicode 16.0, with the rule for a sigma at the end
  of a word. Loops recurse on their data or have a termination proof; the provider loop is
  bounded by the request's own round limit, and a provider stream is the list of its reads, so no
  fuel is used anywhere.

  Not modelled: the drawing of the user interface, its widgets, theme, fonts and status texts; \<open>main.rs\<close>, the
  global shortcuts and \<open>app.rs\<close>, which nothing reaches; the HTTP library; opening, migrating and
  quarantining the database file; the llama stub and the fake backend; the smoke harness and the build tool.
\<close>

end
